(* ===== verification/FN_Prelude.thy ===== *)
theory FN_Prelude
  imports Main "HOL-Library.Word" "HOL-Library.Monad_Syntax"
begin

unbundle bit_operations_syntax

text \<open>
  The prelude of the development: the C types of the 32-bit ABI the app is built for
  (\<open>listener/build.gradle\<close>, \<open>abiFilters "x86", "armeabi", "armeabi-v7a"\<close>), memory
  accesses that can fail, and the lemmas on words, lists and bytes that the component
  theories share.

  A value of type \<open>'a option\<close> in a model function is \<open>None\<close> exactly where the C code
  would access memory outside the object it was given (undefined behaviour).
\<close>

section \<open>C types\<close>

type_synonym u8 = "8 word"
type_synonym u16 = "16 word"
type_synonym u32 = "32 word"
type_synonym u64 = "64 word"

text \<open>\<open>oscl_wchar\<close> is \<open>wchar_t\<close> (\<open>osclconfig_unix_android.h\<close>), 32 bits wide and, on ARM, unsigned.\<close>
type_synonym wchar = "32 word"

text \<open>A string literal as the bytes of its characters, without the terminating zero.\<close>

definition lit :: "string \<Rightarrow> u8 list" where
  "lit s = List.map (\<lambda>c. of_char c) s"

lemma lit_Nil [simp]: "lit [] = []" by (simp add: lit_def)
lemma lit_Cons [simp]: "lit (c # s) = of_char c # lit s" by (simp add: lit_def)
lemma length_lit [simp]: "length (lit s) = length s" by (simp add: lit_def)

text \<open>A table of \<open>unsigned short\<close>, written with its values as numbers.\<close>

definition u16s :: "nat list \<Rightarrow> u16 list" where
  "u16s ns = List.map word_of_nat ns"

lemma length_u16s [simp]: "length (u16s ns) = length ns" by (simp add: u16s_def)

lemma nth_u16s: "i < length ns \<Longrightarrow> u16s ns ! i = word_of_nat (ns ! i)" by (simp add: u16s_def)

lemma list_all_u16s:
  "list_all (\<lambda>n. n < 65536 \<and> P n) ns \<Longrightarrow> list_all (\<lambda>x. P (unat x)) (u16s ns)"
  by (auto simp: u16s_def list_all_iff unsigned_of_nat take_bit_nat_eq_self)

section \<open>Memory accesses\<close>

definition rd :: "'a list \<Rightarrow> nat \<Rightarrow> 'a option" where
  "rd xs i = (if i < length xs then Some (xs ! i) else None)"

definition wr :: "'a list \<Rightarrow> nat \<Rightarrow> 'a \<Rightarrow> 'a list option" where
  "wr xs i v = (if i < length xs then Some (xs[i := v]) else None)"

text \<open>\<open>patch xs i ys\<close>: the buffer \<open>xs\<close> after the bytes \<open>ys\<close> have been stored from index \<open>i\<close> on.\<close>

definition patch :: "'a list \<Rightarrow> nat \<Rightarrow> 'a list \<Rightarrow> 'a list" where
  "patch xs i ys = take i xs @ ys @ drop (i + length ys) xs"

named_theorems mem_simps "reads and writes inside the object"

lemma rd_Some [mem_simps]: "i < length xs \<Longrightarrow> rd xs i = Some (xs ! i)"
  by (simp add: rd_def)

lemma rd_None_iff: "rd xs i = None \<longleftrightarrow> length xs \<le> i"
  by (simp add: rd_def)

lemma rd_eq_Some_iff: "rd xs i = Some v \<longleftrightarrow> i < length xs \<and> xs ! i = v"
  by (auto simp: rd_def)

lemma rd_0_append [simp]: "xs \<noteq> [] \<Longrightarrow> rd (xs @ ys) 0 = Some (hd xs)"
  by (cases xs) (simp_all add: rd_def)

lemma rd_Cons_simps [simp]: "rd (x # xs) 0 = Some x" "rd (x # xs) (Suc n) = rd xs n"
  by (simp_all add: rd_def)

lemma wr_Some [mem_simps]: "i < length xs \<Longrightarrow> wr xs i v = Some (patch xs i [v])"
  by (simp add: wr_def patch_def upd_conv_take_nth_drop)

lemma length_patch [simp]: "i + length ys \<le> length xs \<Longrightarrow> length (patch xs i ys) = length xs"
  by (simp add: patch_def)

lemma patch_Nil [simp]: "patch xs i [] = xs"
  by (simp add: patch_def)

lemma patch_patch [mem_simps]:
  "i + length ys + length zs \<le> length xs \<Longrightarrow> j = i + length ys \<Longrightarrow>
   patch (patch xs i ys) j zs = patch xs i (ys @ zs)"
  by (simp add: patch_def add.assoc add.commute add.left_commute)

lemma take_patch [simp]: "i \<le> length xs \<Longrightarrow> take i (patch xs i ys) = take i xs"
  by (simp add: patch_def)

lemma drop_patch:
  "i + length ys \<le> n \<Longrightarrow> i \<le> length xs \<Longrightarrow> drop n (patch xs i ys) = drop n xs"
  by (simp add: patch_def)

lemma nth_patch:
  "i + length ys \<le> length xs \<Longrightarrow> k < length xs \<Longrightarrow>
   patch xs i ys ! k = (if i \<le> k \<and> k < i + length ys then ys ! (k - i) else xs ! k)"
  by (auto simp: patch_def nth_append min_def)

section \<open>Words\<close>

text \<open>A property of a byte holds when it holds of the 256 bytes, which \<open>code_simp\<close> can evaluate.\<close>

lemma byte_exhaust:
  fixes x :: u8
  assumes "list_all (\<lambda>n. P (word_of_nat n)) [0..<256]"
  shows "P x"
proof -
  have "unat x < 256" using unsigned_less [of x] by simp
  moreover have "\<forall>n\<in>set [0..<256]. P (word_of_nat n)" using assms by (simp only: list_all_iff)
  ultimately have "P (word_of_nat (unat x))" by (metis atLeastLessThan_iff le0 set_upt)
  then show ?thesis by simp
qed

text \<open>Masks, shifts and disjoint ors read as arithmetic on \<open>nat\<close>.\<close>

named_theorems unat_simps "bit operations on words as nat arithmetic"

lemma unat_and_mask [unat_simps]: "unat ((x :: 'a::len word) AND mask k) = unat x mod 2 ^ k"
  by (metis take_bit_eq_mask take_bit_eq_mod unsigned_take_bit_eq)

lemma unat_drop_bit_div [unat_simps]: "unat (drop_bit k (x :: 'a::len word)) = unat x div 2 ^ k"
  by (metis drop_bit_eq_div unat_drop_bit_eq)

lemma unat_push_bit_small [unat_simps]:
  fixes x :: "'a::len word"
  assumes "unat x * 2 ^ k < 2 ^ LENGTH('a)"
  shows "unat (push_bit k x) = unat x * 2 ^ k"
  using assms by (metis push_bit_eq_mult take_bit_nat_eq_self unsigned_push_bit_eq)

lemma nat_bits_above:
  "(a :: nat) < 2 ^ k \<Longrightarrow> k \<le> n \<Longrightarrow> \<not> bit a n"
  by (metis bit_take_bit_iff linorder_not_less take_bit_nat_eq_self)

lemma nat_bits_below: "2 ^ k dvd (m :: nat) \<Longrightarrow> n < k \<Longrightarrow> \<not> bit m n"
  by (metis bit_push_bit_iff dvd_def linorder_not_less mult.commute push_bit_eq_mult)

lemma unat_or_plus:
  fixes a b :: "'a::len word"
  assumes "unat a < 2 ^ k" and "2 ^ k dvd unat b"
  shows "unat (b OR a) = unat b + unat a"
proof -
  have "\<not> bit (unat b) n \<or> \<not> bit (unat a) n" for n
    using nat_bits_above [OF assms(1)] nat_bits_below [OF assms(2)] by (cases "n < k") auto
  then show ?thesis by (simp add: disjunctive_add unsigned_or_eq)
qed

lemma unat_or_plus':
  fixes a b :: "'a::len word"
  assumes "unat a < 2 ^ k" and "2 ^ k dvd unat b"
  shows "unat (a OR b) = unat b + unat a"
  using unat_or_plus [OF assms] by (simp add: or.commute)

lemma unat_ucast_small: "unat x < 2 ^ LENGTH('b) \<Longrightarrow> unat (ucast (x :: 'a::len word) :: 'b::len word) = unat x"
  by (simp add: unsigned_ucast_eq take_bit_nat_eq_self)

lemma unat_ucast_mod: "unat (ucast (x :: 'a::len word) :: 'b::len word) = unat x mod 2 ^ LENGTH('b)"
  by (simp add: unsigned_ucast_eq take_bit_eq_mod)

lemma unat_of_nat_small: "n < 2 ^ LENGTH('a) \<Longrightarrow> unat (word_of_nat n :: 'a::len word) = n"
  by (simp add: unsigned_of_nat take_bit_nat_eq_self)

lemma unat_inc_less: "c < n \<Longrightarrow> unat (c + 1 :: 'a::len word) = unat c + 1"
proof -
  assume "c < n"
  then have "unat c < unat n" by (simp add: word_less_nat_alt)
  moreover have "unat n < 2 ^ LENGTH('a)" by (rule unsigned_less)
  ultimately have "unat c + 1 < 2 ^ LENGTH('a)" by linarith
  then show ?thesis by (simp add: unat_word_ariths)
qed

lemma unat_byte_bound: "unat (x :: u8) < 256"
  using unsigned_less [of x, where 'a = nat] by simp

lemma unat_byte_less [simp]: "256 \<le> n \<Longrightarrow> unat (x :: u8) < n"
  using unat_byte_bound [of x] by linarith

lemma unat_byte_le [simp]: "255 \<le> n \<Longrightarrow> unat (x :: u8) \<le> n"
  using unat_byte_bound [of x] by linarith

lemma unat_ucast_byte [simp]:
  "unat (ucast (x :: u8) :: u16) = unat x" "unat (ucast (x :: u8) :: u32) = unat x"
  "unat (ucast (x :: u8) :: u64) = unat x"
  by (simp_all add: unat_ucast_small)

text \<open>The masks the code uses, as \<open>mask\<close> values.\<close>

lemma mask_values:
  "(0x03 :: 'a::len word) = mask 2" "(0x07 :: 'a word) = mask 3" "(0x0f :: 'a word) = mask 4"
  "(0x1f :: 'a word) = mask 5" "(0x3f :: 'a word) = mask 6" "(0x7f :: 'a word) = mask 7"
  "(0xff :: 'a word) = mask 8" "(0x3ff :: 'a word) = mask 10" "(0xffff :: 'a word) = mask 16"
  by (simp_all add: mask_eq_exp_minus_1)

lemma unat_and_masks [unat_simps]:
  fixes x :: "'a::len word"
  shows "unat (x AND 0x03) = unat x mod 4" "unat (x AND 0x07) = unat x mod 8"
    "unat (x AND 0x0f) = unat x mod 16" "unat (x AND 0x1f) = unat x mod 32"
    "unat (x AND 0x3f) = unat x mod 64" "unat (x AND 0x7f) = unat x mod 128"
    "unat (x AND 0xff) = unat x mod 256" "unat (x AND 0x3ff) = unat x mod 1024"
    "unat (x AND 0xffff) = unat x mod 65536"
  by (simp_all only: mask_values unat_and_mask) simp_all

text \<open>Numbers cut into groups of six bits.\<close>

lemma sextets:
  assumes "y < 64" "z < (64 :: nat)"
  shows "(x * 4096 + y * 64 + z) div 4096 = x" "(x * 4096 + y * 64 + z) div 64 mod 64 = y"
    "(x * 4096 + y * 64 + z) mod 64 = (z :: nat)" "(y * 64 + z) div 64 = y" "(y * 64 + z) mod 64 = z"
proof -
  have *: "x * 4096 + y * 64 + z = 64 * (64 * x + y) + z" by simp
  have d: "(x * 4096 + y * 64 + z) div 64 = 64 * x + y" unfolding * using assms(2) by simp
  then have "(x * 4096 + y * 64 + z) div 64 div 64 = x" using assms(1) by simp
  then show "(x * 4096 + y * 64 + z) div 4096 = x" by (simp add: div_mult2_eq [symmetric])
  show "(x * 4096 + y * 64 + z) div 64 mod 64 = y" using d assms(1) by simp
  show "(x * 4096 + y * 64 + z) mod 64 = z" unfolding * mod_mult_self4 using assms(2) by simp
qed (use assms in simp_all)

lemma sextets_join:
  "n div 64 * 64 + n mod 64 = (n :: nat)"
  "n div 4096 * 4096 + n div 64 mod 64 * 64 + n mod 64 = n"
  "n div 262144 * 262144 + n div 4096 mod 64 * 4096 + n div 64 mod 64 * 64 + n mod 64 = n"
proof -
  show 1: "n div 64 * 64 + n mod 64 = n" for n :: nat by simp
  have d: "n div 4096 = n div 64 div 64" "n div 262144 = n div 64 div 64 div 64"
    by (simp_all add: div_mult2_eq [symmetric])
  show 2: "n div 4096 * 4096 + n div 64 mod 64 * 64 + n mod 64 = n"
    using 1 [of n] 1 [of "n div 64"] unfolding d by linarith
  show "n div 262144 * 262144 + n div 4096 mod 64 * 4096 + n div 64 mod 64 * 64 + n mod 64 = n"
    using 1 [of n] 1 [of "n div 64"] 1 [of "n div 64 div 64"] unfolding d by linarith
qed

end
