(* ===== verification/Utf8Conv.thy ===== *)
theory Utf8Conv
  imports FN_Prelude
begin

unbundle bit_operations_syntax

text \<open>
  \<open>oscl_config/oscl_utf8conv.cpp\<close>: the conversions between wide strings and UTF-8 that carry
  the file name to the file server and the UTF-16 tags to the client. The loops are written over
  the source buffer, the destination buffer and the two indices of the C code; every read and
  write goes through \<open>rd\<close>/\<open>wr\<close>, so a result \<open>Some\<close> says that no access left its buffer.
\<close>

section \<open>oscl_UnicodeToUTF8\<close>

function unicode_to_utf8_loop ::
  "wchar list \<Rightarrow> nat \<Rightarrow> nat \<Rightarrow> nat \<Rightarrow> nat \<Rightarrow> u8 list \<Rightarrow> (int \<times> u8 list) option" where
  "unicode_to_utf8_loop src nSrc nDest i j dest =
    (if i < nSrc then do {
       c \<leftarrow> rd src i;
       if c < 0x80 then
         (if j + 1 < nDest then do {
            d1 \<leftarrow> wr dest j (ucast c);
            unicode_to_utf8_loop src nSrc nDest (i + 1) (j + 1) d1 }
          else do { d1 \<leftarrow> wr dest j 0; Some (0, d1) })
       else if c < 0x800 then
         (if j + 2 < nDest then do {
            d1 \<leftarrow> wr dest j (ucast (drop_bit 6 c OR 0xc0));
            d2 \<leftarrow> wr d1 (j + 1) (ucast ((c AND 0x3f) OR 0x80));
            unicode_to_utf8_loop src nSrc nDest (i + 1) (j + 2) d2 }
          else do { d1 \<leftarrow> wr dest j 0; Some (0, d1) })
       else if c < 0xdfff \<and> 0xd800 < c then
         (if j + 4 < nDest then
            (let t = (ucast (drop_bit 6 (c AND 0x3c0) + 1) :: u8) in do {
               d1 \<leftarrow> wr dest j (drop_bit 2 t OR 0xf0);
               d2 \<leftarrow> wr d1 (j + 1)
                      (ucast ((((ucast t AND 0x03) OR 0x80) :: wchar) OR drop_bit 2 (c AND 0x3e)));
               unicode_to_utf8_loop src nSrc nDest (i + 1) (j + 2) d2 })
          else do { d1 \<leftarrow> wr dest j 0; Some (0, d1) })
       else
         (if j + 3 < nDest then do {
            d1 \<leftarrow> wr dest j (ucast (drop_bit 12 c OR 0xe0));
            d2 \<leftarrow> wr d1 (j + 1) (ucast ((drop_bit 6 c AND 0x3f) OR 0x80));
            d3 \<leftarrow> wr d2 (j + 2) (ucast ((c AND 0x3f) OR 0x80));
            unicode_to_utf8_loop src nSrc nDest (i + 1) (j + 3) d3 }
          else do { d1 \<leftarrow> wr dest j 0; Some (0, d1) }) }
     else do { d1 \<leftarrow> wr dest j 0; Some (int j, d1) })"
  by pat_completeness auto
termination
  by (relation "measure (\<lambda>(src, nSrc, nDest, i, j, dest). nSrc - i)") auto

declare unicode_to_utf8_loop.simps [simp del]

definition oscl_UnicodeToUTF8 ::
  "wchar list \<Rightarrow> int \<Rightarrow> u8 list \<Rightarrow> int \<Rightarrow> (int \<times> u8 list) option" where
  "oscl_UnicodeToUTF8 szSrc nSrcLen strDest nDestLen =
    (if nDestLen \<le> 0 then Some (0, strDest)
     else unicode_to_utf8_loop szSrc (nat nSrcLen) (nat nDestLen) 0 0 strDest)"

section \<open>oscl_UTF8ToUnicode\<close>

function utf8_to_unicode_loop ::
  "u8 list \<Rightarrow> nat \<Rightarrow> nat \<Rightarrow> nat \<Rightarrow> nat \<Rightarrow> wchar list \<Rightarrow> (int \<times> wchar list) option" where
  "utf8_to_unicode_loop src nSrc nDest i j dest =
    (if i < nSrc then do {
       a \<leftarrow> rd src i;
       if 0xe0 \<le> a then
         (if i + 2 < nSrc \<and> j + 1 < nDest then do {
            b \<leftarrow> rd src (i + 1);
            c \<leftarrow> rd src (i + 2);
            d1 \<leftarrow> wr dest j (push_bit 12 (ucast a) OR push_bit 6 (ucast b AND 0x3f) OR (ucast c AND 0x3f));
            utf8_to_unicode_loop src nSrc nDest (i + 3) (j + 1) d1 }
          else do { d1 \<leftarrow> wr dest j 0; Some (0, d1) })
       else if 0xc0 \<le> a then
         (if i + 1 < nSrc \<and> j + 1 < nDest then do {
            b \<leftarrow> rd src (i + 1);
            d1 \<leftarrow> wr dest j (push_bit 6 (ucast a AND NOT 0xc0) OR (ucast b AND NOT 0x80));
            utf8_to_unicode_loop src nSrc nDest (i + 2) (j + 1) d1 }
          else do { d1 \<leftarrow> wr dest j 0; Some (0, d1) })
       else
         (if i < nSrc \<and> j + 1 < nDest then do {
            d1 \<leftarrow> wr dest j (ucast a);
            utf8_to_unicode_loop src nSrc nDest (i + 1) (j + 1) d1 }
          else do { d1 \<leftarrow> wr dest j 0; Some (0, d1) }) }
     else do { d1 \<leftarrow> wr dest j 0; Some (int j, d1) })"
  by pat_completeness auto
termination
  by (relation "measure (\<lambda>(src, nSrc, nDest, i, j, dest). nSrc - i)") auto

declare utf8_to_unicode_loop.simps [simp del]

definition oscl_UTF8ToUnicode ::
  "u8 list \<Rightarrow> int \<Rightarrow> wchar list \<Rightarrow> int \<Rightarrow> (int \<times> wchar list) option" where
  "oscl_UTF8ToUnicode szSrc nSrcLen strDest nDestLen =
    (if nDestLen \<le> 0 then Some (0, strDest)
     else utf8_to_unicode_loop szSrc (nat nSrcLen) (nat nDestLen) 0 0 strDest)"

section \<open>What one unit becomes\<close>

text \<open>The bytes stored for one wide character, and the room the code asks for before storing them.\<close>

definition utf8_unit :: "wchar \<Rightarrow> u8 list" where
  "utf8_unit c =
    (if c < 0x80 then [ucast c]
     else if c < 0x800 then [ucast (drop_bit 6 c OR 0xc0), ucast ((c AND 0x3f) OR 0x80)]
     else if c < 0xdfff \<and> 0xd800 < c then
       (let t = (ucast (drop_bit 6 (c AND 0x3c0) + 1) :: u8) in
        [drop_bit 2 t OR 0xf0,
         ucast ((((ucast t AND 0x03) OR 0x80) :: wchar) OR drop_bit 2 (c AND 0x3e))])
     else [ucast (drop_bit 12 c OR 0xe0), ucast ((drop_bit 6 c AND 0x3f) OR 0x80),
           ucast ((c AND 0x3f) OR 0x80)])"

definition utf8_room :: "wchar \<Rightarrow> nat" where
  "utf8_room c = (if c < 0x80 then 1 else if c < 0x800 then 2
                  else if c < 0xdfff \<and> 0xd800 < c then 4 else 3)"

text \<open>The whole conversion from index \<open>j\<close> on: whether everything fitted, and the bytes stored.\<close>

fun utf8_fit :: "nat \<Rightarrow> nat \<Rightarrow> wchar list \<Rightarrow> bool \<times> u8 list" where
  "utf8_fit nDest j [] = (True, [])"
| "utf8_fit nDest j (c # cs) =
    (if j + utf8_room c < nDest then
       (let (ok, bs) = utf8_fit nDest (j + length (utf8_unit c)) cs in (ok, utf8_unit c @ bs))
     else (False, []))"

lemma utf8_unit_length: "length (utf8_unit c) \<le> utf8_room c" "0 < length (utf8_unit c)"
  by (auto simp: utf8_unit_def utf8_room_def Let_def)

lemma unicode_to_utf8_step:
  assumes "i < nSrc" "nSrc \<le> length src" "j < nDest" "nDest \<le> length dest"
  shows "unicode_to_utf8_loop src nSrc nDest i j dest =
    (if j + utf8_room (src ! i) < nDest then
       unicode_to_utf8_loop src nSrc nDest (i + 1) (j + length (utf8_unit (src ! i)))
         (patch dest j (utf8_unit (src ! i)))
     else Some (0, patch dest j [0]))"
  using assms
  by (subst unicode_to_utf8_loop.simps) (simp add: mem_simps utf8_unit_def utf8_room_def Let_def numeral_3_eq_3)

lemma unicode_to_utf8_end:
  "\<not> i < nSrc \<Longrightarrow> j < nDest \<Longrightarrow> nDest \<le> length dest \<Longrightarrow>
   unicode_to_utf8_loop src nSrc nDest i j dest = Some (int j, patch dest j [0])"
  by (subst unicode_to_utf8_loop.simps) (simp add: mem_simps)

lemma utf8_fit_bound:
  "j < nDest \<Longrightarrow> utf8_fit nDest j cs = (ok, bs) \<Longrightarrow> j + length bs < nDest"
proof (induction cs arbitrary: j ok bs)
  case (Cons c cs)
  show ?case
  proof (cases "j + utf8_room c < nDest")
    case True
    then have j: "j + length (utf8_unit c) < nDest" using utf8_unit_length(1) [of c] by linarith
    obtain ok' bs' where rec: "utf8_fit nDest (j + length (utf8_unit c)) cs = (ok', bs')" by fastforce
    moreover from this have "bs = utf8_unit c @ bs'" using Cons.prems(2) True by simp
    ultimately show ?thesis using Cons.IH [OF j rec] by simp
  qed (use Cons.prems in auto)
qed simp

lemma unicode_to_utf8_loop_fit:
  assumes "nSrc \<le> length src" "j < nDest" "nDest \<le> length dest"
    and "utf8_fit nDest j (drop i (take nSrc src)) = (ok, bs)"
  shows "unicode_to_utf8_loop src nSrc nDest i j dest =
    Some (if ok then int (j + length bs) else 0, patch dest j (bs @ [0]))"
  using assms
proof (induction "nSrc - i" arbitrary: i j dest ok bs)
  case 0
  then show ?case by (simp add: unicode_to_utf8_end)
next
  case (Suc n)
  let ?c = "src ! i"
  have i: "i < nSrc" using Suc.hyps(2) by simp
  have drop: "drop i (take nSrc src) = ?c # drop (Suc i) (take nSrc src)"
    using i Suc.prems(1) by (metis Cons_nth_drop_Suc length_take min.absorb2 nth_take)
  note step = unicode_to_utf8_step [OF i Suc.prems(1,2,3)]
  show ?case
  proof (cases "j + utf8_room ?c < nDest")
    case True
    obtain ok' bs' where rec: "utf8_fit nDest (j + length (utf8_unit ?c)) (drop (Suc i) (take nSrc src)) = (ok', bs')"
      by fastforce
    have eq: "ok' = ok" "bs = utf8_unit ?c @ bs'" using Suc.prems(4) True rec by (simp_all add: drop)
    have room: "j + length (utf8_unit ?c) < nDest" using True utf8_unit_length(1) [of ?c] by linarith
    have bound: "j + length (utf8_unit ?c) + length bs' < nDest"
      by (rule utf8_fit_bound [OF room rec])
    have "unicode_to_utf8_loop src nSrc nDest (Suc i) (j + length (utf8_unit ?c)) (patch dest j (utf8_unit ?c)) =
      Some (if ok' then int (j + length (utf8_unit ?c) + length bs') else 0,
            patch (patch dest j (utf8_unit ?c)) (j + length (utf8_unit ?c)) (bs' @ [0]))"
      using Suc.hyps(1) [of "Suc i"] Suc.hyps(2) Suc.prems(1,3) room rec by simp
    moreover have "patch (patch dest j (utf8_unit ?c)) (j + length (utf8_unit ?c)) (bs' @ [0]) =
      patch dest j (utf8_unit ?c @ bs' @ [0])"
      using bound Suc.prems(3) by (intro patch_patch) simp_all
    ultimately show ?thesis using True by (simp add: step eq)
  next
    case False
    then show ?thesis using Suc.prems(4) by (simp add: step drop)
  qed
qed

section \<open>What a byte string becomes\<close>

text \<open>The wide character stored for a lead byte \<open>0xe0..\<close>, \<open>0xc0..\<close> with its following bytes.\<close>

definition wide3 :: "u8 \<Rightarrow> u8 \<Rightarrow> u8 \<Rightarrow> wchar" where
  "wide3 a b c = push_bit 12 (ucast a) OR push_bit 6 (ucast b AND 0x3f) OR (ucast c AND 0x3f)"

definition wide2 :: "u8 \<Rightarrow> u8 \<Rightarrow> wchar" where
  "wide2 a b = push_bit 6 (ucast a AND NOT 0xc0) OR (ucast b AND NOT 0x80)"

text \<open>The next wide character of a byte string and the rest; \<open>None\<close> where the string ends inside a unit.\<close>

fun wide_next :: "u8 list \<Rightarrow> (wchar \<times> nat) option" where
  "wide_next [] = None"
| "wide_next (a # s) =
    (if 0xe0 \<le> a then (case s of b # c # s' \<Rightarrow> Some (wide3 a b c, 3) | _ \<Rightarrow> None)
     else if 0xc0 \<le> a then (case s of b # s' \<Rightarrow> Some (wide2 a b, 2) | [] \<Rightarrow> None)
     else Some (ucast a, 1))"

lemma wide_next_len: "wide_next s = Some (w, k) \<Longrightarrow> 0 < k \<and> k \<le> length s \<and> k \<le> 3"
  by (cases s) (auto split: if_splits list.splits)

function wide_fit :: "nat \<Rightarrow> nat \<Rightarrow> u8 list \<Rightarrow> bool \<times> wchar list" where
  "wide_fit nDest j s =
    (if s = [] then (True, [])
     else case wide_next s of
        None \<Rightarrow> (False, [])
      | Some (w, k) \<Rightarrow>
          if j + 1 < nDest \<and> 0 < k then
            (let (ok, ws) = wide_fit nDest (j + 1) (drop k s) in (ok, w # ws))
          else (False, []))"
  by pat_completeness auto
termination by (relation "measure (\<lambda>(nDest, j, s). length s)") auto

declare wide_fit.simps [simp del]

lemma wide_fit_Nil [simp]: "wide_fit nDest j [] = (True, [])"
  by (subst wide_fit.simps) simp

lemma wide_fit_next:
  "s \<noteq> [] \<Longrightarrow> wide_fit nDest j s = (case wide_next s of None \<Rightarrow> (False, [])
      | Some (w, k) \<Rightarrow> if j + 1 < nDest then (case wide_fit nDest (j + 1) (drop k s) of (ok, ws) \<Rightarrow> (ok, w # ws))
                     else (False, []))"
  by (subst wide_fit.simps) (auto dest: wide_next_len split: option.splits)

lemma wide_fit_bound:
  "j < nDest \<Longrightarrow> wide_fit nDest j s = (ok, ws) \<Longrightarrow> j + length ws < nDest \<and> length ws \<le> length s"
proof (induction "length s" arbitrary: j s ok ws rule: less_induct)
  case less
  show ?case
  proof (cases "s = []")
    case False
    note nxt = wide_fit_next [OF False, of nDest j]
    show ?thesis
    proof (cases "wide_next s")
      case (Some p)
      obtain w k where p: "p = (w, k)" by fastforce
      note k = wide_next_len [OF Some [unfolded p]]
      show ?thesis
      proof (cases "j + 1 < nDest")
        case True
        obtain ok' ws' where rec: "wide_fit nDest (j + 1) (drop k s) = (ok', ws')" by fastforce
        have "j + 1 + length ws' < nDest \<and> length ws' \<le> length (drop k s)"
          using less.hyps [OF _ True rec] k False by simp
        moreover have "ws = w # ws'" using less.prems(2) nxt Some p rec True by simp
        ultimately show ?thesis using k by auto
      qed (use nxt Some p less.prems in auto)
    qed (use nxt less.prems in auto)
  qed (use less.prems in auto)
qed

lemma utf8_to_unicode_end:
  "\<not> i < nSrc \<Longrightarrow> j < nDest \<Longrightarrow> nDest \<le> length dest \<Longrightarrow>
   utf8_to_unicode_loop src nSrc nDest i j dest = Some (int j, patch dest j [0])"
  by (subst utf8_to_unicode_loop.simps) (simp add: mem_simps)

lemma drop_take_Cons:
  "i < n \<Longrightarrow> n \<le> length xs \<Longrightarrow> drop i (take n xs) = xs ! i # drop (Suc i) (take n xs)"
  by (metis Cons_nth_drop_Suc length_take min.absorb2 nth_take)

lemma utf8_to_unicode_step:
  assumes i: "i < nSrc" and n: "nSrc \<le> length src" and j: "j < nDest" "nDest \<le> length dest"
  shows "utf8_to_unicode_loop src nSrc nDest i j dest =
    (case wide_next (drop i (take nSrc src)) of
       None \<Rightarrow> Some (0, patch dest j [0])
     | Some (w, k) \<Rightarrow>
         if j + 1 < nDest then utf8_to_unicode_loop src nSrc nDest (i + k) (j + 1) (patch dest j [w])
         else Some (0, patch dest j [0]))"
proof -
  have d1: "drop (Suc i) (take nSrc src) =
    (if Suc i < nSrc then src ! Suc i # drop (Suc (Suc i)) (take nSrc src) else [])"
    using drop_take_Cons [of "Suc i" nSrc src] n by auto
  have d2: "drop (Suc (Suc i)) (take nSrc src) =
    (if Suc (Suc i) < nSrc then src ! Suc (Suc i) # drop (Suc (Suc (Suc i))) (take nSrc src) else [])"
    using drop_take_Cons [of "Suc (Suc i)" nSrc src] n by auto
  have "wide_next (drop i (take nSrc src)) =
    (if 0xe0 \<le> src ! i then (if i + 2 < nSrc then Some (wide3 (src ! i) (src ! (i + 1)) (src ! (i + 2)), 3) else None)
     else if 0xc0 \<le> src ! i then (if i + 1 < nSrc then Some (wide2 (src ! i) (src ! (i + 1)), 2) else None)
     else Some (ucast (src ! i), 1))"
    using drop_take_Cons [OF i n] by (simp add: d1 d2 split: if_splits)
  then show ?thesis using i n j
    by (subst utf8_to_unicode_loop.simps) (simp add: mem_simps wide3_def wide2_def)
qed

lemma utf8_to_unicode_loop_fit:
  assumes "nSrc \<le> length src" "j < nDest" "nDest \<le> length dest"
    and "wide_fit nDest j (drop i (take nSrc src)) = (ok, ws)"
  shows "utf8_to_unicode_loop src nSrc nDest i j dest =
    Some (if ok then int (j + length ws) else 0, patch dest j (ws @ [0]))"
  using assms
proof (induction "nSrc - i" arbitrary: i j dest ok ws rule: less_induct)
  case less
  show ?case
  proof (cases "i < nSrc")
    case True
    let ?s = "drop i (take nSrc src)"
    have ne: "?s \<noteq> []" using True less.prems(1) by simp
    note step = utf8_to_unicode_step [OF True less.prems(1,2,3)]
    note fit = wide_fit_next [OF ne, of nDest j]
    show ?thesis
    proof (cases "wide_next ?s")
      case (Some p)
      obtain w k where p: "p = (w, k)" by fastforce
      note k = wide_next_len [OF Some [unfolded p]]
      show ?thesis
      proof (cases "j + 1 < nDest")
        case room: True
        obtain ok' ws' where rec: "wide_fit nDest (j + 1) (drop (i + k) (take nSrc src)) = (ok', ws')" by fastforce
        have eq: "ok' = ok" "ws = w # ws'" using less.prems(4) fit Some p room rec by (simp_all add: add.commute)
        have dec: "nSrc - (i + k) < nSrc - i" using True k by linarith
        have bound: "j + 1 + length ws' < nDest" using wide_fit_bound [OF room rec] by simp
        have "utf8_to_unicode_loop src nSrc nDest (i + k) (j + 1) (patch dest j [w]) =
          Some (if ok' then int (j + 1 + length ws') else 0, patch (patch dest j [w]) (j + 1) (ws' @ [0]))"
          using dec less.prems(1,3) room rec by (intro less.hyps) simp_all
        moreover have "patch (patch dest j [w]) (j + 1) (ws' @ [0]) = patch dest j ([w] @ ws' @ [0])"
          using bound less.prems(3) by (intro patch_patch) simp_all
        ultimately show ?thesis using step Some p room eq by simp
      qed (use step Some p fit less.prems(4) in auto)
    qed (use step fit less.prems(4) in auto)
  qed (use less.prems utf8_to_unicode_end in auto)
qed

section \<open>Well-formed text\<close>

definition cont_byte :: "u8 \<Rightarrow> bool" where
  "cont_byte b = (b AND 0xc0 = 0x80)"

text \<open>Text all of whose characters are encoded in one, two or three bytes (the basic plane).\<close>

fun bmp_text :: "u8 list \<Rightarrow> bool" where
  "bmp_text [] = True"
| "bmp_text (a # s) =
    (if a < 0x80 then bmp_text s
     else if 0xc2 \<le> a \<and> a < 0xe0 then (case s of b # s' \<Rightarrow> cont_byte b \<and> bmp_text s' | [] \<Rightarrow> False)
     else if 0xe0 \<le> a \<and> a < 0xf0 then
       (case s of b # c # s' \<Rightarrow> cont_byte b \<and> cont_byte c \<and> bmp_text s' | _ \<Rightarrow> False)
     else False)"

lemma unat_wide3:
  "unat (wide3 a b c) = unat a * 4096 + unat b mod 64 * 64 + unat c mod 64"
proof -
  have a: "unat (push_bit 12 (ucast a :: wchar)) = unat a * 2 ^ 12"
    by (subst unat_push_bit_small) simp_all
  have b: "unat (push_bit 6 (ucast b AND 0x3f :: wchar)) = unat b mod 64 * 2 ^ 6"
    by (subst unat_push_bit_small) (simp_all add: unat_and_masks)
  have c: "unat (ucast c AND 0x3f :: wchar) = unat c mod 64"
    by (simp add: unat_and_masks)
  have bc: "unat (push_bit 6 (ucast b AND 0x3f) OR (ucast c AND 0x3f) :: wchar) = unat b mod 64 * 2 ^ 6 + unat c mod 64"
    using b c by (subst unat_or_plus [where k = 6]) simp_all
  have "unat b mod 64 < 64" "unat c mod 64 < 64" by simp_all
  then have "unat b mod 64 * 64 + unat c mod 64 < 64 * 64" by linarith
  then show ?thesis unfolding wide3_def
    using a bc by (subst unat_or_plus [where k = 12]) simp_all
qed

lemma cont_byte_iff: "cont_byte b \<longleftrightarrow> 0x80 \<le> b \<and> b < 0xc0"
  unfolding cont_byte_def by (rule byte_exhaust [of _ b]) code_simp

lemma cont_byte_unat: "cont_byte b \<longleftrightarrow> 128 \<le> unat b \<and> unat b < 192"
  by (simp add: cont_byte_iff word_le_nat_alt word_less_nat_alt)

lemma lead_mask: "0xc0 \<le> (a :: u8) \<Longrightarrow> ucast a AND NOT 0xc0 = (ucast (a AND 0x3f) :: wchar)"
  by (rule byte_exhaust [of "\<lambda>a. 0xc0 \<le> a \<longrightarrow> ucast a AND NOT 0xc0 = (ucast (a AND 0x3f) :: wchar)" a, THEN mp]) code_simp

lemma cont_mask: "cont_byte b \<Longrightarrow> ucast b AND NOT 0x80 = (ucast (b AND 0x3f) :: wchar)"
  by (rule byte_exhaust [of "\<lambda>b. cont_byte b \<longrightarrow> ucast b AND NOT 0x80 = (ucast (b AND 0x3f) :: wchar)" b, THEN mp]) code_simp

lemma unat_wide2:
  assumes "0xc0 \<le> a" "cont_byte b"
  shows "unat (wide2 a b) = unat a mod 64 * 64 + unat b mod 64"
proof -
  have a: "unat (push_bit 6 (ucast (a AND 0x3f) :: wchar)) = unat a mod 64 * 2 ^ 6"
    by (subst unat_push_bit_small) (simp_all add: unat_and_masks)
  show ?thesis unfolding wide2_def lead_mask [OF assms(1)] cont_mask [OF assms(2)]
    using a by (subst unat_or_plus [where k = 6]) (simp_all add: unat_and_masks)
qed

lemma lead_mod: "192 \<le> n \<Longrightarrow> n < 256 \<Longrightarrow> n mod 64 = n - (192 :: nat)"
  using mod_mult_self3 [of 3 64 "n - 192"] by simp

lemma lead3_byte: "0xe0 \<le> a \<Longrightarrow> (ucast (ucast a OR 0xe0 :: wchar) :: u8) = a"
  by (rule byte_exhaust [of "\<lambda>a. 0xe0 \<le> a \<longrightarrow> (ucast (ucast a OR 0xe0 :: wchar) :: u8) = a", THEN mp]) code_simp

lemma lead2_byte: "0xc0 \<le> a \<Longrightarrow> a < 0xe0 \<Longrightarrow> (ucast (ucast (a AND 0x3f) OR 0xc0 :: wchar) :: u8) = a"
  by (rule byte_exhaust [of "\<lambda>a. 0xc0 \<le> a \<longrightarrow> a < 0xe0 \<longrightarrow>
      (ucast (ucast (a AND 0x3f) OR 0xc0 :: wchar) :: u8) = a", THEN mp, THEN mp]) code_simp

lemma cont_byte_back: "cont_byte b \<Longrightarrow> (ucast (ucast (b AND 0x3f) OR 0x80 :: wchar) :: u8) = b"
  by (rule byte_exhaust [of "\<lambda>b. cont_byte b \<longrightarrow> (ucast (ucast (b AND 0x3f) OR 0x80 :: wchar) :: u8) = b", THEN mp]) code_simp

text \<open>Each unit of such text goes to one wide character, and that character back to the unit.\<close>

lemma utf8_unit_wide3:
  assumes "0xe0 \<le> a" "cont_byte b" "cont_byte c"
  shows "utf8_unit (wide3 a b c) = [a, b, c]" "utf8_room (wide3 a b c) = 3"
proof -
  let ?w = "wide3 a b c"
  have w: "unat ?w = unat a * 4096 + unat b mod 64 * 64 + unat c mod 64" by (rule unat_wide3)
  have a: "224 \<le> unat a" using assms(1) by (simp add: word_le_nat_alt)
  have big: "\<not> ?w < 0x80" "\<not> ?w < 0x800" "\<not> ?w < 0xdfff"
    using a w by (simp_all add: word_less_nat_alt)
  note six = sextets [of "unat b mod 64" "unat c mod 64"]
  have "drop_bit 12 ?w = ucast a"
    by (rule word_unat_eq_iff [THEN iffD2]) (simp add: unat_drop_bit_div w six)
  moreover have "drop_bit 6 ?w AND 0x3f = ucast (b AND 0x3f)"
    by (rule word_unat_eq_iff [THEN iffD2]) (simp add: unat_simps w six)
  moreover have "?w AND 0x3f = ucast (c AND 0x3f)"
    by (rule word_unat_eq_iff [THEN iffD2]) (simp add: unat_simps w six)
  ultimately show "utf8_unit ?w = [a, b, c]" "utf8_room ?w = 3"
    using assms by (simp_all add: utf8_unit_def utf8_room_def big lead3_byte cont_byte_back)
qed

lemma utf8_unit_wide2:
  assumes "0xc2 \<le> a" "a < 0xe0" "cont_byte b"
  shows "utf8_unit (wide2 a b) = [a, b]" "utf8_room (wide2 a b) = 2"
proof -
  let ?w = "wide2 a b"
  have c0: "0xc0 \<le> a" using assms(1) by (simp add: word_le_nat_alt)
  have w: "unat ?w = unat a mod 64 * 64 + unat b mod 64" by (rule unat_wide2 [OF c0 assms(3)])
  have a: "194 \<le> unat a" "unat a < 224" using assms by (simp_all add: word_le_nat_alt word_less_nat_alt)
  then have am: "2 \<le> unat a mod 64" "unat a mod 64 < 32" using lead_mod by simp_all
  have bm: "unat b mod 64 < 64" by simp
  have big: "\<not> ?w < 0x80" "?w < 0x800"
    using am bm w by (simp_all add: word_less_nat_alt)
  note six = sextets [of "unat a mod 64" "unat b mod 64"]
  have "drop_bit 6 ?w = ucast (a AND 0x3f)"
    by (rule word_unat_eq_iff [THEN iffD2]) (simp add: unat_simps w six)
  moreover have "?w AND 0x3f = ucast (b AND 0x3f)"
    by (rule word_unat_eq_iff [THEN iffD2]) (simp add: unat_simps w six)
  ultimately show "utf8_unit ?w = [a, b]" "utf8_room ?w = 2"
    using assms c0 by (simp_all add: utf8_unit_def utf8_room_def big lead2_byte cont_byte_back)
qed

lemma utf8_unit_ascii: "a < 0x80 \<Longrightarrow> utf8_unit (ucast (a :: u8)) = [a]" "a < 0x80 \<Longrightarrow> utf8_room (ucast (a :: u8)) = 1"
  by (simp_all add: utf8_unit_def utf8_room_def word_less_nat_alt word_unat_eq_iff unat_ucast_mod)

lemma bmp_text_next:
  assumes "bmp_text s" "s \<noteq> []"
  obtains w k where "wide_next s = Some (w, k)" "bmp_text (drop k s)" "utf8_unit w = take k s"
    "utf8_room w = k" "0 < k" "k \<le> length s"
proof -
  obtain a t where s: "s = a # t" using assms(2) by (cases s) auto
  consider (one) "a < 0x80" "bmp_text t"
    | (two) b t' where "0xc2 \<le> a" "a < 0xe0" "t = b # t'" "cont_byte b" "bmp_text t'"
    | (three) b c t' where "0xe0 \<le> a" "a < 0xf0" "t = b # c # t'" "cont_byte b" "cont_byte c" "bmp_text t'"
    using assms(1) by (auto simp: s split: if_splits list.splits)
  then show thesis
  proof cases
    case one
    then have "\<not> 0xe0 \<le> a" "\<not> 0xc0 \<le> a" by (simp_all add: word_less_nat_alt word_le_nat_alt)
    then show thesis using that [of "ucast a" 1] one utf8_unit_ascii [OF one(1)] by (simp add: s)
  next
    case two
    then have "\<not> 0xe0 \<le> a" "0xc0 \<le> a" by (simp_all add: word_less_nat_alt word_le_nat_alt)
    then show thesis using that [of "wide2 a b" 2] two utf8_unit_wide2 [OF two(1,2,4)] by (simp add: s)
  next
    case three
    then show thesis using that [of "wide3 a b c" 3] utf8_unit_wide3 [OF three(1,4,5)]
      by (simp add: s numeral_3_eq_3)
  qed
qed

lemma bmp_text_fit:
  "bmp_text s \<Longrightarrow> j + length s < nDest \<Longrightarrow>
   \<exists>ws. wide_fit nDest j s = (True, ws) \<and> (\<forall>n j'. j' + length s < n \<longrightarrow> utf8_fit n j' ws = (True, s))"
proof (induction "length s" arbitrary: s j rule: less_induct)
  case less
  show ?case
  proof (cases "s = []")
    case False
    obtain w k where k: "wide_next s = Some (w, k)" "bmp_text (drop k s)" "utf8_unit w = take k s"
      "utf8_room w = k" "0 < k" "k \<le> length s"
      using bmp_text_next [OF less.prems(1) False] by blast
    have len: "length (drop k s) < length s" and room: "j + 1 + length (drop k s) < nDest"
      using k(5,6) less.prems(2) by simp_all
    obtain ws where ws: "wide_fit nDest (j + 1) (drop k s) = (True, ws)"
      "\<forall>n j'. j' + length (drop k s) < n \<longrightarrow> utf8_fit n j' ws = (True, drop k s)"
      using less.hyps [OF len k(2) room] by blast
    have "wide_fit nDest j s = (True, w # ws)"
      using wide_fit_next [OF False, of nDest j] ws(1) k less.prems(2) by simp
    moreover have "utf8_fit n j' (w # ws) = (True, s)" if "j' + length s < n" for n j'
      using that ws(2) [rule_format, of "j' + k" n] k by simp
    ultimately show ?thesis by blast
  qed simp
qed

section \<open>The properties\<close>

text \<open>
  C23. \<open>oscl_UnicodeToUTF8\<close> is memory safe: with a source of \<open>nSrcLen\<close> characters and a non-empty
  destination of \<open>nDestLen\<close> bytes it reads and writes inside them, leaves the bytes after the
  first \<open>nDestLen\<close> alone, returns a length below \<open>nDestLen\<close>, and leaves a zero inside the
  destination, at the returned length when that is not the 0 of a failure.
\<close>

theorem UnicodeToUTF8_safe:
  assumes "nSrcLen \<le> int (length src)" "0 < nDestLen" "nDestLen \<le> int (length dest)"
  shows "\<exists>n d. oscl_UnicodeToUTF8 src nSrcLen dest nDestLen = Some (n, d) \<and>
    length d = length dest \<and> 0 \<le> n \<and> n < nDestLen \<and>
    drop (nat nDestLen) d = drop (nat nDestLen) dest \<and>
    (\<exists>k < nat nDestLen. d ! k = 0) \<and> (n \<noteq> 0 \<longrightarrow> d ! nat n = 0)"
proof -
  obtain ok bs where fit: "utf8_fit (nat nDestLen) 0 (drop 0 (take (nat nSrcLen) src)) = (ok, bs)" by fastforce
  have bound: "length bs < nat nDestLen" using utf8_fit_bound [OF _ fit] assms(2) by simp
  have "oscl_UnicodeToUTF8 src nSrcLen dest nDestLen = Some (if ok then int (length bs) else 0, patch dest 0 (bs @ [0]))"
    using unicode_to_utf8_loop_fit [OF _ _ _ fit, of dest] assms by (simp add: oscl_UnicodeToUTF8_def)
  moreover have "drop (nat nDestLen) (patch dest 0 (bs @ [0])) = drop (nat nDestLen) dest"
    using bound by (intro drop_patch) simp_all
  moreover have "patch dest 0 (bs @ [0]) ! length bs = 0"
    using bound assms(3) by (simp add: nth_patch)
  ultimately show ?thesis using bound assms by (auto simp: drop_patch)
qed

theorem UnicodeToUTF8_safe_witness:
  "\<exists>n d. oscl_UnicodeToUTF8 [0x41, 0x4e2d, 0x42] 3 [1, 1, 1, 1, 1, 1] 5 = Some (n, d) \<and>
    length d = length [1, 1, 1, 1, 1, 1 :: u8] \<and> 0 \<le> n \<and> n < 5 \<and>
    drop (nat 5) d = drop (nat 5) [1, 1, 1, 1, 1, 1] \<and>
    (\<exists>k < nat 5. d ! k = 0) \<and> (n \<noteq> 0 \<longrightarrow> d ! nat n = 0)"
  by (rule UnicodeToUTF8_safe) simp_all

text \<open>
  C24. \<open>oscl_UTF8ToUnicode\<close> is memory safe on any bytes, malformed ones included: no read past
  \<open>nSrcLen\<close>, no write past \<open>nDestLen\<close>, at most one character per source byte, and the result is
  terminated by a zero character.
\<close>

theorem UTF8ToUnicode_safe:
  assumes "nSrcLen \<le> int (length src)" "0 < nDestLen" "nDestLen \<le> int (length dest)"
  shows "\<exists>n d. oscl_UTF8ToUnicode src nSrcLen dest nDestLen = Some (n, d) \<and>
    length d = length dest \<and> 0 \<le> n \<and> n < nDestLen \<and> n \<le> max 0 nSrcLen \<and>
    drop (nat nDestLen) d = drop (nat nDestLen) dest \<and>
    (\<exists>k < nat nDestLen. d ! k = 0) \<and> (n \<noteq> 0 \<longrightarrow> d ! nat n = 0)"
proof -
  obtain ok ws where fit: "wide_fit (nat nDestLen) 0 (drop 0 (take (nat nSrcLen) src)) = (ok, ws)" by fastforce
  have bound: "length ws < nat nDestLen" "length ws \<le> nat nSrcLen"
    using wide_fit_bound [OF _ fit] assms by auto
  have "oscl_UTF8ToUnicode src nSrcLen dest nDestLen = Some (if ok then int (length ws) else 0, patch dest 0 (ws @ [0]))"
    using utf8_to_unicode_loop_fit [OF _ _ _ fit, of dest] assms by (simp add: oscl_UTF8ToUnicode_def)
  moreover have "drop (nat nDestLen) (patch dest 0 (ws @ [0])) = drop (nat nDestLen) dest"
    using bound by (intro drop_patch) simp_all
  moreover have "patch dest 0 (ws @ [0]) ! length ws = 0"
    using bound assms(3) by (simp add: nth_patch)
  ultimately show ?thesis using bound assms by (auto simp: drop_patch)
qed

theorem UTF8ToUnicode_safe_witness:
  "\<exists>n d. oscl_UTF8ToUnicode [0x41, 0xe4, 0xb8] 3 [1, 1, 1, 1] 3 = Some (n, d) \<and>
    length d = length [1, 1, 1, 1 :: wchar] \<and> 0 \<le> n \<and> n < 3 \<and> n \<le> max 0 3 \<and>
    drop (nat 3) d = drop (nat 3) [1, 1, 1, 1] \<and>
    (\<exists>k < nat 3. d ! k = 0) \<and> (n \<noteq> 0 \<longrightarrow> d ! nat n = 0)"
  by (rule UTF8ToUnicode_safe) simp_all

text \<open>
  C25. The file name survives the detour through wide characters: converting text of one-, two-
  and three-byte characters to \<open>oscl_wchar\<close> and back (as \<open>parseMP3\<close> and \<open>OsclNativeFile::OpenFileOrSharedFd\<close> do
  with the path) gives the same bytes, zero terminated, whenever the buffers have room, although
  the wide string in between is not Unicode (the lead byte of three is not masked).
\<close>

theorem utf8_round_trip:
  assumes "bmp_text s" "int (length s) < nWide" "nWide \<le> int (length wbuf)"
    "int (length s) < nDest" "nDest \<le> int (length buf)"
  shows "\<exists>n w d. oscl_UTF8ToUnicode s (int (length s)) wbuf nWide = Some (n, w) \<and>
    oscl_UnicodeToUTF8 w n buf nDest = Some (int (length s), d) \<and> take (length s + 1) d = s @ [0]"
proof -
  have lt: "0 + length s < nat nWide" using assms(2) by linarith
  obtain ws where ws: "wide_fit (nat nWide) 0 s = (True, ws)"
    "\<forall>n j'. j' + length s < n \<longrightarrow> utf8_fit n j' ws = (True, s)"
    using bmp_text_fit [OF assms(1) lt] by blast
  have bound: "length ws < nat nWide" using wide_fit_bound [OF _ ws(1)] assms(2) by simp
  have 1: "oscl_UTF8ToUnicode s (int (length s)) wbuf nWide = Some (int (length ws), patch wbuf 0 (ws @ [0]))"
    using utf8_to_unicode_loop_fit [of "length s" s 0 "nat nWide" wbuf 0 True ws] ws(1) assms
    by (simp add: oscl_UTF8ToUnicode_def)
  have tk: "take (length ws) (patch wbuf 0 (ws @ [0])) = ws" by (simp add: patch_def)
  have len: "length ws \<le> length (patch wbuf 0 (ws @ [0]))" by (simp add: patch_def)
  have 2: "oscl_UnicodeToUTF8 (patch wbuf 0 (ws @ [0])) (int (length ws)) buf nDest =
    Some (int (length s), patch buf 0 (s @ [0]))"
    using unicode_to_utf8_loop_fit [OF len, of 0 "nat nDest" buf 0 True s] ws(2) [rule_format, of 0 "nat nDest"] tk assms
    by (simp add: oscl_UnicodeToUTF8_def)
  show ?thesis using 1 2 by (auto simp: patch_def)
qed

theorem utf8_round_trip_witness:
  "\<exists>n w d. oscl_UTF8ToUnicode [0x2f, 0xe4, 0xb8, 0xad, 0xc3, 0xa9] (int (length [0x2f, 0xe4, 0xb8, 0xad, 0xc3, 0xa9 :: u8])) (replicate 8 0) 8 = Some (n, w) \<and>
    oscl_UnicodeToUTF8 w n (replicate 8 1) 8 = Some (int (length [0x2f, 0xe4, 0xb8, 0xad, 0xc3, 0xa9 :: u8]), d) \<and>
    take (length [0x2f, 0xe4, 0xb8, 0xad, 0xc3, 0xa9 :: u8] + 1) d = [0x2f, 0xe4, 0xb8, 0xad, 0xc3, 0xa9] @ [0]"
  by (rule utf8_round_trip) (simp_all add: cont_byte_def)

lemma utf8_fit_3n:
  "j + 3 * length cs < nDest \<Longrightarrow> cs = [] \<or> \<not> (last cs < 0xdfff \<and> 0xd800 < last cs) \<Longrightarrow>
   utf8_fit nDest j cs = (True, concat (List.map utf8_unit cs))"
proof (induction cs arbitrary: j)
  case (Cons c cs)
  have len: "length (utf8_unit c) \<le> 3" by (simp add: utf8_unit_def Let_def)
  have room: "utf8_room c \<le> 4" "cs = [] \<Longrightarrow> utf8_room c \<le> 3"
    using Cons.prems(2) by (auto simp: utf8_room_def)
  have "j + utf8_room c < nDest" using room Cons.prems(1) by (cases cs) auto
  moreover have "utf8_fit nDest (j + length (utf8_unit c)) cs = (True, concat (List.map utf8_unit cs))"
    using len Cons.prems by (intro Cons.IH) (auto split: if_splits)
  ultimately show ?case by simp
qed simp

text \<open>
  Three bytes per character and a terminator are room enough for \<open>oscl_UnicodeToUTF8\<close>, as
  \<open>CMP3Scaner::parseMP3\<close> assumes when it allocates, unless the last unit is a half surrogate (for
  which the code asks for four bytes and stores two): the call succeeds, whatever the other
  characters are, and the destination is the concatenation of the units.
\<close>

theorem UnicodeToUTF8_three_per_char:
  assumes "nDestLen = 3 * int (length src) + 1" "nDestLen \<le> int (length dest)"
    "src = [] \<or> \<not> (last src < 0xdfff \<and> 0xd800 < last src)"
  shows "oscl_UnicodeToUTF8 src (int (length src)) dest nDestLen =
    Some (int (length (concat (List.map utf8_unit src))), patch dest 0 (concat (List.map utf8_unit src) @ [0]))"
proof -
  have "utf8_fit (nat nDestLen) 0 src = (True, concat (List.map utf8_unit src))"
    using assms by (intro utf8_fit_3n) auto
  then show ?thesis
    using unicode_to_utf8_loop_fit [of "length src" src 0 "nat nDestLen" dest 0 True] assms
    by (simp add: oscl_UnicodeToUTF8_def)
qed

theorem UnicodeToUTF8_three_per_char_witness:
  "oscl_UnicodeToUTF8 [0x4e2d, 0x6587] (int (length [0x4e2d, 0x6587 :: wchar])) [1, 1, 1, 1, 1, 1, 1] 7 =
    Some (int (length (concat (List.map utf8_unit [0x4e2d, 0x6587]))),
          patch [1, 1, 1, 1, 1, 1, 1] 0 (concat (List.map utf8_unit [0x4e2d, 0x6587]) @ [0]))"
  by (rule UnicodeToUTF8_three_per_char) simp_all

end
