(* ===== verification/Charmaps.thy ===== *)
theory Charmaps
  imports FN_Prelude
begin

text \<open>
  The character set table of \<open>iconv/iconv.c\<close>: the string \<open>charmaps\<close>, with the code pages of
  \<open>iconv/codepages.h\<close>, and \<open>legacy_chars\<close> (\<open>iconv/legacychars.h\<close>), into which the code pages index with ten
  bits per character. An entry of \<open>charmaps\<close> is its list of names, its type byte and, when the type is at
  most 128, the packed indices; \<open>charmap_bytes\<close> lays the entries out as the C string literal does.
\<close>

record charmap =
  cm_names :: "string list"
  cm_type :: u8
  cm_table :: "u8 list"

definition charmap_bytes :: "charmap \<Rightarrow> u8 list" where
  "charmap_bytes m = concat (List.map (\<lambda>a. lit a @ [0]) (cm_names m)) @ [0, cm_type m] @ cm_table m"

definition cm_utf8 :: charmap where
  "cm_utf8 = \<lparr> cm_names = [''utf8''], cm_type = 200, cm_table = [] \<rparr>"

definition cm_wchart :: charmap where
  "cm_wchart = \<lparr> cm_names = [''wchart''], cm_type = 198, cm_table = [] \<rparr>"

definition cm_ucs2 :: charmap where
  "cm_ucs2 = \<lparr> cm_names = [''ucs2'', ''ucs2be''], cm_type = 196, cm_table = [] \<rparr>"

definition cm_ucs2le :: charmap where
  "cm_ucs2le = \<lparr> cm_names = [''ucs2le''], cm_type = 197, cm_table = [] \<rparr>"

definition cm_utf16 :: charmap where
  "cm_utf16 = \<lparr> cm_names = [''utf16'', ''utf16be''], cm_type = 194, cm_table = [] \<rparr>"

definition cm_utf16le :: charmap where
  "cm_utf16le = \<lparr> cm_names = [''utf16le''], cm_type = 193, cm_table = [] \<rparr>"

definition cm_ucs4 :: charmap where
  "cm_ucs4 = \<lparr> cm_names = [''ucs4'', ''ucs4be'', ''utf32'', ''utf32be''], cm_type = 192, cm_table = [] \<rparr>"

definition cm_ucs4le :: charmap where
  "cm_ucs4le = \<lparr> cm_names = [''ucs4le'', ''utf32le''], cm_type = 195, cm_table = [] \<rparr>"

definition cm_ascii :: charmap where
  "cm_ascii = \<lparr> cm_names = [''ascii'', ''usascii'', ''iso646'', ''iso646us''], cm_type = 199, cm_table = [] \<rparr>"

definition cm_eucjp :: charmap where
  "cm_eucjp = \<lparr> cm_names = [''eucjp''], cm_type = 208, cm_table = [] \<rparr>"

definition cm_shiftjis :: charmap where
  "cm_shiftjis = \<lparr> cm_names = [''shiftjis'', ''sjis''], cm_type = 209, cm_table = [] \<rparr>"

definition cm_gb18030 :: charmap where
  "cm_gb18030 = \<lparr> cm_names = [''gb18030''], cm_type = 216, cm_table = [] \<rparr>"

definition cm_gbk :: charmap where
  "cm_gbk = \<lparr> cm_names = [''gbk''], cm_type = 217, cm_table = [] \<rparr>"

definition cm_gb2312 :: charmap where
  "cm_gb2312 = \<lparr> cm_names = [''gb2312''], cm_type = 218, cm_table = [] \<rparr>"

definition cm_big5 :: charmap where
  "cm_big5 = \<lparr> cm_names = [''big5'', ''bigfive'', ''cp950'', ''big5hkscs''], cm_type = 224, cm_table = [] \<rparr>"

definition cm_euckr :: charmap where
  "cm_euckr = \<lparr> cm_names = [''euckr'', ''ksc5601'', ''ksx1001'', ''cp949''], cm_type = 232, cm_table = [] \<rparr>"

definition cm_iso88591 :: charmap where
  "cm_iso88591 = \<lparr> cm_names = [''iso88591'', ''latin1''], cm_type = 128, cm_table = [] \<rparr>"

definition cm_iso88592 :: charmap where
  "cm_iso88592 = \<lparr> cm_names = [''iso88592''], cm_type = 32, cm_table = [
      0, 216, 16, 203, 26, 0, 164, 17, 8, 0, 0, 28, 82, 200, 34, 160, 0, 64, 138, 40, 0, 220, 48,
      11, 27, 0, 168, 33, 8, 44, 0, 32, 98, 8, 35, 161, 212, 82, 202, 40, 123, 0, 0, 0, 13, 0, 148,
      129, 3, 0, 62, 0, 128, 4, 0, 74, 0, 0, 0, 16, 66, 180, 17, 7, 0, 0, 220, 1, 0, 0, 127, 84, 2,
      192, 37, 0, 0, 144, 8, 0, 124, 0, 0, 64, 13, 0, 152, 145, 3, 0, 63, 0, 144, 4, 0, 75, 0, 0,
      64, 16, 67, 184, 33, 7, 0, 0, 224, 1, 0, 0, 128, 88, 2, 0, 38, 0, 0, 160, 136, 44] \<rparr>"

definition cm_iso88593 :: charmap where
  "cm_iso88593 = \<lparr> cm_names = [''iso88593''], cm_type = 32, cm_table = [
      0, 88, 17, 11, 0, 0, 4, 64, 5, 0, 0, 120, 81, 136, 19, 96, 0, 16, 128, 40, 0, 92, 1, 0, 0, 0,
      0, 80, 5, 0, 0, 124, 97, 200, 19, 97, 0, 16, 192, 40, 0, 0, 0, 64, 0, 0, 240, 160, 3, 0, 0,
      0, 0, 0, 0, 0, 0, 0, 0, 0, 1, 0, 0, 0, 0, 0, 64, 1, 0, 0, 76, 0, 0, 0, 0, 0, 76, 50, 8, 0, 0,
      0, 0, 64, 0, 0, 244, 176, 3, 0, 0, 0, 0, 0, 0, 0, 0, 0, 0, 0, 1, 0, 0, 0, 0, 0, 68, 1, 0, 0,
      77, 0, 0, 0, 0, 0, 80, 66, 136, 44] \<rparr>"

definition cm_iso88594 :: charmap where
  "cm_iso88594 = \<lparr> cm_names = [''iso88594''], cm_type = 32, cm_table = [
      0, 216, 64, 70, 31, 0, 96, 113, 6, 0, 0, 28, 66, 132, 20, 141, 0, 64, 10, 0, 0, 220, 48, 139,
      31, 0, 100, 129, 6, 44, 0, 32, 82, 196, 20, 142, 204, 81, 10, 29, 50, 0, 0, 0, 0, 0, 0, 0, 0,
      23, 62, 0, 128, 4, 0, 70, 0, 0, 128, 22, 66, 188, 81, 135, 24, 0, 0, 0, 0, 0, 0, 100, 2, 0,
      0, 0, 60, 18, 9, 0, 51, 0, 0, 0, 0, 0, 0, 0, 64, 23, 63, 0, 144, 4, 0, 71, 0, 0, 192, 22, 67,
      192, 97, 199, 24, 0, 0, 0, 0, 0, 0, 104, 2, 0, 0, 0, 64, 34, 137, 44] \<rparr>"

definition cm_iso88595 :: charmap where
  "cm_iso88595 = \<lparr> cm_names = [''iso88595''], cm_type = 32, cm_table = [
      0, 12, 68, 80, 65, 6, 29, 132, 80, 66, 10, 45, 196, 80, 67, 14, 1, 240, 16, 68, 17, 73, 52,
      17, 69, 21, 89, 116, 17, 70, 25, 105, 180, 17, 71, 29, 121, 244, 17, 72, 33, 137, 52, 18, 73,
      37, 153, 116, 18, 74, 41, 169, 180, 18, 75, 45, 185, 244, 18, 76, 49, 201, 52, 19, 77, 53,
      217, 116, 19, 78, 57, 233, 180, 19, 79, 61, 249, 244, 19, 80, 65, 9, 53, 20, 81, 69, 25, 117,
      20, 82, 73, 41, 181, 20, 83, 77, 57, 245, 20, 84, 87, 70, 37, 213, 84, 84, 85, 101, 213, 85,
      88, 101, 165, 213, 86, 92, 13, 208, 149, 87] \<rparr>"

definition cm_iso88596 :: charmap where
  "cm_iso88596 = \<lparr> cm_names = [''iso88596''], cm_type = 32, cm_table = [
      0, 4, 16, 64, 0, 0, 4, 16, 64, 0, 1, 4, 16, 64, 0, 148, 1, 16, 64, 0, 1, 4, 16, 64, 0, 1, 4,
      16, 64, 0, 1, 4, 16, 64, 101, 1, 4, 16, 128, 101, 1, 92, 134, 89, 102, 154, 109, 198, 89,
      103, 158, 125, 6, 90, 104, 162, 141, 70, 90, 105, 166, 157, 134, 90, 106, 170, 173, 198, 90,
      107, 174, 189, 6, 91, 0, 1, 4, 16, 64, 0, 177, 201, 54, 27, 109, 181, 217, 118, 27, 110, 185,
      233, 182, 27, 111, 189, 249, 246, 27, 112, 193, 9, 55, 92, 0, 1, 4, 16, 64, 0, 1, 4, 16, 64,
      0, 1, 4, 16, 64, 0] \<rparr>"

definition cm_iso88597 :: charmap where
  "cm_iso88597 = \<lparr> cm_names = [''iso88597''], cm_type = 32, cm_table = [
      0, 20, 105, 36, 0, 84, 86, 9, 0, 0, 0, 0, 176, 11, 0, 0, 0, 16, 192, 144, 0, 0, 0, 0, 0, 188,
      244, 226, 11, 0, 191, 0, 19, 12, 0, 194, 0, 48, 12, 49, 197, 24, 115, 12, 50, 201, 40, 179,
      12, 51, 205, 56, 243, 12, 52, 209, 72, 51, 13, 53, 213, 88, 19, 192, 53, 216, 100, 163, 205,
      54, 220, 116, 227, 205, 55, 224, 132, 35, 206, 56, 228, 148, 99, 206, 57, 232, 164, 163, 206,
      58, 236, 180, 227, 206, 59, 240, 196, 35, 207, 60, 244, 212, 99, 207, 61, 248, 228, 163, 207,
      62, 252, 244, 227, 207, 63, 0, 5, 36, 80, 0] \<rparr>"

definition cm_iso88598 :: charmap where
  "cm_iso88598 = \<lparr> cm_names = [''iso88598''], cm_type = 32, cm_table = [
      0, 4, 0, 0, 0, 0, 0, 0, 0, 0, 0, 0, 192, 0, 0, 0, 0, 0, 0, 0, 0, 0, 0, 0, 0, 0, 0, 0, 0, 0,
      0, 0, 240, 0, 0, 0, 0, 0, 64, 0, 1, 4, 16, 64, 0, 1, 4, 16, 64, 0, 1, 4, 16, 64, 0, 1, 4, 16,
      64, 0, 1, 4, 16, 64, 0, 1, 4, 16, 64, 0, 1, 4, 16, 64, 0, 1, 4, 16, 0, 145, 116, 213, 101,
      215, 93, 120, 229, 165, 215, 94, 124, 245, 229, 215, 95, 128, 5, 38, 216, 96, 132, 21, 102,
      216, 97, 136, 37, 166, 216, 98, 140, 53, 230, 88, 0, 1, 252, 8, 100, 0] \<rparr>"

definition cm_iso88599 :: charmap where
  "cm_iso88599 = \<lparr> cm_names = [''iso88599''], cm_type = 80, cm_table = [
      78, 0, 0, 0, 0, 0, 0, 0, 0, 0, 0, 0, 0, 0, 0, 0, 120, 81, 8, 0, 0, 0, 0, 0, 0, 0, 0, 0, 0, 0,
      0, 0, 0, 0, 0, 0, 0, 0, 0, 0, 79, 0, 0, 0, 0, 0, 0, 0, 0, 0, 0, 0, 0, 0, 0, 0, 124, 97, 8, 0] \<rparr>"

definition cm_iso885910 :: charmap where
  "cm_iso885910 = \<lparr> cm_names = [''iso885910''], cm_type = 32, cm_table = [
      0, 216, 64, 132, 20, 90, 96, 33, 6, 0, 103, 8, 113, 72, 35, 164, 0, 16, 201, 28, 0, 220, 80,
      196, 20, 91, 100, 49, 6, 0, 104, 12, 129, 136, 35, 165, 12, 41, 9, 29, 50, 0, 0, 0, 0, 0, 0,
      0, 0, 23, 62, 0, 128, 4, 0, 70, 0, 0, 0, 0, 0, 188, 81, 7, 0, 0, 0, 0, 192, 35, 0, 100, 2, 0,
      0, 0, 0, 0, 0, 0, 51, 0, 0, 0, 0, 0, 0, 0, 64, 23, 63, 0, 144, 4, 0, 71, 0, 0, 0, 0, 0, 192,
      97, 7, 0, 0, 0, 0, 0, 36, 0, 104, 2, 0, 0, 0, 0, 0, 0, 25] \<rparr>"

definition cm_iso885911 :: charmap where
  "cm_iso885911 = \<lparr> cm_names = [''iso885911'', ''tis620''], cm_type = 32, cm_table = [
      0, 64, 23, 157, 116, 211, 81, 87, 157, 117, 215, 97, 151, 157, 118, 219, 113, 215, 157, 119,
      223, 129, 23, 158, 120, 227, 145, 87, 158, 121, 231, 161, 151, 158, 122, 235, 177, 215, 158,
      123, 239, 193, 23, 159, 124, 243, 209, 87, 159, 125, 247, 225, 151, 159, 126, 251, 241, 215,
      159, 127, 255, 1, 24, 160, 128, 3, 18, 88, 160, 129, 7, 34, 152, 96, 0, 1, 4, 16, 128, 130,
      11, 50, 216, 160, 131, 15, 66, 24, 161, 132, 19, 82, 88, 161, 133, 23, 98, 152, 161, 134, 27,
      114, 216, 161, 135, 31, 130, 24, 162, 136, 35, 146, 88, 162, 137, 1, 4, 16, 64, 0] \<rparr>"

definition cm_iso885913 :: charmap where
  "cm_iso885913 = \<lparr> cm_names = [''iso885913''], cm_type = 32, cm_table = [
      0, 36, 9, 0, 0, 0, 40, 9, 0, 0, 13, 0, 208, 7, 0, 0, 0, 0, 192, 2, 0, 0, 0, 0, 0, 72, 2, 0,
      0, 0, 16, 0, 224, 7, 0, 0, 0, 0, 128, 3, 54, 112, 33, 3, 14, 0, 0, 128, 4, 17, 62, 0, 0, 138,
      17, 82, 136, 161, 197, 25, 135, 180, 241, 6, 0, 117, 0, 0, 0, 0, 153, 172, 17, 72, 36, 0,
      136, 66, 10, 0, 55, 116, 49, 67, 14, 0, 0, 144, 68, 17, 63, 0, 16, 202, 17, 83, 140, 177, 5,
      26, 136, 184, 1, 7, 0, 118, 0, 0, 0, 0, 154, 176, 33, 136, 36, 0, 140, 82, 138, 145] \<rparr>"

definition cm_iso885914 :: charmap where
  "cm_iso885914 = \<lparr> cm_names = [''iso885914''], cm_type = 32, cm_table = [
      0, 156, 136, 34, 0, 60, 244, 144, 34, 0, 53, 2, 112, 163, 138, 59, 2, 0, 192, 39, 43, 178, 8,
      69, 20, 45, 186, 8, 192, 139, 54, 194, 136, 99, 140, 60, 230, 168, 163, 140, 0, 0, 0, 0, 0,
      0, 0, 0, 0, 0, 0, 0, 0, 0, 0, 0, 0, 0, 0, 0, 155, 0, 0, 0, 0, 0, 0, 0, 192, 140, 0, 0, 0, 0,
      0, 0, 0, 208, 9, 0, 0, 0, 0, 0, 0, 0, 0, 0, 0, 0, 0, 0, 0, 0, 0, 0, 0, 0, 0, 0, 156, 0, 0, 0,
      0, 0, 0, 0, 0, 141, 0, 0, 0, 0, 0, 0, 0, 224, 9, 0] \<rparr>"

definition cm_iso885915 :: charmap where
  "cm_iso885915 = \<lparr> cm_names = [''iso885915'', ''latin9''], cm_type = 36, cm_table = [
      84, 2, 112, 8, 0, 136, 0, 0, 0, 0, 0, 0, 0, 0, 0, 0, 0, 0, 0, 0, 164, 0, 0, 0, 0, 165, 0, 0,
      0, 0, 121, 232, 241, 9, 0, 0, 0, 0, 0, 0, 0, 0, 0, 0, 0, 0, 0, 0, 0, 0, 0, 0, 0, 0, 0, 0, 0,
      0, 0, 0, 0, 0, 0, 0, 0, 0, 0, 0, 0, 0, 0, 0, 0, 0, 0, 0, 0, 0, 0, 0, 0, 0, 0, 0, 0, 0, 0, 0,
      0, 0, 0, 0, 0, 0, 0, 0, 0, 0, 0, 0, 0, 0, 0, 0, 0, 0, 0, 0, 0, 0, 0, 0, 0, 0, 0] \<rparr>"

definition cm_iso885916 :: charmap where
  "cm_iso885916 = \<lparr> cm_names = [''iso885916''], cm_type = 32, cm_table = [
      0, 216, 112, 195, 26, 84, 42, 121, 8, 0, 136, 0, 176, 10, 0, 160, 0, 16, 138, 40, 0, 0, 224,
      3, 27, 164, 36, 9, 0, 0, 165, 252, 192, 10, 0, 121, 232, 241, 201, 40, 0, 0, 0, 0, 13, 0,
      224, 0, 0, 0, 0, 0, 0, 0, 0, 0, 0, 0, 0, 0, 66, 180, 1, 0, 0, 0, 220, 1, 64, 32, 151, 0, 0,
      0, 0, 0, 32, 209, 10, 0, 0, 0, 0, 64, 13, 0, 228, 0, 0, 0, 0, 0, 0, 0, 0, 0, 0, 0, 0, 0, 67,
      184, 1, 0, 0, 0, 224, 1, 128, 32, 152, 0, 0, 0, 0, 0, 36, 225, 10, 0] \<rparr>"

definition cm_cp1250 :: charmap where
  "cm_cp1250 = \<lparr> cm_names = [''cp1250'', ''windows1250''], cm_type = 0, cm_table = [
      84, 6, 112, 100, 0, 74, 58, 185, 36, 147, 1, 60, 121, 8, 148, 129, 44, 66, 10, 40, 1, 20,
      105, 36, 146, 73, 54, 25, 164, 144, 1, 96, 137, 72, 148, 130, 48, 82, 74, 40, 0, 192, 18,
      203, 26, 0, 216, 0, 0, 0, 0, 0, 80, 8, 0, 0, 0, 0, 128, 40, 0, 0, 48, 11, 27, 0, 0, 0, 0, 0,
      0, 220, 96, 8, 0, 105, 212, 162, 198, 40, 123, 0, 0, 0, 13, 0, 148, 129, 3, 0, 62, 0, 128, 4,
      0, 74, 0, 0, 0, 16, 66, 180, 17, 7, 0, 0, 220, 1, 0, 0, 127, 84, 2, 192, 37, 0, 0, 144, 8, 0,
      124, 0, 0, 64, 13, 0, 152, 145, 3, 0, 63, 0, 144, 4, 0, 75, 0, 0, 64, 16, 67, 184, 33, 7, 0,
      0, 224, 1, 0, 0, 128, 88, 2, 0, 38, 0, 0, 160, 136, 44] \<rparr>"

definition cm_cp1251 :: charmap where
  "cm_cp1251 = \<lparr> cm_names = [''cp1251'', ''windows1251''], cm_type = 0, cm_table = [
      4, 21, 116, 228, 84, 74, 58, 185, 36, 147, 84, 62, 185, 16, 148, 12, 57, 212, 16, 68, 82, 21,
      105, 36, 146, 73, 54, 25, 164, 144, 1, 96, 153, 85, 148, 90, 113, 181, 149, 87, 0, 60, 212,
      149, 66, 0, 124, 5, 0, 0, 3, 1, 96, 16, 0, 0, 0, 0, 64, 66, 0, 0, 128, 144, 85, 96, 1, 0, 0,
      0, 81, 93, 73, 21, 0, 88, 29, 84, 213, 85, 17, 73, 52, 17, 69, 21, 89, 116, 17, 70, 25, 105,
      180, 17, 71, 29, 121, 244, 17, 72, 33, 137, 52, 18, 73, 37, 153, 116, 18, 74, 41, 169, 180,
      18, 75, 45, 185, 244, 18, 76, 49, 201, 52, 19, 77, 53, 217, 116, 19, 78, 57, 233, 180, 19,
      79, 61, 249, 244, 19, 80, 65, 9, 53, 20, 81, 69, 25, 117, 20, 82, 73, 41, 181, 20, 83, 77,
      57, 245, 20, 84] \<rparr>"

definition cm_cp1252 :: charmap where
  "cm_cp1252 = \<lparr> cm_names = [''cp1252'', ''windows1252''], cm_type = 0, cm_table = [
      84, 6, 112, 164, 41, 74, 58, 185, 36, 147, 175, 60, 121, 8, 148, 121, 4, 64, 74, 0, 1, 20,
      105, 36, 146, 73, 54, 25, 164, 144, 180, 96, 137, 72, 148, 122, 4, 80, 202, 39, 0, 0, 0, 0,
      0, 0, 0, 0, 0, 0, 0, 0, 0, 0, 0, 0, 0, 0, 0, 0, 0, 0, 0, 0, 0, 0, 0, 0, 0, 0, 0, 0, 0, 0, 0,
      0, 0, 0, 0, 0, 0, 0, 0, 0, 0, 0, 0, 0, 0, 0, 0, 0, 0, 0, 0, 0, 0, 0, 0, 0, 0, 0, 0, 0, 0, 0,
      0, 0, 0, 0, 0, 0, 0, 0, 0, 0, 0, 0, 0, 0, 0, 0, 0, 0, 0, 0, 0, 0, 0, 0, 0, 0, 0, 0, 0, 0, 0,
      0, 0, 0, 0, 0, 0, 0, 0, 0, 0, 0, 0, 0, 0, 0, 0, 0, 0, 0, 0, 0, 0, 0] \<rparr>"

definition cm_cp1253 :: charmap where
  "cm_cp1253 = \<lparr> cm_names = [''cp1253'', ''windows1253''], cm_type = 0, cm_table = [
      84, 6, 112, 164, 41, 74, 58, 185, 36, 147, 1, 60, 25, 0, 148, 1, 4, 16, 64, 0, 1, 20, 105,
      36, 146, 73, 54, 25, 164, 144, 1, 96, 25, 64, 148, 1, 4, 16, 64, 0, 0, 244, 226, 11, 0, 0, 0,
      0, 0, 0, 0, 0, 16, 0, 0, 0, 0, 0, 192, 144, 0, 0, 0, 0, 0, 188, 0, 0, 0, 0, 191, 0, 19, 12,
      0, 194, 0, 48, 12, 49, 197, 24, 115, 12, 50, 201, 40, 179, 12, 51, 205, 56, 243, 12, 52, 209,
      72, 51, 13, 53, 213, 88, 19, 192, 53, 216, 100, 163, 205, 54, 220, 116, 227, 205, 55, 224,
      132, 35, 206, 56, 228, 148, 99, 206, 57, 232, 164, 163, 206, 58, 236, 180, 227, 206, 59, 240,
      196, 35, 207, 60, 244, 212, 99, 207, 61, 248, 228, 163, 207, 62, 252, 244, 227, 207, 63, 0,
      5, 36, 80, 0] \<rparr>"

definition cm_cp1254 :: charmap where
  "cm_cp1254 = \<lparr> cm_names = [''cp1254'', ''windows1254''], cm_type = 0, cm_table = [
      84, 6, 112, 164, 41, 74, 58, 185, 36, 147, 175, 60, 121, 8, 148, 121, 4, 16, 64, 0, 1, 20,
      105, 36, 146, 73, 54, 25, 164, 144, 180, 96, 137, 72, 148, 122, 4, 16, 192, 39, 0, 0, 0, 0,
      0, 0, 0, 0, 0, 0, 0, 0, 0, 0, 0, 0, 0, 0, 0, 0, 0, 0, 0, 0, 0, 0, 0, 0, 0, 0, 0, 0, 0, 0, 0,
      0, 0, 0, 0, 0, 0, 0, 0, 0, 0, 0, 0, 0, 0, 0, 0, 0, 0, 0, 0, 0, 0, 0, 0, 0, 78, 0, 0, 0, 0, 0,
      0, 0, 0, 0, 0, 0, 0, 0, 0, 0, 120, 81, 8, 0, 0, 0, 0, 0, 0, 0, 0, 0, 0, 0, 0, 0, 0, 0, 0, 0,
      0, 0, 0, 0, 79, 0, 0, 0, 0, 0, 0, 0, 0, 0, 0, 0, 0, 0, 0, 0, 124, 97, 8, 0] \<rparr>"

definition cm_cp1255 :: charmap where
  "cm_cp1255 = \<lparr> cm_names = [''cp1255'', ''windows1255''], cm_type = 0, cm_table = [
      84, 6, 112, 164, 41, 74, 58, 185, 36, 147, 175, 60, 25, 0, 148, 1, 4, 16, 64, 0, 1, 20, 105,
      36, 146, 73, 54, 25, 164, 144, 180, 96, 25, 64, 148, 1, 4, 16, 64, 0, 0, 0, 0, 0, 0, 82, 2,
      0, 0, 0, 0, 0, 192, 0, 0, 0, 0, 0, 0, 0, 0, 0, 0, 0, 0, 0, 0, 0, 0, 0, 0, 0, 240, 0, 0, 0, 0,
      0, 0, 0, 97, 137, 53, 22, 89, 101, 153, 117, 22, 90, 105, 169, 21, 192, 90, 108, 181, 229,
      214, 91, 112, 197, 37, 215, 92, 143, 65, 22, 153, 100, 147, 5, 16, 64, 0, 1, 4, 16, 64, 0,
      116, 213, 101, 215, 93, 120, 229, 165, 215, 94, 124, 245, 229, 215, 95, 128, 5, 38, 216, 96,
      132, 21, 102, 216, 97, 136, 37, 166, 216, 98, 140, 53, 230, 88, 0, 1, 252, 8, 100, 0] \<rparr>"

definition cm_cp1256 :: charmap where
  "cm_cp1256 = \<lparr> cm_names = [''cp1256'', ''windows1256''], cm_type = 0, cm_table = [
      84, 22, 119, 164, 41, 74, 58, 185, 36, 147, 175, 60, 73, 28, 148, 121, 24, 151, 220, 113,
      203, 21, 105, 36, 146, 73, 54, 25, 164, 144, 202, 97, 137, 92, 148, 122, 244, 232, 35, 115,
      0, 80, 6, 0, 0, 0, 0, 0, 0, 0, 0, 0, 208, 28, 0, 0, 0, 0, 0, 0, 0, 0, 0, 0, 0, 0, 0, 0, 0, 0,
      0, 0, 80, 25, 0, 0, 0, 0, 128, 101, 206, 93, 134, 89, 102, 154, 109, 198, 89, 103, 158, 125,
      6, 90, 104, 162, 141, 70, 90, 105, 166, 157, 134, 90, 106, 170, 173, 198, 26, 0, 173, 185,
      246, 26, 108, 177, 201, 54, 27, 109, 0, 212, 6, 128, 109, 183, 225, 150, 27, 0, 0, 0, 0, 0,
      0, 186, 237, 6, 0, 0, 188, 245, 230, 219, 111, 0, 0, 23, 28, 0, 194, 1, 48, 28, 0, 0, 252, 8,
      228, 115] \<rparr>"

definition cm_cp1257 :: charmap where
  "cm_cp1257 = \<lparr> cm_names = [''cp1257'', ''windows1257''], cm_type = 0, cm_table = [
      84, 6, 112, 100, 0, 74, 58, 185, 36, 147, 1, 60, 25, 0, 148, 1, 16, 0, 139, 2, 1, 20, 105,
      36, 146, 73, 54, 25, 164, 144, 1, 96, 25, 64, 148, 1, 24, 48, 75, 0, 0, 4, 0, 0, 0, 0, 4, 0,
      0, 0, 13, 0, 208, 7, 0, 0, 0, 0, 192, 2, 0, 0, 0, 0, 0, 0, 0, 0, 0, 0, 16, 0, 224, 7, 0, 0,
      0, 0, 128, 3, 54, 112, 33, 3, 14, 0, 0, 128, 4, 17, 62, 0, 0, 138, 17, 82, 136, 161, 197, 25,
      135, 180, 241, 6, 0, 117, 0, 0, 0, 0, 153, 172, 17, 72, 36, 0, 136, 66, 10, 0, 55, 116, 49,
      67, 14, 0, 0, 144, 68, 17, 63, 0, 16, 202, 17, 83, 140, 177, 5, 26, 136, 184, 1, 7, 0, 118,
      0, 0, 0, 0, 154, 176, 33, 136, 36, 0, 140, 82, 138, 44] \<rparr>"

definition cm_cp1258 :: charmap where
  "cm_cp1258 = \<lparr> cm_names = [''cp1258'', ''windows1258''], cm_type = 0, cm_table = [
      84, 6, 112, 164, 41, 74, 58, 185, 36, 147, 175, 60, 25, 0, 148, 121, 4, 16, 64, 0, 1, 20,
      105, 36, 146, 73, 54, 25, 164, 144, 180, 96, 25, 64, 148, 122, 4, 16, 192, 39, 0, 0, 0, 0, 0,
      0, 0, 0, 0, 0, 0, 0, 0, 0, 0, 0, 0, 0, 0, 0, 0, 0, 0, 0, 0, 0, 0, 0, 0, 0, 0, 0, 0, 0, 0, 0,
      0, 0, 0, 0, 0, 0, 0, 0, 13, 0, 0, 0, 0, 0, 0, 0, 0, 0, 0, 182, 0, 0, 0, 0, 66, 0, 144, 11, 0,
      0, 156, 2, 0, 0, 0, 0, 0, 0, 0, 0, 164, 130, 11, 0, 0, 0, 0, 64, 13, 0, 0, 0, 0, 0, 0, 0, 0,
      0, 0, 183, 0, 0, 0, 0, 67, 0, 160, 11, 0, 0, 160, 2, 0, 0, 0, 0, 0, 0, 0, 0, 168, 50, 37, 0] \<rparr>"

definition cm_koi8r :: charmap where
  "cm_koi8r = \<lparr> cm_names = [''koi8r''], cm_type = 0, cm_table = [
      96, 134, 41, 230, 152, 100, 150, 105, 230, 153, 104, 166, 169, 38, 162, 137, 42, 186, 40,
      163, 141, 58, 250, 168, 151, 144, 102, 169, 229, 150, 92, 118, 41, 192, 151, 7, 32, 144, 192,
      3, 107, 178, 217, 102, 84, 110, 190, 9, 103, 156, 114, 206, 73, 103, 157, 118, 222, 137, 103,
      158, 122, 238, 201, 231, 64, 125, 250, 249, 39, 160, 129, 10, 58, 40, 161, 133, 26, 122, 104,
      1, 79, 197, 36, 211, 81, 53, 217, 84, 20, 77, 70, 229, 164, 211, 78, 60, 245, 228, 211, 79,
      64, 65, 21, 148, 80, 67, 17, 117, 211, 76, 77, 49, 133, 83, 82, 78, 41, 133, 212, 82, 47, 69,
      36, 209, 73, 21, 89, 84, 18, 69, 38, 101, 164, 209, 70, 28, 117, 228, 209, 71, 32, 193, 20,
      146, 72, 35, 145, 116, 209, 68, 45, 177, 132, 81, 74, 46, 169, 132, 210, 74] \<rparr>"

definition cm_koi8u :: charmap where
  "cm_koi8u = \<lparr> cm_names = [''koi8u''], cm_type = 0, cm_table = [
      96, 134, 41, 230, 152, 100, 150, 105, 230, 153, 104, 166, 169, 38, 162, 137, 42, 186, 40,
      163, 141, 58, 250, 168, 151, 144, 102, 169, 229, 150, 92, 118, 41, 192, 151, 7, 32, 144, 192,
      3, 107, 178, 217, 102, 84, 84, 189, 105, 213, 85, 114, 206, 73, 103, 157, 118, 130, 133, 103,
      158, 122, 238, 201, 231, 64, 6, 249, 137, 80, 66, 129, 10, 58, 40, 161, 133, 126, 117, 104,
      1, 79, 197, 36, 211, 81, 53, 217, 84, 20, 77, 70, 229, 164, 211, 78, 60, 245, 228, 211, 79,
      64, 65, 21, 148, 80, 67, 17, 117, 211, 76, 77, 49, 133, 83, 82, 78, 41, 133, 212, 82, 47, 69,
      36, 209, 73, 21, 89, 84, 18, 69, 38, 101, 164, 209, 70, 28, 117, 228, 209, 71, 32, 193, 20,
      146, 72, 35, 145, 116, 209, 68, 45, 177, 132, 81, 74, 46, 169, 132, 210, 74] \<rparr>"

definition cm_cp437 :: charmap where
  "cm_cp437 = \<lparr> cm_names = [''cp437''], cm_type = 0, cm_table = [
      23, 192, 64, 130, 7, 31, 116, 0, 130, 8, 37, 152, 48, 66, 10, 40, 156, 64, 65, 5, 24, 56,
      176, 192, 10, 44, 168, 240, 130, 11, 49, 100, 192, 65, 4, 18, 76, 96, 165, 41, 145, 70, 26,
      105, 164, 145, 70, 26, 105, 164, 145, 70, 26, 105, 164, 145, 70, 26, 105, 164, 141, 58, 250,
      104, 152, 103, 242, 217, 103, 156, 112, 250, 201, 166, 156, 120, 222, 105, 231, 152, 100,
      166, 137, 166, 153, 96, 170, 153, 167, 158, 117, 190, 73, 104, 160, 123, 174, 121, 168, 160,
      131, 254, 9, 40, 157, 115, 182, 233, 166, 161, 133, 150, 41, 166, 162, 137, 46, 202, 40, 162,
      229, 68, 138, 12, 61, 215, 220, 19, 41, 62, 218, 52, 211, 13, 58, 145, 234, 147, 78, 164,
      145, 70, 218, 37, 151, 94, 126, 249, 192, 150, 7, 100, 153, 128, 150, 145, 34, 0, 169, 0] \<rparr>"

definition cm_cp850 :: charmap where
  "cm_cp850 = \<lparr> cm_names = [''cp850''], cm_type = 0, cm_table = [
      23, 192, 64, 130, 7, 31, 116, 0, 130, 8, 37, 152, 48, 66, 10, 40, 156, 64, 65, 5, 24, 56,
      176, 192, 10, 44, 168, 240, 130, 11, 49, 100, 192, 1, 4, 18, 52, 192, 128, 41, 145, 70, 26,
      105, 164, 145, 70, 26, 105, 164, 145, 70, 26, 105, 164, 145, 70, 26, 105, 164, 141, 58, 250,
      104, 152, 103, 70, 26, 105, 164, 5, 248, 201, 166, 156, 120, 70, 48, 193, 152, 100, 166, 137,
      166, 153, 96, 170, 25, 105, 164, 117, 190, 73, 104, 160, 123, 174, 121, 104, 164, 145, 70,
      26, 105, 164, 145, 126, 17, 105, 164, 145, 150, 41, 166, 162, 137, 70, 26, 41, 162, 145, 70,
      26, 105, 164, 145, 70, 26, 105, 164, 145, 70, 26, 105, 164, 145, 70, 106, 64, 164, 145, 70,
      74, 100, 164, 145, 14, 240, 128, 2, 7, 16, 144, 64, 164, 145, 34, 0, 169, 0] \<rparr>"

definition charmap_list :: "charmap list" where
  "charmap_list = [
    cm_utf8, cm_wchart, cm_ucs2, cm_ucs2le, cm_utf16, cm_utf16le, cm_ucs4, cm_ucs4le, cm_ascii,
    cm_eucjp, cm_shiftjis, cm_gb18030, cm_gbk, cm_gb2312, cm_big5, cm_euckr, cm_iso88591,
    cm_iso88592, cm_iso88593, cm_iso88594, cm_iso88595, cm_iso88596, cm_iso88597, cm_iso88598,
    cm_iso88599, cm_iso885910, cm_iso885911, cm_iso885913, cm_iso885914, cm_iso885915,
    cm_iso885916, cm_cp1250, cm_cp1251, cm_cp1252, cm_cp1253, cm_cp1254, cm_cp1255, cm_cp1256,
    cm_cp1257, cm_cp1258, cm_koi8r, cm_koi8u, cm_cp437, cm_cp850]"

definition charmaps :: "u8 list" where
  "charmaps = concat (List.map charmap_bytes charmap_list) @ [0]"

definition legacy_chars_0 :: "u16 list" where
  "legacy_chars_0 = u16s [
    0, 1, 160, 167, 168, 169, 175, 176, 178, 183, 184, 198, 215, 216, 230, 247, 248, 162, 163, 165,
    196, 197, 198, 199, 201, 214, 215, 216, 220, 224, 226, 228, 229, 230, 231, 232, 233, 234, 235,
    236, 238, 239, 242, 244, 246, 248, 249, 251, 252, 255, 256, 257, 258, 259, 260, 261, 262, 263,
    264, 265, 266, 267, 268, 269, 270, 271, 272, 273, 274, 275, 278, 279, 280, 281, 282, 283, 284,
    285, 286, 287, 288, 289, 290, 291, 292, 293, 294, 295, 296, 297, 298, 299, 302, 303, 304, 305,
    308, 309, 310, 311, 312, 313, 314, 315, 316, 317, 318, 321, 322, 323, 324, 325, 326, 327, 328,
    330, 331, 332, 333, 336, 337, 338, 339, 340, 341, 342, 343, 344, 345, 346, 347, 348, 349, 350,
    351, 352, 353, 354, 355, 356, 357, 358, 359, 360, 361, 362, 363, 364, 365, 366, 367, 368, 369,
    370, 371, 372, 373, 374, 375, 376, 377, 378, 379, 380, 381]"

definition legacy_chars_1 :: "u16 list" where
  "legacy_chars_1 = u16s [
    382, 402, 416, 417, 431, 432, 536, 537, 538, 539, 710, 711, 728, 729, 731, 732, 733, 768, 769,
    771, 777, 803, 890, 900, 901, 902, 904, 905, 906, 908, 910, 911, 912, 913, 914, 915, 916, 917,
    918, 919, 920, 921, 922, 923, 924, 925, 926, 927, 928, 929, 931, 932, 933, 934, 935, 936, 937,
    938, 939, 940, 941, 942, 943, 944, 945, 946, 947, 948, 949, 950, 951, 952, 953, 954, 955, 956,
    957, 958, 959, 960, 961, 962, 963, 964, 965, 966, 967, 968, 969, 970, 971, 972, 973, 974, 1025,
    1026, 1027, 1028, 1029, 1030, 1031, 1032, 1033, 1034, 1035, 1036, 1038, 1039, 1040, 1041, 1042,
    1043, 1044, 1045, 1046, 1047, 1048, 1049, 1050, 1051, 1052, 1053, 1054, 1055, 1056, 1057, 1058,
    1059, 1060, 1061, 1062, 1063, 1064, 1065, 1066, 1067, 1068, 1069, 1070, 1071, 1072, 1073, 1074,
    1075, 1076, 1077, 1078, 1079, 1080, 1081, 1082, 1083, 1084, 1085, 1086, 1087, 1088, 1089, 1090,
    1091, 1092, 1093, 1094, 1095, 1096]"

definition legacy_chars_2 :: "u16 list" where
  "legacy_chars_2 = u16s [
    1097, 1098, 1099, 1100, 1101, 1102, 1103, 1105, 1106, 1107, 1108, 1109, 1110, 1111, 1112, 1113,
    1114, 1115, 1116, 1118, 1119, 1168, 1169, 1456, 1457, 1458, 1459, 1460, 1461, 1462, 1463, 1464,
    1465, 1467, 1468, 1469, 1470, 1471, 1472, 1473, 1474, 1475, 1488, 1489, 1490, 1491, 1492, 1493,
    1494, 1495, 1496, 1497, 1498, 1499, 1500, 1501, 1502, 1503, 1504, 1505, 1506, 1507, 1508, 1509,
    1510, 1511, 1512, 1513, 1514, 1520, 1521, 1522, 1523, 1524, 1548, 1563, 1567, 1569, 1570, 1571,
    1572, 1573, 1574, 1575, 1576, 1577, 1578, 1579, 1580, 1581, 1582, 1583, 1584, 1585, 1586, 1587,
    1588, 1589, 1590, 1591, 1592, 1593, 1594, 1600, 1601, 1602, 1603, 1604, 1605, 1606, 1607, 1608,
    1609, 1610, 1611, 1612, 1613, 1614, 1615, 1616, 1617, 1618, 1657, 1662, 1670, 1672, 1681, 1688,
    1705, 1711, 1722, 1726, 1729, 1746, 3585, 3586, 3587, 3588, 3589, 3590, 3591, 3592, 3593, 3594,
    3595, 3596, 3597, 3598, 3599, 3600, 3601, 3602, 3603, 3604, 3605, 3606, 3607, 3608, 3609, 3610,
    3611, 3612, 3613, 3614, 3615]"

definition legacy_chars_3 :: "u16 list" where
  "legacy_chars_3 = u16s [
    3616, 3617, 3618, 3619, 3620, 3621, 3622, 3623, 3624, 3625, 3626, 3627, 3628, 3629, 3630, 3631,
    3632, 3633, 3634, 3635, 3636, 3637, 3638, 3639, 3640, 3641, 3642, 3647, 3648, 3649, 3650, 3651,
    3652, 3653, 3654, 3655, 3656, 3657, 3658, 3659, 3660, 3661, 3662, 3663, 3664, 3665, 3666, 3667,
    3668, 3669, 3670, 3671, 3672, 3673, 3674, 3675, 7682, 7683, 7690, 7691, 7710, 7711, 7744, 7745,
    7766, 7767, 7776, 7777, 7786, 7787, 7808, 7809, 7810, 7811, 7812, 7813, 7922, 7923, 8204, 8205,
    8206, 8207, 8211, 8212, 8213, 8215, 8216, 8217, 8218, 8220, 8221, 8222, 8224, 8225, 8226, 8230,
    8240, 8249, 8250, 8362, 8363, 8364, 8367, 8359, 8470, 8482, 8729, 8730, 8776, 8804, 8805, 8992,
    8993, 9472, 9474, 9484, 9488, 9492, 9496, 9500, 9508, 9516, 9524, 9532, 9552, 9553, 9554, 9555,
    9556, 9557, 9558, 9559, 9560, 9561, 9562, 9563, 9564, 9565, 9566, 9567, 9568, 9569, 9570, 9571,
    9572, 9573, 9574, 9575, 9576, 9577, 9578, 9579, 9580, 9600, 9604, 9608, 9612, 9616, 9617, 9618,
    9619, 9632]"

definition legacy_chars :: "u16 list" where
  "legacy_chars = legacy_chars_0 @ legacy_chars_1 @ legacy_chars_2 @ legacy_chars_3"

lemmas charmap_defs =
  cm_utf8_def cm_wchart_def cm_ucs2_def cm_ucs2le_def cm_utf16_def cm_utf16le_def
  cm_ucs4_def cm_ucs4le_def cm_ascii_def cm_eucjp_def cm_shiftjis_def cm_gb18030_def
  cm_gbk_def cm_gb2312_def cm_big5_def cm_euckr_def cm_iso88591_def cm_iso88592_def
  cm_iso88593_def cm_iso88594_def cm_iso88595_def cm_iso88596_def cm_iso88597_def
  cm_iso88598_def cm_iso88599_def cm_iso885910_def cm_iso885911_def cm_iso885913_def
  cm_iso885914_def cm_iso885915_def cm_iso885916_def cm_cp1250_def cm_cp1251_def
  cm_cp1252_def cm_cp1253_def cm_cp1254_def cm_cp1255_def cm_cp1256_def cm_cp1257_def
  cm_cp1258_def cm_koi8r_def cm_koi8u_def cm_cp437_def cm_cp850_def

lemma length_legacy_chars: "length legacy_chars = 657"
  by (simp add: legacy_chars_def legacy_chars_0_def legacy_chars_1_def legacy_chars_2_def legacy_chars_3_def)

end
