(* ===== verification/IconvOpen.thy ===== *)
theory IconvOpen
  imports Charmaps
begin

unbundle bit_operations_syntax

text \<open>
  \<open>iconv/iconv.c\<close>, lines 81 to 119: the search for a character set by name (\<open>fuzzycmp\<close>,
  \<open>find_charmap\<close>) and \<open>iconv_open\<close>. A pointer into a string or into \<open>charmaps\<close> is the list of the
  bytes from there on; a read past the end is \<open>None\<close>. The lemmas show that the search over the
  packed table is the search for the first entry with a name equal to the folded argument.
\<close>

section \<open>The code\<close>

text \<open>The inner \<open>while\<close> of \<open>fuzzycmp\<close>: to the next letter, digit or zero.\<close>

definition name_char :: "u8 \<Rightarrow> bool" where
  "name_char x = (\<not> (26 < (ucast x OR 32 :: u32) - 97 \<and> 10 < (ucast x :: u32) - 48))"

fun fuzzy_skip :: "u8 list \<Rightarrow> u8 list option" where
  "fuzzy_skip [] = None"
| "fuzzy_skip (x # a) = (if x \<noteq> 0 \<and> \<not> name_char x then fuzzy_skip a else Some (x # a))"

text \<open>\<open>Some True\<close>: the strings differ (a non-zero result).\<close>

fun fuzzycmp :: "u8 list \<Rightarrow> u8 list \<Rightarrow> bool option" where
  "fuzzycmp a [] = None"
| "fuzzycmp a (y # b) = do {
     x \<leftarrow> rd a 0;
     if x \<noteq> 0 \<and> y \<noteq> 0 then do {
       a' \<leftarrow> fuzzy_skip a;
       x' \<leftarrow> rd a' 0;
       if x' OR 32 \<noteq> y then Some True else fuzzycmp (tl a') b }
     else Some (x \<noteq> y) }"

text \<open>\<open>s + strlen(s) + 1\<close>, and the loop to the empty string that ends the names of an entry.\<close>

definition after_nul :: "u8 list \<Rightarrow> u8 list option" where
  "after_nul s = (case dropWhile (\<lambda>x. x \<noteq> 0) s of [] \<Rightarrow> None | z # t \<Rightarrow> Some t)"

lemma after_nul_length: "after_nul s = Some t \<Longrightarrow> length t < length s"
  using length_dropWhile_le [of "\<lambda>x. x \<noteq> 0" s] by (auto simp: after_nul_def split: list.splits)

function skip_names :: "u8 list \<Rightarrow> u8 list option" where
  "skip_names s = do {
     x \<leftarrow> rd s 0;
     if x = 0 then Some s else do { t \<leftarrow> after_nul s; skip_names t } }"
  by pat_completeness auto
termination by (relation "measure length") (auto dest: after_nul_length)

declare skip_names.simps [simp del]

function find_charmap_loop :: "u8 list \<Rightarrow> u8 list \<Rightarrow> u32 option" where
  "find_charmap_loop name s = do {
     x \<leftarrow> rd s 0;
     if x = 0 then Some (- 1)
     else do {
       differ \<leftarrow> fuzzycmp name s;
       if \<not> differ then do {
         e \<leftarrow> skip_names s;
         Some (word_of_nat (length charmaps - length e + 1)) }
       else do {
         s1 \<leftarrow> after_nul s;
         y \<leftarrow> rd s1 0;
         if y = 0 then do {
           ty \<leftarrow> rd s1 1;
           if 0x80 < ty then find_charmap_loop name (drop 2 s1)
           else find_charmap_loop name (drop (2 + (128 - unat ty) div 4 * 5) s1) }
         else find_charmap_loop name s1 } } }"
  by pat_completeness auto
termination
proof (relation "measure (\<lambda>(name, s). length s)", goal_cases)
  case 1 show ?case by simp
qed (auto dest!: after_nul_length)

declare find_charmap_loop.simps [simp del]

definition find_charmap :: "u8 list \<Rightarrow> u32 option" where
  "find_charmap name = find_charmap_loop name charmaps"

datatype iconv_error = EILSEQ | E2BIG | EINVAL

text \<open>\<open>iconv_open(to, from)\<close>: the conversion descriptor, or the error number.\<close>

definition iconv_open :: "u8 list \<Rightarrow> u8 list \<Rightarrow> (iconv_error + u32) option" where
  "iconv_open to frm = do {
     t \<leftarrow> find_charmap to;
     if t = - 1 then Some (Inl EINVAL)
     else do {
       f \<leftarrow> find_charmap frm;
       if f = - 1 then Some (Inl EINVAL)
       else do {
         ty \<leftarrow> rd charmaps (unat t);
         if 0xd0 \<le> ty then Some (Inl EINVAL) else Some (Inr (push_bit 16 f OR t)) } } }"

section \<open>Name folding\<close>

text \<open>What \<open>fuzzycmp\<close> compares: the letters and digits of a name, in lower case.\<close>

definition fold_name :: "u8 list \<Rightarrow> u8 list" where
  "fold_name n = List.map (\<lambda>x. x OR 32) (List.filter name_char n)"

definition name_matches :: "u8 list \<Rightarrow> u8 list \<Rightarrow> bool" where
  "name_matches n a \<longleftrightarrow> fold_name n = a \<and> (n = [] \<or> name_char (last n))"

lemma fuzzy_skip_string:
  "0 \<notin> set n \<Longrightarrow> fuzzy_skip (n @ 0 # r) = Some (dropWhile (\<lambda>x. \<not> name_char x) n @ 0 # r)"
  by (induction n) auto

lemma fold_name_skip:
  "fold_name n = fold_name (dropWhile (\<lambda>x. \<not> name_char x) n)"
  by (induction n) (auto simp: fold_name_def)

lemma fold_name_Cons: "name_char x \<Longrightarrow> fold_name (x # n) = (x OR 32) # fold_name n"
  by (simp add: fold_name_def)

lemma last_skip:
  "dropWhile (\<lambda>x. \<not> name_char x) n = x # m \<Longrightarrow> last n = last (x # m)"
  by (metis (mono_tags, lifting) last_appendR list.discI takeWhile_dropWhile_id)

lemma fuzzycmp_string:
  "0 \<notin> set n \<Longrightarrow> 0 \<notin> set a \<Longrightarrow> 32 \<notin> set a \<Longrightarrow>
   fuzzycmp (n @ 0 # r) (a @ 0 # t) = Some (\<not> name_matches n a)"
proof (induction a arbitrary: n)
  case Nil
  have "name_matches n [] \<longleftrightarrow> n = []"
    by (cases "n = []") (auto simp: name_matches_def fold_name_def filter_empty_conv)
  then show ?case using Nil.prems by (cases n) (auto simp: rd_def)
next
  case (Cons y a)
  show ?case
  proof (cases n)
    case Nil
    then show ?thesis using Cons.prems by (auto simp: rd_def name_matches_def fold_name_def)
  next
    case n: (Cons x0 n0)
    let ?m = "dropWhile (\<lambda>x. \<not> name_char x) n"
    have first: "fuzzycmp (n @ 0 # r) ((y # a) @ 0 # t) = (do {
        x' \<leftarrow> rd (?m @ 0 # r) 0;
        if x' OR 32 \<noteq> y then Some True else fuzzycmp (tl (?m @ 0 # r)) (a @ 0 # t) })"
      using Cons.prems fuzzy_skip_string [OF Cons.prems(1), of r] by (simp add: n rd_def)
    show ?thesis
    proof (cases ?m)
      case Nil
      then have "fold_name n = []" using fold_name_skip [of n] by (simp add: fold_name_def)
      moreover have "(0 OR 32 :: u8) \<noteq> y" using Cons.prems by auto
      ultimately show ?thesis unfolding first Nil by (simp add: name_matches_def rd_def)
    next
      case m: (Cons x m)
      have x: "name_char x" using m by (metis dropWhile_eq_Cons_conv)
      have m0: "0 \<notin> set m" using m Cons.prems(1) by (metis list.set_intros(2) set_dropWhileD)
      have fold: "fold_name n = (x OR 32) # fold_name m"
        using fold_name_skip [of n] by (simp only: m fold_name_Cons [OF x])
      have last: "last n = last (x # m)" by (rule last_skip [OF m])
      have ne: "n \<noteq> []" using n by simp
      have "name_matches n (y # a) \<longleftrightarrow> x OR 32 = y \<and> name_matches m a"
        using ne x by (cases m) (auto simp: name_matches_def fold last)
      then show ?thesis using Cons.IH [OF m0] Cons.prems unfolding first by (simp add: m rd_def)
    qed
  qed
qed

section \<open>The search over the packed table\<close>

definition plain_name :: "string \<Rightarrow> bool" where
  "plain_name a \<longleftrightarrow> a \<noteq> [] \<and> 0 \<notin> set (lit a) \<and> 32 \<notin> set (lit a)"

definition wf_charmap :: "charmap \<Rightarrow> bool" where
  "wf_charmap m \<longleftrightarrow> cm_names m \<noteq> [] \<and> list_all plain_name (cm_names m) \<and>
    length (cm_table m) = (if 0x80 < cm_type m then 0 else (128 - unat (cm_type m)) div 4 * 5)"

definition names_bytes :: "string list \<Rightarrow> u8 list" where
  "names_bytes as = concat (List.map (\<lambda>a. lit a @ [0]) as)"

lemma names_bytes_simps [simp]:
  "names_bytes [] = []" "names_bytes (a # as) = lit a @ 0 # names_bytes as"
  by (simp_all add: names_bytes_def)

lemma charmap_bytes_eq: "charmap_bytes m = names_bytes (cm_names m) @ 0 # cm_type m # cm_table m"
  by (simp add: charmap_bytes_def names_bytes_def)

lemma charmaps_wf: "list_all wf_charmap charmap_list"
  by (simp add: charmap_list_def charmap_defs wf_charmap_def plain_name_def)

lemma after_nul_string: "0 \<notin> set a \<Longrightarrow> after_nul (a @ 0 # t) = Some t"
proof -
  assume "0 \<notin> set a"
  then have "dropWhile (\<lambda>x. x \<noteq> 0) (a @ 0 # t) = 0 # t"
    by (simp add: dropWhile_append3 dropWhile_append2 dropWhile_eq_self_iff) (metis (mono_tags) dropWhile.simps(2) dropWhile_append2)
  then show ?thesis by (simp add: after_nul_def)
qed

lemma plain_hd: "plain_name a \<Longrightarrow> lit a \<noteq> [] \<and> hd (lit a) \<noteq> 0"
  by (cases a) (auto simp: plain_name_def)

lemma skip_names_bytes:
  "list_all plain_name as \<Longrightarrow> skip_names (names_bytes as @ 0 # t) = Some (0 # t)"
proof (induction as)
  case Nil
  then show ?case by (subst skip_names.simps) simp
next
  case (Cons a as)
  then show ?case using plain_hd [of a]
    by (subst skip_names.simps) (simp add: after_nul_string plain_name_def)
qed

lemma find_in_names:
  assumes "as \<noteq> []" "list_all plain_name as" "0 \<notin> set n"
    and "length tbl = (if 0x80 < ty then 0 else (128 - unat ty) div 4 * 5)"
  shows "find_charmap_loop (n @ 0 # r) (names_bytes as @ 0 # ty # tbl @ t) =
    (if \<exists>a\<in>set as. name_matches n (lit a)
     then Some (word_of_nat (length charmaps - length (0 # ty # tbl @ t) + 1))
     else find_charmap_loop (n @ 0 # r) t)"
  using assms(1,2)
proof (induction as)
  case (Cons a as)
  let ?e = "0 # ty # tbl @ t"
  have a: "lit a \<noteq> []" "hd (lit a) \<noteq> 0" "0 \<notin> set (lit a)" "32 \<notin> set (lit a)" "plain_name a"
    using Cons.prems(2) plain_hd [of a] by (auto simp: plain_name_def)
  have skip: "skip_names (lit a @ 0 # names_bytes as @ ?e) = Some ?e"
    using skip_names_bytes [of "a # as" "ty # tbl @ t"] Cons.prems(2) by simp
  have rest: "drop 2 ?e = tbl @ t" "drop (2 + length tbl) ?e = t" by simp_all
  have step: "find_charmap_loop (n @ 0 # r) (lit a @ 0 # names_bytes as @ ?e) =
    (if name_matches n (lit a) then Some (word_of_nat (length charmaps - length ?e + 1))
     else if as = [] then find_charmap_loop (n @ 0 # r) t
     else find_charmap_loop (n @ 0 # r) (names_bytes as @ ?e))"
  proof (cases as)
    case Nil
    then show ?thesis using a skip rest assms(4)
      by (subst find_charmap_loop.simps)
        (auto simp: fuzzycmp_string [OF assms(3) a(3,4)] after_nul_string simp del: word_less_nat_alt)
  next
    case (Cons b bs)
    then have "lit b \<noteq> []" "hd (lit b) \<noteq> 0" using Cons.prems(2) plain_hd [of b] by auto
    then show ?thesis using a skip Cons
      by (subst find_charmap_loop.simps)
        (simp add: fuzzycmp_string [OF assms(3) a(3,4)] after_nul_string)
  qed
  then show ?case using Cons by (cases "as = []") auto
qed simp

text \<open>The search as a specification over the entries: the position of the type byte of the first match.\<close>

definition entry_matches :: "u8 list \<Rightarrow> charmap \<Rightarrow> bool" where
  "entry_matches n m \<longleftrightarrow> list_ex (\<lambda>a. name_matches n (lit a)) (cm_names m)"

fun charmap_lookup :: "u8 list \<Rightarrow> nat \<Rightarrow> charmap list \<Rightarrow> nat option" where
  "charmap_lookup n p [] = None"
| "charmap_lookup n p (m # ms) =
    (if entry_matches n m then Some (p + length (names_bytes (cm_names m)) + 1)
     else charmap_lookup n (p + length (charmap_bytes m)) ms)"

lemma find_charmap_entries:
  assumes "0 \<notin> set n" "list_all wf_charmap ms"
    and "charmaps = pre @ concat (List.map charmap_bytes ms) @ [0]"
  shows "find_charmap_loop (n @ 0 # r) (concat (List.map charmap_bytes ms) @ [0]) =
    Some (case charmap_lookup n (length pre) ms of None \<Rightarrow> - 1 | Some p \<Rightarrow> word_of_nat p)"
  using assms(2,3)
proof (induction ms arbitrary: pre)
  case Nil
  then show ?case by (subst find_charmap_loop.simps) simp
next
  case (Cons m ms)
  let ?t = "concat (List.map charmap_bytes ms) @ [0]"
  have wf: "cm_names m \<noteq> []" "list_all plain_name (cm_names m)"
    "length (cm_table m) = (if 0x80 < cm_type m then 0 else (128 - unat (cm_type m)) div 4 * 5)"
    using Cons.prems(1) by (auto simp: wf_charmap_def)
  have pos: "length charmaps - length (0 # cm_type m # cm_table m @ ?t) + 1 =
    length pre + length (names_bytes (cm_names m)) + 1"
    using arg_cong [OF Cons.prems(2), of length] by (simp add: charmap_bytes_eq [of m])
  have rec: "find_charmap_loop (n @ 0 # r) ?t =
    Some (case charmap_lookup n (length (pre @ charmap_bytes m)) ms of None \<Rightarrow> - 1 | Some p \<Rightarrow> word_of_nat p)"
    using Cons.prems by (intro Cons.IH) simp_all
  have "find_charmap_loop (n @ 0 # r) (names_bytes (cm_names m) @ 0 # cm_type m # cm_table m @ ?t) =
    (if entry_matches n m then Some (word_of_nat (length pre + length (names_bytes (cm_names m)) + 1))
     else find_charmap_loop (n @ 0 # r) ?t)"
    unfolding find_in_names [OF wf(1,2) assms(1) wf(3), of r ?t] pos by (simp add: entry_matches_def list_ex_iff)
  then show ?case using rec by (simp add: charmap_bytes_eq [of m])
qed

lemma charmap_lookup_entry:
  "charmap_lookup n p ms = Some q \<Longrightarrow> \<exists>m \<in> set ms. \<exists>t. entry_matches n m \<and> p < q \<and>
     drop (q - p) (concat (List.map charmap_bytes ms) @ z) = cm_type m # cm_table m @ t"
proof (induction ms arbitrary: p)
  case (Cons m ms)
  show ?case
  proof (cases "entry_matches n m")
    case True
    then show ?thesis using Cons.prems by (auto simp: charmap_bytes_eq)
  next
    case False
    then have *: "charmap_lookup n (p + length (charmap_bytes m)) ms = Some q" using Cons.prems by simp
    obtain m' t where m': "m' \<in> set ms" "entry_matches n m'" "p + length (charmap_bytes m) < q"
      "drop (q - (p + length (charmap_bytes m))) (concat (List.map charmap_bytes ms) @ z) = cm_type m' # cm_table m' @ t"
      using Cons.IH [OF *] by auto
    then have "drop (q - p) (concat (List.map charmap_bytes (m # ms)) @ z) = cm_type m' # cm_table m' @ t"
      by simp
    then show ?thesis using m' by auto
  qed
qed simp

lemma length_charmaps: "length charmaps = 4361"
  by (simp add: charmaps_def charmap_list_def charmap_bytes_def charmap_defs)

lemma charmap_lookup_position:
  assumes "charmap_lookup n 0 charmap_list = Some p"
  shows "\<exists>m \<in> set charmap_list. \<exists>t. entry_matches n m \<and> drop p charmaps = cm_type m # cm_table m @ t"
    "p < length charmaps"
proof -
  obtain m t where m: "m \<in> set charmap_list" "entry_matches n m" "drop p charmaps = cm_type m # cm_table m @ t"
    using charmap_lookup_entry [OF assms, of "[0]"] by (auto simp: charmaps_def)
  then show "\<exists>m \<in> set charmap_list. \<exists>t. entry_matches n m \<and> drop p charmaps = cm_type m # cm_table m @ t" by blast
  show "p < length charmaps" using m(3) by (metis drop_eq_Nil leI list.distinct(1))
qed

text \<open>
  C26. \<open>find_charmap\<close> never leaves the packed string \<open>charmaps\<close> and always ends: for a zero-terminated
  name it returns -1 when no entry has a matching name, and otherwise the position of the type byte
  of the first entry one of whose names equals the letters and digits of the argument in lower case.
\<close>

theorem find_charmap_lookup:
  assumes "0 \<notin> set n"
  shows "find_charmap (n @ 0 # r) =
    Some (case charmap_lookup n 0 charmap_list of None \<Rightarrow> - 1 | Some p \<Rightarrow> word_of_nat p)"
  using find_charmap_entries [OF assms charmaps_wf, of "[]" r]
  by (simp add: find_charmap_def charmaps_def)

theorem find_charmap_lookup_witness:
  "find_charmap (lit ''UTF-8'' @ 0 # []) =
    Some (case charmap_lookup (lit ''UTF-8'') 0 charmap_list of None \<Rightarrow> - 1 | Some p \<Rightarrow> word_of_nat p)"
  by (rule find_charmap_lookup) simp

lemma position_word:
  assumes "p < length charmaps"
  shows "unat (word_of_nat p :: u32) = p" "(word_of_nat p :: u32) \<noteq> - 1"
proof -
  show 1: "unat (word_of_nat p :: u32) = p"
    using assms by (intro unat_of_nat_small) (simp add: length_charmaps)
  have "unat (- 1 :: u32) = 2 ^ 32 - 1" by (simp add: unsigned_minus_1_eq_mask mask_eq_exp_minus_1)
  then show "(word_of_nat p :: u32) \<noteq> - 1" using 1 assms by (auto simp: length_charmaps)
qed

lemma descriptor_word:
  assumes "p < length charmaps" "q < length charmaps"
  shows "push_bit 16 (word_of_nat q) OR word_of_nat p = (word_of_nat (q * 65536 + p) :: u32)"
proof (rule word_unat_eq_iff [THEN iffD2])
  have q: "unat (push_bit 16 (word_of_nat q :: u32)) = q * 2 ^ 16"
    using assms by (subst unat_push_bit_small) (simp_all add: position_word length_charmaps)
  have "unat (push_bit 16 (word_of_nat q) OR word_of_nat p :: u32) = q * 65536 + p"
    using q assms by (subst unat_or_plus [where k = 16]) (simp_all add: position_word length_charmaps)
  moreover have "unat (word_of_nat (q * 65536 + p) :: u32) = q * 65536 + p"
    using assms by (intro unat_of_nat_small) (simp add: length_charmaps)
  ultimately show "unat (push_bit 16 (word_of_nat q) OR word_of_nat p :: u32) =
    unat (word_of_nat (q * 65536 + p) :: u32)" by simp
qed

text \<open>
  C27. \<open>iconv_open\<close> gives EINVAL exactly when one of the two names is unknown or the target is one of
  the multi-byte East Asian sets, which can only be read; otherwise the descriptor packs the position
  of the source in the upper and that of the target in the lower 16 bits without loss.
\<close>

theorem iconv_open_spec:
  assumes "0 \<notin> set t" "0 \<notin> set f"
  shows "iconv_open (t @ 0 # r1) (f @ 0 # r2) = Some
    (case (charmap_lookup t 0 charmap_list, charmap_lookup f 0 charmap_list) of
       (Some p, Some q) \<Rightarrow> if charmaps ! p < 0xd0 then Inr (word_of_nat (q * 65536 + p)) else Inl EINVAL
     | _ \<Rightarrow> Inl EINVAL)"
proof -
  note t = find_charmap_entries [OF assms(1) charmaps_wf, of "[]" r1, simplified]
  note f = find_charmap_entries [OF assms(2) charmaps_wf, of "[]" r2, simplified]
  note cs = charmaps_def [symmetric]
  show ?thesis
  proof (cases "charmap_lookup t 0 charmap_list")
    case None
    then show ?thesis using t by (simp add: iconv_open_def find_charmap_def charmaps_def)
  next
    case (Some p)
    note p = charmap_lookup_position(2) [OF Some]
    show ?thesis
    proof (cases "charmap_lookup f 0 charmap_list")
      case None
      then show ?thesis using t f Some position_word(2) [OF p]
        by (simp add: iconv_open_def find_charmap_def charmaps_def)
    next
      case q: (Some q)
      note ql = charmap_lookup_position(2) [OF q]
      show ?thesis using t f Some q position_word [OF p] position_word [OF ql] descriptor_word [OF p ql] p
        by (auto simp: iconv_open_def find_charmap_def cs rd_def not_less)
    qed
  qed
qed

theorem iconv_open_spec_witness:
  "iconv_open (lit ''UTF-8'' @ 0 # []) (lit ''GBK'' @ 0 # []) = Some
    (case (charmap_lookup (lit ''UTF-8'') 0 charmap_list, charmap_lookup (lit ''GBK'') 0 charmap_list) of
       (Some p, Some q) \<Rightarrow> if charmaps ! p < 0xd0 then Inr (word_of_nat (q * 65536 + p)) else Inl EINVAL
     | _ \<Rightarrow> Inl EINVAL)"
  by (rule iconv_open_spec) simp_all

end
