(* ===== verification/IconvCodec.thy ===== *)
theory IconvCodec
  imports IconvOpen Gb18030 Big5 Ksc Jis0208 Hkscs
begin

unbundle bit_operations_syntax

text \<open>
  \<open>iconv/iconv.c\<close>, lines 126 to 407: the helpers that read and write 16- and 32-bit units and
  UTF-8, and the \<open>switch (type)\<close> that decodes one character, one definition per group of cases. The
  source is the list \<open>s\<close> of the bytes from \<open>*in\<close> on and the count \<open>inb\<close> that the caller gave; the
  variables \<open>c\<close>, \<open>d\<close> and \<open>k\<close> are 32-bit unsigned and wrap as in C, table reads out of the C array are
  \<open>None\<close>.
\<close>

section \<open>Character set types\<close>

abbreviation "T_UTF_32BE \<equiv> (0xc0 :: u32)"
abbreviation "T_UTF_16LE \<equiv> (0xc1 :: u32)"
abbreviation "T_UTF_16BE \<equiv> (0xc2 :: u32)"
abbreviation "T_UTF_32LE \<equiv> (0xc3 :: u32)"
abbreviation "T_UCS2BE \<equiv> (0xc4 :: u32)"
abbreviation "T_UCS2LE \<equiv> (0xc5 :: u32)"
abbreviation "T_WCHAR_T \<equiv> (0xc6 :: u32)"
abbreviation "T_US_ASCII \<equiv> (0xc7 :: u32)"
abbreviation "T_UTF_8 \<equiv> (0xc8 :: u32)"
abbreviation "T_EUC_JP \<equiv> (0xd0 :: u32)"
abbreviation "T_SHIFT_JIS \<equiv> (0xd1 :: u32)"
abbreviation "T_GB18030 \<equiv> (0xd8 :: u32)"
abbreviation "T_GBK \<equiv> (0xd9 :: u32)"
abbreviation "T_GB2312 \<equiv> (0xda :: u32)"
abbreviation "T_BIG5 \<equiv> (0xe0 :: u32)"
abbreviation "T_EUC_KR \<equiv> (0xe8 :: u32)"

section \<open>Units of 16 and 32 bits\<close>

definition get_16 :: "u8 list \<Rightarrow> nat \<Rightarrow> u32 \<Rightarrow> u32 option" where
  "get_16 s i e = do {
     a \<leftarrow> rd s (i + unat (e AND 1));
     b \<leftarrow> rd s (i + unat (1 - (e AND 1)));
     Some (push_bit 8 (ucast a) OR ucast b) }"

definition put_16 :: "u32 \<Rightarrow> u32 \<Rightarrow> u8 list" where
  "put_16 c e = (if e AND 1 = 0 then [ucast (drop_bit 8 c), ucast c] else [ucast c, ucast (drop_bit 8 c)])"

definition get_32 :: "u8 list \<Rightarrow> u32 \<Rightarrow> u32 option" where
  "get_32 s e0 = (let e = e0 AND 3 in do {
     a \<leftarrow> rd s (unat e); b \<leftarrow> rd s (unat (e XOR 1)); c \<leftarrow> rd s (unat (e XOR 2)); d \<leftarrow> rd s (unat (e XOR 3));
     Some (push_bit 24 (ucast a) OR push_bit 16 (ucast b) OR push_bit 8 (ucast c) OR ucast d) })"

definition put_32 :: "u32 \<Rightarrow> u32 \<Rightarrow> u8 list" where
  "put_32 c e0 = (let e = e0 AND 3 in
     List.map (\<lambda>i :: u32. ucast (drop_bit (24 - 8 * unat (i XOR e)) c)) [0, 1, 2, 3])"

section \<open>UTF-8\<close>

text \<open>\<open>wcrtomb_s\<close>: the bytes stored, or \<open>None\<close> for the return value -1.\<close>

definition wcrtomb_s :: "u32 \<Rightarrow> u8 list option" where
  "wcrtomb_s wc =
    (if wc < 0x80 then Some [ucast wc]
     else if wc < 0x800 then Some [ucast (0xc0 OR drop_bit 6 wc), ucast (0x80 OR (wc AND 0x3f))]
     else if wc < 0xd800 \<or> wc - 0xe000 < 0x2000 then
       Some [ucast (0xe0 OR drop_bit 12 wc), ucast (0x80 OR (drop_bit 6 wc AND 0x3f)), ucast (0x80 OR (wc AND 0x3f))]
     else if wc - 0x10000 < 0x100000 then
       Some [ucast (0xf0 OR drop_bit 18 wc), ucast (0x80 OR (drop_bit 12 wc AND 0x3f)),
             ucast (0x80 OR (drop_bit 6 wc AND 0x3f)), ucast (0x80 OR (wc AND 0x3f))]
     else None)"

text \<open>
  The C library's \<open>mbrtowc\<close> on the initial state, in a UTF-8 locale (the code defines
  \<open>mbrtowc_utf8\<close> as \<open>mbrtowc\<close>): a character and its length, the null character (0), an invalid
  sequence (-1) or an incomplete but so far valid one (-2).
\<close>

datatype mb_result = MbChar u32 nat | MbNul | MbIllegal | MbShort

definition mb_cont :: "u8 \<Rightarrow> bool" where
  "mb_cont b \<longleftrightarrow> 0x80 \<le> b \<and> b < 0xc0"

text \<open>The second byte, which also excludes overlong forms, surrogates and code points above 0x10ffff.\<close>

definition mb_second :: "u8 \<Rightarrow> u8 \<Rightarrow> bool" where
  "mb_second a b \<longleftrightarrow> (if a = 0xe0 then 0xa0 else if a = 0xf0 then 0x90 else 0x80) \<le> b \<and>
    b \<le> (if a = 0xed then 0x9f else if a = 0xf4 then 0x8f else 0xbf)"

definition mb6 :: "u8 \<Rightarrow> u32" where
  "mb6 b = ucast (b AND 0x3f)"

fun mbrtowc :: "u8 list \<Rightarrow> mb_result" where
  "mbrtowc [] = MbShort"
| "mbrtowc (a # s) =
    (if a = 0 then MbNul
     else if a < 0x80 then MbChar (ucast a) 1
     else if a < 0xc2 \<or> 0xf4 < a then MbIllegal
     else case s of [] \<Rightarrow> MbShort
     | b # s1 \<Rightarrow>
       if \<not> mb_second a b then MbIllegal
       else if a < 0xe0 then MbChar (push_bit 6 (ucast (a AND 0x1f)) OR mb6 b) 2
       else case s1 of [] \<Rightarrow> MbShort
       | c # s2 \<Rightarrow>
         if \<not> mb_cont c then MbIllegal
         else if a < 0xf0 then MbChar (push_bit 12 (ucast (a AND 0x0f)) OR push_bit 6 (mb6 b) OR mb6 c) 3
         else case s2 of [] \<Rightarrow> MbShort
         | d # s3 \<Rightarrow>
           if \<not> mb_cont d then MbIllegal
           else MbChar (push_bit 18 (ucast (a AND 0x07)) OR push_bit 12 (mb6 b) OR push_bit 6 (mb6 c) OR mb6 d) 4)"

section \<open>Ranking loops\<close>

text \<open>
  The loops at lines 314 and 385: \<open>c\<close> moves up by the number of table entries between \<open>d\<close> and \<open>c\<close>,
  until there is none. \<open>None\<close> would be a loop that does not end.
\<close>

definition rank_count :: "u16 list \<Rightarrow> u32 \<Rightarrow> u32 \<Rightarrow> u32" where
  "rank_count tab d c = word_of_nat (length (List.filter (\<lambda>x. ucast x - d \<le> c - d) tab))"

partial_function (option) rank_loop :: "u16 list \<Rightarrow> u32 \<Rightarrow> u32 \<Rightarrow> u32 option" where
  "rank_loop tab d c = (if d \<le> c then rank_loop tab (c + 1) (c + rank_count tab d c) else Some c)"

section \<open>Decoding one character\<close>

datatype decoded = Code u32 nat | Pair u32 nat | Ilseq | Starved

definition tab2 :: "u16 list list \<Rightarrow> u32 \<Rightarrow> u32 \<Rightarrow> u32 option" where
  "tab2 t c d = do { r \<leftarrow> rd t (unat c); v \<leftarrow> rd r (unat d); Some (ucast v) }"

definition code_or_ilseq :: "u32 \<Rightarrow> nat \<Rightarrow> decoded" where
  "code_or_ilseq c l = (if c = 0 then Ilseq else Code c l)"

definition decode_utf8 :: "u8 list \<Rightarrow> u32 \<Rightarrow> decoded option" where
  "decode_utf8 s inb =
    (if unat inb \<le> length s then
       Some (case mbrtowc (take (unat inb) s) of MbChar w l \<Rightarrow> Code w l | MbNul \<Rightarrow> Code 0 1
             | MbIllegal \<Rightarrow> Ilseq | MbShort \<Rightarrow> Starved)
     else None)"

text \<open>\<open>WCHAR_T\<close> is read in the byte order of the machine, little endian.\<close>

definition decode_utf32 :: "u32 \<Rightarrow> u8 list \<Rightarrow> u32 \<Rightarrow> decoded option" where
  "decode_utf32 ty s inb =
    (if inb < 4 then Some Starved
     else do {
       c \<leftarrow> get_32 s (if ty = T_WCHAR_T then 3 else ty);
       Some (if c - 0xd800 < 0x800 \<or> 0x110000 \<le> c then Ilseq else Code c 4) })"

definition decode_utf16 :: "u32 \<Rightarrow> u8 list \<Rightarrow> u32 \<Rightarrow> decoded option" where
  "decode_utf16 ty s inb =
    (if inb < 2 then Some Starved
     else do {
       c \<leftarrow> get_16 s 0 ty;
       if c - 0xdc00 < 0x400 then Some Ilseq
       else if c - 0xd800 < 0x400 then
         (if ty - T_UCS2BE < 2 then Some Ilseq
          else if inb < 4 then Some Starved
          else do {
            d \<leftarrow> get_16 s 2 ty;
            Some (if 0x400 \<le> d - 0xdc00 then Ilseq
                  else Code (push_bit 10 (c - 0xd7c0) + (d - 0xdc00)) 4) })
       else Some (Code c 2) })"

definition decode_sjis :: "u32 \<Rightarrow> u8 list \<Rightarrow> u32 \<Rightarrow> decoded option" where
  "decode_sjis c s inb =
    (if c - 0xa1 \<le> 0xdf - 0xa1 then Some (Code (c + (0xff61 - 0xa1)) 1)
     else if inb < 2 then Some Starved
     else do {
       d0 \<leftarrow> rd s 1;
       let d = (ucast d0 :: u32);
       if \<not> (c - 129 \<le> 159 - 129) \<and> \<not> (c - 224 \<le> 239 - 224) then Some Ilseq
       else
         (let c1 = (if c - 129 \<le> 159 - 129 then c - 129 else c - 193) * 2 in
          if d - 64 \<le> 158 - 64 \<and> d = 127 then Some Ilseq
          else
            (let (c2, d2) =
               (if d - 64 \<le> 158 - 64 then (c1, (if 127 < d then d - 1 else d) - 64)
                else if d - 159 \<le> 252 - 159 then (c1 + 1, d - 159) else (c1, d)) in
             do { v \<leftarrow> tab2 jis0208 c2 d2; Some (code_or_ilseq v 2) })) })"

definition decode_eucjp :: "u32 \<Rightarrow> u8 list \<Rightarrow> u32 \<Rightarrow> decoded option" where
  "decode_eucjp c s inb =
    (if inb < 2 then Some Starved
     else do {
       d0 \<leftarrow> rd s 1;
       let d = (ucast d0 :: u32);
       if c = 0x8e then
         Some (if 0xdf - 0xa1 < d - 0xa1 then Ilseq else Code (d + (0xff61 - 0xa1)) 2)
       else if 84 \<le> c - 0xa1 \<or> 94 \<le> d - 0xa1 then Some Ilseq
       else do { v \<leftarrow> tab2 jis0208 (c - 0xa1) (d - 0xa1); Some (code_or_ilseq v 2) } })"

definition decode_gb4 :: "u32 \<Rightarrow> u32 \<Rightarrow> u8 list \<Rightarrow> decoded option" where
  "decode_gb4 c d s = do {
     e0 \<leftarrow> rd s 2;
     let e = (ucast e0 :: u32);
     if 126 < e - 0x81 then Some Ilseq
     else do {
       f0 \<leftarrow> rd s 3;
       let f = (ucast f0 :: u32);
       if 9 < f - 48 then Some Ilseq
       else do {
         r \<leftarrow> rank_loop (concat gb18030) 0 ((10 * c + d - 48) * 1260 + 10 * (e - 0x81) + (f - 48) + 128);
         Some (Code r 4) } } }"

definition decode_gb :: "u32 \<Rightarrow> u32 \<Rightarrow> u8 list \<Rightarrow> u32 \<Rightarrow> decoded option" where
  "decode_gb ty c0 s inb =
    (if ty = T_GB2312 \<and> c0 < 0xa1 then Some Ilseq
     else
       (let c = c0 - 0x81 in
        if 126 \<le> c then Some Ilseq
        else if inb < 2 then Some Starved
        else do {
          d0 \<leftarrow> rd s 1;
          let d = (ucast d0 :: u32);
          if d < 0xa1 \<and> ty = T_GB2312 then Some Ilseq
          else if 191 \<le> d - 0x40 \<or> d = 127 then
            (if 9 < d - 48 \<or> ty \<noteq> T_GB18030 then Some Ilseq
             else if inb < 4 then Some Starved
             else decode_gb4 c d s)
          else do {
            v \<leftarrow> tab2 gb18030 c (if 63 < d - 0x40 then d - 0x40 - 1 else d - 0x40);
            Some (Code v 2) } }))"

definition decode_hkscs :: "u32 \<Rightarrow> u32 \<Rightarrow> decoded option" where
  "decode_hkscs c0 d =
    (if 0xff - 0x87 \<le> c0 - 0x87 then Some Ilseq
     else
       (let c = (if c0 < 0xa1 then c0 - 0x87 else c0 - (0x87 + (0xfa - 0xa1))); i = c * 157 + d in do {
          b \<leftarrow> rd hkscs (4867 + unat (i div 16));
          v \<leftarrow> rd hkscs (unat i);
          let w = push_bit 17 (drop_bit (unat (i mod 16)) (ucast b) AND 1) OR (ucast v :: u32);
          Some (if w div 256 = 0xdc then Pair w 2 else code_or_ilseq w 2) }))"

definition decode_big5 :: "u32 \<Rightarrow> u8 list \<Rightarrow> u32 \<Rightarrow> decoded option" where
  "decode_big5 c s inb =
    (if inb < 2 then Some Starved
     else do {
       d0 \<leftarrow> rd s 1;
       let d = (ucast d0 :: u32);
       if 0xff - 0x40 \<le> d - 0x40 \<or> d - 0x7f < 0xa1 - 0x7f then Some Ilseq
       else
         (let d2 = (if 0x3e < d - 0x40 then d - 0x40 - 0x22 else d - 0x40) in
          if 0xfa - 0xa1 \<le> c - 0xa1 then decode_hkscs c d2
          else do {
            v \<leftarrow> tab2 big5 (c - 0xa1) d2;
            Some (code_or_ilseq
              (v OR (if c - 0xa1 = 0x27 \<and> (d2 = 0x3a \<or> d2 = 0x3c \<or> d2 = 0x42) then push_bit 17 1 else 0)) 2) }) })"

definition decode_euckr :: "u32 \<Rightarrow> u8 list \<Rightarrow> u32 \<Rightarrow> decoded option" where
  "decode_euckr c0 s inb =
    (if inb < 2 then Some Starved
     else do {
       d0 \<leftarrow> rd s 1;
       let c = c0 - 0xa1;
       let d = (ucast d0 :: u32) - 0xa1;
       if 93 \<le> c \<or> 94 \<le> d then
         (let c1 = c + (0xa1 - 0x81); d1 = d + 0xa1 in
          if 93 \<le> c1 \<or> (0xc6 - 0x81 \<le> c1 \<and> 0x52 < d1) then Some Ilseq
          else if \<not> (d1 - 65 < 26) \<and> \<not> (d1 - 97 < 26) \<and> \<not> (d1 - 0x81 < 0xff - 0x81) then Some Ilseq
          else
            (let d2 = (if d1 - 65 < 26 then d1 - 65 else if d1 - 97 < 26 then d1 - 97 + 26 else d1 - 0x81 + 52);
                 c2 = (if c1 < 0x20 then 178 * c1 + d2 else 178 * 0x20 + 84 * (c1 - 0x20) + d2) in
             do { r \<leftarrow> rank_loop (concat ksc) 0xac00 (c2 + 0xac00); Some (Code r 2) }))
       else do { v \<leftarrow> tab2 ksc c d; Some (code_or_ilseq v 2) } })"

text \<open>
  The index of a code page for the position \<open>c\<close>: ten bits, packed, then the look-up (lines 403 and 438).
  \<open>base\<close> is the position of \<open>map\<close> in \<open>charmaps\<close>.
\<close>

definition legacy_index :: "nat \<Rightarrow> u32 \<Rightarrow> u32 option" where
  "legacy_index base c = do {
     b0 \<leftarrow> rd charmaps (base + unat (c * 5 div 4));
     b1 \<leftarrow> rd charmaps (base + unat (c * 5 div 4 + 1));
     Some (drop_bit (unat (2 * c mod 8)) (ucast b0) OR
           (push_bit (unat (8 - 2 * c mod 8)) (ucast b1) AND 1023)) }"

definition legacy_char :: "nat \<Rightarrow> u32 \<Rightarrow> u32 option" where
  "legacy_char base c = do { i \<leftarrow> legacy_index base c; v \<leftarrow> rd legacy_chars (unat i); Some (ucast v) }"

definition decode_legacy :: "u32 \<Rightarrow> nat \<Rightarrow> u32 \<Rightarrow> decoded option" where
  "decode_legacy ty base c =
    (if c < 128 + ty then Some (Code c 1)
     else do {
       v \<leftarrow> legacy_char base (c - (128 + ty));
       let w = (if v = 0 then c else v);
       Some (if w = 1 then Ilseq else Code w 1) })"

definition iconv_decode :: "u32 \<Rightarrow> nat \<Rightarrow> u8 list \<Rightarrow> u32 \<Rightarrow> decoded option" where
  "iconv_decode ty base s inb = do {
     c0 \<leftarrow> rd s 0;
     let c = (ucast c0 :: u32);
     if 128 \<le> c \<or> ty - T_UTF_32BE < 7 then
       (if ty = T_UTF_8 then decode_utf8 s inb
        else if ty = T_US_ASCII then Some Ilseq
        else if ty = T_WCHAR_T \<or> ty = T_UTF_32BE \<or> ty = T_UTF_32LE then decode_utf32 ty s inb
        else if ty = T_UCS2BE \<or> ty = T_UCS2LE \<or> ty = T_UTF_16BE \<or> ty = T_UTF_16LE then decode_utf16 ty s inb
        else if ty = T_SHIFT_JIS then decode_sjis c s inb
        else if ty = T_EUC_JP then decode_eucjp c s inb
        else if ty = T_GB2312 \<or> ty = T_GBK \<or> ty = T_GB18030 then decode_gb ty c s inb
        else if ty = T_BIG5 then decode_big5 c s inb
        else if ty = T_EUC_KR then decode_euckr c s inb
        else decode_legacy ty base c)
     else Some (Code c 1) }"

end
