(* ===== verification/Iconv.thy ===== *)
theory Iconv
  imports IconvCodec
begin

unbundle bit_operations_syntax

text \<open>
  \<open>iconv/iconv.c\<close>, \<open>iconv()\<close>, lines 190 to 488: the loop over the characters and the \<open>switch (totype)\<close>
  that stores one. The state holds what the loop changes through its pointer arguments: \<open>*in\<close>, \<open>*inb\<close>,
  \<open>*out\<close>, \<open>*outb\<close>, the destination bytes, and the count \<open>x\<close>. \<open>*out\<close> is an integer because
  \<open>*out += k\<close> with \<open>k = (size_t)-1\<close> moves it back by one.
\<close>

record conv =
  cv_in :: nat
  cv_inb :: u32
  cv_dst :: "u8 list"
  cv_out :: int
  cv_outb :: u32
  cv_x :: u32

section \<open>Storing one character\<close>

datatype emitted = Emitted conv | TooBig conv

definition store :: "u8 list \<Rightarrow> int \<Rightarrow> u8 list \<Rightarrow> u8 list option" where
  "store dst p bs = (if 0 \<le> p \<and> p + int (length bs) \<le> int (length dst) then Some (patch dst (nat p) bs) else None)"

definition put_bytes :: "u8 list \<Rightarrow> conv \<Rightarrow> emitted option" where
  "put_bytes bs st =
    (if cv_outb st < word_of_nat (length bs) then Some (TooBig st)
     else do {
       d \<leftarrow> store (cv_dst st) (cv_out st) bs;
       Some (Emitted (st\<lparr>cv_dst := d, cv_out := cv_out st + int (length bs),
                         cv_outb := cv_outb st - word_of_nat (length bs)\<rparr>)) })"

text \<open>
  The UTF-8 case: with less than four bytes left the character goes through \<open>tmp\<close>. When \<open>wctomb\<close>
  returns -1 nothing is stored; \<open>k\<close> is then the largest \<open>size_t\<close>, which is too much for a small rest,
  and otherwise moves \<open>*out\<close> back and \<open>*outb\<close> up.
\<close>

definition emit_utf8 :: "u32 \<Rightarrow> conv \<Rightarrow> emitted option" where
  "emit_utf8 c st =
    (case wcrtomb_s c of
       Some bs \<Rightarrow> put_bytes bs st
     | None \<Rightarrow> if cv_outb st < 4 then Some (TooBig st)
               else Some (Emitted (st\<lparr>cv_out := cv_out st - 1, cv_outb := cv_outb st + 1\<rparr>)))"

definition emit_utf16 :: "u32 \<Rightarrow> u32 \<Rightarrow> u32 \<Rightarrow> conv \<Rightarrow> emitted option" where
  "emit_utf16 ty tt c st =
    (if c < 0x10000 \<or> ty - T_UCS2BE < 2 then
       put_bytes (put_16 (if 0x10000 \<le> c then 0xfffd else c) tt) st
     else
       (let d = c - 0x10000 in
        put_bytes (put_16 (drop_bit 10 d OR 0xd800) tt @ put_16 ((d AND 0x3ff) OR 0xdc00) tt) st))"

lemma upto_measure: "c < n \<Longrightarrow> unat n - unat (c + 1) < unat n - unat (c :: 'a::len word)"
  using unat_inc_less [of c n] by (simp add: word_less_nat_alt)

function legacy_search :: "nat \<Rightarrow> u32 \<Rightarrow> u32 \<Rightarrow> u32 \<Rightarrow> u32 option option" where
  "legacy_search base d c n =
    (if c < n then do {
       v \<leftarrow> legacy_char base c;
       if d = v then Some (Some c) else legacy_search base d (c + 1) n }
     else Some None)"
  by pat_completeness auto
termination
  by (relation "measure (\<lambda>(base, d, c, n). unat n - unat c)")
    (auto intro: upto_measure)

declare legacy_search.simps [simp del]

text \<open>\<open>US_ASCII\<close> and the code pages; the substitute for what the target cannot hold is an asterisk.\<close>

definition emit_byte :: "u32 \<Rightarrow> nat \<Rightarrow> u32 \<Rightarrow> conv \<Rightarrow> emitted option" where
  "emit_byte tt tobase c0 st0 =
    (let subst = tt = T_US_ASCII \<and> 0x7f < c0;
         c = (if subst then 42 else c0); st = (if subst then st0\<lparr>cv_x := cv_x st0 + 1\<rparr> else st0) in
     if cv_outb st < 1 then Some (TooBig st)
     else if c < 128 + tt then put_bytes [ucast c] st
     else do {
       r \<leftarrow> legacy_search tobase c 0 (128 - tt);
       case r of Some i \<Rightarrow> put_bytes [ucast (i + 128)] st
       | None \<Rightarrow> put_bytes [42] (st\<lparr>cv_x := cv_x st + 1\<rparr>) })"

definition iconv_emit :: "u32 \<Rightarrow> u32 \<Rightarrow> nat \<Rightarrow> u32 \<Rightarrow> conv \<Rightarrow> emitted option" where
  "iconv_emit ty tt tobase c st =
    (if tt = T_WCHAR_T then put_bytes (put_32 c 3) st
     else if tt = T_UTF_8 then emit_utf8 c st
     else if tt = T_UCS2BE \<or> tt = T_UCS2LE \<or> tt = T_UTF_16BE \<or> tt = T_UTF_16LE then emit_utf16 ty tt c st
     else if tt = T_UTF_32BE \<or> tt = T_UTF_32LE then put_bytes (put_32 c tt) st
     else emit_byte tt tobase c st)"

section \<open>The loop\<close>

datatype conv_end = Done | Failed iconv_error

text \<open>The characters of HKSCS that are two code points, as the code keeps them: UTF-8, four bytes each.\<close>

definition hkscs_pairs :: "u8 list" where
  "hkscs_pairs = [0xc3, 0x8a, 0xcc, 0x84, 0xc3, 0x8a, 0xcc, 0x8c, 0xc3, 0xaa, 0xcc, 0x84, 0xc3, 0xaa, 0xcc, 0x8c, 0]"

definition pair_room :: "u32 \<Rightarrow> u32" where
  "pair_room tt = (if 8 < tt - T_UTF_32BE then 2
                   else [8, 4, 4, 8, 4, 4, 8, 2, 4] ! unat (tt - T_UTF_32BE))"

text \<open>
  \<open>None\<close>: an access outside an object, or no end. The recursive call for a pair passes the descriptor
  \<open>to\<close>, whose upper half, the source, is 0.
\<close>

partial_function (option) iconv_loop ::
  "nat \<Rightarrow> nat \<Rightarrow> u8 list \<Rightarrow> conv \<Rightarrow> (conv_end \<times> conv) option" where
  "iconv_loop frm to src st =
    (if cv_inb st = 0 then Some (Done, st)
     else Option.bind (rd charmaps frm) (\<lambda>ty.
       Option.bind (rd charmaps to) (\<lambda>tt.
       Option.bind (iconv_decode (ucast ty) (frm + 1) (drop (cv_in st) src) (cv_inb st)) (\<lambda>r.
       case r of
         Ilseq \<Rightarrow> Some (Failed EILSEQ, st)
       | Starved \<Rightarrow> Some (Failed EINVAL, st)
       | Pair c l \<Rightarrow>
           if cv_outb st < pair_room (ucast tt) then Some (Failed E2BIG, st)
           else Option.bind (iconv_loop 0 to (drop (unat (c mod 256)) hkscs_pairs)
                  (st\<lparr>cv_in := 0, cv_inb := 4, cv_x := 0\<rparr>)) (\<lambda>(e, st').
             iconv_loop frm to src
               (st\<lparr>cv_in := cv_in st + l, cv_inb := cv_inb st - word_of_nat l,
                   cv_dst := cv_dst st', cv_out := cv_out st', cv_outb := cv_outb st',
                   cv_x := cv_x st + (if e = Done then cv_x st' else - 1)\<rparr>))
       | Code c l \<Rightarrow>
           Option.bind (iconv_emit (ucast ty) (ucast tt) (to + 1) c st) (\<lambda>q.
             case q of
               TooBig st' \<Rightarrow> Some (Failed E2BIG, st')
             | Emitted st' \<Rightarrow>
                 iconv_loop frm to src
                   (st'\<lparr>cv_in := cv_in st' + l, cv_inb := cv_inb st' - word_of_nat l\<rparr>))))))"

text \<open>\<open>iconv(cd, in, inb, out, outb)\<close> on non-null pointers: the result, \<open>errno\<close> when it is -1, the state.\<close>

definition iconv :: "u32 \<Rightarrow> u8 list \<Rightarrow> conv \<Rightarrow> (u32 \<times> iconv_error option \<times> conv) option" where
  "iconv cd src st = do {
     (e, st') \<leftarrow> iconv_loop (unat (drop_bit 16 cd)) (unat (cd AND 0xffff)) src (st\<lparr>cv_x := 0\<rparr>);
     Some (case e of Done \<Rightarrow> (cv_x st', None, st') | Failed err \<Rightarrow> (- 1, Some err, st')) }"

end
