(* ===== verification/Utf8Codec.thy ===== *)
theory Utf8Codec
  imports IconvCodec
begin

unbundle bit_operations_syntax

text \<open>
  The two UTF-8 routines of \<open>iconv\<close> (\<open>wcrtomb_s\<close> and the library's \<open>mbrtowc\<close>) read as arithmetic, and
  that they are inverse to each other on exactly the Unicode scalar values.
\<close>

section \<open>Bytes as numbers\<close>

lemma unat_tagged:
  assumes "unat x < 2 ^ k" "2 ^ k dvd unat (t :: u32)" "unat t + 2 ^ k \<le> 256"
  shows "unat (ucast (t OR x) :: u8) = unat t + unat x"
  using assms unat_or_plus [OF assms(1,2)] by (simp add: unat_ucast_mod)

lemma unat_cont_of: "unat (ucast (0x80 OR (x AND 0x3f)) :: u8) = 128 + unat (x :: u32) mod 64"
  by (subst unat_tagged [where k = 6]) (simp_all add: unat_and_masks)

lemma unat_lead2: "unat c < 0x800 \<Longrightarrow> unat (ucast (0xc0 OR drop_bit 6 c) :: u8) = 192 + unat (c :: u32) div 64"
  by (subst unat_tagged [where k = 5]) (simp_all add: unat_drop_bit_div)

lemma unat_lead3: "unat c < 0x10000 \<Longrightarrow> unat (ucast (0xe0 OR drop_bit 12 c) :: u8) = 224 + unat (c :: u32) div 4096"
  by (subst unat_tagged [where k = 4]) (simp_all add: unat_drop_bit_div)

lemma unat_lead4: "unat c < 0x200000 \<Longrightarrow> unat (ucast (0xf0 OR drop_bit 18 c) :: u8) = 240 + unat (c :: u32) div 262144"
  by (subst unat_tagged [where k = 3]) (simp_all add: unat_drop_bit_div)

lemma unat_mb6 [simp]: "unat (mb6 b) = unat b mod 64"
  by (simp add: mb6_def unat_and_masks)

lemma unat_shifted:
  assumes "unat (x :: u32) < 64" "j \<le> 18"
  shows "unat (push_bit j x) = unat x * 2 ^ j"
proof (rule unat_push_bit_small)
  have "unat x * 2 ^ j < 64 * 2 ^ j" using assms(1) by simp
  also have "\<dots> \<le> 64 * 2 ^ 18" using assms(2) by (intro mult_left_mono power_increasing) simp_all
  finally show "unat x * 2 ^ j < 2 ^ LENGTH(32)" by simp
qed

lemma unat_utf2:
  "unat (push_bit 6 (ucast ((a :: u8) AND 0x1f)) OR mb6 b) = unat a mod 32 * 64 + unat b mod 64"
proof -
  have "unat a mod 32 < 64" using mod_less_divisor [of 32 "unat a"] by linarith
  then have "unat (push_bit 6 (ucast (a AND 0x1f) :: u32)) = unat a mod 32 * 2 ^ 6"
    by (subst unat_shifted) (simp_all add: unat_and_masks)
  then show ?thesis by (subst unat_or_plus [where k = 6]) simp_all
qed

lemma unat_utf3:
  "unat (push_bit 12 (ucast ((a :: u8) AND 0x0f)) OR push_bit 6 (mb6 b) OR mb6 c) =
    unat a mod 16 * 4096 + unat b mod 64 * 64 + unat c mod 64"
proof -
  have a: "unat a mod 16 < 64" using mod_less_divisor [of 16 "unat a"] by linarith
  have A: "unat (push_bit 12 (ucast (a AND 0x0f) :: u32)) = unat a mod 16 * 2 ^ 12"
    using a by (subst unat_shifted) (simp_all add: unat_and_masks)
  have B: "unat (push_bit 6 (mb6 b)) = unat b mod 64 * 2 ^ 6" by (subst unat_shifted) simp_all
  have BC: "unat (push_bit 6 (mb6 b) OR mb6 c) = unat b mod 64 * 2 ^ 6 + unat c mod 64"
    using B by (subst unat_or_plus [where k = 6]) simp_all
  have "unat b mod 64 < 64" "unat c mod 64 < 64" by simp_all
  then have "unat b mod 64 * 64 + unat c mod 64 < 4096" by linarith
  then show ?thesis using A BC by (subst unat_or_plus [where k = 12]) simp_all
qed

lemma unat_utf4:
  "unat (push_bit 18 (ucast ((a :: u8) AND 0x07)) OR push_bit 12 (mb6 b) OR push_bit 6 (mb6 c) OR mb6 d) =
    unat a mod 8 * 262144 + unat b mod 64 * 4096 + unat c mod 64 * 64 + unat d mod 64"
proof -
  have a: "unat a mod 8 < 64" using mod_less_divisor [of 8 "unat a"] by linarith
  have A: "unat (push_bit 18 (ucast (a AND 0x07) :: u32)) = unat a mod 8 * 2 ^ 18"
    using a by (subst unat_shifted) (simp_all add: unat_and_masks)
  have B: "unat (push_bit 12 (mb6 b)) = unat b mod 64 * 2 ^ 12" by (subst unat_shifted) simp_all
  have C: "unat (push_bit 6 (mb6 c)) = unat c mod 64 * 2 ^ 6" by (subst unat_shifted) simp_all
  have CD: "unat (push_bit 6 (mb6 c) OR mb6 d) = unat c mod 64 * 2 ^ 6 + unat d mod 64"
    using C by (subst unat_or_plus [where k = 6]) simp_all
  have m: "unat b mod 64 < 64" "unat c mod 64 < 64" "unat d mod 64 < 64" by simp_all
  then have "unat c mod 64 * 64 + unat d mod 64 < 4096" by linarith
  then have BCD: "unat (push_bit 12 (mb6 b) OR push_bit 6 (mb6 c) OR mb6 d) =
    unat b mod 64 * 2 ^ 12 + (unat c mod 64 * 2 ^ 6 + unat d mod 64)"
    using B CD by (subst unat_or_plus [where k = 12]) simp_all
  have "unat b mod 64 * 4096 + (unat c mod 64 * 64 + unat d mod 64) < 262144" using m by linarith
  then show ?thesis using A BCD by (subst unat_or_plus [where k = 18]) simp_all
qed

section \<open>The routines on numbers\<close>

definition scalar :: "u32 \<Rightarrow> bool" where
  "scalar c \<longleftrightarrow> unat c < 0xd800 \<or> (0xe000 \<le> unat c \<and> unat c < 0x110000)"

lemma word_window:
  fixes c :: u32
  assumes "unat lo + unat n \<le> 2 ^ 32"
  shows "c - lo < n \<longleftrightarrow> unat lo \<le> unat c \<and> unat c < unat lo + unat n"
proof -
  have "unat c < 2 ^ 32" using unsigned_less [of c, where 'a = nat] by simp
  then show ?thesis using assms by (auto simp: word_less_nat_alt unat_sub_if_size word_size)
qed

lemma wcrtomb_s_unat:
  "wcrtomb_s c =
    (if unat c < 0x80 then Some [ucast c]
     else if unat c < 0x800 then Some [ucast (0xc0 OR drop_bit 6 c), ucast (0x80 OR (c AND 0x3f))]
     else if unat c < 0xd800 \<or> (0xe000 \<le> unat c \<and> unat c < 0x10000) then
       Some [ucast (0xe0 OR drop_bit 12 c), ucast (0x80 OR (drop_bit 6 c AND 0x3f)), ucast (0x80 OR (c AND 0x3f))]
     else if 0x10000 \<le> unat c \<and> unat c < 0x110000 then
       Some [ucast (0xf0 OR drop_bit 18 c), ucast (0x80 OR (drop_bit 12 c AND 0x3f)),
             ucast (0x80 OR (drop_bit 6 c AND 0x3f)), ucast (0x80 OR (c AND 0x3f))]
     else None)"
  unfolding wcrtomb_s_def by (simp add: word_window word_less_nat_alt [of c])

text \<open>
  \<open>wcrtomb_s\<close> refuses (returns -1 for) exactly the values that are not Unicode scalar values:
  the surrogates and everything from 0x110000 on; otherwise it stores one to four bytes.
\<close>

theorem wcrtomb_s_scalar:
  "(wcrtomb_s c = None \<longleftrightarrow> \<not> scalar c) \<and>
   (case wcrtomb_s c of None \<Rightarrow> True | Some bs \<Rightarrow> 0 < length bs \<and> length bs \<le> 4)"
  by (auto simp: wcrtomb_s_unat scalar_def)

lemma wcrtomb_length: "wcrtomb_s c = Some bs \<Longrightarrow> 0 < length bs \<and> length bs \<le> 4"
  by (auto simp: wcrtomb_s_unat split: if_splits)

lemma wcrtomb_None: "wcrtomb_s c = None \<longleftrightarrow> \<not> scalar c"
  by (auto simp: wcrtomb_s_unat scalar_def)

section \<open>The round trips\<close>

lemma byte_eq_iff: "(a :: u8) = numeral n \<longleftrightarrow> unat a = unat (numeral n :: u8)"
  by (rule word_unat_eq_iff)

lemma mb_second_unat:
  "mb_second a b \<longleftrightarrow> (if unat a = 224 then 160 else if unat a = 240 then 144 else 128) \<le> unat b \<and>
    unat b \<le> (if unat a = 237 then 159 else if unat a = 244 then 143 else 191)"
  by (simp add: mb_second_def byte_eq_iff word_le_nat_alt)

lemma mb_cont_unat: "mb_cont b \<longleftrightarrow> 128 \<le> unat b \<and> unat b < 192"
  by (simp add: mb_cont_def word_le_nat_alt word_less_nat_alt)

lemmas byte_order = word_le_nat_alt [where 'a = 8] word_less_nat_alt [where 'a = 8]

lemma mbrtowc2:
  assumes "194 \<le> unat a" "unat a < 224" "mb_cont b"
  shows "mbrtowc (a # b # s) = MbChar (push_bit 6 (ucast (a AND 0x1f)) OR mb6 b) 2"
  using assms by (auto simp: byte_order byte_eq_iff mb_second_unat mb_cont_unat)

lemma mbrtowc3:
  assumes "224 \<le> unat a" "unat a < 240" "mb_second a b" "mb_cont c"
  shows "mbrtowc (a # b # c # s) = MbChar (push_bit 12 (ucast (a AND 0x0f)) OR push_bit 6 (mb6 b) OR mb6 c) 3"
  using assms by (auto simp: byte_order byte_eq_iff)

lemma mbrtowc4:
  assumes "240 \<le> unat a" "unat a < 245" "mb_second a b" "mb_cont c" "mb_cont d"
  shows "mbrtowc (a # b # c # d # s) =
    MbChar (push_bit 18 (ucast (a AND 0x07)) OR push_bit 12 (mb6 b) OR push_bit 6 (mb6 c) OR mb6 d) 4"
  using assms by (auto simp: byte_order byte_eq_iff)

lemma wcrtomb_mbrtowc:
  assumes "wcrtomb_s c = Some bs" "c \<noteq> 0"
  shows "mbrtowc (bs @ rest) = MbChar c (length bs)"
proof -
  let ?n = "unat c"
  have c0: "?n \<noteq> 0" using assms(2) by (simp add: unat_eq_0)
  have cont [simp]: "mb_cont (ucast (0x80 OR (x AND 0x3f)))" for x :: u32
    by (simp add: mb_cont_unat unat_cont_of)
  have m [simp]: "(128 + k mod 64) mod 64 = k mod 64" for k :: nat
    using mod_mult_self3 [of 2 64 "k mod 64"] by simp
  have pow: "(2 :: nat) ^ 6 = 64" "(2 :: nat) ^ 12 = 4096" by simp_all
  note val = word_unat_eq_iff [THEN iffD2]
  consider (one) "?n < 0x80" "bs = [ucast c]"
    | (two) "0x80 \<le> ?n" "?n < 0x800" "bs = [ucast (0xc0 OR drop_bit 6 c), ucast (0x80 OR (c AND 0x3f))]"
    | (three) "0x800 \<le> ?n" "?n < 0xd800 \<or> 0xe000 \<le> ?n \<and> ?n < 0x10000"
        "bs = [ucast (0xe0 OR drop_bit 12 c), ucast (0x80 OR (drop_bit 6 c AND 0x3f)), ucast (0x80 OR (c AND 0x3f))]"
    | (four) "0x10000 \<le> ?n" "?n < 0x110000"
        "bs = [ucast (0xf0 OR drop_bit 18 c), ucast (0x80 OR (drop_bit 12 c AND 0x3f)),
               ucast (0x80 OR (drop_bit 6 c AND 0x3f)), ucast (0x80 OR (c AND 0x3f))]"
    using assms(1) by (auto simp: wcrtomb_s_unat not_less split: if_splits)
  then show ?thesis
  proof cases
    case one
    have u: "unat (ucast c :: u8) = ?n" using one by (intro unat_ucast_small) simp
    then have "(ucast (ucast c :: u8) :: u32) = c" by (intro val) simp
    moreover have "(ucast c :: u8) \<noteq> 0" using u c0 by (metis unat_0)
    ultimately show ?thesis using one u by (simp add: byte_order)
  next
    case two
    let ?a = "ucast (0xc0 OR drop_bit 6 c) :: u8"
    have a: "unat ?a = 192 + ?n div 64" using two by (intro unat_lead2) simp
    have q: "2 \<le> ?n div 64" "?n div 64 < 32" using two(1,2) by linarith+
    have "(192 + ?n div 64) mod 32 = ?n div 64" using q mod_mult_self3 [of 6 32 "?n div 64"] by simp
    then have "push_bit 6 (ucast (?a AND 0x1f)) OR mb6 (ucast (0x80 OR (c AND 0x3f))) = c"
      using sextets_join(1) [of ?n] by (intro val) (simp only: unat_utf2 a unat_cont_of m)
    then show ?thesis using two(3) a q mbrtowc2 [of ?a] by simp
  next
    case three
    let ?a = "ucast (0xe0 OR drop_bit 12 c) :: u8"
    have a: "unat ?a = 224 + ?n div 4096" using three by (intro unat_lead3) linarith
    have q: "?n div 4096 < 16" using three(2) by linarith
    have 2: "?n div 64 div 64 = ?n div 4096" by (simp add: div_mult2_eq [symmetric])
    have "mb_second ?a (ucast (0x80 OR (drop_bit 6 c AND 0x3f)))"
      using three(1,2) div_mult_mod_eq [of "?n div 64" 64] q
      by (simp only: mb_second_unat a unat_cont_of unat_drop_bit_div) (simp add: 2, linarith)
    moreover have "(224 + ?n div 4096) mod 16 = ?n div 4096" using q mod_mult_self3 [of 14 16 "?n div 4096"] by simp
    then have "push_bit 12 (ucast (?a AND 0x0f)) OR push_bit 6 (mb6 (ucast (0x80 OR (drop_bit 6 c AND 0x3f)))) OR
      mb6 (ucast (0x80 OR (c AND 0x3f))) = c"
      using sextets_join(2) [of ?n] by (intro val) (simp only: unat_utf3 a unat_cont_of m unat_drop_bit_div pow)
    ultimately show ?thesis using three(3) a q mbrtowc3 [of ?a] by simp
  next
    case four
    let ?a = "ucast (0xf0 OR drop_bit 18 c) :: u8"
    have a: "unat ?a = 240 + ?n div 262144" using four by (intro unat_lead4) linarith
    have q: "?n div 262144 < 5" using four(2) by linarith
    have 2: "?n div 4096 div 64 = ?n div 262144" by (simp add: div_mult2_eq [symmetric])
    have "mb_second ?a (ucast (0x80 OR (drop_bit 12 c AND 0x3f)))"
      using four(1,2) div_mult_mod_eq [of "?n div 4096" 64] q
      by (simp only: mb_second_unat a unat_cont_of unat_drop_bit_div) (simp add: 2, linarith)
    moreover have "(240 + ?n div 262144) mod 8 = ?n div 262144" using q mod_mult_self3 [of 30 8 "?n div 262144"] by simp
    then have "push_bit 18 (ucast (?a AND 0x07)) OR push_bit 12 (mb6 (ucast (0x80 OR (drop_bit 12 c AND 0x3f)))) OR
      push_bit 6 (mb6 (ucast (0x80 OR (drop_bit 6 c AND 0x3f)))) OR mb6 (ucast (0x80 OR (c AND 0x3f))) = c"
      using sextets_join(3) [of ?n] by (intro val) (simp only: unat_utf4 a unat_cont_of m unat_drop_bit_div pow)
    ultimately show ?thesis using four(3) a q mbrtowc4 [of ?a] by simp
  qed
qed

text \<open>The units that \<open>mbrtowc\<close> accepts.\<close>

lemma mbrtowc_cases:
  assumes "mbrtowc s = MbChar c l"
  obtains (one) a t where "s = a # t" "0 < unat a" "unat a < 128" "c = ucast a" "l = 1"
    | (two) a b t where "s = a # b # t" "194 \<le> unat a" "unat a < 224" "mb_cont b"
        "c = push_bit 6 (ucast (a AND 0x1f)) OR mb6 b" "l = 2"
    | (three) a b d t where "s = a # b # d # t" "224 \<le> unat a" "unat a < 240" "mb_second a b" "mb_cont d"
        "c = push_bit 12 (ucast (a AND 0x0f)) OR push_bit 6 (mb6 b) OR mb6 d" "l = 3"
    | (four) a b d e t where "s = a # b # d # e # t" "240 \<le> unat a" "unat a < 245" "mb_second a b" "mb_cont d" "mb_cont e"
        "c = push_bit 18 (ucast (a AND 0x07)) OR push_bit 12 (mb6 b) OR push_bit 6 (mb6 d) OR mb6 e" "l = 4"
proof -
  obtain a t where s: "s = a # t" using assms by (cases s) auto
  have a0: "a \<noteq> 0 \<Longrightarrow> 0 < unat a" by (simp add: unat_gt_0)
  have cont: "mb_second a b \<Longrightarrow> unat a < 224 \<Longrightarrow> mb_cont b" for b
    by (simp add: mb_second_unat mb_cont_unat)
  show thesis
  proof (cases "unat a < 128")
    case True
    then show thesis using assms one s a0 by (auto simp: byte_order split: if_splits)
  next
    case False
    then have lead: "194 \<le> unat a" "unat a < 245" using assms by (auto simp: s byte_order split: if_splits)
    then obtain b t1 where t: "t = b # t1" "mb_second a b"
      using assms False by (cases t) (auto simp: s byte_order split: if_splits)
    show thesis
    proof (cases "unat a < 224")
      case True
      then show thesis using assms two s t lead cont False by (auto simp: byte_order byte_eq_iff split: if_splits)
    next
      case a224: False
      then obtain d t2 where t1: "t1 = d # t2" "mb_cont d"
        using assms False lead by (cases t1) (auto simp: s t byte_order byte_eq_iff split: if_splits)
      show thesis
      proof (cases "unat a < 240")
        case True
        then show thesis using assms three s t t1 lead a224 False by (auto simp: byte_order byte_eq_iff split: if_splits)
      next
        case a240: False
        then obtain e t3 where t2: "t2 = e # t3" "mb_cont e"
          using assms False lead a224 by (cases t2) (auto simp: s t t1 byte_order byte_eq_iff split: if_splits)
        then show thesis using assms four s t t1 lead a224 a240 False by (auto simp: byte_order byte_eq_iff split: if_splits)
      qed
    qed
  qed
qed

lemma cont_mod: "128 \<le> n \<Longrightarrow> n < 192 \<Longrightarrow> n = 128 + n mod (64 :: nat)"
  using mod_mult_self3 [of 2 64 "n - 128"] by simp

lemma cont_value: "mb_cont b \<Longrightarrow> unat b = 128 + unat b mod 64"
  by (simp add: mb_cont_unat cont_mod)

lemma second_value: "mb_second a b \<Longrightarrow> unat b = 128 + unat b mod 64"
  by (rule cont_value) (auto simp: mb_second_unat mb_cont_unat split: if_splits)

lemma mbrtowc_scalar:
  assumes "mbrtowc s = MbChar c l"
  shows "scalar c \<and> wcrtomb_s c = Some (take l s) \<and> 0 < l \<and> l \<le> length s \<and> c \<noteq> 0"
  using assms
proof (cases rule: mbrtowc_cases)
  case (one a t)
  then have n: "unat c = unat a" "(ucast c :: u8) = a"
    by (simp_all add: word_unat_eq_iff unat_ucast_mod)
  then have "c \<noteq> 0" using one by (metis unat_0 less_numeral_extra(3))
  then show ?thesis using one n by (simp add: scalar_def wcrtomb_s_unat)
next
  case (two a b t)
  have am: "unat a mod 32 = unat a - 192" using mod_mult_self3 [of 6 32 "unat a - 192"] two(2,3) by simp
  have n: "unat c = (unat a - 192) * 64 + unat b mod 64" using two(5) am by (simp only: unat_utf2)
  have b: "unat b mod 64 < 64" by simp
  have q: "unat c div 64 = unat a - 192" "unat c mod 64 = unat b mod 64" using n b by simp_all
  have r: "0x80 \<le> unat c" "unat c < 0x800" using n b two(2,3) by linarith+
  have "ucast (0xc0 OR drop_bit 6 c) = a"
    using two(2) r by (intro word_unat_eq_iff [THEN iffD2]) (simp add: unat_lead2 q)
  moreover have "ucast (0x80 OR (c AND 0x3f)) = b"
    using cont_value [OF two(4)] by (intro word_unat_eq_iff [THEN iffD2]) (simp only: unat_cont_of q)
  moreover have "c \<noteq> 0" using r by auto
  ultimately show ?thesis using r two by (simp add: scalar_def wcrtomb_s_unat)
next
  case (three a b d t)
  have am: "unat a mod 16 = unat a - 224" using mod_mult_self3 [of 14 16 "unat a - 224"] three(2,3) by simp
  have n: "unat c = (unat a - 224) * 4096 + unat b mod 64 * 64 + unat d mod 64"
    using three(6) am by (simp only: unat_utf3)
  have bd: "unat b mod 64 < 64" "unat d mod 64 < 64" by simp_all
  note q = sextets(1-3) [OF bd, of "unat a - 224", folded n]
  have sv: "unat b = 128 + unat b mod 64" by (rule second_value [OF three(4)])
  have snd: "unat a = 224 \<Longrightarrow> 160 \<le> unat b" "unat a = 237 \<Longrightarrow> unat b \<le> 159"
    using three(4) by (simp_all add: mb_second_unat)
  have r1: "0x800 \<le> unat c" using n bd sv snd(1) three(2) by (cases "unat a = 224") auto
  have r2: "unat c < 0xd800 \<or> 0xe000 \<le> unat c \<and> unat c < 0x10000"
  proof -
    have "unat c < 0xd800" if "unat a \<le> 236" using that n bd three(2) by linarith
    moreover have "unat c < 0xd800" if "unat a = 237" using that n bd sv snd(2) by linarith
    moreover have "0xe000 \<le> unat c \<and> unat c < 0x10000" if "238 \<le> unat a"
      using that n bd three(3) by (intro conjI) linarith+
    ultimately show ?thesis by linarith
  qed
  note r = r1 r2
  have "ucast (0xe0 OR drop_bit 12 c) = a"
    using three(2) r by (intro word_unat_eq_iff [THEN iffD2]) (auto simp: unat_lead3 q)
  moreover have "ucast (0x80 OR (drop_bit 6 c AND 0x3f)) = b"
    using sv q by (intro word_unat_eq_iff [THEN iffD2]) (simp add: unat_cont_of unat_drop_bit_div)
  moreover have "ucast (0x80 OR (c AND 0x3f)) = d"
    using cont_value [OF three(5)] q by (intro word_unat_eq_iff [THEN iffD2]) (simp only: unat_cont_of)
  moreover have "c \<noteq> 0" using r by auto
  ultimately show ?thesis using r three by (auto simp: scalar_def wcrtomb_s_unat numeral_3_eq_3)
next
  case (four a b d e t)
  have am: "unat a mod 8 = unat a - 240" using mod_mult_self3 [of 30 8 "unat a - 240"] four(2,3) by simp
  have n: "unat c = (unat a - 240) * 262144 + unat b mod 64 * 4096 + unat d mod 64 * 64 + unat e mod 64"
    using four(7) am by (simp only: unat_utf4)
  have bd: "unat b mod 64 < 64" "unat d mod 64 < 64" "unat e mod 64 < 64" by simp_all
  have n': "unat c = ((unat a - 240) * 64 + unat b mod 64) * 4096 + unat d mod 64 * 64 + unat e mod 64"
    using n by simp
  note q = sextets(1-3) [OF bd(2,3), of "(unat a - 240) * 64 + unat b mod 64", folded n']
  have q4: "unat c div 4096 mod 64 = unat b mod 64" "unat c div 262144 = unat a - 240"
  proof -
    show "unat c div 4096 mod 64 = unat b mod 64" using q(1) by simp
    have "unat c div 4096 div 64 = unat a - 240" using q(1) bd by simp
    then show "unat c div 262144 = unat a - 240" by (simp add: div_mult2_eq [symmetric])
  qed
  have sv: "unat b = 128 + unat b mod 64" by (rule second_value [OF four(4)])
  have snd: "unat a = 240 \<Longrightarrow> 144 \<le> unat b" "unat a = 244 \<Longrightarrow> unat b \<le> 143"
    using four(4) by (simp_all add: mb_second_unat)
  have r1: "0x10000 \<le> unat c"
  proof (cases "unat a = 240")
    case True
    then have "16 \<le> unat b mod 64" using snd(1) sv by linarith
    then show ?thesis using n by linarith
  next
    case False
    then show ?thesis using n four(2) by linarith
  qed
  have r2: "unat c < 0x110000"
  proof (cases "unat a = 244")
    case True
    then have "unat b mod 64 < 16" using snd(2) sv by linarith
    then show ?thesis using n bd True by linarith
  next
    case False
    then have "unat a - 240 \<le> 3" using four(3) by linarith
    then show ?thesis using n bd by linarith
  qed
  note r = r1 r2
  have "ucast (0xf0 OR drop_bit 18 c) = a"
    using four(2) r by (intro word_unat_eq_iff [THEN iffD2]) (simp add: unat_lead4 q4)
  moreover have "ucast (0x80 OR (drop_bit 12 c AND 0x3f)) = b"
    using sv q4 by (intro word_unat_eq_iff [THEN iffD2]) (simp add: unat_cont_of unat_drop_bit_div)
  moreover have "ucast (0x80 OR (drop_bit 6 c AND 0x3f)) = d"
    using cont_value [OF four(5)] q by (intro word_unat_eq_iff [THEN iffD2]) (simp add: unat_cont_of unat_drop_bit_div)
  moreover have "ucast (0x80 OR (c AND 0x3f)) = e"
    using cont_value [OF four(6)] q by (intro word_unat_eq_iff [THEN iffD2]) (simp only: unat_cont_of)
  moreover have "c \<noteq> 0" using r by auto
  ultimately show ?thesis using r four by (simp add: scalar_def wcrtomb_s_unat)
qed

text \<open>
  C28. Encoding and decoding are inverse: what \<open>wcrtomb_s\<close> stores for a character other than 0 is read back
  as that character and its length, whatever follows; and whatever \<open>mbrtowc\<close> accepts is a scalar value
  whose encoding is exactly the bytes that were read.
\<close>

theorem utf8_codec_inverse:
  "(\<forall>c bs rest. wcrtomb_s c = Some bs \<and> c \<noteq> 0 \<longrightarrow> mbrtowc (bs @ rest) = MbChar c (length bs)) \<and>
   (\<forall>s c l. mbrtowc s = MbChar c l \<longrightarrow> scalar c \<and> wcrtomb_s c = Some (take l s))"
  using wcrtomb_mbrtowc mbrtowc_scalar by auto

theorem utf8_codec_inverse_witness:
  "mbrtowc ([0xe4, 0xb8, 0xad] @ [0x41]) = MbChar 0x4e2d (length [0xe4, 0xb8, 0xad :: u8])"
  by (rule utf8_codec_inverse [THEN conjunct1, rule_format]) (simp add: wcrtomb_s_def)

end
