(* ===== verification/RankLoop.thy ===== *)
theory RankLoop
  imports IconvCodec
begin

unbundle bit_operations_syntax

text \<open>
  The ranking loops of \<open>iconv\<close> (lines 314 and 385), over any table: they end, and they compute the
  least fixed point of \<open>r = c + number of table entries from d to r\<close>, which for a table of distinct
  values is the code point that is not in the table and has exactly \<open>c - d\<close> others like it below.
\<close>

definition rank_between :: "u16 list \<Rightarrow> nat \<Rightarrow> nat \<Rightarrow> nat" where
  "rank_between tab d r = length (List.filter (\<lambda>x. d \<le> unat x \<and> unat x \<le> r) tab)"

definition rank_from :: "u16 list \<Rightarrow> nat \<Rightarrow> nat" where
  "rank_from tab d = length (List.filter (\<lambda>x. d \<le> unat x) tab)"

lemma word_between:
  assumes "d \<le> c"
  shows "x - d \<le> c - d \<longleftrightarrow> d \<le> x \<and> x \<le> (c :: u32)"
proof -
  have c: "unat (c - d) = unat c - unat d" using assms by (simp add: unat_sub)
  have bounds: "unat d \<le> unat c" "unat c < 2 ^ 32" "unat x < 2 ^ 32"
    using assms unsigned_less [of c, where 'a = nat] unsigned_less [of x, where 'a = nat]
    by (simp_all add: word_le_nat_alt)
  have x: "unat (x - d) = (if unat d \<le> unat x then unat x - unat d else unat x + 2 ^ 32 - unat d)"
    by (simp add: unat_sub_if_size word_size)
  show ?thesis unfolding word_le_nat_alt c x using bounds by (auto simp: word_le_nat_alt)
qed

lemma unat_ucast_16 [simp]: "unat (ucast (x :: u16) :: u32) = unat x"
  using unsigned_less [of x, where 'a = nat] by (intro unat_ucast_small) simp

lemma rank_count_unat:
  assumes "d \<le> c" "length tab < 2 ^ 32"
  shows "unat (rank_count tab d c) = rank_between tab (unat d) (unat c)"
proof -
  have "(ucast x - d \<le> c - d) = (unat d \<le> unat x \<and> unat x \<le> unat c)" for x :: u16
    unfolding word_between [OF assms(1)] unfolding word_le_nat_alt by simp
  then have "List.filter (\<lambda>x. ucast x - d \<le> c - d) tab = List.filter (\<lambda>x. unat d \<le> unat x \<and> unat x \<le> unat c) tab"
    by simp
  moreover have "length (List.filter (\<lambda>x. unat d \<le> unat x \<and> unat x \<le> unat c) tab) < 2 ^ 32"
    using assms(2) by (meson length_filter_le order_le_less_trans)
  ultimately show ?thesis unfolding rank_count_def rank_between_def by (simp add: unat_of_nat_small)
qed

lemma rank_from_split:
  "d \<le> c + 1 \<Longrightarrow> rank_from tab d = rank_between tab d c + rank_from tab (c + 1)"
  by (induction tab) (auto simp: rank_from_def rank_between_def)

lemma rank_between_split:
  "d \<le> m + 1 \<Longrightarrow> m \<le> r \<Longrightarrow> rank_between tab d r = rank_between tab d m + rank_between tab (m + 1) r"
  by (induction tab) (auto simp: rank_between_def)

lemma rank_between_mono: "r \<le> r' \<Longrightarrow> rank_between tab d r \<le> rank_between tab d r'"
  by (induction tab) (auto simp: rank_between_def)

lemma rank_between_empty: "r < d \<Longrightarrow> rank_between tab d r = 0"
  by (auto simp: rank_between_def filter_empty_conv)

lemma rank_between_le: "rank_between tab d r \<le> length tab"
  by (simp add: rank_between_def)

lemma rank_from_le: "rank_from tab d \<le> length tab"
  by (simp add: rank_from_def)

text \<open>The loop from an intermediate state: \<open>c\<close> already counts the entries below \<open>d\<close>.\<close>

lemma rank_loop_from:
  assumes "unat c + rank_from tab (unat d) < 2 ^ 32 - 1" "length tab < 2 ^ 32"
    and "d0 \<le> unat d" "unat c = c0 + (if unat d = d0 then 0 else rank_between tab d0 (unat d - 1))"
    and "\<forall>r'. c0 \<le> r' \<and> r' < unat c \<longrightarrow> r' < c0 + rank_between tab d0 r'"
    and "unat d \<le> unat c + 1"
  shows "\<exists>r. rank_loop tab d c = Some r \<and> unat r = c0 + rank_between tab d0 (unat r) \<and>
    (\<forall>r'. c0 \<le> r' \<and> r' < unat r \<longrightarrow> r' < c0 + rank_between tab d0 r')"
  using assms
proof (induction "rank_from tab (unat d) + (if d \<le> c then 1 else 0)" arbitrary: c d rule: less_induct)
  case less
  show ?case
  proof (cases "d \<le> c")
    case False
    then have d: "unat d = unat c + 1" using less.prems(6) by (simp add: word_le_nat_alt)
    have "(if unat d = d0 then 0 else rank_between tab d0 (unat d - 1)) = rank_between tab d0 (unat c)"
      using d rank_between_empty [of "unat c" d0 tab] by simp
    then have "unat c = c0 + rank_between tab d0 (unat c)"
      by (intro trans [OF less.prems(4)] arg_cong [where f = "(+) c0"])
    moreover have "rank_loop tab d c = Some c" using False by (subst rank_loop.simps) simp
    ultimately show ?thesis using less.prems(5) by blast
  next
    case True
    let ?k = "rank_between tab (unat d) (unat c)"
    have dc: "unat d \<le> unat c" using True by (simp add: word_le_nat_alt)
    have k: "unat (rank_count tab d c) = ?k" by (rule rank_count_unat [OF True less.prems(2)])
    have split: "rank_from tab (unat d) = ?k + rank_from tab (unat c + 1)"
      using dc by (intro rank_from_split) simp
    have c1: "unat (c + 1) = unat c + 1" and ck: "unat (c + rank_count tab d c) = unat c + ?k"
      using less.prems(1) split by (simp_all add: unat_word_ariths k)
    have all: "rank_between tab d0 (unat c) = (if unat d = d0 then 0 else rank_between tab d0 (unat d - 1)) + ?k"
      using rank_between_split [of d0 "unat d - 1" "unat c" tab] less.prems(3) dc
      by (auto split: if_splits)
    have small: "rank_from tab (unat (c + 1)) + (if c + 1 \<le> c + rank_count tab d c then 1 else 0) <
      rank_from tab (unat d) + (if d \<le> c then 1 else 0)"
      using split True by (simp add: c1 ck word_le_nat_alt)
    have "\<exists>r. rank_loop tab (c + 1) (c + rank_count tab d c) = Some r \<and>
      unat r = c0 + rank_between tab d0 (unat r) \<and>
      (\<forall>r'. c0 \<le> r' \<and> r' < unat r \<longrightarrow> r' < c0 + rank_between tab d0 r')"
    proof (rule less.hyps [OF small])
      show "unat (c + rank_count tab d c) + rank_from tab (unat (c + 1)) < 2 ^ 32 - 1"
        using less.prems(1) split by (simp add: c1 ck)
      show "unat (c + rank_count tab d c) =
        c0 + (if unat (c + 1) = d0 then 0 else rank_between tab d0 (unat (c + 1) - 1))"
        using less.prems(3,4) dc all by (simp add: c1 ck)
      show "\<forall>r'. c0 \<le> r' \<and> r' < unat (c + rank_count tab d c) \<longrightarrow> r' < c0 + rank_between tab d0 r'"
      proof (intro allI impI)
        fix r' assume r': "c0 \<le> r' \<and> r' < unat (c + rank_count tab d c)"
        show "r' < c0 + rank_between tab d0 r'"
        proof (cases "r' < unat c")
          case False
          then have "rank_between tab d0 (unat c) \<le> rank_between tab d0 r'" by (intro rank_between_mono) simp
          then show ?thesis using r' less.prems(4) all by (simp add: ck split: if_splits)
        qed (use r' less.prems(5) in simp)
      qed
    qed (use less.prems dc c1 ck in auto)
    then show ?thesis using True by (subst rank_loop.simps) simp
  qed
qed

lemma rank_loop_ends:
  assumes "d \<le> c" "unat c + length tab < 2 ^ 32 - 1"
  shows "\<exists>r. rank_loop tab d c = Some r \<and> unat r = unat c + rank_between tab (unat d) (unat r) \<and>
    (\<forall>r'. unat c \<le> r' \<and> r' < unat r \<longrightarrow> r' < unat c + rank_between tab (unat d) r')"
proof (rule rank_loop_from)
  show "unat c + rank_from tab (unat d) < 2 ^ 32 - 1"
    using assms(2) rank_from_le [of tab "unat d"] by linarith
qed (use assms in \<open>auto simp: word_le_nat_alt\<close>)

lemma rank_between_card:
  assumes "distinct tab"
  shows "rank_between tab d r = card {k. d \<le> k \<and> k \<le> r \<and> k \<in> unat ` set tab}"
proof -
  let ?ys = "List.filter (\<lambda>x. d \<le> unat x \<and> unat x \<le> r) tab"
  have "inj_on unat (set ?ys)" by (rule inj_onI) (metis word_unat_eq_iff)
  then have "distinct (List.map unat ?ys)" using assms by (simp add: distinct_map)
  then have "card (set (List.map unat ?ys)) = length ?ys" by (simp only: distinct_card length_map)
  moreover have "set (List.map unat ?ys) = {k. d \<le> k \<and> k \<le> r \<and> k \<in> unat ` set tab}"
    by (simp only: set_map set_filter) blast
  ultimately show ?thesis by (simp only: rank_between_def)
qed

text \<open>
  The ranking loop ends, and over a table of distinct values it returns the code point that is not in
  the table and has exactly \<open>c - d\<close> code points from \<open>d\<close> on below it that are not in the table either: the
  \<open>c - d\<close>-th unlisted one, which is how GB18030 and the Hangul extension of EUC-KR number them.
\<close>

theorem rank_loop_unlisted:
  assumes "distinct tab" "d \<le> c" "unat c + length tab < 2 ^ 32 - 1"
  shows "\<exists>r. rank_loop tab d c = Some r \<and> unat r \<notin> unat ` set tab \<and>
    card {k. unat d \<le> k \<and> k < unat r \<and> k \<notin> unat ` set tab} = unat c - unat d"
proof -
  obtain r where r: "rank_loop tab d c = Some r" "unat r = unat c + rank_between tab (unat d) (unat r)"
    "\<And>r'. unat c \<le> r' \<and> r' < unat r \<Longrightarrow> r' < unat c + rank_between tab (unat d) r'"
    using rank_loop_ends [OF assms(2,3)] by blast
  let ?L = "unat ` set tab" and ?d = "unat d" and ?r = "unat r"
  let ?in = "\<lambda>m. {k. ?d \<le> k \<and> k \<le> m \<and> k \<in> ?L}"
  have dc: "?d \<le> unat c" using assms(2) by (simp add: word_le_nat_alt)
  have cr: "unat c \<le> ?r" using r(2) by linarith
  have rc: "?r = unat c + card (?in ?r)" using r(2) by (simp only: rank_between_card [OF assms(1)])
  have notin: "?r \<notin> ?L"
  proof
    assume in_tab: "?r \<in> ?L"
    have fin: "finite (?in m)" for m by (rule finite_subset [of _ "{..m}"]) auto
    have split: "?in ?r = insert ?r (?in (?r - 1))" if "0 < ?r" using in_tab dc cr that by auto
    have "card (?in ?r) \<noteq> 0" using in_tab dc cr fin by auto
    then have pos: "unat c < ?r" using rc by linarith
    then have "?r \<notin> ?in (?r - 1)" by auto
    then have "card (?in ?r) = card (?in (?r - 1)) + 1" using split fin pos by simp
    then have "?r - 1 = unat c + card (?in (?r - 1))" using rc pos by linarith
    then show False using r(3) [of "?r - 1"] pos by (simp add: rank_between_card [OF assms(1)])
  qed
  have "{k. ?d \<le> k \<and> k < ?r \<and> k \<notin> ?L} = {?d..<?r} - ?in ?r" by auto
  moreover have "k < ?r" if "k \<le> ?r" "k \<in> ?L" for k using that notin by (metis nat_less_le)
  then have "?in ?r \<subseteq> {?d..<?r}" by auto
  ultimately have "card {k. ?d \<le> k \<and> k < ?r \<and> k \<notin> ?L} = (?r - ?d) - card (?in ?r)"
    by (simp add: card_Diff_subset finite_subset)
  also have "\<dots> = unat c - ?d" using r(2) by (simp add: rank_between_card [OF assms(1)])
  finally show ?thesis using r(1) notin by blast
qed

theorem rank_loop_unlisted_witness:
  "\<exists>r. rank_loop [5, 7, 8] 0 6 = Some r \<and> unat r \<notin> unat ` set [5, 7, 8 :: u16] \<and>
    card {k. unat (0 :: u32) \<le> k \<and> k < unat r \<and> k \<notin> unat ` set [5, 7, 8 :: u16]} = unat (6 :: u32) - unat (0 :: u32)"
  by (rule rank_loop_unlisted) simp_all

end
