(* ===== verification/TableScan.thy ===== *)
theory TableScan
  imports Gb18030 Big5 Ksc Jis0208 Hkscs Charmaps
begin

text \<open>
  What the conversion relies on in the tables of \<open>iconv\<close>: no entry is a surrogate (apart from the four
  markers of the pairs in \<open>hkscs\<close>). Each lemma evaluates the predicate on every entry of a table.
\<close>

definition no_surrogate :: "nat \<Rightarrow> bool" where
  "no_surrogate x \<longleftrightarrow> x < 0xd800 \<or> 0xe000 \<le> x"

lemma gb18030_scan: "list_all (list_all (\<lambda>x. no_surrogate (unat x))) gb18030"
  unfolding gb18030_def gb18030_rows list.pred_inject
  by (intro conjI list_all_u16s TrueI) (simp_all only: list.pred_inject no_surrogate_def, simp_all)

lemma big5_scan: "list_all (list_all (\<lambda>x. no_surrogate (unat x))) big5"
  unfolding big5_def big5_rows list.pred_inject
  by (intro conjI list_all_u16s TrueI) (simp_all only: list.pred_inject no_surrogate_def, simp_all)

lemma jis0208_scan: "list_all (list_all (\<lambda>x. no_surrogate (unat x))) jis0208"
  unfolding jis0208_def jis0208_rows list.pred_inject
  by (intro conjI list_all_u16s TrueI) (simp_all only: list.pred_inject no_surrogate_def, simp_all)

lemma ksc_scan: "list_all (list_all (\<lambda>x. no_surrogate (unat x))) ksc"
  unfolding ksc_def ksc_rows list.pred_inject
  by (intro conjI list_all_u16s TrueI) (simp_all only: list.pred_inject no_surrogate_def, simp_all)

lemma legacy_scan: "list_all (\<lambda>x. no_surrogate (unat x)) legacy_chars"
  unfolding legacy_chars_def legacy_chars_0_def legacy_chars_1_def legacy_chars_2_def legacy_chars_3_def list_all_append
  by (intro conjI list_all_u16s TrueI) (simp_all only: list.pred_inject no_surrogate_def, simp_all)

definition hkscs_entry :: "nat \<Rightarrow> bool" where
  "hkscs_entry x \<longleftrightarrow> no_surrogate x \<or> x = 0xdc00 \<or> x = 0xdc04 \<or> x = 0xdc08 \<or> x = 0xdc0c"

lemma hkscs_codes:
  "take 4867 hkscs = concat [
    hkscs_0, hkscs_1, hkscs_2, hkscs_3, hkscs_4, hkscs_5, hkscs_6, hkscs_7,
    hkscs_8, hkscs_9, hkscs_10, hkscs_11, hkscs_12, hkscs_13, hkscs_14, hkscs_15,
    hkscs_16, hkscs_17, hkscs_18, hkscs_19, hkscs_20, hkscs_21, hkscs_22, hkscs_23,
    hkscs_24, hkscs_25, hkscs_26, hkscs_27, hkscs_28, hkscs_29, hkscs_30]"
  by (simp add: hkscs_def length_hkscs_parts)

lemma hkscs_scan: "list_all (\<lambda>x. hkscs_entry (unat x)) (take 4867 hkscs)"
  unfolding hkscs_codes hkscs_parts concat.simps list_all_append list.pred_inject
  by (intro conjI list_all_u16s TrueI) (simp_all only: list.pred_inject hkscs_entry_def no_surrogate_def, simp_all)

end
