(* ===== verification/CodePage.thy ===== *)
theory CodePage
  imports IconvCodec TableScan
begin

unbundle bit_operations_syntax

text \<open>
  The packed code pages: for every code page of \<open>charmaps\<close> and every position it covers, the ten bits
  that \<open>iconv\<close> extracts are an index inside \<open>legacy_chars\<close> (which has 657 of 1024 possible entries).
\<close>

text \<open>Four indices from five bytes, as numbers.\<close>

definition ten_bits :: "u8 \<Rightarrow> u8 \<Rightarrow> nat \<Rightarrow> nat" where
  "ten_bits a b s = unat a div 2 ^ s + unat b * 2 ^ (8 - s) mod 1024"

fun ten_bit_groups :: "u8 list \<Rightarrow> nat list" where
  "ten_bit_groups (a # b # c # d # e # t) =
    ten_bits a b 0 # ten_bits b c 2 # ten_bits c d 4 # ten_bits d e 6 # ten_bit_groups t"
| "ten_bit_groups _ = []"

lemma ten_bits_word:
  assumes "s \<in> {0, 2, 4, 6}"
  shows "unat (drop_bit s (ucast a) OR (push_bit (8 - s) (ucast b) AND 1023) :: u32) = ten_bits a b s"
proof -
  have m: "(1023 :: u32) = mask 10" by (simp add: mask_eq_exp_minus_1)
  have b: "unat (push_bit (8 - s) (ucast b :: u32)) = unat b * 2 ^ (8 - s)"
  proof -
    have "(2 :: nat) ^ (8 - s) \<le> 2 ^ 8" by (intro power_increasing) simp_all
    then have "unat b * 2 ^ (8 - s) \<le> 255 * 2 ^ 8" by (intro mult_le_mono) simp_all
    then have "unat (ucast b :: u32) * 2 ^ (8 - s) < 2 ^ LENGTH(32)" by simp
    from unat_push_bit_small [OF this] show ?thesis by simp
  qed
  have "unat a div 2 ^ s < 2 ^ (8 - s)"
  proof -
    have "unat a < 2 ^ s * 2 ^ (8 - s)" using assms by (auto simp: power_add [symmetric])
    then show ?thesis by (simp add: less_mult_imp_div_less mult.commute)
  qed
  moreover have "2 ^ (8 - s) dvd unat b * 2 ^ (8 - s) mod 1024"
    using assms by (intro dvd_mod) auto
  ultimately show ?thesis
    by (subst unat_or_plus' [where k = "8 - s"])
      (simp_all add: m unat_and_mask b unat_drop_bit_div ten_bits_def add.commute)
qed

lemma ten_bit_groups_nth:
  "c < 4 * (length tbl div 5) \<Longrightarrow>
   ten_bit_groups tbl ! c = ten_bits (tbl ! (c * 5 div 4)) (tbl ! (c * 5 div 4 + 1)) (2 * c mod 8) \<and>
   c * 5 div 4 + 1 < length tbl \<and> c < length (ten_bit_groups tbl)"
proof (induction tbl arbitrary: c rule: ten_bit_groups.induct)
  case (1 a b x d e t)
  show ?case
  proof (cases "c < 4")
    case True
    then have "c = 0 \<or> c = 1 \<or> c = 2 \<or> c = 3" by auto
    then show ?thesis by auto
  next
    case False
    then obtain k where c: "c = k + 4" by (metis add.commute le_Suc_ex not_less)
    have "length (a # b # x # d # e # t) = 5 + length t" by simp
    then have k: "k < 4 * (length t div 5)" using 1(2) unfolding c by (simp only: div_add_self1) simp
    have q: "(k + 4) * 5 div 4 = k * 5 div 4 + 5" by simp
    have q': "(k * 5 + 20) div 4 = k * 5 div 4 + 5" by simp
    have r: "2 * (k + 4) mod 8 = 2 * k mod 8" by simp
    show ?thesis using 1(1) [OF k] by (simp add: c q q' r add.commute)
  qed
qed simp_all

lemma code_page_scan:
  "List.filter (\<lambda>m. \<not> list_all (\<lambda>i. i < 657) (ten_bit_groups (cm_table m))) charmap_list = [cm_cp437, cm_cp850]"
  by (simp add: charmap_list_def charmap_defs ten_bits_def)

lemma code_page_types: "list_all (\<lambda>m. cm_type m \<le> 0x80 \<longrightarrow> unat (cm_type m) mod 4 = 0) charmap_list"
  by (simp add: charmap_list_def charmap_defs)

section \<open>The look-up\<close>

lemma legacy_index_at:
  assumes base: "drop base charmaps = tbl @ t" and c: "unat c < 4 * (length tbl div 5)" "unat c < 128"
  shows "\<exists>i. legacy_index base c = Some i \<and> unat i = ten_bit_groups tbl ! unat c"
proof -
  note g = ten_bit_groups_nth [OF c(1)]
  have c5: "unat (c * 5) = unat c * 5" "unat (2 * c) = 2 * unat c"
    using c(2) by (simp_all add: unat_word_ariths)
  have d: "unat (c * 5 div 4) = unat c * 5 div 4" "unat (2 * c mod 8) = 2 * unat c mod 8"
    by (simp_all add: unat_div unat_mod c5)
  have d1: "unat (c * 5 div 4 + 1) = unat c * 5 div 4 + 1"
    using c(2) by (simp add: unat_word_ariths d)
  have m: "2 * unat c mod 8 \<in> {0, 2, 4, 6}"
  proof -
    have "2 * unat c mod 8 = 2 * (unat c mod 4)" by (simp add: mult_mod_right)
    moreover have "k < 4 \<Longrightarrow> k = 0 \<or> k = 1 \<or> k = 2 \<or> k = 3" for k :: nat by linarith
    moreover have "unat c mod 4 < 4" by simp
    ultimately show ?thesis by fastforce
  qed
  have d8: "unat (8 - 2 * c mod 8) = 8 - 2 * unat c mod 8"
    using d(2) m by (simp add: unat_sub word_le_nat_alt)
  have at: "rd charmaps (base + k) = Some (tbl ! k)" if "k < length tbl" for k
  proof -
    have "length charmaps - base = length tbl + length t" using arg_cong [OF base, of length] by simp
    then have k: "base + k < length charmaps" using that by linarith
    have "charmaps ! (base + k) = drop base charmaps ! k" using k by simp
    also have "\<dots> = tbl ! k" using that by (simp add: base nth_append)
    finally show ?thesis using k by (simp add: rd_def)
  qed
  have at': "rd charmaps (Suc (base + k)) = Some (tbl ! Suc k)" if "Suc k < length tbl" for k
    using at [OF that] by simp
  show ?thesis using ten_bits_word [OF m] g
    by (simp add: legacy_index_def d d1 d8 at at')
qed

lemma charmap_table:
  assumes "m \<in> set charmap_list" "cm_type m \<le> 0x80"
  shows "length (cm_table m) = (128 - unat (cm_type m)) div 4 * 5" "(128 - unat (cm_type m)) div 4 * 4 = 128 - unat (cm_type m)"
proof -
  show "length (cm_table m) = (128 - unat (cm_type m)) div 4 * 5"
    using assms charmaps_wf by (auto simp: list_all_iff wf_charmap_def)
  have "unat (cm_type m) mod 4 = 0" using assms code_page_types by (auto simp: list_all_iff)
  then have "4 dvd 128 - unat (cm_type m)" by (intro dvd_diff_nat) (auto simp: mod_eq_0_iff_dvd)
  then show "(128 - unat (cm_type m)) div 4 * 4 = 128 - unat (cm_type m)" by simp
qed

lemma length_ten_bit_groups: "length (ten_bit_groups tbl) = 4 * (length tbl div 5)"
proof (induction tbl rule: ten_bit_groups.induct)
  case (1 a b c d e t)
  have "length (a # b # c # d # e # t) = 5 + length t" by simp
  then show ?case using 1 by (simp only: div_add_self1) simp
qed simp_all

lemma legacy_char_at:
  assumes "m \<in> set charmap_list" "cm_type m \<le> 0x80" "drop base charmaps = cm_table m @ t"
    and "unat c < 128 - unat (cm_type m)"
  shows "legacy_char base c = map_option ucast (rd legacy_chars (ten_bit_groups (cm_table m) ! unat c))"
proof -
  note tb = charmap_table [OF assms(1,2)]
  have len: "4 * (length (cm_table m) div 5) = 128 - unat (cm_type m)" using tb by simp
  have "unat c < 128" using assms(4) by linarith
  then obtain i where "legacy_index base c = Some i" "unat i = ten_bit_groups (cm_table m) ! unat c"
    using legacy_index_at [OF assms(3), of c] assms(4) unfolding len by blast
  then show ?thesis by (simp add: legacy_char_def rd_def)
qed

text \<open>
  The only code pages whose packed indices leave \<open>legacy_chars\<close> are CP437 and CP850: for an entry of
  \<open>charmaps\<close> with a table the look-up of every position stays inside the 657 entries of
  \<open>iconv/legacychars.h\<close> exactly when the entry is neither of these two.
\<close>

theorem code_pages_in_table:
  assumes "m \<in> set charmap_list" "cm_type m \<le> 0x80" "drop base charmaps = cm_table m @ t"
  shows "(\<forall>c. unat c < 128 - unat (cm_type m) \<longrightarrow> legacy_char base c \<noteq> None) \<longleftrightarrow> m \<noteq> cm_cp437 \<and> m \<noteq> cm_cp850"
proof -
  let ?n = "128 - unat (cm_type m)"
  let ?g = "ten_bit_groups (cm_table m)"
  have len: "length ?g = ?n" using charmap_table [OF assms(1,2)] by (simp add: length_ten_bit_groups)
  have "(\<forall>c. unat c < ?n \<longrightarrow> legacy_char base c \<noteq> None) \<longleftrightarrow> (\<forall>k < ?n. ?g ! k < 657)"
  proof
    assume *: "\<forall>c. unat c < ?n \<longrightarrow> legacy_char base c \<noteq> None"
    show "\<forall>k < ?n. ?g ! k < 657"
    proof (intro allI impI)
      fix k assume k: "k < ?n"
      have u: "unat (word_of_nat k :: u32) = k" using k by (intro unat_of_nat_small) simp
      show "?g ! k < 657" using * [rule_format, of "word_of_nat k"] k
        by (simp add: legacy_char_at [OF assms] u rd_def length_legacy_chars split: if_splits)
    qed
  next
    assume "\<forall>k < ?n. ?g ! k < 657"
    then show "\<forall>c. unat c < ?n \<longrightarrow> legacy_char base c \<noteq> None"
      by (simp add: legacy_char_at [OF assms] rd_def length_legacy_chars)
  qed
  also have "\<dots> \<longleftrightarrow> list_all (\<lambda>i. i < 657) ?g" by (simp add: list_all_length len)
  also have "\<dots> \<longleftrightarrow> m \<notin> set (List.filter (\<lambda>m. \<not> list_all (\<lambda>i. i < 657) (ten_bit_groups (cm_table m))) charmap_list)"
    using assms(1) by simp
  also have "\<dots> \<longleftrightarrow> m \<noteq> cm_cp437 \<and> m \<noteq> cm_cp850" unfolding code_page_scan by simp
  finally show ?thesis .
qed

lemma iso88592_table: "take 120 (drop 281 charmaps) = cm_table cm_iso88592"
  by (simp add: charmaps_def charmap_list_def charmap_bytes_def cm_iso88592_def
      cm_utf8_def cm_wchart_def cm_ucs2_def cm_ucs2le_def cm_utf16_def cm_utf16le_def cm_ucs4_def cm_ucs4le_def
      cm_ascii_def cm_eucjp_def cm_shiftjis_def cm_gb18030_def cm_gbk_def cm_gb2312_def cm_big5_def cm_euckr_def
      cm_iso88591_def)

theorem code_pages_in_table_witness:
  "(\<forall>c. unat c < 128 - unat (cm_type cm_iso88592) \<longrightarrow> legacy_char 281 c \<noteq> None) \<longleftrightarrow>
    cm_iso88592 \<noteq> cm_cp437 \<and> cm_iso88592 \<noteq> cm_cp850"
proof (rule code_pages_in_table)
  show "cm_iso88592 \<in> set charmap_list" by (simp add: charmap_list_def)
  show "cm_type cm_iso88592 \<le> 0x80" by (simp add: cm_iso88592_def)
  show "drop 281 charmaps = cm_table cm_iso88592 @ drop 120 (drop 281 charmaps)"
    using append_take_drop_id [of 120 "drop 281 charmaps"] by (simp only: iso88592_table)
qed

end
