(* ===== verification/IconvDecode.thy ===== *)
theory IconvDecode
  imports Utf8Codec RankLoop CodePage
begin

unbundle bit_operations_syntax

text \<open>
  Decoding one character is safe: with \<open>inb\<close> readable bytes every decoder of \<open>iconv\<close> but those of
  Shift_JIS, CP437 and CP850 reads only those bytes and stays inside its tables, consumes between one
  and \<open>inb\<close> bytes, and, GB18030 and EUC-KR apart, yields Unicode scalar values only.
\<close>

section \<open>The contract of a decoder\<close>

definition decode_good :: "(u32 \<Rightarrow> bool) \<Rightarrow> u32 \<Rightarrow> decoded option \<Rightarrow> bool" where
  "decode_good P inb r \<longleftrightarrow> (case r of None \<Rightarrow> False
     | Some (Code c l) \<Rightarrow> P c \<and> 0 < l \<and> l \<le> unat inb
     | Some (Pair c l) \<Rightarrow> l = 2 \<and> 2 \<le> unat inb \<and> unat c mod 256 \<in> {0, 4, 8, 12}
     | Some Ilseq \<Rightarrow> True | Some Starved \<Rightarrow> True)"

named_theorems dec_simps "evaluating decode_good"

lemma decode_good_simps [dec_simps]:
  "decode_good P inb None = False"
  "decode_good P inb (Some (Code c l)) = (P c \<and> 0 < l \<and> l \<le> unat inb)"
  "decode_good P inb (Some (Pair c l)) = (l = 2 \<and> 2 \<le> unat inb \<and> unat c mod 256 \<in> {0, 4, 8, 12})"
  "decode_good P inb (Some Ilseq) = True" "decode_good P inb (Some Starved) = True"
  by (simp_all add: decode_good_def)

lemma decode_good_mono: "decode_good P inb r \<Longrightarrow> (\<And>c. P c \<Longrightarrow> Q c) \<Longrightarrow> decode_good Q inb r"
  by (auto simp: decode_good_def split: option.splits decoded.splits)

lemma decode_good_code_or_ilseq [dec_simps]:
  "decode_good P inb (Some (code_or_ilseq c l)) = (c = 0 \<or> P c \<and> 0 < l \<and> l \<le> unat inb)"
  by (simp add: code_or_ilseq_def dec_simps)

lemma scalar_small: "unat c < 0xd800 \<Longrightarrow> scalar c"
  by (simp add: scalar_def)

lemma scalar_u16: "no_surrogate (unat (v :: u16)) \<Longrightarrow> scalar (ucast v)"
  using unsigned_less [of v, where 'a = nat] by (auto simp: scalar_def no_surrogate_def)

text \<open>Byte counts as numbers.\<close>

lemma inb_order: "inb < (2 :: u32) \<longleftrightarrow> unat inb < 2" "inb < (4 :: u32) \<longleftrightarrow> unat inb < 4"
  by (simp_all add: word_less_nat_alt)

lemma rd_in: "i < unat (inb :: u32) \<Longrightarrow> unat inb \<le> length s \<Longrightarrow> rd s i = Some (s ! i)"
  by (simp add: rd_def)

section \<open>Unicode formats\<close>

lemma decode_utf8_good:
  assumes "inb \<noteq> 0" "unat inb \<le> length s"
  shows "decode_good scalar inb (decode_utf8 s inb)"
proof -
  have "1 \<le> unat inb" using assms(1) by (simp add: unat_gt_0 Suc_le_eq)
  moreover have "scalar 0" by (simp add: scalar_def)
  ultimately show ?thesis using assms(2) mbrtowc_scalar [of "take (unat inb) s"]
    by (auto simp: decode_utf8_def dec_simps split: mb_result.split)
qed

lemma unat_two_bytes: "unat (push_bit 8 (ucast (a :: u8)) OR ucast (b :: u8) :: u32) = unat a * 256 + unat b"
proof -
  have "unat (push_bit 8 (ucast a :: u32)) = unat a * 2 ^ 8" by (subst unat_push_bit_small) simp_all
  then show ?thesis by (subst unat_or_plus [where k = 8]) simp_all
qed

lemma get_16_value:
  assumes "i + 1 < length s"
  shows "\<exists>a b. get_16 s i e = Some (push_bit 8 (ucast (a :: u8)) OR ucast (b :: u8)) \<and>
    (if e AND 1 = 0 then a = s ! i \<and> b = s ! (i + 1) else a = s ! (i + 1) \<and> b = s ! i)"
proof -
  have e: "e AND 1 = 0 \<or> e AND 1 = 1" by (simp add: and_one_eq mod_2_eq_odd)
  show ?thesis using e assms by (auto simp: get_16_def rd_def)
qed

lemma get_16_some:
  assumes "i + 1 < length s"
  obtains c where "get_16 s i e = Some c" "unat c < 65536"
proof -
  obtain a b where ab: "get_16 s i e = Some (push_bit 8 (ucast (a :: u8)) OR ucast (b :: u8))"
    using get_16_value [OF assms] by blast
  have "unat a * 256 + unat b < 65536" using unat_byte_bound [of a] unat_byte_bound [of b] by linarith
  then show thesis using that ab by (simp add: unat_two_bytes)
qed

lemma get_32_some:
  assumes "4 \<le> length s"
  shows "\<exists>c. get_32 s e = Some c"
proof -
  have "unat (e AND 3) < 4" by (simp add: unat_and_masks)
  then have "e AND 3 = 0 \<or> e AND 3 = 1 \<or> e AND 3 = 2 \<or> e AND 3 = 3"
    by (simp add: word_unat_eq_iff) linarith
  then show ?thesis using assms by (auto simp: get_32_def rd_def)
qed

lemma decode_utf32_good:
  assumes "unat inb \<le> length s"
  shows "decode_good scalar inb (decode_utf32 ty s inb)"
proof (cases "inb < 4")
  case False
  then have 4: "4 \<le> unat inb" by (simp add: inb_order)
  then obtain c where c: "get_32 s (if ty = T_WCHAR_T then 3 else ty) = Some c"
    using get_32_some assms by (meson order_trans)
  have "\<not> (c - 0xd800 < 0x800) \<Longrightarrow> \<not> 0x110000 \<le> c \<Longrightarrow> scalar c"
    by (simp add: word_window scalar_def word_le_nat_alt) linarith
  then show ?thesis using False 4 c by (auto simp: decode_utf32_def dec_simps)
qed (simp add: decode_utf32_def dec_simps)

lemma unat_pair:
  assumes "0xd800 \<le> unat c" "unat c < 0xdc00" "unat e < 0x400"
  shows "unat (push_bit 10 (c - 0xd7c0) + e :: u32) = (unat c - 0xd7c0) * 1024 + unat e"
proof -
  have c: "unat (c - 0xd7c0) = unat c - 0xd7c0"
    using assms by (simp add: unat_sub word_le_nat_alt)
  have p: "unat (push_bit 10 (c - 0xd7c0)) = (unat c - 0xd7c0) * 2 ^ 10"
    using assms c by (subst unat_push_bit_small) simp_all
  show ?thesis using assms by (simp add: unat_word_ariths p)
qed

lemma decode_utf16_good:
  assumes "unat inb \<le> length s"
  shows "decode_good scalar inb (decode_utf16 ty s inb)"
proof (cases "inb < 2")
  case False
  then have 2: "2 \<le> unat inb" by (simp add: inb_order)
  then obtain c where c: "get_16 s 0 ty = Some c" "unat c < 65536"
    using get_16_some [of 0 s ty] assms by auto
  show ?thesis
  proof (cases "c - 0xdc00 < 0x400 \<or> \<not> c - 0xd800 < 0x400")
    case True
    then show ?thesis using False 2 c
      by (auto simp: decode_utf16_def dec_simps word_window scalar_def)
  next
    case hi: False
    then have hic: "0xd800 \<le> unat c" "unat c < 0xdc00" by (auto simp: word_window)
    show ?thesis
    proof (cases "ty - T_UCS2BE < 2 \<or> inb < 4")
      case True
      then show ?thesis using False hi c by (auto simp: decode_utf16_def dec_simps)
    next
      case not: False
      then have 4: "4 \<le> unat inb" by (simp add: inb_order)
      then obtain d where d: "get_16 s 2 ty = Some d"
        using get_16_some [of 2 s ty] assms by auto
      have "scalar (push_bit 10 (c - 0xd7c0) + (d - 0xdc00))" if "\<not> 0x400 \<le> d - 0xdc00"
      proof -
        have "unat (d - 0xdc00) < 0x400" using that by (simp add: word_le_nat_alt)
        then show ?thesis using unat_pair [OF hic] hic by (simp add: scalar_def) linarith
      qed
      then show ?thesis using False hi not c d 4 by (auto simp: decode_utf16_def dec_simps)
    qed
  qed
qed (simp add: decode_utf16_def dec_simps)

section \<open>East Asian sets\<close>

lemma tab2_good:
  assumes "list_all (\<lambda>r. length r = n) t" "list_all (list_all (\<lambda>x. no_surrogate (unat x))) t"
    and "unat c < length t" "unat d < n"
  shows "\<exists>v :: u16. tab2 t c d = Some (ucast v) \<and> no_surrogate (unat v)"
proof -
  have "length (t ! unat c) = n" "list_all (\<lambda>x. no_surrogate (unat x)) (t ! unat c)"
    using assms by (simp_all add: list_all_length)
  then show ?thesis using assms by (auto simp: tab2_def rd_def list_all_length)
qed

lemmas jis0208_good = tab2_good [OF row_length_jis0208 jis0208_scan, unfolded length_jis0208]
lemmas gb18030_good = tab2_good [OF row_length_gb18030 gb18030_scan, unfolded length_gb18030]
lemmas big5_good = tab2_good [OF row_length_big5 big5_scan, unfolded length_big5]
lemmas ksc_good = tab2_good [OF row_length_ksc ksc_scan, unfolded length_ksc]

lemma decode_eucjp_good:
  assumes "unat inb \<le> length s"
  shows "decode_good scalar inb (decode_eucjp c s inb)"
proof (cases "inb < 2")
  case False
  then have 2: "2 \<le> unat inb" by (simp add: inb_order)
  then have d: "rd s 1 = Some (s ! 1)" using assms by (simp add: rd_def)
  let ?d = "ucast (s ! 1) :: u32"
  have half: "scalar (?d + (0xff61 - 0xa1))"
    using unat_byte_bound [of "s ! 1"] by (simp add: scalar_def unat_word_ariths)
  show ?thesis
  proof (cases "c = 0x8e \<or> 84 \<le> c - 0xa1 \<or> 94 \<le> ?d - 0xa1")
    case True
    then show ?thesis using False 2 d half by (auto simp: decode_eucjp_def dec_simps Let_def)
  next
    case in_table: False
    then have "unat (c - 0xa1) < 84" "unat (?d - 0xa1) < 94" by (auto simp: word_le_nat_alt)
    then obtain v where "tab2 jis0208 (c - 0xa1) (?d - 0xa1) = Some (ucast (v :: u16))" "no_surrogate (unat v)"
      using jis0208_good by blast
    then show ?thesis using False in_table 2 d by (auto simp: decode_eucjp_def dec_simps scalar_u16 Let_def)
  qed
qed (simp add: decode_eucjp_def dec_simps)

lemma byte_sub: "lo \<le> ucast (d :: u8) \<Longrightarrow> unat (ucast d - lo :: u32) = unat d - unat lo"
  by (simp add: unat_sub)

text \<open>The four-byte form of GB18030: the ranking loop starts below 2 000 000.\<close>

lemma concat_rows: "list_all (\<lambda>r. length r = n) t \<Longrightarrow> length (concat t) = length t * n"
  by (induction t) simp_all

lemma length_gb18030_all: "length (concat gb18030) = 23940"
  using concat_rows [OF row_length_gb18030] by (simp add: length_gb18030)

lemma length_ksc_all: "length (concat ksc) = 8742"
  using concat_rows [OF row_length_ksc] by (simp add: length_ksc)

lemma gb4_start:
  assumes "unat c < 126" "unat (d - 48) \<le> 9" "unat (e - 0x81) \<le> 126" "unat (f - 48) \<le> 9" "unat d < 256"
  shows "unat ((10 * c + d - 48) * 1260 + 10 * (e - 0x81) + (f - 48) + 128 :: u32) =
    (10 * unat c + unat (d - 48)) * 1260 + 10 * unat (e - 0x81) + unat (f - 48) + 128"
proof -
  have "10 * c + d - 48 = 10 * c + (d - 48)" by simp
  then show ?thesis using assms by (simp only: unat_word_ariths) simp
qed

lemma gb4_bound:
  "(x :: nat) < 126 \<Longrightarrow> y \<le> 9 \<Longrightarrow> z \<le> 126 \<Longrightarrow> w \<le> 9 \<Longrightarrow> (10 * x + y) * 1260 + 10 * z + w + 128 < 2000000"
proof -
  assume *: "x < 126" "y \<le> 9" "z \<le> 126" "w \<le> 9"
  then have "10 * x + y \<le> 1259" by linarith
  then have "(10 * x + y) * 1260 \<le> 1259 * 1260" by (rule mult_le_mono1)
  then show ?thesis using * by linarith
qed

lemma decode_gb4_good:
  assumes "4 \<le> unat inb" "unat inb \<le> length s" "unat c < 126" "\<not> 9 < d - 48" "unat d < 256"
  shows "decode_good (\<lambda>_. True) inb (decode_gb4 c d s)"
proof -
  have rds: "rd s 2 = Some (s ! 2)" "rd s 3 = Some (s ! 3)" using assms by (simp_all add: rd_def)
  let ?e = "ucast (s ! 2) :: u32" and ?f = "ucast (s ! 3) :: u32"
  show ?thesis
  proof (cases "126 < ?e - 0x81 \<or> 9 < ?f - 48")
    case True
    then show ?thesis using rds by (auto simp: decode_gb4_def dec_simps Let_def)
  next
    case False
    let ?c = "(10 * c + d - 48) * 1260 + 10 * (?e - 0x81) + (?f - 48) + 128"
    have b: "unat (d - 48) \<le> 9" "unat (?e - 0x81) \<le> 126" "unat (?f - 48) \<le> 9"
      using False assms(4) by (simp_all add: word_less_nat_alt)
    have "(10 * unat c + unat (d - 48)) * 1260 + 10 * unat (?e - 0x81) + unat (?f - 48) + 128 < 2000000"
      by (rule gb4_bound [OF assms(3) b])
    then have "unat ?c < 2000000" unfolding gb4_start [OF assms(3) b assms(5)] .
    then obtain r where "rank_loop (concat gb18030) 0 ?c = Some r"
      using rank_loop_ends [of 0 ?c "concat gb18030"] by (auto simp: length_gb18030_all)
    then show ?thesis using False rds assms(1) by (simp add: decode_gb4_def dec_simps Let_def)
  qed
qed

lemma trail_index:
  assumes "\<not> 191 \<le> (u :: u32)" "u \<noteq> 63"
  shows "unat (if 63 < u then u - 1 else u) < 190"
  using assms by (auto simp: word_less_nat_alt unat_sub word_le_nat_alt word_unat_eq_iff)

lemma decode_gb_good:
  assumes "unat inb \<le> length s"
  shows "decode_good (\<lambda>c. ty \<noteq> T_GB18030 \<longrightarrow> scalar c) inb (decode_gb ty c s inb)"
proof (cases "ty = T_GB2312 \<and> c < 0xa1 \<or> 126 \<le> c - 0x81 \<or> inb < 2")
  case True
  then show ?thesis by (auto simp: decode_gb_def dec_simps Let_def)
next
  case False
  then have 2: "2 \<le> unat inb" and c: "unat (c - 0x81) < 126" by (auto simp: inb_order word_le_nat_alt)
  then have d: "rd s 1 = Some (s ! 1)" using assms by (simp add: rd_def)
  let ?d = "ucast (s ! 1) :: u32"
  show ?thesis
  proof (cases "?d < 0xa1 \<and> ty = T_GB2312")
    case True
    then show ?thesis using False d by (auto simp: decode_gb_def dec_simps Let_def)
  next
    case gb2312: False
    show ?thesis
    proof (cases "191 \<le> ?d - 0x40 \<or> ?d = 127")
      case True
      have "decode_good (\<lambda>_. True) inb (decode_gb4 (c - 0x81) ?d s)" if "\<not> inb < 4" "\<not> 9 < ?d - 48"
        using that c assms by (intro decode_gb4_good) (simp_all add: inb_order)
      then show ?thesis using False gb2312 True d
        by (auto simp: decode_gb_def dec_simps Let_def)
    next
      case two: False
      have "unat (if 63 < ?d - 0x40 then ?d - 0x40 - 1 else ?d - 0x40) < 190"
        using two by (intro trail_index) (auto simp: diff_eq_eq)
      then obtain v where "tab2 gb18030 (c - 0x81) (if 63 < ?d - 0x40 then ?d - 0x40 - 1 else ?d - 0x40) = Some (ucast (v :: u16))"
        "no_surrogate (unat v)" using gb18030_good [OF c] by blast
      then show ?thesis using False gb2312 two d 2 by (auto simp: decode_gb_def dec_simps Let_def scalar_u16)
    qed
  qed
qed

text \<open>Plane 2 of the Big5 tables.\<close>

lemma unat_plane2: "unat (ucast (v :: u16) OR push_bit 17 1 :: u32) = 131072 + unat v"
proof -
  have "unat v < 2 ^ 17" using unsigned_less [of v, where 'a = nat] by simp
  moreover have "unat (push_bit 17 (1 :: u32)) = 131072" by (subst unat_push_bit_small) simp_all
  ultimately show ?thesis by (subst unat_or_plus' [where k = 17]) simp_all
qed

lemma scalar_plane2: "scalar (ucast (v :: u16) OR push_bit 17 1)"
  using unsigned_less [of v, where 'a = nat] unfolding scalar_def unat_plane2 by simp

lemmas scalar_plane2_value = scalar_plane2 [simplified]

lemma hkscs_entry_at:
  assumes "i < 4867"
  shows "hkscs_entry (unat (hkscs ! i))"
proof -
  have "take 4867 hkscs ! i = hkscs ! i" using assms by simp
  moreover have "hkscs_entry (unat (take 4867 hkscs ! i))"
    using hkscs_scan assms by (simp add: list_all_length length_hkscs)
  ultimately show ?thesis by simp
qed

lemma decode_hkscs_good:
  assumes "unat c < 256" "0xfa - 0xa1 \<le> c - 0xa1" "unat d < 157" "2 \<le> unat inb"
  shows "decode_good scalar inb (decode_hkscs c d)"
proof (cases "0xff - 0x87 \<le> c - 0x87")
  case True
  then show ?thesis by (simp add: decode_hkscs_def dec_simps)
next
  case False
  let ?c = "if c < 0xa1 then c - 0x87 else c - (0x87 + (0xfa - 0xa1))"
  let ?i = "?c * 157 + d"
  have lead: "0x87 \<le> unat c" "unat c < 0xff"
    using False assms(1) word_window [of "0x87" "0x78" c] by (auto simp: not_le)
  have mid: "unat c < 0xa1 \<or> 0xfa \<le> unat c"
    using assms(2) word_window [of "0xa1" "0x59" c] by (auto simp: not_less [symmetric])
  have row: "unat ?c < 31" using lead mid by (auto simp: word_less_nat_alt word_le_nat_alt unat_sub)
  have i: "unat ?i < 4867"
  proof -
    have "unat ?i = unat ?c * 157 + unat d" using row assms(3) by (simp add: unat_word_ariths)
    then show ?thesis using row assms(3) by linarith
  qed
  have rds: "rd hkscs (unat ?i) = Some (hkscs ! unat ?i)"
    "rd hkscs (4867 + unat (?i div 16)) = Some (hkscs ! (4867 + unat (?i div 16)))"
    using i by (simp_all add: rd_def length_hkscs unat_div)
  define b where "b = (drop_bit (unat (?i mod 16)) (ucast (hkscs ! (4867 + unat (?i div 16)))) AND 1 :: u32)"
  define v where "v = hkscs ! unat ?i"
  have b: "b = 0 \<or> b = 1" by (simp add: b_def and_one_eq mod_2_eq_odd)
  have ent: "hkscs_entry (unat v)" unfolding v_def by (rule hkscs_entry_at [OF i])
  have div: "(w :: u32) div 256 = 0xdc \<longleftrightarrow> unat w div 256 = 0xdc" for w
    by (simp add: word_unat_eq_iff unat_div)
  have "decode_hkscs c d = Some (let w = push_bit 17 b OR ucast v in
      if w div 256 = 0xdc then Pair w 2 else code_or_ilseq w 2)"
    unfolding b_def v_def using False rds by (simp add: decode_hkscs_def Let_def)
  moreover have "decode_good scalar inb (Some (let w = push_bit 17 b OR ucast v in
      if w div 256 = 0xdc then Pair w 2 else code_or_ilseq w 2))"
  proof (cases "b = 0")
    case True
    have "unat v div 256 \<noteq> 0xdc \<Longrightarrow> no_surrogate (unat v)" "unat v div 256 = 0xdc \<Longrightarrow> unat v mod 256 \<in> {0, 4, 8, 12}"
      using ent by (auto simp: hkscs_entry_def no_surrogate_def)
    then show ?thesis unfolding True using assms(4) by (auto simp: Let_def div dec_simps scalar_u16)
  next
    case b1: False
    then have w: "push_bit 17 b OR ucast v = ucast v OR push_bit 17 1" using b by (auto simp: or.commute)
    have "unat (ucast v OR push_bit 17 1 :: u32) div 256 \<noteq> 0xdc" unfolding unat_plane2 by simp
    then show ?thesis unfolding w using assms(4) scalar_plane2 [of v] by (simp add: Let_def div dec_simps)
  qed
  ultimately show ?thesis by simp
qed

lemma decode_big5_good:
  assumes "unat inb \<le> length s" "unat c < 256"
  shows "decode_good scalar inb (decode_big5 c s inb)"
proof (cases "inb < 2")
  case False
  then have 2: "2 \<le> unat inb" by (simp add: inb_order)
  then have d: "rd s 1 = Some (s ! 1)" using assms by (simp add: rd_def)
  let ?d = "ucast (s ! 1) :: u32"
  let ?t = "if 0x3e < ?d - 0x40 then ?d - 0x40 - 0x22 else ?d - 0x40"
  show ?thesis
  proof (cases "0xff - 0x40 \<le> ?d - 0x40 \<or> ?d - 0x7f < 0xa1 - 0x7f")
    case True
    then show ?thesis using False d by (auto simp: decode_big5_def dec_simps Let_def)
  next
    case trail: False
    have r: "0x40 \<le> unat (s ! 1)" "unat (s ! 1) < 0xff" "unat (s ! 1) < 0x7f \<or> 0xa1 \<le> unat (s ! 1)"
      using trail word_window [of "0x40" "0xbf" ?d] word_window [of "0x7f" "0x22" ?d]
      by (auto simp: not_le)
    then have t: "unat ?t < 157" by (auto simp: word_less_nat_alt word_le_nat_alt unat_sub)
    show ?thesis
    proof (cases "0xfa - 0xa1 \<le> c - 0xa1")
      case True
      then have "decode_big5 c s inb = decode_hkscs c ?t"
        using False trail d by (simp add: decode_big5_def Let_def)
      then show ?thesis using decode_hkscs_good [OF assms(2) True t 2] by (simp only:)
    next
      case main: False
      then have "unat (c - 0xa1) < 89" by (simp add: word_le_nat_alt)
      then obtain v where v: "tab2 big5 (c - 0xa1) ?t = Some (ucast (v :: u16))" "no_surrogate (unat v)"
        using big5_good t by blast
      then show ?thesis using False trail main d 2
        by (auto simp: decode_big5_def dec_simps Let_def scalar_u16 scalar_plane2_value)
    qed
  qed
qed (simp add: decode_big5_def dec_simps)

lemma ext_column:
  "a < 26 \<or> b < 26 \<or> c < 126 \<Longrightarrow> unat (if a < 26 then a else if b < 26 then b + 26 else c + 52 :: u32) < 178"
  by (auto simp: word_less_nat_alt unat_word_ariths)

lemma ext_position:
  assumes "unat (c :: u32) < 93" "unat d < 178"
  shows "unat (if c < 0x20 then 178 * c + d else 178 * 0x20 + 84 * (c - 0x20) + d) < 20000"
proof (cases "c < 0x20")
  case True
  then have c: "unat c < 32" by (simp add: word_less_nat_alt)
  then have "unat (178 * c + d) = 178 * unat c + unat d" using assms by (simp add: unat_word_ariths)
  then show ?thesis using True c assms(2) by simp
next
  case False
  then have c: "unat (c - 0x20) < 61" using assms by (simp add: word_less_nat_alt unat_sub word_le_nat_alt)
  then have "unat (178 * 0x20 + 84 * (c - 0x20) + d) = 5696 + 84 * unat (c - 0x20) + unat d"
    using assms by (simp only: unat_word_ariths) simp
  then show ?thesis using False c assms(2) by (simp only: if_False)
qed

lemma decode_euckr_good:
  assumes "unat inb \<le> length s"
  shows "decode_good (\<lambda>_. True) inb (decode_euckr c0 s inb)"
proof (cases "inb < 2")
  case False
  then have 2: "2 \<le> unat inb" by (simp add: inb_order)
  then have d: "rd s 1 = Some (s ! 1)" using assms by (simp add: rd_def)
  let ?c = "c0 - 0xa1" and ?d = "ucast (s ! 1) - 0xa1 :: u32"
  show ?thesis
  proof (cases "93 \<le> ?c \<or> 94 \<le> ?d")
    case False
    then have "unat ?c < 93" "unat ?d < 94" by (auto simp: word_le_nat_alt)
    then obtain v where "tab2 ksc ?c ?d = Some (ucast (v :: u16))" using ksc_good by blast
    then show ?thesis using False d 2 \<open>\<not> inb < 2\<close> by (auto simp: decode_euckr_def dec_simps Let_def)
  next
    case ext: True
    let ?c1 = "?c + (0xa1 - 0x81)" and ?d1 = "?d + 0xa1"
    let ?d2 = "if ?d1 - 65 < 26 then ?d1 - 65 else if ?d1 - 97 < 26 then ?d1 - 97 + 26 else ?d1 - 0x81 + 52"
    let ?c2 = "if ?c1 < 0x20 then 178 * ?c1 + ?d2 else 178 * 0x20 + 84 * (?c1 - 0x20) + ?d2"
    show ?thesis
    proof (cases "93 \<le> ?c1 \<or> (\<not> ?d1 - 65 < 26 \<and> \<not> ?d1 - 97 < 26 \<and> \<not> ?d1 - 0x81 < 0xff - 0x81)")
      case True
      then show ?thesis using False d ext by (auto simp: decode_euckr_def dec_simps Let_def)
    next
      case ok: False
      have d2: "unat ?d2 < 178" by (rule ext_column) (use ok in auto)
      have "unat ?c1 < 93" using ok by (simp add: word_le_nat_alt)
      then have "unat ?c2 < 20000" using d2 by (rule ext_position)
      then have start: "unat (?c2 + 0xac00) < 100000" "0xac00 \<le> ?c2 + 0xac00"
        by (simp_all only: word_le_nat_alt unat_word_ariths) simp_all
      have "\<exists>r. rank_loop (concat ksc) 0xac00 w = Some r" if "unat w < 100000" "0xac00 \<le> w" for w
        using rank_loop_ends [OF that(2), of "concat ksc"] that(1) by (auto simp: length_ksc_all)
      then obtain r where "rank_loop (concat ksc) 0xac00 (?c2 + 0xac00) = Some r" using start by blast
      then show ?thesis using False d ext ok 2 by (auto simp: decode_euckr_def dec_simps Let_def)
    qed
  qed
qed (simp add: decode_euckr_def dec_simps)

section \<open>Any character set of the table\<close>

text \<open>An entry of \<open>charmaps\<close> and the position of its type byte.\<close>

definition charmap_at :: "nat \<Rightarrow> charmap \<Rightarrow> bool" where
  "charmap_at p m \<longleftrightarrow> m \<in> set charmap_list \<and> (\<exists>t. drop p charmaps = cm_type m # cm_table m @ t)"

lemma charmap_at_type: "charmap_at p m \<Longrightarrow> rd charmaps p = Some (cm_type m)"
  unfolding charmap_at_def rd_def
  by (metis drop_eq_Nil hd_drop_conv_nth leI list.discI list.sel(1))

lemma charmap_at_table: "charmap_at p m \<Longrightarrow> \<exists>t. drop (p + 1) charmaps = cm_table m @ t"
  unfolding charmap_at_def by (metis Suc_eq_plus1 drop_Suc drop_tl list.sel(3))

lemma charmap_types:
  "list_all (\<lambda>m. cm_type m \<le> 0x80 \<or> cm_type m \<in>
     {0xc0, 0xc1, 0xc2, 0xc3, 0xc4, 0xc5, 0xc6, 0xc7, 0xc8, 0xd0, 0xd1, 0xd8, 0xd9, 0xda, 0xe0, 0xe8}) charmap_list"
  by (simp add: charmap_list_def charmap_defs)

definition full_table :: "charmap \<Rightarrow> bool" where
  "full_table m \<longleftrightarrow> m \<noteq> cm_cp437 \<and> m \<noteq> cm_cp850"

lemma legacy_char_good:
  assumes "charmap_at p m" "full_table m" "cm_type m \<le> 0x80" "unat c < 128 - unat (cm_type m)"
  shows "\<exists>v :: u16. legacy_char (p + 1) c = Some (ucast v) \<and> no_surrogate (unat v)"
proof -
  obtain t where t: "drop (p + 1) charmaps = cm_table m @ t" using charmap_at_table [OF assms(1)] by blast
  have m: "m \<in> set charmap_list" using assms(1) by (simp add: charmap_at_def)
  let ?i = "ten_bit_groups (cm_table m) ! unat c"
  have "length (ten_bit_groups (cm_table m)) = 128 - unat (cm_type m)"
    using charmap_table [OF m assms(3)] by (simp add: length_ten_bit_groups)
  moreover have "list_all (\<lambda>i. i < 657) (ten_bit_groups (cm_table m))"
  proof (rule ccontr)
    assume "\<not> list_all (\<lambda>i. i < 657) (ten_bit_groups (cm_table m))"
    then have "m \<in> set (List.filter (\<lambda>m. \<not> list_all (\<lambda>i. i < 657) (ten_bit_groups (cm_table m))) charmap_list)"
      using m by simp
    then show False using assms(2) unfolding code_page_scan by (simp add: full_table_def)
  qed
  ultimately have i: "?i < length legacy_chars" using assms(4) by (simp add: list_all_length length_legacy_chars)
  then have "no_surrogate (unat (legacy_chars ! ?i))" using legacy_scan by (simp add: list_all_length)
  then show ?thesis unfolding legacy_char_at [OF m assms(3) t assms(4)] using i by (auto simp: rd_def)
qed

lemma decode_legacy_good:
  assumes "charmap_at p m" "full_table m" "cm_type m \<le> 0x80" "unat c < 256" "1 \<le> unat inb"
  shows "decode_good scalar inb (decode_legacy (ucast (cm_type m)) (p + 1) c)"
proof -
  have ty: "unat (cm_type m) \<le> 128" using assms(3) by (simp add: word_le_nat_alt)
  have sc: "scalar c" using assms(4) by (intro scalar_small) simp
  have u: "unat (128 + ucast (cm_type m) :: u32) = 128 + unat (cm_type m)" by (simp add: unat_word_ariths)
  show ?thesis
  proof (cases "c < 128 + ucast (cm_type m)")
    case True
    then show ?thesis using sc assms(5) by (simp add: decode_legacy_def dec_simps)
  next
    case False
    then have "unat (c - (128 + ucast (cm_type m))) < 128 - unat (cm_type m)"
      using assms(4) ty by (simp add: unat_sub u word_less_nat_alt word_le_nat_alt)
    then obtain v where "legacy_char (p + 1) (c - (128 + ucast (cm_type m))) = Some (ucast (v :: u16))"
      "no_surrogate (unat v)" using legacy_char_good [OF assms(1-3)] by blast
    then show ?thesis using False sc assms(5)
      by (auto simp: decode_legacy_def dec_simps Let_def scalar_u16)
  qed
qed

text \<open>The sets whose decoder is safe, and what it yields.\<close>

definition safe_source :: "charmap \<Rightarrow> bool" where
  "safe_source m \<longleftrightarrow> full_table m \<and> cm_type m \<noteq> 0xd1"

definition scalars_only :: "charmap \<Rightarrow> bool" where
  "scalars_only m \<longleftrightarrow> cm_type m \<noteq> 0xd8 \<and> cm_type m \<noteq> 0xe8"

lemma iconv_decode_good:
  assumes at: "charmap_at p m" "safe_source m" and inb: "inb \<noteq> 0" "unat inb \<le> length s"
  shows "decode_good (\<lambda>c. scalars_only m \<longrightarrow> scalar c) inb (iconv_decode (ucast (cm_type m)) (p + 1) s inb)"
proof -
  have one: "1 \<le> unat inb" using inb(1) by (simp add: unat_gt_0 Suc_le_eq)
  then have r: "rd s 0 = Some (s ! 0)" using inb(2) by (cases s) (auto simp: rd_def)
  have byte: "unat (ucast (s ! 0) :: u32) < 256" by simp
  have sc: "scalar (ucast (s ! 0))" by (rule scalar_small) simp
  let ?c = "ucast (s ! 0) :: u32"
  show ?thesis
  proof (cases "128 \<le> ?c \<or> ucast (cm_type m) - T_UTF_32BE < 7")
    case False
    then show ?thesis using r one sc by (simp add: iconv_decode_def dec_simps Let_def)
  next
    case True
    then have D: "iconv_decode (ucast (cm_type m)) (p + 1) s inb = (let ty = (ucast (cm_type m) :: u32) in
        if ty = T_UTF_8 then decode_utf8 s inb
        else if ty = T_US_ASCII then Some Ilseq
        else if ty = T_WCHAR_T \<or> ty = T_UTF_32BE \<or> ty = T_UTF_32LE then decode_utf32 ty s inb
        else if ty = T_UCS2BE \<or> ty = T_UCS2LE \<or> ty = T_UTF_16BE \<or> ty = T_UTF_16LE then decode_utf16 ty s inb
        else if ty = T_SHIFT_JIS then decode_sjis ?c s inb
        else if ty = T_EUC_JP then decode_eucjp ?c s inb
        else if ty = T_GB2312 \<or> ty = T_GBK \<or> ty = T_GB18030 then decode_gb ty ?c s inb
        else if ty = T_BIG5 then decode_big5 ?c s inb
        else if ty = T_EUC_KR then decode_euckr ?c s inb
        else decode_legacy ty (p + 1) ?c)"
      using r by (simp add: iconv_decode_def Let_def)
    have weaken: "decode_good scalar inb r \<Longrightarrow> decode_good (\<lambda>c. scalars_only m \<longrightarrow> scalar c) inb r" for r
      by (erule decode_good_mono) simp
    have m: "m \<in> set charmap_list" using at(1) by (simp add: charmap_at_def)
    then consider (legacy) "cm_type m \<le> 0x80" | (multi) "cm_type m \<in>
        {0xc0, 0xc1, 0xc2, 0xc3, 0xc4, 0xc5, 0xc6, 0xc7, 0xc8, 0xd0, 0xd1, 0xd8, 0xd9, 0xda, 0xe0, 0xe8}"
      using charmap_types by (auto simp: list_all_iff)
    then show ?thesis
    proof cases
      case legacy
      then have "unat (ucast (cm_type m) :: u32) \<le> 128" by (simp add: word_le_nat_alt)
      then have ne: "ucast (cm_type m) \<noteq> k" if "128 < unat k" for k :: u32 using that by auto
      then have "iconv_decode (ucast (cm_type m)) (p + 1) s inb = decode_legacy (ucast (cm_type m)) (p + 1) ?c"
        unfolding D by (simp add: Let_def ne)
      then show ?thesis
        using decode_legacy_good [OF at(1) _ legacy byte one] at(2) weaken by (simp add: safe_source_def)
    next
      case multi
      let ?P = "\<lambda>c. scalars_only m \<longrightarrow> scalar c"
      have u8: "decode_good ?P inb (decode_utf8 s inb)" by (rule weaken [OF decode_utf8_good [OF inb]])
      have u32: "decode_good ?P inb (decode_utf32 ty s inb)" for ty by (rule weaken [OF decode_utf32_good [OF inb(2)]])
      have u16: "decode_good ?P inb (decode_utf16 ty s inb)" for ty by (rule weaken [OF decode_utf16_good [OF inb(2)]])
      have ej: "decode_good ?P inb (decode_eucjp ?c s inb)" by (rule weaken [OF decode_eucjp_good [OF inb(2)]])
      have b5: "decode_good ?P inb (decode_big5 ?c s inb)" by (rule weaken [OF decode_big5_good [OF inb(2) byte]])
      have ek: "cm_type m = 0xe8 \<Longrightarrow> decode_good ?P inb (decode_euckr ?c s inb)"
        by (rule decode_good_mono [OF decode_euckr_good [OF inb(2)]]) (simp add: scalars_only_def)
      have d8: "ucast (cm_type m) = T_GB18030 \<Longrightarrow> cm_type m = 0xd8" by (simp add: word_unat_eq_iff)
      have gb: "ucast (cm_type m) = ty \<Longrightarrow> decode_good ?P inb (decode_gb ty ?c s inb)" for ty
        by (rule decode_good_mono [OF decode_gb_good [OF inb(2)]]) (use d8 in \<open>auto simp: scalars_only_def\<close>)
      show ?thesis
        using multi at(2) unfolding D by (auto simp: Let_def u8 u32 u16 ej b5 ek gb dec_simps safe_source_def)
    qed
  qed
qed

end
