(* ===== verification/IconvSafe.thy ===== *)
theory IconvSafe
  imports Iconv IconvDecode
begin

unbundle bit_operations_syntax

text \<open>
  \<open>iconv()\<close> is memory safe, ends, and accounts for every byte it reads and writes. The locale
  \<open>converter\<close> states what the loop needs from a decoder and an encoder; it is interpreted on the
  recursive call for the pairs of Big5-HKSCS, on GBK to UTF-8 (the conversion the media scanner makes) and used for
  every safe pair of character sets.
\<close>

section \<open>The contract of an encoder\<close>

definition dst_ok :: "conv \<Rightarrow> bool" where
  "dst_ok st \<longleftrightarrow> 0 \<le> cv_out st \<and> nat (cv_out st) + unat (cv_outb st) \<le> length (cv_dst st)"

text \<open>From \<open>st\<close> to \<open>st'\<close> the bytes \<open>bs\<close> were stored at \<open>*out\<close>, and \<open>*out\<close> and \<open>*outb\<close> moved by their number.\<close>

definition wrote :: "u8 list \<Rightarrow> conv \<Rightarrow> conv \<Rightarrow> bool" where
  "wrote bs st st' \<longleftrightarrow> length bs \<le> unat (cv_outb st) \<and>
    cv_dst st' = patch (cv_dst st) (nat (cv_out st)) bs \<and>
    cv_out st' = cv_out st + int (length bs) \<and> unat (cv_outb st') + length bs = unat (cv_outb st)"

definition same_in :: "conv \<Rightarrow> conv \<Rightarrow> bool" where
  "same_in st st' \<longleftrightarrow> cv_in st' = cv_in st \<and> cv_inb st' = cv_inb st"

definition emit_ok :: "conv \<Rightarrow> emitted option \<Rightarrow> bool" where
  "emit_ok st q \<longleftrightarrow> (case q of None \<Rightarrow> False
     | Some (TooBig st') \<Rightarrow> wrote [] st st' \<and> same_in st st'
     | Some (Emitted st') \<Rightarrow> (\<exists>bs. wrote bs st st') \<and> same_in st st')"

lemma wrote_Nil [simp]: "wrote [] st st"
  by (simp add: wrote_def)

lemma wrote_trans:
  assumes "wrote bs st st1" "wrote cs st1 st2" "dst_ok st"
  shows "wrote (bs @ cs) st st2"
  using assms by (simp add: wrote_def dst_ok_def patch_patch nat_add_distrib)

lemma dst_ok_wrote: "wrote bs st st' \<Longrightarrow> dst_ok st \<Longrightarrow> dst_ok st'"
  by (auto simp: wrote_def dst_ok_def)

lemma emit_ok_simps [simp]:
  "\<not> emit_ok st None" "emit_ok st (Some (TooBig st')) = (wrote [] st st' \<and> same_in st st')"
  "emit_ok st (Some (Emitted st')) = ((\<exists>bs. wrote bs st st') \<and> same_in st st')"
  by (simp_all add: emit_ok_def)

lemma put_bytes_ok:
  assumes "dst_ok st" "length bs < 100"
  shows "emit_ok st (put_bytes bs st)"
proof (cases "cv_outb st < word_of_nat (length bs)")
  case True
  then show ?thesis by (simp add: put_bytes_def same_in_def)
next
  case False
  have n: "unat (word_of_nat (length bs) :: u32) = length bs"
    using assms(2) by (intro unat_of_nat_small) simp
  have room: "length bs \<le> unat (cv_outb st)" using False by (simp add: word_less_nat_alt n)
  have sub: "unat (cv_outb st - word_of_nat (length bs)) = unat (cv_outb st) - length bs"
    using room by (simp add: unat_sub word_le_nat_alt n)
  have "store (cv_dst st) (cv_out st) bs = Some (patch (cv_dst st) (nat (cv_out st)) bs)"
    using assms(1) room by (auto simp: store_def dst_ok_def)
  then show ?thesis using False room sub
    by (auto simp: put_bytes_def same_in_def wrote_def)
qed

lemma wrote_count [simp]:
  "wrote bs (st\<lparr>cv_x := x\<rparr>) st' = wrote bs st st'" "same_in (st\<lparr>cv_x := x\<rparr>) st' = same_in st st'"
  "dst_ok (st\<lparr>cv_x := x\<rparr>) = dst_ok st" "wrote [] st (st\<lparr>cv_x := x\<rparr>)" "same_in st (st\<lparr>cv_x := x\<rparr>)"
  by (simp_all add: wrote_def same_in_def dst_ok_def)

lemma emit_ok_count [simp]: "emit_ok (st\<lparr>cv_x := x\<rparr>) q = emit_ok st q"
  by (simp add: emit_ok_def split: option.split emitted.split)

lemma put_bytes_count_ok:
  "dst_ok st \<Longrightarrow> length bs < 100 \<Longrightarrow> emit_ok st (put_bytes bs (st\<lparr>cv_x := x\<rparr>))"
  using put_bytes_ok [of "st\<lparr>cv_x := x\<rparr>" bs] by simp

lemma emit_utf8_ok:
  assumes "dst_ok st" "scalar c"
  shows "emit_ok st (emit_utf8 c st)"
proof -
  obtain bs where bs: "wcrtomb_s c = Some bs" using assms(2) wcrtomb_None [of c] by (cases "wcrtomb_s c") auto
  then show ?thesis using put_bytes_ok [OF assms(1), of bs] wcrtomb_length [OF bs] by (simp add: emit_utf8_def)
qed

lemma length_put_16 [simp]: "length (put_16 c e) = 2" by (simp add: put_16_def)

lemma length_put_32 [simp]: "length (put_32 c e) = 4" by (simp add: put_32_def Let_def)

lemma emit_utf16_ok: "dst_ok st \<Longrightarrow> emit_ok st (emit_utf16 ty tt c st)"
  by (simp add: emit_utf16_def Let_def put_bytes_ok)

lemma legacy_search_ends:
  assumes "charmap_at p m" "full_table m" "cm_type m \<le> 0x80" "unat n = 128 - unat (cm_type m)"
  shows "\<exists>r. legacy_search (p + 1) d c n = Some r"
proof (induction "unat n - unat c" arbitrary: c rule: less_induct)
  case less
  show ?case
  proof (cases "c < n")
    case True
    then have "unat c < 128 - unat (cm_type m)" using assms(4) by (simp add: word_less_nat_alt)
    then obtain v where "legacy_char (p + 1) c = Some v" using legacy_char_good [OF assms(1-3)] by blast
    then show ?thesis using less [OF upto_measure [OF True]] True
      by (subst legacy_search.simps) simp
  qed (subst legacy_search.simps, simp)
qed

lemma emit_byte_ok:
  assumes "dst_ok st" "charmap_at p m" "full_table m" "cm_type m \<le> 0x80 \<or> cm_type m = 0xc7"
  shows "emit_ok st (emit_byte (ucast (cm_type m)) (p + 1) c st)"
proof (cases "cm_type m = 0xc7")
  case True
  have "(c :: u32) < 327" if "\<not> 0x7f < c" using that by (simp add: word_less_nat_alt)
  then show ?thesis using True assms(1) by (auto simp: emit_byte_def Let_def put_bytes_ok put_bytes_count_ok same_in_def)
next
  case False
  then have ty: "cm_type m \<le> 0x80" using assms(4) by simp
  then have ty': "unat (cm_type m) \<le> 128" by (simp add: word_le_nat_alt)
  then have ne: "ucast (cm_type m) \<noteq> T_US_ASCII" by (auto simp: word_unat_eq_iff)
  have "unat (128 - ucast (cm_type m) :: u32) = 128 - unat (cm_type m)"
    using ty' by (simp add: unat_sub word_le_nat_alt)
  then obtain r where "legacy_search (p + 1) c 0 (128 - ucast (cm_type m)) = Some r"
    using legacy_search_ends [OF assms(2,3) ty] by blast
  then show ?thesis using ne assms(1)
    by (auto simp: emit_byte_def Let_def put_bytes_ok put_bytes_count_ok same_in_def split: option.split)
qed

definition safe_target :: "charmap \<Rightarrow> bool" where
  "safe_target m \<longleftrightarrow> full_table m \<and> cm_type m < 0xd0"

lemma iconv_emit_ok:
  assumes "dst_ok st" "charmap_at p m" "safe_target m" "cm_type m = 0xc8 \<longrightarrow> scalar c"
  shows "emit_ok st (iconv_emit ty (ucast (cm_type m)) (p + 1) c st)"
proof -
  have m: "m \<in> set charmap_list" using assms(2) by (simp add: charmap_at_def)
  then consider (legacy) "cm_type m \<le> 0x80" | (ascii) "cm_type m = 0xc7"
    | (wide) "cm_type m \<in> {0xc0, 0xc1, 0xc2, 0xc3, 0xc4, 0xc5, 0xc6, 0xc8}"
    using charmap_types assms(3) by (fastforce simp: list_all_iff safe_target_def)
  then show ?thesis
  proof cases
    case legacy
    then have "unat (ucast (cm_type m) :: u32) \<le> 128" by (simp add: word_le_nat_alt)
    then have ne: "ucast (cm_type m) \<noteq> k" if "128 < unat k" for k :: u32 using that by auto
    show ?thesis using emit_byte_ok [OF assms(1,2)] legacy assms(3)
      by (simp add: iconv_emit_def ne safe_target_def)
  next
    case ascii
    then show ?thesis using emit_byte_ok [OF assms(1,2)] assms(3) by (simp add: iconv_emit_def safe_target_def)
  next
    case wide
    then show ?thesis using assms(1,4)
      by (auto simp: iconv_emit_def emit_utf8_ok emit_utf16_ok put_bytes_ok)
  qed
qed

section \<open>The loop over a decoder and an encoder\<close>

definition progress :: "conv \<Rightarrow> conv \<Rightarrow> bool" where
  "progress st st' \<longleftrightarrow> cv_in st \<le> cv_in st' \<and> cv_in st' + unat (cv_inb st') = cv_in st + unat (cv_inb st)"

definition pair_offset :: "u32 \<Rightarrow> bool" where
  "pair_offset c \<longleftrightarrow> unat c mod 256 \<in> {0, 4, 8, 12}"

locale converter =
  fixes frm to :: nat and ty tt :: u8 and bytes :: "u8 set" and P :: "u32 \<Rightarrow> bool"
  assumes from_type: "rd charmaps frm = Some ty"
    and to_type: "rd charmaps to = Some tt"
    and decode_law: "inb \<noteq> 0 \<Longrightarrow> unat inb \<le> length s \<Longrightarrow> set s \<subseteq> bytes \<Longrightarrow>
      decode_good P inb (iconv_decode (ucast ty) (frm + 1) s inb)"
    and emit_law: "P c \<Longrightarrow> dst_ok st \<Longrightarrow> emit_ok st (iconv_emit (ucast ty) (ucast tt) (to + 1) c st)"
    and pair_law: "iconv_decode (ucast ty) (frm + 1) s inb = Some (Pair c l) \<Longrightarrow> pair_offset c \<Longrightarrow>
      dst_ok st \<Longrightarrow> cv_in st = 0 \<Longrightarrow> cv_inb st = 4 \<Longrightarrow>
      \<exists>e st' bs. iconv_loop 0 to (drop (unat (c mod 256)) hkscs_pairs) st = Some (e, st') \<and> wrote bs st st'"
begin

lemma step:
  assumes "cv_inb st \<noteq> 0" "set src \<subseteq> bytes" "cv_in st + unat (cv_inb st) \<le> length src" "dst_ok st"
  shows "(\<exists>err st'. iconv_loop frm to src st = Some (Failed err, st') \<and> wrote [] st st' \<and> same_in st st') \<or>
    (\<exists>l st' bs. 0 < l \<and> l \<le> unat (cv_inb st) \<and> wrote bs st st' \<and>
       cv_in st' = cv_in st + l \<and> unat (cv_inb st') + l = unat (cv_inb st) \<and>
       iconv_loop frm to src st = iconv_loop frm to src st')"
proof -
  let ?s = "drop (cv_in st) src"
  let ?dec = "iconv_decode (ucast ty) (frm + 1) ?s (cv_inb st)"
  have "set ?s \<subseteq> bytes" by (rule subset_trans [OF set_drop_subset assms(2)])
  then have good: "decode_good P (cv_inb st) ?dec"
    by (intro decode_law) (use assms(1,3) in \<open>simp_all add: le_diff_conv2\<close>)
  have less: "unat (cv_inb st - word_of_nat l) + l = unat (cv_inb st)" if "l \<le> unat (cv_inb st)" for l
  proof -
    have "unat (word_of_nat l :: u32) = l"
      using that unsigned_less [of "cv_inb st", where 'a = nat] by (intro unat_of_nat_small) simp
    then show ?thesis using that by (simp add: unat_sub word_le_nat_alt)
  qed
  note unfold = iconv_loop.simps [of frm to src st]
  from good obtain d where d: "?dec = Some d" by (auto simp: decode_good_def split: option.splits)
  show ?thesis
  proof (cases d)
    case (Code c l)
    then have l: "P c" "0 < l" "l \<le> unat (cv_inb st)" using good d by (simp_all add: dec_simps)
    let ?q = "iconv_emit (ucast ty) (ucast tt) (to + 1) c st"
    have "emit_ok st ?q" by (rule emit_law [OF l(1) assms(4)])
    then consider (big) st' where "?q = Some (TooBig st')" "wrote [] st st'" "same_in st st'"
      | (ok) st' bs where "?q = Some (Emitted st')" "wrote bs st st'" "same_in st st'"
      by (auto simp: emit_ok_def split: option.splits emitted.splits)
    then show ?thesis
    proof cases
      case big
      then show ?thesis using assms(1) d Code by (simp add: unfold from_type to_type)
    next
      case ok
      let ?st = "st'\<lparr>cv_in := cv_in st' + l, cv_inb := cv_inb st' - word_of_nat l\<rparr>"
      have "iconv_loop frm to src st = iconv_loop frm to src ?st"
        using assms(1) d Code ok(1) by (simp add: unfold from_type to_type)
      moreover have "wrote bs st ?st" using ok(2) by (simp add: wrote_def)
      moreover have "cv_in ?st = cv_in st + l" "unat (cv_inb ?st) + l = unat (cv_inb st)"
        using ok(3) less [OF l(3)] by (simp_all add: same_in_def)
      ultimately show ?thesis using l by blast
    qed
  next
    case (Pair c l)
    then have l: "l = 2" "2 \<le> unat (cv_inb st)" "pair_offset c" using good d by (simp_all add: dec_simps pair_offset_def)
    let ?st0 = "st\<lparr>cv_in := 0, cv_inb := 4, cv_x := 0\<rparr>"
    have "dst_ok ?st0" using assms(4) by (simp add: dst_ok_def)
    then obtain e st1 bs where st1: "iconv_loop 0 to (drop (unat (c mod 256)) hkscs_pairs) ?st0 = Some (e, st1)"
      "wrote bs ?st0 st1" using pair_law [of ?s "cv_inb st" c l ?st0] d Pair l(3) by auto
    let ?st = "st\<lparr>cv_in := cv_in st + l, cv_inb := cv_inb st - word_of_nat l, cv_dst := cv_dst st1,
      cv_out := cv_out st1, cv_outb := cv_outb st1, cv_x := cv_x st + (if e = Done then cv_x st1 else - 1)\<rparr>"
    show ?thesis
    proof (cases "cv_outb st < pair_room (ucast tt)")
      case True
      then show ?thesis using assms(1) d Pair by (simp add: unfold from_type to_type same_in_def)
    next
      case False
      then have "iconv_loop frm to src st = iconv_loop frm to src ?st"
        using assms(1) d Pair st1(1) by (simp add: unfold from_type to_type)
      moreover have "wrote bs st ?st" using st1(2) by (simp add: wrote_def)
      moreover have "cv_in ?st = cv_in st + l" "unat (cv_inb ?st) + l = unat (cv_inb st)"
        using less [of l] l by simp_all
      moreover have "0 < l" "l \<le> unat (cv_inb st)" using l by simp_all
      ultimately show ?thesis by blast
    qed
  qed (use assms(1) d in \<open>auto simp: unfold from_type to_type same_in_def\<close>)
qed

lemma loop:
  assumes "set src \<subseteq> bytes" "cv_in st + unat (cv_inb st) \<le> length src" "dst_ok st"
  shows "\<exists>e st' bs. iconv_loop frm to src st = Some (e, st') \<and> wrote bs st st' \<and> progress st st' \<and>
    (e = Done \<longleftrightarrow> cv_inb st' = 0)"
  using assms(2,3)
proof (induction "unat (cv_inb st)" arbitrary: st rule: less_induct)
  case less
  show ?case
  proof (cases "cv_inb st = 0")
    case True
    then have "iconv_loop frm to src st = Some (Done, st)" by (subst iconv_loop.simps) simp
    moreover have "progress st st" by (simp add: progress_def)
    ultimately show ?thesis using True wrote_Nil by blast
  next
    case False
    from step [OF False assms(1) less.prems] show ?thesis
    proof (elim disjE exE conjE)
      fix err st' assume "iconv_loop frm to src st = Some (Failed err, st')" "wrote [] st st'" "same_in st st'"
      then show ?thesis using False by (auto simp: progress_def same_in_def)
    next
      fix l st1 bs
      assume l: "0 < l" "l \<le> unat (cv_inb st)" "wrote bs st st1" "cv_in st1 = cv_in st + l"
        "unat (cv_inb st1) + l = unat (cv_inb st)" "iconv_loop frm to src st = iconv_loop frm to src st1"
      obtain e st' cs where rec: "iconv_loop frm to src st1 = Some (e, st')" "wrote cs st1 st'" "progress st1 st'"
        "e = Done \<longleftrightarrow> cv_inb st' = 0"
        using less.hyps [of st1] l less.prems dst_ok_wrote [OF l(3)] by auto
      have "wrote (bs @ cs) st st'" by (rule wrote_trans [OF l(3) rec(2) less.prems(2)])
      moreover have "progress st st'" using rec(3) l(4,5) by (simp add: progress_def)
      ultimately show ?thesis using l(6) rec(1,4) by metis
    qed
  qed
qed

end

section \<open>The converters of the program\<close>

text \<open>
  The recursive call for a pair: source position 0, where \<open>charmaps\<close> has the letter u, 117. With that type
  the bytes of \<open>hkscs_pairs\<close>, all below 245, are taken for characters of their own.
\<close>

lemma charmaps_first: "rd charmaps 0 = Some 117"
  by (simp add: charmaps_def charmap_list_def charmap_bytes_def cm_utf8_def rd_def)

lemma decode_first:
  assumes "inb \<noteq> 0" "unat inb \<le> length s" "set s \<subseteq> {b. b < 245}"
  shows "\<exists>c. iconv_decode (ucast (117 :: u8)) (0 + 1) s inb = Some (Code c 1) \<and> scalar c"
proof -
  have one: "1 \<le> unat inb" using assms(1) by (simp add: unat_gt_0 Suc_le_eq)
  then obtain a t where s: "s = a # t" using assms(2) by (cases s) auto
  then have "ucast a < (245 :: u32)" using assms(3) by (simp add: word_less_nat_alt)
  moreover have "scalar (ucast a)" by (rule scalar_small) simp
  ultimately show ?thesis by (simp add: s iconv_decode_def Let_def decode_legacy_def)
qed

lemma pair_converter:
  assumes "charmap_at to n" "safe_target n"
  shows "converter 0 to 117 (cm_type n) {b. b < 245} scalar"
proof
  show "rd charmaps 0 = Some 117" by (rule charmaps_first)
  show "rd charmaps to = Some (cm_type n)" by (rule charmap_at_type [OF assms(1)])
  show "emit_ok st (iconv_emit (ucast (117 :: u8)) (ucast (cm_type n)) (to + 1) c st)" if "scalar c" "dst_ok st" for c st
    by (rule iconv_emit_ok [OF that(2) assms]) (use that(1) in simp)
next
  fix inb :: u32 and s :: "u8 list"
  assume *: "inb \<noteq> 0" "unat inb \<le> length s" "set s \<subseteq> {b. b < 245}"
  have "1 \<le> unat inb" using *(1) by (simp add: unat_gt_0 Suc_le_eq)
  then show "decode_good scalar inb (iconv_decode (ucast (117 :: u8)) (0 + 1) s inb)"
    using decode_first [OF *] by (auto simp: dec_simps)
next
  fix s :: "u8 list" and inb c :: u32 and l st
  assume "iconv_decode (ucast (117 :: u8)) (0 + 1) s inb = Some (Pair c l)"
  moreover have "iconv_decode (ucast (117 :: u8)) (0 + 1) s inb \<noteq> Some (Pair c l)"
    by (cases s) (auto simp: iconv_decode_def decode_legacy_def Let_def rd_def split: if_splits Option.bind_splits)
  ultimately show "\<exists>e st' bs. iconv_loop 0 to (drop (unat (c mod 256)) hkscs_pairs) st = Some (e, st') \<and> wrote bs st st'"
    by blast
qed

lemma charmap_converter:
  assumes "charmap_at frm m" "safe_source m" "charmap_at to n" "safe_target n"
    and "cm_type n = 0xc8 \<longrightarrow> scalars_only m"
  shows "converter frm to (cm_type m) (cm_type n) UNIV (\<lambda>c. scalars_only m \<longrightarrow> scalar c)"
proof
  show "rd charmaps frm = Some (cm_type m)" by (rule charmap_at_type [OF assms(1)])
  show "rd charmaps to = Some (cm_type n)" by (rule charmap_at_type [OF assms(3)])
  show "decode_good (\<lambda>c. scalars_only m \<longrightarrow> scalar c) inb (iconv_decode (ucast (cm_type m)) (frm + 1) s inb)"
    if "inb \<noteq> 0" "unat inb \<le> length s" for inb s
    by (rule iconv_decode_good [OF assms(1,2) that])
  show "emit_ok st (iconv_emit (ucast (cm_type m)) (ucast (cm_type n)) (to + 1) c st)"
    if "scalars_only m \<longrightarrow> scalar c" "dst_ok st" for c st
    by (rule iconv_emit_ok [OF that(2) assms(3,4)]) (use that(1) assms(5) in simp)
next
  fix s :: "u8 list" and inb c :: u32 and l st
  assume c: "pair_offset c" and st: "dst_ok st" "cv_in st = 0" "cv_inb st = 4"
  have off: "unat (c mod 256) \<in> {0, 4, 8, 12}" using c by (simp add: pair_offset_def unat_mod)
  have "set (drop (unat (c mod 256)) hkscs_pairs) \<subseteq> {b. b < 245}"
    by (rule subset_trans [OF set_drop_subset]) (simp add: hkscs_pairs_def)
  moreover have "cv_in st + unat (cv_inb st) \<le> length (drop (unat (c mod 256)) hkscs_pairs)"
    using off st(2,3) by (auto simp: hkscs_pairs_def)
  ultimately show "\<exists>e st' bs. iconv_loop 0 to (drop (unat (c mod 256)) hkscs_pairs) st = Some (e, st') \<and> wrote bs st st'"
    using converter.loop [OF pair_converter [OF assms(3,4)] _ _ st(1)] by blast
qed

text \<open>The positions of UTF-8 and GBK.\<close>

lemma charmap_at_utf8: "charmap_at 6 cm_utf8"
proof -
  have "charmaps ! 6 = 200"
    by (simp add: charmaps_def charmap_list_def charmap_bytes_def cm_utf8_def)
  then have "drop 6 charmaps = 200 # drop 7 charmaps"
    using Cons_nth_drop_Suc [of 6 charmaps] by (simp add: length_charmaps)
  then show ?thesis by (simp add: charmap_at_def cm_utf8_def charmap_list_def)
qed

lemma charmap_at_gbk: "charmap_at 181 cm_gbk"
proof -
  have "charmaps ! 181 = 217"
    by (simp add: charmaps_def charmap_list_def charmap_bytes_def cm_utf8_def cm_wchart_def cm_ucs2_def
        cm_ucs2le_def cm_utf16_def cm_utf16le_def cm_ucs4_def cm_ucs4le_def cm_ascii_def cm_eucjp_def
        cm_shiftjis_def cm_gb18030_def cm_gbk_def)
  then have "drop 181 charmaps = 217 # drop 182 charmaps"
    using Cons_nth_drop_Suc [of 181 charmaps] by (simp add: length_charmaps)
  then show ?thesis by (simp add: charmap_at_def cm_gbk_def charmap_list_def)
qed

lemma safe_utf8: "safe_target cm_utf8" "safe_source cm_utf8"
  by (simp_all add: safe_target_def safe_source_def full_table_def cm_utf8_def cm_cp437_def cm_cp850_def)

lemma safe_gbk: "safe_source cm_gbk" "scalars_only cm_gbk"
  by (simp_all add: safe_source_def scalars_only_def full_table_def cm_gbk_def cm_cp437_def cm_cp850_def)

interpretation pair_to_utf8: converter 0 6 117 "cm_type cm_utf8" "{b. b < 245}" scalar
  by (rule pair_converter [OF charmap_at_utf8 safe_utf8(1)])

interpretation gbk_to_utf8: converter 181 6 "cm_type cm_gbk" "cm_type cm_utf8" UNIV "\<lambda>c. scalars_only cm_gbk \<longrightarrow> scalar c"
  by (rule charmap_converter [OF charmap_at_gbk safe_gbk(1) charmap_at_utf8 safe_utf8(1)]) (simp add: safe_gbk)

section \<open>The properties\<close>

lemma descriptor_halves:
  assumes "p < 65536" "q < 65536" "cd = word_of_nat (q * 65536 + p)"
  shows "unat (drop_bit 16 (cd :: u32)) = q" "unat (cd AND 0xffff) = p"
proof -
  have cd: "unat cd = q * 65536 + p" unfolding assms(3) using assms(1,2) by (intro unat_of_nat_small) simp
  show "unat (drop_bit 16 cd) = q" using assms(1) by (simp add: unat_drop_bit_div cd)
  show "unat (cd AND 0xffff) = p" using assms(1) by (simp add: unat_and_masks cd)
qed

lemma charmap_at_position: "charmap_at p m \<Longrightarrow> p < 65536"
  using charmap_at_type [of p m] by (simp add: rd_eq_Some_iff length_charmaps)

text \<open>
  C5. \<open>iconv\<close> is memory safe, terminates and accounts for its buffers: for every pair of character sets
  that \<open>iconv_open\<close> can return other than Shift_JIS, CP437 and CP850 (and, towards UTF-8, GB18030 and
  EUC-KR), every input and every fill of the output buffer, the call returns; what \<open>*in\<close> and \<open>*out\<close>
  moved is what \<open>*inb\<close> and \<open>*outb\<close> lost; the bytes were stored at \<open>*out\<close> and nowhere else; and the
  result is an error number other than none exactly when input is left.
\<close>

theorem iconv_safe:
  assumes "charmap_at q m" "safe_source m" "charmap_at p n" "safe_target n"
    and "cm_type n = 0xc8 \<longrightarrow> scalars_only m" "cd = word_of_nat (q * 65536 + p)"
    and "cv_in st + unat (cv_inb st) \<le> length src" "dst_ok st"
  shows "\<exists>r err st' bs. iconv cd src st = Some (r, err, st') \<and> wrote bs st st' \<and> progress st st' \<and>
    (err = None \<longleftrightarrow> cv_inb st' = 0) \<and> (err \<noteq> None \<longrightarrow> r = - 1)"
proof -
  note half = descriptor_halves [OF charmap_at_position [OF assms(3)] charmap_at_position [OF assms(1)] assms(6)]
  have ok: "dst_ok (st\<lparr>cv_x := 0\<rparr>)" using assms(8) by simp
  obtain e st' bs where L: "iconv_loop q p src (st\<lparr>cv_x := 0\<rparr>) = Some (e, st')" "wrote bs (st\<lparr>cv_x := 0\<rparr>) st'"
    "progress (st\<lparr>cv_x := 0\<rparr>) st'" "e = Done \<longleftrightarrow> cv_inb st' = 0"
    using converter.loop [OF charmap_converter [OF assms(1-5)] subset_UNIV _ ok, of src] assms(7) by auto
  show ?thesis
  proof (cases e)
    case Done
    then show ?thesis using L by (auto simp: iconv_def half progress_def)
  next
    case (Failed err)
    then show ?thesis using L by (auto simp: iconv_def half progress_def)
  qed
qed

theorem iconv_safe_witness:
  "\<exists>r err st' bs. iconv (word_of_nat (181 * 65536 + 6)) [0xd6, 0xd0, 0x41]
      \<lparr>cv_in = 0, cv_inb = 3, cv_dst = replicate 100 0, cv_out = 0, cv_outb = 100, cv_x = 0\<rparr> = Some (r, err, st') \<and>
    wrote bs \<lparr>cv_in = 0, cv_inb = 3, cv_dst = replicate 100 0, cv_out = 0, cv_outb = 100, cv_x = 0\<rparr> st' \<and>
    progress \<lparr>cv_in = 0, cv_inb = 3, cv_dst = replicate 100 0, cv_out = 0, cv_outb = 100, cv_x = 0\<rparr> st' \<and>
    (err = None \<longleftrightarrow> cv_inb st' = 0) \<and> (err \<noteq> None \<longrightarrow> r = - 1)"
  by (rule iconv_safe [OF charmap_at_gbk safe_gbk(1) charmap_at_utf8 safe_utf8(1)])
    (simp_all add: safe_gbk dst_ok_def)

end
