(* ===== verification/IconvFaults.thy ===== *)
theory IconvFaults
  imports IconvSafe
begin

unbundle bit_operations_syntax

text \<open>
  What \<open>iconv()\<close> does on the inputs its other properties exclude: reads outside \<open>jis0208\<close> for
  Shift_JIS, four-byte GB18030 decoded to the wrong plane, the output pointer that moves back and the
  store before the buffer that follows, and the code page positions that are lost when encoding.
\<close>

section \<open>Shift_JIS\<close>

text \<open>
  The Shift_JIS decoder has no check of the row: for a lead byte from 0xeb to 0xef it reads
  \<open>jis0208\<close>, which has 84 rows, at row 84 or beyond, whatever the trail byte from 0x40 to 0x7e is.
\<close>

theorem sjis_outside_table:
  assumes "0xeb \<le> a" "a \<le> 0xef" "0x40 \<le> b" "b \<le> 0x7e"
  shows "decode_sjis (ucast a) (a # b # s) 2 = None"
proof -
  let ?c = "ucast a :: u32" and ?d = "ucast b :: u32"
  have a: "235 \<le> unat a" "unat a \<le> 239" and b: "64 \<le> unat b" "unat b \<le> 126"
    using assms by (simp_all add: word_le_nat_alt)
  have 1: "\<not> ?c - 0xa1 \<le> 0xdf - 0xa1" "\<not> ?c - 129 \<le> 159 - 129"
    using a by (simp_all add: word_le_nat_alt unat_sub)
  have 2: "?c - 224 \<le> 239 - 224" "?d - 64 \<le> 158 - 64" "?d \<noteq> 127" "\<not> 127 < ?d"
    using a b by (auto simp: word_le_nat_alt word_less_nat_alt unat_sub word_unat_eq_iff [of ?d])
  have "84 \<le> unat ((?c - 193) * 2)"
    using a by (simp add: unat_word_ariths unat_sub word_le_nat_alt)
  then have "tab2 jis0208 ((?c - 193) * 2) (?d - 64) = None"
    by (simp add: tab2_def rd_def length_jis0208)
  then show ?thesis using 1 2 by (simp add: decode_sjis_def Let_def)
qed

theorem sjis_outside_table_witness:
  "decode_sjis (ucast (0xeb :: u8)) (0xeb # 0x40 # []) 2 = None"
  by (rule sjis_outside_table) simp_all

section \<open>Four-byte GB18030\<close>

lemma rank_between_all:
  "list_all (\<lambda>x. unat x \<le> r) tab \<Longrightarrow> rank_between tab 0 r = length tab"
  by (simp add: rank_between_def list_all_iff)

lemma room_for_table: "n < 2000000 \<Longrightarrow> n + 23940 < (2 :: nat) ^ 32 - 1"
  by simp

lemma gb4_value:
  assumes "unat c < 126" "15 \<le> unat c" "unat (d - 48) \<le> 9" "unat (e - 0x81) \<le> 126" "unat (f - 48) \<le> 9" "unat d < 256"
  shows "\<exists>w. rank_loop (concat gb18030) 0 ((10 * c + d - 48) * 1260 + 10 * (e - 0x81) + (f - 48) + 128) = Some w \<and>
    unat w = (10 * unat c + unat (d - 48)) * 1260 + 10 * unat (e - 0x81) + unat (f - 48) + 24068"
proof -
  let ?lin = "(10 * unat c + unat (d - 48)) * 1260 + 10 * unat (e - 0x81) + unat (f - 48)"
  let ?c = "(10 * c + d - 48) * 1260 + 10 * (e - 0x81) + (f - 48) + 128"
  have start: "unat ?c = ?lin + 128" by (rule gb4_start [OF assms(1,3-6)])
  have "?lin + 128 < 2000000" by (rule gb4_bound [OF assms(1,3-5)])
  then have "unat ?c + length (concat gb18030) < 2 ^ 32 - 1"
    unfolding start length_gb18030_all by (rule room_for_table)
  then obtain w where w: "rank_loop (concat gb18030) 0 ?c = Some w"
    "unat w = unat ?c + rank_between (concat gb18030) 0 (unat w)"
    using rank_loop_ends [of 0 ?c "concat gb18030"] by auto
  have "15 * 12600 \<le> ?lin" using mult_le_mono1 [OF assms(2), of 12600] by (simp add: algebra_simps)
  then have big: "65536 \<le> unat w" using w(2) unfolding start by linarith
  have "list_all (\<lambda>x. unat x \<le> unat w) (concat gb18030)"
  proof -
    have "unat x \<le> unat w" for x :: u16
      using unsigned_less [of x, where 'a = nat] big by simp
    then show ?thesis by (simp add: list_all_iff)
  qed
  then have "rank_between (concat gb18030) 0 (unat w) = 23940"
    by (simp only: rank_between_all length_gb18030_all)
  then have "unat w = ?lin + 24068" using w(2) unfolding start by linarith
  then show ?thesis using w(1) by blast
qed

text \<open>
  The four bytes of a supplementary character of GB18030, and its number in the linear order of the standard.
\<close>

definition gb4_bytes :: "u8 \<Rightarrow> u8 \<Rightarrow> u8 \<Rightarrow> u8 \<Rightarrow> bool" where
  "gb4_bytes a b c d \<longleftrightarrow> 0x90 \<le> a \<and> a \<le> 0xfe \<and> 0x30 \<le> b \<and> b \<le> 0x39 \<and> 0x81 \<le> c \<and> c \<le> 0xfe \<and> 0x30 \<le> d \<and> d \<le> 0x39"

definition gb4_linear :: "u8 \<Rightarrow> u8 \<Rightarrow> u8 \<Rightarrow> u8 \<Rightarrow> nat" where
  "gb4_linear a b c d = (10 * (unat a - 0x81) + (unat b - 48)) * 1260 + 10 * (unat c - 0x81) + (unat d - 48)"

lemma gb4_decode:
  assumes "gb4_bytes a b c d" "4 \<le> unat inb"
  shows "\<exists>w. iconv_decode T_GB18030 base (a # b # c # d # s) inb = Some (Code w 4) \<and> unat w = gb4_linear a b c d + 24068"
proof -
  have r: "144 \<le> unat a" "unat a \<le> 254" "48 \<le> unat b" "unat b \<le> 57" "129 \<le> unat c" "unat c \<le> 254" "48 \<le> unat d" "unat d \<le> 57"
    using assms(1) by (simp_all add: gb4_bytes_def word_le_nat_alt)
  let ?a = "ucast a :: u32" and ?b = "ucast b :: u32" and ?c = "ucast c :: u32" and ?d = "ucast d :: u32"
  have sub: "unat (?a - 0x81) = unat a - 129" "unat (?b - 48) = unat b - 48" "unat (?c - 0x81) = unat c - 129"
    "unat (?d - 48) = unat d - 48"
    using r by (simp_all add: unat_sub word_le_nat_alt)
  have pre: "unat (?a - 0x81) < 126" "15 \<le> unat (?a - 0x81)" "unat (?b - 48) \<le> 9" "unat (?c - 0x81) \<le> 126"
    "unat (?d - 48) \<le> 9" "unat ?b < 256"
    unfolding sub using r by simp_all
  obtain w where w: "rank_loop (concat gb18030) 0 ((10 * (?a - 0x81) + ?b - 48) * 1260 + 10 * (?c - 0x81) + (?d - 48) + 128) = Some w"
    "unat w = (10 * unat (?a - 0x81) + unat (?b - 48)) * 1260 + 10 * unat (?c - 0x81) + unat (?d - 48) + 24068"
    using gb4_value [OF pre] by blast
  have cond: "128 \<le> ?a" "\<not> 126 \<le> ?a - 0x81" "\<not> inb < 2" "191 \<le> ?b - 0x40" "\<not> 9 < ?b - 48" "\<not> inb < 4"
    "\<not> 126 < ?c - 0x81" "\<not> 9 < ?d - 48"
    using r sub assms(2) by (simp_all add: word_le_nat_alt word_less_nat_alt unat_sub_if_size word_size)
  have rds: "rd (a # b # c # d # s) 1 = Some b" "rd (a # b # c # d # s) 2 = Some c" "rd (a # b # c # d # s) 3 = Some d"
    by (simp_all add: rd_def)
  have "iconv_decode T_GB18030 base (a # b # c # d # s) inb = decode_gb4 (?a - 0x81) ?b (a # b # c # d # s)"
    using cond rds by (simp add: iconv_decode_def decode_gb_def Let_def)
  also have "\<dots> = Some (Code w 4)" using cond rds w(1) by (simp add: decode_gb4_def Let_def)
  finally show ?thesis using w(2) by (auto simp: gb4_linear_def sub)
qed

text \<open>
  C30. A four-byte character of a supplementary plane (lead byte 0x90 or more) is decoded to its linear
  number plus 24068; the standard assigns 0x10000 plus the linear number minus 189000, so the
  first such character (90 30 81 30, U+10000) becomes U+3404C.
\<close>

theorem gb18030_supplementary:
  assumes "gb4_bytes a b c d"
  shows "\<exists>w. iconv_decode T_GB18030 base (a # b # c # d # s) 4 = Some (Code w 4) \<and>
    unat w = gb4_linear a b c d + 24068 \<and> unat w \<noteq> 0x10000 + (gb4_linear a b c d - 189000)"
proof -
  obtain w where w: "iconv_decode T_GB18030 base (a # b # c # d # s) 4 = Some (Code w 4)"
    "unat w = gb4_linear a b c d + 24068"
    using gb4_decode [OF assms, of 4] by auto
  have "144 \<le> unat a" using assms by (simp add: gb4_bytes_def word_le_nat_alt)
  then have "15 \<le> unat a - 129" by linarith
  then have "189000 \<le> gb4_linear a b c d" unfolding gb4_linear_def by simp
  then show ?thesis using w by auto
qed

theorem gb18030_supplementary_witness:
  "\<exists>w. iconv_decode T_GB18030 0 (0x90 # 0x30 # 0x81 # 0x30 # []) 4 = Some (Code w 4) \<and>
    unat w = gb4_linear 0x90 0x30 0x81 0x30 + 24068 \<and> unat w \<noteq> 0x10000 + (gb4_linear 0x90 0x30 0x81 0x30 - 189000)"
  by (rule gb18030_supplementary) (simp add: gb4_bytes_def)

section \<open>The output pointer\<close>

lemma charmap_at_gb18030: "charmap_at 175 cm_gb18030"
proof -
  have "charmaps ! 175 = 216"
    by (simp add: charmaps_def charmap_list_def charmap_bytes_def cm_utf8_def cm_wchart_def cm_ucs2_def
        cm_ucs2le_def cm_utf16_def cm_utf16le_def cm_ucs4_def cm_ucs4le_def cm_ascii_def cm_eucjp_def
        cm_shiftjis_def cm_gb18030_def)
  then have "drop 175 charmaps = 216 # drop 176 charmaps"
    using Cons_nth_drop_Suc [of 175 charmaps] by (simp add: length_charmaps)
  then show ?thesis by (simp add: charmap_at_def cm_gb18030_def charmap_list_def)
qed

lemma rd_gb18030: "rd charmaps 175 = Some 216" and rd_utf8: "rd charmaps 6 = Some 200"
  using charmap_at_type [OF charmap_at_gb18030] charmap_at_type [OF charmap_at_utf8]
  by (simp_all add: cm_gb18030_def cm_utf8_def)

text \<open>
  GB18030 to UTF-8 stores before the output buffer: a four-byte character with a lead byte from 0xd8
  on decodes to a value above 0x10ffff, which \<open>wctomb\<close> refuses; \<open>*out\<close> then moves one byte back, and the
  next character is written there, which at the start of the buffer is outside it.
\<close>

theorem gb18030_store_before_buffer:
  assumes "gb4_bytes a b c d" "0xd8 \<le> a" "x < 0x80" "4 \<le> n" "n < 1000"
  shows "iconv (word_of_nat (175 * 65536 + 6)) [a, b, c, d, x]
    \<lparr>cv_in = 0, cv_inb = 5, cv_dst = replicate n 0, cv_out = 0, cv_outb = word_of_nat n, cv_x = 0\<rparr> = None"
proof -
  let ?st = "\<lparr>cv_in = 0, cv_inb = 5, cv_dst = replicate n 0, cv_out = 0, cv_outb = word_of_nat n, cv_x = 0 :: u32\<rparr>"
  obtain w where w: "iconv_decode T_GB18030 176 [a, b, c, d, x] 5 = Some (Code w 4)"
    "unat w = gb4_linear a b c d + 24068"
    using gb4_decode [OF assms(1), of 5 176 "[x]"] by auto
  have "216 \<le> unat a" using assms(2) by (simp add: word_le_nat_alt)
  then have "87 \<le> unat a - 129" by linarith
  then have "0x110000 \<le> unat w" unfolding w(2) gb4_linear_def by simp
  then have none: "wcrtomb_s w = None" by (simp add: wcrtomb_None scalar_def)
  have n: "unat (word_of_nat n :: u32) = n" using assms(5) by (intro unat_of_nat_small) simp
  then have room: "\<not> word_of_nat n < (4 :: u32)" using assms(4) by (simp add: word_less_nat_alt)
  have n1: "\<not> word_of_nat n + 1 < (1 :: u32)"
    using assms(5) n by (simp add: word_less_nat_alt unat_word_ariths)
  have dx: "iconv_decode T_GB18030 176 [x] 1 = Some (Code (ucast x) 1)"
    using assms(3) by (simp add: iconv_decode_def Let_def word_le_nat_alt word_less_nat_alt)
  have ex: "wcrtomb_s (ucast x) = Some [x]"
    using assms(3) by (simp add: wcrtomb_s_unat word_less_nat_alt word_unat_eq_iff unat_ucast_mod)
  let ?st1 = "\<lparr>cv_in = 4, cv_inb = 1, cv_dst = replicate n 0, cv_out = - 1, cv_outb = word_of_nat n + 1, cv_x = 0 :: u32\<rparr>"
  have "iconv_loop 175 6 [a, b, c, d, x] ?st = iconv_loop 175 6 [a, b, c, d, x] ?st1"
    using w(1) none room by (subst iconv_loop.simps) (simp add: rd_gb18030 rd_utf8 iconv_emit_def emit_utf8_def)
  also have "\<dots> = None"
    using dx ex n1 by (subst iconv_loop.simps)
      (simp add: rd_gb18030 rd_utf8 iconv_emit_def emit_utf8_def put_bytes_def store_def)
  finally have "iconv_loop 175 6 [a, b, c, d, x] ?st = None" .
  then show ?thesis by (simp add: iconv_def descriptor_halves [of 6 175])
qed

theorem gb18030_store_before_buffer_witness:
  "iconv (word_of_nat (175 * 65536 + 6)) [0xfe, 0x39, 0xfe, 0x39, 0x41]
    \<lparr>cv_in = 0, cv_inb = 5, cv_dst = replicate 100 0, cv_out = 0, cv_outb = word_of_nat 100, cv_x = 0\<rparr> = None"
  by (rule gb18030_store_before_buffer) (simp_all add: gb4_bytes_def)

section \<open>Encoding into a code page\<close>

lemma legacy_search_finds:
  assumes "charmap_at p m" "full_table m" "cm_type m \<le> 0x80" "unat n = 128 - unat (cm_type m)"
    and "k < n" "legacy_char (p + 1) k = Some d"
  shows "unat c \<le> unat k \<Longrightarrow> \<exists>i. legacy_search (p + 1) d c n = Some (Some i) \<and> unat i \<le> unat k"
proof (induction "unat n - unat c" arbitrary: c rule: less_induct)
  case less
  have cn: "c < n" using less.prems assms(5) by (simp add: word_less_nat_alt)
  then have "unat c < 128 - unat (cm_type m)" using assms(4) by (simp add: word_less_nat_alt)
  then obtain v where v: "legacy_char (p + 1) c = Some v" using legacy_char_good [OF assms(1-3)] by blast
  show ?case
  proof (cases "d = v")
    case True
    then have "legacy_search (p + 1) d c n = Some (Some c)" using cn v by (subst legacy_search.simps) simp
    then show ?thesis using less.prems by blast
  next
    case False
    then have "c \<noteq> k" using v assms(6) by auto
    then have "unat (c + 1) \<le> unat k"
      using less.prems unat_inc_less [OF cn] by (simp add: word_unat_eq_iff)
    then obtain i where "legacy_search (p + 1) d (c + 1) n = Some (Some i)" "unat i \<le> unat k"
      using less.hyps [OF upto_measure [OF cn]] by blast
    moreover have "legacy_search (p + 1) d c n = legacy_search (p + 1) d (c + 1) n"
      using cn v False by (subst legacy_search.simps) simp
    ultimately show ?thesis by simp
  qed
qed

text \<open>
  Encoding forgets the elided entries: in a code page whose type (the number of positions left out after
  0x80) is not 0, such as ISO-8859-2, the byte stored for a character that the table has is never the byte
  that decodes to it, because \<open>c += 128\<close> does not add the type.
\<close>

theorem code_page_byte_wrong:
  assumes "charmap_at p m" "full_table m" "0 < cm_type m" "cm_type m \<le> 0x80"
    and "128 + unat (cm_type m) \<le> unat (b :: u8)"
    and "decode_legacy (ucast (cm_type m)) (p + 1) (ucast b) = Some (Code v 1)" "v \<noteq> ucast b"
    and "128 + ucast (cm_type m) \<le> v" "dst_ok st" "0 < cv_outb st"
  shows "\<exists>x st'. emit_byte (ucast (cm_type m)) (p + 1) v st = Some (Emitted st') \<and> wrote [x] st st' \<and> x \<noteq> b"
proof -
  let ?ty = "ucast (cm_type m) :: u32"
  let ?k = "ucast b - (128 + ?ty) :: u32"
  have ty: "unat (cm_type m) \<le> 128" "0 < unat (cm_type m)"
    using assms(3,4) by (simp_all add: word_le_nat_alt word_less_nat_alt)
  have u: "unat (128 + ?ty) = 128 + unat (cm_type m)" using ty by (simp add: unat_word_ariths)
  have k: "unat ?k = unat b - 128 - unat (cm_type m)" using assms(5) by (simp add: unat_sub word_le_nat_alt u)
  have n: "unat (128 - ?ty) = 128 - unat (cm_type m)" using ty by (simp add: unat_sub word_le_nat_alt)
  have kn: "?k < 128 - ?ty"
    using assms(5) unat_byte_bound [of b] unfolding word_less_nat_alt k n by linarith
  have "\<not> (ucast b :: u32) < 128 + ?ty" using assms(5) by (simp add: word_less_nat_alt u)
  then have "legacy_char (p + 1) ?k = Some v"
    using assms(6,7) by (auto simp: decode_legacy_def Let_def split: Option.bind_splits if_splits)
  then obtain i where i: "legacy_search (p + 1) v 0 (128 - ?ty) = Some (Some i)" "unat i \<le> unat ?k"
    using legacy_search_finds [OF assms(1,2,4) n kn, of v 0] by auto
  let ?x = "ucast (i + 128) :: u8"
  have "unat i \<le> 127" using i(2) k unat_byte_bound [of b] by linarith
  then have "unat ?x = unat i + 128" by (simp add: unat_ucast_mod unat_word_ariths)
  then have "?x \<noteq> b" using i(2) k ty(2) assms(5) by auto
  moreover have "emit_byte ?ty (p + 1) v st = put_bytes [?x] st"
  proof -
    have "?ty \<noteq> T_US_ASCII" using ty by (auto simp: word_unat_eq_iff)
    moreover have "\<not> v < 128 + ?ty" using assms(8) by (simp only: not_less)
    moreover have "\<not> cv_outb st < 1" using assms(10) by (auto simp: word_less_nat_alt)
    ultimately show ?thesis using i(1) by (simp add: emit_byte_def Let_def)
  qed
  moreover have "\<exists>st'. put_bytes [?x] st = Some (Emitted st') \<and> wrote [?x] st st'"
  proof -
    have one: "1 \<le> unat (cv_outb st)" using assms(10) by (simp add: word_less_nat_alt Suc_le_eq)
    then have "store (cv_dst st) (cv_out st) [?x] = Some (patch (cv_dst st) (nat (cv_out st)) [?x])"
      using assms(9) by (auto simp: store_def dst_ok_def)
    moreover have "unat (cv_outb st - 1) + 1 = unat (cv_outb st)" using one by (simp add: unat_sub word_le_nat_alt)
    ultimately show ?thesis using assms(10) one by (auto simp: put_bytes_def wrote_def)
  qed
  ultimately show ?thesis by metis
qed

lemma charmap_at_iso88592: "charmap_at 280 cm_iso88592"
proof -
  have "charmaps ! 280 = 32"
    by (simp add: charmaps_def charmap_list_def charmap_bytes_def cm_iso88592_def
      cm_utf8_def cm_wchart_def cm_ucs2_def cm_ucs2le_def cm_utf16_def cm_utf16le_def cm_ucs4_def cm_ucs4le_def
      cm_ascii_def cm_eucjp_def cm_shiftjis_def cm_gb18030_def cm_gbk_def cm_gb2312_def cm_big5_def cm_euckr_def
      cm_iso88591_def)
  then have "drop 280 charmaps = 32 # drop 281 charmaps"
    using Cons_nth_drop_Suc [of 280 charmaps] by (simp add: length_charmaps)
  then have "drop 280 charmaps = cm_type cm_iso88592 # cm_table cm_iso88592 @ drop 120 (drop 281 charmaps)"
    using append_take_drop_id [of 120 "drop 281 charmaps"] by (simp only: iso88592_table) (simp add: cm_iso88592_def)
  then show ?thesis unfolding charmap_at_def by (auto simp: charmap_list_def)
qed

lemma iso88592_a1: "legacy_char 281 1 = Some 0x104"
proof -
  have "drop 281 charmaps = cm_table cm_iso88592 @ drop 120 (drop 281 charmaps)"
    using append_take_drop_id [of 120 "drop 281 charmaps"] by (simp only: iso88592_table)
  moreover have "cm_iso88592 \<in> set charmap_list" by (simp add: charmap_list_def)
  ultimately have "legacy_char 281 1 = map_option ucast (rd legacy_chars (ten_bit_groups (cm_table cm_iso88592) ! unat (1 :: u32)))"
    by (intro legacy_char_at) (simp_all add: cm_iso88592_def)
  then show ?thesis
    by (simp add: cm_iso88592_def ten_bits_def rd_def length_legacy_chars)
      (simp add: legacy_chars_def legacy_chars_0_def nth_append nth_u16s)
qed

theorem code_page_byte_wrong_witness:
  "\<exists>x st'. emit_byte (ucast (cm_type cm_iso88592)) (280 + 1) 0x104
      \<lparr>cv_in = 0, cv_inb = 1, cv_dst = [0], cv_out = 0, cv_outb = 1, cv_x = 0\<rparr> = Some (Emitted st') \<and>
    wrote [x] \<lparr>cv_in = 0, cv_inb = 1, cv_dst = [0], cv_out = 0, cv_outb = 1, cv_x = 0\<rparr> st' \<and> x \<noteq> (0xa1 :: u8)"
proof (rule code_page_byte_wrong [OF charmap_at_iso88592])
  show "decode_legacy (ucast (cm_type cm_iso88592)) (280 + 1) (ucast (0xa1 :: u8)) = Some (Code 0x104 1)"
    using iso88592_a1 by (simp add: decode_legacy_def cm_iso88592_def Let_def)
qed (simp_all add: cm_iso88592_def full_table_def cm_cp437_def cm_cp850_def dst_ok_def)

end
