(* ===== verification/CInt.thy ===== *)
theory CInt
  imports FN_Prelude
begin

text \<open>
  C integers as mathematical integers: the media parsers mix \<open>int32\<close> and \<open>uint32\<close> freely, so their
  values are \<open>int\<close>s here and every conversion or wrap of the code is written out with \<open>to_u32\<close> and
  \<open>to_s32\<close>. Also: table look-ups with an \<open>int\<close> index, and big-endian numbers.
\<close>

section \<open>Wrapping\<close>

definition to_u32 :: "int \<Rightarrow> int" where
  "to_u32 x = x mod 4294967296"

definition to_s32 :: "int \<Rightarrow> int" where
  "to_s32 x = (x + 2147483648) mod 4294967296 - 2147483648"

named_theorems in_range "conversions of values that fit"

lemma to_u32_id [in_range]: "0 \<le> x \<Longrightarrow> x < 4294967296 \<Longrightarrow> to_u32 x = x"
  by (simp add: to_u32_def)

lemma to_s32_id [in_range]: "- 2147483648 \<le> x \<Longrightarrow> x < 2147483648 \<Longrightarrow> to_s32 x = x"
  by (simp add: to_s32_def)

lemma to_s32_to_u32 [simp]: "to_s32 (to_u32 x) = to_s32 x"
  by (simp add: to_s32_def to_u32_def mod_add_left_eq)

lemma to_u32_to_s32 [simp]: "to_u32 (to_s32 x) = to_u32 x"
  by (simp add: to_s32_def to_u32_def mod_diff_left_eq)

lemma to_u32_to_u32 [simp]: "to_u32 (to_u32 x) = to_u32 x"
  by (simp add: to_u32_def)

lemma to_u32_range: "0 \<le> to_u32 x" "to_u32 x < 4294967296"
  by (simp_all add: to_u32_def)

lemma to_s32_range: "- 2147483648 \<le> to_s32 x" "to_s32 x < 2147483648"
  by (simp_all add: to_s32_def)

lemma to_u32_add_left [simp]: "to_u32 (to_u32 x + y) = to_u32 (x + y)"
  by (simp add: to_u32_def mod_add_left_eq)

section \<open>Tables\<close>

definition rdi :: "'a list \<Rightarrow> int \<Rightarrow> 'a option" where
  "rdi xs i = (if 0 \<le> i then rd xs (nat i) else None)"

lemma rdi_Some [mem_simps]: "0 \<le> i \<Longrightarrow> i < int (length xs) \<Longrightarrow> rdi xs i = Some (xs ! nat i)"
  by (simp add: rdi_def rd_def nat_less_iff)

lemma rdi_eq_Some_iff: "rdi xs i = Some v \<longleftrightarrow> 0 \<le> i \<and> i < int (length xs) \<and> xs ! nat i = v"
  by (auto simp: rdi_def rd_def nat_less_iff)

section \<open>Big-endian numbers\<close>

text \<open>The number that bytes, most significant first, stand for.\<close>

definition be_val :: "u8 list \<Rightarrow> nat" where
  "be_val bs = foldl (\<lambda>n b. n * 256 + unat b) 0 bs"

lemma be_val_Nil [simp]: "be_val [] = 0"
  by (simp add: be_val_def)

lemma be_val_snoc: "be_val (bs @ [b]) = be_val bs * 256 + unat b"
  by (simp add: be_val_def)

lemma be_val_bound: "be_val bs < 256 ^ length bs"
proof (induction bs rule: rev_induct)
  case (snoc b bs)
  have "be_val (bs @ [b]) < be_val bs * 256 + 256"
    unfolding be_val_snoc using unat_byte_bound [of b] by (rule add_strict_left_mono)
  also have "\<dots> \<le> 256 ^ length (bs @ [b])" using snoc by simp
  finally show ?case .
qed simp

text \<open>\<open>data = (data << 8) | byte\<close>, over bytes that fit.\<close>

definition shift_in :: "u32 \<Rightarrow> u8 \<Rightarrow> u32" where
  "shift_in n b = push_bit 8 n OR ucast b"

lemma unat_shift_in:
  assumes "unat n < 2 ^ 24"
  shows "unat (shift_in n b) = unat n * 256 + unat b"
proof -
  have "unat (push_bit 8 n) = unat n * 256"
    using assms by (simp add: unat_push_bit_small)
  then show ?thesis
    unfolding shift_in_def by (subst unat_or_plus [where k = 8]) (simp_all add: unat_ucast_small)
qed

lemma unat_shift_ins:
  "length bs \<le> 4 \<Longrightarrow> unat (foldl shift_in 0 bs) = be_val bs"
proof (induction bs rule: rev_induct)
  case (snoc b bs)
  then have IH: "unat (foldl shift_in 0 bs) = be_val bs" by simp
  have "be_val bs < 256 ^ length bs" by (rule be_val_bound)
  also have "\<dots> \<le> 256 ^ 3" by (rule power_increasing) (use snoc.prems in simp_all)
  finally have "unat (foldl shift_in 0 bs) < 2 ^ 24" unfolding IH by simp
  then show ?case by (simp add: unat_shift_in IH be_val_snoc)
qed simp

end
