(* ===== verification/Mp3Header.thy ===== *)
theory Mp3Header
  imports CInt
begin

text \<open>
  The MPEG audio frame header (\<open>pvmi/mp3parser.cpp\<close>): the tables of bit rates, sampling rates and
  samples per frame, the split of the header into its fields, and what follows from the fields
  (bit rate, sampling rate, frame length, channels).
\<close>

section \<open>Constants and tables\<close>

definition FRAME_SYNC_MASK :: u32 where "FRAME_SYNC_MASK = 0xFFE00000"
definition FRAME_VER_ID_MASK :: u32 where "FRAME_VER_ID_MASK = 0x00180000"
definition FRAME_VER_ID_SHIFT :: nat where "FRAME_VER_ID_SHIFT = 19"
definition FRAME_LAYER_ID_MASK :: u32 where "FRAME_LAYER_ID_MASK = 0x00060000"
definition FRAME_LAYER_ID_SHIFT :: nat where "FRAME_LAYER_ID_SHIFT = 17"
definition FRAME_PROT_MASK :: u32 where "FRAME_PROT_MASK = 0x00010000"
definition FRAME_PROT_SHIFT :: nat where "FRAME_PROT_SHIFT = 16"
definition FRAME_BR_INDEX_MASK :: u32 where "FRAME_BR_INDEX_MASK = 0x0000F000"
definition FRAME_BR_INDEX_SHIFT :: nat where "FRAME_BR_INDEX_SHIFT = 12"
definition FRAME_SR_FREQ_MASK :: u32 where "FRAME_SR_FREQ_MASK = 0x00000C00"
definition FRAME_SR_FREQ_SHIFT :: nat where "FRAME_SR_FREQ_SHIFT = 10"
definition FRAME_PADDING_MASK :: u32 where "FRAME_PADDING_MASK = 0x00000200"
definition FRAME_PADDING_SHIFT :: nat where "FRAME_PADDING_SHIFT = 9"
definition FRAME_PRIVATE_MASK :: u32 where "FRAME_PRIVATE_MASK = 0x00000100"
definition FRAME_PRIVATE_SHIFT :: nat where "FRAME_PRIVATE_SHIFT = 8"
definition FRAME_CH_MODE_MASK :: u32 where "FRAME_CH_MODE_MASK = 0x000000C0"
definition FRAME_CH_MODE_SHIFT :: nat where "FRAME_CH_MODE_SHIFT = 6"
definition FRAME_MODE_EXTN_MASK :: u32 where "FRAME_MODE_EXTN_MASK = 0x00000030"
definition FRAME_MODE_EXTN_SHIFT :: nat where "FRAME_MODE_EXTN_SHIFT = 4"

lemmas frame_constants =
  FRAME_SYNC_MASK_def FRAME_VER_ID_MASK_def FRAME_VER_ID_SHIFT_def FRAME_LAYER_ID_MASK_def
  FRAME_LAYER_ID_SHIFT_def FRAME_PROT_MASK_def FRAME_PROT_SHIFT_def FRAME_BR_INDEX_MASK_def
  FRAME_BR_INDEX_SHIFT_def FRAME_SR_FREQ_MASK_def FRAME_SR_FREQ_SHIFT_def FRAME_PADDING_MASK_def
  FRAME_PADDING_SHIFT_def FRAME_PRIVATE_MASK_def FRAME_PRIVATE_SHIFT_def FRAME_CH_MODE_MASK_def
  FRAME_CH_MODE_SHIFT_def FRAME_MODE_EXTN_MASK_def FRAME_MODE_EXTN_SHIFT_def

definition brIndexTableV1 :: "int list list" where
  "brIndexTableV1 =
    [[0, 0, 0, 0, 0, 0, 0, 0, 0, 0, 0, 0, 0, 0, 0, 0],
     [0, 32, 40, 48, 56, 64, 80, 96, 112, 128, 160, 192, 224, 256, 320, 0],
     [0, 32, 48, 56, 64, 80, 96, 112, 128, 160, 192, 224, 256, 320, 384, 0],
     [0, 32, 64, 96, 128, 160, 192, 224, 256, 288, 320, 352, 384, 416, 448, 0]]"

definition brIndexTableV2 :: "int list list" where
  "brIndexTableV2 =
    [[0, 0, 0, 0, 0, 0, 0, 0, 0, 0, 0, 0, 0, 0, 0, 0],
     [0, 8, 16, 24, 32, 40, 48, 56, 64, 80, 96, 112, 128, 144, 160, 0],
     [0, 8, 16, 24, 32, 40, 48, 56, 64, 80, 96, 112, 128, 144, 160, 0],
     [0, 32, 48, 56, 64, 80, 96, 112, 128, 144, 160, 176, 192, 224, 256, 0]]"

definition srIndexTable :: "int list" where
  "srIndexTable = [11025, 12000, 8000, 0, 0, 0, 0, 0, 22050, 24000, 16000, 0, 44100, 48000, 32000, 0]"

definition spfIndexTable :: "int list list" where
  "spfIndexTable = [[0, 576, 1152, 384], [0, 0, 0, 0], [0, 576, 1152, 384], [0, 1152, 1152, 384]]"

lemmas mp3_tables = brIndexTableV1_def brIndexTableV2_def srIndexTable_def spfIndexTable_def

definition rdi2 :: "'a list list \<Rightarrow> int \<Rightarrow> int \<Rightarrow> 'a option" where
  "rdi2 t i j = do { r \<leftarrow> rdi t i; rdi r j }"

section \<open>The header\<close>

record mp3_header =
  frameVer :: int
  layerID :: int
  crcFollows :: int
  brIndex :: int
  srIndex :: int
  prvBit :: int
  padBit :: int
  chMode :: int
  modeExtn :: int
  frameSize :: int

definition zero_header :: mp3_header where
  "zero_header = \<lparr>frameVer = 0, layerID = 0, crcFollows = 0, brIndex = 0, srIndex = 0, prvBit = 0,
     padBit = 0, chMode = 0, modeExtn = 0, frameSize = 0\<rparr>"

text \<open>
  The ABIs are little endian: a word in memory is the number of its bytes in reverse. The sources
  choose between two ways of reading a number by the macros \<open>OSCL_BYTE_ORDER_LITTLE_ENDIAN\<close> and
  \<open>OSCL_BYTE_ORDER_BIG_ENDIAN\<close>: the model has the choice as an argument. The repository defines only the
  second one, in \<open>pv_id3_parcom.h\<close>: \<open>repository_byte_order\<close>.
\<close>

datatype byte_order = LITTLE_ENDIAN | BIG_ENDIAN

definition repository_byte_order :: byte_order where
  "repository_byte_order = BIG_ENDIAN"

definition host_u32 :: "u8 \<Rightarrow> u8 \<Rightarrow> u8 \<Rightarrow> u8 \<Rightarrow> u32" where
  "host_u32 p0 p1 p2 p3 = push_bit 24 (ucast p3) OR push_bit 16 (ucast p2) OR push_bit 8 (ucast p1) OR ucast p0"

definition host_u16 :: "u8 \<Rightarrow> u8 \<Rightarrow> u16" where
  "host_u16 p0 p1 = push_bit 8 (ucast p1) OR ucast p0"

definition SwapFileToHostByteOrderInt32 :: "byte_order \<Rightarrow> u8 \<Rightarrow> u8 \<Rightarrow> u8 \<Rightarrow> u8 \<Rightarrow> u32" where
  "SwapFileToHostByteOrderInt32 bo b0 b1 b2 b3 =
     (case bo of LITTLE_ENDIAN \<Rightarrow> host_u32 b3 b2 b1 b0 | BIG_ENDIAN \<Rightarrow> host_u32 b0 b1 b2 b3)"

definition SwapFileToHostByteOrderInt16 :: "byte_order \<Rightarrow> u8 \<Rightarrow> u8 \<Rightarrow> u16" where
  "SwapFileToHostByteOrderInt16 bo b0 b1 = (case bo of LITTLE_ENDIAN \<Rightarrow> host_u16 b1 b0 | BIG_ENDIAN \<Rightarrow> host_u16 b0 b1)"

lemma swap_little_endian:
  "SwapFileToHostByteOrderInt32 LITTLE_ENDIAN b0 b1 b2 b3 =
     push_bit 24 (ucast b0) OR push_bit 16 (ucast b1) OR push_bit 8 (ucast b2) OR ucast b3"
  "SwapFileToHostByteOrderInt16 LITTLE_ENDIAN b0 b1 = push_bit 8 (ucast b0) OR ucast b1"
  by (simp_all add: SwapFileToHostByteOrderInt32_def SwapFileToHostByteOrderInt16_def host_u32_def host_u16_def)

text \<open>The four bytes of a header in memory, \<open>None\<close> outside the object.\<close>

definition swap32_at :: "byte_order \<Rightarrow> u8 list \<Rightarrow> nat \<Rightarrow> u32 option" where
  "swap32_at bo bs i = do { b0 \<leftarrow> rd bs i; b1 \<leftarrow> rd bs (i + 1); b2 \<leftarrow> rd bs (i + 2); b3 \<leftarrow> rd bs (i + 3);
     Some (SwapFileToHostByteOrderInt32 bo b0 b1 b2 b3) }"

definition swap16_at :: "byte_order \<Rightarrow> u8 list \<Rightarrow> nat \<Rightarrow> u16 option" where
  "swap16_at bo bs i = do { b0 \<leftarrow> rd bs i; b1 \<leftarrow> rd bs (i + 1); Some (SwapFileToHostByteOrderInt16 bo b0 b1) }"

text \<open>A field of the header, converted to \<open>int32\<close>.\<close>

definition field :: "u32 \<Rightarrow> u32 \<Rightarrow> nat \<Rightarrow> int" where
  "field h mask_bits shift = to_s32 (uint (drop_bit shift (h AND mask_bits)))"

definition GetMP3Header :: "u32 \<Rightarrow> bool \<times> mp3_header" where
  "GetMP3Header h =
     (if h AND FRAME_SYNC_MASK \<noteq> FRAME_SYNC_MASK then (False, zero_header)
      else let i = zero_header\<lparr>
             frameVer := field h FRAME_VER_ID_MASK FRAME_VER_ID_SHIFT,
             layerID := field h FRAME_LAYER_ID_MASK FRAME_LAYER_ID_SHIFT,
             crcFollows := field h FRAME_PROT_MASK FRAME_PROT_SHIFT,
             brIndex := field h FRAME_BR_INDEX_MASK FRAME_BR_INDEX_SHIFT,
             srIndex := field h FRAME_SR_FREQ_MASK FRAME_SR_FREQ_SHIFT,
             prvBit := field h FRAME_PRIVATE_MASK FRAME_PRIVATE_SHIFT,
             padBit := field h FRAME_PADDING_MASK FRAME_PADDING_SHIFT,
             chMode := field h FRAME_CH_MODE_MASK FRAME_CH_MODE_SHIFT,
             modeExtn := field h FRAME_MODE_EXTN_MASK FRAME_MODE_EXTN_SHIFT\<rparr>
           in if srIndex i = 3 \<or> brIndex i = 15 \<or> frameVer i = 1 \<or> layerID i \<noteq> 1
              then (False, i) else (True, i))"

section \<open>What the header says\<close>

record mp3_config =
  SamplingRate :: int
  BitRate :: int
  FrameLengthInBytes :: int
  FrameSizeUnComp :: int
  NumberOfChannels :: int

definition zero_config :: mp3_config where
  "zero_config = \<lparr>SamplingRate = 0, BitRate = 0, FrameLengthInBytes = 0, FrameSizeUnComp = 0, NumberOfChannels = 0\<rparr>"

definition bit_rate :: "mp3_header \<Rightarrow> int option" where
  "bit_rate h =
     (if frameVer h = 3
      then do { b \<leftarrow> rdi2 brIndexTableV1 (layerID h) (brIndex h); Some (to_u32 (1000 * b)) }
      else do { b \<leftarrow> rdi2 brIndexTableV2 (layerID h) (brIndex h); Some (to_u32 (1000 * b)) })"

text \<open>
  The frame length: \<open>uint32\<close> arithmetic, \<open>padBit\<close> is converted to it; the division is by a sampling
  rate that is not zero here.
\<close>

definition frame_length :: "mp3_header \<Rightarrow> int \<Rightarrow> int \<Rightarrow> int" where
  "frame_length h bitRate samplingRate =
     (if layerID h = 3
      then if frameVer h = 3
        then to_u32 (to_u32 (to_u32 (12 * bitRate) div samplingRate + to_u32 (padBit h)) * 4)
        else to_u32 (to_u32 (to_u32 (6 * bitRate) div samplingRate + to_u32 (padBit h)) * 4)
      else if frameVer h = 3
        then to_u32 (to_u32 (144 * bitRate) div samplingRate + to_u32 (padBit h))
        else to_u32 (to_u32 (72 * bitRate) div samplingRate + to_u32 (padBit h)))"

definition samples_of_frame :: "mp3_header \<Rightarrow> int" where
  "samples_of_frame h =
     (if layerID h = 3 then if frameVer h = 3 then 384 else 192
      else if frameVer h = 3 then 1152 else 576)"

definition channels_of :: "mp3_header \<Rightarrow> int" where
  "channels_of h = (if chMode h \<in> {0, 1, 2} then 2 else if chMode h = 3 then 1 else 0)"

text \<open>
  \<open>DecodeMP3Header\<close> up to the configuration (the averages it then keeps are in the parser's state):
  what it returns and the configuration it fills; \<open>None\<close> is an access outside the tables.
\<close>

definition decode_header :: "mp3_header \<Rightarrow> (bool \<times> mp3_config) option" where
  "decode_header h =
     (if frameVer h \<noteq> 3 \<and> frameVer h \<noteq> 2 \<and> frameVer h \<noteq> 0 then Some (False, zero_config)
      else do {
        bitRate \<leftarrow> bit_rate h;
        if bitRate = 0 then Some (False, zero_config)
        else do {
          sr \<leftarrow> rdi srIndexTable (frameVer h * 4 + srIndex h);
          let samplingRate = to_u32 sr;
          if samplingRate = 0 then Some (False, zero_config)
          else Some (True, \<lparr>SamplingRate = to_s32 samplingRate, BitRate = to_s32 bitRate,
            FrameLengthInBytes = to_s32 (frame_length h bitRate samplingRate),
            FrameSizeUnComp = samples_of_frame h, NumberOfChannels = channels_of h\<rparr>)
        }
      })"

section \<open>The fields are in range\<close>

lemma drop_bit_masked:
  fixes h :: "'a::len word"
  assumes "s + k \<le> LENGTH('a)"
  shows "drop_bit s (h AND push_bit s (mask k)) = take_bit k (drop_bit s h)"
  using assms by (intro bit_word_eqI) (auto simp: bit_simps)

lemma field_masked:
  assumes "s + k \<le> 32" "k < 31"
  shows "field h (push_bit s (mask k)) s = uint (take_bit k (drop_bit s h))"
    "0 \<le> field h (push_bit s (mask k)) s" "field h (push_bit s (mask k)) s < 2 ^ k"
proof -
  have b: "uint (take_bit k (drop_bit s h)) < 2 ^ k" by (simp add: unsigned_take_bit_eq)
  also have "\<dots> \<le> (2 :: int) ^ 30" using assms(2) by (intro power_increasing) auto
  finally have u: "uint (take_bit k (drop_bit s h)) < 1073741824" by simp
  have "0 \<le> uint (take_bit k (drop_bit s h))" by simp
  then have "to_s32 (uint (take_bit k (drop_bit s h))) = uint (take_bit k (drop_bit s h))"
    using u by (intro to_s32_id) linarith+
  then show *: "field h (push_bit s (mask k)) s = uint (take_bit k (drop_bit s h))"
    unfolding field_def using assms(1) by (subst drop_bit_masked) simp_all
  show "0 \<le> field h (push_bit s (mask k)) s" "field h (push_bit s (mask k)) s < 2 ^ k"
    unfolding * using b by simp_all
qed

text \<open>The masks of the fields, as shifted blocks of ones.\<close>

lemma field_masks:
  "FRAME_VER_ID_MASK = push_bit FRAME_VER_ID_SHIFT (mask 2)"
  "FRAME_LAYER_ID_MASK = push_bit FRAME_LAYER_ID_SHIFT (mask 2)"
  "FRAME_PROT_MASK = push_bit FRAME_PROT_SHIFT (mask 1)"
  "FRAME_BR_INDEX_MASK = push_bit FRAME_BR_INDEX_SHIFT (mask 4)"
  "FRAME_SR_FREQ_MASK = push_bit FRAME_SR_FREQ_SHIFT (mask 2)"
  "FRAME_PADDING_MASK = push_bit FRAME_PADDING_SHIFT (mask 1)"
  "FRAME_PRIVATE_MASK = push_bit FRAME_PRIVATE_SHIFT (mask 1)"
  "FRAME_CH_MODE_MASK = push_bit FRAME_CH_MODE_SHIFT (mask 2)"
  "FRAME_MODE_EXTN_MASK = push_bit FRAME_MODE_EXTN_SHIFT (mask 2)"
  by (simp_all add: frame_constants mask_eq_exp_minus_1 push_bit_eq_mult)

definition header_ok :: "mp3_header \<Rightarrow> bool" where
  "header_ok h \<longleftrightarrow> frameVer h \<in> {0..3} \<and> layerID h \<in> {0..3} \<and> crcFollows h \<in> {0..1} \<and> brIndex h \<in> {0..15} \<and>
     srIndex h \<in> {0..3} \<and> prvBit h \<in> {0..1} \<and> padBit h \<in> {0..1} \<and> chMode h \<in> {0..3} \<and> modeExtn h \<in> {0..3}"

lemma zero_header_ok: "header_ok zero_header"
  by (simp add: header_ok_def zero_header_def)

lemma field_ranges:
  "field h FRAME_VER_ID_MASK FRAME_VER_ID_SHIFT \<in> {0..3}"
  "field h FRAME_LAYER_ID_MASK FRAME_LAYER_ID_SHIFT \<in> {0..3}"
  "field h FRAME_PROT_MASK FRAME_PROT_SHIFT \<in> {0..1}"
  "field h FRAME_BR_INDEX_MASK FRAME_BR_INDEX_SHIFT \<in> {0..15}"
  "field h FRAME_SR_FREQ_MASK FRAME_SR_FREQ_SHIFT \<in> {0..3}"
  "field h FRAME_PADDING_MASK FRAME_PADDING_SHIFT \<in> {0..1}"
  "field h FRAME_PRIVATE_MASK FRAME_PRIVATE_SHIFT \<in> {0..1}"
  "field h FRAME_CH_MODE_MASK FRAME_CH_MODE_SHIFT \<in> {0..3}"
  "field h FRAME_MODE_EXTN_MASK FRAME_MODE_EXTN_SHIFT \<in> {0..3}"
  using field_masked(2,3) [of FRAME_VER_ID_SHIFT 2 h] field_masked(2,3) [of FRAME_LAYER_ID_SHIFT 2 h]
    field_masked(2,3) [of FRAME_PROT_SHIFT 1 h] field_masked(2,3) [of FRAME_BR_INDEX_SHIFT 4 h]
    field_masked(2,3) [of FRAME_SR_FREQ_SHIFT 2 h] field_masked(2,3) [of FRAME_PADDING_SHIFT 1 h]
    field_masked(2,3) [of FRAME_PRIVATE_SHIFT 1 h] field_masked(2,3) [of FRAME_CH_MODE_SHIFT 2 h]
    field_masked(2,3) [of FRAME_MODE_EXTN_SHIFT 2 h]
  unfolding field_masks
  by (auto simp: FRAME_VER_ID_SHIFT_def FRAME_LAYER_ID_SHIFT_def FRAME_PROT_SHIFT_def FRAME_BR_INDEX_SHIFT_def
      FRAME_SR_FREQ_SHIFT_def FRAME_PADDING_SHIFT_def FRAME_PRIVATE_SHIFT_def FRAME_CH_MODE_SHIFT_def
      FRAME_MODE_EXTN_SHIFT_def)

lemma GetMP3Header_fields: "header_ok (snd (GetMP3Header h))"
  using field_ranges [of h] zero_header_ok
  by (simp add: GetMP3Header_def header_ok_def Let_def)

text \<open>What \<open>GetMP3Header\<close> accepts: the sync word, Layer III, and no reserved value.\<close>

lemma GetMP3Header_accepts:
  "GetMP3Header h = (True, i) \<Longrightarrow>
   header_ok i \<and> h AND FRAME_SYNC_MASK = FRAME_SYNC_MASK \<and> layerID i = 1 \<and> frameVer i \<noteq> 1 \<and> srIndex i \<noteq> 3 \<and> brIndex i \<noteq> 15"
  using GetMP3Header_fields [of h]
  by (auto simp: GetMP3Header_def Let_def split: if_splits)

section \<open>Decoding\<close>

lemma int_cases4: "x \<in> {0..3 :: int} \<Longrightarrow> x = 0 \<or> x = 1 \<or> x = 2 \<or> x = 3"
  by auto

lemma tables_shape:
  "l \<in> {0..3} \<Longrightarrow> b \<in> {0..15} \<Longrightarrow> \<exists>v. rdi2 brIndexTableV1 l b = Some v \<and> 0 \<le> v \<and> v \<le> 448"
  "l \<in> {0..3} \<Longrightarrow> b \<in> {0..15} \<Longrightarrow> \<exists>v. rdi2 brIndexTableV2 l b = Some v \<and> 0 \<le> v \<and> v \<le> 256"
proof -
  have *: "\<exists>v. rdi2 t l b = Some v \<and> P v"
    if "l \<in> {0..3}" "b \<in> {0..15}" "length t = 4" "list_all (\<lambda>r. length r = 16 \<and> list_all P r) t"
    for t :: "int list list" and l b P
  proof -
    have 1: "rdi t l = Some (t ! nat l)" and 2: "length (t ! nat l) = 16" "list_all P (t ! nat l)"
      using that by (auto simp: rdi_Some list_all_length)
    moreover have "rdi (t ! nat l) b = Some (t ! nat l ! nat b)"
      using that 2 by (simp add: rdi_Some)
    ultimately show ?thesis
      using that by (auto simp: rdi2_def list_all_length)
  qed
  show "l \<in> {0..3} \<Longrightarrow> b \<in> {0..15} \<Longrightarrow> \<exists>v. rdi2 brIndexTableV1 l b = Some v \<and> 0 \<le> v \<and> v \<le> 448"
    by (rule *) (simp_all add: brIndexTableV1_def)
  show "l \<in> {0..3} \<Longrightarrow> b \<in> {0..15} \<Longrightarrow> \<exists>v. rdi2 brIndexTableV2 l b = Some v \<and> 0 \<le> v \<and> v \<le> 256"
    by (rule *) (simp_all add: brIndexTableV2_def)
qed

lemma bit_rate_ok:
  assumes "header_ok h"
  obtains b where "bit_rate h = Some b" "0 \<le> b" "b \<le> 448000" "frameVer h = 3 \<or> b \<le> 256000"
  using tables_shape [of "layerID h" "brIndex h"] assms that
  by (cases "frameVer h = 3") (auto simp: header_ok_def bit_rate_def in_range)

lemma sampling_rate_ok:
  assumes "header_ok h"
  obtains s where "rdi srIndexTable (frameVer h * 4 + srIndex h) = Some s"
    "s = 0 \<and> (frameVer h = 1 \<or> srIndex h = 3) \<or> frameVer h = 3 \<and> s \<in> {44100, 48000, 32000} \<or>
     frameVer h = 2 \<and> s \<in> {22050, 24000, 16000} \<or> frameVer h = 0 \<and> s \<in> {11025, 12000, 8000}"
proof -
  have "frameVer h = 0 \<or> frameVer h = 1 \<or> frameVer h = 2 \<or> frameVer h = 3"
    "srIndex h = 0 \<or> srIndex h = 1 \<or> srIndex h = 2 \<or> srIndex h = 3"
    using assms int_cases4 by (auto simp: header_ok_def)
  then show thesis
    by (intro that [of "srIndexTable ! nat (frameVer h * 4 + srIndex h)"]; elim disjE)
      (simp_all add: srIndexTable_def rdi_def rd_def)
qed

lemma decode_header_total: "header_ok h \<Longrightarrow> decode_header h \<noteq> None"
  by (rule bit_rate_ok, assumption, rule sampling_rate_ok, assumption)
    (auto simp: decode_header_def Let_def)

lemma div_between:
  fixes n s :: int
  assumes "0 < s" "lo * s \<le> n" "n < (hi + 1) * s"
  shows "lo \<le> n div s" "n div s \<le> hi"
proof -
  have *: "s * (n div s) \<le> n" "n < s * (n div s) + s"
    using assms(1) pos_mod_sign [of s n] pos_mod_bound [of s n] mult_div_mod_eq [of s n] by linarith+
  show "lo \<le> n div s"
  proof (rule ccontr)
    assume "\<not> lo \<le> n div s"
    then have "s * (n div s + 1) \<le> s * lo" using assms(1) by (intro mult_left_mono) auto
    then show False using *(2) assms(2) by (simp add: algebra_simps)
  qed
  show "n div s \<le> hi"
  proof (rule ccontr)
    assume "\<not> n div s \<le> hi"
    then have "s * (hi + 1) \<le> s * (n div s)" using assms(1) by (intro mult_left_mono) auto
    then show False using *(1) assms(3) by (simp add: algebra_simps)
  qed
qed

lemma div_scaled:
  fixes k b m t s :: int
  assumes "0 \<le> k" "0 \<le> b" "b \<le> m * t" "t \<le> s" "0 < t" "0 \<le> m"
  shows "0 \<le> k * b div s" "k * b div s \<le> k * m"
proof -
  have s: "0 < s" using assms(4,5) by linarith
  have "b \<le> m * s" using assms(3,4,6) mult_left_mono [of t s m] by linarith
  then have "k * b \<le> k * m * s" using assms(1) mult_left_mono [of b "m * s" k] by (simp add: mult.assoc)
  then have "k * b < (k * m + 1) * s" using s by (simp add: distrib_right)
  moreover have "0 * s \<le> k * b" using assms(1,2) by simp
  ultimately show "0 \<le> k * b div s" "k * b div s \<le> k * m" using div_between [OF s] by blast+
qed

lemma frame_length_exact:
  assumes "header_ok h" "0 \<le> b" "b \<le> 448000" "8000 \<le> s"
  shows "frame_length h b s =
    (if layerID h = 3 then (samples_of_frame h div 32 * b div s + padBit h) * 4
     else samples_of_frame h div 8 * b div s + padBit h)"
proof -
  have pad: "0 \<le> padBit h" "padBit h \<le> 1" using assms(1) by (auto simp: header_ok_def)
  have d: "0 \<le> k * b div s" "k * b div s \<le> k * 56" if "0 \<le> k" for k
    using div_scaled [of k b 56 8000 s] that assms(2-4) by simp_all
  show ?thesis
    using pad assms(2,3) d [of 12] d [of 6] d [of 144] d [of 72]
    by (auto simp: frame_length_def samples_of_frame_def in_range)
qed

text \<open>Any header that can be decoded, accepted by \<open>GetMP3Header\<close> or not.\<close>

lemma decode_header_True:
  assumes "header_ok h" "decode_header h = Some (True, c)"
  obtains b s where "bit_rate h = Some b" "0 < b" "b \<le> 448000" "SamplingRate c = s" "BitRate c = b"
    "FrameLengthInBytes c = frame_length h b s" "FrameSizeUnComp c = samples_of_frame h"
    "NumberOfChannels c = channels_of h" "0 \<le> FrameLengthInBytes c" "FrameLengthInBytes c \<le> 2305"
    "frameVer h = 3 \<and> s \<in> {44100, 48000, 32000} \<or> frameVer h = 2 \<and> s \<in> {22050, 24000, 16000} \<or>
     frameVer h = 0 \<and> s \<in> {11025, 12000, 8000}"
proof -
  obtain b where b: "bit_rate h = Some b" "0 \<le> b" "b \<le> 448000" "frameVer h = 3 \<or> b \<le> 256000"
    by (rule bit_rate_ok [OF assms(1)])
  obtain s where s: "rdi srIndexTable (frameVer h * 4 + srIndex h) = Some s"
    "s = 0 \<and> (frameVer h = 1 \<or> srIndex h = 3) \<or> frameVer h = 3 \<and> s \<in> {44100, 48000, 32000} \<or>
     frameVer h = 2 \<and> s \<in> {22050, 24000, 16000} \<or> frameVer h = 0 \<and> s \<in> {11025, 12000, 8000}"
    by (rule sampling_rate_ok [OF assms(1)])
  have sr: "to_u32 s = s" using s(2) by (auto simp: to_u32_def)
  have nz: "b \<noteq> 0" "s \<noteq> 0" and c: "c = \<lparr>SamplingRate = to_s32 s, BitRate = to_s32 b,
      FrameLengthInBytes = to_s32 (frame_length h b s),
      FrameSizeUnComp = samples_of_frame h, NumberOfChannels = channels_of h\<rparr>"
    using assms(2) b(1) s(1) sr by (auto simp: decode_header_def Let_def split: if_splits)
  have sv: "frameVer h = 3 \<and> s \<in> {44100, 48000, 32000} \<or> frameVer h = 2 \<and> s \<in> {22050, 24000, 16000} \<or>
     frameVer h = 0 \<and> s \<in> {11025, 12000, 8000}"
    using s(2) nz(2) by blast
  then have s8: "8000 \<le> s" "s \<le> 48000" by auto
  have pad: "0 \<le> padBit h" "padBit h \<le> 1" using assms(1) by (auto simp: header_ok_def)
  have "0 \<le> frame_length h b s \<and> frame_length h b s \<le> 2305"
  proof (cases "frameVer h = 3")
    case True
    then have "32000 \<le> s" using sv by auto
    then have kd: "0 \<le> k * b div s \<and> k * b div s \<le> k * 14" if "0 < k" for k
      using div_scaled [of k b 14 32000 s] b(2,3) that by simp
    show ?thesis
      using True pad kd [of 12] kd [of 144]
      by (simp add: frame_length_exact [OF assms(1) b(2,3) s8(1)] samples_of_frame_def)
  next
    case False
    then have kd: "0 \<le> k * b div s \<and> k * b div s \<le> k * 32" if "0 < k" for k
      using div_scaled [of k b 32 8000 s] b(2,4) s8(1) that by simp
    show ?thesis
      using False pad kd [of 6] kd [of 72]
      by (simp add: frame_length_exact [OF assms(1) b(2,3) s8(1)] samples_of_frame_def)
  qed
  then show thesis
    using that [of b s] b nz(1) sv s8 by (simp add: c in_range)
qed

text \<open>Layer III: the bit rates of the table.\<close>

lemma layer3_bit_rate:
  assumes "header_ok h" "layerID h = 1" "bit_rate h = Some b" "b \<noteq> 0"
  shows "frameVer h = 3 \<Longrightarrow> 32000 \<le> b \<and> b \<le> 320000" "frameVer h \<noteq> 3 \<Longrightarrow> 8000 \<le> b \<and> b \<le> 160000"
proof -
  have *: "t ! 1 ! nat (brIndex h) = 0 \<or> lo \<le> t ! 1 ! nat (brIndex h) \<and> t ! 1 ! nat (brIndex h) \<le> hi"
    if "length (t ! 1) = 16" "list_all (\<lambda>v. v = 0 \<or> lo \<le> v \<and> v \<le> hi) (t ! 1)"
    for t :: "int list list" and lo hi
  proof -
    have "nat (brIndex h) < length (t ! 1)" using that(1) assms(1) by (auto simp: header_ok_def)
    then show ?thesis using that(2) by (simp add: list_all_length)
  qed
  have r: "rdi2 t 1 (brIndex h) = Some (t ! 1 ! nat (brIndex h))"
    if "length t = 4" "length (t ! 1) = 16" for t :: "int list list"
    using that assms(1) by (auto simp: rdi2_def rdi_def rd_def header_ok_def)
  show "frameVer h = 3 \<Longrightarrow> 32000 \<le> b \<and> b \<le> 320000"
    using assms(2-4) * [of brIndexTableV1 32 320] r [of brIndexTableV1]
    by (auto simp: bit_rate_def brIndexTableV1_def in_range)
  show "frameVer h \<noteq> 3 \<Longrightarrow> 8000 \<le> b \<and> b \<le> 160000"
    using assms(2-4) * [of brIndexTableV2 8 160] r [of brIndexTableV2]
    by (auto simp: bit_rate_def brIndexTableV2_def in_range)
qed

lemma accepted_frame:
  assumes "GetMP3Header h = (True, i)" "decode_header i = Some (True, c)"
  shows "24 \<le> FrameLengthInBytes c \<and> FrameLengthInBytes c \<le> 1441 \<and>
    FrameLengthInBytes c = FrameSizeUnComp c div 8 * BitRate c div SamplingRate c + padBit i \<and>
    (if frameVer i = 3 then FrameSizeUnComp c = 1152 \<and> SamplingRate c \<in> {44100, 48000, 32000}
     else if frameVer i = 2 then FrameSizeUnComp c = 576 \<and> SamplingRate c \<in> {22050, 24000, 16000}
     else FrameSizeUnComp c = 576 \<and> SamplingRate c \<in> {11025, 12000, 8000}) \<and>
    NumberOfChannels c \<in> {1, 2}"
proof -
  have i: "header_ok i" "layerID i = 1" using GetMP3Header_accepts [OF assms(1)] by simp_all
  obtain b s where d: "bit_rate i = Some b" "0 < b" "b \<le> 448000" "SamplingRate c = s" "BitRate c = b"
    "FrameLengthInBytes c = frame_length i b s" "FrameSizeUnComp c = samples_of_frame i"
    "NumberOfChannels c = channels_of i"
    "frameVer i = 3 \<and> s \<in> {44100, 48000, 32000} \<or> frameVer i = 2 \<and> s \<in> {22050, 24000, 16000} \<or>
     frameVer i = 0 \<and> s \<in> {11025, 12000, 8000}"
    by (rule decode_header_True [OF i(1) assms(2)])
  have s8: "8000 \<le> s" "0 < s" using d(9) by auto
  have pad: "0 \<le> padBit i" "padBit i \<le> 1" using i(1) by (auto simp: header_ok_def)
  have len: "FrameLengthInBytes c = samples_of_frame i div 8 * b div s + padBit i"
    using d(2,3,6) s8 i by (simp add: frame_length_exact)
  have ch: "channels_of i \<in> {1, 2}" using i(1) by (auto simp: channels_of_def header_ok_def)
  have "24 \<le> samples_of_frame i div 8 * b div s \<and> samples_of_frame i div 8 * b div s \<le> 1440"
  proof (cases "frameVer i = 3")
    case True
    have "32000 \<le> b" "b \<le> 320000" using layer3_bit_rate(1) [OF i d(1) _ True] d(2) by auto
    then show ?thesis
      using True d(9) i(2) div_between [OF s8(2), of 24 "144 * b" 1440] by (auto simp: samples_of_frame_def)
  next
    case False
    have "8000 \<le> b" "b \<le> 160000" using layer3_bit_rate(2) [OF i d(1) _ False] d(2) by auto
    then show ?thesis
      using False d(9) i(2) div_between [OF s8(2), of 24 "72 * b" 1440] by (auto simp: samples_of_frame_def)
  qed
  then show ?thesis
    using len pad d(4-5,7-9) ch i(2) by (auto simp: samples_of_frame_def)
qed

section \<open>Properties\<close>

text \<open>
  C32. Whatever the four bytes are and whatever \<open>GetMP3Header\<close> answers, the fields it leaves behind
  are in range, and \<open>DecodeMP3Header\<close> on them reads its tables only inside. (Callers ignore the
  answer for the second to fourth header.)
\<close>

theorem mp3_header_fields_in_tables:
  "header_ok (snd (GetMP3Header h)) \<and> decode_header (snd (GetMP3Header h)) \<noteq> None"
  by (simp add: GetMP3Header_fields decode_header_total)

text \<open>
  C15. An accepted Layer III header that decodes has a frame length of 24 to 1441 bytes, namely the
  samples of the frame over eight times the bit rate over the sampling rate, rounded down, plus the
  padding byte; its sampling rate and its number of samples are those of its MPEG version, and it
  has one or two channels.
\<close>

theorem mp3_frame_length:
  assumes "GetMP3Header h = (True, i)" "decode_header i = Some (True, c)"
  shows "24 \<le> FrameLengthInBytes c \<and> FrameLengthInBytes c \<le> 1441 \<and>
    FrameLengthInBytes c = FrameSizeUnComp c div 8 * BitRate c div SamplingRate c + padBit i \<and>
    (if frameVer i = 3 then FrameSizeUnComp c = 1152 \<and> SamplingRate c \<in> {44100, 48000, 32000}
     else if frameVer i = 2 then FrameSizeUnComp c = 576 \<and> SamplingRate c \<in> {22050, 24000, 16000}
     else FrameSizeUnComp c = 576 \<and> SamplingRate c \<in> {11025, 12000, 8000}) \<and>
    NumberOfChannels c \<in> {1, 2}"
  by (rule accepted_frame [OF assms])

theorem mp3_frame_length_witness:
  "GetMP3Header 0xFFFB9264 = (True, snd (GetMP3Header 0xFFFB9264)) \<and>
   map_option (\<lambda>(_, c). FrameLengthInBytes c) (decode_header (snd (GetMP3Header 0xFFFB9264))) = Some 418"
proof -
  let ?i = "\<lparr>frameVer = 3, layerID = 1, crcFollows = 1, brIndex = 9, srIndex = 0, prvBit = 0, padBit = 1,
     chMode = 1, modeExtn = 2, frameSize = 0\<rparr>"
  have 1: "GetMP3Header 0xFFFB9264 = (True, ?i)"
    by (simp add: GetMP3Header_def Let_def frame_constants field_def in_range zero_header_def)
  have 2: "decode_header ?i = Some (True, \<lparr>SamplingRate = 44100, BitRate = 128000, FrameLengthInBytes = 418,
      FrameSizeUnComp = 1152, NumberOfChannels = 2\<rparr>)"
    by (simp add: decode_header_def bit_rate_def rdi2_def rdi_def rd_def mp3_tables in_range frame_length_def
        samples_of_frame_def channels_of_def)
  show ?thesis using mp3_frame_length [OF 1 2] 1 2 by simp
qed

end
