(* ===== verification/FileCache.thy ===== *)
theory FileCache
  imports FN_Prelude
begin

text \<open>
  The file cache (\<open>oscl_config/oscl_file_cache.cpp\<close>) between \<open>Oscl_File\<close> and the C library's
  file, through which the tag and frame parsers read (\<open>PVFile\<close> opens every file with a cache
  of 4096 bytes).

  The native file is stdio on a regular file: its bytes, its position and the largest size the
  device lets it have (a write past it is cut short, which is how a full disk looks); a
  native flush does not fail). Positions
  and sizes are natural numbers; \<open>cache_ok\<close> keeps the sizes below \<open>2 ^ 31\<close>, where \<open>off_t\<close>,
  \<open>int32\<close> and \<open>uint32\<close> all agree with them, so no access wraps.
\<close>

section \<open>The native file\<close>

record native_file =
  nf_data :: "u8 list"
  nf_pos :: nat
  nf_limit :: nat

definition native_seek :: "nat \<Rightarrow> native_file \<Rightarrow> int \<times> native_file" where
  "native_seek p nf = (if p < 2 ^ 31 then (0, nf\<lparr>nf_pos := p\<rparr>) else (- 1, nf))"

definition native_read :: "nat \<Rightarrow> native_file \<Rightarrow> u8 list \<times> native_file" where
  "native_read n nf =
     (let bs = take n (drop (nf_pos nf) (nf_data nf)) in (bs, nf\<lparr>nf_pos := nf_pos nf + length bs\<rparr>))"

text \<open>\<open>fwrite\<close>: in append mode at the end of the file; past the end the gap reads as zeros.\<close>

definition native_write :: "bool \<Rightarrow> u8 list \<Rightarrow> native_file \<Rightarrow> nat \<times> native_file" where
  "native_write app bs nf =
     (let p = if app then length (nf_data nf) else nf_pos nf;
          k = min (length bs) (nf_limit nf - p);
          d = nf_data nf @ replicate (p - length (nf_data nf)) 0
      in (k, nf\<lparr>nf_data := if k = 0 then nf_data nf else patch d p (take k bs), nf_pos := p + k\<rparr>))"

section \<open>The cache\<close>

record file_cache =
  fc_native :: native_file
  fc_mode :: u32
  fc_cacheSize :: nat
  fc_buffer :: "u8 list"
  fc_cacheFilePosition :: nat
  fc_currentCachePos :: nat
  fc_endCachePos :: nat
  fc_updateStart :: nat
  fc_updateEnd :: nat
  fc_fileSize :: nat
  fc_nativePosition :: nat

definition MODE_READ :: u32 where "MODE_READ = 0x1"
definition MODE_READWRITE :: u32 where "MODE_READWRITE = 0x2"
definition MODE_APPEND :: u32 where "MODE_APPEND = 0x4"
definition MODE_BINARY :: u32 where "MODE_BINARY = 0x8"
definition MODE_READ_PLUS :: u32 where "MODE_READ_PLUS = 0x20"

definition mode_has :: "u32 \<Rightarrow> file_cache \<Rightarrow> bool" where
  "mode_has m s \<longleftrightarrow> fc_mode s AND m \<noteq> 0"

lemma mode_has_update [simp]:
  "mode_has m (s\<lparr>fc_native := x0\<rparr>) = mode_has m s"
  "mode_has m (s\<lparr>fc_nativePosition := x1\<rparr>) = mode_has m s"
  "mode_has m (s\<lparr>fc_updateStart := x2\<rparr>) = mode_has m s"
  "mode_has m (s\<lparr>fc_updateEnd := x3\<rparr>) = mode_has m s"
  "mode_has m (s\<lparr>fc_currentCachePos := x4\<rparr>) = mode_has m s"
  "mode_has m (s\<lparr>fc_endCachePos := x5\<rparr>) = mode_has m s"
  "mode_has m (s\<lparr>fc_cacheFilePosition := x6\<rparr>) = mode_has m s"
  "mode_has m (s\<lparr>fc_fileSize := x7\<rparr>) = mode_has m s"
  "mode_has m (s\<lparr>fc_buffer := x8\<rparr>) = mode_has m s"
  by (simp_all add: mode_has_def)

abbreviation appending :: "file_cache \<Rightarrow> bool" where
  "appending s \<equiv> mode_has MODE_APPEND s"

datatype seek_type = SEEKCUR | SEEKSET | SEEKEND

definition cache_tell :: "file_cache \<Rightarrow> nat" where
  "cache_tell s = fc_cacheFilePosition s + fc_currentCachePos s"

definition cache_eof :: "file_cache \<Rightarrow> bool" where
  "cache_eof s \<longleftrightarrow> cache_tell s = fc_fileSize s"

text \<open>The second half of \<open>SetCachePosition\<close>: an empty cache at the new position.\<close>

definition reset_cache :: "nat \<Rightarrow> file_cache \<Rightarrow> file_cache" where
  "reset_cache p s = s\<lparr>fc_cacheFilePosition := p, fc_currentCachePos := 0, fc_endCachePos := 0,
     fc_updateStart := 0, fc_updateEnd := 0\<rparr>"

text \<open>
  \<open>WriteCacheToFile\<close>. The recovery at the end of the source calls \<open>SetCachePosition\<close>, whose first
  half does nothing there as the updated range has just been cleared.
\<close>

definition WriteCacheToFile :: "file_cache \<Rightarrow> int \<times> file_cache" where
  "WriteCacheToFile s =
     (if fc_updateEnd s > fc_updateStart s then
        let bytesToWrite = fc_updateEnd s - fc_updateStart s;
            pos = fc_cacheFilePosition s + fc_updateStart s;
            (r, s1) =
              if fc_nativePosition s \<noteq> pos
              then if appending s then (0, s\<lparr>fc_nativePosition := pos\<rparr>)
                else case native_seek pos (fc_native s) of
                  (r, nf) \<Rightarrow> if r \<noteq> 0 then (r, s)
                    else (0, s\<lparr>fc_native := nf, fc_nativePosition := pos\<rparr>)
              else (0, s)
        in if r \<noteq> 0 then (r, s1)
          else let (k, nf) = native_write (appending s1)
                     (take bytesToWrite (drop (fc_updateStart s1) (fc_buffer s1))) (fc_native s1);
                   s2 = s1\<lparr>fc_native := nf, fc_nativePosition := fc_nativePosition s1 + k,
                     fc_updateStart := 0, fc_updateEnd := 0\<rparr>
               in if k = bytesToWrite then (0, s2)
                 else let s3 = s2\<lparr>fc_fileSize := length (nf_data nf), fc_nativePosition := nf_pos nf\<rparr>;
                          newpos = min (cache_tell s3) (fc_fileSize s3)
                      in (- 1, reset_cache newpos s3)
      else (0, s))"

definition SetCachePosition :: "nat \<Rightarrow> file_cache \<Rightarrow> int \<times> file_cache" where
  "SetCachePosition p s =
     (if fc_updateEnd s > fc_updateStart s
      then case WriteCacheToFile s of (r, s') \<Rightarrow> if r \<noteq> 0 then (r, s') else (0, reset_cache p s')
      else (0, reset_cache p s))"

definition FillCacheFromFile :: "file_cache \<Rightarrow> int \<times> file_cache" where
  "FillCacheFromFile s =
     (let newpos = cache_tell s;
          (r, s1) = if fc_cacheFilePosition s \<noteq> newpos \<or> fc_updateEnd s - fc_updateStart s > 0
                    then SetCachePosition newpos s else (0, s)
      in if r \<noteq> 0 then (r, s1)
        else let (r, s2) = if fc_nativePosition s1 \<noteq> newpos
                   then case native_seek newpos (fc_native s1) of
                     (r, nf) \<Rightarrow> if r \<noteq> 0 then (r, s1)
                       else (0, s1\<lparr>fc_native := nf, fc_nativePosition := newpos\<rparr>)
                   else (0, s1)
             in if r \<noteq> 0 then (r, s2)
               else let (bs, nf) = native_read (fc_cacheSize s2) (fc_native s2)
                    in (0, s2\<lparr>fc_native := nf, fc_buffer := patch (fc_buffer s2) 0 bs,
                         fc_endCachePos := length bs,
                         fc_nativePosition := fc_nativePosition s2 + length bs\<rparr>))"

definition cache_flush :: "file_cache \<Rightarrow> int \<times> file_cache" where
  "cache_flush s =
     (if fc_updateEnd s > fc_updateStart s
      then case WriteCacheToFile s of
        (r, s') \<Rightarrow> if r \<noteq> 0 then (r, s') else (0, s'\<lparr>fc_nativePosition := nf_pos (fc_native s')\<rparr>)
      else (0, s))"

definition cache_seek :: "int \<Rightarrow> seek_type \<Rightarrow> file_cache \<Rightarrow> int \<times> file_cache" where
  "cache_seek offset origin s =
     (let pos = (case origin of SEEKCUR \<Rightarrow> int (cache_tell s) + offset | SEEKSET \<Rightarrow> offset
                 | SEEKEND \<Rightarrow> int (fc_fileSize s) + offset)
      in if pos < 0 \<or> pos > int (fc_fileSize s) then (- 1, s)
        else let p = nat pos in
          if fc_cacheFilePosition s \<le> p \<and> p \<le> fc_cacheFilePosition s + fc_endCachePos s
          then (0, s\<lparr>fc_currentCachePos := p - fc_cacheFilePosition s\<rparr>)
          else case native_seek p (fc_native s) of
            (r, nf) \<Rightarrow> if r \<noteq> 0 then (r, s)
              else SetCachePosition p (s\<lparr>fc_native := nf, fc_nativePosition := p\<rparr>))"

text \<open>The loop of \<open>Read\<close>: the bytes copied to the caller, the bytes still wanted and the cache.\<close>

function cache_read_loop :: "nat \<Rightarrow> nat \<Rightarrow> file_cache \<Rightarrow> u8 list \<times> nat \<times> file_cache" where
  "cache_read_loop esize n s =
     (if n = 0 then ([], n, s)
      else if cache_tell s \<le> fc_fileSize s \<and> fc_fileSize s - cache_tell s < esize then ([], n, s)
      else let bytesInCache = fc_endCachePos s - fc_currentCachePos s in
        if bytesInCache > 0
        then let thisRead = min bytesInCache n;
                 (bs, n', s') = cache_read_loop esize (n - thisRead)
                   (s\<lparr>fc_currentCachePos := fc_currentCachePos s + thisRead\<rparr>)
             in (take thisRead (drop (fc_currentCachePos s) (fc_buffer s)) @ bs, n', s')
        else case FillCacheFromFile s of
          (r, s1) \<Rightarrow> if r \<noteq> 0 then ([], n, s1)
            else if fc_endCachePos s1 - fc_currentCachePos s1 = 0 then ([], n, s1)
            else cache_read_loop esize n s1)"
  by pat_completeness auto
termination
  by (relation "measure (\<lambda>(esize, n, s). 2 * n + (if fc_endCachePos s - fc_currentCachePos s > 0 then 0 else 1))")
    (auto simp: min_def)

declare cache_read_loop.simps [simp del]

text \<open>\<open>Read\<close>: the bytes stored for the caller, the number of elements it returns, the cache.\<close>

definition cache_read :: "nat \<Rightarrow> nat \<Rightarrow> file_cache \<Rightarrow> u8 list \<times> nat \<times> file_cache" where
  "cache_read esize numelements s =
     (if mode_has MODE_READWRITE s \<or> mode_has MODE_READ s \<or> appending s \<or> mode_has MODE_READ_PLUS s
      then let total = (numelements * esize) mod 2 ^ 32;
               (bs, n', s') = cache_read_loop esize total s
           in (bs, if esize \<noteq> 0 then (total - n') div esize else 0, s')
      else ([], 0, s))"

text \<open>
  The loop of \<open>Write\<close>. A cache of size zero would make it run for ever; \<open>None\<close> stands for that.
\<close>

definition store_in_cache :: "u8 list \<Rightarrow> file_cache \<Rightarrow> file_cache" where
  "store_in_cache bs s =
     (let cur = fc_currentCachePos s; n = length bs;
          s1 = s\<lparr>fc_buffer := patch (fc_buffer s) cur bs\<rparr>;
          s2 = if fc_updateEnd s = fc_updateStart s
               then s1\<lparr>fc_updateStart := cur, fc_updateEnd := cur + n\<rparr>
               else s1\<lparr>fc_updateStart := min cur (fc_updateStart s), fc_updateEnd := max (cur + n) (fc_updateEnd s)\<rparr>;
          s3 = s2\<lparr>fc_currentCachePos := cur + n, fc_endCachePos := max (fc_endCachePos s) (cur + n)\<rparr>
      in s3\<lparr>fc_fileSize := max (fc_fileSize s) (fc_cacheFilePosition s + fc_endCachePos s3)\<rparr>)"

partial_function (option) cache_write_loop :: "u8 list \<Rightarrow> file_cache \<Rightarrow> (nat \<times> file_cache) option" where
  "cache_write_loop bs s =
     (if bs = [] then Some (0, s)
      else let spaceInCache = fc_cacheSize s - fc_currentCachePos s in
        if spaceInCache > 0
        then cache_write_loop (drop spaceInCache bs) (store_in_cache (take spaceInCache bs) s)
        else case SetCachePosition (cache_tell s) s of
          (r, s1) \<Rightarrow> if r \<noteq> 0 then Some (length bs, s1) else cache_write_loop bs s1)"

definition cache_write :: "nat \<Rightarrow> nat \<Rightarrow> u8 list \<Rightarrow> file_cache \<Rightarrow> (nat \<times> file_cache) option" where
  "cache_write esize numelements bs s =
     (if mode_has MODE_READWRITE s \<or> appending s \<or> mode_has MODE_READ_PLUS s
      then let (r, s1) = if appending s \<and> cache_tell s \<noteq> fc_fileSize s
                         then SetCachePosition (fc_fileSize s) s else (0, s);
               total = (numelements * esize) mod 2 ^ 32
           in if r \<noteq> 0 then Some (0, s1)
             else do {
               (n', s2) \<leftarrow> cache_write_loop (take total bs) s1;
               Some (if esize \<noteq> 0 then (total - n') div esize else 0, s2)
             }
      else Some (0, s))"

text \<open>\<open>Open\<close> on a file just opened natively, and \<open>Close\<close>, which flushes.\<close>

definition cache_open :: "u32 \<Rightarrow> nat \<Rightarrow> u8 list \<Rightarrow> native_file \<Rightarrow> file_cache" where
  "cache_open mode csize mem nf =
     \<lparr>fc_native = nf, fc_mode = mode, fc_cacheSize = csize, fc_buffer = mem, fc_cacheFilePosition = 0,
      fc_currentCachePos = 0, fc_endCachePos = 0, fc_updateStart = 0, fc_updateEnd = 0,
      fc_fileSize = length (nf_data nf), fc_nativePosition = nf_pos nf\<rparr>"

definition cache_close :: "file_cache \<Rightarrow> file_cache" where
  "cache_close s = snd (SetCachePosition 0 s)\<lparr>fc_buffer := []\<rparr>"

end
