(* ===== verification/FileCacheRefine.thy ===== *)
theory FileCacheRefine
  imports FileCacheOk
begin

text \<open>
  The file cache as a whole: every sequence of reads, writes, seeks and flushes through the cache
  gives the results that a plain array of bytes with a position gives, and closing the cache leaves
  exactly those bytes in the native file.
\<close>

section \<open>The operations\<close>

lemma cache_read_ok:
  assumes "cache_ok s" "fits s" "n < 2 ^ 32"
    "mode_has MODE_READWRITE s \<or> mode_has MODE_READ s \<or> appending s \<or> mode_has MODE_READ_PLUS s"
  obtains s' where "cache_read 1 n s = (take n (drop (cache_tell s) (fc_view s)),
      min n (fc_fileSize s - cache_tell s), s')"
    "keeps s s'" "cache_tell s' = min (cache_tell s + n) (fc_fileSize s)"
proof -
  obtain s' where "cache_read_loop 1 n s =
      (take n (drop (cache_tell s) (fc_view s)), n - (fc_fileSize s - cache_tell s), s')"
    "keeps s s'" "cache_tell s' = min (cache_tell s + n) (fc_fileSize s)"
    using cache_read_loop_ok [OF assms(1,2)] by blast
  then show thesis
    using assms(3,4) by (intro that) (auto simp: cache_read_def Let_def min_def)
qed

text \<open>
  Elements of any size: as long as the file goes on for all but one byte of an element behind what is
  wanted, the loop never stops for want of a whole element and reads what it reads byte by byte.
\<close>

lemma cache_read_loop_elements:
  assumes "cache_ok s" "fits s" "0 < e" "cache_tell s + n + e \<le> fc_fileSize s + 1"
  shows "cache_read_loop e n s = cache_read_loop 1 n s"
  using assms
proof (induction e n s rule: cache_read_loop.induct)
  case (1 e n s)
  let ?in = "fc_endCachePos s - fc_currentCachePos s" and ?stop = "\<lambda>e. cache_tell s \<le> fc_fileSize s \<and> fc_fileSize s - cache_tell s < e"
  show ?case
  proof (cases "n = 0")
    case True
    then show ?thesis by (simp add: cache_read_loop.simps [of _ _ s])
  next
    case n: False
    have go: "\<not> ?stop e" "\<not> ?stop 1" using n "1.prems"(3,4) by auto
    show ?thesis
    proof (cases "?in > 0")
      case True
      define k where "k = min ?in n"
      let ?t = "s\<lparr>fc_currentCachePos := fc_currentCachePos s + k\<rparr>"
      have k: "fc_currentCachePos s + k \<le> fc_endCachePos s" "k \<le> n" using True by (auto simp: k_def)
      have t: "cache_ok ?t" "fits ?t" using advance_keeps(1) [OF "1.prems"(1,2) k(1)] by (simp_all add: keeps_def)
      have room: "cache_tell ?t + (n - k) + e \<le> fc_fileSize ?t + 1" using "1.prems"(4) k(2) by (simp add: cache_tell_def)
      have rest: "cache_read_loop e (n - k) ?t = cache_read_loop 1 (n - k) ?t"
        unfolding k_def by (rule "1.IH"(1) [OF n go(1) refl True refl]) (use t room "1.prems"(3) in \<open>simp_all add: k_def\<close>)
      have first: "cache_read_loop x n s = (case cache_read_loop x (n - k) ?t of (bs, r) \<Rightarrow>
          (take k (drop (fc_currentCachePos s) (fc_buffer s)) @ bs, r))" if "\<not> ?stop x" for x
        unfolding cache_read_loop.simps [of x n s] if_not_P [OF n] if_not_P [OF that] Let_def if_P [OF True] k_def
        by (simp split: prod.splits)
      show ?thesis unfolding first [OF go(1)] first [OF go(2)] rest by (rule refl)
    next
      case False
      obtain t where t: "FillCacheFromFile s = (0, t)" "keeps s t" "cache_tell t = cache_tell s"
        by (rule FillCacheFromFile_keeps [OF "1.prems"(1,2)]) (use False "1.prems"(1) in \<open>simp_all add: cache_ok_def\<close>)
      have size: "fc_fileSize t = fc_fileSize s"
        using keepsD(1,3) [OF t(2)] "1.prems"(1) by (simp add: cache_ok_size)
      show ?thesis
      proof (cases "fc_endCachePos t - fc_currentCachePos t = 0")
        case True
        then show ?thesis
          unfolding cache_read_loop.simps [of _ n s] if_not_P [OF n] if_not_P [OF go(1)] if_not_P [OF go(2)] Let_def if_not_P [OF False] t(1)
          by simp
      next
        case more: False
        have "cache_read_loop e n t = cache_read_loop 1 n t"
          by (rule "1.IH"(2) [OF n go(1) refl False t(1) [symmetric]])
            (use more keepsD(1,2) [OF t(2)] "1.prems"(3,4) t(3) size in simp_all)
        then show ?thesis
          unfolding cache_read_loop.simps [of _ n s] if_not_P [OF n] if_not_P [OF go(1)] if_not_P [OF go(2)] Let_def if_not_P [OF False] t(1)
          using more by simp
      qed
    qed
  qed
qed

lemma cache_read_elements_ok:
  assumes "cache_ok s" "fits s" "0 < e" "k * e < 2 ^ 32" "e = 1 \<or> cache_tell s + k * e + e \<le> fc_fileSize s + 1"
    "mode_has MODE_READWRITE s \<or> mode_has MODE_READ s \<or> appending s \<or> mode_has MODE_READ_PLUS s"
  obtains s' where "cache_read e k s = (take (k * e) (drop (cache_tell s) (fc_view s)),
      min (k * e) (fc_fileSize s - cache_tell s) div e, s')"
    "keeps s s'" "cache_tell s' = min (cache_tell s + k * e) (fc_fileSize s)"
proof -
  obtain s' where s': "cache_read_loop 1 (k * e) s =
      (take (k * e) (drop (cache_tell s) (fc_view s)), k * e - (fc_fileSize s - cache_tell s), s')"
    "keeps s s'" "cache_tell s' = min (cache_tell s + k * e) (fc_fileSize s)"
    using cache_read_loop_ok [OF assms(1,2)] by blast
  moreover have "cache_read_loop e (k * e) s = cache_read_loop 1 (k * e) s"
    using assms(5) cache_read_loop_elements [OF assms(1-3)] by auto
  moreover have "k * e - (k * e - r) = min (k * e) r" for r by simp
  ultimately show thesis
    using assms(3,4,6) by (intro that [of s']) (simp_all add: cache_read_def Let_def)
qed

lemma cache_seek_ok:
  assumes "cache_ok s" "fits s"
    and t: "t = (case origin of SEEKCUR \<Rightarrow> int (cache_tell s) + offset | SEEKSET \<Rightarrow> offset
      | SEEKEND \<Rightarrow> int (fc_fileSize s) + offset)"
  shows "0 \<le> t \<Longrightarrow> t \<le> int (fc_fileSize s) \<Longrightarrow>
      \<exists>s'. cache_seek offset origin s = (0, s') \<and> keeps s s' \<and> cache_tell s' = nat t"
    and "t < 0 \<or> int (fc_fileSize s) < t \<Longrightarrow> cache_seek offset origin s = (- 1, s)"
proof -
  assume r: "0 \<le> t" "t \<le> int (fc_fileSize s)"
  define p where "p = nat t"
  have p: "p \<le> fc_fileSize s" "p < 2 ^ 31" using r assms(1) by (auto simp: p_def cache_ok_def)
  show "\<exists>s'. cache_seek offset origin s = (0, s') \<and> keeps s s' \<and> cache_tell s' = nat t"
  proof (cases "fc_cacheFilePosition s \<le> p \<and> p \<le> fc_cacheFilePosition s + fc_endCachePos s")
    case True
    let ?t = "s\<lparr>fc_currentCachePos := p - fc_cacheFilePosition s\<rparr>"
    have "cache_seek offset origin s = (0, ?t)"
      using r True by (simp add: cache_seek_def Let_def t [symmetric] p_def [symmetric])
    moreover have "dirty ?t = dirty s" "fc_view ?t = fc_view s" by (simp_all add: dirty_def fc_view_def)
    then have "keeps s ?t" using assms(1,2) True by (auto simp: keeps_def cache_ok_def fits_def)
    moreover have "cache_tell ?t = p" using True by (simp add: cache_tell_def)
    ultimately show ?thesis by (auto simp: p_def)
  next
    case False
    let ?t = "s\<lparr>fc_native := (fc_native s)\<lparr>nf_pos := p\<rparr>, fc_nativePosition := p\<rparr>"
    have d: "dirty ?t = dirty s" "fc_view ?t = fc_view s" by (simp_all add: dirty_def fc_view_def)
    have k: "keeps s ?t" using assms(1,2) d by (simp add: keeps_def cache_ok_def fits_def)
    obtain u where u: "SetCachePosition p ?t = (0, u)" "keeps ?t u" "fc_cacheFilePosition u = p" "fc_currentCachePos u = 0"
      using SetCachePosition_keeps [OF keepsD(1,2) [OF k], of p] p by auto
    have "cache_seek offset origin s = (0, u)"
      using r False p u(1) by (auto simp: cache_seek_def Let_def t [symmetric] p_def [symmetric] native_seek_def)
    then show ?thesis
      using keeps_trans [OF k u(2)] u(3,4) by (simp add: cache_tell_def p_def)
  qed
next
  assume "t < 0 \<or> int (fc_fileSize s) < t"
  then show "cache_seek offset origin s = (- 1, s)"
    by (simp add: cache_seek_def Let_def t [symmetric])
qed

lemma cache_flush_ok:
  assumes "cache_ok s" "fits s"
  obtains s' where "cache_flush s = (0, s')" "keeps s s'" "cache_tell s' = cache_tell s"
    "nf_data (fc_native s') = fc_view s"
proof (cases "dirty s")
  case True
  obtain nf where *: "WriteCacheToFile s =
      (0, s\<lparr>fc_native := nf, fc_nativePosition := nf_pos nf, fc_updateStart := 0, fc_updateEnd := 0\<rparr>)"
    "nf_data nf = fc_view s" "nf_limit nf = nf_limit (fc_native s)"
    using WriteCacheToFile_dirty [OF assms True] by blast
  let ?t = "s\<lparr>fc_native := nf, fc_nativePosition := nf_pos nf, fc_updateStart := 0, fc_updateEnd := 0\<rparr>"
  have "cache_flush s = (0, ?t)" using True *(1) by (simp add: cache_flush_def dirty_def)
  moreover have d: "\<not> dirty ?t" "fc_view ?t = fc_view s" using *(2) by (simp_all add: dirty_def fc_view_def)
  moreover have "keeps s ?t" using assms *(3) d by (auto simp: keeps_def cache_ok_def fits_def)
  ultimately show thesis using that *(2) by (simp add: cache_tell_def)
next
  case False
  then show thesis
    using that keeps_refl [OF assms] by (simp add: cache_flush_def dirty_def fc_view_def)
qed

lemma cache_write_ok:
  assumes "cache_ok s" "fits s" "mode_has MODE_READWRITE s \<or> appending s \<or> mode_has MODE_READ_PLUS s"
    and p: "p = (if appending s then fc_fileSize s else cache_tell s)"
    and "p + length bs < 2 ^ 31" "p + length bs \<le> nf_limit (fc_native s)"
    and e: "length bs = k * e" "0 < e"
  obtains s' where "cache_write e k bs s = Some (k, s')" "cache_ok s'" "fits s'"
    "fc_view s' = patch (fc_view s) p bs" "cache_tell s' = p + length bs"
    "fc_mode s' = fc_mode s" "nf_limit (fc_native s') = nf_limit (fc_native s)"
proof -
  obtain t where t: "(if appending s \<and> cache_tell s \<noteq> fc_fileSize s
      then SetCachePosition (fc_fileSize s) s else (0, s)) = (0, t)" "keeps s t" "cache_tell t = p"
  proof (cases "appending s \<and> cache_tell s \<noteq> fc_fileSize s")
    case True
    obtain t where "SetCachePosition (fc_fileSize s) s = (0, t)" "keeps s t"
      "fc_cacheFilePosition t = fc_fileSize s" "fc_currentCachePos t = 0"
      by (rule SetCachePosition_keeps [OF assms(1,2) order.refl])
    with True show ?thesis by (intro that [of t]) (auto simp: p cache_tell_def)
  next
    case False
    then show ?thesis
      using p keeps_refl [OF assms(1,2)] by (intro that [of s]) auto
  qed
  note kt = keepsD [OF t(2)]
  have "fc_fileSize t = fc_fileSize s" using kt(1,3) assms(1) by (simp add: cache_ok_size)
  then have ap: "appending t \<longrightarrow> cache_tell t = fc_fileSize t"
    using t(3) kt(4) p by (simp add: mode_has_def)
  obtain s' where s': "cache_write_loop bs t = Some (0, s')" "cache_ok s'" "fits s'"
    "fc_view s' = patch (fc_view t) p bs" "cache_tell s' = p + length bs"
    "fc_mode s' = fc_mode t" "nf_limit (fc_native s') = nf_limit (fc_native t)"
    using cache_write_loop_ok [OF kt(1,2) ap, of bs] assms(5,6) t(3) kt(6) by auto
  have "k * e < 4294967296" using assms(5) e(1) by simp
  then have "cache_write e k bs s = Some (k, s')"
    using assms(3,5) t(1) s'(1) e by (simp add: cache_write_def Let_def)
  then show thesis using that s' kt by simp
qed

section \<open>The plain file and its refinement\<close>

record plain_file =
  pf_data :: "u8 list"
  pf_pos :: nat

text \<open>A read of so many elements of a size, a write of them.\<close>

datatype file_op = OpRead nat nat | OpWrite nat nat "u8 list" | OpSeek int seek_type | OpFlush

datatype file_out = Got "u8 list" nat | Stored nat | Status int

fun spec_step :: "bool \<Rightarrow> bool \<Rightarrow> file_op \<Rightarrow> plain_file \<Rightarrow> file_out \<times> plain_file" where
  "spec_step app wrt (OpRead e n) f =
     (let bs = take (n * e) (drop (pf_pos f) (pf_data f)) in (Got bs (length bs div e), f\<lparr>pf_pos := pf_pos f + length bs\<rparr>))"
| "spec_step app wrt (OpWrite e n bs) f =
     (if wrt
      then let p = if app then length (pf_data f) else pf_pos f
           in (Stored n, \<lparr>pf_data = patch (pf_data f) p bs, pf_pos = p + length bs\<rparr>)
      else (Stored 0, f))"
| "spec_step app wrt (OpSeek offset origin) f =
     (let t = (case origin of SEEKCUR \<Rightarrow> int (pf_pos f) + offset | SEEKSET \<Rightarrow> offset
               | SEEKEND \<Rightarrow> int (length (pf_data f)) + offset)
      in if 0 \<le> t \<and> t \<le> int (length (pf_data f)) then (Status 0, f\<lparr>pf_pos := nat t\<rparr>) else (Status (- 1), f))"
| "spec_step app wrt OpFlush f = (Status 0, f)"

fun spec_run :: "bool \<Rightarrow> bool \<Rightarrow> file_op list \<Rightarrow> plain_file \<Rightarrow> file_out list \<times> plain_file" where
  "spec_run app wrt [] f = ([], f)"
| "spec_run app wrt (oper # ops) f =
     (let (o1, f1) = spec_step app wrt oper f; (os, f2) = spec_run app wrt ops f1 in (o1 # os, f2))"

text \<open>
  Every write stays below the room of the device, every read asks for less than \<open>2 ^ 32\<close> bytes. A read of
  larger elements ends so far in front of the end of the file that all but one byte of another element follow
  (what the code does otherwise: \<open>read_loses_last_element\<close>).
\<close>

fun step_fits :: "nat \<Rightarrow> bool \<Rightarrow> file_op \<Rightarrow> plain_file \<Rightarrow> bool" where
  "step_fits lim app (OpRead e n) f \<longleftrightarrow>
     0 < e \<and> n * e < 2 ^ 32 \<and> (e = 1 \<or> pf_pos f + n * e + e \<le> length (pf_data f) + 1)"
| "step_fits lim app (OpWrite e n bs) f \<longleftrightarrow>
     0 < e \<and> length bs = n * e \<and> (if app then length (pf_data f) else pf_pos f) + length bs \<le> lim"
| "step_fits lim app _ f \<longleftrightarrow> True"

fun ops_fit :: "nat \<Rightarrow> bool \<Rightarrow> bool \<Rightarrow> file_op list \<Rightarrow> plain_file \<Rightarrow> bool" where
  "ops_fit lim app wrt [] f \<longleftrightarrow> True"
| "ops_fit lim app wrt (oper # ops) f \<longleftrightarrow>
     step_fits lim app oper f \<and> ops_fit lim app wrt ops (snd (spec_step app wrt oper f))"

fun cache_step :: "file_op \<Rightarrow> file_cache \<Rightarrow> (file_out \<times> file_cache) option" where
  "cache_step (OpRead e n) s = (case cache_read e n s of (bs, k, s') \<Rightarrow> Some (Got bs k, s'))"
| "cache_step (OpWrite e n bs) s = do { (k, s') \<leftarrow> cache_write e n bs s; Some (Stored k, s') }"
| "cache_step (OpSeek offset origin) s = (case cache_seek offset origin s of (r, s') \<Rightarrow> Some (Status r, s'))"
| "cache_step OpFlush s = (case cache_flush s of (r, s') \<Rightarrow> Some (Status r, s'))"

fun cache_run :: "file_op list \<Rightarrow> file_cache \<Rightarrow> (file_out list \<times> file_cache) option" where
  "cache_run [] s = Some ([], s)"
| "cache_run (oper # ops) s = do {
     (o1, s1) \<leftarrow> cache_step oper s;
     (os, s2) \<leftarrow> cache_run ops s1;
     Some (o1 # os, s2)
   }"

definition fc_abs :: "file_cache \<Rightarrow> plain_file" where
  "fc_abs s = \<lparr>pf_data = fc_view s, pf_pos = cache_tell s\<rparr>"

definition writable :: "u32 \<Rightarrow> bool" where
  "writable mode \<longleftrightarrow> mode AND (MODE_READWRITE OR MODE_APPEND OR MODE_READ_PLUS) \<noteq> 0"

definition readable :: "u32 \<Rightarrow> bool" where
  "readable mode \<longleftrightarrow> mode AND (MODE_READ OR MODE_READWRITE OR MODE_APPEND OR MODE_READ_PLUS) \<noteq> 0"

definition appends :: "u32 \<Rightarrow> bool" where
  "appends mode \<longleftrightarrow> mode AND MODE_APPEND \<noteq> 0"

lemma mode_and_or: "m AND (a OR b) \<noteq> 0 \<longleftrightarrow> m AND a \<noteq> 0 \<or> m AND b \<noteq> (0 :: u32)"
  by (simp add: bit.conj_disj_distrib) (metis or_eq_0_iff)

lemma mode_tests:
  "writable (fc_mode s) \<longleftrightarrow> mode_has MODE_READWRITE s \<or> appending s \<or> mode_has MODE_READ_PLUS s"
  "readable (fc_mode s) \<longleftrightarrow> mode_has MODE_READWRITE s \<or> mode_has MODE_READ s \<or> appending s \<or> mode_has MODE_READ_PLUS s"
  "appends (fc_mode s) = appending s"
  by (auto simp: writable_def readable_def appends_def mode_has_def mode_and_or)

lemma step_refines:
  assumes "cache_ok s" "fits s" "readable (fc_mode s)" "nf_limit (fc_native s) < 2 ^ 31"
    "step_fits (nf_limit (fc_native s)) (appends (fc_mode s)) oper (fc_abs s)"
  shows "\<exists>s'. cache_step oper s = Some (fst (spec_step (appends (fc_mode s)) (writable (fc_mode s)) oper (fc_abs s)), s') \<and>
    cache_ok s' \<and> fits s' \<and> fc_mode s' = fc_mode s \<and> nf_limit (fc_native s') = nf_limit (fc_native s) \<and>
    fc_abs s' = snd (spec_step (appends (fc_mode s)) (writable (fc_mode s)) oper (fc_abs s))"
proof (cases oper)
  case (OpRead e n)
  have "0 < e" "n * e < 2 ^ 32" "e = 1 \<or> cache_tell s + n * e + e \<le> fc_fileSize s + 1"
    using assms(5) OpRead cache_ok_size [OF assms(1)] by (simp_all add: fc_abs_def)
  then obtain s' where "cache_read e n s = (take (n * e) (drop (cache_tell s) (fc_view s)),
      min (n * e) (fc_fileSize s - cache_tell s) div e, s')"
    "keeps s s'" "cache_tell s' = min (cache_tell s + n * e) (fc_fileSize s)"
    using cache_read_elements_ok [OF assms(1,2), of e n] assms(3) by (auto simp: mode_tests)
  then show ?thesis
    using cache_ok_size [OF assms(1)] cache_ok_tell [OF assms(1)] OpRead
    by (auto simp: keeps_def fc_abs_def Let_def min_def)
next
  case (OpWrite e n bs)
  have e: "length bs = n * e" "0 < e" using assms(5) OpWrite by simp_all
  show ?thesis
  proof (cases "writable (fc_mode s)")
    case True
    let ?p = "if appending s then fc_fileSize s else cache_tell s"
    have room: "?p + length bs \<le> nf_limit (fc_native s)"
      using assms(5) OpWrite cache_ok_size [OF assms(1)] by (simp add: fc_abs_def mode_tests split: if_splits)
    obtain s' where "cache_write e n bs s = Some (n, s')" "cache_ok s'" "fits s'"
      "fc_view s' = patch (fc_view s) ?p bs" "cache_tell s' = ?p + length bs"
      "fc_mode s' = fc_mode s" "nf_limit (fc_native s') = nf_limit (fc_native s)"
      by (rule cache_write_ok [OF assms(1,2) True [unfolded mode_tests] refl _ room e]) (use room assms(4) in linarith)
    then show ?thesis
      using True OpWrite cache_ok_size [OF assms(1)] by (auto simp: fc_abs_def mode_tests Let_def)
  next
    case False
    then have "cache_write e n bs s = Some (0, s)"
      by (simp add: cache_write_def mode_tests)
    then show ?thesis using assms False OpWrite by simp
  qed
next
  case (OpSeek offset origin)
  note k = cache_seek_ok [OF assms(1,2) refl, of offset origin]
  show ?thesis
  proof (cases "0 \<le> (case origin of SEEKCUR \<Rightarrow> int (cache_tell s) + offset | SEEKSET \<Rightarrow> offset
      | SEEKEND \<Rightarrow> int (fc_fileSize s) + offset) \<and> (case origin of SEEKCUR \<Rightarrow> int (cache_tell s) + offset
      | SEEKSET \<Rightarrow> offset | SEEKEND \<Rightarrow> int (fc_fileSize s) + offset) \<le> int (fc_fileSize s)")
    case True
    then obtain s' where "cache_seek offset origin s = (0, s')" "keeps s s'"
      "cache_tell s' = nat (case origin of SEEKCUR \<Rightarrow> int (cache_tell s) + offset | SEEKSET \<Rightarrow> offset
        | SEEKEND \<Rightarrow> int (fc_fileSize s) + offset)"
      using k(1) by blast
    then show ?thesis
      using True OpSeek cache_ok_size [OF assms(1)]
      by (auto simp: keeps_def fc_abs_def Let_def split: seek_type.splits)
  next
    case False
    then have "cache_seek offset origin s = (- 1, s)" using k(2) by linarith
    then show ?thesis
      using False OpSeek assms(1,2) cache_ok_size [OF assms(1)]
      by (auto simp: fc_abs_def Let_def split: seek_type.splits)
  qed
next
  case OpFlush
  obtain s' where "cache_flush s = (0, s')" "keeps s s'" "cache_tell s' = cache_tell s"
    by (rule cache_flush_ok [OF assms(1,2)])
  then show ?thesis using OpFlush by (auto simp: keeps_def fc_abs_def)
qed

lemma run_refines:
  assumes "cache_ok s" "fits s" "readable (fc_mode s)" "nf_limit (fc_native s) < 2 ^ 31"
    "ops_fit (nf_limit (fc_native s)) (appends (fc_mode s)) (writable (fc_mode s)) ops (fc_abs s)"
  shows "\<exists>s'. cache_run ops s = Some (fst (spec_run (appends (fc_mode s)) (writable (fc_mode s)) ops (fc_abs s)), s') \<and>
    cache_ok s' \<and> fits s' \<and> fc_abs s' = snd (spec_run (appends (fc_mode s)) (writable (fc_mode s)) ops (fc_abs s))"
  using assms
proof (induction ops arbitrary: s)
  case Nil
  then show ?case by simp
next
  case (Cons oper ops)
  let ?a = "appends (fc_mode s)" and ?w = "writable (fc_mode s)"
  obtain t where t: "cache_step oper s = Some (fst (spec_step ?a ?w oper (fc_abs s)), t)"
    "cache_ok t" "fits t" "fc_mode t = fc_mode s" "nf_limit (fc_native t) = nf_limit (fc_native s)"
    "fc_abs t = snd (spec_step ?a ?w oper (fc_abs s))"
    using step_refines [OF Cons.prems(1-4)] Cons.prems(5) by auto
  obtain u where "cache_run ops t = Some (fst (spec_run ?a ?w ops (fc_abs t)), u)"
    "cache_ok u" "fits u" "fc_abs u = snd (spec_run ?a ?w ops (fc_abs t))"
    using Cons.IH [OF t(2,3)] Cons.prems(3-5) t(4-6) by auto
  then show ?case
    using t(1,6) by (auto simp: Let_def split: prod.splits)
qed

lemma cache_open_ok:
  assumes "length mem = csize" "0 < csize" "length (nf_data nf) \<le> nf_limit nf" "nf_limit nf < 2 ^ 31"
  shows "cache_ok (cache_open mode csize mem nf)" "fits (cache_open mode csize mem nf)"
    "fc_abs (cache_open mode csize mem nf) = \<lparr>pf_data = nf_data nf, pf_pos = 0\<rparr>"
  using assms by (auto simp: cache_open_def cache_ok_def fits_def fc_view_def dirty_def fc_abs_def cache_tell_def)

lemma cache_close_ok:
  assumes "cache_ok s" "fits s"
  shows "nf_data (fc_native (cache_close s)) = fc_view s"
proof -
  obtain nf where "SetCachePosition 0 s =
      (0, reset_cache 0 (s\<lparr>fc_native := nf, fc_nativePosition := nf_pos nf\<rparr>))" "nf_data nf = fc_view s"
    using SetCachePosition_ok [OF assms] by blast
  then show ?thesis by (simp add: cache_close_def reset_cache_def)
qed

text \<open>
  C4. A file opened through the cache in a mode for reading behaves, whatever the size of the cache, as an
  array of bytes with a position: for every sequence of reads, writes, seeks and flushes that the device has
  room for (less than \<open>2 ^ 31\<close> bytes) every result is the same, and closing the cache leaves the same bytes
  in the native file. Reads and writes are of elements of any size; a read of elements of more than one byte
  must end so far in front of the end of the file that another element but for one byte would follow, since the
  code gives up such an element otherwise.
\<close>

theorem cache_refines_file:
  assumes "length mem = csize" "0 < csize"
    and "length (nf_data nf) \<le> nf_limit nf" "nf_limit nf < 2 ^ 31" "readable mode"
    and "ops_fit (nf_limit nf) (appends mode) (writable mode) ops \<lparr>pf_data = nf_data nf, pf_pos = 0\<rparr>"
  shows "\<exists>s. cache_run ops (cache_open mode csize mem nf) =
      Some (fst (spec_run (appends mode) (writable mode) ops \<lparr>pf_data = nf_data nf, pf_pos = 0\<rparr>), s) \<and>
    nf_data (fc_native (cache_close s)) =
      pf_data (snd (spec_run (appends mode) (writable mode) ops \<lparr>pf_data = nf_data nf, pf_pos = 0\<rparr>))"
proof -
  let ?s = "cache_open mode csize mem nf"
  have m: "fc_mode ?s = mode" "fc_native ?s = nf" by (simp_all add: cache_open_def)
  note o = cache_open_ok [OF assms(1-4), of mode]
  obtain s where s: "cache_run ops ?s = Some (fst (spec_run (appends mode) (writable mode) ops (fc_abs ?s)), s)"
    "cache_ok s" "fits s" "fc_abs s = snd (spec_run (appends mode) (writable mode) ops (fc_abs ?s))"
    using run_refines [OF o(1,2), of ops] assms(4-6) m o(3) by auto
  then have "pf_data (snd (spec_run (appends mode) (writable mode) ops (fc_abs ?s))) = fc_view s"
    by (metis fc_abs_def plain_file.select_convs(1))
  then show ?thesis
    using s cache_close_ok [OF s(2,3)] o(3) by auto
qed

lemma Suc4: "4 = Suc (Suc (Suc (Suc 0)))" by simp

theorem cache_refines_file_witness:
  "\<exists>s. cache_run [OpRead 1 1, OpWrite 3 1 [9, 9, 9], OpSeek 0 SEEKSET, OpRead 3 1, OpSeek 0 SEEKSET, OpRead 1 10, OpSeek 7 SEEKSET]
        (cache_open MODE_READWRITE 2 [0, 0] \<lparr>nf_data = [1, 2, 3, 4, 5, 6], nf_pos = 0, nf_limit = 10\<rparr>) =
      Some ([Got [1] 1, Stored 1, Status 0, Got [1, 9, 9] 1, Status 0, Got [1, 9, 9, 9, 5, 6] 6, Status (- 1)], s) \<and>
    nf_data (fc_native (cache_close s)) = [1, 9, 9, 9, 5, 6]"
proof -
  let ?ops = "[OpRead 1 1, OpWrite 3 1 [9, 9, 9], OpSeek 0 SEEKSET, OpRead 3 1, OpSeek 0 SEEKSET, OpRead 1 10, OpSeek 7 SEEKSET]"
  let ?f = "\<lparr>pf_data = [1, 2, 3, 4, 5, 6], pf_pos = 0\<rparr>" and ?nf = "\<lparr>nf_data = [1, 2, 3, 4, 5, 6], nf_pos = 0, nf_limit = 10\<rparr>"
  have m: "readable MODE_READWRITE" "writable MODE_READWRITE" "\<not> appends MODE_READWRITE"
    by (simp_all add: readable_def writable_def appends_def MODE_READ_def MODE_READWRITE_def MODE_APPEND_def MODE_READ_PLUS_def)
  have run: "spec_run False True ?ops ?f =
      ([Got [1] 1, Stored 1, Status 0, Got [1, 9, 9] 1, Status 0, Got [1, 9, 9, 9, 5, 6] 6, Status (- 1)],
       \<lparr>pf_data = [1, 9, 9, 9, 5, 6], pf_pos = 6\<rparr>)"
    by (simp add: patch_def)
  have fit: "ops_fit 10 False True ?ops ?f" by (simp add: patch_def)
  show ?thesis
    using cache_refines_file [of "[0, 0]" 2 ?nf MODE_READWRITE ?ops] m run fit by (simp del: cache_run.simps spec_run.simps ops_fit.simps)
qed

section \<open>Errors\<close>

text \<open>
  C31. When the device is full while the cache is flushed, the bytes that fitted are in the file, the
  rest is lost, and the cache recovers: it shows what the native file really has, is empty, stands
  at the old position or the end of the file, whichever is less, and satisfies its invariant.
\<close>

theorem flush_error_recovers:
  assumes "cache_ok s" "length (nf_data (fc_native s)) \<le> nf_limit (fc_native s)" "\<not> fits s"
  shows "\<exists>s'. WriteCacheToFile s = (- 1, s') \<and> cache_ok s' \<and> \<not> dirty s' \<and>
    fc_view s' = take (nf_limit (fc_native s)) (fc_view s) \<and> nf_data (fc_native s') = fc_view s' \<and>
    cache_tell s' = min (cache_tell s) (nf_limit (fc_native s))"
proof -
  let ?p = "fc_cacheFilePosition s + fc_updateStart s"
  let ?n = "fc_updateEnd s - fc_updateStart s"
  let ?bs = "take ?n (drop (fc_updateStart s) (fc_buffer s))"
  let ?l = "nf_limit (fc_native s)" and ?d = "nf_data (fc_native s)"
  have dirty: "dirty s" using assms(2,3) by (auto simp: fits_def fc_view_def split: if_splits)
  have len: "length ?bs = ?n" and n: "?n > 0" using assms(1) dirty by (auto simp: cache_ok_def dirty_def)
  have p: "?p \<le> length ?d" and ap: "appending s \<Longrightarrow> ?p = length ?d" and small: "length (fc_view s) < 2 ^ 31"
    and np: "fc_nativePosition s = nf_pos (fc_native s)"
    using assms(1) dirty by (auto simp: cache_ok_def)
  have view: "fc_view s = patch ?d ?p ?bs" using dirty by (simp add: fc_view_def)
  have lv: "length (fc_view s) = max (length ?d) (?p + ?n)" using p len by (simp add: view length_patch_ext)
  have over: "?l < ?p + ?n" "?p \<le> ?l" using assms(2,3) p lv by (auto simp: fits_def)
  define k where "k = ?l - ?p"
  define nf1 where "nf1 = (if fc_nativePosition s \<noteq> ?p \<and> \<not> appending s
    then (fc_native s)\<lparr>nf_pos := ?p\<rparr> else fc_native s)"
  have pos: "(if appending s then length ?d else nf_pos nf1) = ?p"
    using np ap by (simp add: nf1_def)
  have nd: "nf_data nf1 = ?d" "nf_limit nf1 = ?l" by (simp_all add: nf1_def)
  have kl: "min (length ?bs) (?l - ?p) = k" using over len by (simp add: k_def)
  have tk: "take ?l (fc_view s) = (if k = 0 then ?d else patch ?d ?p (take k ?bs))"
    using over p assms(2) len by (auto simp: k_def view patch_def min_def)
  have pk: "?p + k = ?l" using over(2) by (simp add: k_def)
  let ?nf = "nf1\<lparr>nf_data := take ?l (fc_view s), nf_pos := ?l\<rparr>"
  have w: "native_write (appending s) ?bs nf1 = (k, ?nf)"
    unfolding native_write_def Let_def nd pos kl tk pk using p by simp
  let ?s = "reset_cache (min (cache_tell s) ?l) (s\<lparr>fc_native := ?nf, fc_nativePosition := ?l, fc_fileSize := ?l\<rparr>)"
  have lt: "length (take ?l (fc_view s)) = ?l" using over lv by simp
  have k: "k < ?n" using over n by (simp add: k_def)
  have "WriteCacheToFile s = (- 1, ?s)"
    using dirty w k small lv pk lt np
    by (auto simp: WriteCacheToFile_def dirty_def native_seek_def nf1_def Let_def reset_cache_def cache_tell_def)
  moreover have "\<not> dirty ?s" by (simp add: dirty_def reset_cache_def)
  moreover have "fc_view ?s = take ?l (fc_view s)" by (simp add: fc_view_def dirty_def reset_cache_def)
  moreover have "cache_ok ?s"
    using assms(1) lt lv small over
    by (simp add: cache_ok_def fc_view_def [of ?s] dirty_def [of ?s]) (simp add: reset_cache_def)
  ultimately show ?thesis
    by (intro exI [of _ ?s]) (simp add: reset_cache_def cache_tell_def)
qed

text \<open>
  Reading elements of more than one byte loses the last one: when the cache ends inside an
  element and the file ends right after it, \<open>Read\<close> stops in the middle, since it compares what is
  left of the file with a whole element again. It reports no element although the file has one, and
  the position is left inside the element. (The parsers read elements of one byte.)
\<close>

theorem read_loses_last_element:
  assumes "cache_ok s" "mode_has MODE_READ s" "e < 2 ^ 32"
    and "c = fc_endCachePos s - fc_currentCachePos s" "r = fc_fileSize s - cache_tell s"
    and "0 < c" "c < e" "e \<le> r" "r < c + e"
  shows "\<exists>bs s'. cache_read e 1 s = (bs, 0, s') \<and> cache_tell s' = cache_tell s + c"
proof -
  let ?t = "s\<lparr>fc_currentCachePos := fc_currentCachePos s + c\<rparr>"
  have t: "cache_tell ?t = cache_tell s + c" by (simp add: cache_tell_def)
  have "cache_tell s + c \<le> fc_fileSize s" "fc_fileSize s - (cache_tell s + c) < e"
    using assms by auto
  then have 2: "cache_read_loop e (e - c) ?t = ([], e - c, ?t)"
    using assms(7) t by (subst cache_read_loop.simps) simp
  have 1: "cache_read_loop e e s = (take c (drop (fc_currentCachePos s) (fc_buffer s)), e - c, ?t)"
    using assms(4-8) 2 by (subst cache_read_loop.simps) (auto simp: Let_def)
  show ?thesis
    using assms(2,3,6,7) 1 t by (simp add: cache_read_def Let_def)
qed

theorem read_loses_last_element_witness:
  "\<exists>bs s'. cache_read 4 1 ((cache_open MODE_READ 2 [7, 7] \<lparr>nf_data = [1, 2, 3, 4], nf_pos = 2, nf_limit = 4\<rparr>)
        \<lparr>fc_endCachePos := 2, fc_buffer := [1, 2]\<rparr>) = (bs, 0, s') \<and> cache_tell s' = 2"
proof -
  let ?s = "(cache_open MODE_READ 2 [7, 7] \<lparr>nf_data = [1, 2, 3, 4], nf_pos = 2, nf_limit = 4\<rparr>)
        \<lparr>fc_endCachePos := 2, fc_buffer := [1, 2]\<rparr>"
  have "\<exists>bs s'. cache_read 4 1 ?s = (bs, 0, s') \<and> cache_tell s' = cache_tell ?s + 2"
    by (rule read_loses_last_element [of ?s 4 2 4])
      (simp_all add: cache_open_def cache_ok_def fc_view_def dirty_def cache_tell_def mode_has_def MODE_READ_def)
  moreover have "cache_tell ?s = 0" by (simp add: cache_tell_def cache_open_def)
  ultimately show ?thesis by (metis add_0)
qed

theorem flush_error_recovers_witness:
  "\<exists>s'. WriteCacheToFile ((cache_open MODE_READWRITE 4 [5, 6, 7, 0] \<lparr>nf_data = [1], nf_pos = 0, nf_limit = 2\<rparr>)
        \<lparr>fc_endCachePos := 3, fc_currentCachePos := 3, fc_updateEnd := 3, fc_fileSize := 3\<rparr>) = (- 1, s') \<and>
    nf_data (fc_native s') = [5, 6] \<and> cache_tell s' = 2"
  using flush_error_recovers [of "(cache_open MODE_READWRITE 4 [5, 6, 7, 0] \<lparr>nf_data = [1], nf_pos = 0, nf_limit = 2\<rparr>)
        \<lparr>fc_endCachePos := 3, fc_currentCachePos := 3, fc_updateEnd := 3, fc_fileSize := 3\<rparr>"]
  by (auto simp: cache_open_def cache_ok_def fits_def fc_view_def dirty_def cache_tell_def mode_has_def patch_def
      MODE_READWRITE_def MODE_APPEND_def)

end
