(* ===== verification/PvFile.thy ===== *)
theory PvFile
  imports CInt FileCacheRefine
begin

text \<open>
  \<open>PVFile\<close> (\<open>pvmi/pvfile.cpp\<close>), the file the parsers read, with the helpers on it: \<open>MP3Utils\<close>
  (\<open>pvmi/mp3utils.cpp\<close>) and \<open>MP3FileIO\<close> (\<open>pvmi/mp3fileio.cpp\<close>).

  A \<open>PVFile\<close> forwards to an \<open>Oscl_File\<close> or to a data stream of a plug-in that is not part of the
  program; the scanner opens local files only. The file it forwards to is an argument here, the
  record \<open>file_ops\<close> of its three reading operations; the locale \<open>byte_file\<close> states what the
  parsers rely on, and it is interpreted on the cache of \<open>FileCache\<close>.
\<close>

section \<open>The file behind a PVFile\<close>

record 'f file_ops =
  fop_read :: "nat \<Rightarrow> 'f \<Rightarrow> u8 list \<times> 'f"
  fop_seek :: "int \<Rightarrow> seek_type \<Rightarrow> 'f \<Rightarrow> int \<times> 'f"
  fop_tell :: "'f \<Rightarrow> int"

text \<open>
  \<open>Oscl_File\<close>, open and with a cache: \<open>Read\<close> with elements of one byte, \<open>Seek\<close> and \<open>Tell\<close>. A \<open>Read\<close> of no bytes
  leaves with \<open>OsclErrArgument\<close> in the code; here it reads nothing.
\<close>

definition cached_file :: "file_cache file_ops" where
  "cached_file = \<lparr>fop_read = (\<lambda>n s. case cache_read 1 n s of (bs, k, s') \<Rightarrow> (take k bs, s')),
     fop_seek = cache_seek, fop_tell = (\<lambda>s. int (cache_tell s))\<rparr>"

record 'f pvfile =
  pv_file :: 'f
  iFileSize :: int
  iFileSizeAvailable :: bool

definition pv_read :: "'f file_ops \<Rightarrow> nat \<Rightarrow> 'f pvfile \<Rightarrow> u8 list \<times> 'f pvfile" where
  "pv_read io n F = (case fop_read io n (pv_file F) of (bs, f) \<Rightarrow> (bs, F\<lparr>pv_file := f\<rparr>))"

definition pv_seek :: "'f file_ops \<Rightarrow> int \<Rightarrow> seek_type \<Rightarrow> 'f pvfile \<Rightarrow> int \<times> 'f pvfile" where
  "pv_seek io offset origin F = (case fop_seek io offset origin (pv_file F) of (r, f) \<Rightarrow> (r, F\<lparr>pv_file := f\<rparr>))"

definition pv_tell :: "'f file_ops \<Rightarrow> 'f pvfile \<Rightarrow> int" where
  "pv_tell io F = to_s32 (fop_tell io (pv_file F))"

text \<open>\<open>GetRemainingBytes\<close>: the bytes left when it returns true.\<close>

definition GetRemainingBytes :: "'f file_ops \<Rightarrow> 'f pvfile \<Rightarrow> int option \<times> 'f pvfile" where
  "GetRemainingBytes io F =
     (let currPos = to_u32 (fop_tell io (pv_file F));
          F1 = (if iFileSizeAvailable F then F
                else let (_, f1) = fop_seek io 0 SEEKEND (pv_file F);
                         size = to_u32 (fop_tell io f1);
                         (_, f2) = fop_seek io currPos SEEKSET f1
                     in F\<lparr>pv_file := f2, iFileSize := size, iFileSizeAvailable := True\<rparr>)
      in (if currPos \<le> iFileSize F1 then Some (iFileSize F1 - currPos) else None, F1))"

text \<open>Only a data stream knows its content length and buffers; a file answers 0 to both.\<close>

definition GetContentLength :: "'f pvfile \<Rightarrow> int" where
  "GetContentLength F = 0"

definition GetFileBufferingCapacity :: "'f pvfile \<Rightarrow> int" where
  "GetFileBufferingCapacity F = 0"

section \<open>MP3Utils\<close>

datatype mp3_error =
  MP3_ERROR_UNKNOWN | MP3_SUCCESS | MP3_END_OF_FILE | MP3_CRC_ERR | MP3_FILE_READ_ERR
| MP3_FILE_HDR_READ_ERR | MP3_FILE_HDR_DECODE_ERR | MP3_FILE_XING_HDR_ERR | MP3_FILE_VBRI_HDR_ERR
| MP3_ERR_NO_MEMORY | MP3_NO_SYNC_FOUND | MP3_FILE_OPEN_ERR | MP3_ERROR_UNKNOWN_OBJECT
| MP3_FILE_OPEN_FAILED | MP3_INSUFFICIENT_DATA | MP3_METADATA_NOTPARSED | MP3_DURATION_PRESENT

definition getCurrentFilePosition :: "'f file_ops \<Rightarrow> 'f pvfile \<Rightarrow> int" where
  "getCurrentFilePosition io F = pv_tell io F"

definition getCurrentFileSize :: "'f file_ops \<Rightarrow> 'f pvfile \<Rightarrow> bool \<times> int \<times> 'f pvfile" where
  "getCurrentFileSize io F =
     (case GetRemainingBytes io F of
        (Some aRemBytes, F1) \<Rightarrow> (True, to_u32 (to_u32 (pv_tell io F1) + aRemBytes), F1)
      | (None, F1) \<Rightarrow> (False, 0, F1))"

definition SeektoOffset :: "'f file_ops \<Rightarrow> 'f pvfile \<Rightarrow> int \<Rightarrow> seek_type \<Rightarrow> mp3_error \<times> 'f pvfile" where
  "SeektoOffset io F aOffset aSeekType =
     (let currPos = to_u32 (getCurrentFilePosition io F);
          (_, currFileSize, F1) = getCurrentFileSize io F;
          seekOffset = (case aSeekType of
              SEEKSET \<Rightarrow> to_s32 (to_u32 aOffset - currPos)
            | SEEKEND \<Rightarrow> to_s32 (currFileSize - currPos)
            | SEEKCUR \<Rightarrow> aOffset)
      in if aOffset \<le> 0 \<or> currFileSize \<ge> to_u32 aOffset
         then case pv_seek io seekOffset SEEKCUR F1 of
           (r, F2) \<Rightarrow> if r \<noteq> 0 then (MP3_FILE_READ_ERR, F2) else (MP3_SUCCESS, F2)
         else (MP3_INSUFFICIENT_DATA, F1))"

section \<open>MP3FileIO\<close>

text \<open>The reads return the value when the code returns true; the value is 0 when it returns false.\<close>

definition read_bytes :: "'f file_ops \<Rightarrow> nat \<Rightarrow> 'f pvfile \<Rightarrow> u8 list option \<times> 'f pvfile" where
  "read_bytes io n F = (case pv_read io n F of (bs, F1) \<Rightarrow> (if length bs < n then None else Some bs, F1))"

definition read64 :: "'f file_ops \<Rightarrow> 'f pvfile \<Rightarrow> u64 option \<times> 'f pvfile" where
  "read64 io F = (case read_bytes io 8 F of (r, F1) \<Rightarrow> (map_option (\<lambda>_. 0) r, F1))"

definition read32 :: "'f file_ops \<Rightarrow> 'f pvfile \<Rightarrow> u32 option \<times> 'f pvfile" where
  "read32 io F = (case read_bytes io 4 F of (r, F1) \<Rightarrow> (map_option (foldl shift_in 0) r, F1))"

definition read32read32 :: "'f file_ops \<Rightarrow> 'f pvfile \<Rightarrow> (u32 \<times> u32) option \<times> 'f pvfile" where
  "read32read32 io F = (case read_bytes io 8 F of (r, F1) \<Rightarrow>
     (map_option (\<lambda>bs. (foldl shift_in 0 (take 4 bs), foldl shift_in 0 (drop 4 bs))) r, F1))"

definition read24 :: "'f file_ops \<Rightarrow> 'f pvfile \<Rightarrow> u32 option \<times> 'f pvfile" where
  "read24 io F = (case read_bytes io 3 F of (r, F1) \<Rightarrow> (map_option (foldl shift_in 0) r, F1))"

definition shift_in16 :: "u16 \<Rightarrow> u8 \<Rightarrow> u16" where
  "shift_in16 n b = push_bit 8 n OR ucast b"

definition read16 :: "'f file_ops \<Rightarrow> 'f pvfile \<Rightarrow> u16 option \<times> 'f pvfile" where
  "read16 io F = (case read_bytes io 2 F of (r, F1) \<Rightarrow> (map_option (foldl shift_in16 0) r, F1))"

definition read16read16 :: "'f file_ops \<Rightarrow> 'f pvfile \<Rightarrow> (u16 \<times> u16) option \<times> 'f pvfile" where
  "read16read16 io F = (case read_bytes io 4 F of (r, F1) \<Rightarrow>
     (map_option (\<lambda>bs. (foldl shift_in16 0 (take 2 bs), foldl shift_in16 0 (drop 2 bs))) r, F1))"

definition read8 :: "'f file_ops \<Rightarrow> 'f pvfile \<Rightarrow> u8 option \<times> 'f pvfile" where
  "read8 io F = (case read_bytes io 1 F of (r, F1) \<Rightarrow> (map_option hd r, F1))"

definition read8read8 :: "'f file_ops \<Rightarrow> 'f pvfile \<Rightarrow> (u8 \<times> u8) option \<times> 'f pvfile" where
  "read8read8 io F = (case read_bytes io 2 F of (r, F1) \<Rightarrow> (map_option (\<lambda>bs. (bs ! 0, bs ! 1)) r, F1))"

text \<open>\<open>readByteData\<close>: whether it returns true, the bytes stored (\<open>numbytes\<close> is their number), the file.\<close>

definition readByteData :: "'f file_ops \<Rightarrow> nat \<Rightarrow> 'f pvfile \<Rightarrow> bool \<times> u8 list \<times> 'f pvfile" where
  "readByteData io n F =
     (case pv_read io n F of
        (bs, F1) \<Rightarrow>
          if length bs < n
          then case pv_seek io (0 - int (length bs)) SEEKCUR F1 of (_, F2) \<Rightarrow> (False, bs, F2)
          else (True, bs, F1))"

fun peek_loop :: "'f file_ops \<Rightarrow> nat \<Rightarrow> u32 \<Rightarrow> 'f pvfile \<Rightarrow> u32 \<times> 'f pvfile" where
  "peek_loop io 0 tag F = (tag, F)"
| "peek_loop io (Suc n) tag F =
     (case read32 io F of (r, F1) \<Rightarrow> peek_loop io n (case r of Some v \<Rightarrow> v | None \<Rightarrow> 0) F1)"

definition peekNextNthBytes :: "'f file_ops \<Rightarrow> nat \<Rightarrow> 'f pvfile \<Rightarrow> u32 \<times> 'f pvfile" where
  "peekNextNthBytes io n F =
     (case peek_loop io n 0 F of (tag, F1) \<Rightarrow> (tag, snd (pv_seek io (- 4 * int n) SEEKCUR F1)))"

definition peekNextByte :: "'f file_ops \<Rightarrow> 'f pvfile \<Rightarrow> u8 \<times> 'f pvfile" where
  "peekNextByte io F =
     (case read8 io F of (r, F1) \<Rightarrow>
        ((case r of Some b \<Rightarrow> b | None \<Rightarrow> 0), snd (pv_seek io (- 1) SEEKCUR F1)))"

section \<open>What the parsers rely on\<close>

text \<open>Where \<open>SeektoOffset\<close> goes, when it goes anywhere.\<close>

definition seek_target :: "u8 list \<Rightarrow> nat \<Rightarrow> int \<Rightarrow> seek_type \<Rightarrow> int" where
  "seek_target d p aOffset origin =
     (case origin of SEEKSET \<Rightarrow> aOffset | SEEKEND \<Rightarrow> int (length d) | SEEKCUR \<Rightarrow> int p + aOffset)"

text \<open>
  A file of fewer than \<open>2 ^ 31\<close> bytes whose reads are cut at the end, and whose seeks succeed exactly
  when they stay inside it.
\<close>

locale byte_file =
  fixes io :: "'f file_ops"
    and fdata :: "'f \<Rightarrow> u8 list"
    and fpos :: "'f \<Rightarrow> nat"
    and fok :: "'f \<Rightarrow> bool"
  assumes fsize: "fok f \<Longrightarrow> length (fdata f) < 2147483648"
    and fpos_le: "fok f \<Longrightarrow> fpos f \<le> length (fdata f)"
    and ftell: "fok f \<Longrightarrow> fop_tell io f = int (fpos f)"
    and fread: "fok f \<Longrightarrow> n < 2 ^ 32 \<Longrightarrow> \<exists>f'. fop_read io n f = (take n (drop (fpos f) (fdata f)), f') \<and>
      fok f' \<and> fdata f' = fdata f \<and> fpos f' = min (fpos f + n) (length (fdata f))"
    and fseek: "fok f \<Longrightarrow>
      t = (case origin of SEEKCUR \<Rightarrow> int (fpos f) + offset | SEEKSET \<Rightarrow> offset
        | SEEKEND \<Rightarrow> int (length (fdata f)) + offset) \<Longrightarrow>
      \<exists>f'. fop_seek io offset origin f = (if 0 \<le> t \<and> t \<le> int (length (fdata f)) then 0 else - 1, f') \<and>
        fok f' \<and> fdata f' = fdata f \<and>
        fpos f' = (if 0 \<le> t \<and> t \<le> int (length (fdata f)) then nat t else fpos f)"
begin

text \<open>\<open>pos_at F d p\<close>: the \<open>PVFile\<close> \<open>F\<close> shows the bytes \<open>d\<close> and stands at position \<open>p\<close>.\<close>

definition pos_at :: "'f pvfile \<Rightarrow> u8 list \<Rightarrow> nat \<Rightarrow> bool" where
  "pos_at F d p \<longleftrightarrow> fok (pv_file F) \<and> fdata (pv_file F) = d \<and> fpos (pv_file F) = p \<and>
     (iFileSizeAvailable F \<longrightarrow> iFileSize F = int (length d))"

lemma atD: "pos_at F d p \<Longrightarrow> p \<le> length d" "pos_at F d p \<Longrightarrow> length d < 2147483648"
  using fsize [of "pv_file F"] fpos_le [of "pv_file F"] by (auto simp: pos_at_def)

lemma read_at:
  assumes "pos_at F d p" "n < 2 ^ 32"
  obtains F' where "pv_read io n F = (take n (drop p d), F')" "pos_at F' d (min (p + n) (length d))"
proof -
  obtain f' where "fop_read io n (pv_file F) = (take n (drop p d), f')"
    "fok f'" "fdata f' = d" "fpos f' = min (p + n) (length d)"
    using fread [of "pv_file F" n] assms by (auto simp: pos_at_def)
  then show thesis
    using assms(1) by (intro that [of "F\<lparr>pv_file := f'\<rparr>"]) (auto simp: pv_read_def pos_at_def)
qed

lemma seek_at:
  assumes "pos_at F d p" "t = (case origin of SEEKCUR \<Rightarrow> int p + offset | SEEKSET \<Rightarrow> offset
      | SEEKEND \<Rightarrow> int (length d) + offset)"
  obtains F' where "pv_seek io offset origin F = (if 0 \<le> t \<and> t \<le> int (length d) then 0 else - 1, F')"
    "pos_at F' d (if 0 \<le> t \<and> t \<le> int (length d) then nat t else p)"
proof -
  have ok: "fok (pv_file F)" "fdata (pv_file F) = d" "fpos (pv_file F) = p" using assms by (simp_all add: pos_at_def)
  obtain f' where "fop_seek io offset origin (pv_file F) = (if 0 \<le> t \<and> t \<le> int (length d) then 0 else - 1, f')"
    "fok f'" "fdata f' = d" "fpos f' = (if 0 \<le> t \<and> t \<le> int (length d) then nat t else p)"
    using fseek [OF ok(1), of t offset origin, unfolded ok(2,3), OF assms(2)] by blast
  then show thesis
    using assms(1) by (intro that [of "F\<lparr>pv_file := f'\<rparr>"]) (auto simp: pv_seek_def pos_at_def)
qed

lemma tell_at: "pos_at F d p \<Longrightarrow> pv_tell io F = int p"
  using atD [of F d p] by (auto simp: pv_tell_def pos_at_def ftell in_range)

lemma remaining_at:
  assumes "pos_at F d p"
  obtains F' where "GetRemainingBytes io F = (Some (int (length d) - int p), F')" "pos_at F' d p" "iFileSizeAvailable F'"
proof (cases "iFileSizeAvailable F")
  case True
  have "to_u32 (fop_tell io (pv_file F)) = int p"
    using assms atD [OF assms] by (simp add: pos_at_def ftell in_range)
  then show thesis
    using True assms atD [OF assms] that by (simp add: GetRemainingBytes_def pos_at_def Let_def)
next
  case False
  have ok: "fok (pv_file F)" "fdata (pv_file F) = d" "fpos (pv_file F) = p" using assms by (simp_all add: pos_at_def)
  have cur: "to_u32 (fop_tell io (pv_file F)) = int p"
    using ok atD [OF assms] by (simp add: ftell in_range)
  obtain f1 where f1: "fop_seek io 0 SEEKEND (pv_file F) = (0, f1)" "fok f1" "fdata f1 = d" "fpos f1 = length d"
    using fseek [OF ok(1) refl, of 0 SEEKEND] ok by auto
  have size: "to_u32 (fop_tell io f1) = int (length d)"
    using f1 atD [OF assms] by (simp add: ftell in_range)
  obtain f2 where f2: "fop_seek io (int p) SEEKSET f1 = (0, f2)" "fok f2" "fdata f2 = d" "fpos f2 = p"
    using fseek [OF f1(2) refl, of "int p" SEEKSET] f1 atD [OF assms] by auto
  let ?F = "F\<lparr>pv_file := f2, iFileSize := int (length d), iFileSizeAvailable := True\<rparr>"
  have "GetRemainingBytes io F = (Some (int (length d) - int p), ?F)"
    using False cur f1(1) size f2(1) atD [OF assms] by (simp add: GetRemainingBytes_def Let_def)
  moreover have "pos_at ?F d p" using f2 by (simp add: pos_at_def)
  ultimately show thesis using that by simp
qed

lemma file_size_at:
  assumes "pos_at F d p"
  obtains F' where "getCurrentFileSize io F = (True, int (length d), F')" "pos_at F' d p"
proof -
  obtain F' where *: "GetRemainingBytes io F = (Some (int (length d) - int p), F')" "pos_at F' d p"
    by (rule remaining_at [OF assms])
  have "to_u32 (to_u32 (pv_tell io F') + (int (length d) - int p)) = int (length d)"
    using atD [OF assms] by (simp add: tell_at [OF *(2)] in_range)
  with * show thesis by (intro that) (simp_all add: getCurrentFileSize_def)
qed

lemma seek_to_offset_at:
  assumes "pos_at F d p" "- 2147483648 \<le> aOffset" "aOffset < 2147483648"
    "origin = SEEKSET \<longrightarrow> - 2147483648 \<le> aOffset - int p"
    and t: "t = seek_target d p aOffset origin"
  obtains F' where "SeektoOffset io F aOffset origin =
      (if aOffset \<le> int (length d) then if 0 \<le> t \<and> t \<le> int (length d) then MP3_SUCCESS else MP3_FILE_READ_ERR
       else MP3_INSUFFICIENT_DATA, F')"
    "pos_at F' d (if aOffset \<le> int (length d) \<and> 0 \<le> t \<and> t \<le> int (length d) then nat t else p)"
proof -
  note le = atD [OF assms(1)]
  obtain F1 where F1: "getCurrentFileSize io F = (True, int (length d), F1)" "pos_at F1 d p"
    by (rule file_size_at [OF assms(1)])
  define so where "so = (case origin of SEEKSET \<Rightarrow> to_s32 (to_u32 aOffset - int p)
    | SEEKEND \<Rightarrow> to_s32 (int (length d) - int p) | SEEKCUR \<Rightarrow> aOffset)"
  have cur: "to_u32 (getCurrentFilePosition io F) = int p"
    using le by (simp add: getCurrentFilePosition_def tell_at [OF assms(1)] in_range)
  have "to_s32 (to_u32 aOffset - int p) = to_s32 (aOffset - int p)"
    by (simp add: to_s32_def to_u32_def) (metis (no_types, opaque_lifting) diff_add_eq mod_diff_left_eq mod_add_left_eq)
  then have tgt: "int p + so = t"
    using le assms(2-4) by (auto simp: so_def t seek_target_def in_range split: seek_type.splits)
  have guard: "aOffset \<le> 0 \<or> int (length d) \<ge> to_u32 aOffset \<longleftrightarrow> aOffset \<le> int (length d)"
    using assms(3) by (cases "aOffset \<le> 0") (auto simp: in_range)
  obtain F2 where F2: "pv_seek io so SEEKCUR F1 = (if 0 \<le> t \<and> t \<le> int (length d) then 0 else - 1, F2)"
    "pos_at F2 d (if 0 \<le> t \<and> t \<le> int (length d) then nat t else p)"
    by (rule seek_at [OF F1(2), of t so SEEKCUR]) (simp_all add: tgt)
  have "SeektoOffset io F aOffset origin =
      (if aOffset \<le> int (length d) then case pv_seek io so SEEKCUR F1 of
         (r, F2) \<Rightarrow> if r \<noteq> 0 then (MP3_FILE_READ_ERR, F2) else (MP3_SUCCESS, F2)
       else (MP3_INSUFFICIENT_DATA, F1))"
    unfolding SeektoOffset_def cur F1(1) Let_def prod.case guard so_def [symmetric] by (rule refl)
  then show thesis
    using F1(2) F2 by (intro that [of "if aOffset \<le> int (length d) then F2 else F1"]) auto
qed

lemma seek_cur_at:
  assumes "pos_at F d p" "- 2147483648 \<le> aOffset" "aOffset \<le> int (length d)" "int q = int p + aOffset" "q \<le> length d"
  obtains F' where "SeektoOffset io F aOffset SEEKCUR = (MP3_SUCCESS, F')" "pos_at F' d q"
proof -
  have le: "aOffset < 2147483648" using assms(3) atD(2) [OF assms(1)] by linarith
  obtain F' where F': "SeektoOffset io F aOffset SEEKCUR =
      (if aOffset \<le> int (length d) then if 0 \<le> int q \<and> int q \<le> int (length d)
         then MP3_SUCCESS else MP3_FILE_READ_ERR else MP3_INSUFFICIENT_DATA, F')"
    "pos_at F' d (if aOffset \<le> int (length d) \<and> 0 \<le> int q \<and> int q \<le> int (length d) then nat (int q) else p)"
    by (rule seek_to_offset_at [OF assms(1,2) le, of SEEKCUR "int q"]) (simp_all add: seek_target_def assms(4))
  show thesis
    by (rule that [of F']) (use F' assms(3,5) in simp_all)
qed

text \<open>The reading helper puts the position back when it cannot read all the bytes.\<close>

lemma read_data_at:
  assumes "pos_at F d p" "n < 2 ^ 31"
  obtains F' where "readByteData io n F = (p + n \<le> length d, take n (drop p d), F')"
    "pos_at F' d (if p + n \<le> length d then p + n else p)"
proof -
  note le = atD [OF assms(1)]
  obtain F1 where F1: "pv_read io n F = (take n (drop p d), F1)" "pos_at F1 d (min (p + n) (length d))"
    using read_at [OF assms(1), of n] assms(2) by auto
  show thesis
  proof (cases "p + n \<le> length d")
    case True
    then show ?thesis
      using F1 by (intro that [of F1]) (simp_all add: readByteData_def)
  next
    case False
    then have len: "length (take n (drop p d)) = length d - p" and short: "length d - p < n"
      and pos: "min (p + n) (length d) = length d" using le by auto
    obtain F2 where F2: "snd (pv_seek io (0 - int (length d - p)) SEEKCUR F1) = F2" "pos_at F2 d p"
      by (rule seek_at [OF F1(2), of "int p" "0 - int (length d - p)" SEEKCUR]) (use le pos in auto)
    have "readByteData io n F = (False, take n (drop p d), F2)"
      unfolding readByteData_def F1(1) prod.case len using short F2(1)
      by (simp split: prod.splits) (metis snd_conv)
    then show ?thesis using False F2(2) by (intro that [of F2]) simp_all
  qed
qed

text \<open>The fixed-width reads: the big-endian value of the bytes, or false.\<close>

lemma read_bytes_at:
  assumes "pos_at F d p" "n < 2 ^ 32"
  obtains F' where "read_bytes io n F = (if p + n \<le> length d then Some (take n (drop p d)) else None, F')"
    "pos_at F' d (min (p + n) (length d))"
proof -
  obtain F' where F': "pv_read io n F = (take n (drop p d), F')" "pos_at F' d (min (p + n) (length d))"
    by (rule read_at [OF assms])
  then show thesis using atD(1) [OF assms(1)] by (intro that [of F']) (auto simp: read_bytes_def)
qed

lemma read32_at:
  assumes "pos_at F d p"
  obtains F' r where "read32 io F = (r, F')" "pos_at F' d (min (p + 4) (length d))"
    "map_option unat r = (if p + 4 \<le> length d then Some (be_val (take 4 (drop p d))) else None)"
proof -
  obtain F' where "read_bytes io 4 F = (if p + 4 \<le> length d then Some (take 4 (drop p d)) else None, F')"
    "pos_at F' d (min (p + 4) (length d))"
    by (rule read_bytes_at [OF assms, of 4]) simp
  then show thesis
    by (intro that [of "map_option (foldl shift_in 0) (if p + 4 \<le> length d then Some (take 4 (drop p d)) else None)" F'])
      (auto simp: read32_def unat_shift_ins)
qed

lemma peek_byte_at:
  assumes "pos_at F d p"
  obtains F' where "peekNextByte io F = (if p < length d then d ! p else 0, F')"
    "pos_at F' d (if p < length d then p else p - 1)"
proof -
  note le = atD [OF assms]
  obtain F1 where F1: "read_bytes io 1 F = (if p + 1 \<le> length d then Some (take 1 (drop p d)) else None, F1)"
    "pos_at F1 d (min (p + 1) (length d))"
    by (rule read_bytes_at [OF assms, of 1]) simp
  obtain F2 where F2: "snd (pv_seek io (- 1) SEEKCUR F1) = F2" "pos_at F2 d (min (p + 1) (length d) - 1)"
  proof -
    let ?q = "min (p + 1) (length d)"
    obtain F2 where "pv_seek io (- 1) SEEKCUR F1 = (if 0 \<le> int ?q + - 1 \<and> int ?q + - 1 \<le> int (length d) then 0 else - 1, F2)"
      "pos_at F2 d (if 0 \<le> int ?q + - 1 \<and> int ?q + - 1 \<le> int (length d) then nat (int ?q + - 1) else ?q)"
      by (rule seek_at [OF F1(2), of "int ?q + - 1" "- 1" SEEKCUR]) simp
    moreover have "(if 0 \<le> int ?q + - 1 \<and> int ?q + - 1 \<le> int (length d) then nat (int ?q + - 1) else ?q) = ?q - 1"
      by auto
    ultimately show ?thesis by (intro that [of F2]) simp_all
  qed
  have "peekNextByte io F = (if p < length d then d ! p else 0, F2)"
    using F1(1) F2(1) by (auto simp: peekNextByte_def read8_def hd_drop_conv_nth split: if_splits)
  moreover have "min (p + 1) (length d) - 1 = (if p < length d then p else p - 1)" using le by auto
  ultimately show thesis using that F2(2) by simp
qed

end

section \<open>Files opened by PVFile\<close>

text \<open>
  \<open>PVFile::Open\<close> of a local file for reading: \<open>Oscl_File\<close> puts a cache of
  \<open>PVFILE_DEFAULT_CACHE_SIZE\<close> bytes (whose contents are not initialised: \<open>mem\<close>) before it.
\<close>

definition pv_open :: "u8 list \<Rightarrow> u8 list \<Rightarrow> file_cache pvfile" where
  "pv_open mem d =
     \<lparr>pv_file = cache_open (MODE_READ OR MODE_BINARY) (4 * 1024) mem \<lparr>nf_data = d, nf_pos = 0, nf_limit = length d\<rparr>,
      iFileSize = 0, iFileSizeAvailable = False\<rparr>"

definition readable_cache :: "file_cache \<Rightarrow> bool" where
  "readable_cache s \<longleftrightarrow> cache_ok s \<and> fits s \<and> readable (fc_mode s)"

text \<open>\<open>file_at F d p\<close>: the opened file \<open>F\<close> has the bytes \<open>d\<close> and stands at position \<open>p\<close>.\<close>

definition file_at :: "file_cache pvfile \<Rightarrow> u8 list \<Rightarrow> nat \<Rightarrow> bool" where
  "file_at F d p \<longleftrightarrow> readable_cache (pv_file F) \<and> fc_view (pv_file F) = d \<and> cache_tell (pv_file F) = p \<and>
     (iFileSizeAvailable F \<longrightarrow> iFileSize F = int (length d))"

lemma cached_byte_file: "byte_file cached_file fc_view cache_tell readable_cache"
proof
  fix f assume f: "readable_cache f"
  then have ok: "cache_ok f" "fits f" and r: "readable (fc_mode f)" by (simp_all add: readable_cache_def)
  note size = cache_ok_size [OF ok(1)]
  show "length (fc_view f) < 2147483648" using ok(1) by (simp add: cache_ok_def)
  show "cache_tell f \<le> length (fc_view f)" using cache_ok_tell [OF ok(1)] size by simp
  show "fop_tell cached_file f = int (cache_tell f)" by (simp add: cached_file_def)
  {
    fix n :: nat assume "n < 2 ^ 32"
    then obtain s' where "cache_read 1 n f = (take n (drop (cache_tell f) (fc_view f)),
        min n (fc_fileSize f - cache_tell f), s')" "keeps f s'" "cache_tell s' = min (cache_tell f + n) (fc_fileSize f)"
      using cache_read_ok [OF ok, of n] r mode_tests(2) by metis
    then show "\<exists>f'. fop_read cached_file n f = (take n (drop (cache_tell f) (fc_view f)), f') \<and>
        readable_cache f' \<and> fc_view f' = fc_view f \<and> cache_tell f' = min (cache_tell f + n) (length (fc_view f))"
      using r size by (auto simp: cached_file_def keeps_def readable_cache_def take_all min_def)
  }
  fix t offset origin
  assume t: "t = (case origin of SEEKCUR \<Rightarrow> int (cache_tell f) + offset | SEEKSET \<Rightarrow> offset
      | SEEKEND \<Rightarrow> int (length (fc_view f)) + offset)"
  show "\<exists>f'. fop_seek cached_file offset origin f = (if 0 \<le> t \<and> t \<le> int (length (fc_view f)) then 0 else - 1, f') \<and>
      readable_cache f' \<and> fc_view f' = fc_view f \<and>
      cache_tell f' = (if 0 \<le> t \<and> t \<le> int (length (fc_view f)) then nat t else cache_tell f)"
  proof (cases "0 \<le> t \<and> t \<le> int (length (fc_view f))")
    case True
    then show ?thesis
      using cache_seek_ok(1) [OF ok t [folded size]] r size
      by (auto simp: cached_file_def keeps_def readable_cache_def)
  next
    case False
    then have "cache_seek offset origin f = (- 1, f)"
      using cache_seek_ok(2) [OF ok t [folded size]] size by linarith
    then show ?thesis using False f by (auto simp: cached_file_def)
  qed
qed

interpretation cached: byte_file cached_file fc_view cache_tell readable_cache
  rewrites "byte_file.pos_at fc_view cache_tell readable_cache = file_at"
proof -
  show "byte_file cached_file fc_view cache_tell readable_cache" by (rule cached_byte_file)
  then show "byte_file.pos_at fc_view cache_tell readable_cache = file_at"
    by (intro ext) (simp add: byte_file.pos_at_def file_at_def)
qed

lemma pv_open_at:
  assumes "length mem = 4096" "length d < 2 ^ 31"
  shows "file_at (pv_open mem d) d 0"
proof -
  let ?s = "cache_open (MODE_READ OR MODE_BINARY) (4 * 1024) mem \<lparr>nf_data = d, nf_pos = 0, nf_limit = length d\<rparr>"
  have "cache_ok ?s" "fits ?s" "fc_abs ?s = \<lparr>pf_data = d, pf_pos = 0\<rparr>"
    using cache_open_ok [of mem "4 * 1024" "\<lparr>nf_data = d, nf_pos = 0, nf_limit = length d\<rparr>"] assms by auto
  moreover have "readable (fc_mode ?s)"
    by (simp add: cache_open_def readable_def MODE_READ_def MODE_BINARY_def MODE_READWRITE_def MODE_APPEND_def MODE_READ_PLUS_def)
  ultimately show ?thesis
    by (simp add: file_at_def pv_open_def readable_cache_def fc_abs_def)
qed

section \<open>Properties\<close>

text \<open>
  \<open>read32\<close> on an opened file gives the big-endian number of the next four bytes and moves past
  them; when fewer are left it fails and stands at the end of the file.
\<close>

theorem read32_big_endian:
  assumes "file_at F d p"
  shows "\<exists>F' r. read32 cached_file F = (r, F') \<and> file_at F' d (min (p + 4) (length d)) \<and>
    map_option unat r = (if p + 4 \<le> length d then Some (be_val (take 4 (drop p d))) else None)"
  by (rule cached.read32_at [OF assms]) blast

theorem read32_big_endian_witness:
  "\<exists>F' r. read32 cached_file (pv_open (replicate 4096 0) [1, 2, 3, 4, 5]) = (r, F') \<and>
    file_at F' [1, 2, 3, 4, 5] 4 \<and> map_option unat r = Some 0x01020304"
proof -
  have "be_val [1, 2, 3, 4] = 0x01020304" by (simp add: be_val_def)
  then show ?thesis
    using read32_big_endian [OF pv_open_at [of "replicate 4096 0" "[1, 2, 3, 4, 5]"]] by (simp add: Suc4)
qed

text \<open>
  \<open>readByteData\<close> is all or nothing for the position: it succeeds exactly when \<open>n\<close> bytes are left,
  and when it fails the position is where it was before, whatever part of the data was read.
\<close>

theorem readByteData_restores:
  assumes "file_at F d p" "n < 2 ^ 31"
  shows "\<exists>F'. readByteData cached_file n F = (p + n \<le> length d, take n (drop p d), F') \<and>
    file_at F' d (if p + n \<le> length d then p + n else p)"
  by (rule cached.read_data_at [OF assms]) blast

theorem readByteData_restores_witness:
  "\<exists>F'. readByteData cached_file 4 (pv_open (replicate 4096 0) [1, 2, 3]) = (False, [1, 2, 3], F') \<and>
    file_at F' [1, 2, 3] 0"
  using readByteData_restores [OF pv_open_at [of "replicate 4096 0" "[1, 2, 3]"], of 4] by simp

text \<open>
  \<open>SeektoOffset\<close> stays inside the file: it moves to its target exactly when the target lies in
  the file and the offset is no larger than the file, it reports insufficient data for an offset
  larger than the file and a read error for a target outside, and then does not move. For \<open>SEEKEND\<close>
  the target is the end of the file whatever the offset.
\<close>

theorem SeektoOffset_target:
  assumes "file_at F d p" "- 2147483648 \<le> aOffset" "aOffset < 2147483648"
    and "origin = SEEKSET \<longrightarrow> - 2147483648 \<le> aOffset - int p"
  shows "\<exists>F'. SeektoOffset cached_file F aOffset origin =
      (if aOffset > int (length d) then MP3_INSUFFICIENT_DATA
       else if 0 \<le> seek_target d p aOffset origin \<and> seek_target d p aOffset origin \<le> int (length d)
       then MP3_SUCCESS else MP3_FILE_READ_ERR, F') \<and>
    file_at F' d (if aOffset \<le> int (length d) \<and> 0 \<le> seek_target d p aOffset origin \<and>
      seek_target d p aOffset origin \<le> int (length d) then nat (seek_target d p aOffset origin) else p)"
  by (rule cached.seek_to_offset_at [OF assms refl]) (auto simp: not_le)

theorem SeektoOffset_target_witness:
  "\<exists>F'. SeektoOffset cached_file (pv_open (replicate 4096 0) [1, 2, 3]) (- 3) SEEKEND = (MP3_SUCCESS, F') \<and>
    file_at F' [1, 2, 3] 3"
  using SeektoOffset_target [OF pv_open_at [of "replicate 4096 0" "[1, 2, 3]"], of "- 3" SEEKEND]
  by (simp add: seek_target_def)

text \<open>\<open>read64\<close> never computes a value: the line that shifts the bytes in is commented out.\<close>

lemma read64_zero: "fst (read64 io F) = None \<or> fst (read64 io F) = Some 0"
  by (cases "fst (read_bytes io 8 F)") (auto simp: read64_def split: prod.splits)

text \<open>\<open>peekNextByte\<close> at the end of the file is no peek: it steps back over the last byte.\<close>

lemma peek_at_end:
  assumes "file_at F d (length d)"
  shows "\<exists>F'. peekNextByte cached_file F = (0, F') \<and> file_at F' d (length d - 1)"
  by (rule cached.peek_byte_at [OF assms]) simp

end
