(* ===== verification/Mp3Crc.thy ===== *)
theory Mp3Crc
  imports Mp3Header PvFile
begin

text \<open>
  The CRC of a frame (\<open>CalcCRC16\<close> and \<open>mp3VerifyCRC\<close> of \<open>pvmi/mp3parser.cpp\<close>) and the division it
  implements.
\<close>

section \<open>CalcCRC16\<close>

text \<open>The loop from bit \<open>n\<close> on; \<open>None\<close> is a read past the buffer.\<close>

function crc_loop :: "u8 list \<Rightarrow> nat \<Rightarrow> nat \<Rightarrow> u16 \<Rightarrow> u16 \<Rightarrow> u16 \<Rightarrow> u16 option" where
  "crc_loop pBuffer dwBitSize n crc tmpchar crcmask =
     (if n < dwBitSize
      then if n < 32 \<or> n \<ge> 48
        then do {
          (crcmask, tmpchar) \<leftarrow> (if n mod 8 = 0 then do { b \<leftarrow> rd pBuffer (n div 8); Some (push_bit 8 1, ucast b) }
                                else Some (crcmask, tmpchar));
          let crcmask = drop_bit 1 crcmask;
          let tmpi = crc AND 0x8000;
          let crc = push_bit 1 crc;
          let crc = (if (tmpi = 0) \<noteq> (tmpchar AND crcmask = 0) then crc XOR 0x8005 else crc);
          crc_loop pBuffer dwBitSize (n + 1) crc tmpchar crcmask
        }
        else crc_loop pBuffer dwBitSize (n + 1) crc tmpchar crcmask
      else Some (crc AND 0xffff))"
  by pat_completeness auto
termination by (relation "measure (\<lambda>(_, sz, n, _). sz - n)") auto

declare crc_loop.simps [simp del]

definition CalcCRC16 :: "u8 list \<Rightarrow> nat \<Rightarrow> u16 option" where
  "CalcCRC16 pBuffer dwBitSize = crc_loop pBuffer dwBitSize 16 0xffff 0 0"

section \<open>The reference: one step of the division per bit\<close>

definition crc_step :: "u16 \<Rightarrow> bool \<Rightarrow> u16" where
  "crc_step crc b = (if bit crc 15 \<noteq> b then push_bit 1 crc XOR 0x8005 else push_bit 1 crc)"

text \<open>The bits of a frame, the most significant of each byte first.\<close>

definition bit_at :: "u8 list \<Rightarrow> nat \<Rightarrow> bool" where
  "bit_at bs n = bit (bs ! (n div 8)) (7 - n mod 8)"

definition crc_bits :: "u8 list \<Rightarrow> nat \<Rightarrow> nat \<Rightarrow> bool list" where
  "crc_bits bs n sz = List.map (bit_at bs) (filter (\<lambda>k. k < 32 \<or> k \<ge> 48) [n..<sz])"

lemma crc_bits_step:
  "n < sz \<Longrightarrow> crc_bits bs n sz =
     (if n < 32 \<or> n \<ge> 48 then [bit_at bs n] else []) @ crc_bits bs (n + 1) sz"
  by (simp add: crc_bits_def upt_conv_Cons)

lemma and_exp_0_iff: "(x :: 'a::len word) AND push_bit k 1 = 0 \<longleftrightarrow> \<not> bit x k"
  by (simp add: push_bit_of_1 and_exp_eq_0_iff_not_bit)

lemma and_0x8000: "(x :: u16) AND 0x8000 = 0 \<longleftrightarrow> \<not> bit x 15"
  using and_exp_0_iff [of x 15] by (simp add: push_bit_eq_mult)

text \<open>Before bit \<open>n\<close> inside a byte the mask stands at the bit before it.\<close>

definition crc_state :: "u8 list \<Rightarrow> nat \<Rightarrow> u16 \<Rightarrow> u16 \<Rightarrow> bool" where
  "crc_state bs n tmpchar crcmask \<longleftrightarrow>
     n mod 8 = 0 \<or> tmpchar = ucast (bs ! (n div 8)) \<and> crcmask = push_bit (8 - n mod 8) 1"

lemma crc_state_next:
  assumes "m = (if n mod 8 = 0 then push_bit 8 1 else push_bit (8 - n mod 8) 1)"
  shows "drop_bit 1 m = (push_bit (7 - n mod 8) 1 :: u16)"
    "crc_state bs (n + 1) (ucast (bs ! (n div 8))) (drop_bit 1 m)"
proof -
  have m: "m = push_bit (Suc (7 - n mod 8)) 1"
    using assms mod_less_divisor [of 8 n] by (auto simp: Suc_diff_le [symmetric] simp del: mod_less_divisor)
  have "7 - n mod 8 < 15" by simp
  then show d: "drop_bit 1 m = (push_bit (7 - n mod 8) 1 :: u16)"
    unfolding m by (intro bit_word_eqI) (auto simp: bit_simps)
  have "Suc n mod 8 = 0 \<or> (Suc n mod 8 = Suc (n mod 8) \<and> Suc n div 8 = n div 8)"
    by (auto simp: mod_Suc div_Suc)
  then show "crc_state bs (n + 1) (ucast (bs ! (n div 8))) (drop_bit 1 m)"
    unfolding d crc_state_def by auto
qed

lemma crc_loop_division:
  assumes "sz \<le> 8 * length bs" "n < 32 \<or> n \<ge> 48 \<longrightarrow> crc_state bs n tmpchar crcmask"
  shows "crc_loop bs sz n crc tmpchar crcmask = Some (foldl crc_step crc (crc_bits bs n sz))"
  using assms
proof (induction "sz - n" arbitrary: n crc tmpchar crcmask)
  case 0
  have "crc AND 0xffff = crc" by (intro bit_word_eqI) (auto simp: bit_simps mask_values)
  then show ?case using 0 by (simp add: crc_loop.simps [of _ _ n] crc_bits_def)
next
  case (Suc k)
  then have n: "n < sz" "k = sz - (n + 1)" by simp_all
  show ?case
  proof (cases "n < 32 \<or> n \<ge> 48")
    case True
    let ?c = "ucast (bs ! (n div 8)) :: u16"
    let ?m = "if n mod 8 = 0 then push_bit 8 1 else push_bit (8 - n mod 8) 1 :: u16"
    have len: "n div 8 < length bs" using n(1) Suc.prems(1) by linarith
    have load: "(if n mod 8 = 0 then do { b \<leftarrow> rd bs (n div 8); Some (push_bit 8 1, ucast b) }
        else Some (crcmask, tmpchar)) = Some (?m, ?c)"
      using len Suc.prems(2) True by (auto simp: rd_Some crc_state_def)
    note nxt = crc_state_next(1) [of ?m n, OF refl] crc_state_next(2) [of ?m n bs, OF refl]
    have bit: "?c AND drop_bit 1 ?m = 0 \<longleftrightarrow> \<not> bit_at bs n"
    proof -
      have "7 - n mod 8 < 16" by simp
      then show ?thesis unfolding nxt(1) and_exp_0_iff by (simp add: bit_at_def bit_simps)
    qed
    let ?crc = "crc_step crc (bit_at bs n)"
    have step: "(if (crc AND 0x8000 = 0) \<noteq> (?c AND drop_bit 1 ?m = 0) then push_bit 1 crc XOR 0x8005 else push_bit 1 crc) = ?crc"
      unfolding bit and_0x8000 crc_step_def by simp
    have "crc_loop bs sz n crc tmpchar crcmask = crc_loop bs sz (n + 1) ?crc ?c (drop_bit 1 ?m)"
      using n(1) True by (subst crc_loop.simps) (simp only: load if_True Option.bind.bind_lunit prod.case Let_def step)
    also have "\<dots> = Some (foldl crc_step ?crc (crc_bits bs (n + 1) sz))"
      by (rule Suc.hyps(1) [OF n(2) Suc.prems(1)]) (rule impI, rule nxt(2))
    finally show ?thesis using True n(1) by (simp add: crc_bits_step)
  next
    case False
    have "crc_loop bs sz n crc tmpchar crcmask = crc_loop bs sz (n + 1) crc tmpchar crcmask"
      using n(1) False by (subst crc_loop.simps) simp
    also have "\<dots> = Some (foldl crc_step crc (crc_bits bs (n + 1) sz))"
      by (rule Suc.hyps(1) [OF n(2) Suc.prems(1)]) (cases "n = 47", use False in \<open>auto simp: crc_state_def\<close>)
    finally show ?thesis using False n(1) by (simp add: crc_bits_step)
  qed
qed

text \<open>
  C14. \<open>CalcCRC16\<close> is the bitwise division by the polynomial 0x8005, started at 0xffff, of the bits of
  the frame from the third byte on without the CRC field (bytes 4 and 5), and it reads nothing
  outside the buffer when that holds the bits it is asked for.
\<close>

theorem CalcCRC16_division:
  assumes "dwBitSize \<le> 8 * length bs"
  shows "CalcCRC16 bs dwBitSize = Some (foldl crc_step 0xffff (crc_bits bs 16 dwBitSize))"
  unfolding CalcCRC16_def by (rule crc_loop_division [OF assms]) (simp add: crc_state_def)

theorem CalcCRC16_division_witness:
  "CalcCRC16 [0xFF, 0xFB, 0x80, 0x01, 9, 9, 0x80] 49 = Some (foldl crc_step 0xffff
     [True, False, False, False, False, False, False, False, False, False, False, False, False, False, False, True, True])"
  using CalcCRC16_division [of 49 "[0xFF, 0xFB, 0x80, 0x01, 9, 9, 0x80]"]
  by (simp add: crc_bits_def upt_rec_numeral bit_at_def)

section \<open>mp3VerifyCRC\<close>

text \<open>The number of bits checked, for the layers that have a check.\<close>

definition crc_bit_count :: "mp3_header \<Rightarrow> mp3_config \<Rightarrow> int option" where
  "crc_bit_count h c =
     (let bound = (if chMode h = 1 then to_u32 (4 + modeExtn h * 4) else 32);
          bits = (if layerID h = 3
                  then Some (to_u32 (4 * to_u32 (to_u32 (to_u32 (NumberOfChannels c) * bound) + to_u32 (32 - bound))))
                  else if layerID h = 1
                  then Some (if frameVer h = 3 then if chMode h = 3 then 17 * 8 else 32 * 8
                             else if chMode h = 3 then 9 * 8 else 17 * 8)
                  else None)
      in map_option (\<lambda>b. to_u32 (b + (4 * 8 + 16))) bits)"

definition mp3VerifyCRC :: "byte_order \<Rightarrow> 'f file_ops \<Rightarrow> bool \<Rightarrow> mp3_header \<Rightarrow> mp3_config \<Rightarrow> 'f pvfile \<Rightarrow> (mp3_error \<times> 'f pvfile) option" where
  "mp3VerifyCRC bo io iEnableCrcCalc h c F =
     (if \<not> iEnableCrcCalc \<or> crcFollows h \<noteq> 0 then Some (MP3_SUCCESS, F)
      else case crc_bit_count h c of
        None \<Rightarrow> Some (MP3_SUCCESS, F)
      | Some numberOfBits \<Rightarrow>
          let numberOfBytes = nat (if numberOfBits mod 8 \<noteq> 0 then numberOfBits div 8 + 1 else numberOfBits div 8);
              (ok, buffer, F1) = readByteData io numberOfBytes F
          in if \<not> ok then Some (MP3_INSUFFICIENT_DATA, F1)
            else do {
              let revSeek = 0 - int numberOfBytes;
              calcCRC16 \<leftarrow> CalcCRC16 buffer (nat numberOfBits);
              case GetRemainingBytes io F1 of
                (None, F2) \<Rightarrow> Some (MP3_ERROR_UNKNOWN, snd (SeektoOffset io F2 revSeek SEEKCUR))
              | (Some remBytes, F2) \<Rightarrow>
                  if remBytes < 4 then Some (MP3_INSUFFICIENT_DATA, snd (SeektoOffset io F2 revSeek SEEKCUR))
                  else let F3 = snd (SeektoOffset io F2 4 SEEKCUR);
                           revSeek = revSeek - 4;
                           (ok, crcData, F4) = readByteData io 2 F3
                       in if \<not> ok then Some (MP3_INSUFFICIENT_DATA, snd (SeektoOffset io F4 revSeek SEEKCUR))
                         else do {
                           let revSeek = revSeek - 2;
                           crcVal \<leftarrow> swap16_at bo crcData 0;
                           case SeektoOffset io F4 revSeek SEEKCUR of (err, F5) \<Rightarrow>
                             if err \<noteq> MP3_SUCCESS then Some (err, F5)
                             else if calcCRC16 = crcVal then Some (MP3_SUCCESS, F5)
                             else Some (MP3_CRC_ERR, F5)
                         }
            })"

text \<open>The side information of a Layer III frame, which the check covers after the header.\<close>

definition side_info :: "mp3_header \<Rightarrow> nat" where
  "side_info h = (if frameVer h = 3 then if chMode h = 3 then 17 else 32 else if chMode h = 3 then 9 else 17)"

lemma crc_bit_count_layer3:
  "layerID h = 1 \<Longrightarrow> crc_bit_count h c = Some (8 * (int (side_info h) + 6))"
  by (simp add: crc_bit_count_def side_info_def in_range Let_def)

context byte_file
begin

lemma verify_crc_at:
  assumes "pos_at F d p" "crcFollows h = 0" "layerID h = 1" and n: "n = side_info h + 6"
  obtains F' where "mp3VerifyCRC bo io True h c F =
      Some (if length d < p + n + 6 then MP3_INSUFFICIENT_DATA
        else if foldl crc_step 0xffff (crc_bits (take n (drop p d)) 16 (8 * n)) =
          SwapFileToHostByteOrderInt16 bo (d ! (p + n + 4)) (d ! (p + n + 5))
        then MP3_SUCCESS else MP3_CRC_ERR, F')"
    "pos_at F' d p"
proof -
  note le = atD [OF assms(1)]
  have count: "crc_bit_count h c = Some (8 * int n)" using assms(3) by (simp add: crc_bit_count_layer3 n)
  have nb: "nat (if 8 * int n mod 8 \<noteq> 0 then 8 * int n div 8 + 1 else 8 * int n div 8) = n" by simp
  have sm: "n \<le> 38" by (simp add: n side_info_def)
  then have small: "n < 2 ^ 31" by simp
  obtain F1 where F1: "readByteData io n F = (p + n \<le> length d, take n (drop p d), F1)"
    "pos_at F1 d (if p + n \<le> length d then p + n else p)"
    by (rule read_data_at [OF assms(1) small])
  note start = mp3VerifyCRC_def assms(2) count option.case nb Let_def F1(1) prod.case
  show thesis
  proof (cases "p + n \<le> length d")
    case False
    then show thesis
      using F1(2) by (intro that [of F1]) (simp_all add: start)
  next
    case in_file: True
    let ?bs = "take n (drop p d)"
    let ?crc = "foldl crc_step 0xffff (crc_bits ?bs 16 (8 * n))"
    have crc: "CalcCRC16 ?bs (nat (8 * int n)) = Some ?crc"
      using in_file unfolding nat_mult_distrib [of 8 "int n", simplified]
      by (simp add: CalcCRC16_def) (rule crc_loop_division, simp_all add: crc_state_def)
    have at1: "pos_at F1 d (p + n)" using F1(2) in_file by simp
    obtain F2 where F2: "GetRemainingBytes io F1 = (Some (int (length d) - int (p + n)), F2)" "pos_at F2 d (p + n)"
      by (rule remaining_at [OF at1])
    show thesis
    proof (cases "int (length d) - int (p + n) < 4")
      case True
      obtain F3 where "SeektoOffset io F2 (0 - int n) SEEKCUR = (MP3_SUCCESS, F3)" "pos_at F3 d p"
        by (rule seek_cur_at [OF F2(2), of "0 - int n" p]) (use sm le in auto)
      then show thesis
        using True in_file crc F2(1) by (intro that [of F3]) (simp_all add: start)
    next
      case room: False
      obtain F3 where F3: "SeektoOffset io F2 4 SEEKCUR = (MP3_SUCCESS, F3)" "pos_at F3 d (p + n + 4)"
        by (rule seek_cur_at [OF F2(2), of 4 "p + n + 4"]) (use room in auto)
      obtain F4 where F4: "readByteData io 2 F3 = (p + n + 4 + 2 \<le> length d, take 2 (drop (p + n + 4) d), F4)"
        "pos_at F4 d (if p + n + 4 + 2 \<le> length d then p + n + 4 + 2 else p + n + 4)"
        by (rule read_data_at [OF F3(2), of 2]) simp
      show thesis
      proof (cases "p + n + 6 \<le> length d")
        case False
        then have at4: "pos_at F4 d (p + n + 4)" using F4(2) by (simp split: if_splits)
        obtain F5 where "SeektoOffset io F4 (0 - int n - 4) SEEKCUR = (MP3_SUCCESS, F5)" "pos_at F5 d p"
          by (rule seek_cur_at [OF at4, of "0 - int n - 4" p]) (use sm le in auto)
        then show thesis
          using False room in_file crc F2(1) F3(1) F4(1) by (intro that [of F5]) (simp_all add: start)
      next
        case True
        then have at4: "pos_at F4 d (p + n + 6)" using F4(2) by (simp add: ac_simps)
        obtain F5 where F5: "SeektoOffset io F4 (0 - int n - 4 - 2) SEEKCUR = (MP3_SUCCESS, F5)" "pos_at F5 d p"
          by (rule seek_cur_at [OF at4, of "0 - int n - 4 - 2" p]) (use sm le in auto)
        have two: "swap16_at bo (take 2 (drop (p + n + 4) d)) 0 =
            Some (SwapFileToHostByteOrderInt16 bo (d ! (p + n + 4)) (d ! (p + n + 5)))"
          using True by (simp add: swap16_at_def rd_def add.commute [of 5])
        show thesis
          using True room in_file crc F2(1) F3(1) F4(1) F5 two
          by (intro that [of F5]) (simp_all add: start)
      qed
    qed
  qed
qed

end

text \<open>
  \<open>mp3VerifyCRC\<close> on a Layer III frame always leaves the file where it was. It compares the division
  of the header and side information, which skips the CRC field at bytes 4 and 5, with two bytes that
  lie four bytes after those data, and not with that field.
\<close>

theorem mp3VerifyCRC_compares_bytes_after_data:
  assumes "file_at F d p" "crcFollows h = 0" "layerID h = 1" "n = side_info h + 6"
  shows "\<exists>F'. mp3VerifyCRC bo cached_file True h c F =
      Some (if length d < p + n + 6 then MP3_INSUFFICIENT_DATA
        else if foldl crc_step 0xffff (crc_bits (take n (drop p d)) 16 (8 * n)) =
          SwapFileToHostByteOrderInt16 bo (d ! (p + n + 4)) (d ! (p + n + 5))
        then MP3_SUCCESS else MP3_CRC_ERR, F') \<and> file_at F' d p"
  by (rule cached.verify_crc_at [OF assms]) blast

theorem mp3VerifyCRC_compares_bytes_after_data_witness:
  "\<exists>F'. mp3VerifyCRC LITTLE_ENDIAN cached_file True (zero_header\<lparr>layerID := 1, chMode := 3\<rparr>) zero_config
      (pv_open (replicate 4096 0) (replicate 20 7)) = Some (MP3_INSUFFICIENT_DATA, F') \<and>
    file_at F' (replicate 20 7) 0"
  using mp3VerifyCRC_compares_bytes_after_data [OF pv_open_at [of "replicate 4096 0" "replicate 20 7"],
      of "zero_header\<lparr>layerID := 1, chMode := 3\<rparr>" _ LITTLE_ENDIAN zero_config]
  by (simp add: side_info_def zero_header_def)

end
