(* ===== verification/Mp3Vbr.thy ===== *)
theory Mp3Vbr
  imports Mp3Header "HOL-Library.Signed_Division"
begin

text \<open>
  The headers of variable bit rate files (\<open>DecodeXINGHeader\<close>, \<open>DecodeVBRIHeader\<close>,
  \<open>CalculateBufferSizeForHeader\<close>, \<open>ReadBuffer\<close> of \<open>pvmi/mp3parser.cpp\<close>), and the sizes announced to
  the decoder (\<open>GetMP3FileHeader\<close>, \<open>GetMaximumDecodeBufferSize\<close>). \<open>None\<close> is an access outside a buffer,
  a division by zero, an overflowing \<open>int32\<close> product or a shift by 32 or more.
\<close>

section \<open>The XING header\<close>

definition FRAMES_FLAG :: int where "FRAMES_FLAG = 1"
definition BYTES_FLAG :: int where "BYTES_FLAG = 2"
definition TOC_FLAG :: int where "TOC_FLAG = 4"
definition VBR_SCALE_FLAG :: int where "VBR_SCALE_FLAG = 8"

record xing_header =
  xing_hId :: int
  sampRate :: int
  xing_flags :: int
  xing_frames :: int
  xing_bytes :: int
  vbr_scale :: int
  xing_TOC :: "int list"

definition zero_xing :: xing_header where
  "zero_xing = \<lparr>xing_hId = 0, sampRate = 0, xing_flags = 0, xing_frames = 0, xing_bytes = 0, vbr_scale = 0,
     xing_TOC = replicate 100 0\<rparr>"

definition read_s32 :: "byte_order \<Rightarrow> u8 list \<Rightarrow> nat \<Rightarrow> int option" where
  "read_s32 bo bs i = do { w \<leftarrow> swap32_at bo bs i; Some (to_s32 (uint w)) }"

definition has_flag :: "int \<Rightarrow> int \<Rightarrow> bool" where
  "has_flag flags f \<longleftrightarrow> flags AND f \<noteq> 0"

definition int32_div :: "int \<Rightarrow> int \<Rightarrow> int option" where
  "int32_div a b = (if b = 0 \<or> a = - 2147483648 \<and> b = - 1 then None else Some (a sdiv b))"

text \<open>
  Whether the header survives the plausibility checks. The comparison with \<open>iLocalFileSize * 0.90\<close> is
  in \<open>double\<close>; since \<open>bytes\<close> is an integer it holds exactly when \<open>10 * bytes < 9 * iLocalFileSize\<close>.
  The comparison before it is between \<open>int32\<close> and \<open>uint32\<close>, hence unsigned.
\<close>

definition xing_plausible :: "bool \<Rightarrow> int \<Rightarrow> int \<Rightarrow> int \<Rightarrow> bool option" where
  "xing_plausible has_frames frames bytes iLocalFileSize = do {
     frames_fit \<leftarrow> (if has_frames then do {
        bytesperframe \<leftarrow> int32_div bytes frames;
        Some (\<not> (bytesperframe < 52 \<or> bytesperframe > 1440)) } else Some True);
     Some (frames_fit \<and> (iLocalFileSize \<noteq> 0 \<longrightarrow>
       \<not> to_u32 bytes > iLocalFileSize \<and> \<not> 10 * bytes < 9 * iLocalFileSize)) }"

text \<open>
  The steps of \<open>DecodeXINGHeader\<close>, each with the position \<open>p\<close> of \<open>pBuf\<close>: the number of frames, the
  number of bytes with the checks, and the rest.
\<close>

definition xing_frames_field :: "byte_order \<Rightarrow> u8 list \<Rightarrow> int \<Rightarrow> xing_header \<Rightarrow> (xing_header \<times> nat) option" where
  "xing_frames_field bo bs flags X =
     (if has_flag flags FRAMES_FLAG then do { frames \<leftarrow> read_s32 bo bs 8; Some (X\<lparr>xing_frames := frames\<rparr>, 12) }
      else Some (X, 8))"

definition xing_bytes_field ::
  "byte_order \<Rightarrow> int \<Rightarrow> u8 list \<Rightarrow> int \<Rightarrow> xing_header \<Rightarrow> nat \<Rightarrow> (xing_header \<times> nat \<times> int) option" where
  "xing_bytes_field bo iLocalFileSize bs flags X p =
     (if has_flag flags BYTES_FLAG then do {
         bytes \<leftarrow> read_s32 bo bs p;
         ok \<leftarrow> xing_plausible (has_flag flags FRAMES_FLAG) (xing_frames X) bytes iLocalFileSize;
         Some (if ok then (X\<lparr>xing_bytes := bytes\<rparr>, p + 4, flags)
               else (X\<lparr>xing_bytes := bytes, xing_flags := 0\<rparr>, p + 4, 0)) }
      else Some (X, p, flags))"

definition xing_tail :: "byte_order \<Rightarrow> int \<Rightarrow> u8 list \<Rightarrow> xing_header \<Rightarrow> nat \<Rightarrow> int \<Rightarrow> (xing_header \<times> int) option" where
  "xing_tail bo iNumberOfFrames bs X p head_flags = do {
     (X, p) \<leftarrow> (if has_flag head_flags TOC_FLAG
       then if p + 100 \<le> length bs
         then Some (X\<lparr>xing_TOC := List.map uint (take 100 (drop p bs))\<rparr>, p + 100) else None
       else Some (X, p));
     X \<leftarrow> (if has_flag head_flags VBR_SCALE_FLAG then do {
         s \<leftarrow> read_s32 bo bs p; Some (X\<lparr>vbr_scale := s\<rparr>) }
       else Some (X\<lparr>vbr_scale := 0\<rparr>));
     Some (X, if has_flag head_flags FRAMES_FLAG then xing_frames X else iNumberOfFrames)
   }"

text \<open>The header and the number of frames of the parser.\<close>

definition DecodeXINGHeader ::
  "byte_order \<Rightarrow> int \<Rightarrow> int \<Rightarrow> u8 list \<Rightarrow> xing_header \<Rightarrow> mp3_header \<Rightarrow> (xing_header \<times> int) option" where
  "DecodeXINGHeader bo iLocalFileSize iNumberOfFrames XingBuffer X hdrInfo = do {
     flags \<leftarrow> read_s32 bo XingBuffer 4;
     (X, p) \<leftarrow> xing_frames_field bo XingBuffer flags (X\<lparr>xing_hId := layerID hdrInfo, xing_flags := flags\<rparr>);
     (X, p, head_flags) \<leftarrow> xing_bytes_field bo iLocalFileSize XingBuffer flags X p;
     xing_tail bo iNumberOfFrames XingBuffer X p head_flags
   }"

section \<open>The VBRI header\<close>

record vbri_header =
  vbri_hId :: int
  vId :: int
  delay :: int
  vbri_bytes :: int
  vbri_frames :: int
  entriesTOC :: int
  scale :: int
  sTableEntry :: int
  fTableEntry :: int
  vbri_TOC :: "int list"
  vbri_sampleRate :: int

definition zero_vbri :: vbri_header where
  "zero_vbri = \<lparr>vbri_hId = 0, vId = 0, delay = 0, vbri_bytes = 0, vbri_frames = 0, entriesTOC = 0, scale = 0,
     sTableEntry = 0, fTableEntry = 0, vbri_TOC = [], vbri_sampleRate = 0\<rparr>"

definition int32_mult :: "int \<Rightarrow> int \<Rightarrow> int option" where
  "int32_mult a b = (if - 2147483648 \<le> a * b \<and> a * b < 2147483648 then Some (a * b) else None)"

function read_buffer_loop :: "u8 list \<Rightarrow> nat \<Rightarrow> nat \<Rightarrow> nat \<Rightarrow> u32 \<Rightarrow> u32 option" where
  "read_buffer_loop pBuf2 pos len i number =
     (if i < len then
        if 32 \<le> 8 * (len - 1 - i) then None
        else do {
          b \<leftarrow> rd pBuf2 (pos + i);
          read_buffer_loop pBuf2 pos len (i + 1) (number OR push_bit (8 * (len - 1 - i)) (ucast b))
        }
      else Some number)"
  by pat_completeness auto
termination by (relation "measure (\<lambda>(_, _, len, i, _). len - i)") auto

declare read_buffer_loop.simps [simp del]

definition ReadBuffer :: "u8 list \<Rightarrow> nat \<Rightarrow> nat \<Rightarrow> (u32 \<times> nat) option" where
  "ReadBuffer pBuf2 len pos = do { n \<leftarrow> read_buffer_loop pBuf2 pos len 0 0; Some (n, pos + len) }"

text \<open>The loop over the table: \<open>n\<close> entries still to read.\<close>

fun vbri_toc_loop :: "u8 list \<Rightarrow> nat \<Rightarrow> int \<Rightarrow> nat \<Rightarrow> nat \<Rightarrow> int list option" where
  "vbri_toc_loop pBuf len scl 0 pos = Some []"
| "vbri_toc_loop pBuf len scl (Suc n) pos = do {
     (v, pos) \<leftarrow> ReadBuffer pBuf len pos;
     rest \<leftarrow> vbri_toc_loop pBuf len scl n pos;
     Some (to_s32 (to_u32 (uint v * scl)) # rest) }"

text \<open>The header and the number of frames of the parser.\<close>

definition DecodeVBRIHeader :: "byte_order \<Rightarrow> u8 list \<Rightarrow> vbri_header \<Rightarrow> mp3_header \<Rightarrow> (vbri_header \<times> int) option" where
  "DecodeVBRIHeader bo VbriBuffer V hdr = do {
     sr \<leftarrow> rdi srIndexTable (frameVer hdr * 4 + srIndex hdr);
     nbytes \<leftarrow> read_s32 bo VbriBuffer 10;
     nframes \<leftarrow> read_s32 bo VbriBuffer 14;
     e \<leftarrow> swap16_at bo VbriBuffer 18;
     c \<leftarrow> swap16_at bo VbriBuffer 20;
     s \<leftarrow> swap16_at bo VbriBuffer 22;
     f \<leftarrow> swap16_at bo VbriBuffer 24;
     tableLength \<leftarrow> int32_mult (uint e) (uint s);
     toc \<leftarrow> vbri_toc_loop (drop 26 VbriBuffer) (unat s) (uint c) (unat e + 1) 0;
     Some (V\<lparr>vbri_hId := layerID hdr, vbri_sampleRate := sr, vbri_bytes := nbytes, vbri_frames := nframes,
             entriesTOC := uint e, scale := uint c, sTableEntry := uint s, fTableEntry := uint f,
             vbri_TOC := toc\<rparr>, nframes)
   }"

definition CalculateBufferSizeForHeader :: "byte_order \<Rightarrow> u8 list \<Rightarrow> int option" where
  "CalculateBufferSizeForHeader bo VbriHead = do {
     e \<leftarrow> swap16_at bo VbriHead 18;
     s \<leftarrow> swap16_at bo VbriHead 22;
     tableLength \<leftarrow> int32_mult (uint e) (uint s);
     if tableLength + 26 < 2147483648 then Some (tableLength + 26) else None }"

section \<open>Sizes for the decoder\<close>

datatype mp3_type = EXINGType | EVBRIType | ECBRType | EVBRType | EINVALIDType

definition KMAX_MP3FRAME_LENGTH_IN_BYTES :: int where
  "KMAX_MP3FRAME_LENGTH_IN_BYTES = 2884"

text \<open>
  \<open>GetMP3FileHeader\<close>: the frame length is computed as in \<open>DecodeMP3Header\<close>, with a padding byte and the
  highest bit rate.
\<close>

definition GetMP3FileHeader :: "mp3_type \<Rightarrow> mp3_header \<Rightarrow> mp3_config \<Rightarrow> mp3_config option" where
  "GetMP3FileHeader mp3Type h c =
     (if mp3Type = EXINGType \<or> mp3Type = EVBRIType then do {
        b \<leftarrow> (if frameVer h = 3 then rdi2 brIndexTableV1 (layerID h) 14 else rdi2 brIndexTableV2 (layerID h) 14);
        let bitRate = to_u32 (1000 * b);
        let samplingRate = to_u32 (SamplingRate c);
        if samplingRate = 0 then None
        else Some (c\<lparr>BitRate := 1000 * b,
          FrameLengthInBytes := to_s32 (frame_length (h\<lparr>padBit := 1\<rparr>) bitRate samplingRate),
          FrameSizeUnComp := samples_of_frame h\<rparr>)
      } else Some c)"

definition GetMaximumDecodeBufferSize :: "mp3_header \<Rightarrow> int option" where
  "GetMaximumDecodeBufferSize h = do {
     maxBitRate \<leftarrow> (if frameVer h = 3 then rdi2 brIndexTableV1 (layerID h) 14 else rdi2 brIndexTableV2 (layerID h) 14);
     samplesPerFrame \<leftarrow> rdi2 spfIndexTable (frameVer h) (layerID h);
     minSamplingRate \<leftarrow> rdi srIndexTable (frameVer h * 4 + 2);
     Some (if minSamplingRate \<noteq> 0
       then to_u32 (125 * (maxBitRate * samplesPerFrame)) div minSamplingRate
       else KMAX_MP3FRAME_LENGTH_IN_BYTES) }"

section \<open>What the XING header says\<close>

lemma has_flag_0 [simp]: "\<not> has_flag 0 f"
  by (simp add: has_flag_def)

definition s32_at :: "byte_order \<Rightarrow> u8 list \<Rightarrow> nat \<Rightarrow> int" where
  "s32_at bo bs i = to_s32 (uint (SwapFileToHostByteOrderInt32 bo (bs ! i) (bs ! (i + 1)) (bs ! (i + 2)) (bs ! (i + 3))))"

lemma read_s32 [mem_simps]: "i + 4 \<le> length bs \<Longrightarrow> read_s32 bo bs i = Some (s32_at bo bs i)"
  by (simp add: read_s32_def s32_at_def swap32_at_def rd_def)

lemma s32_at_range: "- 2147483648 \<le> s32_at bo bs i" "s32_at bo bs i < 2147483648"
  by (simp_all add: s32_at_def to_s32_range)

definition xing_divides_by_zero :: "byte_order \<Rightarrow> u8 list \<Rightarrow> bool" where
  "xing_divides_by_zero bo bs \<longleftrightarrow> has_flag (s32_at bo bs 4) FRAMES_FLAG \<and> has_flag (s32_at bo bs 4) BYTES_FLAG \<and>
     (s32_at bo bs 8 = 0 \<or> s32_at bo bs 12 = - 2147483648 \<and> s32_at bo bs 8 = - 1)"

definition xing_consistent :: "int \<Rightarrow> xing_header \<Rightarrow> bool" where
  "xing_consistent L X \<longleftrightarrow> (has_flag (xing_flags X) BYTES_FLAG \<longrightarrow>
     (has_flag (xing_flags X) FRAMES_FLAG \<longrightarrow>
        52 \<le> xing_bytes X sdiv xing_frames X \<and> xing_bytes X sdiv xing_frames X \<le> 1440) \<and>
     (L \<noteq> 0 \<longrightarrow> 9 * L \<le> 10 * xing_bytes X \<and> xing_bytes X \<le> L))"

lemma uint_byte: "0 \<le> uint (b :: u8)" "uint b < 256"
  using uint_lt2p [of b] by simp_all

definition xing_ok :: "bool \<Rightarrow> int \<Rightarrow> int \<Rightarrow> int \<Rightarrow> bool" where
  "xing_ok has_frames frames bytes L \<longleftrightarrow>
     (has_frames \<longrightarrow> 52 \<le> bytes sdiv frames \<and> bytes sdiv frames \<le> 1440) \<and>
     (L \<noteq> 0 \<longrightarrow> 9 * L \<le> 10 * bytes \<and> bytes \<le> L)"

lemma xing_plausible_eq:
  assumes "- 2147483648 \<le> bytes" "bytes < 2147483648" "0 \<le> L"
  shows "xing_plausible has_frames frames bytes L =
    (if has_frames \<and> (frames = 0 \<or> bytes = - 2147483648 \<and> frames = - 1) then None
     else Some (xing_ok has_frames frames bytes L))"
proof -
  have "9 * L \<le> 10 * bytes \<Longrightarrow> to_u32 bytes = bytes" using assms by (intro to_u32_id) simp_all
  then have "L \<noteq> 0 \<longrightarrow> (\<not> L < to_u32 bytes \<and> \<not> 10 * bytes < 9 * L) = (9 * L \<le> 10 * bytes \<and> bytes \<le> L)"
    by (auto simp: not_less)
  then show ?thesis by (auto simp: xing_plausible_def int32_div_def xing_ok_def)
qed

definition toc_ok :: "xing_header \<Rightarrow> bool" where
  "toc_ok X \<longleftrightarrow> length (xing_TOC X) = 100 \<and> (\<forall>v \<in> set (xing_TOC X). 0 \<le> v \<and> v < 256)"

lemma xing_tail_ok:
  assumes "p + 104 \<le> length bs" "toc_ok X"
  obtains X' where "xing_tail bo n bs X p f = Some (X', if has_flag f FRAMES_FLAG then xing_frames X' else n)"
    "toc_ok X'" "xing_flags X' = xing_flags X" "xing_bytes X' = xing_bytes X" "xing_frames X' = xing_frames X"
proof (cases "has_flag f TOC_FLAG")
  case True
  have "toc_ok (X\<lparr>xing_TOC := List.map uint (take 100 (drop p bs))\<rparr>)"
    using assms(1) uint_byte by (auto simp: toc_ok_def)
  then show thesis using True assms(1)
    by (cases "has_flag f VBR_SCALE_FLAG") (auto simp: xing_tail_def mem_simps toc_ok_def intro!: that)
next
  case False
  then show thesis using assms
    by (cases "has_flag f VBR_SCALE_FLAG") (auto simp: xing_tail_def mem_simps toc_ok_def intro!: that)
qed

lemma xing_bytes_field_ok:
  assumes "p + 4 \<le> length bs" "0 \<le> L" "toc_ok X" "xing_flags X = f" "p \<le> 12"
    and fr: "fr = has_flag f FRAMES_FLAG"
  shows "case xing_bytes_field bo L bs f X p of
      None \<Rightarrow> has_flag f BYTES_FLAG \<and> fr \<and>
        (xing_frames X = 0 \<or> s32_at bo bs p = - 2147483648 \<and> xing_frames X = - 1)
    | Some (X', p', f') \<Rightarrow> \<not> (has_flag f BYTES_FLAG \<and> fr \<and>
        (xing_frames X = 0 \<or> s32_at bo bs p = - 2147483648 \<and> xing_frames X = - 1)) \<and>
        toc_ok X' \<and> xing_flags X' = f' \<and> f' \<in> {0, f} \<and> p' \<le> 16 \<and> xing_consistent L X'"
proof (cases "has_flag f BYTES_FLAG")
  case True
  have toc: "toc_ok (X\<lparr>xing_bytes := b\<rparr>)" "toc_ok (X\<lparr>xing_bytes := b, xing_flags := 0\<rparr>)" for b
    using assms(3) by (simp_all add: toc_ok_def)
  show ?thesis
    using assms(1,4,5) True toc
    by (simp add: xing_bytes_field_def mem_simps xing_plausible_eq s32_at_range assms(2) fr)
      (auto simp: xing_consistent_def xing_ok_def)
next
  case False
  then show ?thesis using assms(3-5) by (simp add: xing_bytes_field_def xing_consistent_def)
qed

text \<open>
  C33. On the 128 bytes that the parser gives it, \<open>DecodeXINGHeader\<close> stays inside the buffer. It divides
  by zero (or overflows) exactly when the header has both counts and the number of frames is zero (or
  the quotient is not representable). Otherwise the flags are kept or cleared; a kept byte count
  agrees with the file size within ten percent and, when there is a frame count, gives 52 to 1440
  bytes per frame; the table holds 100 bytes; and the parser takes over the number of frames.
\<close>

theorem DecodeXINGHeader_plausible:
  assumes "120 \<le> length bs" "toc_ok X" "0 \<le> L"
  shows "case DecodeXINGHeader bo L n bs X h of
      None \<Rightarrow> xing_divides_by_zero bo bs
    | Some (X', n') \<Rightarrow> \<not> xing_divides_by_zero bo bs \<and> xing_flags X' \<in> {0, s32_at bo bs 4} \<and> xing_consistent L X' \<and>
        toc_ok X' \<and> n' = (if has_flag (xing_flags X') FRAMES_FLAG then xing_frames X' else n)"
proof -
  let ?f = "s32_at bo bs 4"
  let ?X = "X\<lparr>xing_hId := layerID h, xing_flags := ?f\<rparr>"
  obtain X1 p1 where 1: "xing_frames_field bo bs ?f ?X = Some (X1, p1)" "toc_ok X1" "xing_flags X1 = ?f"
    "has_flag ?f FRAMES_FLAG \<longrightarrow> xing_frames X1 = s32_at bo bs 8 \<and> p1 = 12" "p1 \<le> 12"
    using assms(1,2) by (cases "has_flag ?f FRAMES_FLAG") (simp_all add: xing_frames_field_def mem_simps toc_ok_def)
  have p1: "p1 + 4 \<le> length bs" using 1(5) assms(1) by simp
  note 2 = xing_bytes_field_ok [OF p1 assms(3) 1(2,3,5) refl, of bo]
  have 3: "DecodeXINGHeader bo L n bs X h =
      do { (X, p, head_flags) \<leftarrow> xing_bytes_field bo L bs ?f X1 p1; xing_tail bo n bs X p head_flags }"
    using assms(1) 1(1) by (simp add: DecodeXINGHeader_def mem_simps)
  show ?thesis
  proof (cases "xing_bytes_field bo L bs ?f X1 p1")
    case None
    then show ?thesis using 1(4) 2 by (auto simp: 3 xing_divides_by_zero_def)
  next
    case (Some r)
    obtain X2 p2 f2 where r: "r = (X2, p2, f2)" by (cases r)
    then have 4: "\<not> xing_divides_by_zero bo bs" "toc_ok X2" "xing_flags X2 = f2" "f2 \<in> {0, ?f}" "p2 \<le> 16" "xing_consistent L X2"
      using 1(4) 2 Some by (auto simp: xing_divides_by_zero_def)
    have p2: "p2 + 104 \<le> length bs" using 4(5) assms(1) by simp
    show ?thesis
      by (rule xing_tail_ok [OF p2 4(2), of bo n f2]) (use 4 in \<open>simp add: 3 Some r xing_consistent_def\<close>)
  qed
qed

theorem DecodeXINGHeader_plausible_witness:
  "case DecodeXINGHeader LITTLE_ENDIAN 500 0 (replicate 120 0) zero_xing zero_header of
      None \<Rightarrow> xing_divides_by_zero LITTLE_ENDIAN (replicate 120 0)
    | Some (X', n') \<Rightarrow> \<not> xing_divides_by_zero LITTLE_ENDIAN (replicate 120 0) \<and> xing_flags X' \<in> {0, s32_at LITTLE_ENDIAN (replicate 120 0) 4} \<and>
        xing_consistent 500 X' \<and> toc_ok X' \<and> n' = (if has_flag (xing_flags X') FRAMES_FLAG then xing_frames X' else 0)"
  by (rule DecodeXINGHeader_plausible) (simp_all add: toc_ok_def zero_xing_def)

section \<open>What the VBRI header says\<close>

lemma read_buffer_loop_val:
  assumes "len \<le> 4" "i \<le> len" "pos + len \<le> length bs"
  shows "read_buffer_loop bs pos len i (push_bit (8 * (len - i)) m) =
    Some (foldl shift_in m (take (len - i) (drop (pos + i) bs)))"
  using assms(2)
proof (induction "len - i" arbitrary: i m)
  case 0
  then show ?case by (simp add: read_buffer_loop.simps)
next
  case (Suc k)
  then have i: "i < len" "len - i = Suc (len - Suc i)" "k = len - (i + 1)" "i + 1 \<le> len" by simp_all
  have sum: "8 * (len - i) = 8 * (len - Suc i) + 8" using i(2) by simp
  have small: "\<not> 4 \<le> len - Suc i" using i(1) assms(1) by linarith
  have "push_bit (8 * (len - i)) m OR push_bit (8 * (len - Suc i)) (ucast (bs ! (pos + i))) =
      push_bit (8 * (len - Suc i)) (shift_in m (bs ! (pos + i)))"
    unfolding shift_in_def push_bit_or push_bit_push_bit sum by simp
  then have "read_buffer_loop bs pos len i (push_bit (8 * (len - i)) m) =
      read_buffer_loop bs pos len (i + 1) (push_bit (8 * (len - (i + 1))) (shift_in m (bs ! (pos + i))))"
    using i(1) assms small by (subst read_buffer_loop.simps) (simp add: rd_def)
  also have "\<dots> = Some (foldl shift_in (shift_in m (bs ! (pos + i))) (take (len - (i + 1)) (drop (pos + (i + 1)) bs)))"
    by (rule Suc.hyps(1) [OF i(3,4)])
  also have "\<dots> = Some (foldl shift_in m (take (len - i) (drop (pos + i) bs)))"
    using i(1) assms(3) by (simp add: i(2) Cons_nth_drop_Suc [symmetric] take_Suc_conv_app_nth)
  finally show ?case .
qed

lemma ReadBuffer_val:
  assumes "len \<le> 4" "pos + len \<le> length bs"
  obtains w where "ReadBuffer bs len pos = Some (w, pos + len)" "uint w = int (be_val (take len (drop pos bs)))"
proof -
  let ?w = "foldl shift_in 0 (take len (drop pos bs))"
  have "ReadBuffer bs len pos = Some (?w, pos + len)"
    using read_buffer_loop_val [OF assms(1) _ assms(2), of 0 0] by (simp add: ReadBuffer_def)
  moreover have "unat ?w = be_val (take len (drop pos bs))"
    using assms(1) by (intro unat_shift_ins) simp
  then have "uint ?w = int (be_val (take len (drop pos bs)))" by (simp add: uint_nat)
  ultimately show thesis by (rule that)
qed

lemma ReadBuffer_long: "4 < len \<Longrightarrow> ReadBuffer bs len pos = None"
proof -
  assume l: "4 < len"
  then have "32 \<le> 8 * (len - 1 - 0)" "0 < len" by simp_all
  then have "read_buffer_loop bs pos len 0 0 = None" by (subst read_buffer_loop.simps) presburger
  then show ?thesis by (simp add: ReadBuffer_def)
qed

definition vbri_entry :: "u8 list \<Rightarrow> nat \<Rightarrow> int \<Rightarrow> nat \<Rightarrow> int" where
  "vbri_entry bs len scl p = to_s32 (int (be_val (take len (drop p bs))) * scl)"

lemma vbri_toc_val:
  "len \<le> 4 \<Longrightarrow> pos + n * len \<le> length bs \<Longrightarrow>
    vbri_toc_loop bs len scl n pos = Some (List.map (\<lambda>k. vbri_entry bs len scl (pos + k * len)) [0..<n])"
proof (induction n arbitrary: pos)
  case (Suc n)
  have room: "pos + len \<le> length bs" using Suc.prems(2) by simp
  obtain w where w: "ReadBuffer bs len pos = Some (w, pos + len)" "uint w = int (be_val (take len (drop pos bs)))"
    by (rule ReadBuffer_val [OF Suc.prems(1) room])
  have "vbri_toc_loop bs len scl n (pos + len) =
      Some (List.map (\<lambda>k. vbri_entry bs len scl (pos + len + k * len)) [0..<n])"
    using Suc.prems by (intro Suc.IH) (simp_all add: ac_simps)
  then show ?case
    by (simp add: w vbri_entry_def map_Suc_upt [symmetric] upt_conv_Cons comp_def ac_simps del: upt_Suc)
qed simp

text \<open>
  The caller reads \<open>e * s + 30\<close> bytes from the VBRI tag on, for \<open>e\<close> entries of \<open>s\<close> bytes.
  \<open>DecodeVBRIHeader\<close> reads \<open>e + 1\<close> entries: that is inside those bytes, with the table as big-endian
  numbers times the scale, exactly when an entry has at most four bytes; a larger entry size, which
  no check refuses, makes it shift by 32 or more (and read past the buffer).
\<close>

theorem DecodeVBRIHeader_reads_inside:
  assumes "length bs = e * s + 30" "swap16_at bo bs 18 = Some we" "swap16_at bo bs 22 = Some ws" "swap16_at bo bs 20 = Some wc"
    and "e = unat we" "s = unat ws" "e * s < 2147483648" "header_ok h"
  shows "if s \<le> 4 then map_option (vbri_TOC \<circ> fst) (DecodeVBRIHeader bo bs V h) =
      Some (List.map (\<lambda>k. vbri_entry bs s (uint wc) (26 + k * s)) [0..<e + 1])
    else DecodeVBRIHeader bo bs V h = None"
proof -
  have len: "30 \<le> length bs" using assms(1) by simp
  obtain sr where sr: "rdi srIndexTable (frameVer h * 4 + srIndex h) = Some sr"
    by (rule sampling_rate_ok [OF assms(8)])
  obtain wf where wf: "swap16_at bo bs 24 = Some wf" using len by (simp add: swap16_at_def rd_def)
  have prod: "int32_mult (uint we) (uint ws) = Some (int (e * s))"
  proof -
    have "- 2147483648 \<le> int (e * s)" "int (e * s) < 2147483648" using assms(7) by linarith+
    moreover have "uint we * uint ws = int (e * s)" by (simp add: assms(5,6))
    ultimately show ?thesis by (simp add: int32_mult_def)
  qed
  have read: "read_s32 bo bs 10 = Some (s32_at bo bs 10)" "read_s32 bo bs 14 = Some (s32_at bo bs 14)"
    using len by (simp_all add: read_s32)
  show ?thesis
  proof (cases "s \<le> 4")
    case True
    then have "0 + (e + 1) * s \<le> length (drop 26 bs)" using assms(1) by simp
    note toc = vbri_toc_val [OF True this, of "uint wc"]
    have "vbri_entry (drop 26 bs) s (uint wc) (0 + k * s) = vbri_entry bs s (uint wc) (26 + k * s)" for k
      by (simp add: vbri_entry_def add.commute)
    then show ?thesis
      using True toc by (simp add: DecodeVBRIHeader_def sr wf prod read assms(2-4) assms(5,6) [symmetric] del: upt_Suc vbri_toc_loop.simps)
  next
    case False
    then show ?thesis by (simp add: DecodeVBRIHeader_def sr wf prod read assms(2-4) assms(5,6) [symmetric] ReadBuffer_long)
  qed
qed

text \<open>A tag of three entries of two bytes and scale 3.\<close>

definition demo_vbri :: "u8 list" where
  "demo_vbri = [86, 66, 82, 73, 0, 1, 0, 0, 0, 0, 0, 0, 4, 0, 0, 0, 0, 9, 0, 2, 0, 3, 0, 2, 0, 1, 1, 0, 0, 7, 0, 8, 5, 5]"

theorem DecodeVBRIHeader_reads_inside_witness:
  "map_option (vbri_TOC \<circ> fst) (DecodeVBRIHeader LITTLE_ENDIAN demo_vbri zero_vbri zero_header) =
    Some (List.map (\<lambda>k. vbri_entry demo_vbri 2 3 (26 + k * 2)) [0..<2 + 1])"
proof -
  have len: "length demo_vbri = 2 * 2 + 30" by (simp add: demo_vbri_def)
  have words: "swap16_at LITTLE_ENDIAN demo_vbri 18 = Some 2" "swap16_at LITTLE_ENDIAN demo_vbri 22 = Some 2" "swap16_at LITTLE_ENDIAN demo_vbri 20 = Some 3"
    by (simp_all add: demo_vbri_def swap16_at_def rd_def swap_little_endian)
  have two: "(2 :: nat) = unat (2 :: u16)" "(2 :: nat) \<le> 4" "(2 :: nat) * 2 < 2147483648" by simp_all
  have "uint (3 :: u16) = 3" by simp
  then show ?thesis
    using DecodeVBRIHeader_reads_inside [OF len words two(1,1,3) zero_header_ok, of zero_vbri]
    unfolding if_P [OF two(2)] by (simp only:)
qed

section \<open>The sizes announced to the decoder\<close>

lemma samples_layer3: "layerID i = 1 \<Longrightarrow> samples_of_frame i = (if frameVer i = 3 then 1152 else 576)"
  by (simp add: samples_of_frame_def)

lemma buffer_size_layer3:
  assumes "layerID h = 1" "frameVer h \<in> {0, 2, 3}"
  shows "GetMaximumDecodeBufferSize h = Some (if frameVer h = 2 then 720 else 1440)"
  using assms by (auto simp: GetMaximumDecodeBufferSize_def rdi2_def rdi_def rd_def mp3_tables to_u32_def)

lemma decode_length_layer3:
  assumes "header_ok i" "layerID i = 1" "decode_header i = Some (True, c)"
  obtains b s where "0 < b" "SamplingRate c = s" "0 < s" "b \<le> (if frameVer i = 3 then 320000 else 160000)"
    "FrameLengthInBytes c = samples_of_frame i div 8 * b div s + padBit i"
    "(if frameVer i = 3 then 32000 else if frameVer i = 2 then 16000 else 8000) \<le> s" "frameVer i \<in> {0, 2, 3}"
    "8000 \<le> s" "s \<le> 48000"
proof -
  obtain b s where d: "bit_rate i = Some b" "0 < b" "b \<le> 448000" "SamplingRate c = s"
    "FrameLengthInBytes c = frame_length i b s"
    "frameVer i = 3 \<and> s \<in> {44100, 48000, 32000} \<or> frameVer i = 2 \<and> s \<in> {22050, 24000, 16000} \<or>
     frameVer i = 0 \<and> s \<in> {11025, 12000, 8000}"
    by (rule decode_header_True [OF assms(1,3)])
  have s: "8000 \<le> s" "0 < s" "s \<le> 48000" using d(6) by auto
  have len: "FrameLengthInBytes c = samples_of_frame i div 8 * b div s + padBit i"
    using d(2,3,5) s assms(1) by (simp add: frame_length_exact assms(2))
  have "b \<le> (if frameVer i = 3 then 320000 else 160000)"
    using layer3_bit_rate [OF assms(1,2) d(1)] d(2) by auto
  then show thesis using that [OF d(2,4) s(2) _ len] d(6) s by auto
qed

text \<open>
  For an accepted header the announced decode buffer of 720 (MPEG 2) or 1440 bytes holds every
  frame of that MPEG version, but for the padding byte: a padded frame at the highest bit rate and the
  lowest sampling rate is one byte longer. What \<open>GetMP3FileHeader\<close> announces for a variable bit rate
  file counts that byte, and bounds every frame of the same sampling rate.
\<close>

theorem decode_buffer_bounds:
  assumes "GetMP3Header h0 = (True, i0)" "GetMP3Header h = (True, i)" "frameVer i = frameVer i0"
    and "decode_header i0 = Some (True, c0)" "decode_header i = Some (True, c)"
  shows "\<exists>n. GetMaximumDecodeBufferSize i0 = Some n \<and> n \<in> {720, 1440} \<and> FrameLengthInBytes c \<le> n + padBit i \<and>
    (SamplingRate c = SamplingRate c0 \<longrightarrow> (\<exists>c'. GetMP3FileHeader EXINGType i0 c0 = Some c' \<and>
       FrameLengthInBytes c \<le> FrameLengthInBytes c'))"
proof -
  have i: "header_ok i" "layerID i = 1" and i0: "header_ok i0" "layerID i0 = 1"
    using GetMP3Header_accepts [OF assms(1)] GetMP3Header_accepts [OF assms(2)] by simp_all
  obtain b s where d: "0 < b" "SamplingRate c = s" "0 < s" "b \<le> (if frameVer i = 3 then 320000 else 160000)"
    "FrameLengthInBytes c = samples_of_frame i div 8 * b div s + padBit i"
    "(if frameVer i = 3 then 32000 else if frameVer i = 2 then 16000 else 8000) \<le> s" "frameVer i \<in> {0, 2, 3}"
    by (rule decode_length_layer3 [OF i assms(5)]) (rule that, assumption+)
  have "\<exists>s0. SamplingRate c0 = s0 \<and> 0 < s0 \<and> 8000 \<le> s0 \<and> s0 \<le> 48000"
    by (rule decode_length_layer3 [OF i0 assms(4)]) simp
  then obtain s0 where d0: "SamplingRate c0 = s0" "0 < s0" "8000 \<le> s0" "s0 \<le> 48000" by blast
  let ?k = "samples_of_frame i div 8" and ?B = "if frameVer i = 3 then 320000 else 160000 :: int"
    and ?S = "if frameVer i = 3 then 32000 else if frameVer i = 2 then 16000 else 8000 :: int"
  let ?n = "if frameVer i0 = 2 then 720 else 1440 :: int"
  have pad: "0 \<le> padBit i" "padBit i \<le> 1" using i(1) by (auto simp: header_ok_def)
  have k: "0 \<le> ?k" "?k = (if frameVer i = 3 then 144 else 72)" using i(2) by (simp_all add: samples_layer3)
  have "?k * b div s \<le> ?k * ?B div ?S"
  proof -
    have "?k * b div s \<le> ?k * ?B div s" using d(3,4) k(1) by (intro zdiv_mono1 mult_left_mono) simp_all
    also have "\<dots> \<le> ?k * ?B div ?S" using d(6,7) k(1) by (intro zdiv_mono2) auto
    finally show ?thesis .
  qed
  also have "?k * ?B div ?S \<le> ?n" using assms(3) d(7) i(2) by (auto simp: samples_layer3)
  finally have 1: "FrameLengthInBytes c \<le> ?n + padBit i" unfolding d(5) by simp
  have 2: "GetMaximumDecodeBufferSize i0 = Some ?n"
    by (rule buffer_size_layer3) (use i0 d(7) assms(3) in auto)
  have 3: "\<exists>c'. GetMP3FileHeader EXINGType i0 c0 = Some c' \<and> FrameLengthInBytes c \<le> FrameLengthInBytes c'" if "s = s0"
  proof -
    have ok: "header_ok (i0\<lparr>padBit := 1\<rparr>)" using i0(1) by (simp add: header_ok_def)
    have ver: "frameVer i0 \<in> {0, 2, 3}" using d(7) assms(3) by simp
    have same: "samples_of_frame (i0\<lparr>padBit := 1\<rparr>) div 8 = ?k"
      using assms(3) i i0 by (simp add: samples_of_frame_def)
    have top: "(if frameVer i0 = 3 then rdi2 brIndexTableV1 (layerID i0) 14 else rdi2 brIndexTableV2 (layerID i0) 14) =
        Some (?B div 1000)" "1000 * (?B div 1000) = ?B"
      using i0(2) assms(3) by (simp_all add: rdi2_def rdi_def rd_def mp3_tables)
    have fl: "frame_length (i0\<lparr>padBit := 1\<rparr>) ?B s0 = ?k * ?B div s0 + 1"
      using d0(2,3) by (subst frame_length_exact [OF ok]) (simp_all add: same i0(2))
    have le: "?k * ?B div s0 \<le> 144 * 320000 div 8000"
    proof -
      have "?k * ?B div s0 \<le> 144 * 320000 div s0" using d0(2) k by (intro zdiv_mono1) auto
      also have "\<dots> \<le> 144 * 320000 div 8000" using d0(2,3) by (intro zdiv_mono2) auto
      finally show ?thesis .
    qed
    have nn: "0 \<le> ?k * ?B div s0" using d0(2) k(1) by (intro pos_imp_zdiv_nonneg_iff [THEN iffD2]) auto
    have b: "?k * b div s0 \<le> ?k * ?B div s0" using d0(2) d(4) k(1) by (intro zdiv_mono1 mult_left_mono) simp_all
    have u: "to_u32 (1000 * (?B div 1000)) = ?B" "to_u32 (SamplingRate c0) = s0"
      using d0(1,3,4) by (simp_all add: in_range)
    have "GetMP3FileHeader EXINGType i0 c0 = Some (c0\<lparr>BitRate := 1000 * (?B div 1000),
        FrameLengthInBytes := to_s32 (?k * ?B div s0 + 1), FrameSizeUnComp := samples_of_frame i0\<rparr>)"
      unfolding GetMP3FileHeader_def top(1)
      by (cases "frameVer i = 3") (use d0 fl in \<open>simp_all add: Let_def in_range\<close>)
    moreover have "FrameLengthInBytes c \<le> to_s32 (?k * ?B div s0 + 1)"
      using le nn b pad by (subst to_s32_id) (simp_all add: d(5) that)
    ultimately show ?thesis by simp
  qed
  have n: "?n \<in> {720, 1440}" by simp
  show ?thesis
  proof (intro exI [of _ ?n] conjI impI)
    show "GetMaximumDecodeBufferSize i0 = Some ?n" by (rule 2)
    show "?n \<in> {720, 1440}" by (rule n)
    show "FrameLengthInBytes c \<le> ?n + padBit i" by (rule 1)
  qed (rule 3, simp add: d(2) d0(1))
qed

theorem decode_buffer_bounds_witness:
  "\<exists>i c. GetMP3Header 0xFFFBE8C0 = (True, i) \<and> decode_header i = Some (True, c) \<and>
    FrameLengthInBytes c = 1440 \<and> GetMaximumDecodeBufferSize i = Some 1440 \<and>
    (\<exists>c'. GetMP3FileHeader EXINGType i c = Some c' \<and> FrameLengthInBytes c \<le> FrameLengthInBytes c')"
proof -
  let ?i = "\<lparr>frameVer = 3, layerID = 1, crcFollows = 1, brIndex = 14, srIndex = 2, prvBit = 0, padBit = 0,
     chMode = 3, modeExtn = 0, frameSize = 0\<rparr>"
  have 1: "GetMP3Header 0xFFFBE8C0 = (True, ?i)"
    by (simp add: GetMP3Header_def Let_def frame_constants field_def in_range zero_header_def)
  have 2: "decode_header ?i = Some (True, \<lparr>SamplingRate = 32000, BitRate = 320000, FrameLengthInBytes = 1440,
      FrameSizeUnComp = 1152, NumberOfChannels = 1\<rparr>)"
    by (simp add: decode_header_def bit_rate_def rdi2_def rdi_def rd_def mp3_tables in_range frame_length_def
        samples_of_frame_def channels_of_def)
  have 3: "GetMaximumDecodeBufferSize ?i = Some 1440" by (simp add: buffer_size_layer3)
  show ?thesis using decode_buffer_bounds [OF 1 1 refl 2 2] 1 2 3 by auto
qed

end
