(* ===== verification/Mp3Sync.thy ===== *)
theory Mp3Sync
  imports Mp3Header PvFile
begin

text \<open>
  Finding the first frame (\<open>IsValidFrameHeader\<close> and \<open>mp3FindSync\<close> of \<open>pvmi/mp3parser.cpp\<close>): a sync
  word counts when the three frames after it, each found by the length of the one before, have the
  same sampling rate and number of channels.
\<close>

section \<open>IsValidFrameHeader\<close>

text \<open>The result, whether a CRC is present, and the file.\<close>

definition IsValidFrameHeader :: "byte_order \<Rightarrow> 'f file_ops \<Rightarrow> u8 list \<Rightarrow> 'f pvfile \<Rightarrow> (mp3_error \<times> bool \<times> 'f pvfile) option" where
  "IsValidFrameHeader bo io mp3Frame F = do {
     h \<leftarrow> swap32_at bo mp3Frame 0;
     let (ok, i) = GetMP3Header h;
     if \<not> ok then Some (MP3_FILE_HDR_READ_ERR, False, F)
     else do {
       (ok, c1) \<leftarrow> decode_header i;
       if \<not> ok then Some (MP3_FILE_HDR_READ_ERR, False, F)
       else do {
         let bCRCPresent = (crcFollows i = 0);
         let flength = FrameLengthInBytes c1;
         let (err, F1) = SeektoOffset io F flength SEEKCUR;
         if err \<noteq> MP3_SUCCESS then Some (err, bCRCPresent, F1)
         else do {
           let revSeek = 0 - flength;
           let (ok, bs, F2) = readByteData io 4 F1;
           if \<not> ok then Some (MP3_INSUFFICIENT_DATA, bCRCPresent, snd (SeektoOffset io F2 revSeek SEEKCUR))
           else do {
             h \<leftarrow> swap32_at bo bs 0;
             (_, c2) \<leftarrow> decode_header (snd (GetMP3Header h));
             let flength = FrameLengthInBytes c2;
             let (err, F3) = SeektoOffset io F2 (flength - 4) SEEKCUR;
             if err \<noteq> MP3_SUCCESS then Some (err, bCRCPresent, snd (SeektoOffset io F3 (revSeek - 4) SEEKCUR))
             else do {
               let revSeek = revSeek - flength;
               let (ok, bs, F4) = readByteData io 4 F3;
               if \<not> ok then Some (MP3_INSUFFICIENT_DATA, bCRCPresent, snd (SeektoOffset io F4 revSeek SEEKCUR))
               else do {
                 h \<leftarrow> swap32_at bo bs 0;
                 (_, c3) \<leftarrow> decode_header (snd (GetMP3Header h));
                 let flength = FrameLengthInBytes c3;
                 let (err, F5) = SeektoOffset io F4 (flength - 4) SEEKCUR;
                 if err \<noteq> MP3_SUCCESS then Some (err, bCRCPresent, snd (SeektoOffset io F5 (revSeek - 4) SEEKCUR))
                 else do {
                   let revSeek = revSeek - flength;
                   let (ok, bs, F6) = readByteData io 4 F5;
                   if \<not> ok then Some (MP3_INSUFFICIENT_DATA, bCRCPresent, snd (SeektoOffset io F6 revSeek SEEKCUR))
                   else do {
                     let revSeek = revSeek - 4;
                     h \<leftarrow> swap32_at bo bs 0;
                     (_, c4) \<leftarrow> decode_header (snd (GetMP3Header h));
                     let F7 = snd (SeektoOffset io F6 revSeek SEEKCUR);
                     if SamplingRate c1 \<noteq> SamplingRate c2 \<or> SamplingRate c3 \<noteq> SamplingRate c4 \<or>
                        SamplingRate c3 \<noteq> SamplingRate c1 then Some (MP3_FILE_HDR_READ_ERR, bCRCPresent, F7)
                     else if NumberOfChannels c1 \<noteq> NumberOfChannels c2 \<or> NumberOfChannels c3 \<noteq> NumberOfChannels c4 \<or>
                        NumberOfChannels c3 \<noteq> NumberOfChannels c1 then Some (MP3_FILE_HDR_READ_ERR, bCRCPresent, F7)
                     else Some (MP3_SUCCESS, bCRCPresent, F7)
                   }
                 }
               }
             }
           }
         }
       }
     }
   }"

definition IsValidFrame :: "byte_order \<Rightarrow> 'f file_ops \<Rightarrow> u8 list \<Rightarrow> 'f pvfile \<Rightarrow> (mp3_error \<times> 'f pvfile) option" where
  "IsValidFrame bo io pBuffer F = do { (err, _, F') \<leftarrow> IsValidFrameHeader bo io pBuffer F; Some (err, F') }"

section \<open>What it accepts\<close>

definition word_at :: "byte_order \<Rightarrow> u8 list \<Rightarrow> nat \<Rightarrow> u32" where
  "word_at bo d q = SwapFileToHostByteOrderInt32 bo (d ! q) (d ! (q + 1)) (d ! (q + 2)) (d ! (q + 3))"

definition config_of :: "u32 \<Rightarrow> mp3_config" where
  "config_of h = snd (the (decode_header (snd (GetMP3Header h))))"

definition frame_len :: "u32 \<Rightarrow> nat" where
  "frame_len h = nat (FrameLengthInBytes (config_of h))"

definition header_valid :: "u32 \<Rightarrow> bool" where
  "header_valid h \<longleftrightarrow> fst (GetMP3Header h) \<and> fst (the (decode_header (snd (GetMP3Header h))))"

definition same_audio :: "u32 \<Rightarrow> u32 \<Rightarrow> bool" where
  "same_audio h h' \<longleftrightarrow> SamplingRate (config_of h) = SamplingRate (config_of h') \<and>
     NumberOfChannels (config_of h) = NumberOfChannels (config_of h')"

text \<open>Four frames in a row: the header \<open>h\<close> at \<open>p\<close> and the three that its length and theirs lead to.\<close>

definition frame_chain :: "byte_order \<Rightarrow> u8 list \<Rightarrow> nat \<Rightarrow> u32 \<Rightarrow> bool" where
  "frame_chain bo d p h \<longleftrightarrow> header_valid h \<and>
     (let q1 = p + frame_len h; h1 = word_at bo d q1; q2 = q1 + frame_len h1; h2 = word_at bo d q2;
          q3 = q2 + frame_len h2; h3 = word_at bo d q3
      in q3 + 4 \<le> length d \<and> q2 + 4 \<le> length d \<and> q1 + 4 \<le> length d \<and>
         same_audio h h1 \<and> same_audio h h2 \<and> same_audio h h3)"

lemma decode_of_word: "\<exists>b. decode_header (snd (GetMP3Header h)) = Some (b, config_of h)"
  using decode_header_total [OF GetMP3Header_fields [of h]] by (auto simp: config_of_def)

lemma decode_False: "decode_header h = Some (False, c) \<Longrightarrow> c = zero_config"
  by (auto simp: decode_header_def Let_def split: if_splits Option.bind_splits)

lemma frame_len_bound:
  "0 \<le> FrameLengthInBytes (config_of h)" "FrameLengthInBytes (config_of h) \<le> 2305"
proof -
  obtain b where b: "decode_header (snd (GetMP3Header h)) = Some (b, config_of h)" using decode_of_word by blast
  have "0 \<le> FrameLengthInBytes (config_of h) \<and> FrameLengthInBytes (config_of h) \<le> 2305"
  proof (cases b)
    case True
    then have "decode_header (snd (GetMP3Header h)) = Some (True, config_of h)" using b by simp
    then show ?thesis
      by (rule decode_header_True [OF GetMP3Header_fields]) blast
  next
    case False
    have "config_of h = zero_config" by (rule decode_False) (use b False in simp)
    then show ?thesis by (simp add: zero_config_def)
  qed
  then show "0 \<le> FrameLengthInBytes (config_of h)" "FrameLengthInBytes (config_of h) \<le> 2305" by simp_all
qed

lemma frame_len_int: "int (frame_len h) = FrameLengthInBytes (config_of h)"
  using frame_len_bound(1) by (simp add: frame_len_def)

lemma swap32_word: "q + 4 \<le> length d \<Longrightarrow> swap32_at bo (take 4 (drop q d)) 0 = Some (word_at bo d q)"
  by (simp add: swap32_at_def word_at_def rd_def nth_append add.commute)

context byte_file
begin

text \<open>From behind the header \<open>h\<close> at \<open>q\<close> to the next one.\<close>

lemma hop_at:
  assumes "pos_at F d (q + 4)"
  obtains err F' where "SeektoOffset io F (FrameLengthInBytes (config_of h) - 4) SEEKCUR = (err, F')"
    "err = MP3_SUCCESS \<longleftrightarrow> q + frame_len h \<le> length d"
    "pos_at F' d (if q + frame_len h \<le> length d then q + frame_len h else q + 4)"
proof -
  note b = frame_len_bound [of h] atD [OF assms]
  let ?o = "FrameLengthInBytes (config_of h) - 4"
  obtain F' where F': "SeektoOffset io F ?o SEEKCUR =
      (if ?o \<le> int (length d) then if 0 \<le> int (q + frame_len h) \<and> int (q + frame_len h) \<le> int (length d)
         then MP3_SUCCESS else MP3_FILE_READ_ERR else MP3_INSUFFICIENT_DATA, F')"
    "pos_at F' d (if ?o \<le> int (length d) \<and> 0 \<le> int (q + frame_len h) \<and> int (q + frame_len h) \<le> int (length d)
       then nat (int (q + frame_len h)) else q + 4)"
    by (rule seek_to_offset_at [OF assms, of ?o SEEKCUR "int (q + frame_len h)"])
      (use b in \<open>simp_all add: seek_target_def frame_len_int\<close>)
  have le: "?o \<le> int (length d)" if "q + frame_len h \<le> length d"
    using that frame_len_int [of h] by linarith
  show thesis
    by (rule that [OF F'(1)]) (use F'(2) le in \<open>auto simp del: of_nat_add\<close>)
qed

lemma is_valid_at:
  assumes "pos_at F d p" "swap32_at bo frame 0 = Some h"
  obtains err crc F' where "IsValidFrameHeader bo io frame F = Some (err, crc, F')" "pos_at F' d p"
    "err = MP3_SUCCESS \<longleftrightarrow> frame_chain bo d p h" "err = MP3_INSUFFICIENT_DATA \<longrightarrow> header_valid h"
proof (cases "header_valid h")
  case False
  obtain b where b: "decode_header (snd (GetMP3Header h)) = Some (b, config_of h)" using decode_of_word by blast
  obtain ok i where g: "GetMP3Header h = (ok, i)" by fastforce
  have "IsValidFrameHeader bo io frame F = Some (MP3_FILE_HDR_READ_ERR, False, F)"
    using False b g assms(2) by (auto simp: IsValidFrameHeader_def header_valid_def)
  then show thesis using that assms(1) False by (simp add: frame_chain_def)
next
  case hv: True
  note that = that [OF _ _ _ impI [OF hv]]
  define q1 where "q1 = p + frame_len h"
  define h1 where "h1 = word_at bo d q1"
  define q2 where "q2 = q1 + frame_len h1"
  define h2 where "h2 = word_at bo d q2"
  define q3 where "q3 = q2 + frame_len h2"
  define h3 where "h3 = word_at bo d q3"
  have chain: "frame_chain bo d p h \<longleftrightarrow> q3 + 4 \<le> length d \<and> q2 + 4 \<le> length d \<and> q1 + 4 \<le> length d \<and>
      same_audio h h1 \<and> same_audio h h2 \<and> same_audio h h3"
    using hv unfolding frame_chain_def Let_def q1_def h1_def q2_def h2_def q3_def h3_def by simp
  obtain i where g: "GetMP3Header h = (True, i)" and d1: "decode_header i = Some (True, config_of h)"
    using hv decode_of_word [of h] by (cases "GetMP3Header h") (auto simp: header_valid_def)
  obtain b1 b2 b3 where d2: "decode_header (snd (GetMP3Header h1)) = Some (b1, config_of h1)"
    and d3: "decode_header (snd (GetMP3Header h2)) = Some (b2, config_of h2)"
    and d4: "decode_header (snd (GetMP3Header h3)) = Some (b3, config_of h3)"
    using decode_of_word by meson
  note fb = frame_len_bound [of h] frame_len_bound [of h1] frame_len_bound [of h2]
  note fi = frame_len_int [of h] frame_len_int [of h1] frame_len_int [of h2]
  note len = atD [OF assms(1)]
  let ?fl = "FrameLengthInBytes (config_of h)" and ?fl1 = "FrameLengthInBytes (config_of h1)"
    and ?fl2 = "FrameLengthInBytes (config_of h2)"
  note start = IsValidFrameHeader_def assms(2) g d1
  obtain F1 where F1: "SeektoOffset io F ?fl SEEKCUR =
      (if ?fl \<le> int (length d) then if 0 \<le> int q1 \<and> int q1 \<le> int (length d)
         then MP3_SUCCESS else MP3_FILE_READ_ERR else MP3_INSUFFICIENT_DATA, F1)"
    "pos_at F1 d (if ?fl \<le> int (length d) \<and> 0 \<le> int q1 \<and> int q1 \<le> int (length d) then nat (int q1) else p)"
    by (rule seek_to_offset_at [OF assms(1), of ?fl SEEKCUR "int q1"])
      (use fb len in \<open>simp_all add: seek_target_def q1_def fi\<close>)
  show thesis
  proof (cases "q1 \<le> length d")
    case False
    then show thesis
      using F1 by (intro that [of "if ?fl \<le> int (length d) then MP3_FILE_READ_ERR else MP3_INSUFFICIENT_DATA"
          "crcFollows i = 0" F1]) (auto simp: start chain)
  next
    case in1: True
    then have fle: "?fl \<le> int (length d)" using fi(1) by (simp add: q1_def)
    have S1: "SeektoOffset io F ?fl SEEKCUR = (MP3_SUCCESS, F1)" and at1: "pos_at F1 d q1"
      using F1 in1 fle by simp_all
    obtain F2 where F2: "readByteData io 4 F1 = (q1 + 4 \<le> length d, take 4 (drop q1 d), F2)"
      "pos_at F2 d (if q1 + 4 \<le> length d then q1 + 4 else q1)"
      by (rule read_data_at [OF at1, of 4]) simp
    show thesis
    proof (cases "q1 + 4 \<le> length d")
      case False
      obtain F' where "SeektoOffset io F2 (0 - ?fl) SEEKCUR = (MP3_SUCCESS, F')" "pos_at F' d p"
        by (rule seek_cur_at [OF F2(2), of "0 - ?fl" p]) (use False fb(1,2) fi(1) len in \<open>auto simp: q1_def\<close>)
      then show thesis
        using False by (intro that [of MP3_INSUFFICIENT_DATA "crcFollows i = 0" F'])
          (simp_all add: start S1 F2(1) chain)
    next
      case ok1: True
      have at2: "pos_at F2 d (q1 + 4)" using F2(2) ok1 by simp
      have w1: "swap32_at bo (take 4 (drop q1 d)) 0 = Some h1" using ok1 by (simp add: swap32_word h1_def)
      obtain err F3 where F3: "SeektoOffset io F2 (?fl1 - 4) SEEKCUR = (err, F3)"
        "err = MP3_SUCCESS \<longleftrightarrow> q2 \<le> length d" "pos_at F3 d (if q2 \<le> length d then q2 else q1 + 4)"
        using hop_at [OF at2, of h1] unfolding q2_def [symmetric] by metis
      show thesis
      proof (cases "q2 \<le> length d")
        case False
        obtain F' where "SeektoOffset io F3 (0 - ?fl - 4) SEEKCUR = (MP3_SUCCESS, F')" "pos_at F' d p"
          by (rule seek_cur_at [OF F3(3), of "0 - ?fl - 4" p]) (use False fb(1,2) fi(1) len in \<open>auto simp: q1_def\<close>)
        then show thesis
          using False F3(1,2) by (intro that [of err "crcFollows i = 0" F'])
            (simp_all add: start S1 F2(1) ok1 w1 d2 chain)
      next
        case in2: True
        then have S3: "SeektoOffset io F2 (?fl1 - 4) SEEKCUR = (MP3_SUCCESS, F3)" and at3: "pos_at F3 d q2"
          using F3 by simp_all
        obtain F4 where F4: "readByteData io 4 F3 = (q2 + 4 \<le> length d, take 4 (drop q2 d), F4)"
          "pos_at F4 d (if q2 + 4 \<le> length d then q2 + 4 else q2)"
          by (rule read_data_at [OF at3, of 4]) simp
        show thesis
        proof (cases "q2 + 4 \<le> length d")
          case False
          obtain F' where "SeektoOffset io F4 (0 - ?fl - ?fl1) SEEKCUR = (MP3_SUCCESS, F')" "pos_at F' d p"
            by (rule seek_cur_at [OF F4(2), of "0 - ?fl - ?fl1" p])
              (use False fb fi len in \<open>auto simp: q1_def q2_def\<close>)
          then show thesis
            using False by (intro that [of MP3_INSUFFICIENT_DATA "crcFollows i = 0" F'])
              (simp_all add: start S1 F2(1) ok1 w1 d2 S3 F4(1) chain)
        next
          case ok2: True
          have at4: "pos_at F4 d (q2 + 4)" using F4(2) ok2 by simp
          have w2: "swap32_at bo (take 4 (drop q2 d)) 0 = Some h2" using ok2 by (simp add: swap32_word h2_def)
          obtain err F5 where F5: "SeektoOffset io F4 (?fl2 - 4) SEEKCUR = (err, F5)"
            "err = MP3_SUCCESS \<longleftrightarrow> q3 \<le> length d" "pos_at F5 d (if q3 \<le> length d then q3 else q2 + 4)"
            using hop_at [OF at4, of h2] unfolding q3_def [symmetric] by metis
          note step2 = start S1 F2(1) ok1 w1 d2 S3 F4(1) ok2 w2 d3
          show thesis
          proof (cases "q3 \<le> length d")
            case False
            obtain F' where "SeektoOffset io F5 (0 - ?fl - ?fl1 - 4) SEEKCUR = (MP3_SUCCESS, F')" "pos_at F' d p"
              by (rule seek_cur_at [OF F5(3), of "0 - ?fl - ?fl1 - 4" p])
                (use False fb fi len in \<open>auto simp: q1_def q2_def\<close>)
            then show thesis
              using False F5(1,2) by (intro that [of err "crcFollows i = 0" F']) (simp_all add: step2 chain)
          next
            case in3: True
            then have S5: "SeektoOffset io F4 (?fl2 - 4) SEEKCUR = (MP3_SUCCESS, F5)" and at5: "pos_at F5 d q3"
              using F5 by simp_all
            obtain F6 where F6: "readByteData io 4 F5 = (q3 + 4 \<le> length d, take 4 (drop q3 d), F6)"
              "pos_at F6 d (if q3 + 4 \<le> length d then q3 + 4 else q3)"
              by (rule read_data_at [OF at5, of 4]) simp
            show thesis
            proof (cases "q3 + 4 \<le> length d")
              case False
              obtain F' where "SeektoOffset io F6 (0 - ?fl - ?fl1 - ?fl2) SEEKCUR = (MP3_SUCCESS, F')" "pos_at F' d p"
                by (rule seek_cur_at [OF F6(2), of "0 - ?fl - ?fl1 - ?fl2" p])
                  (use False fb fi len in \<open>auto simp: q1_def q2_def q3_def\<close>)
              then show thesis
                using False by (intro that [of MP3_INSUFFICIENT_DATA "crcFollows i = 0" F'])
                  (simp_all add: step2 S5 F6(1) chain)
            next
              case ok3: True
              have at6: "pos_at F6 d (q3 + 4)" using F6(2) ok3 by simp
              have w3: "swap32_at bo (take 4 (drop q3 d)) 0 = Some h3" using ok3 by (simp add: swap32_word h3_def)
              obtain F' where "SeektoOffset io F6 (0 - ?fl - ?fl1 - ?fl2 - 4) SEEKCUR = (MP3_SUCCESS, F')" "pos_at F' d p"
                by (rule seek_cur_at [OF at6, of "0 - ?fl - ?fl1 - ?fl2 - 4" p])
                  (use fb fi len in \<open>auto simp: q1_def q2_def q3_def\<close>)
              then show thesis
                using ok1 ok2 ok3
                by (intro that [of "if same_audio h h1 \<and> same_audio h h2 \<and> same_audio h h3 then MP3_SUCCESS
                      else MP3_FILE_HDR_READ_ERR" "crcFollows i = 0" F'])
                  (auto simp: step2 S5 F6(1) w3 d4 chain same_audio_def Let_def)
            qed
          qed
        qed
      qed
    qed
  qed
qed

end

section \<open>mp3FindSync\<close>

text \<open>The part of the parser's state that the search uses.\<close>

record mp3_sync =
  iLocalFileSize :: int
  iInitSearchFileSize :: int
  iLocalFileSizeSet :: bool

definition KMAX_INITIAL_SEARCH_FILE_SIZE_IN_BYTES :: int where
  "KMAX_INITIAL_SEARCH_FILE_SIZE_IN_BYTES = 500000"

definition iMaxSyncBufferSize :: nat where
  "iMaxSyncBufferSize = 627"

datatype sync_result = Found nat | NotFound | Aborted

text \<open>
  The search through the 628 bytes in memory (the last byte of the block before, and a block of 627
  bytes), from index \<open>i\<close> on. The two branches of the code, for MPEG 1 or 2 and for MPEG 2.5, do the same.
\<close>

function sync_inner :: "byte_order \<Rightarrow> 'f file_ops \<Rightarrow> u8 list \<Rightarrow> nat \<Rightarrow> nat \<Rightarrow> 'f pvfile \<Rightarrow> (sync_result \<times> 'f pvfile) option" where
  "sync_inner bo io pSyncBuffer j i F =
     (if i < iMaxSyncBufferSize - 3 then do {
        b0 \<leftarrow> rd pSyncBuffer i;
        b1 \<leftarrow> rd pSyncBuffer (i + 1);
        if b0 = 0xFF \<and> (b1 AND 0xF0 = 0xF0 \<or> b1 AND 0xF0 = 0xE0)
        then do {
          let F1 = snd (SeektoOffset io F (0 - int iMaxSyncBufferSize + int i - 1) SEEKCUR);
          (mp3Err, F2) \<leftarrow> IsValidFrame bo io (drop i pSyncBuffer) F1;
          if mp3Err = MP3_SUCCESS
          then Some (Found i, snd (SeektoOffset io F2 (to_s32 (0 - int j - int i + 1)) SEEKCUR))
          else if mp3Err = MP3_INSUFFICIENT_DATA then Some (Aborted, F2)
          else sync_inner bo io pSyncBuffer j (i + 1)
            (snd (SeektoOffset io F2 (to_s32 (int iMaxSyncBufferSize - int i + 1)) SEEKCUR))
        }
        else sync_inner bo io pSyncBuffer j (i + 1) F
      }
      else Some (NotFound, F))"
  by pat_completeness auto
termination by (relation "measure (\<lambda>(_, _, _, _, i, _). iMaxSyncBufferSize - i)") auto

declare sync_inner.simps [simp del]

text \<open>
  The blocks, from offset \<open>j\<close> on; \<open>prev\<close> is the byte at index 0. Whether the sync word was found and
  where, or the error returned.
\<close>

function sync_blocks :: "byte_order \<Rightarrow> 'f file_ops \<Rightarrow> nat \<Rightarrow> u8 \<Rightarrow> nat \<Rightarrow> 'f pvfile \<Rightarrow> (mp3_error \<times> int \<times> 'f pvfile) option" where
  "sync_blocks bo io maxSearchOffset prev j F =
     (if j < maxSearchOffset then
        case readByteData io iMaxSyncBufferSize F of (ok, bs, F1) \<Rightarrow>
          if \<not> ok then Some (MP3_ERROR_UNKNOWN_OBJECT, 0, F1)
          else do {
            (r, F2) \<leftarrow> sync_inner bo io (prev # bs) j 0 F1;
            case r of
              Found i \<Rightarrow> Some (MP3_SUCCESS, to_u32 (int j + int i - 1), F2)
            | Aborted \<Rightarrow> Some (MP3_INSUFFICIENT_DATA, 0, F2)
            | NotFound \<Rightarrow> sync_blocks bo io maxSearchOffset (last bs) (j + iMaxSyncBufferSize) F2
          }
      else Some (MP3_END_OF_FILE, 0, F))"
  by pat_completeness auto
termination by (relation "measure (\<lambda>(_, _, m, _, j, _). m - j)") (auto simp: iMaxSyncBufferSize_def)

declare sync_blocks.simps [simp del]

text \<open>\<open>mp3FindSync\<close>: the error, \<open>syncOffset\<close>, the parser and the file.\<close>

definition mp3FindSync ::
  "byte_order \<Rightarrow> 'f file_ops \<Rightarrow> 'p mp3_sync_scheme \<Rightarrow> int \<Rightarrow> 'f pvfile \<Rightarrow> (mp3_error \<times> int \<times> 'p mp3_sync_scheme \<times> 'f pvfile) option" where
  "mp3FindSync bo io P seekPoint F =
     (let (P, F) = (if GetFileBufferingCapacity F > 0
                    then case getCurrentFileSize io F of
                      (b, n, F') \<Rightarrow> (P\<lparr>iLocalFileSizeSet := b, iLocalFileSize := n\<rparr>, F')
                    else (P, F));
          contentLength = GetContentLength F
      in if contentLength \<noteq> 0 \<and> to_u32 (seekPoint + int iMaxSyncBufferSize) \<ge> contentLength
         then Some (MP3_END_OF_FILE, 0, P, F)
         else if iLocalFileSize P \<noteq> 0 \<and> to_u32 (seekPoint + int iMaxSyncBufferSize) > iLocalFileSize P
         then Some (MP3_INSUFFICIENT_DATA, 0, P, F)
         else let seekPoint = to_u32 (pv_tell io F);
                  (maxSearchOffset, F1) =
                    (if iLocalFileSizeSet P
                     then (min (iInitSearchFileSize P) (to_u32 (iLocalFileSize P - seekPoint)), F)
                     else case GetRemainingBytes io F of
                       (Some remBytes, F') \<Rightarrow>
                         (min (iInitSearchFileSize P) (to_u32 (to_u32 (pv_tell io F') + remBytes - seekPoint)), F')
                     | (None, F') \<Rightarrow> (0, F'))
              in do {
                (err, syncOffset, F2) \<leftarrow> sync_blocks bo io (nat maxSearchOffset) 0 0 F1;
                if err \<noteq> MP3_SUCCESS then Some (err, 0, P, F2)
                else if iLocalFileSizeSet P
                then Some (MP3_SUCCESS, syncOffset, P\<lparr>iInitSearchFileSize := iLocalFileSize P\<rparr>, F2)
                else case GetRemainingBytes io F2 of
                  (Some remBytes, F3) \<Rightarrow>
                    Some (MP3_SUCCESS, syncOffset, P\<lparr>iInitSearchFileSize := min (iInitSearchFileSize P) remBytes\<rparr>, F3)
                | (None, F3) \<Rightarrow> Some (MP3_SUCCESS, syncOffset, P, F3)
              })"

section \<open>What the search finds\<close>

text \<open>With the macro of the host set, a valid header starts with the pattern the search looks for.\<close>

lemma swap32_bits:
  "k < 8 \<Longrightarrow> bit (SwapFileToHostByteOrderInt32 LITTLE_ENDIAN b0 b1 b2 b3) (24 + k) = bit b0 k"
  "k < 8 \<Longrightarrow> bit (SwapFileToHostByteOrderInt32 LITTLE_ENDIAN b0 b1 b2 b3) (16 + k) = bit b1 k"
proof -
  have b: "\<not> bit b (8 + k)" for b :: u8 and k using bit_imp_le_length [of b "8 + k"] by auto
  then have "\<not> bit b (16 + k)" "\<not> bit b (24 + k)" for b :: u8 using b [of b "8 + k"] b [of b "16 + k"] by simp_all
  then show "k < 8 \<Longrightarrow> bit (SwapFileToHostByteOrderInt32 LITTLE_ENDIAN b0 b1 b2 b3) (24 + k) = bit b0 k"
    "k < 8 \<Longrightarrow> bit (SwapFileToHostByteOrderInt32 LITTLE_ENDIAN b0 b1 b2 b3) (16 + k) = bit b1 k"
    using b by (auto simp: swap_little_endian bit_simps)
qed

lemma sync_mask_bits: "bit FRAME_SYNC_MASK n \<longleftrightarrow> 21 \<le> n \<and> n < 32"
proof -
  have "FRAME_SYNC_MASK = push_bit 21 (mask 11)"
    by (simp add: FRAME_SYNC_MASK_def mask_eq_exp_minus_1 push_bit_eq_mult)
  then show ?thesis unfolding \<open>FRAME_SYNC_MASK = _\<close> by (auto simp: bit_simps)
qed

lemma header_valid_pattern:
  assumes "header_valid (SwapFileToHostByteOrderInt32 LITTLE_ENDIAN b0 b1 b2 b3)"
  shows "b0 = 0xFF" "b1 AND 0xF0 = 0xF0 \<or> b1 AND 0xF0 = 0xE0"
proof -
  let ?h = "SwapFileToHostByteOrderInt32 LITTLE_ENDIAN b0 b1 b2 b3"
  have "?h AND FRAME_SYNC_MASK = FRAME_SYNC_MASK"
    using assms by (auto simp: header_valid_def GetMP3Header_def split: if_splits)
  then have *: "bit ?h n" if "21 \<le> n" "n < 32" for n
    using that sync_mask_bits [of n] by (metis bit_and_iff)
  have 0: "bit b0 k" if "k < 8" for k using * [of "24 + k"] swap32_bits(1) that by simp
  have 1: "bit b1 k" if "5 \<le> k" "k < 8" for k using * [of "16 + k"] swap32_bits(2) that by simp
  have "b0 = mask 8" by (rule bit_word_eqI) (use 0 in \<open>simp add: bit_simps\<close>)
  then show "b0 = 0xFF" by (simp add: mask_eq_exp_minus_1)
  have f0: "(0xF0 :: u8) = push_bit 4 (mask 4)" and e0: "(0xE0 :: u8) = push_bit 5 (mask 3)"
    by (simp_all add: mask_eq_exp_minus_1 push_bit_eq_mult)
  show "b1 AND 0xF0 = 0xF0 \<or> b1 AND 0xF0 = 0xE0"
  proof (cases "bit b1 4")
    case True
    have "b1 AND push_bit 4 (mask 4) = push_bit 4 (mask 4)"
    proof (rule bit_word_eqI)
      fix n assume n: "n < LENGTH(8)"
      show "bit (b1 AND push_bit 4 (mask 4)) n = bit (push_bit 4 (mask 4) :: u8) n"
        using n 1 [of n] True by (cases "n = 4") (auto simp: bit_simps)
    qed
    then show ?thesis unfolding f0 by simp
  next
    case False
    have "b1 AND push_bit 4 (mask 4) = push_bit 5 (mask 3)"
    proof (rule bit_word_eqI)
      fix n assume n: "n < LENGTH(8)"
      show "bit (b1 AND push_bit 4 (mask 4)) n = bit (push_bit 5 (mask 3) :: u8) n"
        using n 1 [of n] False by (cases "n = 4") (auto simp: bit_simps)
    qed
    then show ?thesis unfolding f0 e0 by simp
  qed
qed

text \<open>An offset with the bytes that the search looks for and four frames in a row.\<close>

definition sync_pattern :: "u8 list \<Rightarrow> nat \<Rightarrow> bool" where
  "sync_pattern d q \<longleftrightarrow> d ! q = 0xFF \<and> (d ! (q + 1) AND 0xF0 = 0xF0 \<or> d ! (q + 1) AND 0xF0 = 0xE0)"

definition sync_at :: "byte_order \<Rightarrow> u8 list \<Rightarrow> nat \<Rightarrow> bool" where
  "sync_at bo d q \<longleftrightarrow> sync_pattern d q \<and> frame_chain bo d q (word_at bo d q)"

lemma sync_at_little_endian: "sync_at LITTLE_ENDIAN d q \<longleftrightarrow> frame_chain LITTLE_ENDIAN d q (word_at LITTLE_ENDIAN d q)"
proof -
  have "header_valid (word_at LITTLE_ENDIAN d q) \<Longrightarrow> sync_pattern d q"
    using header_valid_pattern [of "d ! q" "d ! (q + 1)" "d ! (q + 2)" "d ! (q + 3)"]
    unfolding word_at_def sync_pattern_def by blast
  then show ?thesis unfolding sync_at_def frame_chain_def by blast
qed

text \<open>The bytes in memory: the last one of the block before and the block at \<open>b\<close>.\<close>

definition block_buffer :: "u8 list \<Rightarrow> nat \<Rightarrow> nat \<Rightarrow> u8 list" where
  "block_buffer d j b = (if j = 0 then 0 else d ! (b - 1)) # take iMaxSyncBufferSize (drop b d)"

lemma block_buffer_nth:
  assumes "b + 627 \<le> length d" "k < 628" "j = 0 \<longrightarrow> 0 < k" "j \<noteq> 0 \<longrightarrow> 0 < b"
  shows "block_buffer d j b ! k = d ! (b + k - 1)"
  using assms by (cases k) (auto simp: block_buffer_def iMaxSyncBufferSize_def)

lemma length_block_buffer: "b + 627 \<le> length d \<Longrightarrow> length (block_buffer d j b) = 628"
  by (simp add: block_buffer_def iMaxSyncBufferSize_def)

lemma block_buffer_word:
  assumes "b + 627 \<le> length d" "k < 624" "j = 0 \<longrightarrow> 0 < k" "j \<noteq> 0 \<longrightarrow> 0 < b"
  shows "swap32_at bo (drop k (block_buffer d j b)) 0 = Some (word_at bo d (b + k - 1))"
proof -
  have "0 < b + k" using assms(3,4) by auto
  then have e: "b + (k + m) - 1 = b + k - 1 + m" for m by arith
  have "block_buffer d j b ! (k + m) = d ! (b + k - 1 + m)" if "m < 4" for m
    using block_buffer_nth [of b d "k + m" j] assms that unfolding e by auto
  from this [of 0] this [of 1] this [of 2] this [of 3] show ?thesis
    using assms(1,2) by (simp add: swap32_at_def word_at_def rd_def length_block_buffer nth_drop)
qed

context byte_file
begin

lemma is_valid_frame_at:
  assumes "pos_at F d p" "swap32_at bo frame 0 = Some h"
  obtains err F' where "IsValidFrame bo io frame F = Some (err, F')" "pos_at F' d p"
    "err = MP3_SUCCESS \<longleftrightarrow> frame_chain bo d p h" "err = MP3_INSUFFICIENT_DATA \<longrightarrow> header_valid h"
  by (rule is_valid_at [OF assms]) (use that in \<open>auto simp: IsValidFrame_def\<close>)

lemma sync_inner_at:
  assumes "pos_at F d (b + 627)" "b + 627 \<le> length d" "b = s + j" "j \<noteq> 0 \<longrightarrow> 627 \<le> j" "i \<le> 624"
  shows "\<exists>r F'. sync_inner bo io (block_buffer d j b) j i F = Some (r, F') \<and>
    (case r of
       Found i' \<Rightarrow> i \<le> i' \<and> i' < 624 \<and> (j = 0 \<longrightarrow> 0 < i') \<and> pos_at F' d s \<and> sync_at bo d (b + i' - 1) \<and>
         (\<forall>k. i \<le> k \<and> k < i' \<and> (j = 0 \<longrightarrow> 0 < k) \<longrightarrow> \<not> sync_at bo d (b + k - 1))
     | NotFound \<Rightarrow> pos_at F' d (b + 627) \<and> (\<forall>k. i \<le> k \<and> k < 624 \<and> (j = 0 \<longrightarrow> 0 < k) \<longrightarrow> \<not> sync_at bo d (b + k - 1))
     | Aborted \<Rightarrow> (\<exists>q. pos_at F' d q) \<and> (\<exists>k. i \<le> k \<and> k < 624 \<and> (j = 0 \<longrightarrow> 0 < k) \<and>
           header_valid (word_at bo d (b + k - 1)) \<and> \<not> sync_at bo d (b + k - 1) \<and>
           (\<forall>k'. i \<le> k' \<and> k' < k \<and> (j = 0 \<longrightarrow> 0 < k') \<longrightarrow> \<not> sync_at bo d (b + k' - 1))))"
  using assms(1,5)
proof (induction "624 - i" arbitrary: i F)
  case 0
  then have "i = 624" by simp
  then have "sync_inner bo io (block_buffer d j b) j i F = Some (NotFound, F)"
    by (subst sync_inner.simps) (simp add: iMaxSyncBufferSize_def)
  then show ?case using 0 by (intro exI [of _ NotFound] exI [of _ F]) auto
next
  case (Suc n)
  let ?buf = "block_buffer d j b"
  have i: "i < 624" using Suc.hyps(2) by simp
  have bj: "j \<noteq> 0 \<longrightarrow> 0 < b" using assms(3,4) by auto
  note len = atD(2) [OF Suc.prems(1)]
  have rds: "rd ?buf i = Some (?buf ! i)" "rd ?buf (i + 1) = Some (?buf ! (i + 1))"
    using i length_block_buffer [OF assms(2), of j] by (simp_all add: rd_def)
  define cand where "cand \<longleftrightarrow> ?buf ! i = 0xFF \<and> (?buf ! (i + 1) AND 0xF0 = 0xF0 \<or> ?buf ! (i + 1) AND 0xF0 = 0xE0)"
  have unfold: "sync_inner bo io ?buf j i F =
      (if cand then do {
         (mp3Err, F2) \<leftarrow> IsValidFrame bo io (drop i ?buf) (snd (SeektoOffset io F (0 - 627 + int i - 1) SEEKCUR));
         if mp3Err = MP3_SUCCESS
         then Some (Found i, snd (SeektoOffset io F2 (to_s32 (0 - int j - int i + 1)) SEEKCUR))
         else if mp3Err = MP3_INSUFFICIENT_DATA then Some (Aborted, F2)
         else sync_inner bo io ?buf j (i + 1) (snd (SeektoOffset io F2 (to_s32 (627 - int i + 1)) SEEKCUR))
       } else sync_inner bo io ?buf j (i + 1) F)"
    unfolding sync_inner.simps [of bo io ?buf j i F] iMaxSyncBufferSize_def cand_def of_nat_numeral
    using i by (auto simp: rds simp del: One_nat_def)
  have rest: "\<exists>r F''. sync_inner bo io ?buf j (i + 1) F' = Some (r, F'') \<and>
    (case r of
       Found i' \<Rightarrow> i + 1 \<le> i' \<and> i' < 624 \<and> (j = 0 \<longrightarrow> 0 < i') \<and> pos_at F'' d s \<and> sync_at bo d (b + i' - 1) \<and>
         (\<forall>k. i + 1 \<le> k \<and> k < i' \<and> (j = 0 \<longrightarrow> 0 < k) \<longrightarrow> \<not> sync_at bo d (b + k - 1))
     | NotFound \<Rightarrow> pos_at F'' d (b + 627) \<and> (\<forall>k. i + 1 \<le> k \<and> k < 624 \<and> (j = 0 \<longrightarrow> 0 < k) \<longrightarrow> \<not> sync_at bo d (b + k - 1))
     | Aborted \<Rightarrow> (\<exists>q. pos_at F'' d q) \<and> (\<exists>k. i + 1 \<le> k \<and> k < 624 \<and> (j = 0 \<longrightarrow> 0 < k) \<and>
           header_valid (word_at bo d (b + k - 1)) \<and> \<not> sync_at bo d (b + k - 1) \<and>
           (\<forall>k'. i + 1 \<le> k' \<and> k' < k \<and> (j = 0 \<longrightarrow> 0 < k') \<longrightarrow> \<not> sync_at bo d (b + k' - 1))))" if "pos_at F' d (b + 627)" for F'
    by (rule Suc.hyps(1) [of "i + 1"]) (use Suc.hyps(2) i that in auto)
  have extend: ?case if "\<not> (j = 0 \<longrightarrow> 0 < i) \<or> \<not> sync_at bo d (b + i - 1)"
    and eq: "sync_inner bo io ?buf j i F = sync_inner bo io ?buf j (i + 1) F'" and F': "pos_at F' d (b + 627)" for F'
  proof -
    have no: "\<forall>k. i \<le> k \<and> k < m \<and> (j = 0 \<longrightarrow> 0 < k) \<longrightarrow> \<not> sync_at bo d (b + k - 1)"
      if "\<forall>k. i + 1 \<le> k \<and> k < m \<and> (j = 0 \<longrightarrow> 0 < k) \<longrightarrow> \<not> sync_at bo d (b + k - 1)" for m
      using that \<open>\<not> (j = 0 \<longrightarrow> 0 < i) \<or> \<not> sync_at bo d (b + i - 1)\<close>
      by (metis Suc_eq_plus1 Suc_leI le_neq_implies_less)
    obtain r F'' where r: "sync_inner bo io ?buf j (i + 1) F' = Some (r, F'')"
      "case r of
         Found i' \<Rightarrow> i + 1 \<le> i' \<and> i' < 624 \<and> (j = 0 \<longrightarrow> 0 < i') \<and> pos_at F'' d s \<and> sync_at bo d (b + i' - 1) \<and>
           (\<forall>k. i + 1 \<le> k \<and> k < i' \<and> (j = 0 \<longrightarrow> 0 < k) \<longrightarrow> \<not> sync_at bo d (b + k - 1))
       | NotFound \<Rightarrow> pos_at F'' d (b + 627) \<and> (\<forall>k. i + 1 \<le> k \<and> k < 624 \<and> (j = 0 \<longrightarrow> 0 < k) \<longrightarrow> \<not> sync_at bo d (b + k - 1))
       | Aborted \<Rightarrow> (\<exists>q. pos_at F'' d q) \<and> (\<exists>k. i + 1 \<le> k \<and> k < 624 \<and> (j = 0 \<longrightarrow> 0 < k) \<and>
           header_valid (word_at bo d (b + k - 1)) \<and> \<not> sync_at bo d (b + k - 1) \<and>
           (\<forall>k'. i + 1 \<le> k' \<and> k' < k \<and> (j = 0 \<longrightarrow> 0 < k') \<longrightarrow> \<not> sync_at bo d (b + k' - 1)))"
      using rest [OF F'] by blast
    show ?thesis
    proof (cases r)
      case Aborted
      then obtain k where "i + 1 \<le> k" "k < 624" "j = 0 \<longrightarrow> 0 < k" "header_valid (word_at bo d (b + k - 1))"
        "\<not> sync_at bo d (b + k - 1)" "\<forall>k'. i + 1 \<le> k' \<and> k' < k \<and> (j = 0 \<longrightarrow> 0 < k') \<longrightarrow> \<not> sync_at bo d (b + k' - 1)"
        using r(2) by auto
      then have "i \<le> k \<and> k < 624 \<and> (j = 0 \<longrightarrow> 0 < k) \<and> header_valid (word_at bo d (b + k - 1)) \<and>
          \<not> sync_at bo d (b + k - 1) \<and> (\<forall>k'. i \<le> k' \<and> k' < k \<and> (j = 0 \<longrightarrow> 0 < k') \<longrightarrow> \<not> sync_at bo d (b + k' - 1))"
        using no [of k] by auto
      then show ?thesis using eq r Aborted by auto
    qed (intro exI [of _ r] exI [of _ F''], use eq r no in \<open>auto split: sync_result.splits\<close>)+
  qed
  show ?case
  proof (cases cand)
    case False
    have "\<not> (j = 0 \<longrightarrow> 0 < i) \<or> \<not> sync_at bo d (b + i - 1)"
    proof (rule ccontr)
      assume "\<not> ?thesis"
      then have h: "j = 0 \<longrightarrow> 0 < i" "sync_at bo d (b + i - 1)" by auto
      have e: "b + (i + 1) - 1 = b + i - 1 + 1" using h(1) bj by auto
      have b: "?buf ! i = d ! (b + i - 1)" "?buf ! (i + 1) = d ! (b + i - 1 + 1)"
        using block_buffer_nth [OF assms(2), of i j] block_buffer_nth [OF assms(2), of "i + 1" j] i h(1) bj
        unfolding e by auto
      show False
        using h(2) False b unfolding cand_def sync_at_def sync_pattern_def by metis
    qed
    then show ?thesis by (rule extend [of F]) (use False unfold Suc.prems in simp_all)
  next
    case True
    have ij: "j = 0 \<longrightarrow> 0 < i"
    proof
      assume "j = 0"
      then have "?buf ! 0 = 0" by (simp add: block_buffer_def)
      then show "0 < i" using True by (cases i) (auto simp: cand_def)
    qed
    let ?q = "b + i - 1"
    have e: "b + (i + 1) - 1 = ?q + 1" using ij bj by auto
    have "?buf ! i = d ! ?q" "?buf ! (i + 1) = d ! (?q + 1)"
      using block_buffer_nth [OF assms(2), of i j] block_buffer_nth [OF assms(2), of "i + 1" j] i ij bj
      unfolding e by auto
    then have pat: "sync_pattern d ?q" using True unfolding cand_def sync_pattern_def by metis
    have q: "int ?q = int (b + 627) + (0 - 627 + int i - 1)" "?q \<le> length d"
      using ij bj assms(2) i by auto
    obtain F1 where F1: "SeektoOffset io F (0 - 627 + int i - 1) SEEKCUR = (MP3_SUCCESS, F1)" "pos_at F1 d ?q"
      by (rule seek_cur_at [OF Suc.prems(1) _ _ q]) (use i in auto)
    obtain err F2 where F2: "IsValidFrame bo io (drop i ?buf) F1 = Some (err, F2)" "pos_at F2 d ?q"
      "err = MP3_SUCCESS \<longleftrightarrow> frame_chain bo d ?q (word_at bo d ?q)" "err = MP3_INSUFFICIENT_DATA \<longrightarrow> header_valid (word_at bo d ?q)"
      by (rule is_valid_frame_at [OF F1(2) block_buffer_word [OF assms(2) i ij bj]])
    consider (ok) "err = MP3_SUCCESS" | (abort) "err = MP3_INSUFFICIENT_DATA" | (drop) "err \<noteq> MP3_SUCCESS" "err \<noteq> MP3_INSUFFICIENT_DATA"
      by blast
    then show ?thesis
    proof cases
      case ok
      have r: "to_s32 (0 - int j - int i + 1) = 0 - int j - int i + 1" "int s = int ?q + (0 - int j - int i + 1)"
        "s \<le> length d"
        using assms(2,3) len i ij bj by (auto simp: in_range)
      obtain F3 where F3: "SeektoOffset io F2 (0 - int j - int i + 1) SEEKCUR = (MP3_SUCCESS, F3)" "pos_at F3 d s"
        by (rule seek_cur_at [OF F2(2) _ _ r(2,3)]) (use assms(2,3) len i in auto)
      have "sync_inner bo io ?buf j i F = Some (Found i, F3)"
        unfolding unfold using True F1(1) F2(1) ok r(1) F3(1) by simp
      then show ?thesis
        using F3(2) F2(3) ok i ij pat by (intro exI [of _ "Found i"] exI [of _ F3]) (auto simp: sync_at_def)
    next
      case abort
      have "sync_inner bo io ?buf j i F = Some (Aborted, F2)"
        unfolding unfold using True F1(1) F2(1) abort by simp
      moreover have "\<not> sync_at bo d ?q" "header_valid (word_at bo d ?q)" using F2(3,4) abort by (auto simp: sync_at_def)
      ultimately show ?thesis using F2(2) i ij by (intro exI [of _ Aborted] exI [of _ F2]) auto
    next
      case drop
      have big: "628 - int i \<le> int (length d)" using ij assms(2,4) assms(3) by (cases "j = 0") auto
      have r: "to_s32 (627 - int i + 1) = 627 - int i + 1" "int (b + 627) = int ?q + (627 - int i + 1)"
        using i ij bj by (auto simp: in_range)
      obtain F3 where F3: "SeektoOffset io F2 (627 - int i + 1) SEEKCUR = (MP3_SUCCESS, F3)" "pos_at F3 d (b + 627)"
        by (rule seek_cur_at [OF F2(2) _ _ r(2) assms(2)]) (use big i in auto)
      have "sync_inner bo io ?buf j i F = sync_inner bo io ?buf j (i + 1) F3"
        unfolding unfold using True F1(1) F2(1) drop r(1) F3(1) by simp
      moreover have "\<not> sync_at bo d ?q" using F2(3) drop by (simp add: sync_at_def)
      ultimately show ?thesis by (intro extend [of F3]) (use F3(2) in auto)
    qed
  qed
qed

end

text \<open>
  The offsets the search looks at. The index runs to 623 of the 628 bytes in memory, but only the last
  of them is carried over to the next block, so three offsets of each block are never tried.
\<close>

definition searched :: "nat \<Rightarrow> bool" where
  "searched k \<longleftrightarrow> k mod 627 \<notin> {623, 624, 625}"

lemma searched_block:
  assumes "j mod 627 = 0" "j \<le> k + 1" "k < j + 626" "searched k"
  shows "k + 1 - j < 624"
proof (rule ccontr)
  assume "\<not> ?thesis"
  then have "k = j + 623 \<or> k = j + 624 \<or> k = j + 625" using assms(2,3) by auto
  then show False using assms(1,4) by (auto simp: searched_def mod_add_eq [symmetric, of j])
qed

lemma found_searched:
  assumes "j mod 627 = 0" "i < 624" "j = 0 \<longrightarrow> 0 < i"
  shows "searched (j + i - 1)"
proof (cases i)
  case 0
  then obtain m where "j = 627 * Suc m" using assms(1,3) by (metis mod_0_imp_dvd dvd_def gr0_conv_Suc mult_0_right neq0_conv)
  then have "j + i - 1 = 626 + 627 * m" using 0 by simp
  then show ?thesis by (simp add: searched_def)
next
  case (Suc n)
  then have "(j + i - 1) mod 627 = n" using assms(1,2) by (simp add: mod_add_eq [symmetric, of j])
  then show ?thesis using Suc assms(2) by (simp add: searched_def)
qed

context byte_file
begin

lemma sync_blocks_at:
  assumes "pos_at F d (s + j)" "j mod 627 = 0" "prev = (if j = 0 then 0 else d ! (s + j - 1))"
  shows "\<exists>err off F'. sync_blocks bo io m prev j F = Some (err, off, F') \<and> (\<exists>q. pos_at F' d q) \<and>
    (err = MP3_SUCCESS \<longrightarrow> pos_at F' d s \<and> (\<exists>k. off = int k \<and> sync_at bo d (s + k) \<and> searched k \<and>
      (\<forall>k'. j \<le> k' + 1 \<and> k' < k \<and> searched k' \<longrightarrow> \<not> sync_at bo d (s + k')))) \<and>
    (err \<noteq> MP3_SUCCESS \<longrightarrow> (\<exists>k. j \<le> k + 1 \<and> header_valid (word_at bo d (s + k)) \<and> \<not> sync_at bo d (s + k) \<and>
        (\<forall>k'. j \<le> k' + 1 \<and> k' < k \<and> searched k' \<longrightarrow> \<not> sync_at bo d (s + k'))) \<or>
      (\<forall>k'. j \<le> k' + 1 \<and> searched k' \<and> k' + 1 < m \<and> s + ((k' + 1) div 627 + 1) * 627 \<le> length d \<longrightarrow>
        \<not> sync_at bo d (s + k')))"
  using assms
proof (induction "m - j" arbitrary: j F prev rule: less_induct)
  case less
  let ?b = "s + j"
  note le = atD [OF less.prems(1)]
  show ?case
  proof (cases "j < m")
    case False
    then have "sync_blocks bo io m prev j F = Some (MP3_END_OF_FILE, 0, F)" by (subst sync_blocks.simps) simp
    then show ?thesis using less.prems(1) False by auto
  next
    case jm: True
    obtain F1 where F1: "readByteData io 627 F = (?b + 627 \<le> length d, take 627 (drop ?b d), F1)"
      "pos_at F1 d (if ?b + 627 \<le> length d then ?b + 627 else ?b)"
      by (rule read_data_at [OF less.prems(1), of 627]) simp
    show ?thesis
    proof (cases "?b + 627 \<le> length d")
      case False
      then have "sync_blocks bo io m prev j F = Some (MP3_ERROR_UNKNOWN_OBJECT, 0, F1)"
        using jm F1(1) by (subst sync_blocks.simps) (simp add: iMaxSyncBufferSize_def)
      moreover have "\<not> s + ((k' + 1) div 627 + 1) * 627 \<le> length d" if "j \<le> k' + 1" for k'
      proof -
        have "j + 627 = (j div 627 + 1) * 627" using less.prems(2) by auto
        also have "\<dots> \<le> ((k' + 1) div 627 + 1) * 627"
          using div_le_mono [OF that, of 627] by (intro mult_le_mono1 add_le_mono1)
        finally have "s + j + 627 \<le> s + ((k' + 1) div 627 + 1) * 627" unfolding add.assoc by (rule add_left_mono)
        then show ?thesis using False by (meson le_trans)
      qed
      ultimately show ?thesis using F1(2) by auto
    next
      case b: True
      have buf: "prev # take 627 (drop ?b d) = block_buffer d j ?b"
        by (simp add: block_buffer_def less.prems(3) iMaxSyncBufferSize_def)
      have at1: "pos_at F1 d (?b + 627)" using F1(2) b by simp
      have j0: "j \<noteq> 0 \<longrightarrow> 627 \<le> j" using less.prems(2) by (metis mod_less not_le)
      obtain r F2 where r: "sync_inner bo io (block_buffer d j ?b) j 0 F1 = Some (r, F2)"
        and rs: "case r of
         Found i' \<Rightarrow> 0 \<le> i' \<and> i' < 624 \<and> (j = 0 \<longrightarrow> 0 < i') \<and> pos_at F2 d s \<and> sync_at bo d (?b + i' - 1) \<and>
           (\<forall>k. 0 \<le> k \<and> k < i' \<and> (j = 0 \<longrightarrow> 0 < k) \<longrightarrow> \<not> sync_at bo d (?b + k - 1))
       | NotFound \<Rightarrow> pos_at F2 d (?b + 627) \<and> (\<forall>k. 0 \<le> k \<and> k < 624 \<and> (j = 0 \<longrightarrow> 0 < k) \<longrightarrow> \<not> sync_at bo d (?b + k - 1))
       | Aborted \<Rightarrow> (\<exists>q. pos_at F2 d q) \<and> (\<exists>k. 0 \<le> k \<and> k < 624 \<and> (j = 0 \<longrightarrow> 0 < k) \<and>
           header_valid (word_at bo d (?b + k - 1)) \<and> \<not> sync_at bo d (?b + k - 1) \<and>
           (\<forall>k'. 0 \<le> k' \<and> k' < k \<and> (j = 0 \<longrightarrow> 0 < k') \<longrightarrow> \<not> sync_at bo d (?b + k' - 1)))"
        using sync_inner_at [OF at1 b refl j0, of 0 bo] by auto
      have step: "sync_blocks bo io m prev j F = (case r of
            Found i \<Rightarrow> Some (MP3_SUCCESS, to_u32 (int j + int i - 1), F2)
          | Aborted \<Rightarrow> Some (MP3_INSUFFICIENT_DATA, 0, F2)
          | NotFound \<Rightarrow> sync_blocks bo io m (last (take 627 (drop ?b d))) (j + 627) F2)"
        using jm F1(1) b r by (subst sync_blocks.simps) (simp add: iMaxSyncBufferSize_def buf split: sync_result.split)
      show ?thesis
      proof (cases r)
        case Aborted
        then obtain ka where ka: "ka < 624" "j = 0 \<longrightarrow> 0 < ka" "header_valid (word_at bo d (?b + ka - 1))"
          "\<not> sync_at bo d (?b + ka - 1)" "\<forall>k'. k' < ka \<and> (j = 0 \<longrightarrow> 0 < k') \<longrightarrow> \<not> sync_at bo d (?b + k' - 1)"
          and q: "\<exists>q. pos_at F2 d q" using rs by auto
        let ?k = "j + ka - 1"
        have "0 < j + ka" using ka(2) j0 by auto
        then have k: "s + ?k = ?b + ka - 1" "j \<le> ?k + 1" by auto
        have "\<not> sync_at bo d (s + k')" if k': "j \<le> k' + 1" "k' < ?k" for k'
        proof -
          have "k' + 1 - j < ka" "j = 0 \<longrightarrow> 0 < k' + 1 - j" "?b + (k' + 1 - j) - 1 = s + k'" using k' by auto
          then show ?thesis using ka(5) by metis
        qed
        then have "\<exists>k. j \<le> k + 1 \<and> header_valid (word_at bo d (s + k)) \<and> \<not> sync_at bo d (s + k) \<and>
            (\<forall>k'. j \<le> k' + 1 \<and> k' < k \<and> searched k' \<longrightarrow> \<not> sync_at bo d (s + k'))"
          using ka(3,4) k by (intro exI [of _ ?k]) auto
        then show ?thesis using step Aborted q by auto
      next
        case (Found i)
        let ?k = "j + i - 1"
        have i: "i < 624" "j = 0 \<longrightarrow> 0 < i" "pos_at F2 d s" "sync_at bo d (?b + i - 1)"
          "\<forall>k. k < i \<and> (j = 0 \<longrightarrow> 0 < k) \<longrightarrow> \<not> sync_at bo d (?b + k - 1)"
          using rs Found by auto
        have ji: "0 < j + i" using i(2) j0 by auto
        then have k: "int ?k = int j + int i - 1" "s + ?k = ?b + i - 1" by auto
        have "?k < length d" using b i(1) ji by auto
        then have off: "to_u32 (int j + int i - 1) = int ?k" unfolding k(1) [symmetric] using le(2) by (intro to_u32_id) auto
        have first: "\<not> sync_at bo d (s + k')" if k': "j \<le> k' + 1" "k' < ?k" for k'
        proof -
          have "k' + 1 - j < i" "j = 0 \<longrightarrow> 0 < k' + 1 - j" "?b + (k' + 1 - j) - 1 = s + k'" using k' by auto
          then show ?thesis using i(5) by metis
        qed
        have "sync_at bo d (s + ?k) \<and> searched ?k \<and> (\<forall>k'. j \<le> k' + 1 \<and> k' < ?k \<and> searched k' \<longrightarrow> \<not> sync_at bo d (s + k'))"
          using i(4) k(2) first found_searched [OF less.prems(2) i(1,2)] by auto
        then show ?thesis
          unfolding step Found sync_result.case off using i(3) by blast
      next
        case NotFound
        have nf: "pos_at F2 d (s + (j + 627))"
          "\<forall>k. k < 624 \<and> (j = 0 \<longrightarrow> 0 < k) \<longrightarrow> \<not> sync_at bo d (?b + k - 1)"
          using rs NotFound by (auto simp: ac_simps)
        have lst: "last (take 627 (drop ?b d)) = d ! (s + (j + 627) - 1)"
          using b by (simp add: last_conv_nth add.commute add.left_commute)
        have "\<exists>err off F'. sync_blocks bo io m (last (take 627 (drop ?b d))) (j + 627) F2 = Some (err, off, F') \<and>
          (\<exists>q. pos_at F' d q) \<and>
          (err = MP3_SUCCESS \<longrightarrow> pos_at F' d s \<and> (\<exists>k. off = int k \<and> sync_at bo d (s + k) \<and> searched k \<and>
            (\<forall>k'. j + 627 \<le> k' + 1 \<and> k' < k \<and> searched k' \<longrightarrow> \<not> sync_at bo d (s + k')))) \<and>
          (err \<noteq> MP3_SUCCESS \<longrightarrow> (\<exists>k. j + 627 \<le> k + 1 \<and> header_valid (word_at bo d (s + k)) \<and> \<not> sync_at bo d (s + k) \<and>
        (\<forall>k'. j + 627 \<le> k' + 1 \<and> k' < k \<and> searched k' \<longrightarrow> \<not> sync_at bo d (s + k'))) \<or>
      (\<forall>k'. j + 627 \<le> k' + 1 \<and> searched k' \<and> k' + 1 < m \<and> s + ((k' + 1) div 627 + 1) * 627 \<le> length d \<longrightarrow>
        \<not> sync_at bo d (s + k')))"
        proof (rule less.hyps [OF _ nf(1)])
          show "m - (j + 627) < m - j" using jm by simp
          show "(j + 627) mod 627 = 0" using less.prems(2) by simp
          show "last (take 627 (drop ?b d)) = (if j + 627 = 0 then 0 else d ! (s + (j + 627) - 1))"
            using lst by simp
        qed
        then obtain err off F' where IH: "sync_blocks bo io m (last (take 627 (drop ?b d))) (j + 627) F2 = Some (err, off, F')"
          "\<exists>q. pos_at F' d q"
          "err = MP3_SUCCESS \<longrightarrow> pos_at F' d s \<and> (\<exists>k. off = int k \<and> sync_at bo d (s + k) \<and> searched k \<and>
            (\<forall>k'. j + 627 \<le> k' + 1 \<and> k' < k \<and> searched k' \<longrightarrow> \<not> sync_at bo d (s + k')))"
          "err \<noteq> MP3_SUCCESS \<longrightarrow> (\<exists>k. j + 627 \<le> k + 1 \<and> header_valid (word_at bo d (s + k)) \<and> \<not> sync_at bo d (s + k) \<and>
        (\<forall>k'. j + 627 \<le> k' + 1 \<and> k' < k \<and> searched k' \<longrightarrow> \<not> sync_at bo d (s + k'))) \<or>
      (\<forall>k'. j + 627 \<le> k' + 1 \<and> searched k' \<and> k' + 1 < m \<and> s + ((k' + 1) div 627 + 1) * 627 \<le> length d \<longrightarrow>
        \<not> sync_at bo d (s + k'))"
          by blast
        have here: "\<not> sync_at bo d (s + k')" if k': "j \<le> k' + 1" "k' < j + 626" "searched k'" for k'
        proof -
          have "k' + 1 - j < 624" "j = 0 \<longrightarrow> 0 < k' + 1 - j" "?b + (k' + 1 - j) - 1 = s + k'"
            using k' searched_block [OF less.prems(2) k'] by auto
          then show ?thesis using nf(2) by metis
        qed
        have all: "\<not> sync_at bo d (s + k')"
          if "j \<le> k' + 1" "searched k'" "\<not> j + 627 \<le> k' + 1" for k'
          by (rule here) (use that in auto)
        have suc: "err = MP3_SUCCESS \<longrightarrow> pos_at F' d s \<and> (\<exists>k. off = int k \<and> sync_at bo d (s + k) \<and> searched k \<and>
            (\<forall>k'. j \<le> k' + 1 \<and> k' < k \<and> searched k' \<longrightarrow> \<not> sync_at bo d (s + k')))"
          using IH(3) all by blast
        have "err \<noteq> MP3_SUCCESS \<longrightarrow> (\<exists>k. j \<le> k + 1 \<and> header_valid (word_at bo d (s + k)) \<and> \<not> sync_at bo d (s + k) \<and>
        (\<forall>k'. j \<le> k' + 1 \<and> k' < k \<and> searched k' \<longrightarrow> \<not> sync_at bo d (s + k'))) \<or>
      (\<forall>k'. j \<le> k' + 1 \<and> searched k' \<and> k' + 1 < m \<and> s + ((k' + 1) div 627 + 1) * 627 \<le> length d \<longrightarrow>
        \<not> sync_at bo d (s + k'))"
        proof
          assume "err \<noteq> MP3_SUCCESS"
          with IH(4) consider k where "j + 627 \<le> k + 1" "header_valid (word_at bo d (s + k))" "\<not> sync_at bo d (s + k)"
              "\<forall>k'. j + 627 \<le> k' + 1 \<and> k' < k \<and> searched k' \<longrightarrow> \<not> sync_at bo d (s + k')"
            | "\<forall>k'. j + 627 \<le> k' + 1 \<and> searched k' \<and> k' + 1 < m \<and> s + ((k' + 1) div 627 + 1) * 627 \<le> length d \<longrightarrow>
                \<not> sync_at bo d (s + k')"
            by blast
          then show "(\<exists>k. j \<le> k + 1 \<and> header_valid (word_at bo d (s + k)) \<and> \<not> sync_at bo d (s + k) \<and>
        (\<forall>k'. j \<le> k' + 1 \<and> k' < k \<and> searched k' \<longrightarrow> \<not> sync_at bo d (s + k'))) \<or>
      (\<forall>k'. j \<le> k' + 1 \<and> searched k' \<and> k' + 1 < m \<and> s + ((k' + 1) div 627 + 1) * 627 \<le> length d \<longrightarrow>
        \<not> sync_at bo d (s + k'))"
          proof cases
            case (1 k)
            have "j \<le> k + 1" using 1(1) by simp
            then show ?thesis using 1 all by blast
          next
            case 2
            then show ?thesis using all by blast
          qed
        qed
        with suc show ?thesis
          unfolding step NotFound sync_result.case using IH(1,2) by blast
      qed
    qed
  qed
qed

text \<open>The whole search. The last part says when it succeeds.\<close>

lemma find_sync_at:
  assumes "pos_at F d p" "iLocalFileSizeSet P \<longrightarrow> iLocalFileSize P = int (length d)"
  shows "\<exists>err off P' F'. mp3FindSync bo io P seekPoint F = Some (err, off, P', F') \<and> (\<exists>q. pos_at F' d q) \<and>
    (err = MP3_SUCCESS \<longrightarrow> pos_at F' d p \<and> (\<exists>k. off = int k \<and> sync_at bo d (p + k) \<and> searched k \<and>
      (\<forall>k' < k. searched k' \<longrightarrow> \<not> sync_at bo d (p + k')))) \<and>
    (\<forall>k. sync_at bo d (p + k) \<and> searched k \<and> (\<forall>k' < k. \<not> header_valid (word_at bo d (p + k'))) \<and>
       iLocalFileSizeSet P \<and> 0 \<le> seekPoint \<and> seekPoint + 627 \<le> int (length d) \<and>
       int k + 1 < iInitSearchFileSize P \<and>
       p + ((k + 1) div 627 + 1) * 627 \<le> length d \<longrightarrow> err = MP3_SUCCESS \<and> off = int k)"
proof -
  note le = atD [OF assms(1)]
  have cap: "GetFileBufferingCapacity F = 0" "GetContentLength F = 0"
    by (simp_all add: GetFileBufferingCapacity_def GetContentLength_def)
  show ?thesis
  proof (cases "iLocalFileSize P \<noteq> 0 \<and> to_u32 (seekPoint + int iMaxSyncBufferSize) > iLocalFileSize P")
    case True
    have "\<not> (iLocalFileSizeSet P \<and> 0 \<le> seekPoint \<and> seekPoint + 627 \<le> int (length d))"
      using True assms(2) le by (auto simp: iMaxSyncBufferSize_def in_range)
    moreover have "mp3FindSync bo io P seekPoint F = Some (MP3_INSUFFICIENT_DATA, 0, P, F)"
      using True cap by (simp add: mp3FindSync_def)
    ultimately show ?thesis using assms(1) by (intro exI conjI) blast+
  next
    case False
    obtain F0 where F0: "GetRemainingBytes io F = (Some (int (length d) - int p), F0)" "pos_at F0 d p"
      by (rule remaining_at [OF assms(1)])
    define m1 where "m1 = (if iLocalFileSizeSet P
        then (min (iInitSearchFileSize P) (to_u32 (iLocalFileSize P - to_u32 (pv_tell io F))), F)
        else (min (iInitSearchFileSize P) (to_u32 (to_u32 (pv_tell io F0) + (int (length d) - int p) - to_u32 (pv_tell io F))), F0))"
    have at1: "pos_at (snd m1) d (p + 0)" using assms(1) F0(2) by (simp add: m1_def)
    obtain err off F2 where bl: "sync_blocks bo io (nat (fst m1)) 0 0 (snd m1) = Some (err, off, F2)" "\<exists>q. pos_at F2 d q"
      "err = MP3_SUCCESS \<longrightarrow> pos_at F2 d p \<and> (\<exists>k. off = int k \<and> sync_at bo d (p + k) \<and> searched k \<and>
        (\<forall>k'. 0 \<le> k' + 1 \<and> k' < k \<and> searched k' \<longrightarrow> \<not> sync_at bo d (p + k')))"
      and fail: "err \<noteq> MP3_SUCCESS \<longrightarrow>
        (\<exists>k. 0 \<le> k + 1 \<and> header_valid (word_at bo d (p + k)) \<and> \<not> sync_at bo d (p + k) \<and>
          (\<forall>k'. 0 \<le> k' + 1 \<and> k' < k \<and> searched k' \<longrightarrow> \<not> sync_at bo d (p + k'))) \<or>
        (\<forall>k'. 0 \<le> k' + 1 \<and> searched k' \<and> k' + 1 < nat (fst m1) \<and> p + ((k' + 1) div 627 + 1) * 627 \<le> length d \<longrightarrow>
          \<not> sync_at bo d (p + k'))"
      using sync_blocks_at [OF at1, of 0 bo "nat (fst m1)"] by auto
    have start: "mp3FindSync bo io P seekPoint F =
        (if err \<noteq> MP3_SUCCESS then Some (err, 0, P, F2)
         else if iLocalFileSizeSet P
         then Some (MP3_SUCCESS, off, P\<lparr>iInitSearchFileSize := iLocalFileSize P\<rparr>, F2)
         else case GetRemainingBytes io F2 of
           (Some remBytes, F3) \<Rightarrow> Some (MP3_SUCCESS, off, P\<lparr>iInitSearchFileSize := min (iInitSearchFileSize P) remBytes\<rparr>, F3)
         | (None, F3) \<Rightarrow> Some (MP3_SUCCESS, off, P, F3))"
      using cap False F0(1) bl(1) unfolding mp3FindSync_def m1_def
      by (cases "iLocalFileSizeSet P") (auto simp: Let_def)
    have finds: "err = MP3_SUCCESS \<and> off = int k"
      if k: "sync_at bo d (p + k)" "searched k" "\<forall>k' < k. \<not> header_valid (word_at bo d (p + k'))" "iLocalFileSizeSet P"
        "int k + 1 < iInitSearchFileSize P" "p + ((k + 1) div 627 + 1) * 627 \<le> length d" for k
    proof -
      have kd: "k + 1 < ((k + 1) div 627 + 1) * 627" using dividend_less_div_times [of 627 "k + 1"] by simp
      have "fst m1 = min (iInitSearchFileSize P) (int (length d) - int p)"
        using k(4) assms(2) le by (simp add: m1_def tell_at [OF assms(1)] in_range)
      then have m: "k + 1 < nat (fst m1)" using k(5,6) kd by auto
      have none: "\<not> sync_at bo d (p + k')" if "k' < k" for k'
        using that k(3) by (auto simp: sync_at_def frame_chain_def)
      have "err = MP3_SUCCESS"
      proof (rule ccontr)
        assume "err \<noteq> MP3_SUCCESS"
        with fail consider k0 where "header_valid (word_at bo d (p + k0))" "\<not> sync_at bo d (p + k0)"
            "\<forall>k'. k' < k0 \<and> searched k' \<longrightarrow> \<not> sync_at bo d (p + k')"
          | "\<not> sync_at bo d (p + k)" using k(1,2,6) m by auto
        then show False
        proof cases
          case (1 k0)
          then have "\<not> k0 < k" "k0 \<noteq> k" "\<not> k < k0" using k by auto
          then show ?thesis by linarith
        qed (use k(1) in simp)
      qed
      then obtain k1 where k1: "off = int k1" "sync_at bo d (p + k1)" "\<forall>k'. k' < k1 \<and> searched k' \<longrightarrow> \<not> sync_at bo d (p + k')"
        using bl(3) by auto
      have "\<not> k1 < k" "\<not> k < k1" using none k1(2,3) k(1,2) by auto
      then show ?thesis using \<open>err = MP3_SUCCESS\<close> k1(1) by simp
    qed
    show ?thesis
    proof (cases "err = MP3_SUCCESS")
      case False
      then show ?thesis using start bl(2) finds by auto
    next
      case True
      then have at2: "pos_at F2 d p" using bl(3) by simp
      obtain F3 where F3: "GetRemainingBytes io F2 = (Some (int (length d) - int p), F3)" "pos_at F3 d p"
        by (rule remaining_at [OF at2])
      have "\<exists>P' F'. mp3FindSync bo io P seekPoint F = Some (MP3_SUCCESS, off, P', F') \<and> pos_at F' d p"
        using start True at2 F3 by (cases "iLocalFileSizeSet P") auto
      then show ?thesis using bl(3) True finds by blast
    qed
  qed
qed

end

text \<open>The search changes nothing of the parser but the search limit, on a file.\<close>

lemma find_sync_limit:
  assumes "mp3FindSync bo io P seekPoint F = Some (err, off, P', F')"
  shows "P' = P\<lparr>iInitSearchFileSize := iInitSearchFileSize P'\<rparr>"
    "err = MP3_SUCCESS \<Longrightarrow> iLocalFileSizeSet P \<Longrightarrow> iInitSearchFileSize P' = iLocalFileSize P"
  using assms
  by (auto simp: mp3FindSync_def GetFileBufferingCapacity_def Let_def
      split: if_splits prod.splits option.splits Option.bind_splits)

text \<open>With the bytes of header words reversed, frames need two bytes \<open>0xFF\<close> that are three apart.\<close>

lemma no_reversed_sync:
  assumes "\<forall>q. q + 4 \<le> length d \<longrightarrow> \<not> (d ! q = 0xFF \<and> d ! (q + 3) = 0xFF)"
  shows "\<not> sync_at repository_byte_order d q"
proof
  assume "sync_at repository_byte_order d q"
  then have q: "sync_at BIG_ENDIAN d q" by (simp add: repository_byte_order_def)
  then have "header_valid (SwapFileToHostByteOrderInt32 LITTLE_ENDIAN (d ! (q + 3)) (d ! (q + 2)) (d ! (q + 1)) (d ! q))"
    by (simp add: sync_at_def frame_chain_def word_at_def SwapFileToHostByteOrderInt32_def)
  then have "d ! (q + 3) = 0xFF" by (rule header_valid_pattern)
  moreover have "d ! q = 0xFF" "q + 4 \<le> length d"
    using q by (auto simp: sync_at_def sync_pattern_def frame_chain_def Let_def)
  ultimately show False using assms by blast
qed

section \<open>Properties\<close>

text \<open>
  C13. \<open>IsValidFrameHeader\<close> leaves the file where it was on every path, and accepts a header exactly when
  it is a valid Layer III header and the three frames that follow, each at the length of the one before,
  lie in the file with the same sampling rate and number of channels.
\<close>

theorem IsValidFrameHeader_accepts:
  assumes "file_at F d p" "p + 4 \<le> length d"
  shows "\<exists>err crc F'. IsValidFrameHeader bo cached_file (take 4 (drop p d)) F = Some (err, crc, F') \<and> file_at F' d p \<and>
    (err = MP3_SUCCESS \<longleftrightarrow> frame_chain bo d p (word_at bo d p))"
  by (rule cached.is_valid_at [OF assms(1) swap32_word [OF assms(2)]]) blast

text \<open>
  C7. \<open>mp3FindSync\<close> returns the first offset that it searches where four frames follow each other, with
  the file back where it was; whatever it returns, it stays inside the file and its buffer. It does
  not search all offsets: of every 627 three are never tried, so a first frame there is missed.
\<close>

theorem mp3FindSync_first:
  assumes "file_at F d p" "iLocalFileSizeSet P \<longrightarrow> iLocalFileSize P = int (length d)"
  shows "\<exists>err off P' F'. mp3FindSync bo cached_file P seekPoint F = Some (err, off, P', F') \<and> (\<exists>q. file_at F' d q) \<and>
    (err = MP3_SUCCESS \<longrightarrow> file_at F' d p \<and> (\<exists>k. off = int k \<and> sync_at bo d (p + k) \<and> searched k \<and>
      (\<forall>k' < k. searched k' \<longrightarrow> \<not> sync_at bo d (p + k'))))"
  using cached.find_sync_at [OF assms, of bo seekPoint] by blast

text \<open>
  C8. The search finds what it should, in a local file of known size: when four frames follow each other at a
  searched offset (three of every 627 are never tried) inside the search limit, no valid header of any kind comes
  before them, and the block of 627 bytes that they start in is complete, \<open>mp3FindSync\<close> succeeds with that
  offset. (A file that ends inside the block is given up.)
\<close>

theorem mp3FindSync_finds:
  assumes "file_at F d p" "iLocalFileSizeSet P" "iLocalFileSize P = int (length d)"
    and "sync_at bo d (p + k)" "searched k" "\<forall>k' < k. \<not> header_valid (word_at bo d (p + k'))"
    and "int k + 1 < iInitSearchFileSize P" "p + ((k + 1) div 627 + 1) * 627 \<le> length d"
  shows "\<exists>P' F'. mp3FindSync bo cached_file P (int p) F = Some (MP3_SUCCESS, int k, P', F') \<and> (\<exists>q. file_at F' d q)"
proof -
  have size: "iLocalFileSizeSet P \<longrightarrow> iLocalFileSize P = int (length d)" using assms(3) by simp
  have room: "int p + 627 \<le> int (length d)" using assms(8) by simp
  obtain err off P' F' where r: "mp3FindSync bo cached_file P (int p) F = Some (err, off, P', F')" "\<exists>q. file_at F' d q"
    and c: "\<forall>k. sync_at bo d (p + k) \<and> searched k \<and> (\<forall>k' < k. \<not> header_valid (word_at bo d (p + k'))) \<and>
       iLocalFileSizeSet P \<and> 0 \<le> int p \<and> int p + 627 \<le> int (length d) \<and> int k + 1 < iInitSearchFileSize P \<and>
       p + ((k + 1) div 627 + 1) * 627 \<le> length d \<longrightarrow> err = MP3_SUCCESS \<and> off = int k"
    using cached.find_sync_at [OF assms(1) size, of bo "int p"] by (elim exE conjE) (rule that, assumption, rule exI, assumption, assumption)
  have "err = MP3_SUCCESS \<and> off = int k"
    by (rule c [rule_format]) (intro conjI assms(2,4,5,6,7,8) of_nat_0_le_iff room)
  then show ?thesis using r by blast
qed

text \<open>
  C35. The search as the repository configures it, with the macro of the other byte order: a header word
  is then read with its bytes reversed. A file without two bytes \<open>0xFF\<close> that are three apart, which is
  what headers of real files are like, has no frame for \<open>mp3FindSync\<close>, wherever its frames are.
\<close>

theorem mp3FindSync_repository_order:
  assumes "file_at F d p" "iLocalFileSizeSet P \<longrightarrow> iLocalFileSize P = int (length d)"
    and "\<forall>q. q + 4 \<le> length d \<longrightarrow> \<not> (d ! q = 0xFF \<and> d ! (q + 3) = 0xFF)"
  shows "\<exists>err off P' F'. mp3FindSync repository_byte_order cached_file P seekPoint F = Some (err, off, P', F') \<and>
    err \<noteq> MP3_SUCCESS"
  using cached.find_sync_at [OF assms(1,2), of repository_byte_order seekPoint] no_reversed_sync [OF assms(3)] by blast

text \<open>Four frames of 24 bytes (MPEG 2, 8 kbit/s, 24 kHz, mono) behind a zero byte.\<close>

definition demo_frame :: "u8 list" where
  "demo_frame = [0xFF, 0xF3, 0x14, 0xC0, 0, 0, 0, 0, 0, 0, 0, 0, 0, 0, 0, 0, 0, 0, 0, 0, 0, 0, 0, 0]"

definition demo_file :: "u8 list" where
  "demo_file = 0 # demo_frame @ demo_frame @ demo_frame @ demo_frame @ replicate 552 0"

lemma demo_header:
  "header_valid 0xFFF314C0" "frame_len 0xFFF314C0 = 24"
proof -
  let ?i = "\<lparr>frameVer = 2, layerID = 1, crcFollows = 1, brIndex = 1, srIndex = 1, prvBit = 0, padBit = 0,
     chMode = 3, modeExtn = 0, frameSize = 0\<rparr>"
  have 1: "GetMP3Header 0xFFF314C0 = (True, ?i)"
    by (simp add: GetMP3Header_def Let_def frame_constants field_def in_range zero_header_def)
  have 2: "decode_header ?i = Some (True, \<lparr>SamplingRate = 24000, BitRate = 8000, FrameLengthInBytes = 24,
      FrameSizeUnComp = 576, NumberOfChannels = 1\<rparr>)"
    by (simp add: decode_header_def bit_rate_def rdi2_def rdi_def rd_def mp3_tables in_range frame_length_def
        samples_of_frame_def channels_of_def)
  show "header_valid 0xFFF314C0" "frame_len 0xFFF314C0 = 24"
    using 1 2 by (simp_all add: header_valid_def frame_len_def config_of_def)
qed

lemma demo_words:
  "word_at LITTLE_ENDIAN demo_file 0 = 0x00FFF314" "word_at LITTLE_ENDIAN demo_file 1 = 0xFFF314C0" "word_at LITTLE_ENDIAN demo_file 25 = 0xFFF314C0"
  "word_at LITTLE_ENDIAN demo_file 49 = 0xFFF314C0" "word_at LITTLE_ENDIAN demo_file 73 = 0xFFF314C0" "length demo_file = 649"
  by (simp_all add: word_at_def demo_file_def demo_frame_def swap_little_endian nth_append)

lemma demo_sync: "sync_at LITTLE_ENDIAN demo_file 1" "\<not> header_valid (word_at LITTLE_ENDIAN demo_file 0)"
proof -
  show "sync_at LITTLE_ENDIAN demo_file 1"
    using demo_header demo_words by (simp add: sync_at_little_endian frame_chain_def Let_def same_audio_def)
  show "\<not> header_valid (word_at LITTLE_ENDIAN demo_file 0)"
    by (simp add: demo_words header_valid_def GetMP3Header_def frame_constants)
qed

lemma demo_open: "file_at (pv_open (replicate 4096 0) demo_file) demo_file 0"
  by (rule pv_open_at) (simp_all add: demo_words)

theorem mp3FindSync_finds_witness:
  "\<exists>P' F'. mp3FindSync LITTLE_ENDIAN cached_file \<lparr>iLocalFileSize = 649, iInitSearchFileSize = 649, iLocalFileSizeSet = True\<rparr> 0
      (pv_open (replicate 4096 0) demo_file) = Some (MP3_SUCCESS, 1, P', F') \<and> (\<exists>q. file_at F' demo_file q)"
  using mp3FindSync_finds [OF demo_open, of "\<lparr>iLocalFileSize = 649, iInitSearchFileSize = 649, iLocalFileSizeSet = True\<rparr>" LITTLE_ENDIAN 1]
    demo_sync by (simp add: demo_words searched_def)

theorem mp3FindSync_first_witness:
  "\<exists>err off P' F'. mp3FindSync LITTLE_ENDIAN cached_file \<lparr>iLocalFileSize = 649, iInitSearchFileSize = 649, iLocalFileSizeSet = True\<rparr> 0
      (pv_open (replicate 4096 0) demo_file) = Some (err, off, P', F') \<and> (\<exists>q. file_at F' demo_file q) \<and>
    (err = MP3_SUCCESS \<longrightarrow> file_at F' demo_file 0)"
  using mp3FindSync_first [OF demo_open, of "\<lparr>iLocalFileSize = 649, iInitSearchFileSize = 649, iLocalFileSizeSet = True\<rparr>" LITTLE_ENDIAN 0]
  by (fastforce simp: demo_words)

theorem IsValidFrameHeader_accepts_witness:
  "\<exists>err crc F'. IsValidFrameHeader LITTLE_ENDIAN cached_file (take 4 (drop 0 demo_file)) (pv_open (replicate 4096 0) demo_file) =
      Some (err, crc, F') \<and> file_at F' demo_file 0 \<and> (err = MP3_SUCCESS \<longleftrightarrow> frame_chain LITTLE_ENDIAN demo_file 0 (word_at LITTLE_ENDIAN demo_file 0))"
  by (rule IsValidFrameHeader_accepts [OF demo_open]) (simp add: demo_words)

theorem mp3FindSync_repository_order_witness:
  "(\<exists>err off P' F'. mp3FindSync repository_byte_order cached_file \<lparr>iLocalFileSize = 649, iInitSearchFileSize = 649,
      iLocalFileSizeSet = True\<rparr> 0 (pv_open (replicate 4096 0) demo_file) = Some (err, off, P', F') \<and> err \<noteq> MP3_SUCCESS) \<and>
   sync_at LITTLE_ENDIAN demo_file 1"
proof -
  define fs where "fs = 0 # demo_frame @ demo_frame @ demo_frame @ demo_frame"
  have d: "demo_file = fs @ replicate 552 0" "length fs = 97" by (simp_all add: demo_file_def fs_def demo_frame_def)
  have all: "list_all (\<lambda>(a, b). \<not> (a = 0xFF \<and> b = 0xFF)) (zip fs (drop 3 fs))"
    by (simp add: fs_def demo_frame_def)
  have "\<not> (fs ! q = 0xFF \<and> fs ! (q + 3) = 0xFF)" if "q < 94" for q
    using all [unfolded list_all_length, rule_format, of q] that by (simp add: d(2) add.commute)
  then have "\<not> (demo_file ! q = 0xFF \<and> demo_file ! (q + 3) = 0xFF)" if "q + 4 \<le> length demo_file" for q
    using that by (cases "q < 94") (auto simp: d nth_append)
  then have no: "\<forall>q. q + 4 \<le> length demo_file \<longrightarrow> \<not> (demo_file ! q = 0xFF \<and> demo_file ! (q + 3) = 0xFF)"
    by blast
  show ?thesis
    by (intro conjI mp3FindSync_repository_order [OF demo_open _ no] demo_sync(1)) (simp add: demo_words)
qed

end
