(* ===== verification/CFloat.thy ===== *)
theory CFloat
  imports CInt "HOL-Library.Log_Nat"
begin

text \<open>
  The \<open>OsclFloat\<close> of the parsers (C's \<open>float\<close>, IEEE 754 binary32, on a target that computes in that
  format): a value is the rational number it stands for, and \<open>fl32\<close> rounds an exact result to the
  nearest value, ties to even. The largest magnitudes of this program are below \<open>2 ^ 64\<close>, so no
  overflow to infinity is modelled.
\<close>

section \<open>Rounding\<close>

definition round_even :: "rat \<Rightarrow> int" where
  "round_even x = (let f = \<lfloor>x\<rfloor>; r = x - of_int f
     in if r < 1 / 2 then f else if 1 / 2 < r then f + 1 else if even f then f else f + 1)"

text \<open>The binary exponent of a positive number: \<open>2 powi e \<le> x < 2 powi (e + 1)\<close>.\<close>

definition exponent :: "rat \<Rightarrow> int" where
  "exponent x = (if 1 \<le> x then int (floorlog 2 (nat \<lfloor>x\<rfloor>)) - 1 else - int (floorlog 2 (nat (\<lceil>1 / x\<rceil> - 1))))"

definition quantum :: "rat \<Rightarrow> int" where
  "quantum x = max (exponent x - 23) (- 149)"

definition round_pos :: "rat \<Rightarrow> rat" where
  "round_pos x = of_int (round_even (x / 2 powi quantum x)) * 2 powi quantum x"

definition fl32 :: "rat \<Rightarrow> rat" where
  "fl32 x = (if x = 0 then 0 else if 0 < x then round_pos x else - round_pos (- x))"

text \<open>Conversion to an integer type: towards zero, undefined outside the type.\<close>

definition trunc :: "rat \<Rightarrow> int" where
  "trunc x = (if 0 \<le> x then \<lfloor>x\<rfloor> else \<lceil>x\<rceil>)"

definition float_to_u32 :: "rat \<Rightarrow> int option" where
  "float_to_u32 x = (if 0 \<le> trunc x \<and> trunc x < 4294967296 then Some (trunc x) else None)"

definition float_to_s32 :: "rat \<Rightarrow> int option" where
  "float_to_s32 x = (if - 2147483648 \<le> trunc x \<and> trunc x < 2147483648 then Some (trunc x) else None)"

section \<open>Rounding to an integer\<close>

lemma round_even_cases: "round_even x = \<lfloor>x\<rfloor> \<or> round_even x = \<lfloor>x\<rfloor> + 1"
  by (simp add: round_even_def Let_def)

lemma round_even_int [simp]: "round_even (of_int n) = n"
  by (simp add: round_even_def)

lemma round_even_error: "\<bar>of_int (round_even x) - x\<bar> \<le> 1 / 2"
proof -
  define f where "f = \<lfloor>x\<rfloor>"
  have f: "of_int f \<le> x" "x < of_int f + 1" unfolding f_def by linarith+
  have "round_even x = f \<and> x - of_int f \<le> 1 / 2 \<or> round_even x = f + 1 \<and> 1 / 2 \<le> x - of_int f"
    by (auto simp: round_even_def Let_def f_def [symmetric])
  then show ?thesis
  proof (elim disjE conjE)
    assume r: "round_even x = f" "x - of_int f \<le> 1 / 2"
    show ?thesis unfolding r(1) using f r(2) by linarith
  next
    assume r: "round_even x = f + 1" "1 / 2 \<le> x - of_int f"
    show ?thesis unfolding r(1) of_int_add of_int_1 using f r(2) by linarith
  qed
qed

lemma round_even_mono: "x \<le> y \<Longrightarrow> round_even x \<le> round_even y"
proof (cases "\<lfloor>x\<rfloor> = \<lfloor>y\<rfloor>")
  case True
  assume "x \<le> y"
  then show ?thesis using True by (auto simp: round_even_def Let_def)
next
  case False
  assume "x \<le> y"
  then have "\<lfloor>x\<rfloor> + 1 \<le> \<lfloor>y\<rfloor>" using False floor_mono [of x y] by linarith
  then show ?thesis using round_even_cases [of x] round_even_cases [of y] by linarith
qed

section \<open>The exponent\<close>

lemma floorlog_bounds: "0 < n \<Longrightarrow> 2 ^ (floorlog 2 n - 1) \<le> n \<and> n < 2 ^ floorlog 2 n \<and> 0 < floorlog 2 n"
  using floorlog_bounds [of n 2] floorlog_eq_zero_iff [of 2 n] by auto

lemma exponent_bounds:
  assumes "0 < x"
  shows "2 powi exponent x \<le> x" "x < 2 powi (exponent x + 1)"
proof -
  have "2 powi exponent x \<le> x \<and> x < 2 powi (exponent x + 1)"
  proof (cases "1 \<le> x")
    case True
    let ?n = "nat \<lfloor>x\<rfloor>"
    have "0 < ?n" using True by simp
    note b = floorlog_bounds [OF this]
    have e: "exponent x = int (floorlog 2 ?n - 1)" "exponent x + 1 = int (floorlog 2 ?n)"
      using True b by (simp_all add: exponent_def)
    have "(of_nat (2 ^ (floorlog 2 ?n - 1)) :: rat) \<le> of_nat ?n" using b by (simp only: of_nat_le_iff)
    also have "of_nat ?n \<le> x" using True by simp
    finally have lo: "2 ^ (floorlog 2 ?n - 1) \<le> x" by simp
    have "?n + 1 \<le> 2 ^ floorlog 2 ?n" using b by linarith
    then have "(of_nat (?n + 1) :: rat) \<le> of_nat (2 ^ floorlog 2 ?n)" by (simp only: of_nat_le_iff)
    moreover have "x < of_nat (?n + 1)" using True by simp linarith
    ultimately have "x < 2 ^ floorlog 2 ?n" by simp
    with lo show ?thesis unfolding e(2) unfolding e(1) power_int_of_nat by simp
  next
    case False
    let ?n = "nat (\<lceil>1 / x\<rceil> - 1)"
    have y: "1 < 1 / x" using assms False by simp
    then have "2 \<le> \<lceil>1 / x\<rceil>" by linarith
    then have "0 < ?n" "int ?n = \<lceil>1 / x\<rceil> - 1" by linarith+
    then have n: "0 < ?n" "of_nat ?n = of_int \<lceil>1 / x\<rceil> - (1 :: rat)"
      by (simp, metis of_int_of_nat_eq of_int_diff of_int_1)
    note b = floorlog_bounds [OF n(1)]
    let ?k = "floorlog 2 ?n"
    have e: "exponent x = - int ?k" using False by (simp add: exponent_def)
    have "?n + 1 \<le> 2 ^ ?k" using b by linarith
    then have "(of_nat (?n + 1) :: rat) \<le> of_nat (2 ^ ?k)" by (simp only: of_nat_le_iff)
    moreover have "1 / x \<le> of_nat (?n + 1)" using n(2) by simp
    ultimately have "1 / x \<le> 2 ^ ?k" by simp
    then have lo: "1 / 2 ^ ?k \<le> x" using assms by (simp add: field_simps)
    have "(of_nat (2 ^ (?k - 1)) :: rat) \<le> of_nat ?n" using b by (simp only: of_nat_le_iff)
    moreover have "of_nat ?n < 1 / x" using n(2) by linarith
    ultimately have "of_nat (2 ^ (?k - 1)) < 1 / x" by (rule le_less_trans)
    then have "2 ^ (?k - 1) < 1 / x" unfolding of_nat_power of_nat_numeral .
    then have "x < 1 / 2 ^ (?k - 1)" using assms by (simp add: field_simps)
    moreover have e1: "exponent x + 1 = - int (?k - 1)" using e b by linarith
    ultimately show ?thesis
      using lo unfolding e1 unfolding e power_int_minus power_int_of_nat inverse_eq_divide by blast
  qed
  then show "2 powi exponent x \<le> x" "x < 2 powi (exponent x + 1)" by simp_all
qed

lemma powi_le_cancel: "(2 :: rat) powi a < 2 powi b \<Longrightarrow> a < b"
  using power_int_increasing [of b a "2 :: rat"] by (cases "a < b") auto

lemma exponent_mono: "0 < x \<Longrightarrow> x \<le> y \<Longrightarrow> exponent x \<le> exponent y"
  using powi_le_cancel [of "exponent x" "exponent y + 1"] exponent_bounds [of x] exponent_bounds [of y] by linarith

lemma exponent_ge: "2 powi k \<le> x \<Longrightarrow> k \<le> exponent x"
proof -
  assume a: "2 powi k \<le> x"
  then have "0 < x" using zero_less_power_int [of "2 :: rat" k] by linarith
  then show ?thesis using a powi_le_cancel [of k "exponent x + 1"] exponent_bounds [of x] by linarith
qed

section \<open>The rounded value\<close>

lemma quantum_mono: "0 < x \<Longrightarrow> x \<le> y \<Longrightarrow> quantum x \<le> quantum y"
  using exponent_mono [of x y] by (simp add: quantum_def)

lemma powi_pos [simp]: "(0 :: rat) < 2 powi k"
  by (simp add: zero_less_power_int)

lemma scaled_power: "q \<le> k \<Longrightarrow> (2 powi k / 2 powi q :: rat) = of_int (2 ^ nat (k - q))"
proof -
  assume a: "q \<le> k"
  have "(2 powi k / 2 powi q :: rat) = 2 powi (k - q)" by (simp add: power_int_diff)
  also have "\<dots> = 2 ^ nat (k - q)" using a by (simp add: power_int_def)
  finally show ?thesis by simp
qed

lemma round_pos_le_power:
  assumes "x \<le> 2 powi k" "quantum x \<le> k"
  shows "round_pos x \<le> 2 powi k"
proof -
  have "round_even (x / 2 powi quantum x) \<le> round_even (2 powi k / 2 powi quantum x)"
    using assms(1) by (intro round_even_mono divide_right_mono) simp_all
  then have "round_even (x / 2 powi quantum x) \<le> 2 ^ nat (k - quantum x)"
    unfolding scaled_power [OF assms(2)] round_even_int .
  then have "(of_int (round_even (x / 2 powi quantum x)) :: rat) \<le> of_int (2 ^ nat (k - quantum x))"
    by (simp only: of_int_le_iff)
  then have "of_int (round_even (x / 2 powi quantum x)) \<le> 2 powi k / (2 powi quantum x :: rat)"
    unfolding scaled_power [OF assms(2)] .
  then show ?thesis by (simp add: round_pos_def pos_le_divide_eq)
qed

lemma round_pos_ge_power:
  assumes "2 powi k \<le> x" "quantum x \<le> k"
  shows "2 powi k \<le> round_pos x"
proof -
  have "round_even (2 powi k / 2 powi quantum x) \<le> round_even (x / 2 powi quantum x)"
    using assms(1) by (intro round_even_mono divide_right_mono) simp_all
  then have "2 ^ nat (k - quantum x) \<le> round_even (x / 2 powi quantum x)"
    unfolding scaled_power [OF assms(2)] round_even_int .
  then have "of_int (2 ^ nat (k - quantum x)) \<le> (of_int (round_even (x / 2 powi quantum x)) :: rat)"
    by (simp only: of_int_le_iff)
  then have "2 powi k / (2 powi quantum x :: rat) \<le> of_int (round_even (x / 2 powi quantum x))"
    unfolding scaled_power [OF assms(2)] .
  then show ?thesis by (simp add: round_pos_def pos_divide_le_eq)
qed

lemma round_pos_mono:
  assumes "0 < x" "x \<le> y"
  shows "round_pos x \<le> round_pos y"
proof (cases "quantum x = quantum y")
  case True
  have "round_even (x / 2 powi quantum y) \<le> round_even (y / 2 powi quantum y)"
    using assms(2) by (intro round_even_mono divide_right_mono) simp_all
  then show ?thesis unfolding round_pos_def True by (intro mult_right_mono) simp_all
next
  case False
  let ?e = "exponent y"
  have q: "quantum x < quantum y" using False quantum_mono [OF assms] by linarith
  then have e: "exponent x + 1 \<le> ?e" "quantum x \<le> ?e" "quantum y \<le> ?e"
    by (auto simp: quantum_def)
  have "x \<le> 2 powi (exponent x + 1)" using exponent_bounds [OF assms(1)] by simp
  also have "\<dots> \<le> (2 powi ?e :: rat)" using e(1) by (intro power_int_increasing) simp_all
  finally have "round_pos x \<le> 2 powi ?e" using e(2) by (rule round_pos_le_power)
  also have "\<dots> \<le> round_pos y"
    using exponent_bounds [of y] assms e(3) by (intro round_pos_ge_power) simp_all
  finally show ?thesis .
qed

lemma round_pos_nonneg: "0 < x \<Longrightarrow> 0 \<le> round_pos x"
proof -
  assume "0 < x"
  then have "0 \<le> x / 2 powi quantum x" by simp
  then have "round_even 0 \<le> round_even (x / 2 powi quantum x)" by (rule round_even_mono)
  then have "0 \<le> round_even (x / 2 powi quantum x)" using round_even_int [of 0] by simp
  then show ?thesis by (simp add: round_pos_def)
qed

lemma fl32_nonneg: "0 \<le> x \<Longrightarrow> 0 \<le> fl32 x"
  using round_pos_nonneg [of x] by (simp add: fl32_def)

lemma fl32_mono: "x \<le> y \<Longrightarrow> fl32 x \<le> fl32 y"
  using round_pos_mono [of x y] round_pos_mono [of "- y" "- x"] round_pos_nonneg [of y] round_pos_nonneg [of "- x"]
  by (auto simp: fl32_def)

text \<open>The error of one operation, above the subnormal range.\<close>

lemma fl32_error:
  assumes "2 powi (- 126) \<le> x"
  shows "\<bar>fl32 x - x\<bar> \<le> x / 2 ^ 24"
proof -
  have x: "0 < x" using assms powi_pos [of "- 126"] by linarith
  have q: "quantum x = exponent x - 23" using exponent_ge [OF assms] by (simp add: quantum_def)
  let ?u = "2 powi quantum x :: rat"
  have "\<bar>of_int (round_even (x / ?u)) - x / ?u\<bar> * ?u \<le> 1 / 2 * ?u"
    by (intro mult_right_mono round_even_error) simp
  moreover have "\<bar>of_int (round_even (x / ?u)) - x / ?u\<bar> * ?u = \<bar>(of_int (round_even (x / ?u)) - x / ?u) * ?u\<bar>"
    by (simp add: abs_mult)
  moreover have "(of_int (round_even (x / ?u)) - x / ?u) * ?u = fl32 x - x"
    using x by (simp add: fl32_def round_pos_def left_diff_distrib)
  ultimately have "\<bar>fl32 x - x\<bar> \<le> ?u / 2" by simp
  also have "?u / 2 = 2 powi exponent x / 2 ^ 24"
    unfolding q by (simp add: power_int_diff)
  also have "\<dots> \<le> x / 2 ^ 24" using exponent_bounds(1) [OF x] by (intro divide_right_mono) simp_all
  finally show ?thesis .
qed

text \<open>Numbers of at most 24 significant bits are exact.\<close>

lemma fl32_exact_pos:
  assumes "0 < n" "n \<le> 2 ^ 24" "- 149 \<le> k"
  shows "fl32 (of_int n * 2 powi k) = of_int n * 2 powi k"
proof -
  let ?x = "of_int n * 2 powi k :: rat"
  have x: "0 < ?x" using assms(1) by simp
  have "(of_int n :: rat) \<le> of_int (2 ^ 24)" using assms(2) by (simp only: of_int_le_iff)
  then have "?x \<le> 2 powi 24 * 2 powi k" by (intro mult_right_mono) simp_all
  also have "\<dots> = (2 powi (24 + k) :: rat)" by (simp add: power_int_add)
  finally have le: "?x \<le> 2 powi (24 + k)" .
  show ?thesis
  proof (cases "?x = 2 powi (24 + k)")
    case True
    then have "exponent ?x \<le> 24 + k"
      using powi_le_cancel [of "exponent ?x" "25 + k"] exponent_bounds(1) [OF x]
        power_int_strict_increasing [of "24 + k" "25 + k" "2 :: rat"] by simp
    then have "quantum ?x \<le> 24 + k" using assms(3) by (simp add: quantum_def)
    then have "round_pos ?x = 2 powi (24 + k)"
      unfolding True by (intro antisym round_pos_le_power round_pos_ge_power) simp_all
    then show ?thesis using x True by (simp add: fl32_def)
  next
    case False
    then have "2 powi exponent ?x < (2 powi (24 + k) :: rat)" using le exponent_bounds(1) [OF x] by linarith
    then have "quantum ?x \<le> k" using powi_le_cancel [of "exponent ?x" "24 + k"] assms(3) by (simp add: quantum_def)
    then have "?x / 2 powi quantum ?x = of_int (n * 2 ^ nat (k - quantum ?x))"
      using scaled_power [of "quantum ?x" k] unfolding times_divide_eq_right [symmetric] by simp
    then have "of_int (round_even (?x / 2 powi quantum ?x)) = ?x / 2 powi quantum ?x"
      by (simp only: round_even_int)
    then have "round_pos ?x = ?x" unfolding round_pos_def by simp
    then show ?thesis using x by (simp add: fl32_def)
  qed
qed

lemma fl32_int: "\<bar>n\<bar> \<le> 2 ^ 24 \<Longrightarrow> fl32 (of_int n) = of_int n"
proof -
  assume n: "\<bar>n\<bar> \<le> 2 ^ 24"
  consider "n = 0" | "0 < n" | "n < 0" by linarith
  then show ?thesis
  proof cases
    case 2
    then show ?thesis using fl32_exact_pos [of n 0] n by simp
  next
    case 3
    then show ?thesis using fl32_exact_pos [of "- n" 0] n by (simp add: fl32_def)
  qed (simp add: fl32_def)
qed

lemma fl32_0 [simp]: "fl32 0 = 0"
  by (simp add: fl32_def)

lemma trunc_mono: "x \<le> y \<Longrightarrow> trunc x \<le> trunc y"
  by (auto simp: trunc_def floor_mono ceiling_mono intro: order_trans [of _ 0])

end
