(* ===== verification/Mp3State.thy ===== *)
theory Mp3State
  imports Mp3Vbr Mp3Sync CFloat
begin

text \<open>
  The state of \<open>MP3Parser\<close> (\<open>pvmi/mp3parser.h\<close>), its constructor, the averages that
  \<open>DecodeMP3Header\<close> keeps, and the durations and timestamps it computes in \<open>float\<close>. The ID3 parser
  inside the parser answers here through two fields, whether it saw a tag of version 1 and of
  version 2. \<open>None\<close> is a division by zero or a conversion of a \<open>float\<close> that does not fit.
\<close>

section \<open>The state\<close>

definition MAX_TOC_ENTRY_COUNT :: nat where "MAX_TOC_ENTRY_COUNT = 200"
definition ID3_V1_TAG_SIZE :: int where "ID3_V1_TAG_SIZE = 128"

record mp3_parser = mp3_sync +
  iFileSizeFromExternalSource :: int
  iEnableCrcCalc :: bool
  mp3Type :: mp3_type
  iTagSize :: int
  StartOffset :: int
  iCurrFrameNumber :: int
  ConfigSize :: int
  ConfigData :: "u8 list"
  iNumberOfFrames :: int
  iAvgBitrateInbps :: int
  iAvgBitrateInbpsFromRandomScan :: int
  iAvgBitrateInbpsFromCompleteScan :: int
  iScannedFrameCount :: int
  iDurationScanComplete :: bool
  iClipDurationInMsec :: int
  iClipDurationFromEstimation :: int
  iClipDurationComputed :: int
  iClipDurationFromVBRIHeader :: int
  iClipDurationFromRandomScan :: int
  iClipDurationFromMetadata :: int
  iSamplesPerFrame :: int
  iSamplingRate :: int
  iTimestamp :: int
  iFirstScan :: bool
  iLastScanPosition :: int
  iTOC :: "int list option"
  iTOCFilledCount :: nat
  iTimestampPrev :: int
  iScanTimestamp :: int
  iBinWidth :: int
  iMP3ConfigInfo :: mp3_config
  iMP3HeaderInfo :: mp3_header
  iXingHeader :: xing_header
  iVbriHeader :: vbri_header
  iID3V1Present :: bool
  iID3V2Present :: bool

text \<open>The constructor; \<open>iLastScanPosition\<close>, which it does not initialise, is an argument.\<close>

definition MP3Parser :: "int \<Rightarrow> mp3_parser" where
  "MP3Parser garbage =
    \<lparr>iLocalFileSize = 0, iInitSearchFileSize = KMAX_INITIAL_SEARCH_FILE_SIZE_IN_BYTES, iLocalFileSizeSet = False,
     iFileSizeFromExternalSource = 0, iEnableCrcCalc = False, mp3Type = EVBRType, iTagSize = 0, StartOffset = 0,
     iCurrFrameNumber = 0, ConfigSize = 0, ConfigData = [0, 0, 0, 0], iNumberOfFrames = 0, iAvgBitrateInbps = 0,
     iAvgBitrateInbpsFromRandomScan = 0, iAvgBitrateInbpsFromCompleteScan = 0, iScannedFrameCount = 0,
     iDurationScanComplete = False, iClipDurationInMsec = 0, iClipDurationFromEstimation = 0,
     iClipDurationComputed = 0, iClipDurationFromVBRIHeader = 0, iClipDurationFromRandomScan = 0,
     iClipDurationFromMetadata = 0, iSamplesPerFrame = 0, iSamplingRate = 0, iTimestamp = 0, iFirstScan = True,
     iLastScanPosition = garbage, iTOC = None, iTOCFilledCount = 0, iTimestampPrev = 0, iScanTimestamp = 0,
     iBinWidth = 0, iMP3ConfigInfo = zero_config, iMP3HeaderInfo = zero_header, iXingHeader = zero_xing,
     iVbriHeader = zero_vbri, iID3V1Present = False, iID3V2Present = False\<rparr>"

section \<open>DecodeMP3Header with its averages\<close>

definition needs_average :: "mp3_parser \<Rightarrow> bool" where
  "needs_average P \<longleftrightarrow> mp3Type P \<noteq> EVBRIType \<and>
     (mp3Type P = EXINGType \<and> \<not> has_flag (xing_flags (iXingHeader P)) TOC_FLAG \<and>
        \<not> has_flag (xing_flags (iXingHeader P)) FRAMES_FLAG \<or> mp3Type P = EVBRType)"

text \<open>The running average of the bit rates, from the second frame on.\<close>

definition new_average :: "mp3_config \<Rightarrow> int \<Rightarrow> int \<Rightarrow> int" where
  "new_average c iCurr avg =
     (if BitRate c \<le> 0 then avg
      else let avg = (if iCurr = 1 then BitRate c else avg)
           in if iCurr > 1 \<and> BitRate c \<noteq> avg then to_s32 (avg + (BitRate c - avg) sdiv iCurr) else avg)"

definition average_bitrate :: "mp3_config \<Rightarrow> mp3_parser \<Rightarrow> mp3_parser option" where
  "average_bitrate c P =
     (let filesize = to_s32 (max (iFileSizeFromExternalSource P) (iLocalFileSize P));
          audioDataSize = to_u32 (filesize - StartOffset P);
          audioDataSize = (if iID3V1Present P then to_u32 (audioDataSize - ID3_V1_TAG_SIZE) else audioDataSize)
      in if FrameLengthInBytes c = 0 then None
         else Some (P\<lparr>iNumberOfFrames := to_s32 (audioDataSize div to_u32 (FrameLengthInBytes c)),
                iAvgBitrateInbps := new_average c (iCurrFrameNumber P) (iAvgBitrateInbps P)\<rparr>))"

definition DecodeMP3Header :: "mp3_header \<Rightarrow> bool \<Rightarrow> mp3_parser \<Rightarrow> (bool \<times> mp3_config \<times> mp3_parser) option" where
  "DecodeMP3Header h aComputeAvgBitrate P = do {
     (ok, c) \<leftarrow> decode_header h;
     if ok \<and> needs_average P \<and> aComputeAvgBitrate
     then do { P \<leftarrow> average_bitrate c P; Some (True, c, P) }
     else Some (ok, c, P) }"

section \<open>Durations and timestamps\<close>

definition fmul :: "rat \<Rightarrow> rat \<Rightarrow> rat" where "fmul a b = fl32 (a * b)"
definition fadd :: "rat \<Rightarrow> rat \<Rightarrow> rat" where "fadd a b = fl32 (a + b)"
definition fdiv :: "rat \<Rightarrow> rat \<Rightarrow> rat option" where "fdiv a b = (if b = 0 then None else Some (fl32 (a / b)))"
definition fint :: "int \<Rightarrow> rat" where "fint n = fl32 (of_int n)"

definition GetTimestampForSample :: "mp3_config \<Rightarrow> int \<Rightarrow> int option" where
  "GetTimestampForSample c aFrameNumber = do {
     t \<leftarrow> fdiv (fmul (fmul 1000 (fint aFrameNumber)) (fint (FrameSizeUnComp c))) (fint (SamplingRate c));
     float_to_u32 t }"

text \<open>\<open>timestamp + (OsclFloat) FrameLengthInBytes * 8000.00f / BitRate\<close>: the next timestamp.\<close>

definition next_timestamp :: "int \<Rightarrow> mp3_config \<Rightarrow> int option" where
  "next_timestamp timestamp c = do {
     d \<leftarrow> fdiv (fmul (fint (FrameLengthInBytes c)) 8000) (fint (BitRate c));
     float_to_u32 (fadd (fint timestamp) d) }"

definition GetTimestampForCurrentSample :: "mp3_parser \<Rightarrow> int" where
  "GetTimestampForCurrentSample P = iTimestamp P"

definition SetFileSize :: "int \<Rightarrow> mp3_parser \<Rightarrow> mp3_parser" where
  "SetFileSize aFileSize P = P\<lparr>iFileSizeFromExternalSource := aFileSize, iLocalFileSize := aFileSize\<rparr>"

text \<open>\<open>fileSize * 8000.00f / bitrate\<close> as \<open>uint32\<close>.\<close>

definition duration_of_size :: "int \<Rightarrow> int \<Rightarrow> int option" where
  "duration_of_size fileSize bitrate = do {
     d \<leftarrow> fdiv (fmul (fint fileSize) 8000) (fint bitrate); float_to_u32 d }"

definition invalid_frame_data :: "mp3_header \<Rightarrow> bool" where
  "invalid_frame_data h \<longleftrightarrow> srIndex h = 3 \<or> brIndex h = 15 \<or> frameVer h = 1 \<or> layerID h \<noteq> 1"

text \<open>The error, \<open>aClipDuration\<close> when it is assigned, and the parser.\<close>

definition EstimateDurationFromExternalFileSize :: "mp3_parser \<Rightarrow> (mp3_error \<times> int option \<times> mp3_parser) option" where
  "EstimateDurationFromExternalFileSize P =
     (if iClipDurationFromEstimation P > 0 then Some (MP3_SUCCESS, Some (iClipDurationFromEstimation P), P)
      else if iFileSizeFromExternalSource P \<le> 0 \<or> FrameLengthInBytes (iMP3ConfigInfo P) \<le> 0
      then Some (MP3_ERROR_UNKNOWN, Some 0, P)
      else let n = iFileSizeFromExternalSource P;
               n = (if iID3V2Present P then to_u32 (n - StartOffset P) else n);
               n = (if iID3V1Present P then to_u32 (n - ID3_V1_TAG_SIZE) else n)
           in if invalid_frame_data (iMP3HeaderInfo P) then Some (MP3_SUCCESS, None, P)
              else do {
                d \<leftarrow> duration_of_size n (iAvgBitrateInbps P);
                Some (MP3_SUCCESS, Some d, P\<lparr>iClipDurationFromEstimation := d\<rparr>) })"

definition GetDurationFromVBRIHeader :: "mp3_parser \<Rightarrow> (mp3_error \<times> int option \<times> mp3_parser) option" where
  "GetDurationFromVBRIHeader P =
     (if mp3Type P \<noteq> EVBRIType \<and> mp3Type P \<noteq> EXINGType then Some (MP3_ERROR_UNKNOWN, None, P)
      else if mp3Type P = EXINGType \<and> \<not> has_flag (xing_flags (iXingHeader P)) FRAMES_FLAG
      then Some (MP3_ERROR_UNKNOWN, None, P)
      else if iClipDurationFromVBRIHeader P > 0
      then Some (MP3_SUCCESS, Some (iClipDurationFromVBRIHeader P), P)
      else if invalid_frame_data (iMP3HeaderInfo P) then Some (MP3_ERROR_UNKNOWN, None, P)
      else do {
        q \<leftarrow> fdiv (fint (to_u32 (iNumberOfFrames P * iSamplesPerFrame P))) (fint (iSamplingRate P));
        d \<leftarrow> float_to_u32 (fmul q 1000);
        Some (MP3_SUCCESS, Some d, P\<lparr>iClipDurationFromVBRIHeader := d\<rparr>) })"

text \<open>\<open>ConvertSizeToTime\<close>: the return value and \<open>aNPTInMS\<close> when it is assigned.\<close>

definition ConvertSizeToTime :: "mp3_parser \<Rightarrow> int \<Rightarrow> (int \<times> int option) option" where
  "ConvertSizeToTime P aFileSize =
     (if iID3V2Present P \<and> iTagSize P > aFileSize then Some (- 1, None)
      else let n = (if iID3V2Present P then to_u32 (aFileSize - iTagSize P) else aFileSize);
               n = (if iID3V1Present P then to_u32 (n - ID3_V1_TAG_SIZE) else n)
           in if iAvgBitrateInbps P > 0
              then do { d \<leftarrow> duration_of_size n (iAvgBitrateInbps P); Some (0, Some d) }
              else Some (- 1, None))"

definition GetMinBytesRequired :: "'f file_ops \<Rightarrow> bool \<Rightarrow> 'f pvfile \<Rightarrow> int" where
  "GetMinBytesRequired io aNextBytes F =
     (if aNextBytes then to_u32 (KMAX_MP3FRAME_LENGTH_IN_BYTES + to_u32 (pv_tell io F)) else KMAX_MP3FRAME_LENGTH_IN_BYTES)"

text \<open>\<open>GetDurationFromCompleteScan\<close>: the duration and the parser.\<close>

definition GetDurationFromCompleteScan :: "mp3_parser \<Rightarrow> (int \<times> mp3_parser) option" where
  "GetDurationFromCompleteScan P =
     (if iClipDurationComputed P > 0 then Some (iClipDurationComputed P, P)
      else do {
        samplesPerFrame \<leftarrow> rdi2 spfIndexTable (frameVer (iMP3HeaderInfo P)) (layerID (iMP3HeaderInfo P));
        samplingRate \<leftarrow> rdi srIndexTable (frameVer (iMP3HeaderInfo P) * 4 + srIndex (iMP3HeaderInfo P));
        samplingRateinKHz \<leftarrow> fdiv (fint samplingRate) 1000;
        per_frame \<leftarrow> fdiv (fint samplesPerFrame) samplingRateinKHz;
        d \<leftarrow> float_to_u32 (fmul (fint (iScannedFrameCount P)) per_frame);
        Some (d, P\<lparr>iClipDurationComputed := d\<rparr>) })"

section \<open>How exact the timestamps are\<close>

definition ulp :: rat where "ulp = 1 / 2 ^ 24"

lemma ulp_small: "0 < ulp" "ulp < 1"
  by (simp_all add: ulp_def)

definition normal :: "rat \<Rightarrow> bool" where "normal x \<longleftrightarrow> 2 powi (- 126) \<le> x"

lemma normal_1: "1 / 2 ^ 126 \<le> x \<Longrightarrow> normal x"
  by (simp only: normal_def power_int_minus power_int_numeral inverse_eq_divide)

lemma fl32_between:
  assumes "normal x" "(1 - ulp) ^ n * y \<le> x" "x \<le> (1 + ulp) ^ n * y"
  shows "(1 - ulp) ^ Suc n * y \<le> fl32 x \<and> fl32 x \<le> (1 + ulp) ^ Suc n * y"
proof -
  have "x / 2 ^ 24 = ulp * x" by (simp add: ulp_def)
  then have "\<bar>fl32 x - x\<bar> \<le> ulp * x" using assms(1) fl32_error [of x] by (simp only: normal_def)
  then have e: "fl32 x - x \<le> ulp * x" "x - fl32 x \<le> ulp * x" by (simp_all only: abs_le_iff) linarith
  have "(1 - ulp) ^ Suc n * y \<le> (1 - ulp) * x"
    using mult_left_mono [OF assms(2), of "1 - ulp"] ulp_small by (simp add: mult.assoc)
  also have "(1 - ulp) * x \<le> fl32 x" using e(2) unfolding left_diff_distrib mult_1_left by linarith
  finally have lo: "(1 - ulp) ^ Suc n * y \<le> fl32 x" .
  have "fl32 x \<le> (1 + ulp) * x" using e(1) unfolding distrib_right mult_1_left by linarith
  also have "\<dots> \<le> (1 + ulp) ^ Suc n * y"
    using mult_left_mono [OF assms(3), of "1 + ulp"] ulp_small by (simp add: mult.assoc)
  finally show ?thesis using lo by simp
qed

lemma fint_exact: "\<bar>n\<bar> \<le> 2 ^ 24 \<Longrightarrow> fint n = of_int n"
  by (simp add: fint_def fl32_int)

lemma fint_mono: "a \<le> b \<Longrightarrow> fint a \<le> fint b"
  unfolding fint_def by (intro fl32_mono) simp

lemma fint_nonneg: "0 \<le> a \<Longrightarrow> 0 \<le> fint a"
  unfolding fint_def by (intro fl32_nonneg) simp

lemma fmul_mono: "a \<le> b \<Longrightarrow> 0 \<le> k \<Longrightarrow> fmul a k \<le> fmul b k" "a \<le> b \<Longrightarrow> 0 \<le> k \<Longrightarrow> fmul k a \<le> fmul k b"
  unfolding fmul_def by (intro fl32_mono mult_left_mono mult_right_mono; assumption)+

lemma scaled_between:
  fixes y :: rat
  assumes "(1 - ulp) ^ n * y \<le> x" "x \<le> (1 + ulp) ^ n * y" "0 \<le> k"
  shows "(1 - ulp) ^ n * (k * y) \<le> k * x" "k * x \<le> (1 + ulp) ^ n * (k * y)"
  using mult_left_mono [OF assms(1,3)] mult_left_mono [OF assms(2,3)] by (simp_all add: ac_simps)

text \<open>The value in \<open>float\<close> of a timestamp, for a frame number that is not negative.\<close>

definition timestamp_float :: "mp3_config \<Rightarrow> int \<Rightarrow> rat" where
  "timestamp_float c f = fl32 (fmul (fmul 1000 (fint f)) (fint (FrameSizeUnComp c)) / fint (SamplingRate c))"

lemma timestamp_float:
  assumes "0 < SamplingRate c" "SamplingRate c \<le> 48000"
  shows "GetTimestampForSample c f = float_to_u32 (timestamp_float c f)"
proof -
  have "fint (SamplingRate c) = of_int (SamplingRate c)" using assms by (intro fint_exact) simp
  then show ?thesis using assms by (simp add: GetTimestampForSample_def timestamp_float_def fdiv_def)
qed

lemma timestamp_mono:
  assumes "0 < SamplingRate c" "SamplingRate c \<le> 48000" "0 \<le> FrameSizeUnComp c" "f \<le> g"
  shows "timestamp_float c f \<le> timestamp_float c g"
proof -
  have "fmul (fmul 1000 (fint f)) (fint (FrameSizeUnComp c)) \<le> fmul (fmul 1000 (fint g)) (fint (FrameSizeUnComp c))"
    by (intro fmul_mono fint_mono fint_nonneg assms(3,4)) simp
  then show ?thesis
    unfolding timestamp_float_def using fint_nonneg [of "SamplingRate c"] assms(1) by (intro fl32_mono divide_right_mono) simp_all
qed

lemma timestamp_error:
  assumes "0 < SamplingRate c" "SamplingRate c \<le> 48000" "0 < FrameSizeUnComp c" "FrameSizeUnComp c \<le> 1152" "0 \<le> f"
  defines "x \<equiv> 1000 * of_int f * of_int (FrameSizeUnComp c) / of_int (SamplingRate c)"
  shows "0 \<le> x" "(1 - ulp) ^ 4 * x \<le> timestamp_float c f" "timestamp_float c f \<le> (1 + ulp) ^ 4 * x"
proof -
  let ?S = "of_int (FrameSizeUnComp c) :: rat" and ?R = "of_int (SamplingRate c) :: rat"
  have S: "fint (FrameSizeUnComp c) = ?S" "fint (SamplingRate c) = ?R" "1 \<le> ?S" "0 < ?R" "?R \<le> 48000"
    using assms(1-4) by (simp_all add: fint_exact)
  show x0: "0 \<le> x" using S assms(5) by (simp add: x_def)
  have "(1 - ulp) ^ 4 * x \<le> timestamp_float c f \<and> timestamp_float c f \<le> (1 + ulp) ^ 4 * x"
  proof (cases "f = 0")
    case True
    then show ?thesis by (simp add: timestamp_float_def fint_def fmul_def x_def)
  next
    case False
    then have f: "1 \<le> (of_int f :: rat)" using assms(5) by simp
    have big: "normal v" if "(1 - ulp) ^ n * y \<le> v" "1 / 48000 \<le> y" "n \<le> 4" for v y n
    proof -
      have "1 / 2 ^ 126 \<le> (1 - ulp) ^ 4 * (1 / 48000)" by (simp add: ulp_def power_divide)
      also have "\<dots> \<le> (1 - ulp) ^ n * y"
        using that(2,3) ulp_small by (intro mult_mono power_decreasing) simp_all
      finally show ?thesis using that(1) by (intro normal_1) simp
    qed
    let ?y1 = "of_int f :: rat" and ?y2 = "1000 * of_int f :: rat"
    have 1: "(1 - ulp) ^ 1 * ?y1 \<le> fint f \<and> fint f \<le> (1 + ulp) ^ 1 * ?y1"
      using fl32_between [of "of_int f" 0 ?y1] f by (simp add: fint_def big [of 0 1])
    have v2: "(1 - ulp) ^ 1 * ?y2 \<le> 1000 * fint f" "1000 * fint f \<le> (1 + ulp) ^ 1 * ?y2"
      using scaled_between [of 1 ?y1 "fint f" 1000] 1 by simp_all
    have n2: "normal (1000 * fint f)" by (rule big [OF v2(1)]) (use f in linarith, simp)
    have 2: "(1 - ulp) ^ 2 * ?y2 \<le> fmul 1000 (fint f) \<and> fmul 1000 (fint f) \<le> (1 + ulp) ^ 2 * ?y2"
      using fl32_between [OF n2 v2] by (simp only: fmul_def numeral_2_eq_2 One_nat_def)
    have v3: "(1 - ulp) ^ 2 * (?S * ?y2) \<le> ?S * fmul 1000 (fint f)" "?S * fmul 1000 (fint f) \<le> (1 + ulp) ^ 2 * (?S * ?y2)"
      using scaled_between [of 2 ?y2 "fmul 1000 (fint f)" ?S] 2 S(3) by simp_all
    have y3: "1 \<le> ?S * ?y2" using mult_mono [of 1 ?S 1 ?y2] S(3) f by simp
    have n3: "normal (?S * fmul 1000 (fint f))" by (rule big [OF v3(1)]) (use y3 in linarith, simp)
    have 3: "(1 - ulp) ^ 3 * (?S * ?y2) \<le> fmul (fmul 1000 (fint f)) ?S \<and> fmul (fmul 1000 (fint f)) ?S \<le> (1 + ulp) ^ 3 * (?S * ?y2)"
      using fl32_between [OF n3 v3] by (simp only: fmul_def [of _ ?S] numeral_3_eq_3 numeral_2_eq_2 mult.commute [of _ ?S])
    let ?v = "fmul (fmul 1000 (fint f)) ?S"
    have x: "x = 1 / ?R * (?S * ?y2)" by (simp add: x_def)
    have v4: "(1 - ulp) ^ 3 * x \<le> ?v / ?R" "?v / ?R \<le> (1 + ulp) ^ 3 * x"
      using scaled_between [of 3 "?S * ?y2" ?v "1 / ?R"] 3 S(4) unfolding x by simp_all
    have "1 / 48000 \<le> 1 / ?R" using S(4,5) by (simp add: frac_le)
    also have "1 / ?R \<le> x" using y3 S(4) unfolding x by (simp add: divide_right_mono)
    finally have n4: "normal (?v / ?R)" by (intro big [OF v4(1)]) simp_all
    have "(4 :: nat) = Suc 3" by simp
    then show ?thesis
      using fl32_between [OF n4 v4] by (simp only: timestamp_float_def S(1,2))
  qed
  then show "(1 - ulp) ^ 4 * x \<le> timestamp_float c f" "timestamp_float c f \<le> (1 + ulp) ^ 4 * x" by simp_all
qed

text \<open>
  C34. The timestamps that \<open>GetTimestampForSample\<close> gives in \<open>float\<close> never decrease from one frame to a
  later one, and each is within one millisecond plus the fraction \<open>5 / 2 ^ 24\<close> (one millisecond in
  about 56 minutes) of the exact time, frame number times samples over sampling rate.
\<close>

theorem frame_timestamps:
  assumes "0 < SamplingRate c" "SamplingRate c \<le> 48000" "0 < FrameSizeUnComp c" "FrameSizeUnComp c \<le> 1152"
    and "0 \<le> f" "f \<le> g" "GetTimestampForSample c g = Some tg"
  shows "\<exists>tf. GetTimestampForSample c f = Some tf \<and> tf \<le> tg \<and>
    \<bar>of_int tf - 1000 * of_int f * of_int (FrameSizeUnComp c) / of_int (SamplingRate c)\<bar> \<le>
      1 + 5 / 2 ^ 24 * (1000 * of_int f * of_int (FrameSizeUnComp c) / of_int (SamplingRate c) :: rat)"
proof -
  let ?x = "1000 * of_int f * of_int (FrameSizeUnComp c) / of_int (SamplingRate c) :: rat"
  let ?t = "timestamp_float c f"
  note err = timestamp_error [OF assms(1-5)]
  have le: "?t \<le> timestamp_float c g" using timestamp_mono [OF assms(1,2) _ assms(6)] assms(3) by simp
  have "0 \<le> (1 - ulp) ^ 4 * ?x" using err(1) ulp_small by (intro mult_nonneg_nonneg zero_le_power) simp_all
  then have t0: "0 \<le> ?t" using err(2) by linarith
  have tg: "tg = \<lfloor>timestamp_float c g\<rfloor>" "\<lfloor>timestamp_float c g\<rfloor> < 4294967296"
    using assms(7) t0 le by (auto simp: timestamp_float [OF assms(1,2)] float_to_u32_def trunc_def split: if_splits)
  have fl: "\<lfloor>?t\<rfloor> \<le> \<lfloor>timestamp_float c g\<rfloor>" using le by (rule floor_mono)
  have tf: "GetTimestampForSample c f = Some \<lfloor>?t\<rfloor>"
    using t0 tg le by (simp add: timestamp_float [OF assms(1,2)] float_to_u32_def trunc_def)
  have lo: "(1 - 5 / 2 ^ 24) * ?x \<le> (1 - ulp) ^ 4 * ?x" and hi: "(1 + ulp) ^ 4 * ?x \<le> (1 + 5 / 2 ^ 24) * ?x"
    using err(1) by (intro mult_right_mono; simp add: ulp_def power_divide)+
  have "of_int \<lfloor>?t\<rfloor> \<le> ?t" "?t < of_int \<lfloor>?t\<rfloor> + 1" by linarith+
  then have "\<bar>of_int \<lfloor>?t\<rfloor> - ?x\<bar> \<le> 1 + 5 / 2 ^ 24 * ?x"
    using lo hi err(2,3) unfolding left_diff_distrib distrib_right by linarith
  then show ?thesis using tf fl tg(1) by blast
qed

theorem frame_timestamps_witness:
  "\<exists>tf. GetTimestampForSample \<lparr>SamplingRate = 48000, BitRate = 128000, FrameLengthInBytes = 384,
      FrameSizeUnComp = 1152, NumberOfChannels = 2\<rparr> 100 = Some tf \<and> tf \<le> 4800 \<and> \<bar>of_int tf - 2400\<bar> \<le> (1 + 12000 / 2 ^ 24 :: rat)"
proof -
  let ?c = "\<lparr>SamplingRate = 48000, BitRate = 128000, FrameLengthInBytes = 384, FrameSizeUnComp = 1152, NumberOfChannels = 2\<rparr>"
  have k: "fl32 (of_int (1125 * 2 ^ 11)) = of_int (1125 * 2 ^ 11)"
    "fl32 (of_int 4800) = of_int 4800" "fl32 (of_int 200000) = of_int 200000"
    by (intro fl32_int; simp)+
  have "fl32 (of_int (3515625) * 2 powi 16) = of_int (3515625) * 2 powi 16" by (rule fl32_exact_pos) simp_all
  then have k2: "fl32 230400000 = 230400000"
    using fl32_exact_pos [of 28125 13] by (simp add: power_int_def)
  have "GetTimestampForSample ?c 200 = Some 4800"
    using k k2 by (simp add: GetTimestampForSample_def fdiv_def fmul_def fint_exact float_to_u32_def trunc_def)
  from frame_timestamps [OF _ _ _ _ _ _ this, of 100] show ?thesis by simp
qed

end
