(* ===== verification/Mp3Sample.thy ===== *)
theory Mp3Sample
  imports Mp3State Mp3Crc
begin

text \<open>
  Delivering frames: \<open>GetNextMediaSample\<close> and \<open>GetNextBundledAccessUnits\<close> of \<open>pvmi/mp3parser.cpp\<close>.
  The caller's buffer is the list \<open>buf\<close>, and \<open>size\<close> is its length; \<open>None\<close> is a store outside it (or an
  undefined operation of \<open>Mp3State\<close>). The \<open>goto BEGIN\<close> of the code is one more pass: a pass ends with
  \<open>Again\<close>, or with what the code returns.
\<close>

section \<open>One pass\<close>

datatype sample_result = Again | Sample mp3_error int int "u8 list"

definition store_bytes :: "u8 list \<Rightarrow> nat \<Rightarrow> u8 list \<Rightarrow> u8 list option" where
  "store_bytes buf i bs = (if i + length bs \<le> length buf then Some (patch buf i bs) else None)"

text \<open>Reading beyond a known content length.\<close>

definition past_end :: "int \<Rightarrow> int \<Rightarrow> bool" where
  "past_end contentLength pos \<longleftrightarrow> contentLength \<noteq> 0 \<and> to_u32 pos \<ge> contentLength"

text \<open>
  From \<open>BEGIN\<close> to the frame header, after a search for the sync word when there is none here: an error,
  or the header, the position and the buffer with the four bytes.
\<close>

definition find_header ::
  "byte_order \<Rightarrow> 'f file_ops \<Rightarrow> u8 list \<Rightarrow> mp3_parser \<Rightarrow> 'f pvfile \<Rightarrow>
     ((mp3_error + mp3_header \<times> int \<times> u8 list) \<times> mp3_parser \<times> 'f pvfile) option" where
  "find_header bo io buf P F = do {
     let currentFilePosn = to_u32 (getCurrentFilePosition io F);
     let contentLength = GetContentLength F;
     if past_end contentLength (currentFilePosn + 4) then Some (Inl MP3_END_OF_FILE, P, F)
     else do {
       let (ok, bs, F) = readByteData io 4 F;
       buf \<leftarrow> store_bytes buf 0 bs;
       if \<not> ok then Some (Inl MP3_INSUFFICIENT_DATA, P, F)
       else do {
         mp3Header \<leftarrow> swap32_at bo buf 0;
         let (ok, info) = GetMP3Header mp3Header;
         if ok then Some (Inr (info, currentFilePosn, buf), P, F)
         else do {
           let F = snd (SeektoOffset io F (0 - 4) SEEKCUR);
           (err, seekOffset, P, F) \<leftarrow> mp3FindSync bo io P currentFilePosn F;
           if err \<noteq> MP3_SUCCESS then Some (Inl err, P, F)
           else do {
             let (err, F) = SeektoOffset io F (to_s32 seekOffset) SEEKCUR;
             if err \<noteq> MP3_SUCCESS then Some (Inl err, P, F)
             else do {
               let currentFilePosn = to_u32 (currentFilePosn + seekOffset);
               if past_end contentLength (currentFilePosn + 4) then Some (Inl MP3_END_OF_FILE, P, F)
               else do {
                 let (ok, bs, F) = readByteData io 4 F;
                 buf \<leftarrow> store_bytes buf 0 bs;
                 if \<not> ok then Some (Inl MP3_INSUFFICIENT_DATA, P, F)
                 else do {
                   mp3Header \<leftarrow> swap32_at bo buf 0;
                   let (ok, info) = GetMP3Header mp3Header;
                   if ok then Some (Inr (info, currentFilePosn, buf), P, F)
                   else Some (Inl MP3_FILE_HDR_READ_ERR, P, F)
                 }
               }
             }
           }
         }
       }
     }
   }"

definition frame_back :: "mp3_parser \<Rightarrow> mp3_parser" where
  "frame_back P = P\<lparr>iCurrFrameNumber := to_s32 (iCurrFrameNumber P - 1)\<rparr>"

definition advance_timestamp :: "mp3_config \<Rightarrow> mp3_parser \<Rightarrow> mp3_parser option" where
  "advance_timestamp c P =
     (if BitRate c > 0 then do { t \<leftarrow> next_timestamp (iTimestamp P) c; Some (P\<lparr>iTimestamp := t\<rparr>) } else Some P)"

text \<open>From the CRC check on: the file stands behind the header.\<close>

definition deliver_frame ::
  "'f file_ops \<Rightarrow> u8 list \<Rightarrow> mp3_config \<Rightarrow> mp3_parser \<Rightarrow> 'f pvfile \<Rightarrow> (sample_result \<times> mp3_parser \<times> 'f pvfile) option" where
  "deliver_frame io buf c P F = do {
     let mp3FrameSizeInBytes = to_u32 (FrameLengthInBytes c);
     let contentLength = GetContentLength F;
     let currentFilePosn = to_u32 (getCurrentFilePosition io F);
     let (_, fileSz, F) = getCurrentFileSize io F;
     let timestamp = GetTimestampForCurrentSample P;
     if fileSz \<noteq> 0 \<and> to_u32 (currentFilePosn + to_u32 (mp3FrameSizeInBytes - 4)) > fileSz
     then do {
       P \<leftarrow> advance_timestamp c (frame_back P);
       if past_end contentLength (currentFilePosn + mp3FrameSizeInBytes - 4)
       then Some (Sample MP3_END_OF_FILE 0 timestamp buf, P, F)
       else do {
         let (err, F) = SeektoOffset io F (0 - 4) SEEKCUR;
         if err \<noteq> MP3_SUCCESS then Some (Sample err 0 timestamp buf, P, F)
         else Some (Sample MP3_INSUFFICIENT_DATA 0 timestamp buf, P, F)
       }
     }
     else if int (length buf) < mp3FrameSizeInBytes
     then Some (Sample MP3_FILE_READ_ERR mp3FrameSizeInBytes 0 buf, frame_back P, F)
     else do {
       P \<leftarrow> advance_timestamp c P;
       if past_end contentLength (currentFilePosn + mp3FrameSizeInBytes - 4)
       then Some (Sample MP3_END_OF_FILE mp3FrameSizeInBytes timestamp buf, P, F)
       else do {
         let (res, bs, F) = readByteData io (nat (to_u32 (mp3FrameSizeInBytes - 4))) F;
         buf \<leftarrow> store_bytes buf 4 bs;
         if iLocalFileSize P = 0 \<and> \<not> res
         then Some (Sample MP3_INSUFFICIENT_DATA mp3FrameSizeInBytes timestamp buf, frame_back P, F)
         else Some (Sample MP3_SUCCESS mp3FrameSizeInBytes timestamp buf, P, F)
       }
     }
   }"

text \<open>
  After a CRC error: the search for the next sync word. When the first seek fails the code returns the
  variable \<open>err\<close> of the seek before, which is success.
\<close>

definition resync_after_crc ::
  "byte_order \<Rightarrow> 'f file_ops \<Rightarrow> u8 list \<Rightarrow> int \<Rightarrow> mp3_parser \<Rightarrow> 'f pvfile \<Rightarrow> (sample_result \<times> mp3_parser \<times> 'f pvfile) option" where
  "resync_after_crc bo io buf currentFilePosn P F = do {
     let currentFilePosn = to_u32 (currentFilePosn + 4);
     let (err, F) = SeektoOffset io F 4 SEEKCUR;
     if err \<noteq> MP3_SUCCESS then Some (Sample MP3_SUCCESS 0 0 buf, P, F)
     else do {
       let F = snd (SeektoOffset io F (0 - 4) SEEKCUR);
       (err, seekOffset, P, F) \<leftarrow> mp3FindSync bo io P currentFilePosn F;
       if err \<noteq> MP3_SUCCESS then Some (Sample err 0 0 buf, P, F)
       else do {
         let (err, F) = SeektoOffset io F (to_s32 seekOffset) SEEKCUR;
         if err \<noteq> MP3_SUCCESS then Some (Sample err 0 0 buf, P, F)
         else Some (Again, P, F)
       }
     }
   }"

definition sample_pass ::
  "byte_order \<Rightarrow> 'f file_ops \<Rightarrow> u8 list \<Rightarrow> mp3_parser \<Rightarrow> 'f pvfile \<Rightarrow> (sample_result \<times> mp3_parser \<times> 'f pvfile) option" where
  "sample_pass bo io buf P F = do {
     (r, P, F) \<leftarrow> find_header bo io buf P F;
     case r of
       Inl err \<Rightarrow> Some (Sample err 0 0 buf, P, F)
     | Inr (info, currentFilePosn, buf) \<Rightarrow> do {
         let P = P\<lparr>iCurrFrameNumber := to_s32 (iCurrFrameNumber P + 1)\<rparr>;
         (ok, c, P) \<leftarrow> DecodeMP3Header info True P;
         if \<not> ok then Some (Sample MP3_FILE_HDR_DECODE_ERR 0 0 buf, frame_back P, F)
         else do {
           let (err, F) = SeektoOffset io F (0 - 4) SEEKCUR;
           if err \<noteq> MP3_SUCCESS then Some (Sample err 0 0 buf, frame_back P, F)
           else do {
             (mp3Err, F) \<leftarrow> mp3VerifyCRC bo io (iEnableCrcCalc P) info c F;
             if mp3Err = MP3_CRC_ERR then resync_after_crc bo io buf currentFilePosn (frame_back P) F
             else if mp3Err = MP3_INSUFFICIENT_DATA then Some (Sample mp3Err 0 0 buf, frame_back P, F)
             else do {
               let (err, F) = SeektoOffset io F 4 SEEKCUR;
               if err \<noteq> MP3_SUCCESS then Some (Sample err 0 0 buf, frame_back P, F)
               else deliver_frame io buf c P F
             }
           }
         }
       }
   }"

section \<open>GetNextMediaSample bo and the bundle\<close>

text \<open>At most \<open>n\<close> passes; \<open>Again\<close> when they were not enough.\<close>

fun GetNextMediaSample ::
  "byte_order \<Rightarrow> nat \<Rightarrow> 'f file_ops \<Rightarrow> u8 list \<Rightarrow> mp3_parser \<Rightarrow> 'f pvfile \<Rightarrow> (sample_result \<times> mp3_parser \<times> 'f pvfile) option" where
  "GetNextMediaSample bo 0 io buf P F = Some (Again, P, F)"
| "GetNextMediaSample bo (Suc n) io buf P F = do {
     (r, P, F) \<leftarrow> sample_pass bo io buf P F;
     if r = Again then GetNextMediaSample bo n io buf P F else Some (r, P, F) }"

text \<open>
  \<open>GetNextBundledAccessUnits\<close> on one fragment: the frames read (length and timestamp of each), the
  error, \<open>numMediaSamples\<close>, the bytes read and the buffer. \<open>fuel\<close> bounds the passes of each frame.
\<close>

record gau =
  bnd_info :: "(int \<times> int) list"
  bnd_error :: mp3_error
  numMediaSamples :: nat
  nBytesReadTotal :: int
  bnd_data :: "u8 list"

function bundle_loop ::
  "byte_order \<Rightarrow> nat \<Rightarrow> 'f file_ops \<Rightarrow> nat \<Rightarrow> nat \<Rightarrow> u8 list \<Rightarrow> gau \<Rightarrow> mp3_parser \<Rightarrow> 'f pvfile \<Rightarrow>
     (nat \<times> gau \<times> mp3_parser \<times> 'f pvfile) option" where
  "bundle_loop bo fuel io n i rest B P F =
     (if i < n \<and> rest \<noteq> [] then do {
        (r, P, F) \<leftarrow> GetNextMediaSample bo fuel io rest P F;
        let B = B\<lparr>numMediaSamples := i\<rparr>;
        case r of
          Again \<Rightarrow> None
        | Sample err framesize framets rest \<Rightarrow>
            if err \<noteq> MP3_SUCCESS then Some (i, B\<lparr>bnd_error := err, bnd_data := bnd_data B @ rest\<rparr>, P, F)
            else do {
              let B = (if framesize > 0 then B\<lparr>bnd_info := bnd_info B @ [(framesize, framets)]\<rparr> else B);
              bundle_loop bo fuel io n (i + 1) (drop (nat framesize) rest)
                (B\<lparr>bnd_error := err, nBytesReadTotal := to_u32 (nBytesReadTotal B + framesize),
                   bnd_data := bnd_data B @ take (nat framesize) rest\<rparr>) P F
            }
      }
      else Some (i, B\<lparr>bnd_data := bnd_data B @ rest\<rparr>, P, F))"
  by pat_completeness auto
termination by (relation "measure (\<lambda>(_, _, _, n, i, _). n - i)") auto

declare bundle_loop.simps [simp del]

definition GetNextBundledAccessUnits ::
  "byte_order \<Rightarrow> nat \<Rightarrow> 'f file_ops \<Rightarrow> nat \<Rightarrow> u8 list \<Rightarrow> mp3_parser \<Rightarrow> 'f pvfile \<Rightarrow> (nat \<times> gau \<times> mp3_parser \<times> 'f pvfile) option" where
  "GetNextBundledAccessUnits bo fuel io n buf P F =
     bundle_loop bo fuel io n 0 buf
       \<lparr>bnd_info = [], bnd_error = MP3_ERROR_UNKNOWN, numMediaSamples = 0, nBytesReadTotal = 0, bnd_data = []\<rparr> P F"

section \<open>What a pass does\<close>

text \<open>The averages touch three fields only.\<close>

lemma average_bitrate_ok:
  assumes "FrameLengthInBytes c \<noteq> 0"
  obtains P' where "average_bitrate c P = Some P'"
    "P' = P\<lparr>iNumberOfFrames := iNumberOfFrames P', iAvgBitrateInbps := iAvgBitrateInbps P'\<rparr>"
proof -
  have "\<exists>nf ab. average_bitrate c P = Some (P\<lparr>iNumberOfFrames := nf, iAvgBitrateInbps := ab\<rparr>)"
    unfolding average_bitrate_def Let_def using assms by (simp only: if_False) (intro exI, rule refl)
  then obtain nf ab where "average_bitrate c P = Some (P\<lparr>iNumberOfFrames := nf, iAvgBitrateInbps := ab\<rparr>)" by blast
  then show thesis by (rule that) simp
qed

lemma DecodeMP3Header_ok:
  assumes "decode_header h = Some (ok, c)" "ok \<Longrightarrow> FrameLengthInBytes c \<noteq> 0"
  obtains P' where "DecodeMP3Header h avg P = Some (ok, c, P')"
    "P' = P\<lparr>iNumberOfFrames := iNumberOfFrames P', iAvgBitrateInbps := iAvgBitrateInbps P'\<rparr>"
proof (cases "ok \<and> needs_average P \<and> avg")
  case True
  obtain P' where "average_bitrate c P = Some P'"
    "P' = P\<lparr>iNumberOfFrames := iNumberOfFrames P', iAvgBitrateInbps := iAvgBitrateInbps P'\<rparr>"
    by (rule average_bitrate_ok [OF assms(2)]) (use True in auto)
  then show thesis using True assms(1) that by (simp add: DecodeMP3Header_def)
next
  case False
  then show thesis using assms(1) that [of P] by (auto simp: DecodeMP3Header_def)
qed

lemma accepted_word:
  assumes "header_valid h"
  obtains i where "GetMP3Header h = (True, i)" "decode_header i = Some (True, config_of h)"
    "24 \<le> FrameLengthInBytes (config_of h)" "FrameLengthInBytes (config_of h) \<le> 1441"
proof -
  obtain i where i: "GetMP3Header h = (True, i)" "decode_header i = Some (True, config_of h)"
    using assms decode_of_word [of h] by (cases "GetMP3Header h") (auto simp: header_valid_def)
  show thesis using accepted_frame [OF i] by (intro that [OF i]) simp_all
qed

lemma config_bitrate_pos:
  assumes "header_valid h"
  shows "0 < BitRate (config_of h)"
proof -
  obtain i where i: "GetMP3Header h = (True, i)" "decode_header i = Some (True, config_of h)"
    by (rule accepted_word [OF assms])
  have ok: "header_ok i" using GetMP3Header_accepts [OF i(1)] by simp
  show ?thesis by (rule decode_header_True [OF ok i(2)]) simp
qed

lemma swap32_at_append: "4 \<le> length ys \<Longrightarrow> swap32_at bo (ys @ zs) 0 = swap32_at bo ys 0"
  by (auto simp: swap32_at_def rd_def nth_append)

context byte_file
begin

text \<open>The header is here.\<close>

lemma find_header_here:
  assumes "pos_at F d p" "p + 4 \<le> length d" "GetMP3Header (word_at bo d p) = (True, i)" "4 \<le> length buf"
  obtains F' where "find_header bo io buf P F = Some (Inr (i, int p, patch buf 0 (take 4 (drop p d))), P, F')"
    "pos_at F' d (p + 4)"
proof -
  note le = atD [OF assms(1)]
  obtain F' where F': "readByteData io 4 F = (p + 4 \<le> length d, take 4 (drop p d), F')"
    "pos_at F' d (if p + 4 \<le> length d then p + 4 else p)"
    by (rule read_data_at [OF assms(1), of 4]) simp
  have pos: "to_u32 (getCurrentFilePosition io F) = int p"
    using le by (simp add: getCurrentFilePosition_def tell_at [OF assms(1)] in_range)
  have len: "length (take 4 (drop p d)) = 4" using assms(2) by simp
  have buf: "store_bytes buf 0 (take 4 (drop p d)) = Some (patch buf 0 (take 4 (drop p d)))"
    using assms(2,4) by (simp add: store_bytes_def)
  have w: "swap32_at bo (patch buf 0 (take 4 (drop p d))) 0 = Some (word_at bo d p)"
    using swap32_word [OF assms(2)] len by (simp only: patch_def take_0 append_Nil) (simp add: swap32_at_append)
  show thesis
    by (rule that [of F'])
      (use F' assms(2,3) buf w in \<open>simp_all add: find_header_def pos past_end_def GetContentLength_def\<close>)
qed

text \<open>A frame whose header is here, and no CRC to check.\<close>

lemma deliver_at:
  assumes "pos_at F d (p + 4)" "4 \<le> p + 4" "n = nat (FrameLengthInBytes c)" "24 \<le> n" "n \<le> 1441"
    and "0 < BitRate c" "next_timestamp (iTimestamp P) c = Some t" "4 \<le> length buf" "length buf < 2 ^ 31"
    and "iLocalFileSizeSet P \<longrightarrow> iLocalFileSize P = int (length d)"
  obtains P' F' where "deliver_frame io buf c P F = Some
      (if length d < p + n then Sample MP3_INSUFFICIENT_DATA 0 (iTimestamp P) buf
       else if length buf < n then Sample MP3_FILE_READ_ERR (int n) 0 buf
       else Sample MP3_SUCCESS (int n) (iTimestamp P) (patch buf 4 (take (n - 4) (drop (p + 4) d))), P', F')"
    "pos_at F' d (if length d < p + n then p else if length buf < n then p + 4 else p + n)"
    "P' = (if length d < p + n then (frame_back P)\<lparr>iTimestamp := t\<rparr>
       else if length buf < n then frame_back P else P\<lparr>iTimestamp := t\<rparr>)"
proof -
  note le = atD [OF assms(1)]
  have fl: "FrameLengthInBytes c = int n" "to_u32 (FrameLengthInBytes c) = int n" "to_u32 (int n - 4) = int (n - 4)"
    using assms(3-5) by (simp_all add: in_range)
  have pos: "to_u32 (getCurrentFilePosition io F) = int (p + 4)"
    using le by (simp add: getCurrentFilePosition_def tell_at [OF assms(1)] in_range)
  obtain F1 where F1: "getCurrentFileSize io F = (True, int (length d), F1)" "pos_at F1 d (p + 4)"
    by (rule file_size_at [OF assms(1)])
  have nz: "length d \<noteq> 0" using le by auto
  have cmp: "(int (length d) \<noteq> 0 \<and> to_u32 (int (p + 4) + int (n - 4)) > int (length d)) = (length d < p + n)"
    using nz le assms(4,5) by (auto simp: in_range)
  have adv: "advance_timestamp c (frame_back P) = Some ((frame_back P)\<lparr>iTimestamp := t\<rparr>)"
    "advance_timestamp c P = Some (P\<lparr>iTimestamp := t\<rparr>)"
    using assms(6,7) by (simp_all add: advance_timestamp_def frame_back_def)
  note start = deliver_frame_def Let_def fl(2,3) pos F1(1) prod.case cmp GetTimestampForCurrentSample_def past_end_def
    GetContentLength_def adv
  consider "length d < p + n" | "\<not> length d < p + n" "length buf < n" | "\<not> length d < p + n" "\<not> length buf < n" by blast
  then show thesis
  proof cases
    case 1
    obtain F2 where F2: "SeektoOffset io F1 (0 - 4) SEEKCUR = (MP3_SUCCESS, F2)" "pos_at F2 d p"
      by (rule seek_cur_at [OF F1(2), of "0 - 4" p]) (use le in auto)
    then show thesis
      using 1 by (intro that [of "(frame_back P)\<lparr>iTimestamp := t\<rparr>" F2]; (unfold start)?) simp_all
  next
    case 2
    then show thesis using F1(2) by (intro that [of "frame_back P" F1]; (unfold start)?) simp_all
  next
    case 3
    have room: "p + 4 + (n - 4) \<le> length d" using 3(1) assms(4) by simp
    obtain F2 where F2: "readByteData io (n - 4) F1 = (p + 4 + (n - 4) \<le> length d, take (n - 4) (drop (p + 4) d), F2)"
      "pos_at F2 d (if p + 4 + (n - 4) \<le> length d then p + 4 + (n - 4) else p + 4)"
      by (rule read_data_at [OF F1(2), of "n - 4"]) (use assms(5) in simp)
    have store: "store_bytes buf 4 (take (n - 4) (drop (p + 4) d)) = Some (patch buf 4 (take (n - 4) (drop (p + 4) d)))"
      using 3 assms(4) room by (simp add: store_bytes_def)
    have pn: "p + 4 + (n - 4) = p + n" using assms(4) by simp
    show thesis
      using 3 F2 store room assms(4)
      by (intro that [of "P\<lparr>iTimestamp := t\<rparr>" F2]; (unfold start pn nat_int)?) simp_all
  qed
qed

lemma sample_pass_at:
  assumes "pos_at F d p" "p + 4 \<le> length d" "header_valid (word_at bo d p)" "n = frame_len (word_at bo d p)"
    and "iEnableCrcCalc P \<longrightarrow> crcFollows (snd (GetMP3Header (word_at bo d p))) \<noteq> 0"
    and "next_timestamp (iTimestamp P) (config_of (word_at bo d p)) = Some t" "4 \<le> length buf" "length buf < 2 ^ 31"
    and "iLocalFileSizeSet P \<longrightarrow> iLocalFileSize P = int (length d)"
  obtains P' F' where "sample_pass bo io buf P F = Some
      (if length d < p + n then Sample MP3_INSUFFICIENT_DATA 0 (iTimestamp P) (patch buf 0 (take 4 (drop p d)))
       else if length buf < n then Sample MP3_FILE_READ_ERR (int n) 0 (patch buf 0 (take 4 (drop p d)))
       else Sample MP3_SUCCESS (int n) (iTimestamp P) (patch buf 0 (take n (drop p d))), P', F')"
    "pos_at F' d (if length d < p + n then p else if length buf < n then p + 4 else p + n)"
    "iTimestamp P' = (if p + n \<le> length d \<and> length buf < n then iTimestamp P else t)"
    "p + n \<le> length d \<Longrightarrow> n \<le> length buf \<Longrightarrow> iCurrFrameNumber P' = to_s32 (iCurrFrameNumber P + 1)"
proof -
  let ?c = "config_of (word_at bo d p)" and ?buf = "patch buf 0 (take 4 (drop p d))"
  obtain i where i: "GetMP3Header (word_at bo d p) = (True, i)" "decode_header i = Some (True, ?c)"
    "24 \<le> FrameLengthInBytes ?c" "FrameLengthInBytes ?c \<le> 1441"
    by (rule accepted_word [OF assms(3)])
  have n: "n = nat (FrameLengthInBytes ?c)" "24 \<le> n" "n \<le> 1441" using assms(4) i(3,4) by (simp_all add: frame_len_def)
  obtain F1 where F1: "find_header bo io buf P F = Some (Inr (i, int p, ?buf), P, F1)" "pos_at F1 d (p + 4)"
    by (rule find_header_here [OF assms(1,2) i(1) assms(7)])
  let ?P = "P\<lparr>iCurrFrameNumber := to_s32 (iCurrFrameNumber P + 1)\<rparr>"
  obtain P2 where P2: "DecodeMP3Header i True ?P = Some (True, ?c, P2)"
    "P2 = ?P\<lparr>iNumberOfFrames := iNumberOfFrames P2, iAvgBitrateInbps := iAvgBitrateInbps P2\<rparr>"
    by (rule DecodeMP3Header_ok [OF i(2)]) (use i(3) in auto)
  have same: "iTimestamp P2 = iTimestamp P" "iEnableCrcCalc P2 = iEnableCrcCalc P"
    "iCurrFrameNumber P2 = to_s32 (iCurrFrameNumber P + 1)" "iLocalFileSizeSet P2 = iLocalFileSizeSet P"
    "iLocalFileSize P2 = iLocalFileSize P"
    by (subst P2(2); simp)+
  obtain F2 where F2: "SeektoOffset io F1 (0 - 4) SEEKCUR = (MP3_SUCCESS, F2)" "pos_at F2 d p"
    by (rule seek_cur_at [OF F1(2), of "0 - 4" p]) (use assms(2) in auto)
  have crc: "mp3VerifyCRC bo io (iEnableCrcCalc P2) i ?c F2 = Some (MP3_SUCCESS, F2)"
    using assms(5) i(1) same(2) by (auto simp: mp3VerifyCRC_def)
  obtain F3 where F3: "SeektoOffset io F2 4 SEEKCUR = (MP3_SUCCESS, F3)" "pos_at F3 d (p + 4)"
    by (rule seek_cur_at [OF F2(2), of 4 "p + 4"]) (use assms(2) in auto)
  have lb: "length ?buf = length buf" using assms(2,7) by simp
  obtain P' F' where D: "deliver_frame io ?buf ?c P2 F3 = Some
      (if length d < p + n then Sample MP3_INSUFFICIENT_DATA 0 (iTimestamp P2) ?buf
       else if length ?buf < n then Sample MP3_FILE_READ_ERR (int n) 0 ?buf
       else Sample MP3_SUCCESS (int n) (iTimestamp P2) (patch ?buf 4 (take (n - 4) (drop (p + 4) d))), P', F')"
    "pos_at F' d (if length d < p + n then p else if length ?buf < n then p + 4 else p + n)"
    "P' = (if length d < p + n then (frame_back P2)\<lparr>iTimestamp := t\<rparr>
       else if length ?buf < n then frame_back P2 else P2\<lparr>iTimestamp := t\<rparr>)"
    by (rule deliver_at [OF F3(2) _ n config_bitrate_pos [OF assms(3)], of P2 t ?buf])
      (use assms(6-9) lb same in auto)
  have whole: "patch ?buf 4 (take (n - 4) (drop (p + 4) d)) = patch buf 0 (take n (drop p d))"
    if "p + n \<le> length d" "n \<le> length buf"
  proof -
    have lens: "length (take 4 (drop p d)) = 4" "length (take (n - 4) (drop (p + 4) d)) = n - 4"
      using that n(2) by simp_all
    have "take 4 (drop p d) @ take (n - 4) (drop (p + 4) d) = take n (drop p d)"
      using n(2) take_add [of 4 "n - 4" "drop p d"] by (simp add: add.commute)
    then show ?thesis
      using that n(2) assms(2,7) lens by (subst patch_patch) simp_all
  qed
  show thesis
  proof (rule that [of P' F'])
    show "sample_pass bo io buf P F = Some
      (if length d < p + n then Sample MP3_INSUFFICIENT_DATA 0 (iTimestamp P) ?buf
       else if length buf < n then Sample MP3_FILE_READ_ERR (int n) 0 ?buf
       else Sample MP3_SUCCESS (int n) (iTimestamp P) (patch buf 0 (take n (drop p d))), P', F')"
      unfolding sample_pass_def F1(1) using whole F2(1) F3(1)
      by (auto simp: P2(1) crc D(1) lb same(1))
    show "pos_at F' d (if length d < p + n then p else if length buf < n then p + 4 else p + n)"
      by (rule D(2) [unfolded lb])
  qed (auto simp: D(3) lb frame_back_def same)
qed

text \<open>A frame with a CRC that does not match, in front of three more frames: the pass ends where it began.\<close>

lemma pass_again:
  assumes "pos_at F d p" "sync_at bo d p" "p + 631 \<le> length d" "h = snd (GetMP3Header (word_at bo d p))"
    and "crcFollows h = 0" "n = side_info h + 6"
    and "foldl crc_step 0xffff (crc_bits (take n (drop p d)) 16 (8 * n)) \<noteq>
      SwapFileToHostByteOrderInt16 bo (d ! (p + n + 4)) (d ! (p + n + 5))"
    and "iEnableCrcCalc P" "iLocalFileSizeSet P" "iLocalFileSize P = int (length d)" "1 < iInitSearchFileSize P"
    and "4 \<le> length buf"
  obtains P' F' where "sample_pass bo io buf P F = Some (Again, P', F')" "pos_at F' d p"
    "iEnableCrcCalc P'" "iLocalFileSizeSet P'" "iLocalFileSize P' = int (length d)" "1 < iInitSearchFileSize P'"
proof -
  note le = atD [OF assms(1)]
  let ?c = "config_of (word_at bo d p)"
  have in4: "p + 4 \<le> length d" using assms(3) by simp
  have hv: "header_valid (word_at bo d p)" using assms(2) by (simp add: sync_at_def frame_chain_def)
  obtain i where "GetMP3Header (word_at bo d p) = (True, i)" "decode_header i = Some (True, ?c)"
    "24 \<le> FrameLengthInBytes ?c" "FrameLengthInBytes ?c \<le> 1441"
    by (rule accepted_word [OF hv])
  then have i: "GetMP3Header (word_at bo d p) = (True, h)" "decode_header h = Some (True, ?c)"
    "24 \<le> FrameLengthInBytes ?c" by (simp_all add: assms(4))
  have layer: "layerID h = 1" using GetMP3Header_accepts [OF i(1)] by simp
  obtain F1 where F1: "find_header bo io buf P F = Some (Inr (h, int p, patch buf 0 (take 4 (drop p d))), P, F1)" "pos_at F1 d (p + 4)"
    by (rule find_header_here [OF assms(1) in4 i(1) assms(12)])
  let ?P = "P\<lparr>iCurrFrameNumber := to_s32 (iCurrFrameNumber P + 1)\<rparr>"
  obtain P2 where P2: "DecodeMP3Header h True ?P = Some (True, ?c, P2)"
    "P2 = ?P\<lparr>iNumberOfFrames := iNumberOfFrames P2, iAvgBitrateInbps := iAvgBitrateInbps P2\<rparr>"
    by (rule DecodeMP3Header_ok [OF i(2)]) (use i(3) in auto)
  let ?P2 = "frame_back P2"
  have same: "iEnableCrcCalc ?P2" "iLocalFileSizeSet ?P2" "iLocalFileSize ?P2 = int (length d)" "1 < iInitSearchFileSize ?P2"
    "iEnableCrcCalc P2"
    using assms(8-11) by (subst P2(2); simp add: frame_back_def)+
  obtain F2 where F2: "SeektoOffset io F1 (0 - 4) SEEKCUR = (MP3_SUCCESS, F2)" "pos_at F2 d p"
    by (rule seek_cur_at [OF F1(2), of "0 - 4" p]) (use in4 in auto)
  have sm: "n \<le> 38" by (simp add: assms(6) side_info_def)
  obtain F3 where F3: "mp3VerifyCRC bo io True h ?c F2 = Some (MP3_CRC_ERR, F3)" "pos_at F3 d p"
    by (rule verify_crc_at [OF F2(2) assms(5) layer assms(6), where c = ?c and bo = bo]) (use assms(3,7) sm that in auto)
  obtain F4 where F4: "SeektoOffset io F3 4 SEEKCUR = (MP3_SUCCESS, F4)" "pos_at F4 d (p + 4)"
    by (rule seek_cur_at [OF F3(2), of 4 "p + 4"]) (use in4 in auto)
  obtain F5 where F5: "SeektoOffset io F4 (0 - 4) SEEKCUR = (MP3_SUCCESS, F5)" "pos_at F5 d p"
    by (rule seek_cur_at [OF F4(2), of "0 - 4" p]) (use in4 in auto)
  have sp: "to_u32 (int p + 4) = int p + 4" using le by (simp add: in_range)
  have size: "iLocalFileSizeSet ?P2 \<longrightarrow> iLocalFileSize ?P2 = int (length d)" using same(3) by simp
  obtain err off P' F6 where r: "mp3FindSync bo io ?P2 (int p + 4) F5 = Some (err, off, P', F6)"
    and ok: "err = MP3_SUCCESS \<longrightarrow> pos_at F6 d p"
    and c: "\<forall>k. sync_at bo d (p + k) \<and> searched k \<and> (\<forall>k' < k. \<not> header_valid (word_at bo d (p + k'))) \<and>
       iLocalFileSizeSet ?P2 \<and> 0 \<le> int p + 4 \<and> int p + 4 + 627 \<le> int (length d) \<and>
       int k + 1 < iInitSearchFileSize ?P2 \<and>
       p + ((k + 1) div 627 + 1) * 627 \<le> length d \<longrightarrow> err = MP3_SUCCESS \<and> off = int k"
    using find_sync_at [OF F5(2) size, of bo "int p + 4"] by blast
  have e: "err = MP3_SUCCESS" "off = 0"
    using c [rule_format, of 0] assms(2,3) same by (auto simp: searched_def)
  have lim: "P' = ?P2\<lparr>iInitSearchFileSize := iInitSearchFileSize P'\<rparr>" "iInitSearchFileSize P' = iLocalFileSize ?P2"
    using find_sync_limit [OF r] e same(2) by simp_all
  have at6: "pos_at F6 d p" using ok e by simp
  obtain F7 where F7: "SeektoOffset io F6 0 SEEKCUR = (MP3_SUCCESS, F7)" "pos_at F7 d p"
    by (rule seek_cur_at [OF at6, of 0 p]) (use in4 in auto)
  have "resync_after_crc bo io (patch buf 0 (take 4 (drop p d))) (int p) ?P2 F3 = Some (Again, P', F7)"
    unfolding resync_after_crc_def Let_def F4(1) prod.case F5(1) snd_conv sp r
    using e F7(1) by (simp add: in_range)
  then have "sample_pass bo io buf P F = Some (Again, P', F7)"
    unfolding sample_pass_def F1(1) using F2(1) F3(1) same(5) by (simp add: P2(1))
  moreover have "iEnableCrcCalc P'" "iLocalFileSizeSet P'" "iLocalFileSize P' = int (length d)"
    using same by (subst lim(1); simp)+
  moreover have "1 < iInitSearchFileSize P'" using lim(2) same(3) assms(3) by simp
  ultimately show thesis using F7(2) that by blast
qed

lemma never_ends:
  assumes "pos_at F d p" "sync_at bo d p" "p + 631 \<le> length d" "h = snd (GetMP3Header (word_at bo d p))"
    and "crcFollows h = 0" "n = side_info h + 6"
    and "foldl crc_step 0xffff (crc_bits (take n (drop p d)) 16 (8 * n)) \<noteq>
      SwapFileToHostByteOrderInt16 bo (d ! (p + n + 4)) (d ! (p + n + 5))"
    and "iEnableCrcCalc P" "iLocalFileSizeSet P" "iLocalFileSize P = int (length d)" "1 < iInitSearchFileSize P"
    and "4 \<le> length buf"
  shows "\<exists>P' F'. GetNextMediaSample bo passes io buf P F = Some (Again, P', F') \<and> pos_at F' d p"
  using assms(1,8-11)
proof (induction passes arbitrary: P F)
  case (Suc k)
  obtain P' F' where "sample_pass bo io buf P F = Some (Again, P', F')" "pos_at F' d p"
    "iEnableCrcCalc P'" "iLocalFileSizeSet P'" "iLocalFileSize P' = int (length d)" "1 < iInitSearchFileSize P'"
    by (rule pass_again [OF Suc.prems(1) assms(2-7) Suc.prems(2-5) assms(12)])
  then show ?case using Suc.IH [of F' P'] by simp
qed simp

end

section \<open>Properties\<close>

text \<open>
  C9. What one call does when the file stands at an accepted header and there is no CRC to check (the check is off or
  the frame has none): the
  whole frame goes into the buffer with the current timestamp and the file moves to the next frame;
  a frame that the file cuts short is refused with the file put back; a frame larger than the buffer
  is refused too, but the file is left behind its header, so that a second call with a larger buffer
  does not find it any more. A buffer of four bytes is enough for the call to stay inside it.
\<close>

theorem GetNextMediaSample_delivers:
  assumes "file_at F d p" "p + 4 \<le> length d" "header_valid (word_at bo d p)" "n = frame_len (word_at bo d p)"
    and "iEnableCrcCalc P \<longrightarrow> crcFollows (snd (GetMP3Header (word_at bo d p))) \<noteq> 0"
    and "next_timestamp (iTimestamp P) (config_of (word_at bo d p)) = Some t" "4 \<le> length buf" "length buf < 2 ^ 31"
    and "iLocalFileSizeSet P \<longrightarrow> iLocalFileSize P = int (length d)"
  shows "\<exists>P' F'. GetNextMediaSample bo (Suc k) cached_file buf P F = Some
      (if length d < p + n then Sample MP3_INSUFFICIENT_DATA 0 (iTimestamp P) (patch buf 0 (take 4 (drop p d)))
       else if length buf < n then Sample MP3_FILE_READ_ERR (int n) 0 (patch buf 0 (take 4 (drop p d)))
       else Sample MP3_SUCCESS (int n) (iTimestamp P) (patch buf 0 (take n (drop p d))), P', F') \<and>
    file_at F' d (if length d < p + n then p else if length buf < n then p + 4 else p + n) \<and>
    (p + n \<le> length d \<and> n \<le> length buf \<longrightarrow>
      iTimestamp P' = t \<and> iCurrFrameNumber P' = to_s32 (iCurrFrameNumber P + 1))"
  by (rule cached.sample_pass_at [OF assms]) fastforce

text \<open>
  C12. With CRC checking on, a frame whose CRC does not match, followed by three more frames, makes
  \<open>GetNextMediaSample\<close> loop for ever: the search for the next sync word starts at the frame itself and
  finds it again, so however many passes there are, the file is back at the frame and a further pass
  begins.
\<close>

theorem crc_error_never_ends:
  assumes "file_at F d p" "sync_at bo d p" "p + 631 \<le> length d" "h = snd (GetMP3Header (word_at bo d p))"
    and "crcFollows h = 0" "n = side_info h + 6"
    and "foldl crc_step 0xffff (crc_bits (take n (drop p d)) 16 (8 * n)) \<noteq>
      SwapFileToHostByteOrderInt16 bo (d ! (p + n + 4)) (d ! (p + n + 5))"
    and "iEnableCrcCalc P" "iLocalFileSizeSet P" "iLocalFileSize P = int (length d)" "1 < iInitSearchFileSize P"
    and "4 \<le> length buf"
  shows "\<exists>P' F'. GetNextMediaSample bo passes cached_file buf P F = Some (Again, P', F') \<and> file_at F' d p"
  by (rule cached.never_ends [OF assms])

text \<open>Four MPEG 2 frames of 24 bytes with a CRC field that does not match.\<close>

definition crc_frame :: "u8 list" where
  "crc_frame = [0xFF, 0xF2, 0x14, 0xC0, 0, 0, 0, 0, 0, 0, 0, 0, 0, 0, 0, 0, 0, 0, 0, 0, 0, 0, 0, 0]"

definition crc_file :: "u8 list" where
  "crc_file = crc_frame @ crc_frame @ crc_frame @ crc_frame @ replicate 535 0"

lemma crc_header:
  "GetMP3Header 0xFFF214C0 = (True, \<lparr>frameVer = 2, layerID = 1, crcFollows = 0, brIndex = 1, srIndex = 1, prvBit = 0,
     padBit = 0, chMode = 3, modeExtn = 0, frameSize = 0\<rparr>)"
  by (simp add: GetMP3Header_def Let_def frame_constants field_def in_range zero_header_def)

lemma crc_config:
  "config_of 0xFFF214C0 = \<lparr>SamplingRate = 24000, BitRate = 8000, FrameLengthInBytes = 24, FrameSizeUnComp = 576,
     NumberOfChannels = 1\<rparr>"
  "header_valid 0xFFF214C0" "frame_len 0xFFF214C0 = 24"
  by (simp_all add: config_of_def header_valid_def frame_len_def crc_header decode_header_def bit_rate_def rdi2_def
      rdi_def rd_def mp3_tables in_range frame_length_def samples_of_frame_def channels_of_def)

lemma crc_words:
  "word_at LITTLE_ENDIAN crc_file 0 = 0xFFF214C0" "word_at LITTLE_ENDIAN crc_file 24 = 0xFFF214C0"
  "word_at LITTLE_ENDIAN crc_file 48 = 0xFFF214C0" "word_at LITTLE_ENDIAN crc_file 72 = 0xFFF214C0" "length crc_file = 631"
  by (simp_all add: word_at_def crc_file_def crc_frame_def swap_little_endian nth_append)

lemma crc_sync: "sync_at LITTLE_ENDIAN crc_file 0"
  using crc_config crc_words by (simp add: sync_at_little_endian frame_chain_def Let_def same_audio_def)

lemma crc_open: "file_at (pv_open (replicate 4096 0) crc_file) crc_file 0"
  by (rule pv_open_at) (simp_all add: crc_words)

theorem GetNextMediaSample_delivers_witness:
  "\<exists>P' F'. GetNextMediaSample LITTLE_ENDIAN 1 cached_file (replicate 50 0) (MP3Parser 0) (pv_open (replicate 4096 0) crc_file) =
      Some (Sample MP3_SUCCESS 24 0 (patch (replicate 50 0) 0 crc_frame), P', F') \<and> file_at F' crc_file 24"
proof -
  have "fl32 (of_int 24) = of_int 24" "fl32 (of_int 8000) = of_int 8000" "fl32 (of_int 192000) = of_int 192000"
    by (intro fl32_int; simp)+
  then have t: "next_timestamp 0 (config_of (word_at LITTLE_ENDIAN crc_file 0)) = Some 24"
    by (simp add: next_timestamp_def crc_words crc_config fint_def fmul_def fadd_def fdiv_def float_to_u32_def trunc_def)
  have P: "iTimestamp (MP3Parser 0) = 0" "\<not> iEnableCrcCalc (MP3Parser 0)" "\<not> iLocalFileSizeSet (MP3Parser 0)"
    by (simp_all add: MP3Parser_def)
  have n: "24 = frame_len (word_at LITTLE_ENDIAN crc_file 0)" by (simp add: crc_words crc_config)
  have frame: "take 24 crc_file = crc_frame" by (simp add: crc_file_def crc_frame_def)
  show ?thesis
    using GetNextMediaSample_delivers [OF crc_open _ _ n, of "MP3Parser 0" 24 "replicate 50 0" 0] t P frame
    by (simp add: crc_words crc_config) blast
qed

theorem crc_error_never_ends_witness:
  "\<exists>P' F'. GetNextMediaSample LITTLE_ENDIAN 1000 cached_file (replicate 50 0)
      ((MP3Parser 0)\<lparr>iEnableCrcCalc := True, iLocalFileSizeSet := True, iLocalFileSize := 631\<rparr>)
      (pv_open (replicate 4096 0) crc_file) = Some (Again, P', F') \<and> file_at F' crc_file 0"
proof (rule crc_error_never_ends [OF crc_open crc_sync _ refl _ refl])
  have bytes: "take 15 crc_file = take 15 crc_frame" "crc_file ! 19 = 0" "crc_file ! 20 = 0"
    by (simp_all add: crc_file_def crc_frame_def)
  show "foldl crc_step 0xffff (crc_bits (take (side_info (snd (GetMP3Header (word_at LITTLE_ENDIAN crc_file 0))) + 6) (drop 0 crc_file)) 16
        (8 * (side_info (snd (GetMP3Header (word_at LITTLE_ENDIAN crc_file 0))) + 6))) \<noteq>
      SwapFileToHostByteOrderInt16 LITTLE_ENDIAN (crc_file ! (0 + (side_info (snd (GetMP3Header (word_at LITTLE_ENDIAN crc_file 0))) + 6) + 4))
        (crc_file ! (0 + (side_info (snd (GetMP3Header (word_at LITTLE_ENDIAN crc_file 0))) + 6) + 5))"
    using bytes by (simp add: crc_words crc_header side_info_def crc_frame_def crc_bits_def upt_rec_numeral bit_at_def
        crc_step_def swap_little_endian)
qed (simp_all add: crc_words crc_header MP3Parser_def KMAX_INITIAL_SEARCH_FILE_SIZE_IN_BYTES_def)

end
