(* ===== verification/Mp3Toc.thy ===== *)
theory Mp3Toc
  imports Mp3Sample
begin

text \<open>
  Scanning an MP3 file for its duration and a table of contents: \<open>FillTOCTable\<close> and \<open>ScanMP3File\<close> of
  \<open>pvmi/mp3parser.cpp\<close>. The scan has a file of its own (\<open>fpUsed\<close>), \<open>F\<close> here, besides the player's file
  \<open>fp\<close>, \<open>G\<close>. \<open>None\<close> is an access outside a table, a division by zero, or a conversion of a \<open>float\<close> that
  does not fit.
\<close>

section \<open>The table of contents\<close>

text \<open>The compaction keeps every second entry.\<close>

function compact_loop :: "nat \<Rightarrow> int list \<Rightarrow> int list option" where
  "compact_loop i toc =
     (if i < MAX_TOC_ENTRY_COUNT div 2 then do {
        v \<leftarrow> rd toc (2 * i);
        toc \<leftarrow> wr toc i v;
        compact_loop (i + 1) toc
      } else Some toc)"
  by pat_completeness auto
termination by (relation "measure (\<lambda>(i, _). MAX_TOC_ENTRY_COUNT div 2 - i)") auto

declare compact_loop.simps [simp del]

definition FillTOCTable :: "int \<Rightarrow> int \<Rightarrow> mp3_parser \<Rightarrow> (mp3_error \<times> mp3_parser) option" where
  "FillTOCTable aFilePos aTimeStampToFrame P =
     (case iTOC P of
        None \<Rightarrow> Some (MP3_ERROR_UNKNOWN, P)
      | Some toc \<Rightarrow>
          let diff = to_u32 (aTimeStampToFrame - iTimestampPrev P) in
          if iDurationScanComplete P then do {
            toc \<leftarrow> wr toc (iTOCFilledCount P) (to_s32 aFilePos);
            let P = P\<lparr>iTOC := Some toc, iTOCFilledCount := iTOCFilledCount P + 1\<rparr>;
            if iTimestampPrev P = 0 then do {
              (d, P) \<leftarrow> GetDurationFromCompleteScan P;
              Some (MP3_SUCCESS, P\<lparr>iBinWidth := d\<rparr>)
            } else Some (MP3_SUCCESS, P)
          }
          else if iTOCFilledCount P < MAX_TOC_ENTRY_COUNT \<and> diff \<ge> iBinWidth P then do {
            let P = (if iTimestampPrev P \<noteq> aTimeStampToFrame \<and> diff > iBinWidth P then P\<lparr>iBinWidth := diff\<rparr> else P);
            toc \<leftarrow> wr toc (iTOCFilledCount P) (to_s32 (aFilePos - StartOffset P));
            Some (MP3_SUCCESS, P\<lparr>iTOC := Some toc, iTOCFilledCount := iTOCFilledCount P + 1,
              iTimestampPrev := aTimeStampToFrame\<rparr>)
          }
          else if iTOCFilledCount P = MAX_TOC_ENTRY_COUNT then do {
            toc \<leftarrow> compact_loop 0 toc;
            Some (MP3_SUCCESS, P\<lparr>iTOC := Some toc, iTOCFilledCount := MAX_TOC_ENTRY_COUNT div 2,
              iTimestampPrev := to_u32 (iTimestampPrev P - iBinWidth P), iBinWidth := to_u32 (2 * iBinWidth P)\<rparr>)
          }
          else Some (MP3_SUCCESS, P))"

text \<open>Where the scan stops: the table gets the position, and a missing table changes the result.\<close>

definition fill_and_return :: "int \<Rightarrow> int \<Rightarrow> mp3_error \<Rightarrow> mp3_parser \<Rightarrow> (mp3_error \<times> mp3_parser) option" where
  "fill_and_return pos ts err P = do {
     (status, P) \<leftarrow> FillTOCTable pos ts P;
     Some (if status = MP3_ERROR_UNKNOWN then MP3_DURATION_PRESENT else err, P) }"

definition scan_complete :: "mp3_parser \<Rightarrow> mp3_parser" where
  "scan_complete P = P\<lparr>iDurationScanComplete := True\<rparr>"

section \<open>The scan\<close>

text \<open>\<open>(uint32)(FrameLengthInBytes * 8000.00f / BitRate)\<close>.\<close>

definition frame_duration :: "mp3_config \<Rightarrow> int option" where
  "frame_duration c = do { d \<leftarrow> fdiv (fmul (fint (FrameLengthInBytes c)) 8000) (fint (BitRate c)); float_to_u32 d }"

text \<open>The average bit rate with one more frame, and the parser's counters.\<close>

definition count_frame :: "mp3_config \<Rightarrow> int \<Rightarrow> mp3_parser \<Rightarrow> mp3_parser" where
  "count_frame c pos P =
     (let P = P\<lparr>iLastScanPosition := to_u32 pos, iScannedFrameCount := to_u32 (iScannedFrameCount P + 1)\<rparr>;
          avg = iAvgBitrateInbpsFromCompleteScan P
      in if iScannedFrameCount P > 1
         then if BitRate c \<noteq> avg
           then P\<lparr>iAvgBitrateInbpsFromCompleteScan :=
             to_s32 (avg + to_s32 (BitRate c - avg) sdiv to_s32 (iScannedFrameCount P))\<rparr>
           else P
         else P\<lparr>iAvgBitrateInbpsFromCompleteScan := BitRate c, mp3Type := ECBRType\<rparr>)"

text \<open>
  The header of the next frame, after a search for the sync word when there is none here: the error to
  return, or the header with the position. The seek back in front of the search is on \<open>fp\<close>.
\<close>

definition scan_header ::
  "byte_order \<Rightarrow> 'f file_ops \<Rightarrow> int \<Rightarrow> mp3_parser \<Rightarrow> 'f pvfile \<Rightarrow> 'f pvfile \<Rightarrow>
     ((mp3_error + mp3_header \<times> int) \<times> mp3_parser \<times> 'f pvfile \<times> 'f pvfile) option" where
  "scan_header bo io audioOffset P F G = do {
     let (bs, F) = pv_read io 4 F;
     if length bs \<noteq> 4 then do {
       let P = (if GetFileBufferingCapacity F = 0 then scan_complete P else P);
       (err, P) \<leftarrow> fill_and_return audioOffset 0 MP3_INSUFFICIENT_DATA P;
       Some (Inl err, P, F, G)
     } else do {
       firstHeader \<leftarrow> swap32_at bo bs 0;
       let offset = to_u32 (getCurrentFilePosition io F);
       let (ok, info) = GetMP3Header firstHeader;
       if ok then Some (Inr (info, offset), P, F, G)
       else do {
         let G = snd (SeektoOffset io G (0 - 4) SEEKCUR);
         (err, seekOffset, P, F) \<leftarrow> mp3FindSync bo io P offset F;
         if err \<noteq> MP3_SUCCESS then do {
           (err, P) \<leftarrow> fill_and_return offset (iScanTimestamp P) err (scan_complete P);
           Some (Inl err, P, F, G)
         } else do {
           let offset = to_u32 (offset + seekOffset);
           let (err, F) = SeektoOffset io F (to_s32 seekOffset) SEEKCUR;
           if err \<noteq> MP3_SUCCESS then Some (Inl err, P, F, G)
           else do {
             let (ok, bs, F) = readByteData io 4 F;
             if \<not> ok then do {
               (err, P) \<leftarrow> fill_and_return offset (iScanTimestamp P) MP3_INSUFFICIENT_DATA (scan_complete P);
               Some (Inl err, P, F, G)
             } else do {
               firstHeader \<leftarrow> swap32_at bo bs 0;
               let (ok, info) = GetMP3Header firstHeader;
               if ok then Some (Inr (info, offset), P, F, G)
               else do {
                 (err, P) \<leftarrow> fill_and_return offset (iScanTimestamp P) MP3_FILE_HDR_READ_ERR (scan_complete P);
                 Some (Inl err, P, F, G)
               }
             }
           }
         }
       }
     }
   }"

text \<open>The frames of one call, \<open>n\<close> still to scan: the error to return, or the time that they take.\<close>

fun scan_frames ::
  "byte_order \<Rightarrow> 'f file_ops \<Rightarrow> int \<Rightarrow> nat \<Rightarrow> int \<Rightarrow> mp3_parser \<Rightarrow> 'f pvfile \<Rightarrow> 'f pvfile \<Rightarrow>
     ((mp3_error + int) \<times> mp3_parser \<times> 'f pvfile \<times> 'f pvfile) option" where
  "scan_frames bo io audioOffset 0 frameDur P F G = Some (Inr frameDur, P, F, G)"
| "scan_frames bo io audioOffset (Suc n) frameDur P F G = do {
     (r, P, F, G) \<leftarrow> scan_header bo io audioOffset P F G;
     case r of
       Inl err \<Rightarrow> Some (Inl err, P, F, G)
     | Inr (info, offset) \<Rightarrow> do {
         (ok, c, P) \<leftarrow> DecodeMP3Header info False P;
         if \<not> ok then do {
           (err, P) \<leftarrow> fill_and_return offset (iScanTimestamp P) MP3_FILE_HDR_DECODE_ERR (scan_complete P);
           Some (Inl err, P, F, G)
         } else do {
           let F = snd (SeektoOffset io F (FrameLengthInBytes c - 4) SEEKCUR);
           d \<leftarrow> frame_duration c;
           scan_frames bo io audioOffset n (to_u32 (frameDur + d)) (count_frame c (pv_tell io F) P) F G
         }
       }
   }"

definition ScanMP3File ::
  "byte_order \<Rightarrow> 'f file_ops \<Rightarrow> nat \<Rightarrow> mp3_parser \<Rightarrow> 'f pvfile \<Rightarrow> 'f pvfile \<Rightarrow>
     (mp3_error \<times> mp3_parser \<times> 'f pvfile \<times> 'f pvfile) option" where
  "ScanMP3File bo io aFramesToScan P F G =
     (if iClipDurationFromMetadata P \<noteq> 0 \<or> iClipDurationFromVBRIHeader P \<noteq> 0 \<and>
        (entriesTOC (iVbriHeader P) \<ge> 0 \<or> has_flag (xing_flags (iXingHeader P)) TOC_FLAG)
      then Some (MP3_DURATION_PRESENT, P, F, G)
      else if iTOCFilledCount P = MAX_TOC_ENTRY_COUNT then do {
        (err, P) \<leftarrow> fill_and_return 0 0 MP3_SUCCESS P;
        Some (err, P, F, G)
      }
      else do {
        let (err, audioOffset, P, F) =
          (if iFirstScan P then
             if iTagSize P > 0 then
               let (err, F) = SeektoOffset io F (to_s32 (StartOffset P)) SEEKSET
               in if err \<noteq> MP3_SUCCESS then (err, 0, P, F) else (MP3_SUCCESS, to_s32 (StartOffset P), P\<lparr>iFirstScan := False\<rparr>, F)
             else (MP3_SUCCESS, 0, P\<lparr>iFirstScan := False\<rparr>, F)
           else (MP3_SUCCESS, to_s32 (iLastScanPosition P), P, F));
        if err \<noteq> MP3_SUCCESS then Some (err, P, F, G)
        else do {
          let P = P\<lparr>iInitSearchFileSize := min (iInitSearchFileSize P) (iLocalFileSize P)\<rparr>;
          (r, P, F, G) \<leftarrow> scan_frames bo io (to_u32 audioOffset) aFramesToScan 0 P F G;
          case r of
            Inl err \<Rightarrow> Some (err, P, F, G)
          | Inr frameDur \<Rightarrow> do {
              (err, P) \<leftarrow> fill_and_return (to_u32 audioOffset) (iScanTimestamp P) MP3_SUCCESS P;
              if err \<noteq> MP3_SUCCESS then Some (err, P, F, G)
              else Some (MP3_SUCCESS, P\<lparr>iScanTimestamp := to_u32 (iScanTimestamp P + frameDur)\<rparr>, F, G) }
        }
      })"

section \<open>What the table holds\<close>

lemma compact_loop_keeps:
  assumes "i \<le> 100" "length toc = 201"
  shows "\<exists>toc'. compact_loop i toc = Some toc' \<and> length toc' = 201 \<and> (\<forall>k < i. toc' ! k = toc ! k) \<and>
    (\<forall>k. i \<le> k \<and> k < 100 \<longrightarrow> toc' ! k = toc ! (2 * k))"
  using assms
proof (induction "100 - i" arbitrary: i toc)
  case 0
  then show ?case by (subst compact_loop.simps) (simp add: MAX_TOC_ENTRY_COUNT_def)
next
  case (Suc n)
  let ?toc = "toc[i := toc ! (2 * i)]"
  have i: "i < 100" using Suc.hyps(2) by simp
  have "\<exists>toc'. compact_loop (i + 1) ?toc = Some toc' \<and> length toc' = 201 \<and> (\<forall>k < i + 1. toc' ! k = ?toc ! k) \<and>
    (\<forall>k. i + 1 \<le> k \<and> k < 100 \<longrightarrow> toc' ! k = ?toc ! (2 * k))"
    by (rule Suc.hyps(1)) (use Suc.hyps(2) Suc.prems i in simp_all)
  then obtain toc' where t: "compact_loop (i + 1) ?toc = Some toc'" "length toc' = 201" "\<forall>k < i + 1. toc' ! k = ?toc ! k"
    "\<forall>k. i + 1 \<le> k \<and> k < 100 \<longrightarrow> toc' ! k = ?toc ! (2 * k)" by blast
  have "compact_loop i toc = Some toc'"
    using t(1) i Suc.prems(2) by (subst compact_loop.simps) (simp add: rd_def wr_def MAX_TOC_ENTRY_COUNT_def)
  moreover have "\<forall>k < i. toc' ! k = toc ! k" using t(3) by auto
  moreover have "toc' ! k = toc ! (2 * k)" if "i \<le> k" "k < 100" for k
    using t(3,4) that i Suc.prems(2) by (cases "k = i") auto
  ultimately show ?case using t(2) by blast
qed

lemma compact_table:
  assumes "length toc = 201"
  obtains toc' where "compact_loop 0 toc = Some toc'" "length toc' = 201" "\<forall>k < 100. toc' ! k = toc ! (2 * k)"
  using compact_loop_keeps [of 0 toc] assms by auto

text \<open>
  A scan at a constant pace: the samples \<open>0, \<dots>, n - 1\<close>, sample \<open>k\<close> at position \<open>pos k\<close> and time \<open>k * D\<close>. As in
  \<open>ScanMP3File\<close>, a full table is compacted by a call of its own.
\<close>

fun feed_toc :: "(nat \<Rightarrow> int) \<Rightarrow> int \<Rightarrow> nat \<Rightarrow> mp3_parser \<Rightarrow> mp3_parser option" where
  "feed_toc pos D 0 P = Some P"
| "feed_toc pos D (Suc n) P = do {
     P \<leftarrow> feed_toc pos D n P;
     P \<leftarrow> (if iTOCFilledCount P = MAX_TOC_ENTRY_COUNT then map_option snd (FillTOCTable 0 0 P) else Some P);
     map_option snd (FillTOCTable (pos n) (int n * D) P) }"

text \<open>A fresh table.\<close>

definition toc_fresh :: "mp3_parser \<Rightarrow> bool" where
  "toc_fresh P \<longleftrightarrow> (\<exists>toc. iTOC P = Some toc \<and> length toc = MAX_TOC_ENTRY_COUNT + 1) \<and> iTOCFilledCount P = 0 \<and>
     iTimestampPrev P = 0 \<and> iBinWidth P = 0 \<and> \<not> iDurationScanComplete P"

text \<open>
  After \<open>n\<close> samples the table has the positions of every \<open>2 ^ e\<close>-th one; the bin width is the time between
  two of them.
\<close>

definition toc_holds :: "(nat \<Rightarrow> int) \<Rightarrow> int \<Rightarrow> int \<Rightarrow> nat \<Rightarrow> nat \<Rightarrow> mp3_parser \<Rightarrow> bool" where
  "toc_holds pos D start n e P \<longleftrightarrow>
     (\<exists>toc. iTOC P = Some toc \<and> length toc = 201 \<and> (\<forall>i < iTOCFilledCount P. toc ! i = to_s32 (pos (i * 2 ^ e) - start))) \<and>
     \<not> iDurationScanComplete P \<and> StartOffset P = start \<and> iTOCFilledCount P \<le> 200 \<and>
     n \<le> iTOCFilledCount P * 2 ^ e \<and> iTOCFilledCount P * 2 ^ e < n + 2 ^ e \<and>
     iTimestampPrev P = (int (iTOCFilledCount P) - 1) * 2 ^ e * D \<and> iBinWidth P = (if n = 1 then 0 else 2 ^ e * D) \<and>
     (0 < e \<longrightarrow> 100 \<le> iTOCFilledCount P) \<and> (n = 1 \<longrightarrow> e = 0)"

lemma fill_compacts:
  assumes "toc_holds pos D start n e P" "iTOCFilledCount P = 200" "0 < D" "int n * D < 4294967296"
  obtains P' where "FillTOCTable f t P = Some (MP3_SUCCESS, P')" "toc_holds pos D start n (e + 1) P'" "iTOCFilledCount P' = 100"
proof -
  obtain toc where toc: "iTOC P = Some toc" "length toc = 201" "\<forall>i < 200. toc ! i = to_s32 (pos (i * 2 ^ e) - start)"
    using assms(1,2) by (auto simp: toc_holds_def)
  obtain toc' where toc': "compact_loop 0 toc = Some toc'" "length toc' = 201" "\<forall>k < 100. toc' ! k = toc ! (2 * k)"
    by (rule compact_table [OF toc(2)])
  have n: "n \<le> 200 * 2 ^ e" "199 * 2 ^ e < n" "n \<noteq> 1" "iBinWidth P = 2 ^ e * D" "iTimestampPrev P = 199 * 2 ^ e * D"
    using assms(1,2) by (auto simp: toc_holds_def)
  have "199 * 2 ^ e * D < int n * D"
    using n(2) assms(3) by (intro mult_strict_right_mono) (simp_all add: of_nat_less_iff [where 'a = int, symmetric] del: of_nat_less_iff)
  then have fits: "199 * (2 ^ e * D) < 4294967296" using assms(4) by (simp add: mult.assoc)
  have D0: "0 < 2 ^ e * D" using assms(3) by simp
  define P' where "P' = P\<lparr>iTOC := Some toc', iTOCFilledCount := 100,
    iTimestampPrev := to_u32 (iTimestampPrev P - iBinWidth P), iBinWidth := to_u32 (2 * iBinWidth P)\<rparr>"
  have "FillTOCTable f t P = Some (MP3_SUCCESS, P')"
    using assms(1,2) toc(1) toc'(1) by (simp add: FillTOCTable_def P'_def toc_holds_def MAX_TOC_ENTRY_COUNT_def)
  moreover have "toc_holds pos D start n (e + 1) P'"
  proof -
    define w where "w = 2 ^ e * D"
    have w: "0 < w" "199 * w < 4294967296" "iBinWidth P = w" "iTimestampPrev P = 199 * w" "2 ^ (e + 1) * D = 2 * w"
      using fits D0 n(4,5) by (simp_all add: w_def mult.assoc)
    have bins: "to_u32 (2 * iBinWidth P) = 2 ^ (e + 1) * D" "to_u32 (iTimestampPrev P - iBinWidth P) = 99 * 2 ^ (e + 1) * D"
      unfolding mult.assoc [of 99] w(3-5) using w(1,2) by (simp_all add: in_range)
    have entries: "\<forall>i < 100. toc' ! i = to_s32 (pos (i * 2 ^ (e + 1)) - start)"
      using toc(3) toc'(3) by (simp add: ac_simps)
    show ?thesis
      using assms(1) toc'(2) entries bins n(1-3) by (simp add: toc_holds_def P'_def)
  qed
  moreover have "iTOCFilledCount P' = 100" by (simp add: P'_def)
  ultimately show thesis by (rule that)
qed

lemma fill_first:
  assumes "toc_fresh P" "0 < D"
  obtains P' where "FillTOCTable (pos 0) 0 P = Some (MP3_SUCCESS, P')" "toc_holds pos D (StartOffset P) 1 0 P'"
proof -
  obtain toc where toc: "iTOC P = Some toc" "length toc = 201" "iTOCFilledCount P = 0" "iTimestampPrev P = 0" "iBinWidth P = 0"
    "\<not> iDurationScanComplete P"
    using assms(1) by (auto simp: toc_fresh_def MAX_TOC_ENTRY_COUNT_def)
  define P' where "P' = P\<lparr>iTOC := Some (toc[0 := to_s32 (pos 0 - StartOffset P)]), iTOCFilledCount := 1, iTimestampPrev := 0\<rparr>"
  have "FillTOCTable (pos 0) 0 P = Some (MP3_SUCCESS, P')"
    using toc by (simp add: FillTOCTable_def P'_def MAX_TOC_ENTRY_COUNT_def to_u32_def wr_def)
  moreover have "toc_holds pos D (StartOffset P) 1 0 P'" using toc by (simp add: toc_holds_def P'_def)
  ultimately show thesis by (rule that)
qed

lemma fill_next:
  assumes "toc_holds pos D start n e P" "iTOCFilledCount P < 200" "0 < n" "0 < D" "int n * D < 4294967296"
  obtains P' where "FillTOCTable (pos n) (int n * D) P = Some (MP3_SUCCESS, P')" "toc_holds pos D start (n + 1) e P'"
proof -
  define c where "c = iTOCFilledCount P"
  define w where "w = 2 ^ e * D"
  obtain toc where toc: "iTOC P = Some toc" "length toc = 201" "\<forall>i < c. toc ! i = to_s32 (pos (i * 2 ^ e) - start)"
    using assms(1) by (auto simp: toc_holds_def c_def)
  have h: "c < 200" "n \<le> c * 2 ^ e" "c * 2 ^ e < n + 2 ^ e" "\<not> iDurationScanComplete P" "StartOffset P = start"
    "iTimestampPrev P = (int c - 1) * w" "iBinWidth P = (if n = 1 then 0 else w)" "0 < e \<Longrightarrow> 100 \<le> c" "n = 1 \<Longrightarrow> e = 0"
    using assms(1,2) by (auto simp: toc_holds_def c_def w_def mult.assoc)
  have c0: "0 < c" using h(2) assms(3) by (cases "c = 0") auto
  have w0: "0 < w" using assms(4) by (simp add: w_def)
  have "int (c * 2 ^ e) < int (n + 2 ^ e)" using h(3) by (simp only: of_nat_less_iff)
  then have "int c * 2 ^ e < int n + 2 ^ e" by simp
  then have "int c * 2 ^ e * D < (int n + 2 ^ e) * D" using assms(4) by (rule mult_strict_right_mono)
  then have lo: "(int c - 1) * w < int n * D" by (simp add: w_def algebra_simps)
  have diff: "to_u32 (int n * D - iTimestampPrev P) = int n * D - (int c - 1) * w"
    unfolding h(6)
  proof (rule to_u32_id)
    have "0 \<le> (int c - 1) * w" using c0 w0 by simp
    then show "0 \<le> int n * D - (int c - 1) * w" "int n * D - (int c - 1) * w < 4294967296" using lo assms(5) by linarith+
  qed
  show thesis
  proof (cases "n = c * 2 ^ e")
    case True
    then have nD: "int n * D = int c * w" by (simp add: w_def)
    then have dw: "int n * D - (int c - 1) * w = w" by (simp add: algebra_simps)
    define P' where "P' = (if n = 1 then P\<lparr>iBinWidth := w\<rparr> else P)\<lparr>iTOC := Some (toc[c := to_s32 (pos n - start)]),
      iTOCFilledCount := c + 1, iTimestampPrev := int n * D\<rparr>"
    have neq: "iTimestampPrev P \<noteq> int n * D" using lo h(6) by simp
    have "FillTOCTable (pos n) (int n * D) P = Some (MP3_SUCCESS, P')"
      unfolding FillTOCTable_def toc(1) option.case Let_def diff dw c_def [symmetric] h(7)
      using h(1,4,5) w0 neq toc(2) by (simp add: MAX_TOC_ENTRY_COUNT_def wr_def P'_def c_def [symmetric])
    moreover have "toc_holds pos D start (n + 1) e P'"
      using h toc True nD assms(3) w0 by (auto simp: toc_holds_def P'_def nth_list_update less_Suc_eq w_def mult.assoc [symmetric])
    ultimately show ?thesis by (rule that)
  next
    case False
    then have n1: "n \<noteq> 1" "n + 1 \<le> c * 2 ^ e" using h(2,3,9) by auto
    then have "int (n + 1) \<le> int (c * 2 ^ e)" by (simp only: of_nat_le_iff)
    then have "int n + 1 \<le> int c * 2 ^ e" by simp
    then have "(int n + 1) * D \<le> int c * 2 ^ e * D" using assms(4) by (intro mult_right_mono) simp_all
    then have "int n * D + D \<le> int c * w" unfolding w_def mult.assoc distrib_right mult_1_left .
    moreover have "(int c - 1) * w = int c * w - w" by (simp add: left_diff_distrib)
    ultimately have "int n * D - (int c - 1) * w < w" using assms(4) by linarith
    then have "FillTOCTable (pos n) (int n * D) P = Some (MP3_SUCCESS, P)"
      unfolding FillTOCTable_def toc(1) option.case Let_def diff c_def [symmetric] h(7)
      using h(1,4) n1 by (simp add: MAX_TOC_ENTRY_COUNT_def)
    moreover have "toc_holds pos D start (n + 1) e P"
      using assms(1,3) n1 h(3) by (auto simp: toc_holds_def c_def)
    ultimately show ?thesis by (rule that)
  qed
qed

lemma feed_toc_holds:
  assumes "toc_fresh P" "0 < D" "int n * D < 4294967296" "0 < n"
  shows "\<exists>e P'. feed_toc pos D n P = Some P' \<and> toc_holds pos D (StartOffset P) n e P'"
  using assms(3,4)
proof (induction n)
  case (Suc n)
  show ?case
  proof (cases "n = 0")
    case True
    obtain P' where "FillTOCTable (pos 0) 0 P = Some (MP3_SUCCESS, P')" "toc_holds pos D (StartOffset P) 1 0 P'"
      by (rule fill_first [OF assms(1,2)])
    then show ?thesis using True assms(1) by (simp add: toc_fresh_def MAX_TOC_ENTRY_COUNT_def) blast
  next
    case False
    have "int n * D < int (Suc n) * D" using assms(2) by simp
    then have fits: "int n * D < 4294967296" using Suc.prems(1) by linarith
    obtain e P1 where P1: "feed_toc pos D n P = Some P1" "toc_holds pos D (StartOffset P) n e P1"
      using Suc.IH [OF fits] False by blast
    obtain e P2 where P2: "(if iTOCFilledCount P1 = 200 then map_option snd (FillTOCTable 0 0 P1) else Some P1) = Some P2"
      "toc_holds pos D (StartOffset P) n e P2" "iTOCFilledCount P2 < 200"
    proof (cases "iTOCFilledCount P1 = 200")
      case True
      obtain P2 where "FillTOCTable 0 0 P1 = Some (MP3_SUCCESS, P2)" "toc_holds pos D (StartOffset P) n (e + 1) P2"
        "iTOCFilledCount P2 = 100"
        by (rule fill_compacts [OF P1(2) True assms(2) fits])
      then show ?thesis using True by (intro that [of P2 "e + 1"]) simp_all
    next
      case False
      then show ?thesis using P1(2) by (intro that [of P1 e]) (auto simp: toc_holds_def)
    qed
    obtain P' where "FillTOCTable (pos n) (int n * D) P2 = Some (MP3_SUCCESS, P')" "toc_holds pos D (StartOffset P) (n + 1) e P'"
      by (rule fill_next [OF P2(2,3) _ assms(2) fits]) (use False in simp)
    then show ?thesis using P1(1) P2(1) by (simp add: MAX_TOC_ENTRY_COUNT_def) blast
  qed
qed simp

section \<open>Definedness of the steps\<close>

text \<open>Room for one more entry, and no duration to compute on the way.\<close>

definition toc_room :: "mp3_parser \<Rightarrow> bool" where
  "toc_room P \<longleftrightarrow> (\<exists>toc. iTOC P = Some toc \<and> length toc = 201) \<and> iTOCFilledCount P \<le> 200 \<and> iTimestampPrev P \<noteq> 0"

lemma fill_defined:
  assumes "toc_room P"
  shows "\<exists>P'. FillTOCTable f t P = Some (MP3_SUCCESS, P')"
proof -
  obtain toc where toc: "iTOC P = Some toc" "length toc = 201" "iTOCFilledCount P \<le> 200" "iTimestampPrev P \<noteq> 0"
    using assms by (auto simp: toc_room_def)
  obtain toc' where "compact_loop 0 toc = Some toc'" by (rule compact_table [OF toc(2)])
  then show ?thesis using toc by (simp add: FillTOCTable_def wr_def MAX_TOC_ENTRY_COUNT_def Let_def)
qed

lemma fill_and_return_defined: "toc_room P \<Longrightarrow> \<exists>P'. fill_and_return f t err P = Some (err, P')"
  using fill_defined [of P f t] by (auto simp: fill_and_return_def)

lemma toc_room_updates [simp]:
  "toc_room (scan_complete P) = toc_room P" "toc_room (P\<lparr>iInitSearchFileSize := x\<rparr>) = toc_room P"
  by (simp_all add: toc_room_def scan_complete_def)

lemma frame_duration_defined:
  assumes "0 \<le> FrameLengthInBytes c" "FrameLengthInBytes c \<le> 2000" "0 < BitRate c" "BitRate c \<le> 448000"
  obtains t where "frame_duration c = Some t"
proof -
  let ?n = "FrameLengthInBytes c"
  have a: "fint ?n = of_int ?n" "fint (BitRate c) = of_int (BitRate c)"
    unfolding fint_def using assms by (intro fl32_int; simp)+
  have m: "fmul (fint ?n) 8000 = of_int (?n * 8000)"
    unfolding fmul_def a(1) using fl32_int [of "?n * 8000"] assms by simp
  let ?q = "of_int (?n * 8000) / of_int (BitRate c) :: rat"
  have b1: "(1 :: rat) \<le> of_int (BitRate c)" using assms(3) by simp
  have q: "0 \<le> ?q" using assms by simp
  have "?q \<le> of_int (?n * 8000) / 1" using b1 assms by (intro divide_left_mono) simp_all
  also have "\<dots> \<le> 16000000" using assms(2) by simp
  finally have "fl32 ?q \<le> fl32 (of_int 16000000)" by (intro fl32_mono) simp
  also have "fl32 (of_int 16000000) = of_int 16000000" by (rule fl32_int) simp
  finally have "trunc (fl32 ?q) \<le> trunc (of_int 16000000)" by (rule trunc_mono)
  moreover have "0 \<le> trunc (fl32 ?q)" using fl32_nonneg [OF q] by (simp add: trunc_def)
  ultimately have "float_to_u32 (fl32 ?q) = Some (trunc (fl32 ?q))" by (simp add: float_to_u32_def trunc_def)
  then show thesis
    using that assms(3) by (simp add: frame_duration_def m fdiv_def a(2))
qed

text \<open>An accepted header: decoding it leaves the parser alone, and its frame has a duration.\<close>

lemma config_bitrate_max:
  assumes "header_valid h"
  shows "BitRate (config_of h) \<le> 448000"
proof -
  obtain i where i: "GetMP3Header h = (True, i)" "decode_header i = Some (True, config_of h)"
    by (rule accepted_word [OF assms])
  have ok: "header_ok i" using GetMP3Header_accepts [OF i(1)] by simp
  show ?thesis by (rule decode_header_True [OF ok i(2)]) simp
qed

lemma scanned_frame:
  assumes "GetMP3Header h = (True, i)"
  obtains "DecodeMP3Header i False P = Some (False, zero_config, P)"
  | t where "DecodeMP3Header i False P = Some (True, config_of h, P)" "frame_duration (config_of h) = Some t" "header_valid h"
proof -
  obtain b where b: "decode_header i = Some (b, config_of h)" using decode_of_word [of h] assms by auto
  show thesis
  proof (cases b)
    case True
    then have hv: "header_valid h" using assms b by (simp add: header_valid_def)
    obtain i' where "24 \<le> FrameLengthInBytes (config_of h)" "FrameLengthInBytes (config_of h) \<le> 1441"
      by (rule accepted_word [OF hv])
    then obtain t where "frame_duration (config_of h) = Some t"
      using frame_duration_defined [of "config_of h"] config_bitrate_pos [OF hv] config_bitrate_max [OF hv] by force
    then show ?thesis using that(2) True b hv by (simp add: DecodeMP3Header_def)
  next
    case False
    have "config_of h = zero_config" by (rule decode_False) (use False b in simp)
    then show ?thesis using that(1) False b by (simp add: DecodeMP3Header_def)
  qed
qed

section \<open>Scanning frames\<close>

text \<open>\<open>n\<close> whole frames from \<open>p\<close> on: where they end, how long they play, and what they do to the counters.\<close>

fun frames_ok :: "byte_order \<Rightarrow> u8 list \<Rightarrow> nat \<Rightarrow> nat \<Rightarrow> bool" where
  "frames_ok bo d p 0 \<longleftrightarrow> True"
| "frames_ok bo d p (Suc n) \<longleftrightarrow> p + 4 \<le> length d \<and> header_valid (word_at bo d p) \<and>
     p + frame_len (word_at bo d p) \<le> length d \<and> frames_ok bo d (p + frame_len (word_at bo d p)) n"

fun frames_end :: "byte_order \<Rightarrow> u8 list \<Rightarrow> nat \<Rightarrow> nat \<Rightarrow> nat" where
  "frames_end bo d p 0 = p"
| "frames_end bo d p (Suc n) = frames_end bo d (p + frame_len (word_at bo d p)) n"

fun frames_time :: "byte_order \<Rightarrow> u8 list \<Rightarrow> nat \<Rightarrow> nat \<Rightarrow> int \<Rightarrow> int" where
  "frames_time bo d p 0 t = t"
| "frames_time bo d p (Suc n) t =
     frames_time bo d (p + frame_len (word_at bo d p)) n (to_u32 (t + the (frame_duration (config_of (word_at bo d p)))))"

fun count_frames :: "byte_order \<Rightarrow> u8 list \<Rightarrow> nat \<Rightarrow> nat \<Rightarrow> mp3_parser \<Rightarrow> mp3_parser" where
  "count_frames bo d p 0 P = P"
| "count_frames bo d p (Suc n) P =
     count_frames bo d (p + frame_len (word_at bo d p)) n
       (count_frame (config_of (word_at bo d p)) (int (p + frame_len (word_at bo d p))) P)"

text \<open>What counting leaves alone: the table and what it depends on.\<close>

definition toc_part :: "mp3_parser \<Rightarrow> int list option \<times> nat \<times> int \<times> int" where
  "toc_part P = (iTOC P, iTOCFilledCount P, iTimestampPrev P, iBinWidth P)"

lemma count_frame_keeps [simp]:
  "iTOC (count_frame c x P) = iTOC P" "iTOCFilledCount (count_frame c x P) = iTOCFilledCount P"
  "iTimestampPrev (count_frame c x P) = iTimestampPrev P" "iBinWidth (count_frame c x P) = iBinWidth P"
  "StartOffset (count_frame c x P) = StartOffset P" "iDurationScanComplete (count_frame c x P) = iDurationScanComplete P"
  "iScanTimestamp (count_frame c x P) = iScanTimestamp P" "iLastScanPosition (count_frame c x P) = to_u32 x"
  "iScannedFrameCount (count_frame c x P) = to_u32 (iScannedFrameCount P + 1)"
  by (simp_all add: count_frame_def Let_def)

lemma count_frames_keeps [simp]:
  "iTOC (count_frames bo d p n P) = iTOC P" "iTOCFilledCount (count_frames bo d p n P) = iTOCFilledCount P"
  "iTimestampPrev (count_frames bo d p n P) = iTimestampPrev P" "iBinWidth (count_frames bo d p n P) = iBinWidth P"
  "StartOffset (count_frames bo d p n P) = StartOffset P"
  "iDurationScanComplete (count_frames bo d p n P) = iDurationScanComplete P"
  "iScanTimestamp (count_frames bo d p n P) = iScanTimestamp P"
  by (induction n arbitrary: p P) simp_all

lemma count_frames_position:
  "0 < n \<Longrightarrow> iLastScanPosition (count_frames bo d p n P) = to_u32 (int (frames_end bo d p n))"
proof (induction n arbitrary: p P)
  case (Suc n)
  then show ?case by (cases "n = 0") simp_all
qed simp

lemma count_frames_number:
  "to_u32 (iScannedFrameCount (count_frames bo d p n P)) = to_u32 (iScannedFrameCount P + int n)"
proof (induction n arbitrary: p P)
  case (Suc n)
  show ?case by (simp add: Suc.IH) (simp add: to_u32_def mod_simps ac_simps)
qed simp

text \<open>Filling the table needs, and changes, only its part of the state.\<close>

lemma fill_same:
  assumes "FillTOCTable f t P = Some (st, P1)" "toc_part Q = toc_part P" "StartOffset Q = StartOffset P"
    "\<not> iDurationScanComplete P" "\<not> iDurationScanComplete Q"
  obtains Q1 where "FillTOCTable f t Q = Some (st, Q1)" "toc_part Q1 = toc_part P1"
    "Q1 = Q\<lparr>iTOC := iTOC Q1, iTOCFilledCount := iTOCFilledCount Q1, iTimestampPrev := iTimestampPrev Q1, iBinWidth := iBinWidth Q1\<rparr>"
proof -
  have "\<exists>Q1. FillTOCTable f t Q = Some (st, Q1) \<and> toc_part Q1 = toc_part P1 \<and>
    Q1 = Q\<lparr>iTOC := iTOC Q1, iTOCFilledCount := iTOCFilledCount Q1, iTimestampPrev := iTimestampPrev Q1, iBinWidth := iBinWidth Q1\<rparr>"
    using assms
    by (auto simp: FillTOCTable_def toc_part_def Let_def split: option.splits if_splits Option.bind_splits)
  then show thesis using that by blast
qed

text \<open>A table with room gets an entry when the time since the last one has reached the bin width, and no other.\<close>

lemma fill_room:
  assumes "iTOC P = Some toc" "iTOCFilledCount P < length toc" "iTOCFilledCount P < 200" "\<not> iDurationScanComplete P"
    and "gap = to_u32 (t - iTimestampPrev P)"
  obtains P1 where "FillTOCTable f t P = Some (MP3_SUCCESS, P1)"
    "toc_part P1 = (if gap < iBinWidth P then toc_part P
     else (Some (toc[iTOCFilledCount P := to_s32 (f - StartOffset P)]), iTOCFilledCount P + 1, t,
       if iTimestampPrev P = t then iBinWidth P else gap))"
proof (cases "gap < iBinWidth P")
  case True
  have "FillTOCTable f t P = Some (MP3_SUCCESS, P)"
    unfolding FillTOCTable_def assms(1) option.case assms(5) [symmetric] Let_def MAX_TOC_ENTRY_COUNT_def
    using True assms(3,4) by simp
  then show thesis using that True by simp
next
  case False
  let ?b = "if iTimestampPrev P = t then iBinWidth P else gap"
  let ?P1 = "P\<lparr>iTOC := Some (toc[iTOCFilledCount P := to_s32 (f - StartOffset P)]), iTOCFilledCount := iTOCFilledCount P + 1,
    iTimestampPrev := t, iBinWidth := ?b\<rparr>"
  have "FillTOCTable f t P = Some (MP3_SUCCESS, ?P1)"
    unfolding FillTOCTable_def assms(1) option.case assms(5) [symmetric] Let_def MAX_TOC_ENTRY_COUNT_def
    using False assms(2-4) by (cases "iTimestampPrev P = t"; cases "gap = iBinWidth P") (simp_all add: wr_def)
  then show thesis using that False by (simp add: toc_part_def)
qed

text \<open>A parser that scans: neither the metadata nor a header gave the duration, and the first call is over.\<close>

definition scanning :: "mp3_parser \<Rightarrow> bool" where
  "scanning P \<longleftrightarrow> iClipDurationFromMetadata P = 0 \<and> iClipDurationFromVBRIHeader P = 0 \<and> \<not> iFirstScan P"

text \<open>The end of the file: every call stores one more entry.\<close>

definition scan_over :: "mp3_parser \<Rightarrow> bool" where
  "scan_over P \<longleftrightarrow> scanning P \<and> iDurationScanComplete P \<and> (\<exists>toc. iTOC P = Some toc \<and> length toc = 201) \<and>
     iTOCFilledCount P \<le> 201 \<and> iTimestampPrev P \<noteq> 0"

lemma fill_over:
  assumes "scan_over P" "iTOCFilledCount P \<le> 200"
  obtains P' where "FillTOCTable f t P = Some (MP3_SUCCESS, P')" "scan_over P'" "iTOCFilledCount P' = iTOCFilledCount P + 1"
proof -
  obtain toc where toc: "iTOC P = Some toc" "length toc = 201" using assms(1) by (auto simp: scan_over_def)
  let ?P = "P\<lparr>iTOC := Some (toc[iTOCFilledCount P := to_s32 f]), iTOCFilledCount := iTOCFilledCount P + 1\<rparr>"
  have "FillTOCTable f t P = Some (MP3_SUCCESS, ?P)"
    using assms toc by (simp add: FillTOCTable_def wr_def scan_over_def)
  moreover have "scan_over ?P" using assms toc by (simp add: scan_over_def scanning_def)
  ultimately show thesis using that by simp
qed

lemma scan_over_limit: "scan_over P \<Longrightarrow> scan_over (P\<lparr>iInitSearchFileSize := x, iDurationScanComplete := True\<rparr>)"
  by (simp add: scan_over_def scanning_def)

context byte_file
begin

lemma scan_header_here:
  assumes "pos_at F d p" "p + 4 \<le> length d" "GetMP3Header (word_at bo d p) = (True, i)"
  obtains F' where "scan_header bo io a P F G = Some (Inr (i, int (p + 4)), P, F', G)" "pos_at F' d (p + 4)"
proof -
  note le = atD [OF assms(1)]
  obtain F1 where F1: "pv_read io 4 F = (take 4 (drop p d), F1)" "pos_at F1 d (p + 4)"
    using read_at [OF assms(1), of 4] assms(2) by auto
  have "to_u32 (getCurrentFilePosition io F1) = int (p + 4)"
    using le assms(2) by (simp add: getCurrentFilePosition_def tell_at [OF F1(2)] in_range)
  then show thesis
    using F1 assms(2,3) swap32_word [OF assms(2), of bo]
    by (intro that [of F1]) (simp_all add: scan_header_def)
qed

lemma scan_frames_at:
  assumes "pos_at F d p" "frames_ok bo d p n"
  shows "\<exists>F'. scan_frames bo io a n t P F G =
      Some (Inr (frames_time bo d p n t), count_frames bo d p n P, F', G) \<and> pos_at F' d (frames_end bo d p n)"
  using assms
proof (induction n arbitrary: F p t P)
  case (Suc n)
  let ?h = "word_at bo d p"
  have h: "p + 4 \<le> length d" "header_valid ?h" "p + frame_len ?h \<le> length d" "frames_ok bo d (p + frame_len ?h) n"
    using Suc.prems(2) by simp_all
  obtain i where i: "GetMP3Header ?h = (True, i)" "decode_header i = Some (True, config_of ?h)"
    "24 \<le> FrameLengthInBytes (config_of ?h)" "FrameLengthInBytes (config_of ?h) \<le> 1441"
    by (rule accepted_word [OF h(2)])
  obtain F1 where F1: "scan_header bo io a P F G = Some (Inr (i, int (p + 4)), P, F1, G)" "pos_at F1 d (p + 4)"
    by (rule scan_header_here [OF Suc.prems(1) h(1) i(1)])
  have dec: "DecodeMP3Header i False P = Some (True, config_of ?h, P)" using i(2) by (simp add: DecodeMP3Header_def)
  obtain t1 where t1: "frame_duration (config_of ?h) = Some t1"
    using scanned_frame [OF i(1), of P] dec by auto
  have len: "FrameLengthInBytes (config_of ?h) = int (frame_len ?h)" by (simp add: frame_len_int)
  obtain F2 where F2: "SeektoOffset io F1 (int (frame_len ?h) - 4) SEEKCUR = (MP3_SUCCESS, F2)" "pos_at F2 d (p + frame_len ?h)"
    by (rule seek_cur_at [OF F1(2), of "int (frame_len ?h) - 4" "p + frame_len ?h"]) (use h(1,3) i(3) len in auto)
  show ?case
    using Suc.IH [OF F2(2) h(4), of "to_u32 (t + t1)" "count_frame (config_of ?h) (int (p + frame_len ?h)) P"]
      F1(1) dec t1 F2(1) tell_at [OF F2(2)] len by simp
qed simp

lemma scan_file_frames:
  assumes "pos_at F d p" "frames_ok bo d p n" "scanning P" "iLastScanPosition P = int p" "iTOCFilledCount P < 200"
    and "\<not> iDurationScanComplete P" "FillTOCTable (int p) (iScanTimestamp P) P = Some (MP3_SUCCESS, P1)" "0 < n"
  shows "\<exists>P' F'. ScanMP3File bo io n P F G = Some (MP3_SUCCESS, P', F', G) \<and> pos_at F' d (frames_end bo d p n) \<and>
    iLastScanPosition P' = int (frames_end bo d p n) \<and> toc_part P' = toc_part P1 \<and>
    to_u32 (iScannedFrameCount P') = to_u32 (iScannedFrameCount P + int n) \<and>
    iScanTimestamp P' = to_u32 (iScanTimestamp P + frames_time bo d p n 0)"
proof -
  note le = atD [OF assms(1)]
  let ?P = "P\<lparr>iInitSearchFileSize := min (iInitSearchFileSize P) (iLocalFileSize P)\<rparr>"
  let ?Q = "count_frames bo d p n ?P"
  obtain F' where F': "scan_frames bo io (int p) n 0 ?P F G = Some (Inr (frames_time bo d p n 0), ?Q, F', G)"
    "pos_at F' d (frames_end bo d p n)"
    using scan_frames_at [OF assms(1,2)] by blast
  obtain Q1 where Q1: "FillTOCTable (int p) (iScanTimestamp P) ?Q = Some (MP3_SUCCESS, Q1)" "toc_part Q1 = toc_part P1"
    "Q1 = ?Q\<lparr>iTOC := iTOC Q1, iTOCFilledCount := iTOCFilledCount Q1, iTimestampPrev := iTimestampPrev Q1, iBinWidth := iBinWidth Q1\<rparr>"
    by (rule fill_same [OF assms(7), of ?Q]) (use assms(6) in \<open>simp_all add: toc_part_def\<close>)
  have keep: "iScanTimestamp Q1 = iScanTimestamp P" "iLastScanPosition Q1 = iLastScanPosition ?Q"
    "iScannedFrameCount Q1 = iScannedFrameCount ?Q"
    by (subst Q1(3); simp)+
  let ?P' = "Q1\<lparr>iScanTimestamp := to_u32 (iScanTimestamp P + frames_time bo d p n 0)\<rparr>"
  have pos: "to_s32 (iLastScanPosition P) = int p" "to_u32 (int p) = int p" using le assms(4) by (simp_all add: in_range)
  have "frames_end bo d p n \<le> length d" using atD(1) [OF F'(2)] .
  then have fits: "to_u32 (int (frames_end bo d p n)) = int (frames_end bo d p n)" using le by (simp add: in_range)
  have "ScanMP3File bo io n P F G = Some (MP3_SUCCESS, ?P', F', G)"
    using assms(3,5) pos F'(1) Q1(1) keep(1)
    by (simp add: ScanMP3File_def scanning_def MAX_TOC_ENTRY_COUNT_def fill_and_return_def Let_def)
  moreover have "toc_part ?P' = toc_part P1" using Q1(2) by (simp add: toc_part_def)
  ultimately show ?thesis
    using F'(2) keep count_frames_position [OF assms(8)] count_frames_number [of bo d p n ?P] fits
    by (intro exI [of _ ?P'] exI [of _ F']) simp
qed

lemma scan_at_end:
  assumes "pos_at F d p" "length d < p + 4" "scan_over P"
  obtains "iTOCFilledCount P = 201" "ScanMP3File bo io (Suc n) P F G = None"
  | err P' F' where "ScanMP3File bo io (Suc n) P F G = Some (err, P', F', G)" "iTOCFilledCount P' = iTOCFilledCount P + 1"
    "scan_over P'" "\<exists>q. pos_at F' d q \<and> length d < q + 4"
proof (cases "iTOCFilledCount P = 200")
  case True
  obtain P' where P': "FillTOCTable 0 0 P = Some (MP3_SUCCESS, P')" "scan_over P'" "iTOCFilledCount P' = iTOCFilledCount P + 1"
    by (rule fill_over [OF assms(3)]) (use True in simp)
  have "ScanMP3File bo io (Suc n) P F G = Some (MP3_SUCCESS, P', F, G)"
    using True P'(1) assms(3)
    by (simp add: ScanMP3File_def scan_over_def scanning_def MAX_TOC_ENTRY_COUNT_def fill_and_return_def)
  then show thesis using that(2) P'(2,3) assms(1,2) by blast
next
  case False
  note le = atD [OF assms(1)]
  obtain F1 where F1: "pv_read io 4 F = (drop p d, F1)" "pos_at F1 d (length d)"
    using read_at [OF assms(1), of 4] assms(2) by (auto simp: min_def)
  have len: "length (drop p d) \<noteq> 4" using assms(2) by simp
  let ?P = "P\<lparr>iInitSearchFileSize := min (iInitSearchFileSize P) (iLocalFileSize P), iDurationScanComplete := True\<rparr>"
  let ?a = "to_u32 (to_s32 (iLastScanPosition P))"
  have step: "ScanMP3File bo io (Suc n) P F G =
      (case FillTOCTable ?a 0 ?P of None \<Rightarrow> None
       | Some (status, P') \<Rightarrow> Some (if status = MP3_ERROR_UNKNOWN then MP3_DURATION_PRESENT else MP3_INSUFFICIENT_DATA, P', F1, G))"
    using assms(3) False F1(1) len
    by (cases "FillTOCTable ?a 0 ?P")
      (auto simp: ScanMP3File_def scan_over_def scanning_def MAX_TOC_ENTRY_COUNT_def fill_and_return_def scan_header_def
        scan_complete_def GetFileBufferingCapacity_def Let_def)
  show thesis
  proof (cases "iTOCFilledCount P = 201")
    case True
    then have "FillTOCTable ?a 0 ?P = None" using assms(3) by (auto simp: FillTOCTable_def scan_over_def wr_def)
    then show ?thesis using that(1) True step by simp
  next
    case f: False
    have "iTOCFilledCount ?P \<le> 200" using f False assms(3) by (simp add: scan_over_def)
    then obtain P' where P': "FillTOCTable ?a 0 ?P = Some (MP3_SUCCESS, P')" "scan_over P'"
      "iTOCFilledCount P' = iTOCFilledCount ?P + 1"
      by (rule fill_over [OF scan_over_limit [OF assms(3)]])
    show ?thesis
      by (rule that(2) [of MP3_INSUFFICIENT_DATA P' F1]) (use step P' F1(2) in auto)
  qed
qed

text \<open>Where there is no header the scan searches in its own file and moves the player's.\<close>

lemma scan_header_moves:
  assumes "pos_at F d p" "p + 4 \<le> length d" "\<not> fst (GetMP3Header (word_at bo d p))" "toc_room P"
    and "iLocalFileSizeSet P \<longrightarrow> iLocalFileSize P = int (length d)" "pos_at G e q" "4 \<le> q"
  shows "\<exists>r P' F' G'. scan_header bo io a P F G = Some (r, P', F', G') \<and> pos_at G' e (q - 4) \<and>
    (\<forall>i off. r = Inr (i, off) \<longrightarrow> toc_room P' \<and> (\<exists>h. GetMP3Header h = (True, i)))"
proof -
  obtain F1 where F1: "pv_read io 4 F = (take 4 (drop p d), F1)" "pos_at F1 d (p + 4)"
    using read_at [OF assms(1), of 4] assms(2) by auto
  have len: "min (length d - p) 4 = 4" using assms(2) by simp
  obtain i0 where i0: "GetMP3Header (word_at bo d p) = (False, i0)" using assms(3) by (cases "GetMP3Header (word_at bo d p)") auto
  obtain G1 where G1: "SeektoOffset io G (- 4) SEEKCUR = (MP3_SUCCESS, G1)" "pos_at G1 e (q - 4)"
    by (rule seek_cur_at [OF assms(6), of "- 4" "q - 4"]) (use assms(7) atD(1) [OF assms(6)] in auto)
  let ?o = "to_u32 (getCurrentFilePosition io F1)"
  obtain err off P1 F2 k where s: "mp3FindSync bo io P ?o F1 = Some (err, off, P1, F2)" "pos_at F2 d k"
    using find_sync_at [OF F1(2) assms(5), of bo ?o] by blast
  have room: "toc_room P1" using find_sync_limit(1) [OF s(1)] assms(4) by (metis toc_room_updates(2))
  note start = scan_header_def F1(1) Let_def prod.case len swap32_word [OF assms(2)] i0 G1(1) snd_conv s(1)
  have fill: "\<exists>P'. fill_and_return f t x (scan_complete P1) = Some (x, P')" for f t x
    by (rule fill_and_return_defined) (simp add: room)
  show ?thesis
  proof (cases "err = MP3_SUCCESS")
    case False
    then show ?thesis using fill [of ?o "iScanTimestamp P1" err] G1(2) by (auto simp: start)
  next
    case True
    obtain e2 F3 where F3: "SeektoOffset io F2 (to_s32 off) SEEKCUR = (e2, F3)" by fastforce
    show ?thesis
    proof (cases "e2 = MP3_SUCCESS")
      case False
      then show ?thesis using True F3 G1(2) by (auto simp: start)
    next
      case e2: True
      obtain ok bs F4 where F4: "readByteData io 4 F3 = (ok, bs, F4)" by (metis prod_cases3)
      show ?thesis
      proof (cases ok)
        case False
        then show ?thesis using True e2 F3 F4 G1(2) fill [of "to_u32 (?o + off)" "iScanTimestamp P1" MP3_INSUFFICIENT_DATA]
          by (auto simp: start)
      next
        case ok: True
        then have "4 \<le> length bs" using F4 by (auto simp: readByteData_def split: prod.splits if_splits)
        then have "0 < length bs" "1 < length bs" "2 < length bs" "3 < length bs" by linarith+
        then obtain w where w: "swap32_at bo bs 0 = Some w" by (simp add: swap32_at_def rd_def)
        obtain b i where g: "GetMP3Header w = (b, i)" by fastforce
        show ?thesis
          using True e2 F3 F4 G1(2) ok w g room fill [of "to_u32 (?o + off)" "iScanTimestamp P1" MP3_FILE_HDR_READ_ERR]
          by (cases b) (auto simp: start)
      qed
    qed
  qed
qed

lemma scan_moves:
  assumes "pos_at F d p" "p + 4 \<le> length d" "\<not> fst (GetMP3Header (word_at bo d p))" "scanning P" "toc_room P"
    and "iTOCFilledCount P < 200" "iLocalFileSizeSet P \<longrightarrow> iLocalFileSize P = int (length d)" "pos_at G e q" "4 \<le> q"
  shows "\<exists>r P' F' G'. ScanMP3File bo io 1 P F G = Some (r, P', F', G') \<and> pos_at G' e (q - 4)"
proof -
  let ?P = "P\<lparr>iInitSearchFileSize := min (iInitSearchFileSize P) (iLocalFileSize P)\<rparr>"
  let ?a = "to_u32 (to_s32 (iLastScanPosition P))"
  have room: "toc_room ?P" using assms(5) by simp
  have size: "iLocalFileSizeSet ?P \<longrightarrow> iLocalFileSize ?P = int (length d)" using assms(7) by simp
  obtain r P1 F1 G1 where h: "scan_header bo io ?a ?P F G = Some (r, P1, F1, G1)" "pos_at G1 e (q - 4)"
    "\<forall>i off. r = Inr (i, off) \<longrightarrow> toc_room P1 \<and> (\<exists>h. GetMP3Header h = (True, i))"
    using scan_header_moves [OF assms(1-3) room size assms(8,9), of ?a] by blast
  have one: "scan_frames bo io a 1 t Q F G = scan_frames bo io a (Suc 0) t Q F G" for a t Q by simp
  note start = ScanMP3File_def scanning_def MAX_TOC_ENTRY_COUNT_def Let_def
  show ?thesis
  proof (cases r)
    case (Inl err)
    then show ?thesis using assms(4,6) h(1,2) by (simp add: start one)
  next
    case (Inr x)
    obtain i off where r: "r = Inr (i, off)" using Inr by (cases x) simp
    obtain hw where hw: "toc_room P1" "GetMP3Header hw = (True, i)" using h(3) r by blast
    have fill: "\<exists>P'. fill_and_return f t x Q = Some (x, P')" if "toc_room Q" for f t x Q
      by (rule fill_and_return_defined [OF that])
    show ?thesis
    proof (rule scanned_frame [OF hw(2), of P1])
      assume "DecodeMP3Header i False P1 = Some (False, zero_config, P1)"
      then show ?thesis
        using assms(4,6) h(1,2) r fill [of "scan_complete P1" off "iScanTimestamp P1" MP3_FILE_HDR_DECODE_ERR] hw(1)
        by (auto simp: start one)
    next
      fix t
      assume d: "DecodeMP3Header i False P1 = Some (True, config_of hw, P1)" "frame_duration (config_of hw) = Some t"
      let ?F = "snd (SeektoOffset io F1 (FrameLengthInBytes (config_of hw) - 4) SEEKCUR)"
      have room: "toc_room (count_frame c x P1)" for c x using hw(1) by (simp add: toc_room_def)
      show ?thesis
        using assms(4,6) h(1,2) r d fill [OF room, of ?a "iScanTimestamp P1" MP3_SUCCESS "config_of hw" "pv_tell io ?F"]
        by (auto simp: start one)
    qed
  qed
qed

end

section \<open>Properties\<close>

text \<open>
  C16. The table of contents of a scan at a constant pace. However many samples come, the table never
  overflows; it holds the positions of every \<open>2 ^ e\<close>-th sample from the first on, without a gap, and the bin
  width is exactly the time between two of them, so that entry \<open>i\<close> is the position at time \<open>i * iBinWidth\<close>.
  After a compaction at least 100 entries are in use.
\<close>

theorem FillTOCTable_samples:
  assumes "toc_fresh P" "0 < D" "int n * D < 4294967296" "2 \<le> n"
  shows "\<exists>e P' toc. feed_toc pos D n P = Some P' \<and> iTOC P' = Some toc \<and> length toc = 201 \<and>
    iTOCFilledCount P' \<le> 200 \<and> (0 < e \<longrightarrow> 100 \<le> iTOCFilledCount P') \<and>
    n \<le> iTOCFilledCount P' * 2 ^ e \<and> iTOCFilledCount P' * 2 ^ e < n + 2 ^ e \<and>
    iBinWidth P' = 2 ^ e * D \<and> (\<forall>i < iTOCFilledCount P'. toc ! i = to_s32 (pos (i * 2 ^ e) - StartOffset P))"
proof -
  obtain e P' where "feed_toc pos D n P = Some P'" "toc_holds pos D (StartOffset P) n e P'"
    using feed_toc_holds [OF assms(1-3)] assms(4) by fastforce
  then show ?thesis using assms(4) by (intro exI [of _ e] exI [of _ P']) (auto simp: toc_holds_def)
qed

text \<open>
  C17. A call of \<open>ScanMP3File\<close> in a scan that has begun, is not over and has room in its table (fewer than 200
  entries), and that meets only whole frames, reads them all and nothing else: the scan file moves to
  the end of the last one, the player's file stays, the frame count and the scan time grow by what was
  read. The table gets one entry, the position of the first of them behind the start offset, when the
  time since the last entry has reached the bin width, and stays as it is when it has not.
\<close>

theorem ScanMP3File_frames:
  assumes "file_at F d p" "frames_ok bo d p n" "scanning P" "iLastScanPosition P = int p" "iTOCFilledCount P < 200"
    and "\<not> iDurationScanComplete P" "iTOC P = Some toc" "length toc = 201" "0 < n"
    and "gap = to_u32 (iScanTimestamp P - iTimestampPrev P)"
  shows "\<exists>P' F'. ScanMP3File bo cached_file n P F G = Some (MP3_SUCCESS, P', F', G) \<and> file_at F' d (frames_end bo d p n) \<and>
    iLastScanPosition P' = int (frames_end bo d p n) \<and>
    to_u32 (iScannedFrameCount P') = to_u32 (iScannedFrameCount P + int n) \<and>
    iScanTimestamp P' = to_u32 (iScanTimestamp P + frames_time bo d p n 0) \<and>
    (iTOC P', iTOCFilledCount P', iTimestampPrev P', iBinWidth P') =
      (if gap < iBinWidth P then (Some toc, iTOCFilledCount P, iTimestampPrev P, iBinWidth P)
       else (Some (toc[iTOCFilledCount P := to_s32 (int p - StartOffset P)]), iTOCFilledCount P + 1, iScanTimestamp P,
         if iTimestampPrev P = iScanTimestamp P then iBinWidth P else gap))"
proof -
  obtain P1 where "FillTOCTable (int p) (iScanTimestamp P) P = Some (MP3_SUCCESS, P1)"
    "toc_part P1 = (if gap < iBinWidth P then toc_part P
     else (Some (toc[iTOCFilledCount P := to_s32 (int p - StartOffset P)]), iTOCFilledCount P + 1, iScanTimestamp P,
       if iTimestampPrev P = iScanTimestamp P then iBinWidth P else gap))"
    by (rule fill_room [OF assms(7) _ assms(5,6,10)]) (use assms(5,8) in simp)
  then show ?thesis
    using cached.scan_file_frames [OF assms(1-6) _ assms(9), of P1 G] assms(7) by (fastforce simp: toc_part_def)
qed

text \<open>\<open>ScanMP3File\<close> called \<open>k\<close> times.\<close>

fun scan_calls ::
  "byte_order \<Rightarrow> 'f file_ops \<Rightarrow> nat \<Rightarrow> nat \<Rightarrow> mp3_parser \<Rightarrow> 'f pvfile \<Rightarrow> 'f pvfile \<Rightarrow> (mp3_parser \<times> 'f pvfile \<times> 'f pvfile) option" where
  "scan_calls bo io frames 0 P F G = Some (P, F, G)"
| "scan_calls bo io frames (Suc k) P F G = do {
     (_, P, F, G) \<leftarrow> ScanMP3File bo io frames P F G; scan_calls bo io frames k P F G }"

lemma scan_calls_end:
  assumes "file_at F d p" "length d < p + 4" "scan_over P"
  shows "scan_calls bo cached_file (Suc n) k P F G = None \<longleftrightarrow> 201 - iTOCFilledCount P < k"
  using assms
proof (induction k arbitrary: P F G p)
  case (Suc k)
  show ?case
  proof (rule cached.scan_at_end [OF Suc.prems, of bo n G])
    assume "iTOCFilledCount P = 201" "ScanMP3File bo cached_file (Suc n) P F G = None"
    then show ?thesis by simp
  next
    fix err P' F'
    assume s: "ScanMP3File bo cached_file (Suc n) P F G = Some (err, P', F', G)" "iTOCFilledCount P' = iTOCFilledCount P + 1"
      "scan_over P'" "\<exists>q. file_at F' d q \<and> length d < q + 4"
    then obtain q where q: "file_at F' d q" "length d < q + 4" by blast
    have "iTOCFilledCount P' \<le> 201" using s(3) by (simp add: scan_over_def)
    then show ?thesis using Suc.IH [OF q s(3), of G] s(1,2) by auto
  qed
qed simp

text \<open>
  C18. When the scan is complete and the file at its end, nothing stops \<open>ScanMP3File\<close> from storing one more
  entry of the table in every call: exactly the calls that come after the 201 entries are full store
  behind the table.
\<close>

theorem ScanMP3File_overflows:
  assumes "file_at F d p" "length d < p + 4" "scan_over P"
  shows "scan_calls bo cached_file (Suc n) k P F G = None \<longleftrightarrow> 201 - iTOCFilledCount P < k"
  by (rule scan_calls_end [OF assms])

text \<open>
  C20. Where the scan file does not stand at a header, \<open>ScanMP3File\<close> (for one frame) moves the player's file
  back by four bytes, whatever the search then finds: the seek in front of the search is on the wrong file.
\<close>

theorem ScanMP3File_moves_player:
  assumes "file_at F d p" "p + 4 \<le> length d" "\<not> fst (GetMP3Header (word_at bo d p))" "scanning P" "toc_room P"
    and "iTOCFilledCount P < 200" "iLocalFileSizeSet P \<longrightarrow> iLocalFileSize P = int (length d)" "file_at G e q" "4 \<le> q"
  shows "\<exists>r P' F' G'. ScanMP3File bo cached_file 1 P F G = Some (r, P', F', G') \<and> file_at G' e (q - 4)"
  by (rule cached.scan_moves [OF assms])

section \<open>Instances\<close>

text \<open>A parser in front of its first sample.\<close>

definition demo_scan :: mp3_parser where
  "demo_scan = (MP3Parser 0)\<lparr>iTOC := Some (replicate 201 0), iFirstScan := False\<rparr>"

lemma demo_scan_fresh: "toc_fresh demo_scan" "scanning demo_scan"
  by (simp_all add: toc_fresh_def demo_scan_def MP3Parser_def MAX_TOC_ENTRY_COUNT_def scanning_def)

theorem FillTOCTable_samples_witness:
  "\<exists>e P' toc. feed_toc (\<lambda>k. int k * 400) 500 1000 demo_scan = Some P' \<and> iTOC P' = Some toc \<and> length toc = 201 \<and>
    iTOCFilledCount P' \<le> 200 \<and> 1000 \<le> iTOCFilledCount P' * 2 ^ e \<and>
    (\<forall>i < iTOCFilledCount P'. toc ! i = to_s32 (int (i * 2 ^ e) * 400))"
proof -
  have "StartOffset demo_scan = 0" by (simp add: demo_scan_def MP3Parser_def)
  then show ?thesis
    using FillTOCTable_samples [OF demo_scan_fresh(1), of 500 1000 "\<lambda>k. int k * 400"] by simp blast
qed

theorem ScanMP3File_frames_witness:
  "\<exists>P' F'. ScanMP3File LITTLE_ENDIAN cached_file 2 demo_scan (pv_open (replicate 4096 0) crc_file)
      (pv_open (replicate 4096 0) []) = Some (MP3_SUCCESS, P', F', pv_open (replicate 4096 0) []) \<and>
    file_at F' crc_file 48 \<and> iLastScanPosition P' = 48 \<and> iTOCFilledCount P' = 1"
proof -
  have frames: "frames_ok LITTLE_ENDIAN crc_file 0 2" "frames_end LITTLE_ENDIAN crc_file 0 2 = 48"
    by (simp_all add: numeral_2_eq_2 crc_words crc_config)
  have P: "iLastScanPosition demo_scan = int 0" "iTOCFilledCount demo_scan = 0" "\<not> iDurationScanComplete demo_scan"
    "iTOC demo_scan = Some (replicate 201 0)" "iScanTimestamp demo_scan = 0" "iTimestampPrev demo_scan = 0" "iBinWidth demo_scan = 0"
    by (simp_all add: demo_scan_def MP3Parser_def)
  have fill: "iTOCFilledCount demo_scan < 200" "length (replicate 201 (0 :: int)) = 201" "(0 :: nat) < 2" using P(2) by simp_all
  show ?thesis
    using ScanMP3File_frames [OF crc_open frames(1) demo_scan_fresh(2) P(1) fill(1) P(3,4) fill(2,3) refl, of "pv_open (replicate 4096 0) []"]
      frames(2) P by (auto simp: to_u32_def)
qed

theorem ScanMP3File_overflows_witness:
  "scan_calls LITTLE_ENDIAN cached_file 20 2
      (demo_scan\<lparr>iDurationScanComplete := True, iTOCFilledCount := 200, iTimestampPrev := 1\<rparr>)
      (pv_open (replicate 4096 0) []) (pv_open (replicate 4096 0) []) = None"
proof -
  have at0: "file_at (pv_open (replicate 4096 0) []) [] 0" by (rule pv_open_at) simp_all
  have "scan_over (demo_scan\<lparr>iDurationScanComplete := True, iTOCFilledCount := 200, iTimestampPrev := 1\<rparr>)"
    by (simp add: scan_over_def demo_scan_def scanning_def MP3Parser_def)
  from ScanMP3File_overflows [OF at0 _ this, of LITTLE_ENDIAN 19 2] show ?thesis by simp
qed

theorem ScanMP3File_moves_player_witness:
  "\<exists>G r P' F' G'. file_at G crc_file 24 \<and> ScanMP3File LITTLE_ENDIAN cached_file 1 (demo_scan\<lparr>iTimestampPrev := 1\<rparr>)
      (pv_open (replicate 4096 0) (replicate 10 0)) G = Some (r, P', F', G') \<and> file_at G' crc_file 20"
proof -
  have at0: "file_at (pv_open (replicate 4096 0) (replicate 10 0)) (replicate 10 0) 0" by (rule pv_open_at) simp_all
  obtain G where G: "file_at G crc_file 24"
    using cached.seek_at [OF crc_open refl, of 24 SEEKSET] by (auto simp: crc_words)
  have word: "word_at LITTLE_ENDIAN (replicate 10 0) 0 = 0" by (simp add: word_at_def swap_little_endian)
  have "\<not> fst (GetMP3Header 0)" by (simp add: GetMP3Header_def frame_constants)
  then show ?thesis
    using ScanMP3File_moves_player [OF at0 _ _ _ _ _ _ G, of LITTLE_ENDIAN "demo_scan\<lparr>iTimestampPrev := 1\<rparr>"] G word
    by (simp add: demo_scan_def MP3Parser_def scanning_def toc_room_def) blast
qed

end
