(* ===== verification/Mp3Seek.thy ===== *)
theory Mp3Seek
  imports Mp3Toc
begin

text \<open>
  The duration of an MP3 file and seeking in it: \<open>ComputeDurationFromNRandomFrames\<close>,
  \<open>GetDurationFromRandomScan\<close>, \<open>GetDuration\<close>, \<open>SeekPointFromTimestamp\<close>, \<open>SeekToTimestamp\<close>,
  \<open>GetFileOffsetForAutoResume\<close> and \<open>PeekNextBundledAccessUnits\<close> of \<open>pvmi/mp3parser.cpp\<close>. \<open>None\<close> is an
  access outside a table, a division by zero, or a conversion of a \<open>float\<close> that does not fit.
\<close>

section \<open>The average bit rate of frames at 30 places\<close>

definition MIN_RANDOM_FRAMES_TO_SCAN :: nat where "MIN_RANDOM_FRAMES_TO_SCAN = 4"
definition MIN_RANDOM_LOCATION_TO_SCAN :: nat where "MIN_RANDOM_LOCATION_TO_SCAN = 30"

text \<open>The frames at one place, \<open>n\<close> still to read: the error, the average and the file.\<close>

fun place_frames ::
  "byte_order \<Rightarrow> 'f file_ops \<Rightarrow> nat \<Rightarrow> int \<Rightarrow> int \<Rightarrow> mp3_parser \<Rightarrow> 'f pvfile \<Rightarrow>
     (mp3_error \<times> int \<times> mp3_parser \<times> 'f pvfile) option" where
  "place_frames bo io 0 framecount avgBitRate P F = Some (MP3_SUCCESS, avgBitRate, P, F)"
| "place_frames bo io (Suc n) framecount avgBitRate P F = do {
     let (ok, bs, F) = readByteData io 4 F;
     if \<not> ok then Some (MP3_INSUFFICIENT_DATA, avgBitRate, P, F)
     else do {
       firstHeader \<leftarrow> swap32_at bo bs 0;
       let (ok, info) = GetMP3Header firstHeader;
       if \<not> ok then Some (MP3_FILE_HDR_READ_ERR, avgBitRate, P, F)
       else do {
         (ok, c, P) \<leftarrow> DecodeMP3Header info False P;
         if \<not> ok then Some (MP3_FILE_HDR_DECODE_ERR, avgBitRate, P, F)
         else do {
           let F = snd (SeektoOffset io F (FrameLengthInBytes c - 4) SEEKCUR);
           let framecount = framecount + 1;
           let avg = (if framecount = 1 then BitRate c else avgBitRate);
           let avg = (if BitRate c \<noteq> avg then to_s32 (avg + (BitRate c - avg) sdiv framecount) else avg);
           place_frames bo io n framecount avg P F
         }
       }
     }
   }"

text \<open>
  The places, \<open>n\<close> still to visit: the last error, the sum of the averages and the number of places. A
  place whose first frame cannot be read counts with the average of the place before.
\<close>

fun visit_places ::
  "byte_order \<Rightarrow> 'f file_ops \<Rightarrow> nat \<Rightarrow> int \<Rightarrow> nat \<Rightarrow> int \<Rightarrow> nat \<Rightarrow> int \<Rightarrow> mp3_error \<Rightarrow> mp3_parser \<Rightarrow> 'f pvfile \<Rightarrow>
     (mp3_error \<times> int \<times> nat \<times> mp3_parser \<times> 'f pvfile) option" where
  "visit_places bo io aNumFrames skipMultiple 0 totBR numSearchLoc avgBitRate err P F = Some (err, totBR, numSearchLoc, P, F)"
| "visit_places bo io aNumFrames skipMultiple (Suc n) totBR numSearchLoc avgBitRate err P F = do {
     let randomByteOffset = to_u32 (to_u32 (getCurrentFilePosition io F) + skipMultiple);
     if randomByteOffset > iLocalFileSize P then Some (err, totBR, numSearchLoc, P, F)
     else do {
       let F = snd (SeektoOffset io F (to_s32 randomByteOffset) SEEKSET);
       (err, seekOffset, P, F) \<leftarrow> mp3FindSync bo io P randomByteOffset F;
       if err \<noteq> MP3_SUCCESS then Some (err, totBR, numSearchLoc, P, F)
       else do {
         let F = snd (SeektoOffset io F (to_s32 seekOffset) SEEKCUR);
         (e, avg, P, F) \<leftarrow> place_frames bo io aNumFrames 0 avgBitRate P F;
         visit_places bo io aNumFrames skipMultiple n (to_s32 (totBR + avg)) (numSearchLoc + 1) avg
           (if e \<noteq> MP3_SUCCESS then e else err) P F
       }
     }
   }"

definition ComputeDurationFromNRandomFrames ::
  "byte_order \<Rightarrow> 'f file_ops \<Rightarrow> nat \<Rightarrow> nat \<Rightarrow> mp3_parser \<Rightarrow> 'f pvfile \<Rightarrow> (mp3_error \<times> mp3_parser \<times> 'f pvfile) option" where
  "ComputeDurationFromNRandomFrames bo io aNumFrames aNumRandomLoc P F = do {
     let size = (if iLocalFileSizeSet P then to_s32 (iLocalFileSize P) else 0);
     let size = to_s32 (size - StartOffset P);
     let size = (if iID3V1Present P then to_s32 (size - ID3_V1_TAG_SIZE) else size);
     let skipMultiple = to_u32 (size sdiv (int aNumRandomLoc + 1));
     (err, totBR, numSearchLoc, P, F) \<leftarrow> visit_places bo io aNumFrames skipMultiple aNumRandomLoc 0 0 0 MP3_SUCCESS P F;
     let avg = (if numSearchLoc > 0 then totBR sdiv int numSearchLoc else 0);
     let P = P\<lparr>iAvgBitrateInbpsFromRandomScan := avg\<rparr>;
     Some (if avg = 0 then MP3_ERROR_UNKNOWN else err, P, F)
   }"

text \<open>The error, \<open>aClipDuration\<close> when it is assigned, the parser and the file.\<close>

definition GetDurationFromRandomScan ::
  "byte_order \<Rightarrow> 'f file_ops \<Rightarrow> mp3_parser \<Rightarrow> 'f pvfile \<Rightarrow> (mp3_error \<times> int option \<times> mp3_parser \<times> 'f pvfile) option" where
  "GetDurationFromRandomScan bo io P F =
     (if iClipDurationFromRandomScan P > 0 then Some (MP3_SUCCESS, Some (iClipDurationFromRandomScan P), P, F)
      else do {
        let currFilePos = to_s32 (getCurrentFilePosition io F);
        (status, P, F) \<leftarrow> ComputeDurationFromNRandomFrames bo io MIN_RANDOM_FRAMES_TO_SCAN MIN_RANDOM_LOCATION_TO_SCAN P F;
        (d, P) \<leftarrow> (if status \<noteq> MP3_ERROR_UNKNOWN then do {
            d \<leftarrow> duration_of_size (to_u32 (iLocalFileSize P - StartOffset P)) (iAvgBitrateInbpsFromRandomScan P);
            Some (Some d, P\<lparr>iClipDurationFromRandomScan := d\<rparr>)
          } else Some (None, P));
        let F = snd (SeektoOffset io F currFilePos SEEKSET);
        Some (status, d, P, F)
      })"

section \<open>The duration\<close>

text \<open>
  \<open>GetDurationFromMetadata\<close>: \<open>tlen\<close> is the value of the first \<open>duration-from-metadata\<close> frame of the ID3
  parser, when there is one.
\<close>

definition GetDurationFromMetadata :: "int option \<Rightarrow> mp3_parser \<Rightarrow> int \<times> mp3_parser" where
  "GetDurationFromMetadata tlen P =
     (let P = (if iClipDurationFromMetadata P \<le> 0
               then case tlen of Some v \<Rightarrow> P\<lparr>iClipDurationFromMetadata := v\<rparr> | None \<Rightarrow> P else P)
      in (iClipDurationFromMetadata P, P))"

definition header_duration :: "mp3_parser \<Rightarrow> (int \<times> mp3_parser) option" where
  "header_duration P =
     (if mp3Type P = EXINGType \<or> mp3Type P = EVBRIType then do {
        (err, d, P) \<leftarrow> GetDurationFromVBRIHeader P;
        Some (if err \<noteq> MP3_SUCCESS then 0 else case d of Some d \<Rightarrow> d | None \<Rightarrow> 0, P)
      } else Some (0, P))"

text \<open>The bit rate from the size and a duration that is known.\<close>

definition bitrate_from_duration :: "int \<Rightarrow> mp3_parser \<Rightarrow> mp3_parser option" where
  "bitrate_from_duration clipDuration P =
     (if iAvgBitrateInbpsFromRandomScan P \<le> 0 then do {
        let n = iLocalFileSize P;
        let n = (if iID3V2Present P then to_u32 (n - StartOffset P) else n);
        let n = (if iID3V1Present P then to_u32 (n - ID3_V1_TAG_SIZE) else n);
        q \<leftarrow> fdiv (fmul (fint n) 8000) (fint clipDuration);
        b \<leftarrow> float_to_s32 q;
        Some (P\<lparr>iAvgBitrateInbpsFromRandomScan := b\<rparr>)
      } else Some P)"

definition GetDuration ::
  "byte_order \<Rightarrow> 'f file_ops \<Rightarrow> int option \<Rightarrow> bool \<Rightarrow> mp3_parser \<Rightarrow> 'f pvfile \<Rightarrow> (int \<times> mp3_parser \<times> 'f pvfile) option" where
  "GetDuration bo io tlen aMetadataDuration P F =
     (if aMetadataDuration then case GetDurationFromMetadata tlen P of (d, P) \<Rightarrow> Some (d, P, F)
      else if GetFileBufferingCapacity F = 0 then
        if \<not> iDurationScanComplete P then do {
          (clipDuration, P) \<leftarrow> header_duration P;
          let (meta, P) = (if clipDuration = 0 then GetDurationFromMetadata tlen P else (0, P));
          (early, clipDuration, P, F) \<leftarrow>
            (if clipDuration = 0 \<and> meta > 0 then Some (False, iClipDurationFromMetadata P, P, F)
             else if clipDuration = 0 then do {
               (err, d, P, F) \<leftarrow> GetDurationFromRandomScan bo io P F;
               Some (err = MP3_SUCCESS, case d of Some d \<Rightarrow> d | None \<Rightarrow> clipDuration, P, F)
             } else Some (False, clipDuration, P, F));
          if early then Some (clipDuration, P\<lparr>iClipDurationInMsec := clipDuration\<rparr>, F)
          else do {
            P \<leftarrow> bitrate_from_duration clipDuration P;
            Some (clipDuration, P\<lparr>iClipDurationInMsec := clipDuration\<rparr>, F)
          }
        } else do {
          (d, P) \<leftarrow> GetDurationFromCompleteScan P;
          Some (d, P\<lparr>iClipDurationInMsec := d\<rparr>, F)
        }
      else do {
        (clipDuration, P) \<leftarrow> header_duration P;
        (clipDuration, P) \<leftarrow>
          (if clipDuration = 0 then do {
             (err, d, P) \<leftarrow> EstimateDurationFromExternalFileSize P;
             Some (if err = MP3_SUCCESS then iClipDurationFromEstimation P
                   else case d of Some d \<Rightarrow> d | None \<Rightarrow> clipDuration, P)
           } else Some (clipDuration, P));
        Some (clipDuration, P\<lparr>iClipDurationInMsec := clipDuration\<rparr>, F)
      })"

section \<open>Seeking\<close>

definition fsub :: "rat \<Rightarrow> rat \<Rightarrow> rat" where "fsub a b = fl32 (a - b)"

text \<open>
  With a XING table: between the entries of two per cents. A clip duration of 0 makes the quotient
  infinite, which is cut to 1, or not a number.
\<close>

definition xing_seek_point :: "int \<Rightarrow> mp3_parser \<Rightarrow> int option" where
  "xing_seek_point timestamp P = do {
     let X = iXingHeader P;
     fpc \<leftarrow> (if iClipDurationFromVBRIHeader P = 0 then if timestamp = 0 then None else Some 1
             else fdiv (fint timestamp) (fint (iClipDurationFromVBRIHeader P)));
     let fpc = (if fpc < 0 then 0 else if fpc > 1 then 1 else fpc);
     pc \<leftarrow> float_to_u32 (fmul fpc 100);
     a \<leftarrow> rdi (xing_TOC X) pc;
     let fa = fint a;
     let pc = (if pc > 99 then 99 else pc);
     fb \<leftarrow> (if pc < 99 then do { b \<leftarrow> rdi (xing_TOC X) (pc + 1); Some (fint b) } else Some 256);
     let fx = fadd fa (fmul (fsub fb fa) (fsub (fmul 100 fpc) (fint pc)));
     if xing_flags X = 15 \<or> xing_flags X = 7 \<or> xing_flags X = 3 then do {
       q \<leftarrow> fdiv fx 256;
       n \<leftarrow> float_to_s32 (fmul q (fint (xing_bytes X)));
       Some (if to_u32 n > to_u32 (xing_bytes X) then 0 else to_u32 n)
     } else Some 0
   }"

text \<open>With a VBRI table: the entries up to the time, less a fraction of the last one.\<close>

function vbri_sum :: "int list \<Rightarrow> rat \<Rightarrow> int \<Rightarrow> nat \<Rightarrow> rat \<Rightarrow> int \<Rightarrow> (nat \<times> rat \<times> int) option" where
  "vbri_sum toc per timestamp i acc seekPoint =
     (if acc \<le> fint timestamp then do {
        v \<leftarrow> rd toc i;
        vbri_sum toc per timestamp (i + 1) (fadd acc per) (to_u32 (seekPoint + v))
      } else Some (i, acc, seekPoint))"
  by pat_completeness auto
termination by (relation "measure (\<lambda>(toc, _, _, i, _). length toc - i)") (auto simp: rd_eq_Some_iff)

declare vbri_sum.simps [simp del]

definition vbri_seek_point :: "int \<Rightarrow> mp3_parser \<Rightarrow> (int \<times> int) option" where
  "vbri_seek_point timestamp P = do {
     let V = iVbriHeader P;
     let SamplesPerFrame = (if vbri_sampleRate V \<ge> 32000 then 1152 else 576);
     q \<leftarrow> fdiv (fmul (fint (vbri_frames V)) (fint SamplesPerFrame)) (fint (vbri_sampleRate V));
     let fLengthMS = fmul q 1000;
     per \<leftarrow> fdiv fLengthMS (fint (to_s32 (entriesTOC V + 1)));
     timestamp \<leftarrow> (if fint timestamp > fLengthMS then float_to_u32 fLengthMS else Some timestamp);
     (i, acc, seekPoint) \<leftarrow> vbri_sum (vbri_TOC V) per timestamp 0 0 0;
     q \<leftarrow> fdiv (fsub acc (fint timestamp)) per;
     h \<leftarrow> fdiv 1 (fmul 2 (fint (fTableEntry V)));
     fraction \<leftarrow> float_to_s32 (fmul (fadd q h) (fint (fTableEntry V)));
     v \<leftarrow> rdi (vbri_TOC V) (int i - 1);
     q \<leftarrow> fdiv (fmul (fint v) (fint (to_u32 fraction))) (fint (fTableEntry V));
     b \<leftarrow> float_to_s32 q;
     Some (to_u32 (seekPoint - b), timestamp)
   }"

text \<open>With the table of the scan: the seek point and \<open>binNo\<close> (bin 0 starts at time 0, so the loop stops there).\<close>

function bin_back :: "int \<Rightarrow> int \<Rightarrow> nat \<Rightarrow> nat" where
  "bin_back width timestamp binNo =
     (if to_u32 (int binNo * width) > timestamp \<and> binNo \<noteq> 0 then bin_back width timestamp (binNo - 1) else binNo)"
  by pat_completeness auto
termination by (relation "measure (\<lambda>(_, _, n). n)") auto

declare bin_back.simps [simp del]

definition toc_seek_point :: "int \<Rightarrow> mp3_parser \<Rightarrow> (int \<times> nat) option" where
  "toc_seek_point timestamp P = do {
     fpc \<leftarrow> fdiv (fint timestamp) (fint (iClipDurationInMsec P));
     n \<leftarrow> float_to_u32 (fmul fpc (fint (int (iTOCFilledCount P))));
     let binNo = bin_back (iBinWidth P) timestamp (nat n);
     toc \<leftarrow> iTOC P;
     a \<leftarrow> rd toc binNo;
     b \<leftarrow> rd toc (binNo + 1);
     let offsetDiff = to_u32 (b - a);
     let tsDiff = to_u32 (timestamp - to_u32 (int binNo * iBinWidth P));
     if iBinWidth P = 0 then None
     else Some (to_u32 (a + tsDiff * (offsetDiff div iBinWidth P)), binNo)
   }"

definition bitrate_seek_point :: "int \<Rightarrow> mp3_parser \<Rightarrow> 'f pvfile \<Rightarrow> int option" where
  "bitrate_seek_point timestamp P F = do {
     let avgBR = (if GetFileBufferingCapacity F > 0 then iAvgBitrateInbps P
       else if iDurationScanComplete P \<and> iAvgBitrateInbpsFromCompleteScan P > 0 then iAvgBitrateInbpsFromCompleteScan P
       else iAvgBitrateInbpsFromRandomScan P);
     q \<leftarrow> fdiv (fmul (fint avgBR) (fint timestamp)) 8000;
     float_to_u32 q }"

text \<open>The four ways: the seek point, the timestamp and \<open>binNo\<close>.\<close>

definition raw_seek_point :: "int \<Rightarrow> mp3_parser \<Rightarrow> 'f pvfile \<Rightarrow> (int \<times> int \<times> nat) option" where
  "raw_seek_point timestamp P F =
     (let maxTSInTOC = to_u32 (int (iTOCFilledCount P) * iBinWidth P);
          bUseTOCForRepos = (iTOCFilledCount P > 1 \<and> (timestamp < maxTSInTOC \<or> iDurationScanComplete P))
      in if mp3Type P = EXINGType \<and> has_flag (xing_flags (iXingHeader P)) TOC_FLAG
         then do { n \<leftarrow> xing_seek_point timestamp P; Some (n, timestamp, 0) }
         else if mp3Type P = EVBRIType
         then do { (n, timestamp) \<leftarrow> vbri_seek_point timestamp P; Some (n, timestamp, 0) }
         else if bUseTOCForRepos
         then do { (n, binNo) \<leftarrow> toc_seek_point timestamp P; Some (n, timestamp, binNo) }
         else do { n \<leftarrow> bitrate_seek_point timestamp P F; Some (n, timestamp, 0) })"

text \<open>The time of the place that the search found, from the complete table.\<close>

definition time_of_place :: "int \<Rightarrow> int \<Rightarrow> nat \<Rightarrow> mp3_parser \<Rightarrow> int option" where
  "time_of_place timestamp seekPoint binNo P =
     (if iDurationScanComplete P then do {
        toc \<leftarrow> iTOC P;
        a \<leftarrow> rd toc binNo;
        b \<leftarrow> rd toc (binNo + 1);
        let offsetDiff = to_u32 (b - a);
        if offsetDiff = 0 then None
        else Some (to_u32 (int binNo * iBinWidth P + to_u32 (iBinWidth P * to_u32 (seekPoint - a)) div offsetDiff))
      } else Some timestamp)"

text \<open>
  The search for the next frame, on a local file only: the seek point and the timestamp, and whether to
  return at once.
\<close>

definition settle_seek_point ::
  "byte_order \<Rightarrow> 'f file_ops \<Rightarrow> int \<Rightarrow> int \<Rightarrow> nat \<Rightarrow> mp3_parser \<Rightarrow> 'f pvfile \<Rightarrow> (bool \<times> int \<times> int \<times> mp3_parser \<times> 'f pvfile) option" where
  "settle_seek_point bo io seekPoint timestamp binNo P F =
     (if seekPoint > 0 \<and> GetFileBufferingCapacity F = 0 then do {
        let F = snd (SeektoOffset io F (to_s32 (seekPoint + StartOffset P)) SEEKSET);
        (err, seekOffset, P, F) \<leftarrow> mp3FindSync bo io P (to_u32 (seekPoint + StartOffset P)) F;
        if err = MP3_SUCCESS then do {
          let seekPoint = to_u32 (seekPoint + seekOffset);
          let F = snd (SeektoOffset io F (to_s32 seekOffset) SEEKCUR);
          timestamp \<leftarrow> time_of_place timestamp seekPoint binNo P;
          Some (False, seekPoint, timestamp, P, F)
        }
        else if err = MP3_INSUFFICIENT_DATA \<or> err = MP3_END_OF_FILE
        then Some (True, iLocalFileSize P, iClipDurationInMsec P, P\<lparr>iTimestamp := iClipDurationInMsec P\<rparr>, F)
        else Some (False, 0, 0, P, F)
      } else Some (False, seekPoint, timestamp, P, F))"

definition frame_at_time :: "int \<Rightarrow> mp3_parser \<Rightarrow> mp3_parser option" where
  "frame_at_time timestamp P =
     (let c = iMP3ConfigInfo P in
      if FrameSizeUnComp c > 0 \<and> SamplingRate c > 0 then do {
        q \<leftarrow> fdiv (fint (to_u32 (timestamp * (SamplingRate c sdiv FrameSizeUnComp c)))) 1000;
        n \<leftarrow> float_to_s32 q;
        Some (P\<lparr>iCurrFrameNumber := n\<rparr>)
      } else Some P)"

text \<open>The seek point, the timestamp, the parser and the file.\<close>

definition SeekPointFromTimestamp ::
  "byte_order \<Rightarrow> 'f file_ops \<Rightarrow> int \<Rightarrow> mp3_parser \<Rightarrow> 'f pvfile \<Rightarrow> (int \<times> int \<times> mp3_parser \<times> 'f pvfile) option" where
  "SeekPointFromTimestamp bo io timestamp P F = do {
     (seekPoint, timestamp, binNo) \<leftarrow> raw_seek_point timestamp P F;
     (stop, seekPoint, timestamp, P, F) \<leftarrow> settle_seek_point bo io seekPoint timestamp binNo P F;
     if stop then Some (seekPoint, timestamp, P, F)
     else if seekPoint > 0 then do {
       P \<leftarrow> frame_at_time timestamp P;
       Some (seekPoint, timestamp, P\<lparr>iTimestamp := timestamp\<rparr>, F)
     }
     else Some (seekPoint, 0, P\<lparr>iCurrFrameNumber := 0, iTimestamp := 0\<rparr>, F)
   }"

definition SeekToTimestamp ::
  "byte_order \<Rightarrow> 'f file_ops \<Rightarrow> int \<Rightarrow> mp3_parser \<Rightarrow> 'f pvfile \<Rightarrow> (int \<times> mp3_parser \<times> 'f pvfile) option" where
  "SeekToTimestamp bo io timestampInMsec P F = do {
     (SeekPosition, timestampInMsec, P, F) \<leftarrow> SeekPointFromTimestamp bo io timestampInMsec P F;
     let SeekPosition =
       (if GetFileBufferingCapacity F = 0 \<and> SeekPosition = iLocalFileSize P \<and> timestampInMsec = iClipDurationInMsec P
        then SeekPosition else to_u32 (SeekPosition + StartOffset P));
     let F = snd (SeektoOffset io F (to_s32 SeekPosition) SEEKSET);
     Some (timestampInMsec, P, F)
   }"

text \<open>The offset that \<open>GetFileOffsetForAutoResume\<close> reports; what it returns is 0.\<close>

definition GetFileOffsetForAutoResume ::
  "byte_order \<Rightarrow> 'f file_ops \<Rightarrow> mp3_parser \<Rightarrow> 'f pvfile \<Rightarrow> (int \<times> mp3_parser \<times> 'f pvfile) option" where
  "GetFileOffsetForAutoResume bo io P F = do {
     let ts = to_u32 (GetTimestampForCurrentSample P + 10000);
     (seekpoint, _, P, F) \<leftarrow> SeekPointFromTimestamp bo io ts P F;
     Some (if seekpoint \<noteq> 0 then to_u32 (StartOffset P + seekpoint) else 0, P, F)
   }"

text \<open>\<open>PeekNextBundledAccessUnits\<close>: the bytes to read, and the timestamp and length in \<open>mInfo\<close> when it is set.\<close>

function peek_units :: "nat \<Rightarrow> nat \<Rightarrow> int \<Rightarrow> (int \<times> int) option \<Rightarrow> mp3_parser \<Rightarrow> (int \<times> (int \<times> int) option) option" where
  "peek_units n i nBytesToRead mInfo P =
     (if i < n \<and> to_s32 (iCurrFrameNumber P + int i) < iNumberOfFrames P then do {
        ts \<leftarrow> GetTimestampForSample (iMP3ConfigInfo P) (to_s32 (iCurrFrameNumber P + int i));
        let len = FrameLengthInBytes (iMP3ConfigInfo P) + 4;
        peek_units n (i + 1) (to_u32 (nBytesToRead + len)) (Some (ts, len)) P
      } else Some (nBytesToRead, mInfo))"
  by pat_completeness auto
termination by (relation "measure (\<lambda>(n, i, _). n - i)") auto

declare peek_units.simps [simp del]

definition PeekNextBundledAccessUnits :: "nat \<Rightarrow> mp3_parser \<Rightarrow> (int \<times> (int \<times> int) option) option" where
  "PeekNextBundledAccessUnits n P = peek_units n 0 0 None P"

section \<open>Definedness\<close>

lemma frame_at_time_defined:
  obtains n where "frame_at_time timestamp P = Some (P\<lparr>iCurrFrameNumber := n\<rparr>)"
proof (cases "FrameSizeUnComp (iMP3ConfigInfo P) > 0 \<and> SamplingRate (iMP3ConfigInfo P) > 0")
  case True
  define x where "x = to_u32 (timestamp * (SamplingRate (iMP3ConfigInfo P) sdiv FrameSizeUnComp (iMP3ConfigInfo P)))"
  have x: "0 \<le> x" "x \<le> 4294967296" using to_u32_range by (simp_all add: x_def less_imp_le)
  have "(of_int x :: rat) \<le> of_int 4294967296" using x(2) by (simp only: of_int_le_iff)
  then have "(of_int x :: rat) \<le> of_int 1 * 2 powi 32" by simp
  then have "fint x \<le> fl32 (of_int 1 * 2 powi 32)" unfolding fint_def by (rule fl32_mono)
  also have "\<dots> = 4294967296" by (subst fl32_exact_pos) simp_all
  finally have hi: "fint x \<le> 4294967296" .
  have lo: "0 \<le> fint x" unfolding fint_def using x(1) by (intro fl32_nonneg) simp
  have "fl32 (fint x / 1000) \<le> fl32 (of_int 5000000)" using hi by (intro fl32_mono) simp
  also have "\<dots> = of_int 5000000" by (rule fl32_int) simp
  finally have "trunc (fl32 (fint x / 1000)) \<le> trunc (of_int 5000000)" by (rule trunc_mono)
  moreover have "0 \<le> trunc (fl32 (fint x / 1000))" using fl32_nonneg [of "fint x / 1000"] lo by (simp add: trunc_def)
  ultimately have "float_to_s32 (fl32 (fint x / 1000)) = Some (trunc (fl32 (fint x / 1000)))"
    by (simp add: float_to_s32_def trunc_def)
  then show thesis
    using that [of "trunc (fl32 (fint x / 1000))"] True by (simp add: frame_at_time_def x_def [symmetric] fdiv_def Let_def)
next
  case False
  then have "frame_at_time timestamp P = Some (P\<lparr>iCurrFrameNumber := iCurrFrameNumber P\<rparr>)" by (auto simp: frame_at_time_def Let_def)
  then show thesis by (rule that)
qed

context byte_file
begin

lemma seek_set_at:
  assumes "pos_at F d p" "q \<le> length d"
  obtains F' where "SeektoOffset io F (int q) SEEKSET = (MP3_SUCCESS, F')" "pos_at F' d q"
proof -
  note le = atD [OF assms(1)]
  obtain F' where F': "SeektoOffset io F (int q) SEEKSET =
      (if int q \<le> int (length d) then if 0 \<le> int q \<and> int q \<le> int (length d)
         then MP3_SUCCESS else MP3_FILE_READ_ERR else MP3_INSUFFICIENT_DATA, F')"
    "pos_at F' d (if int q \<le> int (length d) \<and> 0 \<le> int q \<and> int q \<le> int (length d) then nat (int q) else p)"
    by (rule seek_to_offset_at [OF assms(1), of "int q" SEEKSET "int q"]) (use assms(2) le in \<open>simp_all add: seek_target_def\<close>)
  show thesis by (rule that [of F']) (use F' assms(2) in simp_all)
qed

text \<open>Wherever the search is told to start, the seek in front of it stays in the file.\<close>

lemma seek_anywhere:
  assumes "pos_at F d p" "0 \<le> x" "x < 2147483648"
  obtains q where "pos_at (snd (SeektoOffset io F x SEEKSET)) d q" "x \<le> int (length d) \<Longrightarrow> int q = x"
proof -
  note le = atD [OF assms(1)]
  obtain F' where "SeektoOffset io F x SEEKSET =
      (if x \<le> int (length d) then if 0 \<le> x \<and> x \<le> int (length d) then MP3_SUCCESS else MP3_FILE_READ_ERR
       else MP3_INSUFFICIENT_DATA, F')"
    "pos_at F' d (if x \<le> int (length d) \<and> 0 \<le> x \<and> x \<le> int (length d) then nat x else p)"
    by (rule seek_to_offset_at [OF assms(1), of x SEEKSET x]) (use assms(2,3) le in \<open>simp_all add: seek_target_def\<close>)
  then show thesis using that assms(2) by (cases "x \<le> int (length d)") auto
qed

text \<open>A search that starts behind the end is refused.\<close>

lemma find_sync_behind:
  assumes "pos_at F d p" "iLocalFileSize P = int (length d)" "d \<noteq> []" "int (length d) < x" "x < 2147483648"
  shows "mp3FindSync bo io P x F = Some (MP3_INSUFFICIENT_DATA, 0, P, F)"
proof -
  have "to_u32 (x + 627) > int (length d)" using assms(4,5) by (simp add: in_range)
  then show ?thesis
    using assms(2,3)
    by (simp add: mp3FindSync_def GetFileBufferingCapacity_def GetContentLength_def iMaxSyncBufferSize_def)
qed

lemma seek_lands:
  assumes "pos_at F d p" "d \<noteq> []" "iLocalFileSizeSet P" "iLocalFileSize P = int (length d)" "StartOffset P = int s" "s \<le> length d"
    and "raw_seek_point timestamp P F = Some (n, ts, binNo)" "0 \<le> n" "n + int s < 2147483648" "\<not> iDurationScanComplete P"
  shows "\<exists>t P' F' q. SeekToTimestamp bo io timestamp P F = Some (t, P', F') \<and> pos_at F' d q \<and> iTimestamp P' = t \<and>
    (q = s \<and> t = 0 \<or> q = length d \<and> t = iClipDurationInMsec P \<or> n + int s \<le> int q \<and> sync_at bo d q \<and> t = ts)"
proof -
  note le = atD [OF assms(1)]
  have cap: "GetFileBufferingCapacity X = 0" for X :: "'f pvfile" by (simp add: GetFileBufferingCapacity_def)
  have home: "\<exists>F'. SeektoOffset io X (to_s32 (int s)) SEEKSET = (MP3_SUCCESS, F') \<and> pos_at F' d s" if "pos_at X d k" for X k
    using seek_set_at [OF that assms(6)] assms(6) le by (auto simp: in_range)
  have s0: "to_u32 (int s) = int s" using assms(6) le by (simp add: in_range)
  have conclude: ?thesis if "SeekToTimestamp bo io timestamp P F = Some (t, P', F')" "pos_at F' d q" "iTimestamp P' = t"
    "q = s \<and> t = 0 \<or> q = length d \<and> t = iClipDurationInMsec P \<or> n + int s \<le> int q \<and> sync_at bo d q \<and> t = ts"
    for t P' F' q
    using that by blast
  show ?thesis
  proof (cases "n = 0")
    case True
    obtain F' where F': "SeektoOffset io F (to_s32 (int s)) SEEKSET = (MP3_SUCCESS, F')" "pos_at F' d s"
      using home [OF assms(1)] by blast
    have "int (length d) \<noteq> 0" using assms(2) by simp
    then have r: "SeekToTimestamp bo io timestamp P F = Some (0, P\<lparr>iCurrFrameNumber := 0, iTimestamp := 0\<rparr>, F')"
      using F'(1) assms(4,5,7) True s0
      by (simp add: SeekToTimestamp_def SeekPointFromTimestamp_def settle_seek_point_def)
    show ?thesis by (rule conclude [OF r F'(2)]) simp_all
  next
    case False
    have x: "to_s32 (n + int s) = n + int s" "to_u32 (n + int s) = n + int s" using assms(8,9) by (simp_all add: in_range)
    obtain q0 where q0: "pos_at (snd (SeektoOffset io F (n + int s) SEEKSET)) d q0" "n + int s \<le> int (length d) \<Longrightarrow> int q0 = n + int s"
      by (rule seek_anywhere [OF assms(1), of "n + int s"]) (use assms(8,9) in simp_all)
    let ?F0 = "snd (SeektoOffset io F (n + int s) SEEKSET)"
    have size: "iLocalFileSizeSet P \<longrightarrow> iLocalFileSize P = int (length d)" using assms(4) by simp
    obtain err off P1 F1 where fs: "mp3FindSync bo io P (n + int s) ?F0 = Some (err, off, P1, F1)" "\<exists>k. pos_at F1 d k"
      "err = MP3_SUCCESS \<longrightarrow> pos_at F1 d q0 \<and> (\<exists>k. off = int k \<and> sync_at bo d (q0 + k))"
      using find_sync_at [OF q0(1) size, of bo "n + int s"] by blast
    have P1: "P1 = P\<lparr>iInitSearchFileSize := iInitSearchFileSize P1\<rparr>" by (rule find_sync_limit(1) [OF fs(1)])
    have same: "iClipDurationInMsec P1 = iClipDurationInMsec P" "iLocalFileSize P1 = int (length d)" "StartOffset P1 = int s"
      "\<not> iDurationScanComplete P1"
      using assms(4,5,10) by (subst P1; simp)+
    note start = SeekToTimestamp_def SeekPointFromTimestamp_def settle_seek_point_def assms(5,7) x fs(1) cap Let_def
    consider "err = MP3_SUCCESS" | "err = MP3_INSUFFICIENT_DATA \<or> err = MP3_END_OF_FILE"
      | "err \<noteq> MP3_SUCCESS" "err \<noteq> MP3_INSUFFICIENT_DATA" "err \<noteq> MP3_END_OF_FILE" by blast
    then show ?thesis
    proof cases
      case 1
      then obtain k where k: "off = int k" "sync_at bo d (q0 + k)" "pos_at F1 d q0" using fs(3) by blast
      have "n + int s \<le> int (length d)"
      proof (rule ccontr)
        assume "\<not> n + int s \<le> int (length d)"
        then have "mp3FindSync bo io P (n + int s) ?F0 = Some (MP3_INSUFFICIENT_DATA, 0, P, ?F0)"
          by (intro find_sync_behind [OF q0(1) assms(4,2) _ assms(9)]) simp
        then show False using fs(1) 1 by simp
      qed
      then have q0s: "int q0 = n + int s" by (rule q0(2))
      have q: "q0 + k + 4 \<le> length d" using k(2) by (auto simp: sync_at_def frame_chain_def Let_def)
      obtain F2 where F2: "SeektoOffset io F1 (int k) SEEKCUR = (MP3_SUCCESS, F2)" "pos_at F2 d (q0 + k)"
        by (rule seek_cur_at [OF k(3), of "int k" "q0 + k"]) (use q in auto)
      obtain F3 where F3: "SeektoOffset io F2 (int (q0 + k)) SEEKSET = (MP3_SUCCESS, F3)" "pos_at F3 d (q0 + k)"
        by (rule seek_set_at [OF F2(2), of "q0 + k"]) (use q in auto)
      obtain m where m: "frame_at_time ts P1 = Some (P1\<lparr>iCurrFrameNumber := m\<rparr>)" by (rule frame_at_time_defined)
      have conv: "to_s32 (int k) = int k" "to_u32 (n + int k) = n + int k" "n + int k \<noteq> int (length d)" "n + int k > 0"
        using q le q0s assms(8) False by (simp_all add: in_range)
      have "n + int k + int s = int (q0 + k)" using q0s by simp
      then have land: "to_s32 (n + int k + int s) = int (q0 + k)" using q le by (simp only:) (simp add: in_range)
      have "SeekPointFromTimestamp bo io timestamp P F = Some (n + int k, ts, P1\<lparr>iCurrFrameNumber := m, iTimestamp := ts\<rparr>, F2)"
        using 1 False assms(8) k(1) F2(1) m conv(1,2,4) same(4)
        by (simp add: start time_of_place_def)
      then have r: "SeekToTimestamp bo io timestamp P F = Some (ts, P1\<lparr>iCurrFrameNumber := m, iTimestamp := ts\<rparr>, F3)"
        using F3(1) conv(3) land same(2,3) by (simp add: SeekToTimestamp_def Let_def)
      show ?thesis by (rule conclude [OF r F3(2)]) (use k(2) q0s in auto)
    next
      case 2
      obtain k where k: "pos_at F1 d k" using fs(2) by blast
      obtain F3 where F3: "SeektoOffset io F1 (int (length d)) SEEKSET = (MP3_SUCCESS, F3)" "pos_at F3 d (length d)"
        by (rule seek_set_at [OF k order_refl])
      have conv: "to_s32 (int (length d)) = int (length d)" using le by (simp add: in_range)
      have r: "SeekToTimestamp bo io timestamp P F = Some (iClipDurationInMsec P, P1\<lparr>iTimestamp := iClipDurationInMsec P\<rparr>, F3)"
        using 2 False assms(8) F3(1) conv same by (auto simp: start)
      show ?thesis by (rule conclude [OF r F3(2)]) auto
    next
      case 3
      obtain k where k: "pos_at F1 d k" using fs(2) by blast
      obtain F3 where F3: "SeektoOffset io F1 (to_s32 (int s)) SEEKSET = (MP3_SUCCESS, F3)" "pos_at F3 d s"
        using home [OF k] by blast
      have nz: "int (length d) \<noteq> 0" using assms(2) by simp
      have r: "SeekToTimestamp bo io timestamp P F = Some (0, P1\<lparr>iCurrFrameNumber := 0, iTimestamp := 0\<rparr>, F3)"
        using 3 False assms(2,8) F3(1) same nz s0 by (simp add: start)
      show ?thesis by (rule conclude [OF r F3(2)]) auto
    qed
  qed
qed

text \<open>No four frames in a row from the first place on: no bit rate.\<close>

lemma no_place:
  assumes "pos_at F d p" "iLocalFileSizeSet P" "iLocalFileSize P = int (length d)" "skip \<le> length d"
    and "\<forall>q \<ge> p + skip. \<not> sync_at bo d q" "0 < m"
  shows "\<exists>err P' F'. visit_places bo io n (int skip) m 0 0 0 MP3_SUCCESS P F = Some (err, 0, 0, P', F') \<and>
    P' = P\<lparr>iInitSearchFileSize := iInitSearchFileSize P'\<rparr> \<and> (\<exists>k. pos_at F' d k)"
proof -
  note le = atD [OF assms(1)]
  obtain m' where m: "m = Suc m'" using assms(6) by (cases m) auto
  have x: "to_u32 (to_u32 (getCurrentFilePosition io F) + int skip) = int (p + skip)"
    using le assms(4) by (simp add: getCurrentFilePosition_def tell_at [OF assms(1)] in_range)
  show ?thesis
  proof (cases "p + skip \<le> length d")
    case False
    then show ?thesis using x assms(1,3) by (auto simp: m)
  next
    case True
    obtain F1 where F1: "SeektoOffset io F (int (p + skip)) SEEKSET = (MP3_SUCCESS, F1)" "pos_at F1 d (p + skip)"
      by (rule seek_set_at [OF assms(1) True])
    have conv: "to_s32 (int (p + skip)) = int (p + skip)" using True le by (simp add: in_range)
    have size: "iLocalFileSizeSet P \<longrightarrow> iLocalFileSize P = int (length d)" using assms(3) by simp
    obtain err off P1 F2 where r: "mp3FindSync bo io P (int (p + skip)) F1 = Some (err, off, P1, F2)" "\<exists>k. pos_at F2 d k"
      "err = MP3_SUCCESS \<longrightarrow> (\<exists>k. sync_at bo d (p + skip + k))"
      using find_sync_at [OF F1(2) size, of bo "int (p + skip)"] by blast
    have "err \<noteq> MP3_SUCCESS" using r(3) assms(5) by auto
    then have "visit_places bo io n (int skip) m 0 0 0 MP3_SUCCESS P F = Some (err, 0, 0, P1, F2)"
      unfolding m visit_places.simps Let_def x conv F1(1) snd_conv using True assms(3) r(1) by simp
    then show ?thesis using find_sync_limit(1) [OF r(1)] r(2) by blast
  qed
qed

lemma no_duration:
  assumes "pos_at F d p" "iLocalFileSizeSet P" "iLocalFileSize P = int (length d)" "StartOffset P = int s" "s \<le> length d"
    and "\<not> iID3V1Present P" "\<forall>q \<ge> p + (length d - s) div 31. \<not> sync_at bo d q"
    and "mp3Type P \<noteq> EXINGType" "mp3Type P \<noteq> EVBRIType" "iClipDurationFromMetadata P = 0" "iClipDurationFromRandomScan P = 0"
    and "\<not> iDurationScanComplete P"
  shows "GetDuration bo io None False P F = None"
proof -
  note le = atD [OF assms(1)]
  let ?skip = "(length d - s) div 31"
  have sz: "to_s32 (to_s32 (int (length d)) - int s) = int (length d - s)" using le assms(5) by (simp add: in_range)
  have "int n sdiv 31 = int (n div 31)" for n by (cases "n = 0") (simp_all add: signed_divide_int_def zdiv_int)
  then have "int (length d - s) sdiv 31 = int ?skip" by blast
  moreover have "to_u32 (int ?skip) = int ?skip" using le by (simp add: in_range)
  ultimately have skip: "to_u32 (int (length d - s) sdiv (int 30 + 1)) = int ?skip" by simp
  have bound: "?skip \<le> length d" by (rule order_trans [OF div_le_dividend diff_le_self])
  obtain err P1 F1 where v: "visit_places bo io 4 (int ?skip) 30 0 0 0 MP3_SUCCESS P F = Some (err, 0, 0, P1, F1)"
    "P1 = P\<lparr>iInitSearchFileSize := iInitSearchFileSize P1\<rparr>"
    using no_place [OF assms(1-3) bound assms(7), of 30 4] by auto
  have "ComputeDurationFromNRandomFrames bo io 4 30 P F = Some (MP3_ERROR_UNKNOWN, P1\<lparr>iAvgBitrateInbpsFromRandomScan := 0\<rparr>, F1)"
    unfolding ComputeDurationFromNRandomFrames_def Let_def using assms(2-4,6) v(1) skip by (simp add: sz)
  then have r: "\<exists>F'. GetDurationFromRandomScan bo io P F =
      Some (MP3_ERROR_UNKNOWN, None, P1\<lparr>iAvgBitrateInbpsFromRandomScan := 0\<rparr>, F')"
    using assms(11)
    by (simp add: GetDurationFromRandomScan_def MIN_RANDOM_FRAMES_TO_SCAN_def MIN_RANDOM_LOCATION_TO_SCAN_def)
  then obtain F' where r: "GetDurationFromRandomScan bo io P F =
      Some (MP3_ERROR_UNKNOWN, None, P1\<lparr>iAvgBitrateInbpsFromRandomScan := 0\<rparr>, F')" by blast
  have "bitrate_from_duration 0 (P1\<lparr>iAvgBitrateInbpsFromRandomScan := 0\<rparr>) = None"
    by (simp add: bitrate_from_duration_def fint_def fdiv_def Let_def)
  then show ?thesis
    using assms(8-10,12) r
    by (simp add: GetDuration_def GetFileBufferingCapacity_def header_duration_def GetDurationFromMetadata_def)
qed

end

lemma fint_pos: "1 \<le> n \<Longrightarrow> 1 \<le> fint n"
proof -
  assume "1 \<le> n"
  then have "fl32 (of_int 1) \<le> fl32 (of_int n)" by (intro fl32_mono) simp
  moreover have "fl32 (of_int 1) = of_int 1" by (rule fl32_int) simp
  ultimately show ?thesis by (simp add: fint_def)
qed

lemma xing_point_end:
  assumes "length (xing_TOC (iXingHeader P)) = 100" "0 < iClipDurationFromVBRIHeader P" "iClipDurationFromVBRIHeader P \<le> timestamp"
  shows "xing_seek_point timestamp P = None"
proof -
  let ?t = "fint timestamp" and ?c = "fint (iClipDurationFromVBRIHeader P)"
  have c: "1 \<le> ?c" using assms(2) by (intro fint_pos) simp
  have "?c \<le> ?t" unfolding fint_def using assms(3) by (intro fl32_mono) simp
  then have "1 \<le> ?t / ?c" using c by simp
  then have "fl32 (of_int 1) \<le> fl32 (?t / ?c)" by (intro fl32_mono) simp
  moreover have "fl32 (of_int 1) = of_int 1" by (rule fl32_int) simp
  ultimately have q: "1 \<le> fl32 (?t / ?c)" by simp
  have "fl32 (of_int 100) = of_int 100" by (rule fl32_int) simp
  then have hundred: "fmul 1 100 = 100" by (simp add: fmul_def)
  have one: "(if fl32 (?t / ?c) < 0 then 0 else if fl32 (?t / ?c) > 1 then 1 else fl32 (?t / ?c)) = 1" using q by auto
  show ?thesis
    unfolding xing_seek_point_def Let_def fdiv_def
    using assms(1,2) c one hundred by (simp add: float_to_u32_def trunc_def rdi_def rd_def)
qed

section \<open>Properties\<close>

text \<open>
  C19. Where \<open>SeekToTimestamp\<close> leaves a local file of known size whose scan is not complete, when one of the four
  ways gives a seek point \<open>n\<close> (a table that is read behind its end gives none): at the start of the audio with time 0, at the end of the file with the time of
  the clip's duration, or at a place at or behind the seek point where four frames follow each other,
  with the time asked for. It never leaves it in the middle of a frame, and the parser's time is the
  one returned.
\<close>

theorem SeekToTimestamp_lands:
  assumes "file_at F d p" "d \<noteq> []" "iLocalFileSizeSet P" "iLocalFileSize P = int (length d)" "StartOffset P = int s" "s \<le> length d"
    and "raw_seek_point timestamp P F = Some (n, ts, binNo)" "0 \<le> n" "n + int s < 2147483648" "\<not> iDurationScanComplete P"
  shows "\<exists>t P' F' q. SeekToTimestamp bo cached_file timestamp P F = Some (t, P', F') \<and> file_at F' d q \<and> iTimestamp P' = t \<and>
    (q = s \<and> t = 0 \<or> q = length d \<and> t = iClipDurationInMsec P \<or> n + int s \<le> int q \<and> sync_at bo d q \<and> t = ts)"
  by (rule cached.seek_lands [OF assms])

text \<open>
  C39. With a XING table, a seek to the clip's duration or beyond reads the entry behind the table: the
  index is 100 when the table is read, and is cut to 99 only afterwards.
\<close>

theorem xing_seek_to_end:
  assumes "mp3Type P = EXINGType" "has_flag (xing_flags (iXingHeader P)) TOC_FLAG" "length (xing_TOC (iXingHeader P)) = 100"
    and "0 < iClipDurationFromVBRIHeader P" "iClipDurationFromVBRIHeader P \<le> timestamp"
  shows "SeekPointFromTimestamp bo io timestamp P F = None"
  using assms(1,2) xing_point_end [OF assms(3-5)] by (simp add: SeekPointFromTimestamp_def raw_seek_point_def Let_def)

text \<open>
  The duration of a local file without a VBR header or a duration in its tag: when no four frames
  follow each other from the first place of the random scan on (31 places from the start offset, the
  first one of them behind the current position), \<open>GetDuration\<close> divides the size by the duration it did
  not get, 0, and converts the infinite quotient to an integer.
\<close>

theorem GetDuration_without_frames:
  assumes "file_at F d p" "iLocalFileSizeSet P" "iLocalFileSize P = int (length d)" "StartOffset P = int s" "s \<le> length d"
    and "\<not> iID3V1Present P" "\<forall>q \<ge> p + (length d - s) div 31. \<not> sync_at bo d q"
    and "mp3Type P \<noteq> EXINGType" "mp3Type P \<noteq> EVBRIType" "iClipDurationFromMetadata P = 0" "iClipDurationFromRandomScan P = 0"
    and "\<not> iDurationScanComplete P"
  shows "GetDuration bo cached_file None False P F = None"
  by (rule cached.no_duration [OF assms])

section \<open>Instances\<close>

lemma small_floats: "0 \<le> n \<Longrightarrow> n \<le> 16777216 \<Longrightarrow> fint n = of_int n"
  unfolding fint_def by (rule fl32_int) simp

theorem SeekToTimestamp_lands_witness:
  "\<exists>t P' F' q. SeekToTimestamp LITTLE_ENDIAN cached_file 10
      ((MP3Parser 0)\<lparr>iLocalFileSizeSet := True, iLocalFileSize := 631, iAvgBitrateInbpsFromRandomScan := 8000\<rparr>)
      (pv_open (replicate 4096 0) crc_file) = Some (t, P', F') \<and> file_at F' crc_file q \<and>
    (q = 0 \<and> t = 0 \<or> q = 631 \<and> t = 0 \<or> 10 \<le> q \<and> sync_at LITTLE_ENDIAN crc_file q \<and> t = 10)"
proof -
  let ?P = "(MP3Parser 0)\<lparr>iLocalFileSizeSet := True, iLocalFileSize := 631, iAvgBitrateInbpsFromRandomScan := 8000\<rparr>"
  let ?F = "pv_open (replicate 4096 0) crc_file"
  have "fl32 (of_int 80000) = of_int 80000" "fl32 (of_int 10) = of_int 10" by (rule fl32_int, simp)+
  then have raw: "raw_seek_point 10 ?P ?F = Some (10, 10, 0)"
    by (simp add: raw_seek_point_def bitrate_seek_point_def MP3Parser_def small_floats fmul_def fdiv_def float_to_u32_def
        trunc_def GetFileBufferingCapacity_def)
  have ne: "crc_file \<noteq> []" using crc_words(5) by auto
  have "\<exists>t P' F' q. SeekToTimestamp LITTLE_ENDIAN cached_file 10 ?P ?F = Some (t, P', F') \<and> file_at F' crc_file q \<and>
    iTimestamp P' = t \<and> (q = 0 \<and> t = 0 \<or> q = length crc_file \<and> t = iClipDurationInMsec ?P \<or>
      10 + int 0 \<le> int q \<and> sync_at LITTLE_ENDIAN crc_file q \<and> t = 10)"
    by (rule SeekToTimestamp_lands [OF crc_open ne _ _ _ _ raw]) (simp_all add: crc_words MP3Parser_def)
  moreover have "iClipDurationInMsec ?P = 0" "length crc_file = 631" by (simp_all add: MP3Parser_def crc_words)
  ultimately show ?thesis by fastforce
qed

theorem xing_seek_to_end_witness:
  "SeekPointFromTimestamp LITTLE_ENDIAN cached_file 5000
      ((MP3Parser 0)\<lparr>mp3Type := EXINGType, iClipDurationFromVBRIHeader := 5000, iXingHeader := zero_xing\<lparr>xing_flags := 7\<rparr>\<rparr>)
      (pv_open (replicate 4096 0) crc_file) = None"
  by (rule xing_seek_to_end) (simp_all add: zero_xing_def has_flag_def TOC_FLAG_def)

theorem GetDuration_without_frames_witness:
  "GetDuration LITTLE_ENDIAN cached_file None False ((MP3Parser 0)\<lparr>iLocalFileSizeSet := True, iLocalFileSize := 124\<rparr>)
      (pv_open (replicate 4096 0) (crc_frame @ replicate 100 0)) = None"
proof -
  let ?d = "crc_frame @ replicate 100 0"
  have at0: "file_at (pv_open (replicate 4096 0) ?d) ?d 0" by (rule pv_open_at) (simp_all add: crc_frame_def)
  have len: "length ?d = 124" by (simp add: crc_frame_def)
  have "\<not> sync_at LITTLE_ENDIAN ?d q" if "4 \<le> q" for q
  proof
    assume s: "sync_at LITTLE_ENDIAN ?d q"
    then have q: "q < 124" by (auto simp: sync_at_def frame_chain_def Let_def crc_frame_def)
    have "list_all (\<lambda>i. crc_frame ! i = 0) [4..<24]" by (simp add: crc_frame_def upt_rec_numeral)
    then have "q < 24 \<Longrightarrow> crc_frame ! q = 0"
      using that unfolding list_all_iff set_upt by (metis atLeastLessThan_iff)
    moreover have "length crc_frame = 24" by (simp add: crc_frame_def)
    ultimately have "?d ! q = 0" using q by (simp add: nth_append)
    then show False using s by (simp add: sync_at_def sync_pattern_def)
  qed
  then show ?thesis
    by (intro GetDuration_without_frames [OF at0, of _ 0]) (simp_all add: MP3Parser_def len crc_frame_def)
qed

end
