(* ===== verification/OsclString.thy ===== *)
theory OsclString
  imports CInt
begin

text \<open>
  The string functions of OSCL: \<open>oscl_config/oscl_stdstring.cpp\<close>, \<open>oscl_config/oscl_string_utils.cpp\<close>
  and the UTF-8 check of \<open>oscl_config/oscl_string_utf8.cpp\<close>.

  A pointer into a character array is the list of the elements from there to the end of the array;
  \<open>None\<close> is a read past its end, so a string without its terminating zero is \<open>None\<close> for a function
  that looks for it. The functions come for \<open>char\<close> and for \<open>oscl_wchar\<close>; the ones that treat both in
  the same way are polymorphic in the width. A stored string is given back as the elements written.
\<close>

section \<open>oscl_stdstring\<close>

fun oscl_strlen :: "'a::len word list \<Rightarrow> nat option" where
  "oscl_strlen [] = None"
| "oscl_strlen (c # cs) = (if c = 0 then Some 0 else map_option Suc (oscl_strlen cs))"

text \<open>\<open>oscl_strncpy\<close>: the \<open>count\<close> elements that it stores.\<close>

fun oscl_strncpy :: "'a::len word list \<Rightarrow> nat \<Rightarrow> 'a word list option" where
  "oscl_strncpy src 0 = Some []"
| "oscl_strncpy [] (Suc n) = None"
| "oscl_strncpy (c # cs) (Suc n) =
     (if c = 0 then Some (replicate (Suc n) 0) else map_option ((#) c) (oscl_strncpy cs n))"

fun oscl_strcmp :: "'a::len word list \<Rightarrow> 'a word list \<Rightarrow> int option" where
  "oscl_strcmp (c1 # s1) (c2 # s2) =
     (if c1 = c2 \<and> c1 \<noteq> 0 then oscl_strcmp s1 s2 else Some (to_s32 (uint c1 - uint c2)))"
| "oscl_strcmp _ _ = None"

fun oscl_strncmp :: "'a::len word list \<Rightarrow> 'a word list \<Rightarrow> nat \<Rightarrow> int option" where
  "oscl_strncmp s1 s2 0 = Some 0"
| "oscl_strncmp (c1 # s1) (c2 # s2) (Suc n) =
     (if c1 \<noteq> c2 \<or> c1 = 0 then Some (to_s32 (uint c1 - uint c2)) else oscl_strncmp s1 s2 n)"
| "oscl_strncmp _ _ (Suc n) = None"

text \<open>\<open>oscl_strncat\<close> and \<open>oscl_strcat\<close>: the elements stored from the end of \<open>dest\<close> on.\<close>

fun strncat_copy :: "'a::len word list \<Rightarrow> nat \<Rightarrow> 'a word list option" where
  "strncat_copy src 0 = Some [0]"
| "strncat_copy [] (Suc n) = None"
| "strncat_copy (c # cs) (Suc n) = (if c = 0 then Some [0] else map_option ((#) c) (strncat_copy cs n))"

definition oscl_strncat :: "'a::len word list \<Rightarrow> 'a word list \<Rightarrow> nat \<Rightarrow> 'a word list option" where
  "oscl_strncat dest src count = do {
     n \<leftarrow> oscl_strlen dest;
     cs \<leftarrow> strncat_copy src count;
     if n + length cs \<le> length dest then Some (patch dest n cs) else None
   }"

fun strcat_copy :: "'a::len word list \<Rightarrow> 'a word list option" where
  "strcat_copy [] = None"
| "strcat_copy (c # cs) = (if c = 0 then Some [0] else map_option ((#) c) (strcat_copy cs))"

definition oscl_strcat :: "'a::len word list \<Rightarrow> 'a word list \<Rightarrow> 'a word list option" where
  "oscl_strcat dest src = do {
     n \<leftarrow> oscl_strlen dest;
     cs \<leftarrow> strcat_copy src;
     if n + length cs \<le> length dest then Some (patch dest n cs) else None
   }"

text \<open>\<open>oscl_strchr\<close> and \<open>oscl_strrchr\<close>: the index of the character, or null.\<close>

fun oscl_strchr :: "'a::len word list \<Rightarrow> 'a word \<Rightarrow> nat option option" where
  "oscl_strchr [] c = None"
| "oscl_strchr (x # xs) c =
     (if x = c then Some (Some 0)
      else if x = 0 then Some None else map_option (map_option Suc) (oscl_strchr xs c))"

function strrchr_back :: "'a::len word list \<Rightarrow> 'a word \<Rightarrow> nat \<Rightarrow> nat option option" where
  "strrchr_back str c i = do {
     x \<leftarrow> rd str i;
     if x = c then Some (Some i) else if i = 0 then Some None else strrchr_back str c (i - 1)
   }"
  by pat_completeness auto
termination by (relation "measure (\<lambda>(_, _, i). i)") auto

declare strrchr_back.simps [simp del]

definition oscl_strrchr :: "'a::len word list \<Rightarrow> 'a word \<Rightarrow> nat option option" where
  "oscl_strrchr str c = do { n \<leftarrow> oscl_strlen str; strrchr_back str c n }"

definition oscl_strset :: "'a::len word list \<Rightarrow> 'a word \<Rightarrow> nat \<Rightarrow> 'a word list option" where
  "oscl_strset dest val count = (if count \<le> length dest then Some (patch dest 0 (replicate count val)) else None)"

definition oscl_isLetter :: "u8 \<Rightarrow> bool" where
  "oscl_isLetter c \<longleftrightarrow> 65 \<le> c \<and> c \<le> 90 \<or> 97 \<le> c \<and> c \<le> 122"

definition oscl_tolower :: "'a::len word \<Rightarrow> 'a word" where
  "oscl_tolower car = (if 65 \<le> car \<and> car \<le> 90 then car + 32 else car)"

fun oscl_CIstrcmp :: "'a::len word list \<Rightarrow> 'a word list \<Rightarrow> int option" where
  "oscl_CIstrcmp (c1 # s1) (c2 # s2) =
     (if c1 \<noteq> 0 \<and> oscl_tolower c1 = oscl_tolower c2 then oscl_CIstrcmp s1 s2
      else Some (to_s32 (uint (oscl_tolower c1) - uint (oscl_tolower c2))))"
| "oscl_CIstrcmp _ _ = None"

fun oscl_CIstrncmp :: "'a::len word list \<Rightarrow> 'a word list \<Rightarrow> nat \<Rightarrow> int option" where
  "oscl_CIstrncmp s1 s2 0 = Some 0"
| "oscl_CIstrncmp (c1 # s1) (c2 # s2) (Suc n) =
     (if c1 = 0 \<or> oscl_tolower c1 \<noteq> oscl_tolower c2
      then Some (to_s32 (uint (oscl_tolower c1) - uint (oscl_tolower c2))) else oscl_CIstrncmp s1 s2 n)"
| "oscl_CIstrncmp _ _ (Suc n) = None"

text \<open>\<open>oscl_strstr\<close>: the index of the first occurrence, or null; \<open>left\<close> is the length left.\<close>

function strstr_loop :: "'a::len word list \<Rightarrow> nat \<Rightarrow> nat \<Rightarrow> 'a word list \<Rightarrow> nat \<Rightarrow> nat option option" where
  "strstr_loop str1 p left str2 len2 = do {
     x \<leftarrow> rd str1 p;
     if x \<noteq> 0 \<and> len2 \<le> left then do {
       d \<leftarrow> oscl_strncmp (drop p str1) str2 len2;
       if d = 0 then Some (Some p) else strstr_loop str1 (p + 1) (left - 1) str2 len2
     } else Some None
   }"
  by pat_completeness auto
termination by (relation "measure (\<lambda>(str1, p, _, _, _). length str1 - p)") (auto simp: rd_eq_Some_iff)

declare strstr_loop.simps [simp del]

definition oscl_strstr :: "'a::len word list \<Rightarrow> 'a word list \<Rightarrow> nat option option" where
  "oscl_strstr str1 str2 = do {
     left \<leftarrow> oscl_strlen str1; len2 \<leftarrow> oscl_strlen str2; strstr_loop str1 0 left str2 len2 }"

section \<open>oscl_string_utils\<close>

definition hex_digit :: "u8 \<Rightarrow> nat option" where
  "hex_digit c =
     (if c = 97 \<or> c = 65 then Some 10 else if c = 98 \<or> c = 66 then Some 11
      else if c = 99 \<or> c = 67 then Some 12 else if c = 100 \<or> c = 68 then Some 13
      else if c = 101 \<or> c = 69 then Some 14 else if c = 102 \<or> c = 70 then Some 15
      else if 48 \<le> c \<and> c \<le> 57 then Some (unat c - 48) else None)"

definition dec_digit :: "u8 \<Rightarrow> nat option" where
  "dec_digit c = (if 48 \<le> c \<and> c \<le> 57 then Some (unat c - 48) else None)"

text \<open>
  \<open>PV_atoi\<close> for \<open>uint32\<close> and \<open>uint64\<close>: whether it returns true, and the value so far. A digit is refused
  as an overflow when the new value is smaller than the old one.
\<close>

fun atoi_loop :: "nat \<Rightarrow> (u8 \<Rightarrow> nat option) \<Rightarrow> nat \<Rightarrow> u8 list \<Rightarrow> 'a::len word \<Rightarrow> (bool \<times> 'a word) option" where
  "atoi_loop base digit 0 ptr value = Some (True, value)"
| "atoi_loop base digit (Suc n) [] value = None"
| "atoi_loop base digit (Suc n) (c # ptr) value =
     (case digit c of
        None \<Rightarrow> Some (False, value)
      | Some temp \<Rightarrow>
          let value' = value * word_of_nat base + word_of_nat temp
          in if value > value' then Some (False, value') else atoi_loop base digit n ptr value')"

definition PV_atoi :: "u8 list \<Rightarrow> char \<Rightarrow> nat \<Rightarrow> (bool \<times> 'a::len word) option" where
  "PV_atoi buf new_format n =
     (if new_format = CHR ''x'' then atoi_loop 16 hex_digit n buf 0 else atoi_loop 10 dec_digit n buf 0)"

definition blank :: "u8 \<Rightarrow> bool" where
  "blank c \<longleftrightarrow> c = 32 \<or> c = 9"

definition line_term :: "u8 \<Rightarrow> bool" where
  "line_term c \<longleftrightarrow> c = 13 \<or> c = 10"

text \<open>The scanners: what is left from the returned pointer on, of a string or of the range to \<open>end\<close>.\<close>

fun skip_whitespace_str :: "u8 list \<Rightarrow> u8 list option" where
  "skip_whitespace_str [] = None"
| "skip_whitespace_str (c # cs) = (if c \<noteq> 0 \<and> blank c then skip_whitespace_str cs else Some (c # cs))"

fun skip_whitespace :: "u8 list \<Rightarrow> u8 list" where
  "skip_whitespace [] = []"
| "skip_whitespace (c # cs) = (if blank c then skip_whitespace cs else c # cs)"

fun skip_to_whitespace :: "u8 list \<Rightarrow> u8 list" where
  "skip_to_whitespace [] = []"
| "skip_to_whitespace (c # cs) = (if blank c \<or> line_term c then c # cs else skip_to_whitespace cs)"

fun skip_to_line_term :: "u8 list \<Rightarrow> u8 list" where
  "skip_to_line_term [] = []"
| "skip_to_line_term (c # cs) = (if line_term c then c # cs else skip_to_line_term cs)"

fun skip_whitespace_and_line_term :: "u8 list \<Rightarrow> u8 list" where
  "skip_whitespace_and_line_term [] = []"
| "skip_whitespace_and_line_term (c # cs) =
     (if blank c \<or> line_term c then skip_whitespace_and_line_term cs else c # cs)"

text \<open>
  \<open>extract_string\<close>: the length and the output buffer. \<open>len\<close> is also the index of \<open>outstring\<close> until it
  reaches \<open>maxsize\<close>, where the last character is overwritten by the terminator.
\<close>

fun extract_loop :: "u8 list \<Rightarrow> nat \<Rightarrow> nat \<Rightarrow> u8 list \<Rightarrow> (nat \<times> u8 list) option" where
  "extract_loop [] maxsize len out = Some (len, out)"
| "extract_loop (c # cs) maxsize len out =
     (if blank c \<or> line_term c then Some (len, out)
      else do {
        out \<leftarrow> (if len < maxsize then wr out len c
                else if len = maxsize then if len = 0 then None else wr out (len - 1) 0 else Some out);
        extract_loop cs maxsize (len + 1) out
      })"

definition extract_string :: "u8 list \<Rightarrow> u8 list \<Rightarrow> nat \<Rightarrow> (nat \<times> u8 list) option" where
  "extract_string src out maxsize = do {
     (len, out) \<leftarrow> extract_loop (skip_whitespace src) maxsize 0 out;
     out \<leftarrow> (if len < maxsize then wr out len 0 else Some out);
     Some (len, out)
   }"

definition oscl_abs :: "int \<Rightarrow> int option" where
  "oscl_abs aVal = (if aVal < 0 then if aVal = - 2147483648 then None else Some (- aVal) else Some aVal)"

section \<open>Terminated strings\<close>

text \<open>\<open>cstring s\<close>: the characters of \<open>s\<close> with the terminator; what follows it in memory is arbitrary.\<close>

definition plain_string :: "'a::len word list \<Rightarrow> bool" where
  "plain_string s \<longleftrightarrow> 0 \<notin> set s"

named_theorems cstring_simps "string functions on terminated strings"

lemma plain_string_simps [simp]: "plain_string []" "plain_string (c # s) \<longleftrightarrow> c \<noteq> 0 \<and> plain_string s"
  by (auto simp: plain_string_def)

lemma plain_string_append [simp]: "plain_string (s @ t) \<longleftrightarrow> plain_string s \<and> plain_string t"
  by (auto simp: plain_string_def)

lemma strlen_string [cstring_simps]: "plain_string s \<Longrightarrow> oscl_strlen (s @ 0 # r) = Some (length s)"
  by (induction s) auto

lemma strlen_Some: "oscl_strlen xs = Some n \<Longrightarrow> \<exists>r. xs = take n xs @ 0 # r \<and> plain_string (take n xs) \<and> n < length xs"
proof (induction xs arbitrary: n)
  case (Cons c cs)
  then show ?case by (cases "c = 0") auto
qed simp

lemma strlen_None: "oscl_strlen xs = None \<longleftrightarrow> plain_string xs"
  by (induction xs) auto

lemma strncpy_string [cstring_simps]:
  "plain_string s \<Longrightarrow> oscl_strncpy (s @ 0 # r) n = Some (take n s @ replicate (n - length s) 0)"
proof (induction s arbitrary: n)
  case Nil
  then show ?case by (cases n) auto
next
  case (Cons c s)
  then show ?case by (cases n) auto
qed

lemma strncat_copy_string: "plain_string s \<Longrightarrow> strncat_copy (s @ 0 # r) n = Some (take n s @ [0])"
proof (induction s arbitrary: n)
  case Nil
  then show ?case by (cases n) auto
next
  case (Cons c s)
  then show ?case by (cases n) auto
qed

lemma strcat_copy_string: "plain_string s \<Longrightarrow> strcat_copy (s @ 0 # r) = Some (s @ [0])"
  by (induction s) auto

lemma to_s32_eq_0: "- 4294967296 < x \<Longrightarrow> x < 4294967296 \<Longrightarrow> to_s32 x = 0 \<longleftrightarrow> x = 0"
proof
  assume x: "- 4294967296 < x" "x < 4294967296" "to_s32 x = 0"
  then have "(x + 2147483648) mod 4294967296 = 2147483648 mod 4294967296" by (simp add: to_s32_def)
  then have "4294967296 dvd x" by (simp only: mod_eq_dvd_iff) simp
  then show "x = 0" using x(1,2) dvd_imp_le_int [of x 4294967296] by (cases "x = 0") auto
qed (simp add: to_s32_def)

lemma char_difference [simp]: "to_s32 (uint (a :: u8) - uint b) = 0 \<longleftrightarrow> a = b"
proof -
  have "0 \<le> uint a" "uint a < 4294967296" "0 \<le> uint b" "uint b < 4294967296"
    using uint_lt2p [of a] uint_lt2p [of b] by simp_all
  then have "to_s32 (uint a - uint b) = 0 \<longleftrightarrow> uint a - uint b = 0" by (intro to_s32_eq_0) linarith+
  then show ?thesis by (simp add: word_uint_eq_iff)
qed

lemma wide_difference [simp]: "to_s32 (uint (a :: u32) - uint b) = 0 \<longleftrightarrow> a = b"
proof -
  have "0 \<le> uint a" "uint a < 4294967296" "0 \<le> uint b" "uint b < 4294967296"
    using uint_lt2p [of a] uint_lt2p [of b] by simp_all
  then have "to_s32 (uint a - uint b) = 0 \<longleftrightarrow> uint a - uint b = 0" by (intro to_s32_eq_0) linarith+
  then show ?thesis by (simp add: word_uint_eq_iff)
qed

lemma zero_difference [simp]:
  "to_s32 0 = 0" "to_s32 (- uint (a :: u8)) = 0 \<longleftrightarrow> a = 0" "to_s32 (uint (a :: u8)) = 0 \<longleftrightarrow> a = 0"
  using char_difference [of 0 a] char_difference [of a 0] by (auto simp: to_s32_def)

text \<open>Comparisons: zero exactly for equal strings, equal prefixes, or equal up to ASCII case.\<close>

lemma strncmp_eq [cstring_simps]:
  fixes s t :: "u8 list"
  assumes "plain_string s" "plain_string t"
  shows "\<exists>d. oscl_strncmp (s @ 0 # r) (t @ 0 # q) n = Some d \<and> (d = 0 \<longleftrightarrow> take n (s @ [0]) = take n (t @ [0]))"
  using assms
proof (induction s arbitrary: t n)
  case Nil
  then show ?case by (cases n; cases t) auto
next
  case (Cons c s)
  then show ?case by (cases n; cases t) auto
qed

lemma strcmp_eq [cstring_simps]:
  fixes s t :: "u8 list"
  assumes "plain_string s" "plain_string t"
  shows "\<exists>d. oscl_strcmp (s @ 0 # r) (t @ 0 # q) = Some d \<and> (d = 0 \<longleftrightarrow> s = t)"
  using assms
proof (induction s arbitrary: t)
  case Nil
  then show ?case by (cases t) auto
next
  case (Cons c s)
  then show ?case by (cases t) auto
qed

section \<open>Numbers\<close>

definition dec_val :: "u8 list \<Rightarrow> nat" where
  "dec_val ds = foldl (\<lambda>n d. n * 10 + (unat d - 48)) 0 ds"

definition dec_digits :: "u8 list \<Rightarrow> bool" where
  "dec_digits ds \<longleftrightarrow> list_all (\<lambda>c. 48 \<le> c \<and> c \<le> 57) ds"

lemma dec_fold_mono: "n \<le> foldl (\<lambda>n d. n * 10 + (unat d - 48)) n (ds :: u8 list)"
proof (induction ds arbitrary: n)
  case (Cons d ds)
  have "n \<le> n * 10 + (unat d - 48)" by simp
  also have "\<dots> \<le> foldl (\<lambda>n d. n * 10 + (unat d - 48)) n (d # ds)" using Cons [of "n * 10 + (unat d - 48)"] by simp
  finally show ?case .
qed simp

lemma atoi_loop_digits:
  assumes "dec_digits ds" "foldl (\<lambda>n d. n * 10 + (unat d - 48)) n ds < 2 ^ LENGTH('a)"
  shows "atoi_loop 10 dec_digit (length ds) (ds @ r) (word_of_nat n :: 'a::len word) =
    Some (True, word_of_nat (foldl (\<lambda>n d. n * 10 + (unat d - 48)) n ds))"
  using assms
proof (induction ds arbitrary: n)
  case (Cons d ds)
  let ?m = "n * 10 + (unat d - 48)"
  have m: "?m < 2 ^ LENGTH('a)" using Cons.prems(2) dec_fold_mono [of ?m ds] by simp
  have val: "word_of_nat n * word_of_nat 10 + word_of_nat (unat d - 48) = (word_of_nat ?m :: 'a word)" by simp
  have "unat (word_of_nat n :: 'a word) = n" by (rule unat_of_nat_small) (use m in linarith)
  moreover have "unat (word_of_nat ?m :: 'a word) = ?m" by (rule unat_of_nat_small [OF m])
  ultimately have "\<not> (word_of_nat n :: 'a word) > word_of_nat ?m" unfolding word_less_nat_alt by linarith
  moreover have "dec_digit d = Some (unat d - 48)" using Cons.prems(1) by (simp add: dec_digits_def dec_digit_def)
  ultimately show ?case
    using Cons.IH [of ?m] Cons.prems unfolding dec_digits_def
    by (simp only: length_Cons append_Cons atoi_loop.simps option.case val Let_def if_False foldl_Cons list.pred_inject)
qed simp

text \<open>
  \<open>PV_atoi\<close> reads a decimal number that fits the type exactly. Its overflow check compares with the
  value before the digit only, so a number that does not fit may be accepted: \<open>9999999999\<close> is read as the
  32-bit number 1410065407.
\<close>

theorem PV_atoi_decimal:
  "(\<forall>ds r. dec_digits ds \<and> dec_val ds < 2 ^ LENGTH('a) \<longrightarrow>
      PV_atoi (ds @ r) CHR ''d'' (length ds) = Some (True, word_of_nat (dec_val ds) :: 'a::len word)) \<and>
   PV_atoi (lit ''9999999999'') CHR ''d'' 10 = Some (True, 1410065407 :: u32)"
proof
  show "\<forall>ds r. dec_digits ds \<and> dec_val ds < 2 ^ LENGTH('a) \<longrightarrow>
      PV_atoi (ds @ r) CHR ''d'' (length ds) = Some (True, word_of_nat (dec_val ds) :: 'a::len word)"
    using atoi_loop_digits [where n = 0 and 'a = 'a] by (simp add: PV_atoi_def dec_val_def)
  show "PV_atoi (lit ''9999999999'') CHR ''d'' 10 = Some (True, 1410065407 :: u32)"
    by code_simp
qed

theorem PV_atoi_decimal_witness:
  "PV_atoi (lit ''305'' @ [0]) CHR ''d'' 3 = Some (True, 305 :: u32)"
proof -
  have d: "dec_digits (lit ''305'')" "dec_val (lit ''305'') = 305" "length (lit ''305'') = 3"
    by (simp_all add: dec_digits_def dec_val_def)
  show ?thesis
    using PV_atoi_decimal [where 'a = 32, THEN conjunct1, rule_format, of "lit ''305''" "[0]"] d(1)
    unfolding d(2,3) by simp
qed

section \<open>Tokens\<close>

definition token :: "u8 list \<Rightarrow> bool" where
  "token t \<longleftrightarrow> list_all (\<lambda>c. \<not> blank c \<and> \<not> line_term c) t"

lemma skip_blanks: "list_all blank pre \<Longrightarrow> skip_whitespace (pre @ cs) = skip_whitespace cs"
  by (induction pre) auto

lemma skip_token: "token t \<Longrightarrow> t \<noteq> [] \<Longrightarrow> skip_whitespace (t @ cs) = t @ cs"
  by (cases t) (auto simp: token_def)

text \<open>The buffer after \<open>t\<close> characters of the token.\<close>

definition token_out :: "u8 list \<Rightarrow> nat \<Rightarrow> u8 list \<Rightarrow> u8 list" where
  "token_out out maxsize t = patch out 0 (if length t \<le> maxsize then t else take (maxsize - 1) t @ [0])"

lemma extract_loop_token:
  assumes "token t" "0 < maxsize" "maxsize \<le> length out" "rest = [] \<or> blank (hd rest) \<or> line_term (hd rest)"
  shows "extract_loop (t @ rest) maxsize (length s) (token_out out maxsize s) =
    Some (length s + length t, token_out out maxsize (s @ t))"
  using assms(1)
proof (induction t arbitrary: s)
  case Nil
  then show ?case using assms(4) by (cases rest) auto
next
  case (Cons c t)
  have st: "(if length s < maxsize then wr (token_out out maxsize s) (length s) c
      else if length s = maxsize then if length s = 0 then None else wr (token_out out maxsize s) (length s - 1) 0
      else Some (token_out out maxsize s)) = Some (token_out out maxsize (s @ [c]))"
  proof -
    consider "length s < maxsize" | "length s = maxsize" | "maxsize < length s" by linarith
    then show ?thesis
    proof cases
      case 1
      then show ?thesis using assms(3) by (simp add: token_out_def mem_simps)
    next
      case 2
      then have "token_out out maxsize s = patch out 0 (butlast s @ [last s])" using assms(2) by (auto simp: token_out_def)
      moreover have "wr (patch out 0 (butlast s @ [last s])) (length s - 1) 0 = Some (patch out 0 (butlast s @ [0]))"
        using 2 assms(2,3) by (simp add: wr_def patch_def list_update_append)
      moreover have "take (maxsize - 1) (s @ [c]) = butlast s" using 2 assms(2) by (simp add: butlast_conv_take)
      ultimately show ?thesis using 2 assms(2) by (simp add: token_out_def)
    next
      case 3
      then show ?thesis using assms(2) by (simp add: token_out_def)
    qed
  qed
  have c: "\<not> (blank c \<or> line_term c)" "token t" using Cons.prems by (auto simp: token_def)
  have "extract_loop ((c # t) @ rest) maxsize (length s) (token_out out maxsize s) =
      extract_loop (t @ rest) maxsize (length (s @ [c])) (token_out out maxsize (s @ [c]))"
    using c(1) st by simp
  also have "\<dots> = Some (length (s @ [c]) + length t, token_out out maxsize ((s @ [c]) @ t))" by (rule Cons.IH [OF c(2)])
  finally show ?case by simp
qed

text \<open>
  \<open>extract_string\<close> copies the token behind leading blanks. A shorter token than the buffer is
  terminated, a longer one is cut and terminated, but a token of exactly \<open>maxsize\<close> characters is left
  without a terminator.
\<close>

theorem extract_string_token:
  assumes "token t" "t \<noteq> []" "list_all blank pre" "0 < maxsize" "maxsize \<le> length out"
    and "rest = [] \<or> blank (hd rest) \<or> line_term (hd rest)"
  shows "extract_string (pre @ t @ rest) out maxsize = Some (length t, patch out 0
    (if length t < maxsize then t @ [0] else if length t = maxsize then t else take (maxsize - 1) t @ [0]))"
proof -
  have "extract_loop (t @ rest) maxsize 0 out = Some (length t, token_out out maxsize t)"
    using extract_loop_token [OF assms(1,4,5,6), of "[]"] by (simp add: token_out_def)
  then show ?thesis
    using assms(5) by (auto simp: extract_string_def skip_blanks [OF assms(3)] skip_token [OF assms(1,2)]
        token_out_def mem_simps)
qed

theorem extract_string_token_witness:
  "extract_string (lit '' abcd '') (replicate 4 7) 4 = Some (4, lit ''abcd'')"
proof -
  have "extract_string (lit '' '' @ lit ''abcd'' @ lit '' '') (replicate 4 7) 4 = Some (length (lit ''abcd''),
      patch (replicate 4 7) 0 (if length (lit ''abcd'') < 4 then lit ''abcd'' @ [0]
        else if length (lit ''abcd'') = 4 then lit ''abcd'' else take (4 - 1) (lit ''abcd'') @ [0]))"
    by (rule extract_string_token) (simp_all add: token_def blank_def line_term_def)
  then show ?thesis by (simp add: patch_def)
qed

end
