(* ===== verification/Id3Base.thy ===== *)
theory Id3Base
  imports Mp3Header PvFile OsclString Utf8Conv
begin

text \<open>
  The ID3 tag parser \<open>PVID3ParCom\<close> (\<open>pvmi/pv_id3_parcom.cpp\<close>, constants in \<open>pv_id3_parcom_constants.h\<close>,
  types in \<open>pv_id3_parcom.h\<close> and \<open>pv_id3_parcom_types.h\<close>): its state, the integers and characters of
  the tag formats, the frame identifiers, and the key-value pairs a parsed frame is stored in.

  Sizes are words of 32 bits as in the code. \<open>heap n\<close> says whether an allocation of \<open>n\<close> bytes
  succeeds. The sizes of C++ objects are those of the 32-bit targets.
\<close>

section \<open>Types and state\<close>

datatype pvmf_status =
  PVMFSuccess | PVMFFailure | PVMFErrNoMemory | PVMFErrNotSupported | PVMFErrArgument | PVMFErrOverflow

datatype id3_version =
  PV_ID3_INVALID_VERSION | PV_ID3_V1 | PV_ID3_V1_1 | PV_ID3_V2_2 | PV_ID3_V2_3 | PV_ID3_V2_4

datatype id3_charset =
  PV_ID3_CHARSET_INVALID | PV_ID3_CHARSET_ISO88591 | PV_ID3_CHARSET_UTF16 | PV_ID3_CHARSET_UTF16BE
| PV_ID3_CHARSET_UTF8

datatype id3_frame =
  PV_ID3_FRAME_INVALID | PV_ID3_FRAME_CANDIDATE | PV_ID3_FRAME_UNRECOGNIZED | PV_ID3_FRAME_TITLE
| PV_ID3_FRAME_ARTIST | PV_ID3_FRAME_ALBUM | PV_ID3_FRAME_YEAR | PV_ID3_FRAME_COMMENT
| PV_ID3_FRAME_TRACK_NUMBER | PV_ID3_FRAME_GENRE | PV_ID3_FRAME_COPYRIGHT | PV_ID3_FRAME_TRACK_LENGTH
| PV_ID3_FRAME_DATE | PV_ID3_FRAME_PADDED | PV_ID3_FRAME_PIC | PV_ID3_FRAME_APIC | PV_ID3_FRAME_LYRICS
| PV_ID3_FRAME_SEEK | PV_ID3_FRAME_RECORDING_TIME | PV_ID3_FRAME_AUTHOR | PV_ID3_FRAME_COMPOSER
| PV_ID3_FRAME_DESCRIPTION | PV_ID3_FRAME_VERSION | PV_ID3_FRAME_PART_OF_SET | PV_ID3_FRAME_EEND

text \<open>
  The value of a pair: a block of characters, wide characters or bytes behind the key, an integer, the
  structure of lyrics and comments (the indices of \<open>iDescription\<close> and \<open>iData\<close> in the wide characters
  behind the structure, or null), the structure of a picture (type, MIME type, description, data and
  length), or a union of zeros.
\<close>

datatype kvp_value =
  CharValue (kvp_chars: "u8 list") | WCharValue (kvp_wchars: "wchar list") | Uint8Value "u8 list" | Uint32Value u32
| LyricsComm (lc_description: "nat option") (lc_data: "nat option") (lc_mem: "wchar list")
| Apic u8 "wchar list" "wchar list" "u8 list" u32
| NoValue

record kvp =
  kvp_key :: "u8 list"
  kvp_value :: kvp_value
  kvp_length :: int
  kvp_capacity :: u32

record 'f id3 =
  id3_file :: "'f pvfile"
  iTextType :: id3_charset
  iID3V2FrameSize :: u32
  iID3V2SeekOffset :: u32
  iID3V2TagFlagsV2 :: u8
  iID3V2ExtendedHeaderSize :: u32
  iID3V2TagSize :: u32
  iID3V2FrameID :: "u8 list"
  iID3V2FrameFlag :: "u8 list"
  iFooterPresent :: bool
  iID3V2LanguageID :: "u8 list"
  iTitleFoundFlag :: bool
  iArtistFoundFlag :: bool
  iAlbumFoundFlag :: bool
  iYearFoundFlag :: bool
  iCommentFoundFlag :: bool
  iTrackNumberFoundFlag :: bool
  iGenereFoundFlag :: bool
  iFileSizeInBytes :: int
  iByteOffsetToStartOfAudioFrames :: u32
  iID3V1Present :: bool
  iID3V2Present :: bool
  iVersion :: id3_version
  iFrames :: "kvp list"
  iUseMaxTagSize :: bool
  iMaxTagSize :: u32
  iUsePadding :: bool
  iTagAtBof :: bool
  iSeekFrameFound :: bool

text \<open>The constructor; the fields it leaves uninitialised are \<open>text\<close>, \<open>frame\<close>, \<open>lang\<close> and \<open>seek\<close>.\<close>

definition PVID3ParCom :: "'f pvfile \<Rightarrow> id3_charset \<Rightarrow> u8 list \<Rightarrow> u8 list \<Rightarrow> u32 \<Rightarrow> 'f id3" where
  "PVID3ParCom file text_type frame lang seek =
     \<lparr>id3_file = file, iTextType = text_type, iID3V2FrameSize = 0, iID3V2SeekOffset = seek, iID3V2TagFlagsV2 = 0,
      iID3V2ExtendedHeaderSize = 0, iID3V2TagSize = 0, iID3V2FrameID = frame, iID3V2FrameFlag = [0, 0],
      iFooterPresent = False, iID3V2LanguageID = lang, iTitleFoundFlag = False, iArtistFoundFlag = False,
      iAlbumFoundFlag = False, iYearFoundFlag = False, iCommentFoundFlag = False, iTrackNumberFoundFlag = False,
      iGenereFoundFlag = False, iFileSizeInBytes = 0, iByteOffsetToStartOfAudioFrames = 0, iID3V1Present = False,
      iID3V2Present = False, iVersion = PV_ID3_INVALID_VERSION, iFrames = [], iUseMaxTagSize = False,
      iMaxTagSize = 0, iUsePadding = False, iTagAtBof = False, iSeekFrameFound = False\<rparr>"

text \<open>How a member function ends: it returns, or it leaves (a long jump to the last trap).\<close>

datatype 'a exit = Return 'a | Leave

definition on_return :: "'a exit \<Rightarrow> ('a \<Rightarrow> 'b exit option) \<Rightarrow> 'b exit option" where
  "on_return x f = (case x of Return a \<Rightarrow> f a | Leave \<Rightarrow> Some Leave)"

lemma on_return_simps [simp]: "on_return (Return a) f = f a" "on_return Leave f = Some Leave"
  by (simp_all add: on_return_def)

section \<open>Reading\<close>

text \<open>\<open>Seek\<close> takes an \<open>int32\<close>; whether it fails.\<close>

definition id3_seek :: "'f file_ops \<Rightarrow> u32 \<Rightarrow> seek_type \<Rightarrow> 'f id3 \<Rightarrow> bool \<times> 'f id3" where
  "id3_seek io offset origin s =
     (case pv_seek io (sint offset) origin (id3_file s) of (r, F) \<Rightarrow> (r = - 1, s\<lparr>id3_file := F\<rparr>))"

definition id3_tell :: "'f file_ops \<Rightarrow> 'f id3 \<Rightarrow> u32" where
  "id3_tell io s = word_of_int (pv_tell io (id3_file s))"

text \<open>
  \<open>readByteData\<close> into a buffer with room for \<open>cap\<close> bytes: whether it returns true, and the bytes stored.
\<close>

definition id3_readByteData :: "'f file_ops \<Rightarrow> u32 \<Rightarrow> nat \<Rightarrow> 'f id3 \<Rightarrow> (bool \<times> u8 list \<times> 'f id3) option" where
  "id3_readByteData io len cap s =
     (if len > 0
      then case pv_read io (unat len) (id3_file s) of
        (bs, F) \<Rightarrow> if cap < length bs then None else Some (\<not> length bs < unat len, bs, s\<lparr>id3_file := F\<rparr>)
      else Some (True, [], s))"

text \<open>The reads of integers: whether they return true, and what they store (0 when they do not).\<close>

definition id3_read32 :: "'f file_ops \<Rightarrow> 'f id3 \<Rightarrow> bool \<times> u32 \<times> 'f id3" where
  "id3_read32 io s = (case pv_read io 4 (id3_file s) of (bytes, F) \<Rightarrow>
     if length bytes < 4 then (False, 0, s\<lparr>id3_file := F\<rparr>) else (True, foldl shift_in 0 bytes, s\<lparr>id3_file := F\<rparr>))"

definition id3_read24 :: "'f file_ops \<Rightarrow> 'f id3 \<Rightarrow> bool \<times> u32 \<times> 'f id3" where
  "id3_read24 io s = (case pv_read io 3 (id3_file s) of (bytes, F) \<Rightarrow>
     if length bytes < 3 then (False, 0, s\<lparr>id3_file := F\<rparr>) else (True, foldl shift_in 0 bytes, s\<lparr>id3_file := F\<rparr>))"

definition id3_read16 :: "'f file_ops \<Rightarrow> 'f id3 \<Rightarrow> bool \<times> u16 \<times> 'f id3" where
  "id3_read16 io s = (case pv_read io 2 (id3_file s) of (bytes, F) \<Rightarrow>
     if length bytes < 2 then (False, 0, s\<lparr>id3_file := F\<rparr>) else (True, foldl shift_in16 0 bytes, s\<lparr>id3_file := F\<rparr>))"

definition id3_read8 :: "'f file_ops \<Rightarrow> 'f id3 \<Rightarrow> bool \<times> u8 \<times> 'f id3" where
  "id3_read8 io s = (case pv_read io 1 (id3_file s) of (bytes, F) \<Rightarrow>
     if length bytes < 1 then (False, 0, s\<lparr>id3_file := F\<rparr>) else (True, hd bytes, s\<lparr>id3_file := F\<rparr>))"

section \<open>Integers of the tag formats\<close>

text \<open>
  A size is stored as four bytes of seven bits, most significant first, and read with \<open>id3_read32\<close>; the
  target is little endian, so byte \<open>j\<close> of the integer in memory is \<open>pBuf n j\<close>.
\<close>

definition pBuf :: "u32 \<Rightarrow> nat \<Rightarrow> u8" where
  "pBuf n j = ucast (drop_bit (8 * j) n)"

definition SafeSynchIntToInt32 :: "byte_order \<Rightarrow> u32 \<Rightarrow> u32" where
  "SafeSynchIntToInt32 bo n = foldl (\<lambda>integer i.
       let tmpByte = (case bo of LITTLE_ENDIAN \<Rightarrow> pBuf n i | BIG_ENDIAN \<Rightarrow> pBuf n (4 - i - 1)) AND 127
       in integer + push_bit (7 * i) (ucast tmpByte)) 0 [0, 1, 2, 3]"

definition ConvertToSyncSafeInt :: "u32 \<Rightarrow> u32" where
  "ConvertToSyncSafeInt src =
     push_bit 3 (src AND 0x0FE00000) OR push_bit 2 (src AND 0x001FC000) OR push_bit 1 (src AND 0x00003F80) OR
     (src AND 0x0000007F)"

section \<open>Characters\<close>

text \<open>
  UTF-16 text of \<open>2 * n\<close> bytes or one more into wide characters. A zero character also makes the loop skip
  the one behind it. In the big-endian branch the value is a logical \<open>&&\<close>.
\<close>

definition wide_char :: "bool \<Rightarrow> u8 \<Rightarrow> u8 \<Rightarrow> wchar" where
  "wide_char big tempByteOne tempByteTwo =
     (if big
      then let tempFrameData16 = push_bit 8 (ucast tempByteOne) OR ucast tempByteTwo :: u16
           in if push_bit 16 (ucast tempFrameData16 :: u32) \<noteq> 0 \<and> (0xFF00 :: u32) \<noteq> 0 then 1 else 0
      else ucast (push_bit 8 (ucast tempByteTwo) OR ucast tempByteOne :: u16))"

function transfer_loop :: "bool \<Rightarrow> u8 list \<Rightarrow> nat \<Rightarrow> nat \<Rightarrow> nat \<Rightarrow> wchar list \<Rightarrow> (nat \<times> wchar list) option" where
  "transfer_loop big src n x index dest =
     (if x < n then do {
        tempByteOne \<leftarrow> rd src (2 * x);
        tempByteTwo \<leftarrow> rd src (2 * x + 1);
        if tempByteOne = 0 \<and> tempByteTwo = 0 then do {
          dest' \<leftarrow> wr dest index 0;
          transfer_loop big src n (x + 2) (index + 1) dest' }
        else do {
          dest' \<leftarrow> wr dest index (wide_char big tempByteOne tempByteTwo);
          transfer_loop big src n (x + 1) (index + 1) dest' } }
      else Some (index, dest))"
  by pat_completeness auto
termination by (relation "measure (\<lambda>(_, _, n, x, _, _). n - x)") auto

declare transfer_loop.simps [simp del]

text \<open>\<open>aEndianType\<close> is 0 for big endian.\<close>

definition EightBitToWideCharBufferTransfer ::
  "u8 list \<Rightarrow> u32 \<Rightarrow> u32 \<Rightarrow> wchar list \<Rightarrow> (nat \<times> wchar list) option" where
  "EightBitToWideCharBufferTransfer src aSize aEndianType dest =
     transfer_loop (aEndianType = 0) src (unat aSize div 2) 0 0 dest"

definition ExpandWChar2BytesTo4Bytes :: "wchar list \<Rightarrow> u8 list \<Rightarrow> nat \<Rightarrow> wchar list option" where
  "ExpandWChar2BytesTo4Bytes dest src nChars =
     (let n = nChars - 1
      in if n < length dest \<and> 2 * n \<le> length src
         then Some (patch dest 0 (List.map (\<lambda>i. ucast (host_u16 (src ! (2 * i)) (src ! (2 * i + 1)))) [0..<n] @ [0]))
         else None)"

section \<open>Frame identifiers\<close>

definition id3_frame_ids :: "(u8 list \<times> id3_frame) list" where
  "id3_frame_ids = List.map (\<lambda>(id, t). (lit id, t))
    [(''TIT2'', PV_ID3_FRAME_TITLE), (''TPE1'', PV_ID3_FRAME_ARTIST), (''TPOS'', PV_ID3_FRAME_PART_OF_SET),
     (''TALB'', PV_ID3_FRAME_ALBUM), (''TCOP'', PV_ID3_FRAME_COPYRIGHT), (''TCON'', PV_ID3_FRAME_GENRE),
     (''TRCK'', PV_ID3_FRAME_TRACK_NUMBER), (''TLEN'', PV_ID3_FRAME_TRACK_LENGTH), (''COMM'', PV_ID3_FRAME_COMMENT),
     (''TYER'', PV_ID3_FRAME_YEAR), (''TDRC'', PV_ID3_FRAME_RECORDING_TIME), (''TDAT'', PV_ID3_FRAME_DATE),
     (''APIC'', PV_ID3_FRAME_APIC), (''USLT'', PV_ID3_FRAME_LYRICS), (''SEEK'', PV_ID3_FRAME_SEEK),
     (''TEXT'', PV_ID3_FRAME_AUTHOR), (''TCOM'', PV_ID3_FRAME_COMPOSER), (''TIT3'', PV_ID3_FRAME_DESCRIPTION),
     (''TENC'', PV_ID3_FRAME_VERSION)]"

definition id3_2_frame_ids :: "(u8 list \<times> id3_frame) list" where
  "id3_2_frame_ids = List.map (\<lambda>(id, t). (lit id, t))
    [(''TT2'', PV_ID3_FRAME_TITLE), (''TP1'', PV_ID3_FRAME_ARTIST), (''TPA'', PV_ID3_FRAME_PART_OF_SET),
     (''TAL'', PV_ID3_FRAME_ALBUM), (''TCR'', PV_ID3_FRAME_COPYRIGHT), (''TCO'', PV_ID3_FRAME_GENRE),
     (''TRK'', PV_ID3_FRAME_TRACK_NUMBER), (''TLE'', PV_ID3_FRAME_TRACK_LENGTH), (''COM'', PV_ID3_FRAME_COMMENT),
     (''TYE'', PV_ID3_FRAME_YEAR), (''TDA'', PV_ID3_FRAME_DATE), (''PIC'', PV_ID3_FRAME_PIC),
     (''ULT'', PV_ID3_FRAME_LYRICS), (''TXT'', PV_ID3_FRAME_AUTHOR), (''TCM'', PV_ID3_FRAME_COMPOSER),
     (''TT3'', PV_ID3_FRAME_DESCRIPTION), (''TEN'', PV_ID3_FRAME_VERSION)]"

definition id3_unsupported_ids :: "u8 list list" where
  "id3_unsupported_ids = List.map lit
    [''AENC'', ''ASPI'', ''COMR'', ''ENCR'', ''EQU2'', ''ETCO'', ''GEOB'', ''GRID'', ''LINK'', ''MCDI'', ''MLLT'',
     ''OWNE'', ''PRIV'', ''PCNT'', ''POPM'', ''POSS'', ''RBUF'', ''RVA2'', ''RVRB'', ''SYLT'', ''SYTC'', ''TBPM'',
     ''TDLY'', ''TFLT'', ''TIT1'', ''TKEY'', ''TLAN'', ''TMED'', ''TOAL'', ''TOFN'', ''TOLY'', ''TOPE'', ''TOWN'',
     ''TPE2'', ''TPE3'', ''TPE4'', ''TPOS'', ''TPUB'', ''TRSN'', ''TRSO'', ''TSRC'', ''TSSE'', ''UFID'', ''USER'',
     ''WCOM'', ''WCOP'', ''WOAF'', ''WOAR'', ''WOAS'', ''WORS'', ''WPAY'', ''WPUB'', ''WXXX'', ''SIGN'', ''TDEN'',
     ''TDOR'', ''TDRL'', ''TDTG'', ''TIPL'', ''TMCL'', ''TMOO'', ''TPRO'', ''TSOA'', ''TSOP'', ''TSOT'', ''TSST'',
     ''TXXX'']"

text \<open>A letter or digit, and what an identifier that is in no list counts as.\<close>

definition IS_VALID_FRAME_ID_CHAR :: "u8 \<Rightarrow> bool" where
  "IS_VALID_FRAME_ID_CHAR ch \<longleftrightarrow> 65 \<le> ch \<and> ch \<le> 90 \<or> 48 \<le> ch \<and> ch \<le> 57"

definition FrameValidatedID3V2_4 :: "u8 list \<Rightarrow> id3_frame" where
  "FrameValidatedID3V2_4 aFrameID =
     (if take 4 aFrameID \<in> set id3_unsupported_ids then PV_ID3_FRAME_UNRECOGNIZED
      else if list_all IS_VALID_FRAME_ID_CHAR (take 4 aFrameID) then PV_ID3_FRAME_CANDIDATE
      else PV_ID3_FRAME_INVALID)"

text \<open>Seeing an identifier already counts as having found the frame.\<close>

definition note_found :: "id3_frame \<Rightarrow> 'f id3 \<Rightarrow> 'f id3" where
  "note_found t s =
     (case t of
        PV_ID3_FRAME_TITLE \<Rightarrow> s\<lparr>iTitleFoundFlag := True\<rparr>
      | PV_ID3_FRAME_ARTIST \<Rightarrow> s\<lparr>iArtistFoundFlag := True\<rparr>
      | PV_ID3_FRAME_ALBUM \<Rightarrow> s\<lparr>iAlbumFoundFlag := True\<rparr>
      | PV_ID3_FRAME_GENRE \<Rightarrow> s\<lparr>iGenereFoundFlag := True\<rparr>
      | PV_ID3_FRAME_TRACK_NUMBER \<Rightarrow> s\<lparr>iTrackNumberFoundFlag := True\<rparr>
      | PV_ID3_FRAME_COMMENT \<Rightarrow> s\<lparr>iCommentFoundFlag := True\<rparr>
      | PV_ID3_FRAME_YEAR \<Rightarrow> s\<lparr>iYearFoundFlag := True\<rparr>
      | PV_ID3_FRAME_RECORDING_TIME \<Rightarrow> s\<lparr>iYearFoundFlag := True\<rparr>
      | _ \<Rightarrow> s)"

definition FrameSupportedID3V2_2 :: "'f id3 \<Rightarrow> id3_frame \<times> 'f id3" where
  "FrameSupportedID3V2_2 s =
     (case map_of id3_2_frame_ids (take 3 (iID3V2FrameID s)) of
        Some t \<Rightarrow> (t, note_found t s)
      | None \<Rightarrow> (if take 3 (iID3V2FrameID s) = [0, 0, 0] then PV_ID3_FRAME_EEND else PV_ID3_FRAME_UNRECOGNIZED, s))"

definition FrameSupportedID3V2 :: "id3_version \<Rightarrow> u8 list option \<Rightarrow> 'f id3 \<Rightarrow> id3_frame \<times> 'f id3" where
  "FrameSupportedID3V2 aVersion aframeid s =
     (let pFrameID = (case aframeid of Some i \<Rightarrow> i | None \<Rightarrow> iID3V2FrameID s)
      in if hd pFrameID = 0xFF then (PV_ID3_FRAME_EEND, s)
         else if aVersion = PV_ID3_V2_2 then FrameSupportedID3V2_2 s
         else case map_of id3_frame_ids (take 4 pFrameID) of
           Some t \<Rightarrow> (t, note_found t s)
         | None \<Rightarrow> (if take 4 pFrameID = [0, 0, 0, 0] then PV_ID3_FRAME_EEND else FrameValidatedID3V2_4 pFrameID, s))"

section \<open>Keys and key-value pairs\<close>

definition cstr :: "u8 list \<Rightarrow> u8 list" where
  "cstr buf = takeWhile (\<lambda>c. c \<noteq> 0) buf"

definition KVP_KEY :: "id3_frame \<Rightarrow> u8 list option" where
  "KVP_KEY t =
     (case t of
        PV_ID3_FRAME_TITLE \<Rightarrow> Some (lit ''title'') | PV_ID3_FRAME_ARTIST \<Rightarrow> Some (lit ''artist'')
      | PV_ID3_FRAME_PART_OF_SET \<Rightarrow> Some (lit ''set'') | PV_ID3_FRAME_ALBUM \<Rightarrow> Some (lit ''album'')
      | PV_ID3_FRAME_COPYRIGHT \<Rightarrow> Some (lit ''copyright'') | PV_ID3_FRAME_GENRE \<Rightarrow> Some (lit ''genre'')
      | PV_ID3_FRAME_TRACK_NUMBER \<Rightarrow> Some (lit ''track-info/track-number'')
      | PV_ID3_FRAME_YEAR \<Rightarrow> Some (lit ''year'') | PV_ID3_FRAME_DATE \<Rightarrow> Some (lit ''date'')
      | PV_ID3_FRAME_RECORDING_TIME \<Rightarrow> Some (lit ''year'') | PV_ID3_FRAME_AUTHOR \<Rightarrow> Some (lit ''author'')
      | PV_ID3_FRAME_COMPOSER \<Rightarrow> Some (lit ''composer'') | PV_ID3_FRAME_DESCRIPTION \<Rightarrow> Some (lit ''description'')
      | PV_ID3_FRAME_VERSION \<Rightarrow> Some (lit ''version'') | PV_ID3_FRAME_COMMENT \<Rightarrow> Some (lit ''comment'')
      | PV_ID3_FRAME_TRACK_LENGTH \<Rightarrow> Some (lit ''duration-from-metadata'')
      | PV_ID3_FRAME_PIC \<Rightarrow> Some (lit ''graphic'') | PV_ID3_FRAME_APIC \<Rightarrow> Some (lit ''graphic'')
      | PV_ID3_FRAME_LYRICS \<Rightarrow> Some (lit ''lyrics'')
      | PV_ID3_FRAME_UNRECOGNIZED \<Rightarrow> Some (lit ''id3v2'') | PV_ID3_FRAME_CANDIDATE \<Rightarrow> Some (lit ''id3v2'')
      | _ \<Rightarrow> None)"

text \<open>\<open>ConstructKvpKey\<close>: its status and the key.\<close>

definition ConstructKvpKey :: "'f id3 \<Rightarrow> id3_frame \<Rightarrow> id3_charset \<Rightarrow> pvmf_status \<times> u8 list" where
  "ConstructKvpKey s aType aCharSet =
     (let v1 = iVersion s = PV_ID3_V1_1 \<or> iVersion s = PV_ID3_V1
      in case KVP_KEY aType of
        None \<Rightarrow> (PVMFErrNotSupported, [])
      | Some key \<Rightarrow>
          if aType = PV_ID3_FRAME_GENRE \<and> aCharSet = PV_ID3_CHARSET_INVALID
          then (PVMFSuccess, key @ lit '';valtype=uint32;format=id3v1'')
          else if aType = PV_ID3_FRAME_TRACK_NUMBER \<and> aCharSet = PV_ID3_CHARSET_INVALID
          then (PVMFSuccess, key @ lit '';valtype=uint32'')
          else if aType = PV_ID3_FRAME_TRACK_LENGTH
          then (PVMFSuccess, key @ lit '';timescale=1000;valtype=uint32'')
          else if aType = PV_ID3_FRAME_PIC \<or> aType = PV_ID3_FRAME_APIC
          then (PVMFSuccess, key @ lit '';'')
          else if aType = PV_ID3_FRAME_UNRECOGNIZED \<or> aType = PV_ID3_FRAME_CANDIDATE
          then (PVMFSuccess, key @ lit ''/'' @ cstr (iID3V2FrameID s) @ lit '';valtype=uint8*'')
          else let key = (if aType = PV_ID3_FRAME_LYRICS \<or> aType = PV_ID3_FRAME_COMMENT \<and> \<not> v1
                          then key @ lit '';valtype=ksv'' else key)
            in if (aType = PV_ID3_FRAME_LYRICS \<or> aType = PV_ID3_FRAME_COMMENT) \<and> \<not> v1
               then (PVMFSuccess, key @ lit '';iso-639-2-lang='' @ cstr (iID3V2LanguageID s))
               else case aCharSet of
                 PV_ID3_CHARSET_ISO88591 \<Rightarrow> (PVMFSuccess, key @ lit '';valtype=char*'')
               | PV_ID3_CHARSET_UTF16 \<Rightarrow> (PVMFSuccess, key @ lit '';valtype=wchar*'')
               | PV_ID3_CHARSET_UTF16BE \<Rightarrow> (PVMFSuccess, key @ lit '';valtype=wchar*;char-encoding=UTF16BE'')
               | PV_ID3_CHARSET_UTF8 \<Rightarrow> (PVMFSuccess, key @ lit '';valtype=char*;char-encoding=UTF8'')
               | PV_ID3_CHARSET_INVALID \<Rightarrow> (PVMFErrNotSupported, key @ lit '';''))"

text \<open>\<open>printf\<close> with \<open>%d\<close>.\<close>

fun dec_string :: "nat \<Rightarrow> u8 list" where
  "dec_string n = (if n < 10 then [word_of_nat (48 + n)] else dec_string (n div 10) @ [word_of_nat (48 + n mod 10)])"

declare dec_string.simps [simp del]

definition printf_d :: "int \<Rightarrow> u8 list" where
  "printf_d x = (if x < 0 then lit ''-'' @ dec_string (nat (- x)) else dec_string (nat x))"

definition oscl_mem_aligned_size :: "u32 \<Rightarrow> u32" where
  "oscl_mem_aligned_size x = (if x AND 7 \<noteq> 0 then (x AND NOT 7) + 8 else x)"

text \<open>The kinds of value the parser allocates, and the zeroed value of so many bytes of each.\<close>

datatype kvp_kind = CharKind | WCharKind | Uint8Kind | Uint32Kind | KsvKind

fun kvp_block :: "kvp_kind \<Rightarrow> u32 \<Rightarrow> kvp_value" where
  "kvp_block CharKind n = CharValue (replicate (unat n) 0)"
| "kvp_block WCharKind n = WCharValue (replicate (unat n div 4) 0)"
| "kvp_block Uint8Kind n = Uint8Value (replicate (unat n) 0)"
| "kvp_block Uint32Kind n = Uint32Value 0"
| "kvp_block KsvKind n = LyricsComm None None (replicate ((unat n - 12) div 4) 0)"

text \<open>
  \<open>AllocateKvp\<close>: the pair and whether it is truncated, or nothing when it leaves. The reference counter,
  the clean-up object and the pair take 16, 8 and 24 bytes. A pair whose value cannot be allocated
  gets the size in its key, of which only the bytes of the old key are stored. The flag \<open>truncate\<close>
  belongs to the caller and is never reset.
\<close>

definition AllocateKvp :: "(u32 \<Rightarrow> bool) \<Rightarrow> u8 list \<Rightarrow> kvp_kind \<Rightarrow> u32 \<Rightarrow> bool \<Rightarrow> (kvp \<times> bool) option" where
  "AllocateKvp heap aKey aValueType aValueSize truncated =
     (let key_size = oscl_mem_aligned_size (word_of_nat (length aKey) + 1);
          total_size = 16 + 8 + 24 + key_size + aValueSize
      in if \<not> heap total_size \<or> total_size < aValueSize
         then let aKey = aKey @ lit '';reqsize='' @ take 10 (printf_d (sint aValueSize));
                  new_key_size = oscl_mem_aligned_size (word_of_nat (length aKey) + 1)
              in if \<not> heap (16 + 8 + 24 + new_key_size) then None
                 else Some (\<lparr>kvp_key = take (unat key_size) aKey, kvp_value = NoValue, kvp_length = 0,
                   kvp_capacity = 0\<rparr>, True)
         else if truncated
         then Some (\<lparr>kvp_key = aKey, kvp_value = NoValue, kvp_length = 0, kvp_capacity = 0\<rparr>, True)
         else Some (\<lparr>kvp_key = aKey, kvp_value = kvp_block aValueType aValueSize,
           kvp_length = sint aValueSize, kvp_capacity = aValueSize\<rparr>, False))"

definition push_frame :: "kvp \<Rightarrow> 'f id3 \<Rightarrow> 'f id3" where
  "push_frame k s = s\<lparr>iFrames := iFrames s @ [k]\<rparr>"

section \<open>Sizes and characters\<close>

lemma unat_pBuf: "unat (pBuf n j AND 127) = unat n div 256 ^ j mod 128"
proof -
  have "unat (pBuf n j AND 0x7F) = unat n div 2 ^ (8 * j) mod 256 mod 128"
    by (simp add: pBuf_def unat_and_masks unat_ucast_mod unat_drop_bit_div)
  also have "\<dots> = unat n div 256 ^ j mod 128" by (simp add: power_mult mod_mod_cancel)
  finally show ?thesis by simp
qed

lemma unat_push_digit: "unat (t :: u8) < 128 \<Longrightarrow> k \<le> 21 \<Longrightarrow> unat (push_bit k (ucast t :: u32)) = unat t * 2 ^ k"
proof -
  assume t: "unat t < 128" "k \<le> 21"
  then have "unat t * 2 ^ k \<le> 127 * 2 ^ 21"
    by (intro mult_le_mono power_increasing) simp_all
  then show ?thesis by (simp add: unat_push_bit_small)
qed

text \<open>The number with these four digits of seven bits, the last one first.\<close>

definition sync_val :: "nat \<Rightarrow> nat \<Rightarrow> nat \<Rightarrow> nat \<Rightarrow> nat" where
  "sync_val a b c d = a + 128 * b + 16384 * c + 2097152 * d"

lemma unat_SafeSynch:
  "unat (SafeSynchIntToInt32 LITTLE_ENDIAN n) =
     sync_val (unat n mod 128) (unat n div 256 mod 128) (unat n div 65536 mod 128) (unat n div 16777216 mod 128)"
  "unat (SafeSynchIntToInt32 BIG_ENDIAN n) =
     sync_val (unat n div 16777216 mod 128) (unat n div 65536 mod 128) (unat n div 256 mod 128) (unat n mod 128)"
proof -
  have add: "unat (w + x + y + z) = unat w + unat x + unat y + unat z"
    if "unat w + unat x + unat y + unat z < 4294967296" for w x y z :: u32
    using that by (simp add: unat_word_ariths mod_simps)
  define t where "t j = (pBuf n j AND 127)" for j
  have t: "unat (t j) = unat n div 256 ^ j mod 128" for j by (simp add: t_def unat_pBuf)
  have le: "unat (t j) \<le> 127" for j using mod_less_divisor [of 128 "unat n div 256 ^ j"] by (simp add: t)
  have dig: "unat (ucast (t j) :: u32) = unat (t j)" for j by simp
  have push: "unat (push_bit k (ucast (t j) :: u32)) = unat (t j) * 2 ^ k" if "k \<le> 21" for j k
    using unat_push_digit [of "t j" k] le [of j] that by simp
  have sum: "unat (ucast (t a) + push_bit 7 (ucast (t b)) + push_bit 14 (ucast (t c)) + push_bit 21 (ucast (t d)) :: u32) =
      sync_val (unat (t a)) (unat (t b)) (unat (t c)) (unat (t d))" for a b c d
    using le [of a] le [of b] le [of c] le [of d] by (subst add) (simp_all add: push sync_val_def)
  have "SafeSynchIntToInt32 LITTLE_ENDIAN n =
      ucast (t 0) + push_bit 7 (ucast (t 1)) + push_bit 14 (ucast (t 2)) + push_bit 21 (ucast (t 3))"
    by (simp add: SafeSynchIntToInt32_def t_def)
  then show "unat (SafeSynchIntToInt32 LITTLE_ENDIAN n) =
     sync_val (unat n mod 128) (unat n div 256 mod 128) (unat n div 65536 mod 128) (unat n div 16777216 mod 128)"
    by (simp only: sum t) simp
  have "SafeSynchIntToInt32 BIG_ENDIAN n =
      ucast (t 3) + push_bit 7 (ucast (t 2)) + push_bit 14 (ucast (t 1)) + push_bit 21 (ucast (t 0))"
    by (simp add: SafeSynchIntToInt32_def t_def)
  then show "unat (SafeSynchIntToInt32 BIG_ENDIAN n) =
     sync_val (unat n div 16777216 mod 128) (unat n div 65536 mod 128) (unat n div 256 mod 128) (unat n mod 128)"
    by (simp only: sum t) simp
qed

lemma SafeSynch_bound: "unat (SafeSynchIntToInt32 bo n) < 268435456"
proof -
  have d: "a mod 128 \<le> 127" for a :: nat using mod_less_divisor [of 128 a] by linarith
  show ?thesis
    using d [of "unat n"] d [of "unat n div 256"] d [of "unat n div 65536"] d [of "unat n div 16777216"]
    by (cases bo) (simp_all add: unat_SafeSynch sync_val_def)
qed

lemma and_shifted: "(x :: u32) AND push_bit k (mask m) = push_bit k (drop_bit k x AND mask m)"
proof (rule bit_eqI)
  fix j
  show "bit (x AND push_bit k (mask m)) j = bit (push_bit k (drop_bit k x AND mask m)) j"
    by (cases "k \<le> j") (auto simp: bit_simps)
qed

lemma unat_and_shifted:
  assumes "k + m \<le> 32"
  shows "unat ((x :: u32) AND push_bit k (mask m)) = unat x div 2 ^ k mod 2 ^ m * 2 ^ k"
proof -
  have u: "unat (drop_bit k x AND mask m) = unat x div 2 ^ k mod 2 ^ m"
    by (simp add: unat_simps)
  have "unat x div 2 ^ k mod 2 ^ m * 2 ^ k < 2 ^ m * 2 ^ k" by simp
  also have "\<dots> \<le> 2 ^ 32" unfolding power_add [symmetric] by (rule power_increasing) (use assms in simp_all)
  finally show ?thesis unfolding and_shifted by (subst unat_push_bit_small) (simp_all add: u)
qed

lemma unat_or_bytes:
  fixes x y z w :: u32
  assumes "b < 128" "c < 128" "d < 128"
    and "unat x = a * 16777216" "unat y = b * 65536" "unat z = c * 256" "unat w = d"
  shows "unat (x OR y OR z OR w) = a * 16777216 + b * 65536 + c * 256 + d"
proof -
  have 1: "unat (z OR w) = c * 256 + d"
    using assms by (subst unat_or_plus [where k = 8]) simp_all
  have 2: "unat (y OR z OR w) = b * 65536 + (c * 256 + d)"
    using assms by (subst unat_or_plus [where k = 16]) (simp_all add: 1)
  show ?thesis
    using assms by (subst unat_or_plus [where k = 24]) (simp_all add: 2)
qed

text \<open>The four groups of seven bits of a size.\<close>

lemma unat_ConvertToSyncSafeInt:
  "unat (ConvertToSyncSafeInt n) = unat n div 2097152 mod 128 * 16777216 + unat n div 16384 mod 128 * 65536 +
     unat n div 128 mod 128 * 256 + unat n mod 128"
proof -
  have m: "0x0FE00000 = push_bit 21 (mask 7 :: u32)" "0x001FC000 = push_bit 14 (mask 7 :: u32)"
    "0x00003F80 = push_bit 7 (mask 7 :: u32)" "0x0000007F = (mask 7 :: u32)"
    by (simp_all add: mask_eq_exp_minus_1 push_bit_eq_mult)
  define a b c d where "a = unat n div 2097152 mod 128" and "b = unat n div 16384 mod 128"
    and "c = unat n div 128 mod 128" and "d = unat n mod 128"
  have lt: "a < 128" "b < 128" "c < 128" "d < 128" by (simp_all add: a_def b_def c_def d_def)
  have g: "unat (n AND push_bit 21 (mask 7)) = a * 2097152" "unat (n AND push_bit 14 (mask 7)) = b * 16384"
    "unat (n AND push_bit 7 (mask 7)) = c * 128" "unat (n AND mask 7) = d"
    by (simp_all add: unat_and_shifted unat_and_mask a_def b_def c_def d_def)
  have p: "unat (push_bit 3 (n AND push_bit 21 (mask 7))) = a * 16777216"
    "unat (push_bit 2 (n AND push_bit 14 (mask 7))) = b * 65536"
    "unat (push_bit 1 (n AND push_bit 7 (mask 7))) = c * 256"
    using lt by (subst unat_push_bit_small; simp add: g)+
  have "unat (push_bit 3 (n AND push_bit 21 (mask 7)) OR push_bit 2 (n AND push_bit 14 (mask 7)) OR
      push_bit 1 (n AND push_bit 7 (mask 7)) OR n AND mask 7) = a * 16777216 + b * 65536 + c * 256 + d"
    by (rule unat_or_bytes [OF lt(2-4) p g(4)])
  then show ?thesis by (simp only: ConvertToSyncSafeInt_def m a_def b_def c_def d_def)
qed

lemma sync_safe_parts:
  assumes "unat n < 2 ^ 28"
  shows "SafeSynchIntToInt32 LITTLE_ENDIAN (ConvertToSyncSafeInt n) = n \<and>
    (\<forall>j \<in> {0, 1, 2, 3}. unat (ConvertToSyncSafeInt n) div 256 ^ j mod 256 < 128) \<and>
    unat (SafeSynchIntToInt32 repository_byte_order (ConvertToSyncSafeInt n)) =
      sync_val (unat n div 2097152) (unat n div 16384 mod 128) (unat n div 128 mod 128) (unat n mod 128)"
proof -
  define a b c d where "a = unat n div 2097152" and "b = unat n div 16384 mod 128"
    and "c = unat n div 128 mod 128" and "d = unat n mod 128"
  have a: "unat n div 2097152 mod 128 = a" and lt: "a < 128" "b < 128" "c < 128" "d < 128"
    using assms by (simp_all add: a_def b_def c_def d_def div_less_iff_less_mult)
  define v where "v = unat (ConvertToSyncSafeInt n)"
  have v: "v = ((a * 256 + b) * 256 + c) * 256 + d"
    unfolding v_def unat_ConvertToSyncSafeInt a by (simp add: b_def c_def d_def)
  have e: "v div 256 = (a * 256 + b) * 256 + c" "v div 65536 = a * 256 + b" "v div 16777216 = a"
  proof -
    show 1: "v div 256 = (a * 256 + b) * 256 + c" using lt by (simp add: v)
    have "v div 256 div 256 = a * 256 + b" unfolding 1 using lt by simp
    then show 2: "v div 65536 = a * 256 + b" by (simp add: div_mult2_eq [symmetric])
    have "v div 65536 div 256 = a" unfolding 2 using lt by simp
    then show "v div 16777216 = a" by (simp add: div_mult2_eq [symmetric])
  qed
  have m: "(x * 256 + y) mod 128 = y" "(x * 256 + y) mod 256 = y" if "y < 128" for x y :: nat
  proof -
    have "x * 256 + y = x * 2 * 128 + y" by simp
    then show "(x * 256 + y) mod 128 = y" using that by (metis mod_less mod_mult_self3)
    show "(x * 256 + y) mod 256 = y" using that by simp
  qed
  have dig: "v mod 128 = d" "v div 256 mod 128 = c" "v div 65536 mod 128 = b" "v div 16777216 mod 128 = a"
    using lt m(1) [OF lt(4)] m(1) [OF lt(3)] m(1) [OF lt(2)] by (simp_all only: e) (simp_all only: v mod_less)
  have dig2: "v mod 256 = d" "v div 256 mod 256 = c" "v div 65536 mod 256 = b" "v div 16777216 mod 256 = a"
    using lt m(2) [OF lt(4)] m(2) [OF lt(3)] m(2) [OF lt(2)] by (simp_all only: e) (simp only: v, simp)
  have n: "sync_val d c b a = unat n"
  proof -
    have q: "unat n div 16384 = unat n div 128 div 128" "unat n div 2097152 = unat n div 128 div 128 div 128"
      by (simp_all add: div_mult2_eq [symmetric])
    show ?thesis
      using div_mult_mod_eq [of "unat n" 128] div_mult_mod_eq [of "unat n div 128" 128]
        div_mult_mod_eq [of "unat n div 128 div 128" 128]
      unfolding sync_val_def a_def b_def c_def d_def q by linarith
  qed
  have "unat (SafeSynchIntToInt32 LITTLE_ENDIAN (ConvertToSyncSafeInt n)) = unat n"
    unfolding unat_SafeSynch v_def [symmetric] dig n by (rule refl)
  then have "SafeSynchIntToInt32 LITTLE_ENDIAN (ConvertToSyncSafeInt n) = n" by (simp only: word_unat_eq_iff)
  moreover have "unat (SafeSynchIntToInt32 repository_byte_order (ConvertToSyncSafeInt n)) = sync_val a b c d"
    unfolding repository_byte_order_def unat_SafeSynch v_def [symmetric] dig by (rule refl)
  moreover have "\<forall>j \<in> {0, 1, 2, 3}. v div 256 ^ j mod 256 < 128"
    using lt by (simp add: dig2)
  ultimately show ?thesis by (simp only: v_def a_def b_def c_def d_def)
qed

text \<open>
  C37. Sizes of tags: what \<open>ConvertToSyncSafeInt\<close> writes has the top bit of each byte clear, and
  \<open>SafeSynchIntToInt32\<close> reads it back when the code is compiled for the little-endian byte order of the
  targets. Compiled for the order the repository defines, it reads the four groups of seven bits in the
  reverse order: a size below 128 comes out multiplied by \<open>2 ^ 21\<close>.
\<close>

theorem sync_safe_round_trip:
  assumes "unat n < 2 ^ 28"
  shows "SafeSynchIntToInt32 LITTLE_ENDIAN (ConvertToSyncSafeInt n) = n \<and>
    (\<forall>j \<in> {0, 1, 2, 3}. unat (ConvertToSyncSafeInt n) div 256 ^ j mod 256 < 128) \<and>
    unat (SafeSynchIntToInt32 repository_byte_order (ConvertToSyncSafeInt n)) =
      sync_val (unat n div 2097152) (unat n div 16384 mod 128) (unat n div 128 mod 128) (unat n mod 128)"
  using assms by (rule sync_safe_parts)

theorem sync_safe_round_trip_witness:
  "SafeSynchIntToInt32 LITTLE_ENDIAN (ConvertToSyncSafeInt 100) = 100 \<and>
   unat (SafeSynchIntToInt32 repository_byte_order (ConvertToSyncSafeInt 100)) = 209715200"
  using sync_safe_round_trip [of 100] by (simp add: sync_val_def)

text \<open>Text without a zero character, converted.\<close>

definition no_zero_char :: "u8 list \<Rightarrow> nat \<Rightarrow> bool" where
  "no_zero_char src n \<longleftrightarrow> 2 * n \<le> length src \<and> (\<forall>k<n. \<not> (src ! (2 * k) = 0 \<and> src ! (2 * k + 1) = 0))"

definition wide_chars :: "bool \<Rightarrow> u8 list \<Rightarrow> nat \<Rightarrow> nat \<Rightarrow> wchar list" where
  "wide_chars big src x n = List.map (\<lambda>k. wide_char big (src ! (2 * k)) (src ! (2 * k + 1))) [x..<n]"

lemma transfer_loop_text:
  assumes "no_zero_char src n" "x \<le> n" "index + (n - x) \<le> length dest"
  shows "transfer_loop big src n x index dest = Some (index + (n - x), patch dest index (wide_chars big src x n))"
  using assms(2,3)
proof (induction "n - x" arbitrary: x index dest)
  case 0
  then show ?case by (simp add: transfer_loop.simps [of _ _ _ x] wide_chars_def)
next
  case (Suc m)
  then have x: "x < n" "m = n - (x + 1)" by simp_all
  let ?c = "wide_char big (src ! (2 * x)) (src ! (2 * x + 1))"
  have 1: "rd src (2 * x) = Some (src ! (2 * x))" "rd src (2 * x + 1) = Some (src ! (2 * x + 1))"
    "\<not> (src ! (2 * x) = 0 \<and> src ! (2 * x + 1) = 0)"
    using assms(1) x(1) by (auto simp: no_zero_char_def rd_def)
  have 2: "wr dest index ?c = Some (patch dest index [?c])" using Suc.prems x by (intro wr_Some) simp
  have "transfer_loop big src n x index dest = transfer_loop big src n (x + 1) (index + 1) (patch dest index [?c])"
    using x(1) 1 2 by (subst transfer_loop.simps) auto
  also have "\<dots> = Some (index + 1 + (n - (x + 1)), patch (patch dest index [?c]) (index + 1) (wide_chars big src (x + 1) n))"
    using Suc.prems x by (intro Suc.hyps(1)) (auto simp: patch_def min_def)
  also have "\<dots> = Some (index + (n - x), patch dest index (wide_chars big src x n))"
  proof -
    have "wide_chars big src x n = ?c # wide_chars big src (x + 1) n"
      using x(1) by (simp add: wide_chars_def upt_conv_Cons)
    moreover have "length (wide_chars big src (x + 1) n) = n - (x + 1)" by (simp add: wide_chars_def)
    ultimately show ?thesis using Suc.prems x by (simp add: patch_patch)
  qed
  finally show ?case .
qed

lemma unat_u16_pair: "unat (push_bit 8 (ucast (b :: u8)) OR ucast (a :: u8) :: u16) = unat b * 256 + unat a"
proof -
  have p: "unat (push_bit 8 (ucast b) :: u16) = unat b * 256"
    using unat_byte_bound [of b] by (subst unat_push_bit_small) simp_all
  then show ?thesis by (subst unat_or_plus [where k = 8]) simp_all
qed

lemma unat_ucast_u16 [simp]: "unat (ucast (w :: u16) :: u32) = unat w"
  using unsigned_less [of w, where 'a = nat] by (intro unat_ucast_small) simp

lemma wide_char_little: "unat (wide_char False a b) = unat b * 256 + unat a"
  by (simp add: wide_char_def unat_u16_pair)

lemma wide_char_big:
  assumes "\<not> (a = 0 \<and> b = 0)"
  shows "wide_char True a b = 1"
proof -
  let ?w = "push_bit 8 (ucast a) OR ucast b :: u16"
  have "unat ?w \<noteq> 0" using assms by (simp add: unat_u16_pair unat_eq_zero)
  moreover have "unat ?w < 2 ^ 16" using unsigned_less [of ?w, where 'a = nat] by simp
  then have "unat (push_bit 16 (ucast ?w :: u32)) = unat ?w * 65536"
    by (subst unat_push_bit_small) (simp_all add: unat_ucast_small)
  ultimately have "push_bit 16 (ucast ?w :: u32) \<noteq> 0" by (metis mult_is_0 unat_0 zero_neq_numeral)
  then show ?thesis by (simp add: wide_char_def Let_def)
qed

text \<open>
  UTF-16 text of \<open>n\<close> characters, none of them zero, into a buffer with room: little-endian text becomes
  its characters; big-endian text becomes \<open>n\<close> times the character 1, because its branch computes a logical
  conjunction where a mask is meant. Nothing outside the buffers is touched.
\<close>

theorem EightBitToWideChar_text:
  assumes "no_zero_char src n" "n \<le> length dest" "n < 2 ^ 31"
  shows "EightBitToWideCharBufferTransfer src (word_of_nat (2 * n)) 1 dest =
      Some (n, List.map (\<lambda>k. word_of_nat (unat (src ! (2 * k + 1)) * 256 + unat (src ! (2 * k)))) [0..<n] @ drop n dest) \<and>
    EightBitToWideCharBufferTransfer src (word_of_nat (2 * n)) 0 dest = Some (n, replicate n 1 @ drop n dest)"
proof -
  have "unat (word_of_nat (2 * n) :: u32) = 2 * n" by (rule unat_of_nat_small) (use assms(3) in simp)
  then have n: "unat (word_of_nat (2 * n) :: u32) div 2 = n" by simp
  have pt: "patch dest 0 ws = ws @ drop n dest" if "length ws = n" for ws :: "wchar list"
    using that by (simp add: patch_def)
  have "wide_chars False src 0 n = List.map (\<lambda>k. word_of_nat (unat (src ! (2 * k + 1)) * 256 + unat (src ! (2 * k)))) [0..<n]"
  proof -
    have "wide_char False a b = word_of_nat (unat b * 256 + unat a)" for a b
      unfolding wide_char_little [symmetric] by simp
    then show ?thesis by (simp add: wide_chars_def)
  qed
  moreover have "wide_chars True src 0 n = replicate n 1"
    using assms(1) by (auto simp: wide_chars_def no_zero_char_def wide_char_big list_eq_iff_nth_eq)
  moreover have "transfer_loop big src n 0 0 dest = Some (n, wide_chars big src 0 n @ drop n dest)" for big
    using transfer_loop_text [OF assms(1), of 0 0 dest big] assms(2) by (simp add: pt wide_chars_def)
  moreover have "((1 :: u32) = 0) = False" "((0 :: u32) = 0) = True" by simp_all
  ultimately show ?thesis unfolding EightBitToWideCharBufferTransfer_def n by simp
qed

theorem EightBitToWideChar_text_witness:
  "EightBitToWideCharBufferTransfer [0x60, 0x4F, 0x7D, 0x59] (word_of_nat (2 * 2)) 1 [9, 9, 9] =
     Some (2, [0x4F60, 0x597D, 9]) \<and>
   EightBitToWideCharBufferTransfer [0x60, 0x4F, 0x7D, 0x59] (word_of_nat (2 * 2)) 0 [9, 9, 9] = Some (2, [1, 1, 9])"
proof -
  have "no_zero_char [0x60, 0x4F, 0x7D, 0x59] 2" by (auto simp: no_zero_char_def less_2_cases_iff)
  moreover have "[0..<2] = [0, 1 :: nat]" by (simp add: upt_rec)
  moreover have "replicate 2 (1 :: wchar) = [1, 1]" "drop 2 [9, 9, 9 :: wchar] = [9]" by (simp_all add: numeral_2_eq_2)
  ultimately show ?thesis using EightBitToWideChar_text [of "[0x60, 0x4F, 0x7D, 0x59]" 2 "[9, 9, 9]"] by simp
qed

end
