(* ===== verification/Id3Frames.thy ===== *)
theory Id3Frames
  imports Id3Base
begin

text \<open>
  The frames of an ID3 tag (\<open>pvmi/pv_id3_parcom.cpp\<close>): texts, the track length, pictures, lyrics and
  comments are read from the file into key-value pairs. Each function gives its status and the new
  state; \<open>None\<close> is a read or store outside a buffer.
\<close>

section \<open>Texts\<close>

definition read_narrow :: "'f file_ops \<Rightarrow> (u32 \<Rightarrow> bool) \<Rightarrow> u8 list \<Rightarrow> u32 \<Rightarrow> 'f id3 \<Rightarrow> (pvmf_status \<times> 'f id3) option" where
  "read_narrow io heap keyStr aValueSize s =
     (case AllocateKvp heap keyStr CharKind (aValueSize + 1) False of
        None \<Rightarrow> Some (PVMFErrNoMemory, s)
      | Some (kvpPtr, truncated) \<Rightarrow>
          if truncated
          then let (_, s) = id3_seek io aValueSize SEEKCUR s
               in Some (PVMFSuccess, push_frame (kvpPtr\<lparr>kvp_length := 0\<rparr>) s)
          else do {
            let pChar = kvp_chars (kvp_value kvpPtr);
            (ok, bs, s) \<leftarrow> id3_readByteData io aValueSize (length pChar) s;
            if \<not> ok then Some (PVMFFailure, s)
            else do {
              let pChar = patch pChar 0 bs;
              valueLen \<leftarrow> oscl_strlen pChar;
              pChar \<leftarrow> wr pChar valueLen 0;
              Some (PVMFSuccess, push_frame (kvpPtr\<lparr>kvp_value := CharValue pChar, kvp_length := int valueLen + 1\<rparr>) s) } })"

definition read_wide ::
  "'f file_ops \<Rightarrow> (u32 \<Rightarrow> bool) \<Rightarrow> u8 list \<Rightarrow> u32 \<Rightarrow> u32 \<Rightarrow> 'f id3 \<Rightarrow> (pvmf_status \<times> 'f id3) option" where
  "read_wide io heap keyStr endianType aValueSize s =
     (if \<not> heap (aValueSize + 2) then Some (PVMFErrNoMemory, s)
      else case AllocateKvp heap keyStr WCharKind ((4 div 2) * (aValueSize + 2)) False of
        None \<Rightarrow> Some (PVMFErrNoMemory, s)
      | Some (kvpPtr, truncated) \<Rightarrow>
          if truncated
          then let (_, s) = id3_seek io aValueSize SEEKCUR s
               in Some (PVMFSuccess, push_frame (kvpPtr\<lparr>kvp_length := 0\<rparr>) s)
          else do {
            let ptrFrameData = replicate (unat (aValueSize + 2)) 0;
            (ok, bs, s) \<leftarrow> id3_readByteData io aValueSize (length ptrFrameData) s;
            if \<not> ok then Some (PVMFFailure, s)
            else do {
              ptrFrameData \<leftarrow> wr (patch ptrFrameData 0 bs) (unat aValueSize) 0;
              ptrFrameData \<leftarrow> wr ptrFrameData (unat (aValueSize + 1)) 0;
              (wcSize, w) \<leftarrow> EightBitToWideCharBufferTransfer ptrFrameData aValueSize endianType (kvp_wchars (kvp_value kvpPtr));
              w \<leftarrow> wr w wcSize 0;
              Some (PVMFSuccess, push_frame (kvpPtr\<lparr>kvp_value := WCharValue w, kvp_length := int wcSize\<rparr>) s) } })"

definition ReadStringValueFrame ::
  "'f file_ops \<Rightarrow> (u32 \<Rightarrow> bool) \<Rightarrow> id3_frame \<Rightarrow> id3_charset \<Rightarrow> u32 \<Rightarrow> 'f id3 \<Rightarrow> (pvmf_status \<times> 'f id3) option" where
  "ReadStringValueFrame io heap aFrameType aCharSet aValueSize s =
     (let (st, keyStr) = ConstructKvpKey s aFrameType aCharSet
      in if st \<noteq> PVMFSuccess then Some (PVMFErrNotSupported, s)
         else case aCharSet of
           PV_ID3_CHARSET_ISO88591 \<Rightarrow> read_narrow io heap keyStr aValueSize s
         | PV_ID3_CHARSET_UTF8 \<Rightarrow> read_narrow io heap keyStr aValueSize s
         | PV_ID3_CHARSET_UTF16 \<Rightarrow> read_wide io heap keyStr 1 aValueSize s
         | PV_ID3_CHARSET_UTF16BE \<Rightarrow> read_wide io heap keyStr 0 aValueSize s
         | PV_ID3_CHARSET_INVALID \<Rightarrow> Some (PVMFFailure, s))"

section \<open>The track length\<close>

text \<open>Wide text is read as UTF-16 in the order of the host, whatever its order is.\<close>

definition track_text :: "id3_charset \<Rightarrow> u32 \<Rightarrow> (u32 \<Rightarrow> bool) \<Rightarrow> u8 list \<Rightarrow> u8 list option option" where
  "track_text aCharSet aValueSize heap ptrFrameData =
     (if aCharSet = PV_ID3_CHARSET_UTF16 \<or> aCharSet = PV_ID3_CHARSET_UTF16BE
      then let len = unat aValueSize div 2 + 1
        in if \<not> heap (word_of_nat len) \<or> \<not> heap (word_of_nat (4 * len)) then None
           else do {
             tmpData2 \<leftarrow> ExpandWChar2BytesTo4Bytes (replicate len 0) ptrFrameData len;
             (_, tmpData) \<leftarrow> oscl_UnicodeToUTF8 tmpData2 (int (unat aValueSize div 2)) (replicate len 0) (int len);
             text \<leftarrow> oscl_strncpy tmpData len;
             Some (Some (patch ptrFrameData 0 text)) }
      else if aCharSet = PV_ID3_CHARSET_ISO88591 \<or> aCharSet = PV_ID3_CHARSET_UTF8 then Some (Some ptrFrameData)
      else Some None)"

text \<open>The length of the digits before a decimal point or comma, or nothing when there is another character.\<close>

function scan_number :: "u8 list \<Rightarrow> nat \<Rightarrow> nat \<Rightarrow> nat option" where
  "scan_number buf len i =
     (if i < len
      then let c = buf ! i
        in if \<not> (48 \<le> c \<and> c \<le> 57 \<or> c = 46 \<or> c = 44) then None
           else if c = 46 \<or> c = 44 then Some i
           else scan_number buf len (i + 1)
      else Some i)"
  by pat_completeness auto
termination by (relation "measure (\<lambda>(_, len, i). len - i)") auto

declare scan_number.simps [simp del]

definition ReadTrackLengthFrame ::
  "'f file_ops \<Rightarrow> (u32 \<Rightarrow> bool) \<Rightarrow> u32 \<Rightarrow> id3_charset \<Rightarrow> 'f id3 \<Rightarrow> (pvmf_status \<times> 'f id3) option" where
  "ReadTrackLengthFrame io heap aValueSize aCharSet s =
     (let (_, keyStr) = ConstructKvpKey s PV_ID3_FRAME_TRACK_LENGTH PV_ID3_CHARSET_INVALID
      in if \<not> heap (aValueSize + 2) then Some (PVMFErrNoMemory, s)
         else do {
           let ptrFrameData = replicate (unat (aValueSize + 2)) 0;
           (ok, bs, s) \<leftarrow> id3_readByteData io aValueSize (length ptrFrameData) s;
           if \<not> ok then Some (PVMFFailure, s)
           else do {
             ptrFrameData \<leftarrow> wr (patch ptrFrameData 0 bs) (unat aValueSize) 0;
             ptrFrameData \<leftarrow> wr ptrFrameData (unat (aValueSize + 1)) 0;
             text \<leftarrow> track_text aCharSet aValueSize heap ptrFrameData;
             case text of
               None \<Rightarrow> Some (PVMFFailure, s)
             | Some text \<Rightarrow> do {
                 numericStringLen \<leftarrow> oscl_strlen text;
                 (number, duration) \<leftarrow> PV_atoi text (CHR ''d'') numericStringLen;
                 case (if number then Some numericStringLen else scan_number text numericStringLen 0) of
                   None \<Rightarrow> Some (PVMFSuccess, s)
                 | Some numericStringLen \<Rightarrow>
                     case AllocateKvp heap keyStr Uint32Kind 1 False of
                       None \<Rightarrow> Some (PVMFErrNoMemory, s)
                     | Some (kvpPtr, _) \<Rightarrow>
                         Some (PVMFSuccess, push_frame (kvpPtr\<lparr>kvp_value := Uint32Value duration,
                           kvp_length := int numericStringLen\<rparr>) s) } } })"

section \<open>Terminated strings\<close>

text \<open>
  \<open>readNullTerminatedAsciiString\<close> always returns true (its failures return the status \<open>PVMFFailure\<close>, which
  is not zero): the string, unless a read failed. \<open>buf\<close> holds the bytes stored so far, of at most 256.
\<close>

function ascii_loop :: "'f file_ops \<Rightarrow> u8 list \<Rightarrow> 'f id3 \<Rightarrow> (u8 list option \<times> 'f id3) option" where
  "ascii_loop io buf s =
     (if 256 \<le> length buf then None
      else case id3_read8 io s of
        (False, _, s) \<Rightarrow> Some (None, s)
      | (True, b, s) \<Rightarrow> if b = 0 then Some (Some buf, s) else ascii_loop io (buf @ [b]) s)"
  by pat_completeness auto
termination by (relation "measure (\<lambda>(_, buf, _). 256 - length buf)") auto

declare ascii_loop.simps [simp del]

definition readNullTerminatedAsciiString :: "'f file_ops \<Rightarrow> u8 list \<Rightarrow> 'f id3 \<Rightarrow> (u8 list \<times> 'f id3) option" where
  "readNullTerminatedAsciiString io aData s = do {
     (r, s) \<leftarrow> ascii_loop io [] s;
     Some (case r of Some str \<Rightarrow> str | None \<Rightarrow> aData, s)
   }"

text \<open>Up to 256 bytes, until two zero bytes in a row: whether it ended before, and the bytes.\<close>

function unicode_loop :: "'f file_ops \<Rightarrow> u8 list \<Rightarrow> 'f id3 \<Rightarrow> bool option \<times> u8 list \<times> 'f id3" where
  "unicode_loop io buff s =
     (if length buff < 256
      then case id3_read8 io s of
        (False, _, s) \<Rightarrow> (None, buff, s)
      | (True, b, s) \<Rightarrow>
          if buff \<noteq> [] \<and> b = 0 \<and> last buff = 0 then (Some False, buff @ [b], s) else unicode_loop io (buff @ [b]) s
      else (Some True, buff, s))"
  by pat_completeness auto
termination by (relation "measure (\<lambda>(_, buff, _). 256 - length buff)") auto

declare unicode_loop.simps [simp del]

text \<open>The rest of a longer string; it ends because the file does.\<close>

partial_function (option) skip_rest :: "'f file_ops \<Rightarrow> 'f id3 \<Rightarrow> (bool \<times> 'f id3) option" where
  "skip_rest io s =
     (case id3_read16 io s of
        (ok, temp, s) \<Rightarrow> if \<not> ok then Some (False, s) else if temp = 0 then Some (True, s) else skip_rest io s)"

text \<open>
  \<open>readNullTerminatedUnicodeString\<close>: the status, the string, the size of the byte order mark. Anything but
  a little-endian mark makes the characters big endian.
\<close>

definition finish_unicode ::
  "(u32 \<Rightarrow> bool) \<Rightarrow> u8 list \<Rightarrow> u32 \<Rightarrow> wchar list \<Rightarrow> u32 \<Rightarrow> 'f id3 \<Rightarrow> (pvmf_status \<times> wchar list \<times> u32 \<times> 'f id3) option" where
  "finish_unicode heap buff endianType aData bomSz s =
     (if \<not> heap (4 * word_of_nat (length buff)) then Some (PVMFErrNoMemory, aData, bomSz, s)
      else do {
        (wcSize, tmpData) \<leftarrow> EightBitToWideCharBufferTransfer buff (word_of_nat (length buff)) endianType
          (replicate (length buff) 0);
        tmpData \<leftarrow> wr tmpData wcSize 0;
        Some (PVMFSuccess, takeWhile (\<lambda>c. c \<noteq> 0) tmpData, bomSz, s) })"

definition readNullTerminatedUnicodeString ::
  "'f file_ops \<Rightarrow> (u32 \<Rightarrow> bool) \<Rightarrow> wchar list \<Rightarrow> u32 \<Rightarrow> 'f id3 \<Rightarrow> (pvmf_status \<times> wchar list \<times> u32 \<times> 'f id3) option" where
  "readNullTerminatedUnicodeString io heap aData bomSz s =
     (case id3_read16 io s of
        (False, _, s) \<Rightarrow> Some (PVMFFailure, aData, bomSz, s)
      | (True, endianCheck, s) \<Rightarrow>
          let s = s\<lparr>iTextType := PV_ID3_CHARSET_UTF16\<rparr>
          in if endianCheck \<noteq> 0
             then let endianType = (if endianCheck = 0xFFFE then 1 else 0)
               in case unicode_loop io [] s of
                 (None, _, s) \<Rightarrow> Some (PVMFFailure, aData, 2, s)
               | (Some unended, buff, s) \<Rightarrow> do {
                   (ok, s) \<leftarrow> (if unended then skip_rest io s else Some (True, s));
                   if \<not> ok then Some (PVMFFailure, aData, 2, s)
                   else finish_unicode heap buff endianType aData 2 s }
             else finish_unicode heap [0, 0] 0 aData 0 s)"

section \<open>Pictures\<close>

text \<open>
  \<open>GetAlbumArtInfo\<close> in its two forms: when it succeeds, the image format, the type of the picture, its
  description and the length of its data. No form notices that reading a string has failed: the
  status is compared with \<open>false\<close>, or is the \<open>bool\<close> that is always true.
\<close>

definition image_format :: "'f file_ops \<Rightarrow> id3_frame \<Rightarrow> 'f id3 \<Rightarrow> (u8 list option \<times> 'f id3) option" where
  "image_format io aFrameType s =
     (if aFrameType = PV_ID3_FRAME_PIC
      then do {
        (ok, bs, s) \<leftarrow> id3_readByteData io 3 4 s;
        Some (if ok then Some (cstr (bs @ [0])) else None, s) }
      else do {
        (format, s) \<leftarrow> readNullTerminatedAsciiString io [] s;
        Some (Some format, s) })"

definition data_length ::
  "'f file_ops \<Rightarrow> id3_frame \<Rightarrow> u32 \<Rightarrow> u32 \<Rightarrow> u8 list \<Rightarrow> u32 \<Rightarrow> 'f id3 \<Rightarrow> u32 option \<times> 'f id3" where
  "data_length io aFrameType aFrameSize currentfilepos format desSize s =
     (let header = (if aFrameType = PV_ID3_FRAME_PIC then 5 else 2 + (word_of_nat (length format) + 1));
          aDataLen = aFrameSize - (header + desSize)
      in if aDataLen > aFrameSize then (None, snd (id3_seek io currentfilepos SEEKSET s)) else (Some aDataLen, s))"

definition GetAlbumArtInfo_narrow ::
  "'f file_ops \<Rightarrow> id3_frame \<Rightarrow> u32 \<Rightarrow> 'f id3 \<Rightarrow> ((u8 list \<times> u8 \<times> u8 list \<times> u32) option \<times> 'f id3) option" where
  "GetAlbumArtInfo_narrow io aFrameType aFrameSize s = do {
     (format, s) \<leftarrow> image_format io aFrameType s;
     case format of
       None \<Rightarrow> Some (None, s)
     | Some format \<Rightarrow>
         (case id3_read8 io s of
            (False, _, s) \<Rightarrow> Some (None, s)
          | (True, aPicType, s) \<Rightarrow> do {
              let currentfilepos = id3_tell io s;
              (aDescription, s) \<leftarrow> readNullTerminatedAsciiString io [] s;
              case data_length io aFrameType aFrameSize currentfilepos format
                (word_of_nat (length aDescription) + 1) s of
                (None, s) \<Rightarrow> Some (None, s)
              | (Some aDataLen, s) \<Rightarrow> Some (Some (format, aPicType, aDescription, aDataLen), s) })
   }"

definition GetAlbumArtInfo_wide ::
  "'f file_ops \<Rightarrow> (u32 \<Rightarrow> bool) \<Rightarrow> id3_frame \<Rightarrow> u32 \<Rightarrow> 'f id3 \<Rightarrow> ((u8 list \<times> u8 \<times> wchar list \<times> u32) option \<times> 'f id3) option" where
  "GetAlbumArtInfo_wide io heap aFrameType aFrameSize s = do {
     (format, s) \<leftarrow> image_format io aFrameType s;
     case format of
       None \<Rightarrow> Some (None, s)
     | Some format \<Rightarrow>
         (case id3_read8 io s of
            (False, _, s) \<Rightarrow> Some (None, s)
          | (True, aPicType, s) \<Rightarrow> do {
              let currentfilepos = id3_tell io s;
              (_, aDescription, bomSz, s) \<leftarrow> readNullTerminatedUnicodeString io heap [] 0 s;
              case data_length io aFrameType aFrameSize currentfilepos format
                (2 * word_of_nat (length aDescription) + bomSz + 4 * 1) s of
                (None, s) \<Rightarrow> Some (None, s)
              | (Some aDataLen, s) \<Rightarrow> Some (Some (format, aPicType, aDescription, aDataLen), s) })
   }"

text \<open>
  The structure of a picture in a block of \<open>total_size\<close> bytes: the MIME type, the description and what is
  left for the data, which is nothing when the code finds the block too small.
\<close>

definition apic_layout :: "u32 \<Rightarrow> u32 \<Rightarrow> u32 \<Rightarrow> nat option" where
  "apic_layout mime_string_size description_size total_size =
     (let used1 = 24; used2 = used1 + 4 * mime_string_size; used3 = used2 + 4 * description_size
      in if used1 > total_size \<or> used2 > total_size \<or> used3 > total_size then None
         else Some (unat (total_size - used3)))"

definition ConvertAsciiDataToApic ::
  "u8 list \<Rightarrow> u8 list \<Rightarrow> u8 \<Rightarrow> u32 \<Rightarrow> u32 \<Rightarrow> (kvp_value \<times> nat) option" where
  "ConvertAsciiDataToApic aMimeTypeID3 aDescriptionID3 aGraphicType aGraphicDataLen total_size =
     (let mime_string_size = length aMimeTypeID3 + 1; description_size = length aDescriptionID3 + 1
      in case apic_layout (word_of_nat mime_string_size) (word_of_nat description_size) total_size of
        None \<Rightarrow> Some (NoValue, 0)
      | Some room \<Rightarrow> do {
          (_, descr) \<leftarrow> oscl_UTF8ToUnicode (aDescriptionID3 @ [0]) (int description_size)
            (replicate description_size 0) (int description_size);
          (_, mime) \<leftarrow> oscl_UTF8ToUnicode (aMimeTypeID3 @ [0]) (int mime_string_size)
            (replicate mime_string_size 0) (int mime_string_size);
          Some (Apic aGraphicType mime descr [] aGraphicDataLen, room) })"

definition ConvertUnicodeDataToApic ::
  "u8 list \<Rightarrow> wchar list \<Rightarrow> u8 \<Rightarrow> u32 \<Rightarrow> u32 \<Rightarrow> (kvp_value \<times> nat) option" where
  "ConvertUnicodeDataToApic aMimeTypeID3 aDescriptionID3 aGraphicType aGraphicDataLen total_size =
     (let mime_string_size = length aMimeTypeID3 + 1; description_size = length aDescriptionID3 + 1
      in case apic_layout (word_of_nat mime_string_size) (word_of_nat description_size) total_size of
        None \<Rightarrow> Some (NoValue, 0)
      | Some room \<Rightarrow> do {
          (_, mime) \<leftarrow> oscl_UTF8ToUnicode (aMimeTypeID3 @ [0]) (int mime_string_size - 1)
            (replicate mime_string_size 0) (int mime_string_size);
          descr \<leftarrow> oscl_strncpy (aDescriptionID3 @ [0]) description_size;
          if room < 4 then None
          else Some (Apic aGraphicType mime descr [] aGraphicDataLen, room) })"

text \<open>The end of \<open>ReadAlbumArtFrame\<close>: the picture, or the text of a link.\<close>

definition read_link :: "'f file_ops \<Rightarrow> (u32 \<Rightarrow> bool) \<Rightarrow> u8 list \<Rightarrow> u32 \<Rightarrow> 'f id3 \<Rightarrow> (pvmf_status \<times> 'f id3) option" where
  "read_link io heap keyStr dataLen s =
     (case AllocateKvp heap (keyStr @ lit ''valtype=char*'') CharKind dataLen False of
        None \<Rightarrow> Some (PVMFFailure, s)
      | Some (kvpPtr, truncated) \<Rightarrow>
          if truncated
          then let (_, s) = id3_seek io dataLen SEEKCUR s
               in Some (PVMFSuccess, push_frame (kvpPtr\<lparr>kvp_length := 0\<rparr>) s)
          else do {
            let pChar = kvp_chars (kvp_value kvpPtr);
            (ok, bs, s) \<leftarrow> id3_readByteData io dataLen (length pChar) s;
            if \<not> ok then Some (PVMFFailure, s)
            else do {
              pChar \<leftarrow> wr (patch pChar 0 bs) (unat dataLen) 0;
              Some (PVMFSuccess, push_frame (kvpPtr\<lparr>kvp_value := CharValue pChar, kvp_length := sint dataLen\<rparr>) s) } })"

definition read_picture ::
  "'f file_ops \<Rightarrow> (u32 \<Rightarrow> bool) \<Rightarrow> u8 list \<Rightarrow> u32 \<Rightarrow> u32 \<Rightarrow> (kvp_value \<times> nat) option \<Rightarrow> 'f id3 \<Rightarrow> (pvmf_status \<times> 'f id3) option" where
  "read_picture io heap keyStr total_size dataLen apic s =
     (case AllocateKvp heap (keyStr @ lit ''format=APIC;valtype=ksv'') KsvKind total_size False of
        None \<Rightarrow> Some (PVMFFailure, s)
      | Some (kvpPtr, truncated) \<Rightarrow>
          if truncated
          then let (_, s) = id3_seek io dataLen SEEKCUR s
               in Some (PVMFSuccess, push_frame (kvpPtr\<lparr>kvp_capacity := 0, kvp_length := 0\<rparr>) s)
          else do {
            (struct, room) \<leftarrow> apic;
            (ok, bs, s) \<leftarrow> id3_readByteData io dataLen room s;
            if \<not> ok then Some (PVMFFailure, s)
            else Some (PVMFSuccess, push_frame (kvpPtr\<lparr>kvp_value := (case struct of
                Apic t mime descr _ n \<Rightarrow> Apic t mime descr (bs @ replicate (room - length bs) 0) n | v \<Rightarrow> v),
              kvp_capacity := total_size, kvp_length := sint total_size\<rparr>) s) })"

definition ReadAlbumArtFrame ::
  "'f file_ops \<Rightarrow> (u32 \<Rightarrow> bool) \<Rightarrow> id3_frame \<Rightarrow> u8 \<Rightarrow> u32 \<Rightarrow> 'f id3 \<Rightarrow> (pvmf_status \<times> 'f id3) option" where
  "ReadAlbumArtFrame io heap aFrameType unicode aFrameSize s =
     (let (_, keyStr) = ConstructKvpKey s PV_ID3_FRAME_APIC PV_ID3_CHARSET_INVALID
      in if unicode = 0 \<or> unicode = 3
         then do {
           (info, s) \<leftarrow> GetAlbumArtInfo_narrow io aFrameType aFrameSize s;
           case info of
             None \<Rightarrow> Some (PVMFFailure, s)
           | Some (format, picType, description, dataLen) \<Rightarrow>
               if format = lit ''-->'' then read_link io heap keyStr dataLen s
               else let n = word_of_nat (length format) + word_of_nat (length description);
                        total_size = 24 + (aFrameSize - n) + 4 * n + 2 * 4
                    in read_picture io heap keyStr total_size dataLen
                         (ConvertAsciiDataToApic format description picType dataLen total_size) s }
         else if unicode = 1 \<or> unicode = 2
         then do {
           (info, s) \<leftarrow> GetAlbumArtInfo_wide io heap aFrameType aFrameSize s;
           case info of
             None \<Rightarrow> Some (PVMFFailure, s)
           | Some (format, picType, description, dataLen) \<Rightarrow>
               if format = lit ''-->'' then read_link io heap keyStr dataLen s
               else let f = word_of_nat (length format); n = word_of_nat (length description);
                        total_size = 24 + (aFrameSize - (f + 2 * n)) + 4 * (f + n) + 2 * 4
                    in read_picture io heap keyStr total_size dataLen
                         (ConvertUnicodeDataToApic format description picType dataLen total_size) s }
         else Some (PVMFFailure, s))"

section \<open>Lyrics and comments\<close>

text \<open>A conversion into the block of a pair, from the index \<open>off\<close> of its wide characters on.\<close>

definition into_block :: "wchar list \<Rightarrow> nat \<Rightarrow> (wchar list \<Rightarrow> ('n \<times> wchar list) option) \<Rightarrow> ('n \<times> wchar list) option" where
  "into_block block off conv =
     (if length block < off then None else do { (n, w) \<leftarrow> conv (drop off block); Some (n, take off block @ w) })"

text \<open>
  The text behind the description, with \<open>framesize\<close> bytes of it; \<open>used_size\<close> counts bytes. The status is
  nothing where the code goes on to store the pair.
\<close>

definition lyrics_narrow ::
  "'f file_ops \<Rightarrow> (u32 \<Rightarrow> bool) \<Rightarrow> u32 \<Rightarrow> u32 \<Rightarrow> u32 \<Rightarrow> wchar list \<Rightarrow> 'f id3 \<Rightarrow>
     (pvmf_status option \<times> kvp_value \<times> 'f id3) option" where
  "lyrics_narrow io heap aFramesize framesize total_size block s = do {
     (descriptor, s) \<leftarrow> readNullTerminatedAsciiString io [] s;
     let desc_sz = length descriptor;
     let framesize = framesize - word_of_nat desc_sz - 1;
     if framesize > aFramesize \<or> framesize = 0 then Some (None, LyricsComm None None block, s)
     else if 12 + 4 * (word_of_nat desc_sz + 1) > total_size then Some (Some PVMFErrOverflow, NoValue, s)
     else do {
       block \<leftarrow> (if desc_sz > 0
         then do {
           (_, block) \<leftarrow> oscl_UTF8ToUnicode descriptor (int desc_sz) block (int desc_sz + 1);
           wr block (desc_sz + 1) 0 }
         else wr block desc_sz 0);
       let datasz = framesize + 1;
       if \<not> heap datasz
       then let (_, s) = id3_seek io framesize SEEKCUR s in Some (None, LyricsComm (Some 0) None block, s)
       else do {
         (ok, bs, s) \<leftarrow> id3_readByteData io framesize (unat datasz) s;
         if \<not> ok then Some (Some PVMFFailure, NoValue, s)
         else if 12 + 4 * (word_of_nat desc_sz + 1) + datasz > total_size then Some (Some PVMFErrOverflow, NoValue, s)
         else do {
           (_, block) \<leftarrow> into_block block (desc_sz + 1)
             (\<lambda>w. oscl_UTF8ToUnicode bs (int (unat framesize)) w (int (unat datasz)));
           block \<leftarrow> wr block (desc_sz + 1 + unat datasz) 0;
           Some (None, LyricsComm (Some 0) (Some (desc_sz + 1)) block, s) } } }
   }"

definition lyrics_text ::
  "'f file_ops \<Rightarrow> (u32 \<Rightarrow> bool) \<Rightarrow> u32 \<Rightarrow> u32 \<Rightarrow> u32 \<Rightarrow> u32 \<Rightarrow> nat \<Rightarrow> wchar list \<Rightarrow> 'f id3 \<Rightarrow>
     (pvmf_status option \<times> kvp_value \<times> 'f id3) option" where
  "lyrics_text io heap aFramesize framesize used_size total_size desc_len block s =
     (case id3_read16 io s of
        (False, _, s) \<Rightarrow> Some (Some PVMFFailure, NoValue, s)
      | (True, endianCheck, s) \<Rightarrow>
          let s = s\<lparr>iTextType := PV_ID3_CHARSET_UTF16\<rparr>;
              endianType = (if endianCheck = 0xFFFE then 1 else 0);
              framesize = framesize - 2
          in if framesize > aFramesize \<or> framesize = 0 then Some (None, LyricsComm None None block, s)
             else if \<not> heap (framesize + 2) then Some (None, LyricsComm (Some 0) None block, s)
             else do {
               let data = replicate (unat (framesize + 2)) 0;
               (ok, bs, s) \<leftarrow> id3_readByteData io framesize (length data) s;
               if \<not> ok then Some (Some PVMFFailure, NoValue, s)
               else if used_size + 4 * (framesize div 2) > total_size then Some (Some PVMFErrOverflow, NoValue, s)
               else do {
                 (sz, block) \<leftarrow> into_block block (desc_len + 1)
                   (\<lambda>w. EightBitToWideCharBufferTransfer (patch data 0 bs) framesize endianType w);
                 block \<leftarrow> wr block (desc_len + 1 + sz) 0;
                 Some (None, LyricsComm (Some 0) (Some (desc_len + 1)) block, s) } })"

definition lyrics_wide ::
  "'f file_ops \<Rightarrow> (u32 \<Rightarrow> bool) \<Rightarrow> u32 \<Rightarrow> u32 \<Rightarrow> u32 \<Rightarrow> wchar list \<Rightarrow> 'f id3 \<Rightarrow>
     (pvmf_status option \<times> kvp_value \<times> 'f id3) option" where
  "lyrics_wide io heap aFramesize framesize total_size block s = do {
     (_, description, bomSize, s) \<leftarrow> readNullTerminatedUnicodeString io heap [] 0 s;
     let desc_len = length description;
     let framesize = framesize - 2 * word_of_nat desc_len - 2 - bomSize;
     if framesize > aFramesize \<or> framesize = 0 then Some (None, LyricsComm None None block, s)
     else do {
       let used_size = 12 + 4 * (word_of_nat desc_len + 1);
       if used_size > total_size then Some (Some PVMFErrOverflow, NoValue, s)
       else do {
         block \<leftarrow> (if desc_len > 0
           then do {
             (_, block) \<leftarrow> into_block block 0 (\<lambda>w. if length w < desc_len then None
               else do { d \<leftarrow> oscl_strncpy (description @ [0]) desc_len; Some ((), patch w 0 d) });
             wr block (desc_len + 1) 0 }
           else wr block desc_len 0);
         lyrics_text io heap aFramesize framesize used_size total_size desc_len block s } }
   }"

definition id3_charset_of :: "u8 \<Rightarrow> id3_charset" where
  "id3_charset_of b =
     (if b = 0 then PV_ID3_CHARSET_ISO88591 else if b = 1 then PV_ID3_CHARSET_UTF16
      else if b = 2 then PV_ID3_CHARSET_UTF16BE else if b = 3 then PV_ID3_CHARSET_UTF8 else PV_ID3_CHARSET_INVALID)"

definition read_lyrics ::
  "'f file_ops \<Rightarrow> (u32 \<Rightarrow> bool) \<Rightarrow> u8 list \<Rightarrow> u8 \<Rightarrow> u32 \<Rightarrow> u32 \<Rightarrow> 'f id3 \<Rightarrow> (pvmf_status \<times> 'f id3) option" where
  "read_lyrics io heap keyStr unicodeCheck aFramesize framesize s =
     (let total_size = 4 * framesize + 12 + 2 * 4
      in case AllocateKvp heap keyStr KsvKind total_size False of
        None \<Rightarrow> Some (PVMFFailure, s)
      | Some (kvpPtr, truncated) \<Rightarrow>
          if truncated
          then let (_, s) = id3_seek io framesize SEEKCUR s
               in Some (PVMFSuccess, push_frame (kvpPtr\<lparr>kvp_capacity := 0, kvp_length := 0\<rparr>) s)
          else do {
            let block = lc_mem (kvp_value kvpPtr);
            (st, struct, s) \<leftarrow>
              (if unicodeCheck = 0 \<or> unicodeCheck = 3 then lyrics_narrow io heap aFramesize framesize total_size block s
               else if unicodeCheck = 1 \<or> unicodeCheck = 2 then lyrics_wide io heap aFramesize framesize total_size block s
               else Some (Some PVMFFailure, NoValue, s));
            case st of
              Some status \<Rightarrow> Some (status, s)
            | None \<Rightarrow> Some (PVMFSuccess, push_frame (kvpPtr\<lparr>kvp_value := struct,
                kvp_capacity := (aFramesize - 3) + 12, kvp_length := sint ((aFramesize - 3) + 12)\<rparr>) s) })"

definition ReadLyricsCommFrame ::
  "'f file_ops \<Rightarrow> (u32 \<Rightarrow> bool) \<Rightarrow> u8 \<Rightarrow> u32 \<Rightarrow> id3_frame \<Rightarrow> 'f id3 \<Rightarrow> (pvmf_status \<times> 'f id3) option" where
  "ReadLyricsCommFrame io heap unicodeCheck aFramesize aFrameType s = do {
     (ok, bs, s) \<leftarrow> id3_readByteData io 3 4 s;
     let s = s\<lparr>iID3V2LanguageID := patch (iID3V2LanguageID s) 0 bs\<rparr>;
     if \<not> ok then Some (PVMFFailure, s)
     else do {
       let s = s\<lparr>iID3V2LanguageID := patch (iID3V2LanguageID s) 3 [0]\<rparr>;
       let framesize = aFramesize - 3;
       if framesize = 0 \<or> framesize > aFramesize then Some (PVMFFailure, s)
       else let (st, keyStr) = ConstructKvpKey s aFrameType (id3_charset_of unicodeCheck)
         in if st \<noteq> PVMFSuccess then Some (PVMFErrNotSupported, s)
            else read_lyrics io heap keyStr unicodeCheck aFramesize framesize s }
   }"

section \<open>Frame data\<close>

definition is_text_frame :: "id3_frame \<Rightarrow> bool" where
  "is_text_frame t \<longleftrightarrow> t \<in> {PV_ID3_FRAME_TITLE, PV_ID3_FRAME_ARTIST, PV_ID3_FRAME_ALBUM, PV_ID3_FRAME_YEAR,
     PV_ID3_FRAME_TRACK_NUMBER, PV_ID3_FRAME_GENRE, PV_ID3_FRAME_COPYRIGHT, PV_ID3_FRAME_DATE,
     PV_ID3_FRAME_RECORDING_TIME, PV_ID3_FRAME_AUTHOR, PV_ID3_FRAME_COMPOSER, PV_ID3_FRAME_DESCRIPTION,
     PV_ID3_FRAME_VERSION, PV_ID3_FRAME_PART_OF_SET}"

definition note_read :: "id3_frame \<Rightarrow> 'f id3 \<Rightarrow> 'f id3" where
  "note_read t s =
     (case t of
        PV_ID3_FRAME_TITLE \<Rightarrow> s\<lparr>iTitleFoundFlag := True\<rparr>
      | PV_ID3_FRAME_ARTIST \<Rightarrow> s\<lparr>iArtistFoundFlag := True\<rparr>
      | PV_ID3_FRAME_ALBUM \<Rightarrow> s\<lparr>iAlbumFoundFlag := True\<rparr>
      | PV_ID3_FRAME_YEAR \<Rightarrow> s\<lparr>iYearFoundFlag := True\<rparr>
      | PV_ID3_FRAME_TRACK_NUMBER \<Rightarrow> s\<lparr>iTrackNumberFoundFlag := True\<rparr>
      | PV_ID3_FRAME_GENRE \<Rightarrow> s\<lparr>iGenereFoundFlag := True\<rparr>
      | _ \<Rightarrow> s)"

text \<open>What the three handlers share: they differ in the character set.\<close>

definition handle_frame ::
  "'f file_ops \<Rightarrow> (u32 \<Rightarrow> bool) \<Rightarrow> id3_charset \<Rightarrow> id3_frame \<Rightarrow> u32 \<Rightarrow> u32 \<Rightarrow> 'f id3 \<Rightarrow> 'f id3 exit option" where
  "handle_frame io heap charSet aFrameType aPos aSize s =
     (case id3_seek io aPos SEEKSET s of
        (True, _) \<Rightarrow> Some Leave
      | (False, s) \<Rightarrow>
          if aFrameType = PV_ID3_FRAME_TRACK_LENGTH
          then do {
            (status, s) \<leftarrow> ReadTrackLengthFrame io heap aSize charSet s;
            Some (if status \<noteq> PVMFSuccess then Leave else Return s) }
          else if is_text_frame aFrameType
          then do {
            (status, s) \<leftarrow> ReadStringValueFrame io heap aFrameType charSet aSize s;
            Some (if status \<noteq> PVMFSuccess then Leave else Return (note_read aFrameType s)) }
          else Some (Return s))"

definition HandleID3V2FrameDataASCII ::
  "'f file_ops \<Rightarrow> (u32 \<Rightarrow> bool) \<Rightarrow> id3_frame \<Rightarrow> u32 \<Rightarrow> u32 \<Rightarrow> 'f id3 \<Rightarrow> 'f id3 exit option" where
  "HandleID3V2FrameDataASCII io heap = handle_frame io heap PV_ID3_CHARSET_ISO88591"

definition HandleID3V2FrameDataUTF8 ::
  "'f file_ops \<Rightarrow> (u32 \<Rightarrow> bool) \<Rightarrow> id3_frame \<Rightarrow> u32 \<Rightarrow> u32 \<Rightarrow> 'f id3 \<Rightarrow> 'f id3 exit option" where
  "HandleID3V2FrameDataUTF8 io heap = handle_frame io heap PV_ID3_CHARSET_UTF8"

definition HandleID3V2FrameDataUnicode16 ::
  "'f file_ops \<Rightarrow> (u32 \<Rightarrow> bool) \<Rightarrow> id3_frame \<Rightarrow> u32 \<Rightarrow> u32 \<Rightarrow> u32 \<Rightarrow> 'f id3 \<Rightarrow> 'f id3 exit option" where
  "HandleID3V2FrameDataUnicode16 io heap aFrameType aPos aSize aEndianType =
     handle_frame io heap (if aEndianType = 0 then PV_ID3_CHARSET_UTF16BE else PV_ID3_CHARSET_UTF16)
       aFrameType aPos aSize"

text \<open>\<open>ReadFrameData\<close>: whether it returns true.\<close>

definition ReadFrameData ::
  "'f file_ops \<Rightarrow> (u32 \<Rightarrow> bool) \<Rightarrow> u8 \<Rightarrow> id3_frame \<Rightarrow> u32 \<Rightarrow> u32 \<Rightarrow> 'f id3 \<Rightarrow> (bool \<times> 'f id3) exit option" where
  "ReadFrameData io heap unicodeCheck frameType pos currFrameLength s =
     (if unicodeCheck = 0
      then do {
        r \<leftarrow> HandleID3V2FrameDataASCII io heap frameType pos (currFrameLength - 1)
          (s\<lparr>iTextType := PV_ID3_CHARSET_ISO88591\<rparr>);
        on_return r (\<lambda>s. Some (Return (True, s))) }
      else if unicodeCheck = 1
      then case id3_read16 io s of
        (False, _, s) \<Rightarrow> Some (Return (False, s))
      | (True, endianCheck, s) \<Rightarrow>
          let s = s\<lparr>iTextType := PV_ID3_CHARSET_UTF16\<rparr>
          in if endianCheck \<noteq> 0xFFFE \<and> endianCheck \<noteq> 0xFEFF then Some (Return (False, s))
             else do {
               r \<leftarrow> HandleID3V2FrameDataUnicode16 io heap frameType (pos + 2) (currFrameLength - 3)
                 (if endianCheck = 0xFFFE then 1 else 0) s;
               on_return r (\<lambda>s. Some (Return (True, s))) }
      else if unicodeCheck = 2
      then do {
        r \<leftarrow> HandleID3V2FrameDataUnicode16 io heap frameType pos (currFrameLength - 1) 0
          (s\<lparr>iTextType := PV_ID3_CHARSET_UTF16BE\<rparr>);
        on_return r (\<lambda>s. Some (Return (True, s))) }
      else if unicodeCheck = 3
      then do {
        r \<leftarrow> HandleID3V2FrameDataUTF8 io heap frameType pos (currFrameLength - 1) (s\<lparr>iTextType := PV_ID3_CHARSET_UTF8\<rparr>);
        on_return r (\<lambda>s. Some (Return (True, s))) }
      else Some (Return (True, s)))"

end
