(* ===== verification/Id3Tag.thy ===== *)
theory Id3Tag
  imports Id3Frames
begin

text \<open>
  The ID3 tags of a file (\<open>pvmi/pv_id3_parcom.cpp\<close>): finding them at the beginning or the end, the header,
  the loop over the frames, the tag of version 1, and the entry points \<open>ParseID3Tag\<close>, \<open>IsID3V2Present\<close>
  and \<open>GetID3TagSize\<close>. A member function that can leave gives an \<open>exit\<close>. \<open>bo\<close> is the byte order the code
  was compiled for.
\<close>

section \<open>Finding the tags\<close>

definition CheckForTagID3V1 :: "'f file_ops \<Rightarrow> 'f id3 \<Rightarrow> (bool \<times> 'f id3) option" where
  "CheckForTagID3V1 io s =
     (if iFileSizeInBytes s \<ge> 128
      then let nBytes = word_of_int (iFileSizeInBytes s - 128)
        in case id3_seek io nBytes SEEKSET s of
          (True, s) \<Rightarrow> Some (False, s)
        | (False, s) \<Rightarrow> do {
            (ok, bs, s) \<leftarrow> id3_readByteData io 3 4 s;
            Some (if ok \<and> bs = lit ''TAG'' then (True, s\<lparr>iID3V1Present := True\<rparr>) else (False, s)) }
      else Some (False, s))"

definition CheckForTagID3V2 :: "'f file_ops \<Rightarrow> 'f id3 \<Rightarrow> (bool \<times> 'f id3) option" where
  "CheckForTagID3V2 io s = do {
     (ok, bs, s) \<leftarrow> id3_readByteData io 3 11 s;
     Some (if ok \<and> bs = lit ''ID3'' then (True, s\<lparr>iTagAtBof := True, iID3V2Present := True\<rparr>) else (False, s))
   }"

text \<open>The search for a footer; the comparison stops at the first byte that differs.\<close>

definition is_footer :: "u8 list \<Rightarrow> nat \<Rightarrow> bool option" where
  "is_footer buff i = do {
     a \<leftarrow> rd buff i;
     if a \<noteq> 51 then Some False
     else do {
       b \<leftarrow> rd buff (i + 1);
       if b \<noteq> 68 then Some False
       else do { c \<leftarrow> rd buff (i + 2); Some (c = 73) } }
   }"

fun find_footer :: "u8 list \<Rightarrow> nat list \<Rightarrow> nat option option" where
  "find_footer buff [] = Some None"
| "find_footer buff (i # is) = do { hit \<leftarrow> is_footer buff i; if hit then Some (Some i) else find_footer buff is }"

definition SearchTagV2_4 ::
  "'f file_ops \<Rightarrow> (u32 \<Rightarrow> bool) \<Rightarrow> u32 \<Rightarrow> u32 \<Rightarrow> 'f id3 \<Rightarrow> (u32 \<times> 'f id3) option" where
  "SearchTagV2_4 io heap aBuffSz aFileOffset s =
     (if iFileSizeInBytes s = 0 \<or> \<not> heap aBuffSz then Some (0, s)
      else let sz = iFileSizeInBytes s;
               num_bytes_read = aBuffSz + aFileOffset;
               remaining_bytes = (if sint num_bytes_read > sz
                 then sint (word_of_int sz - (num_bytes_read - aBuffSz)) else 0)
        in if remaining_bytes > 0
           then case id3_seek io 0 SEEKSET s of
             (True, s) \<Rightarrow> Some (0, s)
           | (False, s) \<Rightarrow> do {
               (ok, bs, s) \<leftarrow> id3_readByteData io (word_of_int remaining_bytes) (unat aBuffSz) s;
               if \<not> ok then Some (0, s)
               else do {
                 hit \<leftarrow> find_footer bs [0..<nat remaining_bytes];
                 Some (case hit of Some i \<Rightarrow> word_of_nat i | None \<Rightarrow> 0, s) } }
           else case id3_seek io (word_of_int sz - (aFileOffset + aBuffSz)) SEEKSET s of
             (True, s) \<Rightarrow> Some (0, s)
           | (False, s) \<Rightarrow> do {
               (ok, bs, s) \<leftarrow> id3_readByteData io aBuffSz (unat aBuffSz) s;
               if \<not> ok then Some (0, s)
               else do {
                 hit \<leftarrow> find_footer bs [0..<unat aBuffSz];
                 Some (case hit of
                   Some i \<Rightarrow> word_of_int sz - ((aFileOffset + aBuffSz) - word_of_nat i) | None \<Rightarrow> 0, s) } })"

text \<open>\<open>LookForV2_4Footer\<close>: whether its status is success.\<close>

definition LookForV2_4Footer ::
  "byte_order \<Rightarrow> 'f file_ops \<Rightarrow> (u32 \<Rightarrow> bool) \<Rightarrow> u32 \<Rightarrow> u32 \<Rightarrow> 'f id3 \<Rightarrow> (bool \<times> 'f id3) option" where
  "LookForV2_4Footer bo io heap aBuffSz aFileOffset s =
     (if iTagAtBof s then Some (False, s)
      else do {
        (footer_location, s) \<leftarrow> SearchTagV2_4 io heap aBuffSz aFileOffset s;
        if footer_location = 0 then Some (False, s)
        else case id3_seek io (footer_location + 3 + 2 + 1) SEEKSET s of
          (True, s) \<Rightarrow> Some (False, s)
        | (False, s) \<Rightarrow>
            (case id3_read32 io s of
               (False, _, s) \<Rightarrow> Some (False, s)
             | (True, sz, s) \<Rightarrow>
                 let tag_size = SafeSynchIntToInt32 bo sz;
                     (failed, s) = id3_seek io (- (tag_size + 10 + (10 - 3))) SEEKCUR s
                 in Some (\<not> failed, s)) })"

section \<open>Frame headers\<close>

text \<open>
  \<open>ValidateFrameV2_4\<close>: whether a frame header is at the position of the file, and the type of its frame.
\<close>

definition ValidateFrameV2_4 ::
  "byte_order \<Rightarrow> 'f file_ops \<Rightarrow> bool \<Rightarrow> 'f id3 \<Rightarrow> (bool \<times> id3_frame \<times> 'f id3) option" where
  "ValidateFrameV2_4 bo io bUseSyncSafeFrameSize s = do {
     (ok, frameid, s) \<leftarrow> id3_readByteData io 4 5 s;
     if \<not> ok then Some (False, PV_ID3_FRAME_INVALID, s)
     else let (frameType, s) = FrameSupportedID3V2 PV_ID3_V2_4 (Some frameid) s
       in if frameType = PV_ID3_FRAME_INVALID \<or> frameType = PV_ID3_FRAME_EEND then Some (False, frameType, s)
          else case id3_read32 io s of
            (False, _, s) \<Rightarrow> Some (False, frameType, s)
          | (True, frame_size, s) \<Rightarrow> do {
              let frame_size = (if bUseSyncSafeFrameSize then SafeSynchIntToInt32 bo frame_size else frame_size);
              (ok, frameflags, s) \<leftarrow> id3_readByteData io 2 2 s;
              Some (ok \<and> \<not> ((frame_size = 0 \<or> frame_size + 10 > iID3V2TagSize s) \<or>
                frameflags ! 0 AND 31 \<noteq> 0 \<or> frameflags ! 1 AND 31 \<noteq> 0), frameType, s) }
   }"

text \<open>\<open>ValidateFrameLengthV2_4\<close>: the choice between the two readings of a frame size.\<close>

definition choose_length :: "bool \<Rightarrow> id3_frame \<Rightarrow> bool \<Rightarrow> id3_frame \<Rightarrow> u32 \<Rightarrow> u32 \<Rightarrow> u32" where
  "choose_length sync sync_type non non_type sync_size non_size =
     (if sync \<and> sync_type \<noteq> PV_ID3_FRAME_CANDIDATE then sync_size
      else if non \<and> non_type \<noteq> PV_ID3_FRAME_CANDIDATE then non_size
      else if \<not> sync \<and> non then non_size
      else sync_size)"

definition ValidateFrameLengthV2_4 :: "byte_order \<Rightarrow> 'f file_ops \<Rightarrow> u32 \<Rightarrow> 'f id3 \<Rightarrow> (u32 \<times> 'f id3) exit option" where
  "ValidateFrameLengthV2_4 bo io aFrameSize s = do {
     let currFilePos = id3_tell io s;
     let syncsafe = SafeSynchIntToInt32 bo aFrameSize;
     r \<leftarrow> (case id3_seek io syncsafe SEEKCUR s of
        (True, s) \<Rightarrow> Some (Return (syncsafe, s))
      | (False, s) \<Rightarrow> do {
          (sync, sync_type, s) \<leftarrow> ValidateFrameV2_4 bo io True s;
          if aFrameSize + 10 > iID3V2TagSize s then Some (Return (syncsafe, s))
          else case id3_seek io currFilePos SEEKSET s of
            (True, _) \<Rightarrow> Some Leave
          | (False, s) \<Rightarrow>
              (case id3_seek io aFrameSize SEEKCUR s of
                 (True, s) \<Rightarrow> Some (Return (syncsafe, s))
               | (False, s) \<Rightarrow> do {
                   (non, non_type, s) \<leftarrow> ValidateFrameV2_4 bo io False s;
                   Some (Return (choose_length sync sync_type non non_type syncsafe aFrameSize, s)) }) });
     on_return r (\<lambda>(actualFrameLen, s). Some (case id3_seek io currFilePos SEEKSET s of
         (True, _) \<Rightarrow> Leave | (False, s) \<Rightarrow> Return (actualFrameLen, s)))
   }"

text \<open>A header that cannot be read leaves what is not reached as it was.\<close>

definition ReadFrameHeaderID3V2_2 :: "'f file_ops \<Rightarrow> 'f id3 \<Rightarrow> 'f id3 option" where
  "ReadFrameHeaderID3V2_2 io s = do {
     (ok, bs, s) \<leftarrow> id3_readByteData io 3 5 s;
     let s = s\<lparr>iID3V2FrameID := patch (iID3V2FrameID s) 0 bs\<rparr>;
     Some (if \<not> ok then s
       else let s = s\<lparr>iID3V2FrameID := patch (iID3V2FrameID s) 3 [0]\<rparr>; (_, sz, s) = id3_read24 io s
         in s\<lparr>iID3V2FrameSize := sz\<rparr>)
   }"

definition ReadFrameHeaderID3V2 :: "byte_order \<Rightarrow> 'f file_ops \<Rightarrow> id3_version \<Rightarrow> 'f id3 \<Rightarrow> 'f id3 exit option" where
  "ReadFrameHeaderID3V2 bo io aVersion s =
     (if aVersion = PV_ID3_V2_2 then do { s \<leftarrow> ReadFrameHeaderID3V2_2 io s; Some (Return s) }
      else do {
        (ok, bs, s) \<leftarrow> id3_readByteData io 4 5 s;
        let s = s\<lparr>iID3V2FrameID := patch (iID3V2FrameID s) 0 bs\<rparr>;
        if \<not> ok then Some (Return s)
        else do {
          let s = s\<lparr>iID3V2FrameID := patch (iID3V2FrameID s) 4 [0]\<rparr>;
          let (ok, sz, s) = id3_read32 io s;
          let s = s\<lparr>iID3V2FrameSize := sz\<rparr>;
          if \<not> ok then Some (Return s)
          else do {
            (ok, bs, s) \<leftarrow> id3_readByteData io 2 2 s;
            let s = s\<lparr>iID3V2FrameFlag := patch (iID3V2FrameFlag s) 0 bs\<rparr>;
            if \<not> ok then Some (Return s)
            else if aVersion = PV_ID3_V2_4 \<and> iID3V2FrameSize s > 127
            then do {
              r \<leftarrow> ValidateFrameLengthV2_4 bo io (iID3V2FrameSize s) s;
              on_return r (\<lambda>(sz, s). Some (Return (s\<lparr>iID3V2FrameSize := sz\<rparr>))) }
            else Some (Return s) } } })"

section \<open>The frames of a tag\<close>

text \<open>
  What one frame does to the loop: it goes on behind the frame (at \<open>i\<close>, with the size \<open>dli\<close> of the data
  length indicator, which the code never resets), or the function returns the count.
\<close>

datatype 'f tag_step = Next nat u32 nat "'f id3" | Finish nat "'f id3"

definition frame_header_size :: "id3_version \<Rightarrow> u32" where
  "frame_header_size aVersion = (if aVersion = PV_ID3_V2_2 then 6 else 10)"

definition unsupported_frame :: "id3_frame \<Rightarrow> bool" where
  "unsupported_frame t \<longleftrightarrow> t \<in> {PV_ID3_FRAME_UNRECOGNIZED, PV_ID3_FRAME_INVALID, PV_ID3_FRAME_EEND, PV_ID3_FRAME_CANDIDATE}"

text \<open>Reading the data of a supported frame: nothing when the function returns.\<close>

definition frame_data ::
  "'f file_ops \<Rightarrow> (u32 \<Rightarrow> bool) \<Rightarrow> id3_frame \<Rightarrow> u32 \<Rightarrow> u32 \<Rightarrow> u32 \<Rightarrow> 'f id3 \<Rightarrow> (bool \<times> 'f id3) exit option" where
  "frame_data io heap frameType current_file_pos data_pos currFrameLength s =
     (case id3_read8 io s of
        (False, _, s) \<Rightarrow> Some (Return (False, s))
      | (True, unicodeCheck, s) \<Rightarrow>
          if frameType = PV_ID3_FRAME_LYRICS \<or> frameType = PV_ID3_FRAME_COMMENT
          then do {
            (_, s) \<leftarrow> ReadLyricsCommFrame io heap unicodeCheck (currFrameLength - 1) frameType s;
            Some (Return (True, s)) }
          else if frameType = PV_ID3_FRAME_APIC \<or> frameType = PV_ID3_FRAME_PIC
          then if currFrameLength > 3000000 then Some (Return (True, s))
               else do {
                 (st, s) \<leftarrow> ReadAlbumArtFrame io heap frameType unicodeCheck currFrameLength s;
                 Some (Return (st = PVMFSuccess, s)) }
          else if unicodeCheck < 4
          then ReadFrameData io heap unicodeCheck frameType (current_file_pos + data_pos + 1) currFrameLength s
          else do {
            r \<leftarrow> HandleID3V2FrameDataASCII io heap frameType data_pos currFrameLength s;
            on_return r (\<lambda>s. Some (Return (True, s))) })"

text \<open>
  From a frame header on: the size is already checked. \<open>HandleID3V2FrameUnsupported\<close> is empty on Android.
\<close>

definition frame_body ::
  "byte_order \<Rightarrow> 'f file_ops \<Rightarrow> (u32 \<Rightarrow> bool) \<Rightarrow> id3_version \<Rightarrow> u32 \<Rightarrow> id3_frame \<Rightarrow> nat \<Rightarrow> u32 \<Rightarrow> nat \<Rightarrow> 'f id3 \<Rightarrow>
     'f tag_step exit option" where
  "frame_body bo io heap aVersion current_file_pos frameType i dli count s =
     (let hdr = frame_header_size aVersion;
          next_i = (\<lambda>i s. i + unat (iID3V2FrameSize s) + unat hdr);
          indicator = aVersion = PV_ID3_V2_4 \<and> iID3V2FrameFlag s ! 1 AND 1 \<noteq> 0;
          (ok, temp, s) = (if indicator then id3_read32 io s else (True, 0, s))
      in if \<not> ok then Some (Return (Finish count s))
         else let currFrameLength = (if indicator then SafeSynchIntToInt32 bo temp else iID3V2FrameSize s);
                  dli = (if indicator then 4 else dli)
           in if currFrameLength > 1 \<and> \<not> unsupported_frame frameType
              then do {
                r \<leftarrow> frame_data io heap frameType current_file_pos (word_of_nat i + hdr + dli) currFrameLength s;
                on_return r (\<lambda>(ok, s). Some (Return (if ok then Next (next_i i s) dli (count + 1) s else Finish count s))) }
              else if frameType = PV_ID3_FRAME_EEND \<or> frameType = PV_ID3_FRAME_INVALID
              then Some (Return (Next (next_i (unat (iID3V2TagSize s) + 1) s) dli count s))
              else Some (Return (Next (next_i i s) dli count s)))"

definition frame_step ::
  "byte_order \<Rightarrow> 'f file_ops \<Rightarrow> (u32 \<Rightarrow> bool) \<Rightarrow> id3_version \<Rightarrow> u32 \<Rightarrow> nat \<Rightarrow> u32 \<Rightarrow> nat \<Rightarrow> 'f id3 \<Rightarrow> 'f tag_step exit option" where
  "frame_step bo io heap aVersion current_file_pos i dli count s =
     (case id3_seek io (current_file_pos + word_of_nat i) SEEKSET s of
        (True, s) \<Rightarrow> Some (Return (Finish count s))
      | (False, s) \<Rightarrow> do {
          r \<leftarrow> ReadFrameHeaderID3V2 bo io aVersion s;
          on_return r (\<lambda>s.
            let (frameType, s) = FrameSupportedID3V2 aVersion None s;
                currFrameLength = iID3V2FrameSize s
            in if frameType \<noteq> PV_ID3_FRAME_SEEK \<and> currFrameLength > iID3V2TagSize s
               then Some (Return (Finish count s))
               else if currFrameLength = 0 \<and> frameType \<noteq> PV_ID3_FRAME_EEND
               then Some (Return (Next (i + unat (frame_header_size aVersion)) dli count s))
               else let frameType = (if aVersion = PV_ID3_V2_3 \<and> iID3V2FrameFlag s ! 1 AND 192 \<noteq> 0 \<or>
                          aVersion = PV_ID3_V2_4 \<and> iID3V2FrameFlag s ! 1 AND 12 \<noteq> 0
                        then PV_ID3_FRAME_UNRECOGNIZED else frameType)
                 in if frameType = PV_ID3_FRAME_SEEK
                    then Some (Return (Finish count
                      (s\<lparr>iSeekFrameFound := True, iID3V2SeekOffset := iID3V2FrameSize s\<rparr>)))
                    else frame_body bo io heap aVersion current_file_pos frameType i dli count s) })"

text \<open>
  The loop of \<open>ReadTagID3V2\<close>: every step goes at least a frame header forward. (The sizes are below
  \<open>2 ^ 28\<close>, so the \<open>uint32\<close> \<open>i\<close> does not wrap.)
\<close>

function tag_loop ::
  "byte_order \<Rightarrow> 'f file_ops \<Rightarrow> (u32 \<Rightarrow> bool) \<Rightarrow> id3_version \<Rightarrow> u32 \<Rightarrow> nat \<Rightarrow> nat \<Rightarrow> u32 \<Rightarrow> nat \<Rightarrow> 'f id3 \<Rightarrow>
     (nat \<times> 'f id3) exit option" where
  "tag_loop bo io heap aVersion current_file_pos tag_size i dli count s =
     (if i \<le> tag_size
      then case frame_step bo io heap aVersion current_file_pos i dli count s of
        None \<Rightarrow> None
      | Some Leave \<Rightarrow> Some Leave
      | Some (Return (Finish n s)) \<Rightarrow> Some (Return (n, s))
      | Some (Return (Next i' dli n s)) \<Rightarrow>
          if i' \<le> i then None else tag_loop bo io heap aVersion current_file_pos tag_size i' dli n s
      else Some (Return (count, s)))"
  by pat_completeness auto
termination by (relation "measure (\<lambda>(_, _, _, _, _, tag_size, i, _). Suc tag_size - i)") auto

declare tag_loop.simps [simp del]

definition ReadTagID3V2 ::
  "byte_order \<Rightarrow> 'f file_ops \<Rightarrow> (u32 \<Rightarrow> bool) \<Rightarrow> id3_version \<Rightarrow> 'f id3 \<Rightarrow> (nat \<times> 'f id3) exit option" where
  "ReadTagID3V2 bo io heap aVersion s =
     tag_loop bo io heap aVersion (id3_tell io s) (unat (iID3V2TagSize s)) (unat (iID3V2ExtendedHeaderSize s)) 0 0 s"

section \<open>The tag header\<close>

definition ReadExtendedHeader :: "byte_order \<Rightarrow> 'f file_ops \<Rightarrow> 'f id3 \<Rightarrow> bool \<times> 'f id3" where
  "ReadExtendedHeader bo io s =
     (case id3_read32 io s of
        (False, _, s) \<Rightarrow> (False, s)
      | (True, extsize, s) \<Rightarrow>
          let s = s\<lparr>iID3V2ExtendedHeaderSize := SafeSynchIntToInt32 bo extsize\<rparr>
          in if iVersion s = PV_ID3_V2_4
             then let s = s\<lparr>iID3V2ExtendedHeaderSize := iID3V2ExtendedHeaderSize s - 4\<rparr>
               in case id3_read8 io s of
                 (False, _, s) \<Rightarrow> (False, s)
               | (True, flgsize, s) \<Rightarrow>
                   if flgsize > 1 then (False, s)
                   else (case id3_read8 io s of
                      (False, _, s) \<Rightarrow> (False, s)
                    | (True, exthdrflg, s) \<Rightarrow>
                        let s = (if exthdrflg AND 64 = 0 then s\<lparr>iFrames := []\<rparr> else s)
                        in (True, s\<lparr>iID3V2ExtendedHeaderSize := iID3V2ExtendedHeaderSize s - 2\<rparr>))
             else if iVersion s = PV_ID3_V2_3
             then (True, s\<lparr>iID3V2ExtendedHeaderSize := iID3V2ExtendedHeaderSize s + 6\<rparr>)
             else (True, s))"

text \<open>One pass of \<open>ReadHeaderID3V2\<close> from the label \<open>BEGIN_V2\<close> on: done, or again at another tag.\<close>

datatype 'f header_pass = Done bool "'f id3" | Again bool "'f id3"

definition follow_seek :: "'f file_ops \<Rightarrow> bool \<Rightarrow> 'f id3 \<Rightarrow> 'f header_pass option" where
  "follow_seek io result s =
     (let seek_size = iID3V2TagSize s + 10 + (if iFooterPresent s then 10 else 0)
      in case id3_seek io seek_size SEEKSET s of
        (True, s) \<Rightarrow> Some (Done False s)
      | (False, s) \<Rightarrow>
          (case id3_seek io (iID3V2SeekOffset s) SEEKCUR s of
             (True, s) \<Rightarrow> Some (Done False s)
           | (False, s) \<Rightarrow> do {
               (found, s) \<leftarrow> CheckForTagID3V2 io s;
               if \<not> found then Some (Done False s)
               else case id3_read8 io s of
                 (False, _, s) \<Rightarrow> Some (Done False s)
               | (True, major, s) \<Rightarrow>
                   (case id3_read8 io s of
                      (False, _, s) \<Rightarrow> Some (Done False s)
                    | (True, _, s) \<Rightarrow>
                        Some (if major \<noteq> 4 then Done False s else Again result (s\<lparr>iSeekFrameFound := False\<rparr>))) }))"

definition header_pass ::
  "byte_order \<Rightarrow> 'f file_ops \<Rightarrow> (u32 \<Rightarrow> bool) \<Rightarrow> bool \<Rightarrow> bool \<Rightarrow> 'f id3 \<Rightarrow> 'f header_pass exit option" where
  "header_pass bo io heap aReadTags result s =
     (case id3_read8 io s of
        (ok, flags, s) \<Rightarrow>
          let s = s\<lparr>iID3V2TagFlagsV2 := flags\<rparr>
          in if \<not> ok then Some (Return (Done False s))
             else case id3_read32 io s of
               (False, _, s) \<Rightarrow> Some (Return (Done False s))
             | (True, tagsize, s) \<Rightarrow>
                 if flags AND 64 \<noteq> 0 \<and> iVersion s = PV_ID3_V2_2 then Some Leave
                 else let (ok, s) = (if flags AND 64 \<noteq> 0 then ReadExtendedHeader bo io s else (True, s))
                   in if \<not> ok then Some (Return (Done False s))
                      else let s = (if flags AND 16 \<noteq> 0 then s\<lparr>iFooterPresent := True\<rparr> else s);
                               s = s\<lparr>iID3V2TagSize := SafeSynchIntToInt32 bo tagsize\<rparr>;
                               s = s\<lparr>iByteOffsetToStartOfAudioFrames := (if iTagAtBof s
                                 then iID3V2TagSize s + 10 + (if iFooterPresent s then 10 else 0) else 0)\<rparr>
                        in if \<not> aReadTags then Some (Return (Done False s))
                           else do {
                             r \<leftarrow> ReadTagID3V2 bo io heap (iVersion s) s;
                             on_return r (\<lambda>(count, s).
                               let result = result \<or> count > 0
                               in if iSeekFrameFound s
                                  then do { p \<leftarrow> follow_seek io result s; Some (Return p) }
                                  else Some (Return (Done result s))) })"

text \<open>
  \<open>ReadHeaderID3V2\<close> with at most \<open>n\<close> passes: \<open>Again\<close> when they are not enough.
\<close>

fun header_passes ::
  "nat \<Rightarrow> byte_order \<Rightarrow> 'f file_ops \<Rightarrow> (u32 \<Rightarrow> bool) \<Rightarrow> bool \<Rightarrow> bool \<Rightarrow> 'f id3 \<Rightarrow> 'f header_pass exit option" where
  "header_passes 0 bo io heap aReadTags result s = Some (Return (Again result s))"
| "header_passes (Suc n) bo io heap aReadTags result s = do {
     r \<leftarrow> header_pass bo io heap aReadTags result s;
     on_return r (\<lambda>p. case p of
       Again result s \<Rightarrow> header_passes n bo io heap aReadTags result s | Done _ _ \<Rightarrow> Some (Return p))
   }"

definition ReadHeaderID3V2 ::
  "nat \<Rightarrow> byte_order \<Rightarrow> 'f file_ops \<Rightarrow> (u32 \<Rightarrow> bool) \<Rightarrow> bool \<Rightarrow> 'f id3 \<Rightarrow> 'f header_pass exit option" where
  "ReadHeaderID3V2 n bo io heap aReadTags s =
     (case id3_read8 io s of
        (False, _, s) \<Rightarrow> Some (Return (Done False s))
      | (True, major, s) \<Rightarrow>
          (case id3_read8 io s of
             (False, _, s) \<Rightarrow> Some (Return (Done False s))
           | (True, _, s) \<Rightarrow>
               let s = (if major = 2 then s\<lparr>iVersion := PV_ID3_V2_2\<rparr> else if major = 3 then s\<lparr>iVersion := PV_ID3_V2_3\<rparr>
                        else if major = 4 then s\<lparr>iVersion := PV_ID3_V2_4\<rparr> else s)
               in header_passes n bo io heap aReadTags False s))"

section \<open>The tag of version 1\<close>

text \<open>
  \<open>ReadID3V1Tag\<close>. A field that was found before is skipped; a seek that fails ends the function, which is the
  value \<open>False\<close> here.
\<close>

definition v1_string ::
  "'f file_ops \<Rightarrow> (u32 \<Rightarrow> bool) \<Rightarrow> bool \<Rightarrow> id3_frame \<Rightarrow> u32 \<Rightarrow> ('f id3 \<Rightarrow> 'f id3) \<Rightarrow> 'f id3 \<Rightarrow> (bool \<times> 'f id3) exit option" where
  "v1_string io heap found frameType n set_found s =
     (if \<not> found
      then do {
        (status, s) \<leftarrow> ReadStringValueFrame io heap frameType PV_ID3_CHARSET_ISO88591 n s;
        Some (if status \<noteq> PVMFSuccess then Leave else Return (True, set_found s)) }
      else let (failed, s) = id3_seek io n SEEKCUR s in Some (Return (\<not> failed, s)))"

definition v1_track ::
  "(u32 \<Rightarrow> bool) \<Rightarrow> u8 list \<Rightarrow> bool \<Rightarrow> 'f id3 \<Rightarrow> (bool \<times> 'f id3) exit" where
  "v1_track heap frameData truncated s =
     (if frameData ! 28 = 0 \<and> frameData ! 29 \<noteq> 0 \<and> \<not> iTrackNumberFoundFlag s
      then let s = s\<lparr>iVersion := PV_ID3_V1_1\<rparr>;
               (_, keyStr) = ConstructKvpKey s PV_ID3_FRAME_TRACK_NUMBER PV_ID3_CHARSET_INVALID
        in case AllocateKvp heap keyStr Uint32Kind 1 truncated of
          None \<Rightarrow> Leave
        | Some (kvpPtr, truncated) \<Rightarrow>
            let kvpPtr = (if \<not> truncated then kvpPtr\<lparr>kvp_value := Uint32Value (ucast (frameData ! 29))\<rparr> else kvpPtr)
            in Return (truncated, push_frame kvpPtr (s\<lparr>iTrackNumberFoundFlag := True\<rparr>))
      else Return (truncated, s))"

definition v1_comment_text ::
  "(u32 \<Rightarrow> bool) \<Rightarrow> u8 list \<Rightarrow> bool \<Rightarrow> 'f id3 \<Rightarrow> (bool \<times> 'f id3) exit option" where
  "v1_comment_text heap frameData truncated s =
     (if iCommentFoundFlag s then Some (Return (truncated, s))
      else do {
        frameData \<leftarrow> wr frameData 30 0;
        let (st, keyStr) = ConstructKvpKey s PV_ID3_FRAME_COMMENT PV_ID3_CHARSET_ISO88591;
        if st \<noteq> PVMFSuccess then Some Leave
        else case AllocateKvp heap keyStr CharKind 31 truncated of
          None \<Rightarrow> Some Leave
        | Some (kvpPtr, truncated) \<Rightarrow> do {
            kvpPtr \<leftarrow> (if \<not> truncated
              then do {
                comment_size \<leftarrow> oscl_strlen frameData;
                text \<leftarrow> oscl_strncpy frameData 31;
                text \<leftarrow> wr (patch (kvp_chars (kvp_value kvpPtr)) 0 text) comment_size 0;
                Some (kvpPtr\<lparr>kvp_value := CharValue text, kvp_length := int comment_size + 1\<rparr>) }
              else Some kvpPtr);
            Some (Return (truncated, push_frame kvpPtr (s\<lparr>iCommentFoundFlag := True\<rparr>))) } })"

definition v1_comment ::
  "'f file_ops \<Rightarrow> (u32 \<Rightarrow> bool) \<Rightarrow> 'f id3 \<Rightarrow> (bool \<times> bool \<times> 'f id3) exit option" where
  "v1_comment io heap s =
     (if \<not> iCommentFoundFlag s \<or> \<not> iTrackNumberFoundFlag s
      then if \<not> heap 31 then Some Leave
        else do {
          let frameData = replicate 31 0;
          (ok, bs, s) \<leftarrow> id3_readByteData io 30 (length frameData) s;
          if \<not> ok then Some Leave
          else on_return (v1_track heap (patch frameData 0 bs) False s) (\<lambda>(truncated, s). do {
            r \<leftarrow> v1_comment_text heap (patch frameData 0 bs) truncated s;
            on_return r (\<lambda>(truncated, s). Some (Return (True, truncated, s))) }) }
      else let (failed, s) = id3_seek io 30 SEEKCUR s in Some (Return (\<not> failed, False, s)))"

definition v1_genre :: "'f file_ops \<Rightarrow> (u32 \<Rightarrow> bool) \<Rightarrow> bool \<Rightarrow> 'f id3 \<Rightarrow> 'f id3 exit option" where
  "v1_genre io heap truncated s =
     (if \<not> iGenereFoundFlag s
      then if \<not> heap 2 then Some Leave
        else do {
          (ok, bs, s) \<leftarrow> id3_readByteData io 1 2 s;
          if \<not> ok then Some Leave
          else let (st, keyStr) = ConstructKvpKey s PV_ID3_FRAME_GENRE PV_ID3_CHARSET_INVALID
            in if st \<noteq> PVMFSuccess then Some Leave
               else case AllocateKvp heap keyStr Uint32Kind 1 truncated of
                 None \<Rightarrow> Some Leave
               | Some (kvpPtr, truncated) \<Rightarrow>
                   let kvpPtr = (if \<not> truncated then kvpPtr\<lparr>kvp_value := Uint32Value (ucast (hd bs))\<rparr> else kvpPtr)
                   in Some (Return (push_frame kvpPtr (s\<lparr>iGenereFoundFlag := True\<rparr>))) }
      else let (_, s) = id3_seek io 1 SEEKCUR s in Some (Return s))"

definition go_on :: "(bool \<times> 'f id3) exit option \<Rightarrow> ('f id3 \<Rightarrow> 'f id3 exit option) \<Rightarrow> 'f id3 exit option" where
  "go_on r f = do { r \<leftarrow> r; on_return r (\<lambda>(ok, s). if ok then f s else Some (Return s)) }"

definition ReadID3V1Tag :: "'f file_ops \<Rightarrow> (u32 \<Rightarrow> bool) \<Rightarrow> 'f id3 \<Rightarrow> 'f id3 exit option" where
  "ReadID3V1Tag io heap s =
     go_on (v1_string io heap (iTitleFoundFlag s) PV_ID3_FRAME_TITLE 30 (\<lambda>s. s\<lparr>iTitleFoundFlag := True\<rparr>) s) (\<lambda>s.
     go_on (v1_string io heap (iArtistFoundFlag s) PV_ID3_FRAME_ARTIST 30 (\<lambda>s. s\<lparr>iArtistFoundFlag := True\<rparr>) s) (\<lambda>s.
     go_on (v1_string io heap (iAlbumFoundFlag s) PV_ID3_FRAME_ALBUM 30 (\<lambda>s. s\<lparr>iAlbumFoundFlag := True\<rparr>) s) (\<lambda>s.
     go_on (v1_string io heap (iYearFoundFlag s) PV_ID3_FRAME_YEAR 4 (\<lambda>s. s\<lparr>iYearFoundFlag := True\<rparr>) s) (\<lambda>s. do {
       r \<leftarrow> v1_comment io heap s;
       on_return r (\<lambda>(ok, truncated, s). if ok then v1_genre io heap truncated s else Some (Return s)) }))))"

section \<open>Entry points\<close>

definition open_input :: "'f file_ops \<Rightarrow> 'f id3 \<Rightarrow> 'f id3" where
  "open_input io s =
     (case GetRemainingBytes io (id3_file s) of
        (Some n, F) \<Rightarrow> s\<lparr>id3_file := F, iFileSizeInBytes := to_s32 n\<rparr>
      | (None, F) \<Rightarrow> s\<lparr>id3_file := F\<rparr>)"

text \<open>The test for a tag of version 2, at the position of the file or with a footer near its end.\<close>

definition find_tag_v2 ::
  "byte_order \<Rightarrow> 'f file_ops \<Rightarrow> (u32 \<Rightarrow> bool) \<Rightarrow> u32 \<Rightarrow> 'f id3 \<Rightarrow> (bool \<times> 'f id3) option" where
  "find_tag_v2 bo io heap buffsize s = do {
     (found, s) \<leftarrow> CheckForTagID3V2 io s;
     if found then Some (True, s) else LookForV2_4Footer bo io heap buffsize 0 s
   }"

text \<open>
  \<open>ParseID3Tag\<close> with at most \<open>n\<close> passes over tags of version 2: the status and the state, or \<open>None\<close> when the
  passes are not enough.
\<close>

definition seek_home :: "'f file_ops \<Rightarrow> u32 \<Rightarrow> 'f id3 \<Rightarrow> (pvmf_status \<times> 'f id3) option exit option" where
  "seek_home io currentFilePosn s =
     (case id3_seek io currentFilePosn SEEKSET s of
        (True, s) \<Rightarrow> Some (Return (Some (PVMFFailure, s)))
      | (False, s) \<Rightarrow> Some (Return (Some (PVMFSuccess, s))))"

definition ParseID3Tag ::
  "nat \<Rightarrow> byte_order \<Rightarrow> 'f file_ops \<Rightarrow> (u32 \<Rightarrow> bool) \<Rightarrow> u32 \<Rightarrow> 'f id3 \<Rightarrow> (pvmf_status \<times> 'f id3) option exit option" where
  "ParseID3Tag n bo io heap buffsize s =
     (let currentFilePosn = id3_tell io s
      in if currentFilePosn = - 1 then Some (Return (Some (PVMFFailure, s)))
         else let (failed, s) = id3_seek io 0 SEEKSET s;
                  (failed, s) = (if failed then (False, s\<lparr>iFileSizeInBytes := 0\<rparr>)
                    else id3_seek io currentFilePosn SEEKSET (open_input io s))
           in if failed then Some (Return (Some (PVMFFailure, s)))
              else do {
                (found, s) \<leftarrow> find_tag_v2 bo io heap buffsize s;
                if found
                then do {
                  r \<leftarrow> ReadHeaderID3V2 n bo io heap True s;
                  on_return r (\<lambda>p. case p of
                    Again _ _ \<Rightarrow> Some (Return None)
                  | Done _ s \<Rightarrow> do {
                      (v1, s) \<leftarrow> CheckForTagID3V1 io s;
                      r \<leftarrow> (if v1 then ReadID3V1Tag io heap (s\<lparr>iVersion := PV_ID3_V1\<rparr>) else Some (Return s));
                      on_return r (seek_home io currentFilePosn) }) }
                else do {
                  (v1, s) \<leftarrow> CheckForTagID3V1 io s;
                  if v1
                  then do {
                    r \<leftarrow> ReadID3V1Tag io heap (s\<lparr>iVersion := PV_ID3_V1\<rparr>);
                    on_return r (\<lambda>s. seek_home io currentFilePosn (s\<lparr>iByteOffsetToStartOfAudioFrames := 0\<rparr>)) }
                  else Some (Return (Some (PVMFFailure, s))) } })"

text \<open>\<open>IsID3V2Present\<close>: the answer and \<open>aTagSize\<close>, which is not stored when the answer is no.\<close>

definition IsID3V2PresentIn :: "byte_order \<Rightarrow> 'f file_ops \<Rightarrow> (u32 \<Rightarrow> bool) \<Rightarrow> 'f id3 \<Rightarrow> (u32 option \<times> 'f id3) exit option" where
  "IsID3V2PresentIn bo io heap s =
     (if iID3V2Present s then Some (Return (Some (iByteOffsetToStartOfAudioFrames s), s))
      else do {
        (found, s) \<leftarrow> CheckForTagID3V2 io s;
        if \<not> found then Some (Return (None, s))
        else do {
          r \<leftarrow> ReadHeaderID3V2 1 bo io heap False s;
          on_return r (\<lambda>p. case p of
            Done _ s \<Rightarrow> Some (Return (Some (iByteOffsetToStartOfAudioFrames s), s)) | Again _ _ \<Rightarrow> None) } })"

text \<open>The size of the tag of a file without parsing it, and that of the tag parsed last.\<close>

definition GetID3TagSizeIn :: "byte_order \<Rightarrow> 'f file_ops \<Rightarrow> (u32 \<Rightarrow> bool) \<Rightarrow> 'f id3 \<Rightarrow> (u32 \<times> 'f id3) option" where
  "GetID3TagSizeIn bo io heap s =
     (let (failed, s) = id3_seek io 0 SEEKSET s;
          (failed, s) = (if failed then (False, s\<lparr>iFileSizeInBytes := 0\<rparr>) else id3_seek io 0 SEEKSET (open_input io s))
      in if failed then Some (0, s)
         else do {
           (found, s) \<leftarrow> find_tag_v2 bo io heap 100 s;
           if found
           then case id3_seek io 2 SEEKCUR s of
             (True, s) \<Rightarrow> Some (0, s)
           | (False, s) \<Rightarrow>
               (case id3_read8 io s of
                  (False, _, s) \<Rightarrow> Some (0, s)
                | (True, flags, s) \<Rightarrow>
                    (case id3_read32 io s of
                       (False, _, s) \<Rightarrow> Some (0, s)
                     | (True, synchIntTagSize, s) \<Rightarrow>
                         let tagSize = SafeSynchIntToInt32 bo synchIntTagSize + 10
                         in Some (if iVersion s = PV_ID3_V2_4 \<and> flags AND 16 \<noteq> 0 then tagSize + 10 else tagSize, s)))
           else do {
             (v1, s) \<leftarrow> CheckForTagID3V1 io s;
             Some (if v1 then 128 else 0, s) } })"

definition GetID3TagSize :: "'f id3 \<Rightarrow> u32" where
  "GetID3TagSize s =
     (case iVersion s of
        PV_ID3_V2_2 \<Rightarrow> 10 + iID3V2TagSize s + (if iFooterPresent s then 10 else 0)
      | PV_ID3_V2_3 \<Rightarrow> 10 + iID3V2TagSize s + (if iFooterPresent s then 10 else 0)
      | PV_ID3_V2_4 \<Rightarrow> 10 + iID3V2TagSize s + (if iFooterPresent s then 10 else 0)
      | PV_ID3_V1 \<Rightarrow> 128
      | PV_ID3_V1_1 \<Rightarrow> 128
      | PV_ID3_INVALID_VERSION \<Rightarrow> 0)"

definition SetMaxID3TagSize :: "bool \<Rightarrow> u32 \<Rightarrow> bool \<Rightarrow> 'f id3 \<Rightarrow> pvmf_status \<times> 'f id3" where
  "SetMaxID3TagSize aUseMaxSize aMaxSize aUsePadding s =
     (if iVersion s = PV_ID3_V1 \<or> iVersion s = PV_ID3_V1_1 \<or> iVersion s = PV_ID3_INVALID_VERSION
      then (PVMFErrNotSupported, s)
      else if aUseMaxSize \<and> aMaxSize < (if iVersion s = PV_ID3_V2_2 then 10 + 6 + 1 else 10 + 10 + 1)
      then (PVMFErrArgument, s)
      else (PVMFSuccess, s\<lparr>iUseMaxTagSize := aUseMaxSize, iMaxTagSize := (if aUseMaxSize then aMaxSize else 0),
        iUsePadding := (aUseMaxSize \<and> aUsePadding)\<rparr>))"

definition GetID3Version :: "'f id3 \<Rightarrow> id3_version" where "GetID3Version s = iVersion s"
definition IsID3V1Present :: "'f id3 \<Rightarrow> bool" where "IsID3V1Present s = iID3V1Present s"
definition IsID3V2Present :: "'f id3 \<Rightarrow> bool" where "IsID3V2Present s = iID3V2Present s"
definition GetID3Frames :: "'f id3 \<Rightarrow> pvmf_status \<times> kvp list" where "GetID3Frames s = (PVMFSuccess, iFrames s)"
definition SetID3Version :: "id3_version \<Rightarrow> 'f id3 \<Rightarrow> pvmf_status \<times> 'f id3" where
  "SetID3Version aVersion s = (PVMFSuccess, s\<lparr>iVersion := aVersion\<rparr>)"
definition Reset :: "'f id3 \<Rightarrow> pvmf_status \<times> 'f id3" where "Reset s = (PVMFSuccess, s\<lparr>iFrames := []\<rparr>)"

end
