(* ===== verification/Id3Parse.thy ===== *)
theory Id3Parse
  imports Id3Tag
begin

text \<open>
  What the ID3 parser does on files: the reading operations of \<open>PVID3ParCom\<close> on a byte file, tags of text
  frames, and the tags that make it fail.
\<close>

section \<open>Numbers in files\<close>

definition be32_bytes :: "nat \<Rightarrow> u8 list" where
  "be32_bytes n = List.map word_of_nat [n div 16777216 mod 256, n div 65536 mod 256, n div 256 mod 256, n mod 256]"

lemma length_be32 [simp]: "length (be32_bytes n) = 4"
  by (simp add: be32_bytes_def)

lemma be_val_be32:
  assumes "n < 4294967296"
  shows "be_val (be32_bytes n) = n"
proof -
  have u: "unat (word_of_nat (m mod 256) :: u8) = m mod 256" for m :: nat
    by (simp add: unat_of_nat_small)
  define q1 q2 q3 where "q1 = n div 256" and "q2 = q1 div 256" and "q3 = q2 div 256"
  have d: "n div 65536 = q2" "n div 16777216 = q3"
    by (simp_all add: q1_def q2_def q3_def div_mult2_eq [symmetric])
  have "n div 16777216 < 256" using assms by (simp add: div_less_iff_less_mult)
  then have q3: "q3 mod 256 = q3" unfolding d by simp
  have "be_val (be32_bytes n) = ((q3 mod 256 * 256 + q2 mod 256) * 256 + q1 mod 256) * 256 + n mod 256"
    by (simp only: be32_bytes_def be_val_def list.map foldl.simps u d q1_def [symmetric]) simp
  also have "\<dots> = ((q3 * 256 + q2 mod 256) * 256 + q1 mod 256) * 256 + n mod 256" unfolding q3 by (rule refl)
  also have "q3 * 256 + q2 mod 256 = q2" unfolding q3_def by (rule div_mult_mod_eq)
  also have "q2 * 256 + q1 mod 256 = q1" unfolding q2_def by (rule div_mult_mod_eq)
  also have "q1 * 256 + n mod 256 = n" unfolding q1_def by (rule div_mult_mod_eq)
  finally show ?thesis .
qed

lemma shift_in_be32: "n < 4294967296 \<Longrightarrow> foldl shift_in 0 (be32_bytes n) = word_of_nat n"
proof -
  assume n: "n < 4294967296"
  have "unat (foldl shift_in 0 (be32_bytes n)) = n" by (simp add: unat_shift_ins be_val_be32 [OF n])
  then show ?thesis by (metis word_nat_cases unat_of_nat_small word_unat_eq_iff n)
qed

lemma sint_small:
  assumes "unat (w :: u32) < 2147483648"
  shows "sint w = int (unat w)"
proof -
  have u: "uint w = int (unat w)" by (rule uint_nat)
  then have "- 2147483648 \<le> uint w" "uint w < 2147483648" using assms by linarith+
  then have "signed_take_bit 31 (uint w) = uint w" by (intro signed_take_bit_int_eq_self) simp_all
  then have "sint w = uint w" by (simp add: sint_uint)
  then show ?thesis using u by (rule trans)
qed

section \<open>Allocation\<close>

lemma aligned_size_le: "unat (x :: u32) < 2147483648 \<Longrightarrow> unat (oscl_mem_aligned_size x) \<le> unat x + 8"
proof -
  assume x: "unat x < 2147483648"
  have "x AND NOT 7 \<le> x" by (rule word_and_le2)
  then have le: "unat (x AND NOT 7) \<le> unat x" by (simp only: word_le_nat_alt)
  with x have "unat ((x AND NOT 7) + 8) = unat (x AND NOT 7) + 8" by (simp add: unat_word_ariths)
  with le show ?thesis by (simp add: oscl_mem_aligned_size_def)
qed

lemma AllocateKvp_ok:
  assumes "\<And>k. heap k" "length aKey < 1000" "unat v < 1073741824"
  shows "AllocateKvp heap aKey kind v False =
    Some (\<lparr>kvp_key = aKey, kvp_value = kvp_block kind v, kvp_length = int (unat v), kvp_capacity = v\<rparr>, False)"
proof -
  define ks where "ks = oscl_mem_aligned_size (word_of_nat (length aKey) + 1)"
  have "unat (word_of_nat (length aKey) + 1 :: u32) = length aKey + 1"
    using assms(2) by (simp add: unat_word_ariths unat_of_nat_small)
  then have ks: "unat ks < 2000" using aligned_size_le [of "word_of_nat (length aKey) + 1"] assms(2) by (simp add: ks_def)
  then have k48: "unat (16 + 8 + 24 + ks) = 48 + unat ks" by (simp add: unat_word_ariths)
  have "unat (16 + 8 + 24 + ks + v) = 48 + unat ks + unat v"
    using ks assms(3) by (subst unat_word_ariths(1)) (simp only: k48, simp)
  then have "\<not> 16 + 8 + 24 + ks + v < v" by (simp add: word_less_nat_alt)
  then show ?thesis using assms(1,3) by (simp add: AllocateKvp_def ks_def [symmetric] Let_def sint_small)
qed

section \<open>Reading from a byte file\<close>

section \<open>Text frames\<close>

text \<open>
  A text frame of version 2.3 in ISO 8859-1, and the pair it becomes: the value is the text with a
  terminator, the length that of the string up to its first zero.
\<close>

definition text_frame :: "u8 list \<times> u8 list \<Rightarrow> u8 list" where
  "text_frame = (\<lambda>(fid, text). fid @ be32_bytes (length text + 1) @ [0, 0] @ [0] @ text)"

definition text_frames :: "(u8 list \<times> u8 list) list \<Rightarrow> u8 list" where
  "text_frames fs = concat (List.map text_frame fs)"

lemma text_frames_simps [simp]:
  "text_frames [] = []" "text_frames (f # fs) = text_frame f @ text_frames fs"
  by (simp_all add: text_frames_def)

definition text_kvp :: "u8 list \<times> u8 list \<Rightarrow> kvp" where
  "text_kvp = (\<lambda>(fid, text).
     \<lparr>kvp_key = the (KVP_KEY (the (map_of id3_frame_ids fid))) @ lit '';valtype=char*'', kvp_value = CharValue (text @ [0]),
      kvp_length = int (length (cstr text)) + 1, kvp_capacity = word_of_nat (length text + 1)\<rparr>)"

definition text_ok :: "u8 list \<times> u8 list \<Rightarrow> bool" where
  "text_ok = (\<lambda>(fid, text). (\<exists>t. map_of id3_frame_ids fid = Some t \<and> is_text_frame t) \<and> text \<noteq> [])"

lemma frame_ids_facts: "list_all (\<lambda>(fid, t). length fid = 4 \<and> hd fid \<noteq> 0xFF \<and>
    (is_text_frame t \<longrightarrow> (\<exists>k. KVP_KEY t = Some k \<and> length k < 100))) id3_frame_ids"
  by (simp add: id3_frame_ids_def KVP_KEY_def is_text_frame_def)

lemma frame_idD:
  assumes "map_of id3_frame_ids fid = Some t"
  shows "length fid = 4" "hd fid \<noteq> 0xFF" "is_text_frame t \<Longrightarrow> \<exists>k. KVP_KEY t = Some k \<and> length k < 100"
  using frame_ids_facts map_of_SomeD [OF assms] by (auto simp: list_all_iff)

text \<open>A frame header in the padding.\<close>

lemma zero_header: "replicate 10 (0 :: u8) = [0, 0, 0, 0] @ be32_bytes 0 @ [0, 0]"
proof -
  have "be32_bytes 0 = [0, 0, 0, 0]" by (simp add: be32_bytes_def)
  moreover have "replicate 10 (0 :: u8) = [0, 0, 0, 0, 0, 0, 0, 0, 0, 0]" by code_simp
  ultimately show ?thesis by simp
qed

text \<open>The fields that reading a frame does not change.\<close>

definition tag_core :: "'f id3 \<Rightarrow> u32 \<times> id3_version \<times> bool \<times> bool \<times> u32 \<times> int \<times> bool \<times> bool \<times> bool" where
  "tag_core s = (iID3V2TagSize s, iVersion s, iTagAtBof s, iSeekFrameFound s, iByteOffsetToStartOfAudioFrames s,
     iFileSizeInBytes s, iID3V1Present s, iID3V2Present s, iFooterPresent s)"

lemma tag_core_updates [simp]:
  "tag_core (s\<lparr>id3_file := F\<rparr>) = tag_core s" "tag_core (s\<lparr>iFrames := fs\<rparr>) = tag_core s"
  "tag_core (s\<lparr>iTextType := c\<rparr>) = tag_core s" "tag_core (s\<lparr>iID3V2FrameID := b\<rparr>) = tag_core s"
  "tag_core (s\<lparr>iID3V2FrameFlag := b\<rparr>) = tag_core s" "tag_core (s\<lparr>iID3V2FrameSize := n\<rparr>) = tag_core s"
  "tag_core (push_frame k s) = tag_core s"
  by (simp_all add: tag_core_def push_frame_def)

lemma note_fields [simp]:
  "tag_core (note_found t s) = tag_core s" "tag_core (note_read t s) = tag_core s"
  "id3_file (note_found t s) = id3_file s" "id3_file (note_read t s) = id3_file s"
  "iFrames (note_found t s) = iFrames s" "iFrames (note_read t s) = iFrames s"
  "iID3V2FrameSize (note_found t s) = iID3V2FrameSize s" "iID3V2FrameSize (note_read t s) = iID3V2FrameSize s"
  "iID3V2FrameID (note_found t s) = iID3V2FrameID s" "iID3V2FrameID (note_read t s) = iID3V2FrameID s"
  "iID3V2FrameFlag (note_found t s) = iID3V2FrameFlag s" "iID3V2FrameFlag (note_read t s) = iID3V2FrameFlag s"
  by (cases t; simp add: note_found_def note_read_def tag_core_def)+

lemma tag_coreD:
  assumes "tag_core s' = tag_core s"
  shows "iID3V2TagSize s' = iID3V2TagSize s" "iVersion s' = iVersion s" "iSeekFrameFound s' = iSeekFrameFound s"
  using assms by (simp_all add: tag_core_def)

text \<open>The state between two frames of a tag.\<close>

definition between_frames :: "'f id3 \<Rightarrow> bool" where
  "between_frames s \<longleftrightarrow> iVersion s = PV_ID3_V2_3 \<and> length (iID3V2FrameID s) = 5 \<and> length (iID3V2FrameFlag s) = 2"

text \<open>The string in a block that ends with a zero.\<close>

lemma cstr_end: "oscl_strlen (xs @ [0]) = Some (length (cstr xs))" "wr (xs @ [0]) (length (cstr xs)) 0 = Some (xs @ [0])"
proof -
  show "oscl_strlen (xs @ [0]) = Some (length (cstr xs))" by (induction xs) (simp_all add: cstr_def)
  have "(xs @ [0]) ! length (takeWhile (\<lambda>c. c \<noteq> 0) xs) = 0"
    by (cases "length (takeWhile (\<lambda>c. c \<noteq> 0) xs) < length xs")
      (use nth_length_takeWhile [of "\<lambda>c. c \<noteq> 0" xs] length_takeWhile_le [of "\<lambda>c. c \<noteq> 0" xs] in \<open>auto simp: nth_append\<close>)
  then have "(xs @ [0])[length (cstr xs) := 0] = xs @ [0]" unfolding cstr_def by (metis list_update_id)
  then show "wr (xs @ [0]) (length (cstr xs)) 0 = Some (xs @ [0])"
    using length_takeWhile_le [of "\<lambda>c. c \<noteq> 0" xs] by (simp add: wr_def cstr_def)
qed

context byte_file
begin

lemma id3_seek_set_at:
  assumes "pos_at (id3_file s) d p" "unat off = q" "q \<le> length d"
  obtains F where "id3_seek io off SEEKSET s = (False, s\<lparr>id3_file := F\<rparr>)" "pos_at F d q"
proof -
  have so: "sint off = int q" using sint_small [of off] atD(2) [OF assms(1)] assms(2,3) by simp
  obtain F where "pv_seek io (int q) SEEKSET (id3_file s) = (0, F)" "pos_at F d q"
    by (rule seek_at [OF assms(1), of "int q" "int q" SEEKSET]) (use assms(3) in simp_all)
  then show thesis using that by (simp add: id3_seek_def so)
qed

lemma id3_read_data_at:
  assumes "pos_at (id3_file s) d p" "p + unat len \<le> length d" "unat len \<le> cap"
  obtains F where "id3_readByteData io len cap s = Some (True, take (unat len) (drop p d), s\<lparr>id3_file := F\<rparr>)"
    "pos_at F d (p + unat len)"
proof (cases "len = 0")
  case True
  then show ?thesis using assms that [of "id3_file s"] by (simp add: id3_readByteData_def)
next
  case False
  have "unat len < 2 ^ 32" using unsigned_less [of len, where 'a = nat] by simp
  from read_at [OF assms(1) this] obtain F where F: "pv_read io (unat len) (id3_file s) = (take (unat len) (drop p d), F)"
    "pos_at F d (min (p + unat len) (length d))" .
  then show ?thesis
    using False assms that [of F] by (simp add: id3_readByteData_def word_neq_0_conv)
qed

lemma id3_read8_at:
  assumes "pos_at (id3_file s) d p" "p < length d"
  obtains F where "id3_read8 io s = (True, d ! p, s\<lparr>id3_file := F\<rparr>)" "pos_at F d (p + 1)"
proof -
  obtain F where "pv_read io 1 (id3_file s) = (take 1 (drop p d), F)" "pos_at F d (min (p + 1) (length d))"
    by (rule read_at [OF assms(1), of 1]) simp
  then show thesis
    using assms(2) that [of F] by (simp add: id3_read8_def hd_drop_conv_nth min_def)
qed

lemma id3_read32_at:
  assumes "pos_at (id3_file s) d p" "p + 4 \<le> length d" "take 4 (drop p d) = be32_bytes n" "n < 4294967296"
  obtains F where "id3_read32 io s = (True, word_of_nat n, s\<lparr>id3_file := F\<rparr>)" "pos_at F d (p + 4)"
proof -
  obtain F where "pv_read io 4 (id3_file s) = (take 4 (drop p d), F)" "pos_at F d (min (p + 4) (length d))"
    by (rule read_at [OF assms(1), of 4]) simp
  then show thesis
    using assms(2-4) that [of F] by (simp add: id3_read32_def shift_in_be32 min_def)
qed

lemma id3_tell_at: "pos_at (id3_file s) d p \<Longrightarrow> unat (id3_tell io s) = p"
  using atD [of "id3_file s" d p] by (simp add: id3_tell_def tell_at unat_of_nat_small)

lemma read_narrow_at:
  assumes "pos_at (id3_file s) d p" "p + unat len \<le> length d" "text = take (unat len) (drop p d)"
    and "\<And>k. heap k" "length keyStr < 1000" "unat len < 268435456"
  obtains F where "read_narrow io heap keyStr len s = Some (PVMFSuccess, push_frame
      \<lparr>kvp_key = keyStr, kvp_value = CharValue (text @ [0]), kvp_length = int (length (cstr text)) + 1, kvp_capacity = len + 1\<rparr>
      (s\<lparr>id3_file := F\<rparr>))"
    "pos_at F d (p + unat len)"
proof -
  have n: "unat (len + 1) = unat len + 1" using assms(6) by (simp add: unat_word_ariths)
  have lt: "length text = unat len" using assms(2,3) by simp
  obtain F where F: "id3_readByteData io len (unat len + 1) s = Some (True, text, s\<lparr>id3_file := F\<rparr>)" "pos_at F d (p + unat len)"
    unfolding assms(3) by (rule id3_read_data_at [OF assms(1,2) le_add1])
  define block :: "u8 list" where "block = replicate (unat len + 1) 0"
  have bl: "length block = unat len + 1" by (simp add: block_def)
  have al: "AllocateKvp heap keyStr CharKind (len + 1) False =
      Some (\<lparr>kvp_key = keyStr, kvp_value = CharValue block, kvp_length = int (unat len + 1),
        kvp_capacity = len + 1\<rparr>, False)"
    using AllocateKvp_ok [where heap = heap and kind = CharKind, OF assms(4,5), of "len + 1"] assms(6) by (simp add: n block_def)
  have pt: "patch block 0 text = text @ [0]"
    by (simp add: block_def patch_def lt del: replicate_Suc) simp
  have stop: "oscl_strlen (text @ [0]) = Some (length (cstr text))" "wr (text @ [0]) (length (cstr text)) 0 = Some (text @ [0])"
    by (rule cstr_end)+
  then show thesis
    using F by (intro that [of F]) (simp_all add: read_narrow_def al pt bl stop)
qed

lemma read_header_at:
  assumes "pos_at (id3_file s) d p" "drop p d = fid @ be32_bytes n @ [f1, f2] @ rest" "length fid = 4" "n < 4294967296"
    "length (iID3V2FrameID s) = 5" "length (iID3V2FrameFlag s) = 2" "aVersion \<noteq> PV_ID3_V2_2" "aVersion \<noteq> PV_ID3_V2_4 \<or> n \<le> 127"
  obtains F where "ReadFrameHeaderID3V2 bo io aVersion s = Some (Return
      (s\<lparr>iID3V2FrameID := fid @ [0], iID3V2FrameSize := word_of_nat n, id3_file := F, iID3V2FrameFlag := [f1, f2]\<rparr>))"
    "pos_at F d (p + 10)"
proof -
  have len: "length (drop p d) = 4 + 4 + 2 + length rest" unfolding assms(2) using assms(3) by simp
  then have le: "p + 10 \<le> length d" by simp
  have at4: "take 4 (drop p d) = fid" unfolding assms(2) using assms(3) by simp
  have at8: "take 4 (drop (p + 4) d) = be32_bytes n" "take 2 (drop (p + 8) d) = [f1, f2]"
    unfolding add.commute [of p] drop_drop [symmetric] assms(2) using assms(3) by simp_all
  obtain F1 where F1: "id3_readByteData io 4 5 s = Some (True, fid, s\<lparr>id3_file := F1\<rparr>)" "pos_at F1 d (p + 4)"
    using id3_read_data_at [OF assms(1), of 4 5] le at4 by auto
  have pt: "patch (iID3V2FrameID s) 0 fid = fid @ drop 4 (iID3V2FrameID s)" by (simp add: patch_def assms(3))
  have pt2: "patch (patch (iID3V2FrameID s) 0 fid) 4 [0] = fid @ [0]" unfolding pt using assms(3,5) by (simp add: patch_def)
  let ?s2 = "s\<lparr>id3_file := F1, iID3V2FrameID := fid @ [0]\<rparr>"
  obtain F2 where F2: "id3_read32 io ?s2 = (True, word_of_nat n, ?s2\<lparr>id3_file := F2\<rparr>)" "pos_at F2 d (p + 4 + 4)"
    by (rule id3_read32_at [of ?s2 d "p + 4" n]) (use F1(2) le at8(1) assms(4) in simp_all)
  let ?s3 = "?s2\<lparr>id3_file := F2\<rparr>\<lparr>iID3V2FrameSize := word_of_nat n\<rparr>"
  obtain F3 where F3: "id3_readByteData io 2 2 ?s3 = Some (True, take (unat (2 :: u32)) (drop (p + 8) d), ?s3\<lparr>id3_file := F3\<rparr>)"
    "pos_at F3 d (p + 8 + unat (2 :: u32))"
    by (rule id3_read_data_at [of ?s3 d "p + 8" 2 2]) (use F2(2) le in \<open>simp_all add: add.commute\<close>)
  have pt3: "patch (iID3V2FrameFlag s) 0 [f1, f2] = [f1, f2]" using assms(6) by (simp add: patch_def)
  have v: "\<not> (aVersion = PV_ID3_V2_4 \<and> (word_of_nat n :: u32) > 127)"
    using assms(4,8) by (auto simp: word_less_nat_alt unat_of_nat_small)
  have "ReadFrameHeaderID3V2 bo io aVersion s = Some (Return
      (s\<lparr>iID3V2FrameID := fid @ [0], iID3V2FrameSize := word_of_nat n, id3_file := F3, iID3V2FrameFlag := [f1, f2]\<rparr>))"
    unfolding ReadFrameHeaderID3V2_def using assms(7) F1(1) F2(1) F3(1) pt2 pt3 at8(2) v by (auto simp: Let_def)
  then show thesis by (rule that) (use F3(2) in \<open>simp add: add.commute\<close>)
qed

text \<open>A text frame whose data is at \<open>pos\<close>.\<close>

lemma text_data_at:
  assumes "pos_at (id3_file s) d p" "drop p d = [0] @ text @ rest" "map_of id3_frame_ids fid = Some t" "is_text_frame t"
    "text \<noteq> []" "length text < 268435455" "\<And>k. heap k" "iVersion s = PV_ID3_V2_3"
    "unat current_file_pos + unat data_pos = p"
  obtains s' where "frame_data io heap t current_file_pos data_pos (word_of_nat (length text + 1)) s = Some (Return (True, s'))"
    "tag_core s' = tag_core s" "iFrames s' = iFrames s @ [text_kvp (fid, text)]" "iID3V2FrameID s' = iID3V2FrameID s"
    "iID3V2FrameFlag s' = iID3V2FrameFlag s" "iID3V2FrameSize s' = iID3V2FrameSize s"
    "pos_at (id3_file s') d (p + 1 + length text)"
proof -
  have ld: "length (drop p d) = 1 + length text + length rest" unfolding assms(2) by simp
  then have le: "p + 1 + length text \<le> length d" "p < length d" by simp_all
  have dp: "d ! p = 0" using assms(2) le(2) by (metis append_Cons hd_drop_conv_nth list.sel(1))
  have tx: "take (length text) (drop (p + 1) d) = text"
    unfolding add.commute [of p] drop_drop [symmetric] assms(2) by simp
  obtain F1 where F1: "id3_read8 io s = (True, 0, s\<lparr>id3_file := F1\<rparr>)" "pos_at F1 d (p + 1)"
    using id3_read8_at [OF assms(1) le(2)] dp by auto
  let ?s1 = "s\<lparr>id3_file := F1, iTextType := PV_ID3_CHARSET_ISO88591\<rparr>"
  have lt: "length d < 2147483648" by (rule atD(2) [OF assms(1)])
  have up: "unat (current_file_pos + data_pos + 1) = p + 1"
    using assms(9) le lt by (simp add: unat_word_ariths)
  obtain F2 where F2: "id3_seek io (current_file_pos + data_pos + 1) SEEKSET ?s1 = (False, ?s1\<lparr>id3_file := F2\<rparr>)" "pos_at F2 d (p + 1)"
    by (rule id3_seek_set_at [of ?s1 d "p + 1" "current_file_pos + data_pos + 1" "p + 1"]) (use F1 up le in simp_all)
  let ?s2 = "?s1\<lparr>id3_file := F2\<rparr>"
  have ul: "unat (word_of_nat (length text) :: u32) = length text" by (rule unat_of_nat_small) (use assms(6) in simp)
  obtain k where k: "KVP_KEY t = Some k" "length k < 100" using frame_idD(3) [OF assms(3,4)] by blast
  let ?key = "k @ lit '';valtype=char*''"
  have tt: "t \<notin> {PV_ID3_FRAME_TRACK_LENGTH, PV_ID3_FRAME_PIC, PV_ID3_FRAME_APIC, PV_ID3_FRAME_UNRECOGNIZED,
      PV_ID3_FRAME_CANDIDATE, PV_ID3_FRAME_LYRICS, PV_ID3_FRAME_COMMENT}"
    using assms(4) by (auto simp: is_text_frame_def)
  have key: "ConstructKvpKey s0 t PV_ID3_CHARSET_ISO88591 = (PVMFSuccess, ?key)" for s0 :: "'a id3"
    using k(1) tt by (simp add: ConstructKvpKey_def Let_def)
  obtain F3 where F3: "read_narrow io heap ?key (word_of_nat (length text)) ?s2 = Some (PVMFSuccess, push_frame
      \<lparr>kvp_key = ?key, kvp_value = CharValue (text @ [0]), kvp_length = int (length (cstr text)) + 1,
       kvp_capacity = word_of_nat (length text) + 1\<rparr> (?s2\<lparr>id3_file := F3\<rparr>))" "pos_at F3 d (p + 1 + length text)"
    using read_narrow_at [of ?s2 d "p + 1" "word_of_nat (length text)" "text" heap "?key"] F2(2) ul le tx assms(6,7) k(2) by auto
  let ?s' = "note_read t (push_frame (text_kvp (fid, text)) (?s2\<lparr>id3_file := F3\<rparr>))"
  have kv: "text_kvp (fid, text) = \<lparr>kvp_key = ?key, kvp_value = CharValue (text @ [0]), kvp_length = int (length (cstr text)) + 1,
       kvp_capacity = word_of_nat (length text) + 1\<rparr>"
    using assms(3) k(1) by (simp add: text_kvp_def add.commute)
  have "ReadStringValueFrame io heap t PV_ID3_CHARSET_ISO88591 (word_of_nat (length text)) ?s2 =
      Some (PVMFSuccess, push_frame (text_kvp (fid, text)) (?s2\<lparr>id3_file := F3\<rparr>))"
    unfolding ReadStringValueFrame_def key Let_def prod.case F3(1) kv by simp
  then have "HandleID3V2FrameDataASCII io heap t (current_file_pos + data_pos + 1) (word_of_nat (length text)) ?s1 = Some (Return ?s')"
    unfolding HandleID3V2FrameDataASCII_def handle_frame_def F2(1) using tt assms(4) by simp
  then have "frame_data io heap t current_file_pos data_pos (word_of_nat (length text + 1)) s = Some (Return (True, ?s'))"
    unfolding frame_data_def F1(1) ReadFrameData_def using tt by simp
  then show thesis by (rule that) (use F3(2) in \<open>simp_all add: push_frame_def\<close>)
qed

lemma text_step_at:
  assumes "pos_at (id3_file s) d p" "between_frames s" "drop (base + i) d = text_frame (fid, text) @ rest" "text_ok (fid, text)"
    and "length text < unat (iID3V2TagSize s)" "unat (iID3V2TagSize s) < 268435456" "unat current_file_pos = base"
    and "\<And>k. heap k"
  obtains s' where "frame_step bo io heap PV_ID3_V2_3 current_file_pos i 0 count s =
      Some (Return (Next (i + length (text_frame (fid, text))) 0 (count + 1) s'))"
    "tag_core s' = tag_core s" "iFrames s' = iFrames s @ [text_kvp (fid, text)]" "between_frames s'"
    "\<exists>p. pos_at (id3_file s') d p"
proof -
  obtain t where t: "map_of id3_frame_ids fid = Some t" "is_text_frame t" "text \<noteq> []"
    using assms(4) by (auto simp: text_ok_def)
  note fid = frame_idD [OF t(1)]
  have bytes: "drop (base + i) d = fid @ be32_bytes (length text + 1) @ [0, 0] @ [0] @ text @ rest"
    using assms(3) by (simp add: text_frame_def)
  have "length (drop (base + i) d) = 11 + length text + length rest" unfolding bytes using fid(1) by simp
  then have le: "base + i + 11 + length text \<le> length d" by simp
  have lt: "length d < 2147483648" by (rule atD(2) [OF assms(1)])
  have i: "unat (word_of_nat i :: u32) = i" using le lt by (simp add: unat_of_nat_small)
  have ci: "unat (current_file_pos + word_of_nat i) = base + i"
    using assms(7) i le lt by (simp add: unat_word_ariths)
  obtain F1 where F1: "id3_seek io (current_file_pos + word_of_nat i) SEEKSET s = (False, s\<lparr>id3_file := F1\<rparr>)" "pos_at F1 d (base + i)"
    by (rule id3_seek_set_at [OF assms(1) ci]) (use le in simp)
  let ?s1 = "s\<lparr>id3_file := F1\<rparr>"
  have n: "length text + 1 < 4294967296" "unat (word_of_nat (length text + 1) :: u32) = length text + 1"
  proof -
    show "length text + 1 < 4294967296" using assms(5,6) by simp
    then show "unat (word_of_nat (length text + 1) :: u32) = length text + 1" by (intro unat_of_nat_small) simp
  qed
  obtain F2 where F2: "ReadFrameHeaderID3V2 bo io PV_ID3_V2_3 ?s1 = Some (Return (?s1\<lparr>iID3V2FrameID := fid @ [0],
      iID3V2FrameSize := word_of_nat (length text + 1), id3_file := F2, iID3V2FrameFlag := [0, 0]\<rparr>))" "pos_at F2 d (base + i + 10)"
    by (rule read_header_at [of ?s1 d "base + i" fid "length text + 1" 0 0 "[0] @ text @ rest" PV_ID3_V2_3 bo])
      (use F1 bytes fid(1) n(1) assms(2) in \<open>simp_all add: between_frames_def\<close>)
  let ?s2 = "?s1\<lparr>iID3V2FrameID := fid @ [0], iID3V2FrameSize := word_of_nat (length text + 1), id3_file := F2, iID3V2FrameFlag := [0, 0]\<rparr>"
  let ?s3 = "note_found t ?s2"
  have sup: "FrameSupportedID3V2 PV_ID3_V2_3 None ?s2 = (t, ?s3)"
    using fid(1,2) t(1) by (cases fid) (simp_all add: FrameSupportedID3V2_def Let_def)
  have d10: "drop (base + i + 10) d = [0] @ text @ rest"
  proof -
    have "drop (base + i + 10) d = drop 10 (drop (base + i) d)" by (simp add: add.commute)
    then show ?thesis unfolding bytes using fid(1) by simp
  qed
  have dpos: "unat current_file_pos + unat (word_of_nat i + 10 + 0 :: u32) = base + i + 10"
    using assms(7) i le lt by (simp add: unat_word_ariths)
  have v: "iVersion ?s3 = PV_ID3_V2_3" using assms(2) tag_coreD(2) [of ?s3 s] by (simp add: between_frames_def)
  have sz: "iID3V2TagSize ?s3 = iID3V2TagSize s" by (rule tag_coreD(1)) simp
  obtain s4 where s4: "frame_data io heap t current_file_pos (word_of_nat i + 10 + 0) (word_of_nat (length text + 1)) ?s3 = Some (Return (True, s4))"
    "tag_core s4 = tag_core ?s3" "iFrames s4 = iFrames ?s3 @ [text_kvp (fid, text)]" "iID3V2FrameID s4 = iID3V2FrameID ?s3"
    "iID3V2FrameFlag s4 = iID3V2FrameFlag ?s3" "iID3V2FrameSize s4 = iID3V2FrameSize ?s3"
    "pos_at (id3_file s4) d (base + i + 10 + 1 + length text)"
    by (rule text_data_at [of ?s3 d "base + i + 10" "text" rest fid t heap current_file_pos "word_of_nat i + 10 + 0"])
      (use F2(2) d10 t assms(5,6,8) v dpos in simp_all)
  have tt: "t \<noteq> PV_ID3_FRAME_SEEK" "\<not> unsupported_frame t" "t \<noteq> PV_ID3_FRAME_EEND" "t \<noteq> PV_ID3_FRAME_UNRECOGNIZED"
    using t(2) by (auto simp: is_text_frame_def unsupported_frame_def)
  have size: "iID3V2FrameSize ?s3 = word_of_nat (length text + 1)" "iID3V2FrameFlag ?s3 = [0, 0]" by simp_all
  have nz: "(word_of_nat (length text + 1) :: u32) \<noteq> 0" "(word_of_nat (length text + 1) :: u32) > 1"
    "\<not> (word_of_nat (length text + 1) :: u32) > iID3V2TagSize s"
    using n(2) t(3) assms(5) by (auto simp: word_less_nat_alt word_unat_eq_iff simp del: of_nat_add of_nat_Suc)
  have "frame_step bo io heap PV_ID3_V2_3 current_file_pos i 0 count s =
      Some (Return (Next (i + (length text + 1) + 10) 0 (count + 1) s4))"
    unfolding frame_step_def F1(1) F2(1) bind.bind_lunit prod.case bool.case on_return_simps sup Let_def size sz
      frame_body_def frame_header_size_def
    using tt nz s4(1,6) n(2) by (simp add: size del: of_nat_add of_nat_Suc)
  then show thesis
    using s4 assms(2) fid(1) v tag_coreD(2) [OF s4(2)]
    by (intro that [of s4]) (auto simp: text_frame_def between_frames_def)
qed

text \<open>The padding ends the tag.\<close>

lemma padding_step_at:
  assumes "pos_at (id3_file s) d p" "between_frames s" "drop (base + i) d = replicate 10 0 @ rest"
    and "unat (iID3V2TagSize s) < 268435456" "unat current_file_pos = base"
  obtains s' where "frame_step bo io heap PV_ID3_V2_3 current_file_pos i 0 count s =
      Some (Return (Next (unat (iID3V2TagSize s) + 1 + 10) 0 count s'))"
    "tag_core s' = tag_core s" "iFrames s' = iFrames s" "\<exists>p. pos_at (id3_file s') d p"
proof -
  have "length (drop (base + i) d) = 10 + length rest" unfolding assms(3) by simp
  then have le: "base + i + 10 \<le> length d" by simp
  have lt: "length d < 2147483648" by (rule atD(2) [OF assms(1)])
  have i: "unat (word_of_nat i :: u32) = i" using le lt by (simp add: unat_of_nat_small)
  have ci: "unat (current_file_pos + word_of_nat i) = base + i"
    using assms(5) i le lt by (simp add: unat_word_ariths)
  obtain F1 where F1: "id3_seek io (current_file_pos + word_of_nat i) SEEKSET s = (False, s\<lparr>id3_file := F1\<rparr>)" "pos_at F1 d (base + i)"
    by (rule id3_seek_set_at [OF assms(1) ci]) (use le in simp)
  let ?s1 = "s\<lparr>id3_file := F1\<rparr>"
  have bytes: "drop (base + i) d = [0, 0, 0, 0] @ be32_bytes 0 @ [0, 0] @ rest"
    unfolding assms(3) zero_header by simp
  obtain F2 where F2: "ReadFrameHeaderID3V2 bo io PV_ID3_V2_3 ?s1 = Some (Return (?s1\<lparr>iID3V2FrameID := [0, 0, 0, 0] @ [0],
      iID3V2FrameSize := word_of_nat 0, id3_file := F2, iID3V2FrameFlag := [0, 0]\<rparr>))" "pos_at F2 d (base + i + 10)"
    by (rule read_header_at [of ?s1 d "base + i" "[0, 0, 0, 0]" 0 0 0 "rest" PV_ID3_V2_3 bo])
      (use F1 bytes assms(2) in \<open>simp_all add: between_frames_def\<close>)
  let ?s2 = "?s1\<lparr>iID3V2FrameID := [0, 0, 0, 0, 0], iID3V2FrameSize := 0, id3_file := F2, iID3V2FrameFlag := [0, 0]\<rparr>"
  have F2': "ReadFrameHeaderID3V2 bo io PV_ID3_V2_3 ?s1 = Some (Return ?s2)" using F2(1) by simp
  have no: "map_of id3_frame_ids [0, 0, 0, 0] = None" by (simp add: id3_frame_ids_def)
  have sup: "FrameSupportedID3V2 PV_ID3_V2_3 None ?s2 = (PV_ID3_FRAME_EEND, ?s2)"
    by (simp add: FrameSupportedID3V2_def no)
  have "frame_step bo io heap PV_ID3_V2_3 current_file_pos i 0 count s =
      Some (Return (Next (unat (iID3V2TagSize s) + 1 + 10) 0 count ?s2))"
    unfolding frame_step_def F1(1) F2' bind.bind_lunit prod.case bool.case on_return_simps sup Let_def
    by (simp add: frame_body_def frame_header_size_def unsupported_frame_def)
  then show thesis by (rule that) (use F2(2) in auto)
qed

text \<open>The loop over a tag of text frames and padding.\<close>

lemma tag_loop_at:
  assumes "pos_at (id3_file s) d p" "between_frames s" "drop (base + i) d = text_frames fs @ replicate 10 0 @ rest"
    and "list_all text_ok fs" "i + length (text_frames fs) \<le> tag_size"
    and "unat (iID3V2TagSize s) = tag_size" "tag_size < 268435456" "unat current_file_pos = base" "\<And>k. heap k"
  shows "\<exists>s'. tag_loop bo io heap PV_ID3_V2_3 current_file_pos tag_size i 0 count s = Some (Return (count + length fs, s')) \<and>
    tag_core s' = tag_core s \<and> iFrames s' = iFrames s @ List.map text_kvp fs \<and> (\<exists>p. pos_at (id3_file s') d p)"
  using assms(1-6)
proof (induction fs arbitrary: s p i count)
  case Nil
  obtain s' where s': "frame_step bo io heap PV_ID3_V2_3 current_file_pos i 0 count s =
      Some (Return (Next (unat (iID3V2TagSize s) + 1 + 10) 0 count s'))"
    "tag_core s' = tag_core s" "iFrames s' = iFrames s" "\<exists>p. pos_at (id3_file s') d p"
    by (rule padding_step_at [of s d p base i rest current_file_pos bo heap count])
      (use Nil.prems assms(7,8) in simp_all)
  then show ?case
    using Nil.prems(5,6) tag_loop.simps [of bo io heap PV_ID3_V2_3 current_file_pos tag_size "11 + tag_size"]
    by (simp add: tag_loop.simps [of bo io heap PV_ID3_V2_3 current_file_pos tag_size i])
next
  case (Cons f fs)
  obtain fid tx where f: "f = (fid, tx)" by (cases f)
  have bytes: "drop (base + i) d = text_frame (fid, tx) @ text_frames fs @ replicate 10 0 @ rest"
    using Cons.prems(3) f by simp
  have len: "length (text_frame (fid, tx)) = length fid + 7 + length tx" by (simp add: text_frame_def)
  obtain s' where s': "frame_step bo io heap PV_ID3_V2_3 current_file_pos i 0 count s =
      Some (Return (Next (i + length (text_frame (fid, tx))) 0 (count + 1) s'))"
    "tag_core s' = tag_core s" "iFrames s' = iFrames s @ [text_kvp (fid, tx)]" "between_frames s'"
    "\<exists>p. pos_at (id3_file s') d p"
    by (rule text_step_at [OF Cons.prems(1,2) bytes, of current_file_pos heap bo count])
      (use Cons.prems(4-6) assms(7,8,9) f len in simp_all)
  from s'(5) obtain p' where p': "pos_at (id3_file s') d p'" ..
  have "drop (base + (i + length (text_frame f))) d = drop (length (text_frame f)) (drop (base + i) d)"
    by (simp only: drop_drop ac_simps)
  then have d': "drop (base + (i + length (text_frame f))) d = text_frames fs @ replicate 10 0 @ rest"
    unfolding bytes f by simp
  obtain s2 where s2: "tag_loop bo io heap PV_ID3_V2_3 current_file_pos tag_size (i + length (text_frame f)) 0 (count + 1) s' =
      Some (Return (count + 1 + length fs, s2))"
    "tag_core s2 = tag_core s'" "iFrames s2 = iFrames s' @ List.map text_kvp fs" "\<exists>p. pos_at (id3_file s2) d p"
    using Cons.IH [OF p' s'(4) d', of "count + 1"] Cons.prems(4-6) s'(2) by (auto simp: tag_core_def)
  have go: "i \<le> tag_size" "\<not> i + length (text_frame f) \<le> i" using Cons.prems(5) len f by simp_all
  have "tag_loop bo io heap PV_ID3_V2_3 current_file_pos tag_size i 0 count s = Some (Return (count + length (f # fs), s2))"
    using go s2(1) by (simp add: tag_loop.simps [of bo io heap PV_ID3_V2_3 current_file_pos tag_size i] s'(1) f)
  then show ?case using s2 s'(2,3) f by auto
qed

lemma parse_open_at:
  assumes "pos_at (id3_file s) d 0"
  obtains F where "id3_tell io s = 0" "id3_seek io 0 SEEKSET s = (False, s\<lparr>id3_file := F\<rparr>)" "pos_at F d 0"
proof -
  have "id3_tell io s = 0" using id3_tell_at [OF assms] by (simp add: unat_eq_0)
  moreover obtain F where "id3_seek io 0 SEEKSET s = (False, s\<lparr>id3_file := F\<rparr>)" "pos_at F d 0"
    by (rule id3_seek_set_at [OF assms, of 0 0]) simp_all
  ultimately show thesis by (rule that)
qed

lemma open_input_at:
  assumes "pos_at (id3_file s) d 0"
  obtains F where "open_input io s = s\<lparr>id3_file := F, iFileSizeInBytes := int (length d)\<rparr>" "pos_at F d 0"
proof -
  obtain F where "GetRemainingBytes io (id3_file s) = (Some (int (length d) - int 0), F)" "pos_at F d 0"
    by (rule remaining_at [OF assms])
  then show thesis using that [of F] atD(2) [OF assms] by (simp add: open_input_def in_range)
qed

lemma check_v2_at:
  assumes "pos_at (id3_file s) d p" "take 3 (drop p d) = lit ''ID3''"
  obtains F where "CheckForTagID3V2 io s = Some (True, s\<lparr>id3_file := F, iTagAtBof := True, iID3V2Present := True\<rparr>)" "pos_at F d (p + 3)"
proof -
  have "length (take 3 (drop p d)) = 3" unfolding assms(2) by simp
  then have "p + 3 \<le> length d" by simp
  then obtain F where "id3_readByteData io 3 11 s = Some (True, take 3 (drop p d), s\<lparr>id3_file := F\<rparr>)" "pos_at F d (p + 3)"
    using id3_read_data_at [OF assms(1), of 3 11] by auto
  then show thesis using that [of F] assms(2) by (simp add: CheckForTagID3V2_def)
qed

text \<open>No tag of version 1: the file is shorter than one, or its last 128 bytes do not begin with \<open>TAG\<close>.\<close>

lemma check_v1_at:
  assumes "pos_at (id3_file s) d p" "iFileSizeInBytes s = int (length d)" "take 3 (drop (length d - 128) d) \<noteq> lit ''TAG'' \<or> length d < 128"
  obtains F p where "CheckForTagID3V1 io s = Some (False, s\<lparr>id3_file := F\<rparr>)" "pos_at F d p"
proof (cases "length d < 128")
  case True
  then show ?thesis using that [of "id3_file s"] assms by (simp add: CheckForTagID3V1_def)
next
  case False
  have lt: "length d < 2147483648" by (rule atD(2) [OF assms(1)])
  have e: "int (length d) - 128 = int (length d - 128)" using False by simp
  have n: "unat (word_of_int (int (length d) - 128) :: u32) = length d - 128"
    unfolding e of_int_of_nat_eq by (rule unat_of_nat_small) (use lt in simp)
  obtain F1 where F1: "id3_seek io (word_of_int (int (length d) - 128)) SEEKSET s = (False, s\<lparr>id3_file := F1\<rparr>)"
    "pos_at F1 d (length d - 128)"
    by (rule id3_seek_set_at [OF assms(1) n]) simp
  obtain F2 where F2: "id3_readByteData io 3 4 (s\<lparr>id3_file := F1\<rparr>) =
      Some (True, take 3 (drop (length d - 128) d), s\<lparr>id3_file := F2\<rparr>)" "pos_at F2 d (length d - 128 + 3)"
    using id3_read_data_at [of "s\<lparr>id3_file := F1\<rparr>" d "length d - 128" 3 4] F1(2) False by auto
  show ?thesis using that [of F2] F1 F2 False assms(2,3) by (simp add: CheckForTagID3V1_def)
qed

lemma header_at:
  assumes "pos_at (id3_file s) d 3" "drop 3 d = [3, 0, 0] @ be32_bytes m @ text_frames fs @ replicate 10 0 @ rest"
    and "m < 4294967296" "SafeSynchIntToInt32 bo (word_of_nat m) = word_of_nat N" "N < 268435456"
    and "length (text_frames fs) \<le> N" "list_all text_ok fs" "\<And>k. heap k"
    and "\<not> iSeekFrameFound s" "iID3V2ExtendedHeaderSize s = 0" "\<not> iFooterPresent s" "iTagAtBof s"
    and "length (iID3V2FrameID s) = 5" "length (iID3V2FrameFlag s) = 2"
  obtains s' p where "ReadHeaderID3V2 (Suc n) bo io heap True s = Some (Return (Done (fs \<noteq> []) s'))"
    "pos_at (id3_file s') d p" "iFrames s' = iFrames s @ List.map text_kvp fs" "iVersion s' = PV_ID3_V2_3"
    "iByteOffsetToStartOfAudioFrames s' = word_of_nat N + 10" "iFileSizeInBytes s' = iFileSizeInBytes s"
    "iID3V1Present s' = iID3V1Present s" "iID3V2Present s' = iID3V2Present s"
proof -
  have "length (drop 3 d) \<ge> 17" unfolding assms(2) by simp
  then have le: "20 \<le> length d" by simp
  have nth: "d ! 3 = 3" "d ! 4 = 0" "d ! 5 = 0"
  proof -
    have "drop 3 d ! j = ([3, 0, 0] @ be32_bytes m @ text_frames fs @ replicate 10 0 @ rest) ! j" for j
      unfolding assms(2) by (rule refl)
    from this [of 0] this [of 1] this [of 2] le show "d ! 3 = 3" "d ! 4 = 0" "d ! 5 = 0" by simp_all
  qed
  have d6: "take 4 (drop 6 d) = be32_bytes m"
    using arg_cong [OF assms(2), of "\<lambda>x. take 4 (drop 3 x)"] by simp
  have d10: "drop (10 + 0) d = text_frames fs @ replicate 10 0 @ rest"
    using arg_cong [OF assms(2), of "\<lambda>x. drop 7 x"] by simp
  obtain F1 where F1: "id3_read8 io s = (True, 3, s\<lparr>id3_file := F1\<rparr>)" "pos_at F1 d 4"
    using id3_read8_at [OF assms(1)] le nth by auto
  obtain F2 where F2: "id3_read8 io (s\<lparr>id3_file := F1\<rparr>) = (True, 0, s\<lparr>id3_file := F2\<rparr>)" "pos_at F2 d 5"
    using id3_read8_at [of "s\<lparr>id3_file := F1\<rparr>" d 4] F1(2) le nth by auto
  let ?s2 = "s\<lparr>id3_file := F2, iVersion := PV_ID3_V2_3\<rparr>"
  obtain F3 where F3: "id3_read8 io ?s2 = (True, 0, ?s2\<lparr>id3_file := F3\<rparr>)" "pos_at F3 d 6"
    using id3_read8_at [of ?s2 d 5] F2(2) le nth by auto
  let ?s3 = "?s2\<lparr>id3_file := F3, iID3V2TagFlagsV2 := 0\<rparr>"
  obtain F4 where F4: "id3_read32 io ?s3 = (True, word_of_nat m, ?s3\<lparr>id3_file := F4\<rparr>)" "pos_at F4 d 10"
    using id3_read32_at [of ?s3 d 6 m] F3(2) le d6 assms(3) by auto
  let ?s5 = "?s3\<lparr>id3_file := F4, iID3V2TagSize := word_of_nat N, iByteOffsetToStartOfAudioFrames := word_of_nat N + 10\<rparr>"
  have N: "unat (word_of_nat N :: u32) = N" by (rule unat_of_nat_small) (use assms(5) in simp)
  have tell: "unat (id3_tell io ?s5) = 10" by (rule id3_tell_at) (use F4(2) in simp)
  obtain s' p where s': "tag_loop bo io heap PV_ID3_V2_3 (id3_tell io ?s5) N 0 0 0 ?s5 = Some (Return (0 + length fs, s'))"
    "tag_core s' = tag_core ?s5" "iFrames s' = iFrames ?s5 @ List.map text_kvp fs" "pos_at (id3_file s') d p"
    using tag_loop_at [of ?s5 d 10 10 0 fs rest N "id3_tell io ?s5" heap bo 0] F4(2) d10 assms(5-8,13,14) N tell
    by (auto simp: between_frames_def)
  have tags: "ReadTagID3V2 bo io heap PV_ID3_V2_3 ?s5 = Some (Return (length fs, s'))"
    using s'(1) assms(10) by (simp add: ReadTagID3V2_def N)
  have sf: "\<not> iSeekFrameFound s'" using assms(9) tag_coreD(3) [OF s'(2)] by simp
  have "header_pass bo io heap True False ?s2 = Some (Return (Done (fs \<noteq> []) s'))"
    unfolding header_pass_def F3(1) prod.case Let_def
    using F4(1) assms(4,11,12) tags sf by simp
  then have "ReadHeaderID3V2 (Suc n) bo io heap True s = Some (Return (Done (fs \<noteq> []) s'))"
    by (simp add: ReadHeaderID3V2_def F1(1) F2(1))
  then show thesis by (rule that) (use s'(2-4) in \<open>simp_all add: tag_core_def\<close>)
qed

end

text \<open>A tag of version 2.3: its size is written by \<open>ConvertToSyncSafeInt\<close>.\<close>

definition text_tag :: "(u8 list \<times> u8 list) list \<Rightarrow> nat \<Rightarrow> u8 list" where
  "text_tag fs pad =
     lit ''ID3'' @ [3, 0, 0] @ be32_bytes (unat (ConvertToSyncSafeInt (word_of_nat (length (text_frames fs) + pad)))) @
     text_frames fs @ replicate pad 0"

lemma length_text_tag [simp]: "length (text_tag fs pad) = 10 + length (text_frames fs) + pad"
  by (simp add: text_tag_def)

text \<open>The size that the code reads, compiled for the byte order \<open>bo\<close>, from the header of a tag of size \<open>n\<close>.\<close>

definition tag_size_read :: "byte_order \<Rightarrow> nat \<Rightarrow> nat" where
  "tag_size_read bo n = unat (SafeSynchIntToInt32 bo (ConvertToSyncSafeInt (word_of_nat n)))"

lemma tag_size_read:
  assumes "n < 268435456"
  shows "tag_size_read LITTLE_ENDIAN n = n" "tag_size_read bo n < 268435456"
proof -
  have n: "unat (word_of_nat n :: u32) = n" by (rule unat_of_nat_small) (use assms in simp)
  note parts = sync_safe_parts [of "word_of_nat n", unfolded n]
  show le: "tag_size_read LITTLE_ENDIAN n = n" using parts assms n by (simp add: tag_size_read_def)
  have digits: "n div 2097152 < 128" "n div 16384 mod 128 < 128" "n div 128 mod 128 < 128" "n mod 128 < 128" using assms by simp_all
  have "tag_size_read BIG_ENDIAN n < 268435456"
    using parts assms digits by (simp add: tag_size_read_def repository_byte_order_def sync_val_def)
  then show "tag_size_read bo n < 268435456" using le assms by (cases bo) simp_all
qed

context byte_file
begin

lemma parse_begin_at:
  assumes "pos_at (id3_file s) d 0" "take 3 (drop 0 d) = lit ''ID3''"
  obtains F where "ParseID3Tag n bo io heap buffsize s = do {
      r \<leftarrow> ReadHeaderID3V2 n bo io heap True
        (s\<lparr>iFileSizeInBytes := int (length d), id3_file := F, iTagAtBof := True, iID3V2Present := True\<rparr>);
      on_return r (\<lambda>p. case p of
        Again _ _ \<Rightarrow> Some (Return None)
      | Done _ s \<Rightarrow> do {
          (v1, s) \<leftarrow> CheckForTagID3V1 io s;
          r \<leftarrow> (if v1 then ReadID3V1Tag io heap (s\<lparr>iVersion := PV_ID3_V1\<rparr>) else Some (Return s));
          on_return r (seek_home io 0) }) }"
    "pos_at F d 3"
proof -
  obtain F1 where F1: "id3_tell io s = 0" "id3_seek io 0 SEEKSET s = (False, s\<lparr>id3_file := F1\<rparr>)" "pos_at F1 d 0"
    by (rule parse_open_at [OF assms(1)])
  obtain F2 where F2: "open_input io (s\<lparr>id3_file := F1\<rparr>) = s\<lparr>id3_file := F2, iFileSizeInBytes := int (length d)\<rparr>" "pos_at F2 d 0"
    using open_input_at [of "s\<lparr>id3_file := F1\<rparr>" d] F1(3) by auto
  let ?s2 = "s\<lparr>id3_file := F2, iFileSizeInBytes := int (length d)\<rparr>"
  obtain F3 where F3: "id3_seek io 0 SEEKSET ?s2 = (False, ?s2\<lparr>id3_file := F3\<rparr>)" "pos_at F3 d 0"
    using parse_open_at [of ?s2 d] F2(2) by auto
  obtain F4 where F4: "CheckForTagID3V2 io (?s2\<lparr>id3_file := F3\<rparr>) =
      Some (True, ?s2\<lparr>id3_file := F4, iTagAtBof := True, iID3V2Present := True\<rparr>)" "pos_at F4 d 3"
    using check_v2_at [of "?s2\<lparr>id3_file := F3\<rparr>" d 0] F3(2) assms(2) by auto
  show thesis
    by (rule that [OF _ F4(2)], unfold ParseID3Tag_def F1(1,2) Let_def)
      (use F3(1) F4(1) in \<open>simp add: F2(1) find_tag_v2_def\<close>)
qed

lemma parse_text_tag_at:
  assumes "pos_at F d 0" "d = text_tag fs pad @ audio" "list_all text_ok fs" "10 \<le> pad" "length (text_frames fs) + pad < 268435456"
    and "take 3 (drop (length d - 128) d) \<noteq> lit ''TAG'' \<or> length d < 128" "length frame = 5"
    and "length (text_frames fs) \<le> tag_size_read bo (length (text_frames fs) + pad)"
  shows "\<exists>s'. ParseID3Tag (Suc n) bo io (\<lambda>_. True) buffsize (PVID3ParCom F text_type frame lang seek) =
      Some (Return (Some (PVMFSuccess, s'))) \<and> iFrames s' = List.map text_kvp fs \<and> iVersion s' = PV_ID3_V2_3 \<and>
      unat (iByteOffsetToStartOfAudioFrames s') = 10 + tag_size_read bo (length (text_frames fs) + pad) \<and>
      iID3V2Present s' \<and> \<not> iID3V1Present s' \<and> pos_at (id3_file s') d 0"
proof -
  define s0 where "s0 = PVID3ParCom F text_type frame lang seek"
  define k where "k = length (text_frames fs) + pad"
  define N where "N = tag_size_read bo k"
  define m where "m = unat (ConvertToSyncSafeInt (word_of_nat k))"
  have N_less: "N < 268435456" using tag_size_read(2) [of k bo] assms(5) by (simp add: N_def k_def)
  have N: "unat (word_of_nat N :: u32) = N" by (rule unat_of_nat_small) (use N_less in simp)
  have m: "m < 4294967296" unfolding m_def using unsigned_less [of "ConvertToSyncSafeInt (word_of_nat k)", where 'a = nat] by simp
  have sync: "SafeSynchIntToInt32 bo (word_of_nat m) = word_of_nat N"
    by (simp add: m_def N_def tag_size_read_def)
  have bytes: "d = lit ''ID3'' @ [3, 0, 0] @ be32_bytes m @ text_frames fs @ replicate 10 0 @ replicate (pad - 10) 0 @ audio"
    using assms(4) by (simp add: assms(2) text_tag_def m_def k_def replicate_add [symmetric])
  have d3: "take 3 (drop 0 d) = lit ''ID3''"
    "drop 3 d = [3, 0, 0] @ be32_bytes m @ text_frames fs @ replicate 10 0 @ replicate (pad - 10) 0 @ audio"
    unfolding bytes by simp_all
  have lens: "length frame = 5" by (rule assms(7))
  have p0: "pos_at (id3_file s0) d 0" using assms(1) by (simp add: s0_def PVID3ParCom_def)
  obtain F4 where F4: "ParseID3Tag (Suc n) bo io (\<lambda>_. True) buffsize s0 = do {
      r \<leftarrow> ReadHeaderID3V2 (Suc n) bo io (\<lambda>_. True) True
        (s0\<lparr>iFileSizeInBytes := int (length d), id3_file := F4, iTagAtBof := True, iID3V2Present := True\<rparr>);
      on_return r (\<lambda>p. case p of
        Again _ _ \<Rightarrow> Some (Return None)
      | Done _ s \<Rightarrow> do {
          (v1, s) \<leftarrow> CheckForTagID3V1 io s;
          r \<leftarrow> (if v1 then ReadID3V1Tag io (\<lambda>_. True) (s\<lparr>iVersion := PV_ID3_V1\<rparr>) else Some (Return s));
          on_return r (seek_home io 0) }) }" "pos_at F4 d 3"
    by (rule parse_begin_at [OF p0 d3(1)])
  let ?s4 = "s0\<lparr>iFileSizeInBytes := int (length d), id3_file := F4, iTagAtBof := True, iID3V2Present := True\<rparr>"
  obtain s5 p where s5: "ReadHeaderID3V2 (Suc n) bo io (\<lambda>_. True) True ?s4 = Some (Return (Done (fs \<noteq> []) s5))"
    "pos_at (id3_file s5) d p" "iFrames s5 = iFrames ?s4 @ List.map text_kvp fs" "iVersion s5 = PV_ID3_V2_3"
    "iByteOffsetToStartOfAudioFrames s5 = word_of_nat N + 10" "iFileSizeInBytes s5 = iFileSizeInBytes ?s4"
    "iID3V1Present s5 = iID3V1Present ?s4" "iID3V2Present s5 = iID3V2Present ?s4"
    by (rule header_at [of ?s4 d m fs "replicate (pad - 10) 0 @ audio" bo N "\<lambda>_. True" n])
      (use F4(2) d3(2) m sync N_less assms(3,8) lens in \<open>simp_all add: N_def k_def s0_def PVID3ParCom_def\<close>)
  obtain F6 p' where F6: "CheckForTagID3V1 io s5 = Some (False, s5\<lparr>id3_file := F6\<rparr>)" "pos_at F6 d p'"
    by (rule check_v1_at [OF s5(2) _ assms(6)]) (use s5(6) in simp)
  obtain F7 where F7: "id3_seek io 0 SEEKSET (s5\<lparr>id3_file := F6\<rparr>) = (False, s5\<lparr>id3_file := F7\<rparr>)" "pos_at F7 d 0"
    using id3_seek_set_at [of "s5\<lparr>id3_file := F6\<rparr>" d p' 0 0] F6(2) by auto
  have "ParseID3Tag (Suc n) bo io (\<lambda>_. True) buffsize s0 = Some (Return (Some (PVMFSuccess, s5\<lparr>id3_file := F7\<rparr>)))"
    unfolding F4(1) s5(1) bind.bind_lunit on_return_simps using F6(1) F7(1) by (simp add: seek_home_def)
  moreover have "unat (word_of_nat N + 10 :: u32) = N + 10"
    using N_less by (simp add: unat_word_ariths N)
  ultimately show ?thesis
    using s5(3-8) F7(2) by (intro exI [of _ "s5\<lparr>id3_file := F7\<rparr>"])
      (simp_all add: s0_def PVID3ParCom_def N_def k_def)
qed

end

text \<open>
  C3. Reading a tag of version 2.3, for both byte orders the code can be compiled for: \<open>ParseID3Tag\<close> on a
  file that begins with a tag of text frames in ISO 8859-1 and at least ten bytes of padding, and has no
  tag of version 1 at its end, succeeds in one pass and finds exactly the texts of the frames, in order, each
  under the key of its frame. The condition is that the size it reads from the header covers the
  frames: so it does in the little-endian order, where it is the size of the tag; in the order the
  repository defines it is the size with its groups of seven bits reversed. The offset of the
  audio data is 10 behind the size that was read, so it is right in the little-endian order only. The position is
  the beginning again.
\<close>

theorem ParseID3Tag_text_tag:
  assumes "length mem = 4096" "length (text_tag fs pad @ audio) < 2 ^ 31" "list_all text_ok fs" "10 \<le> pad"
    and "length (text_frames fs) + pad < 2 ^ 28" "length frame = 5"
    and "take 3 (drop (length (text_tag fs pad @ audio) - 128) (text_tag fs pad @ audio)) \<noteq> lit ''TAG'' \<or>
      length (text_tag fs pad @ audio) < 128"
    and "bo = LITTLE_ENDIAN \<or> length (text_frames fs) \<le> tag_size_read bo (length (text_frames fs) + pad)"
  shows "\<exists>s'. ParseID3Tag (Suc n) bo cached_file (\<lambda>_. True) buffsize
      (PVID3ParCom (pv_open mem (text_tag fs pad @ audio)) text_type frame lang seek) = Some (Return (Some (PVMFSuccess, s'))) \<and>
    iFrames s' = List.map text_kvp fs \<and> iVersion s' = PV_ID3_V2_3 \<and>
    unat (iByteOffsetToStartOfAudioFrames s') = 10 + tag_size_read bo (length (text_frames fs) + pad) \<and>
    tag_size_read LITTLE_ENDIAN (length (text_frames fs) + pad) = length (text_frames fs) + pad \<and>
    iID3V2Present s' \<and> \<not> iID3V1Present s' \<and> file_at (id3_file s') (text_tag fs pad @ audio) 0"
proof -
  have le: "tag_size_read LITTLE_ENDIAN (length (text_frames fs) + pad) = length (text_frames fs) + pad"
    by (rule tag_size_read(1)) (use assms(5) in simp)
  then have "length (text_frames fs) \<le> tag_size_read bo (length (text_frames fs) + pad)" using assms(8) by auto
  then show ?thesis
    using cached.parse_text_tag_at [OF pv_open_at refl assms(3,4), of mem audio frame bo n buffsize text_type lang seek] assms(1,2,5-7) le
    by auto
qed

theorem ParseID3Tag_text_tag_witness:
  "\<exists>s'. ParseID3Tag 1 repository_byte_order cached_file (\<lambda>_. True) 100
      (PVID3ParCom (pv_open (replicate 4096 0) (text_tag [(lit ''TIT2'', lit ''Song''), (lit ''TPE1'', lit ''Band'')] 20 @ [255, 251]))
        PV_ID3_CHARSET_ISO88591 [0, 0, 0, 0, 0] [] 0) = Some (Return (Some (PVMFSuccess, s'))) \<and>
    List.map kvp_key (iFrames s') = [lit ''title;valtype=char*'', lit ''artist;valtype=char*''] \<and>
    List.map kvp_value (iFrames s') = [CharValue (lit ''Song'' @ [0]), CharValue (lit ''Band'' @ [0])] \<and>
    unat (iByteOffsetToStartOfAudioFrames s') = 104857610"
proof -
  let ?fs = "[(lit ''TIT2'', lit ''Song''), (lit ''TPE1'', lit ''Band'')]"
  have ok: "list_all text_ok ?fs"
    by (simp add: text_ok_def id3_frame_ids_def is_text_frame_def plain_string_def)
  have keys: "List.map kvp_key (List.map text_kvp ?fs) = [lit ''title;valtype=char*'', lit ''artist;valtype=char*'']"
    by (simp add: text_kvp_def id3_frame_ids_def KVP_KEY_def)
  have len: "length (text_tag ?fs 20 @ [255, 251]) = 62" "length (text_frames ?fs) = 30"
    by (simp_all add: text_frame_def)
  have size: "tag_size_read repository_byte_order 50 = 104857600"
    using sync_safe_parts [of 50] by (simp add: tag_size_read_def sync_val_def)
  obtain s' where "ParseID3Tag (Suc 0) repository_byte_order cached_file (\<lambda>_. True) 100
      (PVID3ParCom (pv_open (replicate 4096 0) (text_tag ?fs 20 @ [255, 251])) PV_ID3_CHARSET_ISO88591 [0, 0, 0, 0, 0] [] 0) =
      Some (Return (Some (PVMFSuccess, s')))" "iFrames s' = List.map text_kvp ?fs"
    "unat (iByteOffsetToStartOfAudioFrames s') = 104857610"
    using ParseID3Tag_text_tag [of "replicate 4096 0" ?fs 20 "[255, 251]" "[0, 0, 0, 0, 0]" repository_byte_order 0 100 PV_ID3_CHARSET_ISO88591 "[]" 0] ok len size
    by auto
  then show ?thesis using keys by (auto simp: text_kvp_def)
qed

section \<open>Tags that refer to each other\<close>

text \<open>
  A tag of version 2.4 of size 0 whose \<open>SEEK\<close> frame leads 14 bytes behind the header of a first tag. Two of them
  are a file: the second one leads to itself, because the offset counts from the size of the tag.
\<close>

definition seek_tag :: "u8 list" where
  "seek_tag = lit ''ID3'' @ [4, 0] @ [0] @ be32_bytes 0 @ lit ''SEEK'' @ be32_bytes 14 @ [0, 0]"

definition seek_cycle :: "u8 list" where
  "seek_cycle = seek_tag @ [0, 0, 0, 0] @ seek_tag"

lemma seek_cycle_frames:
  "drop 10 seek_cycle = lit ''SEEK'' @ be32_bytes 14 @ [0, 0] @ drop 20 seek_cycle"
  "drop 34 seek_cycle = lit ''SEEK'' @ be32_bytes 14 @ [0, 0] @ []"
  by (simp_all add: seek_cycle_def seek_tag_def)

lemma seek_cycle_bytes:
  "seek_cycle = [73, 68, 51, 4, 0, 0, 0, 0, 0, 0, 83, 69, 69, 75, 0, 0, 0, 14, 0, 0, 0, 0, 0, 0,
     73, 68, 51, 4, 0, 0, 0, 0, 0, 0, 83, 69, 69, 75, 0, 0, 0, 14, 0, 0]"
  by (simp add: seek_cycle_def seek_tag_def be32_bytes_def)

lemma length_seek_cycle [simp]: "length seek_cycle = 44"
  by (simp add: seek_cycle_bytes)

definition in_cycle :: "'f id3 \<Rightarrow> bool" where
  "in_cycle s \<longleftrightarrow> iVersion s = PV_ID3_V2_4 \<and> iID3V2ExtendedHeaderSize s = 0 \<and> \<not> iFooterPresent s \<and>
     length (iID3V2FrameID s) = 5 \<and> length (iID3V2FrameFlag s) = 2"

lemma SafeSynch_0 [simp]: "SafeSynchIntToInt32 bo 0 = 0"
  by (cases bo) (simp_all add: word_unat_eq_iff unat_SafeSynch sync_val_def)

context byte_file
begin

lemma id3_read8_is:
  assumes "pos_at (id3_file s) d p" "p < length d" "d ! p = c" "q = p + 1"
  obtains F where "id3_read8 io s = (True, c, s\<lparr>id3_file := F\<rparr>)" "pos_at F d q"
  using id3_read8_at [OF assms(1,2)] unfolding assms(3,4) .

lemma id3_read32_is:
  assumes "pos_at (id3_file s) d p" "p + 4 \<le> length d" "take 4 (drop p d) = be32_bytes n" "n < 4294967296" "w = word_of_nat n" "q = p + 4"
  obtains F where "id3_read32 io s = (True, w, s\<lparr>id3_file := F\<rparr>)" "pos_at F d q"
  using id3_read32_at [OF assms(1-4)] unfolding assms(5,6) .

lemma id3_seek_cur_at:
  assumes "pos_at (id3_file s) d p" "unat off = k" "p + k \<le> length d"
  obtains F where "id3_seek io off SEEKCUR s = (False, s\<lparr>id3_file := F\<rparr>)" "pos_at F d (p + k)"
proof -
  have so: "sint off = int k" using sint_small [of off] atD(2) [OF assms(1)] assms(2,3) by simp
  obtain F where "pv_seek io (int k) SEEKCUR (id3_file s) = (0, F)" "pos_at F d (p + k)"
    by (rule seek_at [OF assms(1), of "int p + int k" "int k" SEEKCUR]) (use assms(3) in \<open>simp_all add: nat_int_add\<close>)
  then show thesis using that by (simp add: id3_seek_def so)
qed

lemma seek_frame_at:
  assumes "pos_at (id3_file s) seek_cycle q" "q \<in> {10, 34}" "in_cycle s" "iID3V2TagSize s = 0"
  obtains F where "ReadTagID3V2 bo io heap PV_ID3_V2_4 s = Some (Return (0, s\<lparr>id3_file := F, iID3V2FrameID := lit ''SEEK'' @ [0],
      iID3V2FrameSize := 14, iID3V2FrameFlag := [0, 0], iSeekFrameFound := True, iID3V2SeekOffset := 14\<rparr>))"
    "pos_at F seek_cycle (q + 10)"
proof -
  obtain rest where bytes: "drop q seek_cycle = lit ''SEEK'' @ be32_bytes 14 @ [0, 0] @ rest"
    using assms(2) seek_cycle_frames by auto
  have q: "unat (id3_tell io s) = q" by (rule id3_tell_at [OF assms(1)])
  obtain F1 where F1: "id3_seek io (id3_tell io s + word_of_nat 0) SEEKSET s = (False, s\<lparr>id3_file := F1\<rparr>)" "pos_at F1 seek_cycle q"
    by (rule id3_seek_set_at [OF assms(1), of "id3_tell io s + word_of_nat 0" q]) (use q assms(2) in auto)
  let ?s1 = "s\<lparr>id3_file := F1\<rparr>"
  obtain F2 where F2: "ReadFrameHeaderID3V2 bo io PV_ID3_V2_4 ?s1 = Some (Return (?s1\<lparr>iID3V2FrameID := lit ''SEEK'' @ [0],
      iID3V2FrameSize := word_of_nat 14, id3_file := F2, iID3V2FrameFlag := [0, 0]\<rparr>))" "pos_at F2 seek_cycle (q + 10)"
    by (rule read_header_at [of ?s1 seek_cycle q "lit ''SEEK''" 14 0 0 rest PV_ID3_V2_4 bo])
      (use F1 bytes assms(3) in \<open>simp_all add: in_cycle_def\<close>)
  let ?s2 = "?s1\<lparr>iID3V2FrameID := lit ''SEEK'' @ [0], iID3V2FrameSize := word_of_nat 14, id3_file := F2, iID3V2FrameFlag := [0, 0]\<rparr>"
  have sup: "FrameSupportedID3V2 PV_ID3_V2_4 None ?s2 = (PV_ID3_FRAME_SEEK, ?s2)"
    by (simp add: FrameSupportedID3V2_def id3_frame_ids_def note_found_def)
  have "frame_step bo io heap PV_ID3_V2_4 (id3_tell io s) 0 0 0 s =
      Some (Return (Finish 0 (?s2\<lparr>iSeekFrameFound := True, iID3V2SeekOffset := iID3V2FrameSize ?s2\<rparr>)))"
    unfolding frame_step_def F1(1) F2(1) bind.bind_lunit prod.case bool.case on_return_simps sup Let_def
    by simp
  then have "ReadTagID3V2 bo io heap PV_ID3_V2_4 s = Some (Return (0, ?s2\<lparr>iSeekFrameFound := True, iID3V2SeekOffset := 14\<rparr>))"
    using assms(3,4) by (simp add: ReadTagID3V2_def in_cycle_def tag_loop.simps [of _ _ _ _ _ 0 0])
  then show thesis using that [of F2] F2(2) by simp
qed

lemma follow_cycle_at:
  assumes "pos_at (id3_file s) seek_cycle p" "in_cycle s" "iID3V2TagSize s = 0" "iID3V2SeekOffset s = 14"
  obtains s' where "follow_seek io r s = Some (Again r s')" "pos_at (id3_file s') seek_cycle 29" "in_cycle s'"
proof -
  have b: "take 3 (drop 24 seek_cycle) = lit ''ID3''" "seek_cycle ! 27 = 4" "seek_cycle ! 28 = 0"
    by (simp_all add: seek_cycle_bytes)
  obtain F1 where F1: "id3_seek io 10 SEEKSET s = (False, s\<lparr>id3_file := F1\<rparr>)" "pos_at F1 seek_cycle 10"
    by (rule id3_seek_set_at [OF assms(1), of 10 10]) simp_all
  obtain F2 where F2: "id3_seek io 14 SEEKCUR (s\<lparr>id3_file := F1\<rparr>) = (False, s\<lparr>id3_file := F2\<rparr>)" "pos_at F2 seek_cycle 24"
    using id3_seek_cur_at [of "s\<lparr>id3_file := F1\<rparr>" seek_cycle 10 14 14] F1(2) by auto
  define t where "t = s\<lparr>iTagAtBof := True, iID3V2Present := True\<rparr>"
  obtain F3 where F3: "CheckForTagID3V2 io (s\<lparr>id3_file := F2\<rparr>) =
      Some (True, s\<lparr>id3_file := F3, iTagAtBof := True, iID3V2Present := True\<rparr>)" "pos_at F3 seek_cycle 27"
    using check_v2_at [of "s\<lparr>id3_file := F2\<rparr>" seek_cycle 24] F2(2) b(1) by auto
  obtain F4 where F4: "id3_read8 io (s\<lparr>id3_file := F3, iTagAtBof := True, iID3V2Present := True\<rparr>) = (True, 4, t\<lparr>id3_file := F4\<rparr>)"
    "pos_at F4 seek_cycle 28"
    using id3_read8_is [of "s\<lparr>id3_file := F3, iTagAtBof := True, iID3V2Present := True\<rparr>" seek_cycle 27 4 28] F3(2) b(2)
    by (auto simp: t_def)
  obtain F5 where F5: "id3_read8 io (t\<lparr>id3_file := F4\<rparr>) = (True, 0, t\<lparr>id3_file := F5\<rparr>)" "pos_at F5 seek_cycle 29"
    by (rule id3_read8_is [of "t\<lparr>id3_file := F4\<rparr>" seek_cycle 28 0 29]) (use F4(2) b(3) in simp_all)
  have "follow_seek io r s = Some (Again r (t\<lparr>id3_file := F5, iSeekFrameFound := False\<rparr>))"
    using F1(1) F2(1) F3(1) F4(1) F5(1) assms(2-4) by (simp add: follow_seek_def in_cycle_def)
  then show thesis by (rule that) (use F5(2) assms(2) in \<open>simp_all add: in_cycle_def t_def\<close>)
qed

lemma cycle_pass_at:
  assumes "pos_at (id3_file s) seek_cycle q" "q \<in> {5, 29}" "in_cycle s"
  obtains s' where "header_pass bo io heap True r s = Some (Return (Again r s'))" "pos_at (id3_file s') seek_cycle 29" "in_cycle s'"
proof -
  have b: "seek_cycle ! q = 0" "take 4 (drop (q + 1) seek_cycle) = be32_bytes 0" "q + 5 < length seek_cycle"
    using assms(2) by (auto simp: seek_cycle_bytes be32_bytes_def)
  obtain F1 where F1: "id3_read8 io s = (True, 0, s\<lparr>id3_file := F1\<rparr>)" "pos_at F1 seek_cycle (q + 1)"
    by (rule id3_read8_is [OF assms(1)]) (use b in simp_all)
  define t where "t = s\<lparr>iID3V2TagFlagsV2 := 0\<rparr>"
  obtain F2 where F2: "id3_read32 io (s\<lparr>id3_file := F1, iID3V2TagFlagsV2 := 0\<rparr>) = (True, 0, t\<lparr>id3_file := F2\<rparr>)" "pos_at F2 seek_cycle (q + 5)"
    using id3_read32_is [of "s\<lparr>id3_file := F1, iID3V2TagFlagsV2 := 0\<rparr>" seek_cycle "q + 1" 0 0 "q + 5"] F1(2) b
    by (auto simp: t_def)
  define s3 where "s3 = t\<lparr>id3_file := F2, iID3V2TagSize := 0,
    iByteOffsetToStartOfAudioFrames := (if iTagAtBof s then 10 else 0)\<rparr>"
  have s3: "pos_at (id3_file s3) seek_cycle (q + 5)" "in_cycle s3" "iID3V2TagSize s3 = 0" "q + 5 \<in> {10, 34}"
    using F2(2) assms(2,3) by (auto simp: s3_def t_def in_cycle_def)
  obtain F4 where F4: "ReadTagID3V2 bo io heap PV_ID3_V2_4 s3 = Some (Return (0, s3\<lparr>id3_file := F4,
      iID3V2FrameID := lit ''SEEK'' @ [0], iID3V2FrameSize := 14, iID3V2FrameFlag := [0, 0], iSeekFrameFound := True,
      iID3V2SeekOffset := 14\<rparr>))" "pos_at F4 seek_cycle (q + 5 + 10)"
    by (rule seek_frame_at [OF s3(1,4,2,3)])
  define s4 where "s4 = s3\<lparr>id3_file := F4, iID3V2FrameID := lit ''SEEK'' @ [0], iID3V2FrameSize := 14,
    iID3V2FrameFlag := [0, 0], iSeekFrameFound := True, iID3V2SeekOffset := 14\<rparr>"
  obtain s5 where s5: "follow_seek io r s4 = Some (Again r s5)" "pos_at (id3_file s5) seek_cycle 29" "in_cycle s5"
    by (rule follow_cycle_at [of s4 "q + 5 + 10" r]) (use F4(2) s3 in \<open>simp_all add: s4_def in_cycle_def\<close>)
  have "iVersion s3 = PV_ID3_V2_4" "iSeekFrameFound s4" using s3(2) by (simp_all add: in_cycle_def s4_def)
  moreover have "header_pass bo io heap True r s = do {
       x \<leftarrow> ReadTagID3V2 bo io heap (iVersion s3) s3;
       on_return x (\<lambda>(count, s).
         let r = r \<or> count > 0
         in if iSeekFrameFound s then do { p \<leftarrow> follow_seek io r s; Some (Return p) } else Some (Return (Done r s))) }"
    unfolding header_pass_def F1(1) prod.case Let_def using F2(1) assms(3) by (simp add: s3_def t_def in_cycle_def)
  ultimately have "header_pass bo io heap True r s = Some (Return (Again r s5))"
    using F4(1) s5(1) unfolding s4_def [symmetric] by simp
  then show thesis using s5(2,3) by (rule that)
qed

lemma cycle_passes_at:
  assumes "pos_at (id3_file s) seek_cycle q" "q \<in> {5, 29}" "in_cycle s"
  shows "\<exists>s'. header_passes n bo io heap True r s = Some (Return (Again r s'))"
  using assms
proof (induction n arbitrary: s q)
  case (Suc n)
  obtain s' where "header_pass bo io heap True r s = Some (Return (Again r s'))" "pos_at (id3_file s') seek_cycle 29" "in_cycle s'"
    by (rule cycle_pass_at [OF Suc.prems])
  then show ?case using Suc.IH [of s' 29] by simp
qed simp

lemma parse_cycle_at:
  assumes "pos_at F seek_cycle 0" "length frame = 5"
  shows "ParseID3Tag n bo io heap buffsize (PVID3ParCom F text_type frame lang seek) = Some (Return None)"
proof -
  define s0 where "s0 = PVID3ParCom F text_type frame lang seek"
  have p0: "pos_at (id3_file s0) seek_cycle 0" using assms(1) by (simp add: s0_def PVID3ParCom_def)
  have b: "take 3 (drop 0 seek_cycle) = lit ''ID3''" "seek_cycle ! 3 = 4" "seek_cycle ! 4 = 0"
    by (simp_all add: seek_cycle_bytes)
  obtain F4 where F4: "ParseID3Tag n bo io heap buffsize s0 = do {
      r \<leftarrow> ReadHeaderID3V2 n bo io heap True
        (s0\<lparr>iFileSizeInBytes := int (length seek_cycle), id3_file := F4, iTagAtBof := True, iID3V2Present := True\<rparr>);
      on_return r (\<lambda>p. case p of
        Again _ _ \<Rightarrow> Some (Return None)
      | Done _ s \<Rightarrow> do {
          (v1, s) \<leftarrow> CheckForTagID3V1 io s;
          r \<leftarrow> (if v1 then ReadID3V1Tag io heap (s\<lparr>iVersion := PV_ID3_V1\<rparr>) else Some (Return s));
          on_return r (seek_home io 0) }) }" "pos_at F4 seek_cycle 3"
    by (rule parse_begin_at [OF p0 b(1)])
  define s4 where "s4 = s0\<lparr>iFileSizeInBytes := int (length seek_cycle), id3_file := F4, iTagAtBof := True, iID3V2Present := True\<rparr>"
  obtain F5 where F5: "id3_read8 io s4 = (True, 4, s4\<lparr>id3_file := F5\<rparr>)" "pos_at F5 seek_cycle 4"
    by (rule id3_read8_is [of s4 seek_cycle 3 4 4]) (use F4(2) b(2) in \<open>simp_all add: s4_def\<close>)
  obtain F6 where F6: "id3_read8 io (s4\<lparr>id3_file := F5\<rparr>) = (True, 0, s4\<lparr>id3_file := F6\<rparr>)" "pos_at F6 seek_cycle 5"
    using id3_read8_is [of "s4\<lparr>id3_file := F5\<rparr>" seek_cycle 4 0 5] F5(2) b(3) by auto
  obtain s5 where "header_passes n bo io heap True False (s4\<lparr>id3_file := F6, iVersion := PV_ID3_V2_4\<rparr>) =
      Some (Return (Again False s5))"
    using cycle_passes_at [of "s4\<lparr>id3_file := F6, iVersion := PV_ID3_V2_4\<rparr>" 5 n bo heap False] F6(2) assms(2)
    by (auto simp: in_cycle_def s4_def s0_def PVID3ParCom_def)
  then have "ReadHeaderID3V2 n bo io heap True s4 = Some (Return (Again False s5))"
    by (simp add: ReadHeaderID3V2_def F5(1) F6(1))
  then show ?thesis using F4(1) unfolding s4_def [symmetric] s0_def [symmetric] by simp
qed

end

text \<open>
  C11. \<open>ParseID3Tag\<close> does not return on every file: on 44 bytes with two tags of version 2.4 whose \<open>SEEK\<close>
  frames lead to the second one, no number of passes is enough, in either byte order and whatever the state of
  the heap. Nothing in \<open>ReadHeaderID3V2\<close> keeps \<open>goto BEGIN_V2\<close> from a tag that was read before.
\<close>

theorem ParseID3Tag_seek_cycle:
  assumes "length mem = 4096" "length frame = 5"
  shows "ParseID3Tag n bo cached_file heap buffsize (PVID3ParCom (pv_open mem seek_cycle) text_type frame lang seek) =
    Some (Return None)"
  by (rule cached.parse_cycle_at [OF pv_open_at]) (use assms in simp_all)

theorem ParseID3Tag_seek_cycle_witness:
  "ParseID3Tag 1000 LITTLE_ENDIAN cached_file (\<lambda>_. True) 100
     (PVID3ParCom (pv_open (replicate 4096 0) seek_cycle) PV_ID3_CHARSET_ISO88591 [0, 0, 0, 0, 0] [] 0) = Some (Return None)"
  by (rule ParseID3Tag_seek_cycle) simp_all

end
