(* ===== verification/Mime.thy ===== *)
theory Mime
  imports OsclString "HOL-Library.Sublist"
begin

text \<open>
  \<open>pvmi/pv_mime_string_utils.cpp\<close>: MIME strings, a type of components separated by \<open>/\<close> with
  parameters behind \<open>;\<close>. The metadata keys of the ID3 parser are such strings. A \<open>char *\<close> argument that
  may be null is an option; the array is the list of its elements as in \<open>OsclString\<close>, a pointer that a
  function gives back is an index into it, and \<open>None\<close> outside is an access beyond an array.
\<close>

section \<open>Helpers\<close>

definition wr_all :: "u8 list \<Rightarrow> nat \<Rightarrow> u8 list \<Rightarrow> u8 list option" where
  "wr_all xs i ys = (if i + length ys \<le> length xs then Some (patch xs i ys) else None)"

definition rd_at :: "'a list \<Rightarrow> int \<Rightarrow> 'a option" where
  "rd_at xs i = (if i < 0 then None else rd xs (nat i))"

definition wr_at :: "'a list \<Rightarrow> int \<Rightarrow> 'a \<Rightarrow> 'a list option" where
  "wr_at xs i v = (if i < 0 then None else wr xs (nat i) v)"

abbreviation SLASH :: u8 where "SLASH \<equiv> 47"
abbreviation SEMICOLON :: u8 where "SEMICOLON \<equiv> 59"
abbreviation QUOTE :: u8 where "QUOTE \<equiv> 34"
abbreviation BACKSLASH :: u8 where "BACKSLASH \<equiv> 92"
abbreviation DOT :: u8 where "DOT \<equiv> 46"

definition oscl_strcpy :: "u8 list \<Rightarrow> u8 list \<Rightarrow> u8 list option" where
  "oscl_strcpy str1 str2 = do { n \<leftarrow> oscl_strlen str2; cs \<leftarrow> oscl_strncpy str2 (n + 1); wr_all str1 0 cs }"

definition pv_mime_toggle :: "bool \<Rightarrow> bool" where
  "pv_mime_toggle quote_flag = (\<not> quote_flag)"

text \<open>Where the type ends: the first zero or semicolon.\<close>

fun type_end :: "u8 list \<Rightarrow> nat option" where
  "type_end [] = None"
| "type_end (c # cs) = (if c = 0 \<or> c = SEMICOLON then Some 0 else map_option Suc (type_end cs))"

text \<open>The quote flag after the character at \<open>i\<close>, a quote that no backslash precedes.\<close>

definition toggle_at :: "u8 list \<Rightarrow> nat \<Rightarrow> u8 \<Rightarrow> bool \<Rightarrow> bool option" where
  "toggle_at m i c q =
     (if c = QUOTE then do { p \<leftarrow> rd_at m (int i - 1); Some (if p \<noteq> BACKSLASH then pv_mime_toggle q else q) }
      else Some q)"

section \<open>Appending\<close>

text \<open>\<open>newstring\<close> after the call; the functions give back \<open>newstring\<close>, or null for null.\<close>

definition pv_mime_string_append_param :: "u8 list option \<Rightarrow> u8 list \<Rightarrow> u8 list \<Rightarrow> u8 list option option" where
  "pv_mime_string_append_param mimestring string newstring =
     (case mimestring of
        None \<Rightarrow> Some None
      | Some m \<Rightarrow> do {
          newstring \<leftarrow> oscl_strcpy newstring m;
          newstring \<leftarrow> oscl_strncat newstring [SEMICOLON, 0] 1;
          n \<leftarrow> oscl_strlen string;
          newstring \<leftarrow> oscl_strncat newstring string n;
          Some (Some newstring) })"

definition pv_mime_string_append_type :: "u8 list option \<Rightarrow> u8 list \<Rightarrow> u8 list \<Rightarrow> u8 list option option" where
  "pv_mime_string_append_type mimestring string newstring =
     (case mimestring of
        None \<Rightarrow> Some None
      | Some m \<Rightarrow> do {
          i \<leftarrow> type_end m;
          c \<leftarrow> rd m i;
          n \<leftarrow> oscl_strlen string;
          if c = 0 then do {
            newstring \<leftarrow> oscl_strcpy newstring m;
            newstring \<leftarrow> oscl_strncat newstring [SLASH, 0] 1;
            newstring \<leftarrow> oscl_strncat newstring string n;
            Some (Some newstring)
          } else do {
            newstring \<leftarrow> (if i > 0 then do { cs \<leftarrow> oscl_strncpy m (i - 1); wr_all newstring 0 cs } else Some newstring);
            newstring \<leftarrow> oscl_strncat newstring [SLASH, 0] 1;
            newstring \<leftarrow> oscl_strncat newstring string n;
            k \<leftarrow> oscl_strlen (drop i m);
            newstring \<leftarrow> oscl_strncat newstring (drop i m) k;
            Some (Some newstring)
          } })"

section \<open>Looking up a component or a parameter\<close>

text \<open>
  \<open>tempcomp\<close> is an array of \<open>oscl_strlen(mimestring)\<close> elements, of which only stored ones are read.
  A search gives \<open>stringaddr\<close>, when it assigns one, and its length.
\<close>

function type_copy :: "u8 list \<Rightarrow> nat \<Rightarrow> nat \<Rightarrow> u8 list \<Rightarrow> (nat \<times> nat \<times> u8 list) option" where
  "type_copy m i j temp = do {
     c \<leftarrow> rd m i;
     if c = SLASH \<or> c = 0 then Some (i, j, temp)
     else do { temp \<leftarrow> wr temp j c; type_copy m (i + 1) (j + 1) temp }
   }"
  by pat_completeness auto
termination by (relation "measure (\<lambda>(m, i, _). length m - i)") (auto simp: rd_eq_Some_iff)

declare type_copy.simps [simp del]

lemma type_copy_le: "type_copy m i j temp = Some (i', j', temp') \<Longrightarrow> i \<le> i' \<and> i' < length m"
  by (induction m i j temp rule: type_copy.induct)
    (subst (asm) type_copy.simps, fastforce simp: rd_eq_Some_iff split: if_splits Option.bind_splits)

function parse_type_loop :: "u8 list \<Rightarrow> u8 list \<Rightarrow> nat \<Rightarrow> u8 list \<Rightarrow> (nat option \<times> nat) option" where
  "parse_type_loop m string i temp = do {
     c \<leftarrow> rd m i;
     if c \<noteq> 0 \<and> c \<noteq> SEMICOLON then do {
       (i', j, temp) \<leftarrow> type_copy m i 0 temp;
       temp \<leftarrow> wr temp j 0;
       d \<leftarrow> oscl_CIstrcmp string temp;
       if d = 0 then do { n \<leftarrow> oscl_strlen (drop (i' - j) m); Some (Some (i' - j), n) }
       else parse_type_loop m string (i' + 1) temp
     } else Some (None, 0)
   }"
  by pat_completeness auto
termination
  by (relation "measure (\<lambda>(m, _, i, _). length m - i)") (auto simp: rd_eq_Some_iff dest: type_copy_le)

declare parse_type_loop.simps [simp del]

definition pv_mime_string_parse_type :: "u8 list option \<Rightarrow> u8 list \<Rightarrow> (nat option \<times> nat) option" where
  "pv_mime_string_parse_type mimestring string =
     (case mimestring of
        None \<Rightarrow> Some (None, 0)
      | Some m \<Rightarrow> do { n \<leftarrow> oscl_strlen m; parse_type_loop m string 0 (replicate n 0) })"

function param_copy :: "u8 list \<Rightarrow> nat \<Rightarrow> nat \<Rightarrow> bool \<Rightarrow> u8 list \<Rightarrow> (nat \<times> nat \<times> bool \<times> u8 list) option" where
  "param_copy m i j q temp = do {
     c \<leftarrow> rd m i;
     if c = SEMICOLON \<and> \<not> q \<or> c = 0 then Some (i, j, q, temp)
     else do {
       temp \<leftarrow> wr temp j c;
       c' \<leftarrow> rd m (i + 1);
       q \<leftarrow> toggle_at m (i + 1) c' q;
       param_copy m (i + 1) (j + 1) q temp }
   }"
  by pat_completeness auto
termination by (relation "measure (\<lambda>(m, i, _). length m - i)") (auto simp: rd_eq_Some_iff)

declare param_copy.simps [simp del]

lemma param_copy_le: "param_copy m i j q temp = Some (i', j', q', temp') \<Longrightarrow> i \<le> i' \<and> i' < length m"
  by (induction m i j q temp rule: param_copy.induct)
    (subst (asm) param_copy.simps, fastforce simp: rd_eq_Some_iff split: if_splits Option.bind_splits)

function parse_param_loop :: "u8 list \<Rightarrow> u8 list \<Rightarrow> nat \<Rightarrow> bool \<Rightarrow> u8 list \<Rightarrow> (nat option \<times> nat) option" where
  "parse_param_loop m string i q temp = do {
     c \<leftarrow> rd m i;
     if c \<noteq> 0 then do {
       q \<leftarrow> toggle_at m i c q;
       (i', j, q, temp) \<leftarrow> param_copy m i 0 q temp;
       temp \<leftarrow> wr temp j 0;
       d \<leftarrow> oscl_CIstrcmp string temp;
       if d = 0 then do { n \<leftarrow> oscl_strlen (drop (i' - j) m); Some (Some (i' - j), n) }
       else do {
         c \<leftarrow> rd m i';
         if c = 0 then Some (None, 0) else parse_param_loop m string (i' + 1) q temp }
     } else Some (None, 0)
   }"
  by pat_completeness auto
termination
  by (relation "measure (\<lambda>(m, _, i, _, _). length m - i)") (auto simp: rd_eq_Some_iff dest: param_copy_le)

declare parse_param_loop.simps [simp del]

definition pv_mime_string_parse_param :: "u8 list option \<Rightarrow> u8 list \<Rightarrow> (nat option \<times> nat) option" where
  "pv_mime_string_parse_param mimestring string =
     (case mimestring of
        None \<Rightarrow> Some (None, 0)
      | Some m \<Rightarrow> do {
          n \<leftarrow> oscl_strlen m;
          i \<leftarrow> type_end m;
          c \<leftarrow> rd m i;
          if c = 0 then Some (None, 0) else parse_param_loop m string (i + 1) False (replicate n 0) })"

section \<open>Comparing\<close>

definition RETVAL_NO_MATCH :: int where "RETVAL_NO_MATCH = - 1"
definition RETVAL_MATCH :: int where "RETVAL_MATCH = 0"
definition RETVAL_FIRST_PREFIX :: int where "RETVAL_FIRST_PREFIX = 1"
definition RETVAL_SECOND_PREFIX :: int where "RETVAL_SECOND_PREFIX = 2"

function same_run :: "u8 list \<Rightarrow> u8 list \<Rightarrow> nat \<Rightarrow> nat option" where
  "same_run s1 s2 i = do {
     c1 \<leftarrow> rd s1 i;
     if c1 = 0 then Some i
     else do {
       c2 \<leftarrow> rd s2 i;
       if oscl_tolower c1 \<noteq> oscl_tolower c2 \<or> c1 = SEMICOLON \<or> c2 = SEMICOLON then Some i
       else same_run s1 s2 (i + 1) }
   }"
  by pat_completeness auto
termination by (relation "measure (\<lambda>(s1, _, i). length s1 - i)") (auto simp: rd_eq_Some_iff)

declare same_run.simps [simp del]

definition pv_mime_strcmp :: "u8 list option \<Rightarrow> u8 list option \<Rightarrow> int option" where
  "pv_mime_strcmp mimestring1 mimestring2 =
     (case (mimestring1, mimestring2) of
        (Some s1, Some s2) \<Rightarrow> do {
          i \<leftarrow> same_run s1 s2 0;
          c1 \<leftarrow> rd s1 i;
          c2 \<leftarrow> rd s2 i;
          let len1 = (if c1 = SEMICOLON \<or> c1 = 0 then i else i + 1);
          let len2 = (if c2 = SEMICOLON \<or> c2 = 0 then i else i + 1);
          if len1 = len2 then Some (if len1 = i then RETVAL_MATCH else RETVAL_NO_MATCH)
          else if len1 < len2 then Some (if c2 = SLASH then RETVAL_FIRST_PREFIX else RETVAL_NO_MATCH)
          else Some (if c1 = SLASH then RETVAL_SECOND_PREFIX else RETVAL_NO_MATCH) }
      | _ \<Rightarrow> Some RETVAL_NO_MATCH)"

section \<open>Extracting\<close>

function extract_param_loop :: "int \<Rightarrow> u8 list \<Rightarrow> nat \<Rightarrow> int \<Rightarrow> nat \<Rightarrow> nat \<Rightarrow> bool \<Rightarrow> (nat option \<times> nat) option" where
  "extract_param_loop compnumber m len count start j q = do {
     c \<leftarrow> rd m j;
     if c \<noteq> 0 then do {
       q \<leftarrow> toggle_at m j c q;
       if c = SEMICOLON \<and> \<not> q \<and> compnumber = count then Some (Some start, j - start)
       else let (count, start) = (if c = SEMICOLON \<and> \<not> q then (count + 1, j + 1) else (count, start))
            in if j > len then Some (None, 0) else extract_param_loop compnumber m len count start (j + 1) q
     }
     else if compnumber = count then Some (Some start, j - start) else Some (None, 0)
   }"
  by pat_completeness auto
termination by (relation "measure (\<lambda>(_, m, _, _, _, j, _). length m - j)") (auto simp: rd_eq_Some_iff)

declare extract_param_loop.simps [simp del]

definition pv_mime_string_extract_param :: "int \<Rightarrow> u8 list option \<Rightarrow> (nat option \<times> nat) option" where
  "pv_mime_string_extract_param compnumber mimestring =
     (case mimestring of
        None \<Rightarrow> Some (None, 0)
      | Some m \<Rightarrow> do {
          j \<leftarrow> type_end m;
          c \<leftarrow> rd m (j + 1);
          if c = 0 then Some (None, 0)
          else do { len \<leftarrow> oscl_strlen m; extract_param_loop compnumber m len 0 (j + 1) (j + 1) False } })"

function extract_type_loop :: "int \<Rightarrow> u8 list \<Rightarrow> nat \<Rightarrow> int \<Rightarrow> nat \<Rightarrow> nat \<Rightarrow> (nat option \<times> nat) option" where
  "extract_type_loop compnumber m len count start j = do {
     c \<leftarrow> rd m j;
     if c \<noteq> 0 then
       if (c = SLASH \<or> c = SEMICOLON) \<and> compnumber = count then Some (Some start, j - start)
       else if c = SEMICOLON then Some (None, 0)
       else let (count, start) = (if c = SLASH then (count + 1, j + 1) else (count, start))
            in if j > len then Some (None, 0) else extract_type_loop compnumber m len count start (j + 1)
     else if compnumber = count then Some (Some start, j - start) else Some (None, 0)
   }"
  by pat_completeness auto
termination by (relation "measure (\<lambda>(_, m, _, _, _, j). length m - j)") (auto simp: rd_eq_Some_iff)

declare extract_type_loop.simps [simp del]

definition pv_mime_string_extract_type :: "int \<Rightarrow> u8 list option \<Rightarrow> (nat option \<times> nat) option" where
  "pv_mime_string_extract_type compnumber mimestring =
     (case mimestring of
        None \<Rightarrow> Some (None, 0)
      | Some m \<Rightarrow> do { len \<leftarrow> oscl_strlen m; extract_type_loop compnumber m len 0 0 0 })"

text \<open>Counting \<open>delim\<close> outside quotes.\<close>

function count_loop :: "u8 \<Rightarrow> u8 list \<Rightarrow> nat \<Rightarrow> bool \<Rightarrow> int \<Rightarrow> int option" where
  "count_loop delim m i q count = do {
     c \<leftarrow> rd m i;
     if c \<noteq> 0 then do {
       q \<leftarrow> toggle_at m i c q;
       count_loop delim m (i + 1) q (if c = delim \<and> \<not> q then count + 1 else count)
     } else Some count
   }"
  by pat_completeness auto
termination by (relation "measure (\<lambda>(_, m, i, _, _). length m - i)") (auto simp: rd_eq_Some_iff)

declare count_loop.simps [simp del]

definition pv_mime_string_compcnt :: "u8 list option \<Rightarrow> int option" where
  "pv_mime_string_compcnt mimestring =
     (case mimestring of None \<Rightarrow> Some 0 | Some m \<Rightarrow> count_loop SLASH m 0 False 1)"

definition pv_mime_string_parcnt :: "u8 list option \<Rightarrow> int option" where
  "pv_mime_string_parcnt mimestring =
     (case mimestring of None \<Rightarrow> Some 0 | Some m \<Rightarrow> count_loop SEMICOLON m 0 False 0)"

section \<open>Searching for a sub-type\<close>

definition relative_mark :: "u8 list" where "relative_mark = [DOT, DOT, DOT, SLASH, 0]"

definition skip_relative :: "u8 list \<Rightarrow> u8 list option" where
  "skip_relative str = do { d \<leftarrow> oscl_strncmp str relative_mark 4; Some (if d = 0 then drop 4 str else str) }"

function strstr_components :: "int \<Rightarrow> int \<Rightarrow> u8 list \<Rightarrow> u8 list \<Rightarrow> int option" where
  "strstr_components n n1 str1 str2 =
     (if n < n1 then do {
        (p, _) \<leftarrow> pv_mime_string_extract_type n (Some str1);
        cmp \<leftarrow> pv_mime_strcmp (map_option (\<lambda>i. drop i str1) p) (Some str2);
        if cmp \<noteq> - 1 then Some cmp else strstr_components (n + 1) n1 str1 str2
      } else Some (- 1))"
  by pat_completeness auto
termination by (relation "measure (\<lambda>(n, n1, _, _). nat (n1 - n))") auto

declare strstr_components.simps [simp del]

definition pv_mime_strstr :: "u8 list \<Rightarrow> u8 list \<Rightarrow> int option" where
  "pv_mime_strstr mimestring1 mimestring2 = do {
     str1 \<leftarrow> skip_relative mimestring1;
     str2 \<leftarrow> skip_relative mimestring2;
     c1 \<leftarrow> rd str1 0;
     if c1 = 0 then Some 0
     else do {
       c2 \<leftarrow> rd str2 0;
       if c2 = 0 then Some 0
       else do {
         n1 \<leftarrow> pv_mime_string_compcnt (Some str1);
         n2 \<leftarrow> pv_mime_string_compcnt (Some str2);
         if n2 > n1 then strstr_components 0 n2 str2 str1 else strstr_components 0 n1 str1 str2 } }
   }"

section \<open>Joining a relative type\<close>

definition pv_mime_string_is_relative :: "u8 list option \<Rightarrow> bool option" where
  "pv_mime_string_is_relative mimestring =
     (case mimestring of
        None \<Rightarrow> Some False
      | Some m \<Rightarrow> do {
          d \<leftarrow> oscl_strncmp m relative_mark 4;
          if d = 0 then do { n \<leftarrow> oscl_strlen m; Some (n \<ge> 5) } else Some False })"

text \<open>Back to the slash before position \<open>i\<close>, or to \<open>-1\<close>.\<close>

function slash_back :: "u8 list \<Rightarrow> int \<Rightarrow> int option" where
  "slash_back new i =
     (if i \<ge> 0 then do { c \<leftarrow> rd_at new i; if c = SLASH then Some i else slash_back new (i - 1) } else Some i)"
  by pat_completeness auto
termination by (relation "measure (\<lambda>(_, i). nat (i + 1))") auto

declare slash_back.simps [simp del]

text \<open>Whether \<open>../\<close> stands here behind a slash; the reads stop at the first character that differs.\<close>

definition parent_here :: "u8 list \<Rightarrow> nat \<Rightarrow> u8 \<Rightarrow> bool option" where
  "parent_here m k c =
     (if c \<noteq> DOT then Some False
      else do {
        a \<leftarrow> rd_at m (int k - 1);
        if a \<noteq> SLASH then Some False
        else do {
          b \<leftarrow> rd m (k + 1);
          if b \<noteq> DOT then Some False else do { d \<leftarrow> rd m (k + 2); Some (d = SLASH) } } })"

lemma parent_here_room: "parent_here m k c = Some True \<Longrightarrow> k + 2 < length m"
  by (auto simp: parent_here_def rd_eq_Some_iff split: if_splits Option.bind_splits)

function merge_type :: "u8 list \<Rightarrow> nat \<Rightarrow> int \<Rightarrow> u8 list \<Rightarrow> (nat \<times> int \<times> u8 list) option" where
  "merge_type m k i new = do {
     c \<leftarrow> rd m k;
     if c \<noteq> 0 \<and> c \<noteq> SEMICOLON then do {
       up \<leftarrow> parent_here m k c;
       if up then do { i \<leftarrow> slash_back new (i - 2); merge_type m (k + 3) (i + 1) new }
       else do { new \<leftarrow> wr_at new i c; merge_type m (k + 1) (i + 1) new }
     } else Some (k, i, new)
   }"
  by pat_completeness auto
termination
  by (relation "measure (\<lambda>(m, k, _, _). length m - k)") (auto simp: rd_eq_Some_iff dest: parent_here_room)

declare merge_type.simps [simp del]

function merge_params :: "u8 list \<Rightarrow> nat \<Rightarrow> int \<Rightarrow> u8 list \<Rightarrow> (int \<times> u8 list) option" where
  "merge_params m k i new = do {
     c \<leftarrow> rd m k;
     if c \<noteq> 0 then do { new \<leftarrow> wr_at new i c; merge_params m (k + 1) (i + 1) new } else Some (i, new)
   }"
  by pat_completeness auto
termination by (relation "measure (\<lambda>(m, k, _, _). length m - k)") (auto simp: rd_eq_Some_iff)

declare merge_params.simps [simp del]

definition pv_mime_string_strappend :: "u8 list option \<Rightarrow> u8 list option \<Rightarrow> u8 list \<Rightarrow> u8 list option option" where
  "pv_mime_string_strappend mimestring mimestring1 newstring =
     (case (mimestring, mimestring1) of
        (None, Some m1) \<Rightarrow> map_option Some (oscl_strcpy newstring m1)
      | (Some m, None) \<Rightarrow> map_option Some (oscl_strcpy newstring m)
      | (None, None) \<Rightarrow> Some None
      | (Some m, Some m1) \<Rightarrow> do {
          relative \<leftarrow> pv_mime_string_is_relative (Some m1);
          (k, i, newstring) \<leftarrow> merge_type m 0 0 newstring;
          newstring \<leftarrow> wr_at newstring i SLASH;
          (j, i, newstring) \<leftarrow> merge_type m1 (if relative then 4 else 0) (i + 1) newstring;
          (i, newstring) \<leftarrow> merge_params m k i newstring;
          (i, newstring) \<leftarrow> merge_params m1 j i newstring;
          newstring \<leftarrow> wr_at newstring i 0;
          Some (Some newstring) })"

section \<open>The type of a MIME string\<close>

definition in_type :: "u8 \<Rightarrow> bool" where
  "in_type c \<longleftrightarrow> c \<noteq> 0 \<and> c \<noteq> SEMICOLON"

definition type_part :: "u8 list \<Rightarrow> u8 list" where
  "type_part s = takeWhile in_type s"

definition lower_type :: "u8 list \<Rightarrow> u8 list" where
  "lower_type s = List.map oscl_tolower (type_part s)"

definition terminated :: "u8 list \<Rightarrow> bool" where
  "terminated s \<longleftrightarrow> 0 \<in> set s"

lemma length_lower_type [simp]: "length (lower_type s) = length (type_part s)"
  by (simp add: lower_type_def)

lemma type_room: "terminated s \<Longrightarrow> length (type_part s) < length s"
  unfolding terminated_def type_part_def
  by (metis in_type_def length_takeWhile_le nat_less_le takeWhile_eq_all_conv takeWhile_eq_take take_all_iff)

lemma in_type_iff:
  assumes "terminated s" "i \<le> length (type_part s)"
  shows "in_type (s ! i) \<longleftrightarrow> i < length (type_part s)"
proof (cases "i = length (type_part s)")
  case True
  then show ?thesis using nth_length_takeWhile [of in_type s] type_room [OF assms(1)] by (simp add: type_part_def)
next
  case False
  then have i: "i < length (type_part s)" using assms(2) by simp
  have "s ! i \<in> set (type_part s)" using nth_mem [OF i] i by (simp add: type_part_def takeWhile_nth)
  then show ?thesis using i by (auto simp: type_part_def dest: set_takeWhileD)
qed

text \<open>The marks are their own lower case, and no letter becomes one.\<close>

lemma tolower_marks [simp]:
  "oscl_tolower c = (0 :: u8) \<longleftrightarrow> c = 0" "oscl_tolower c = SEMICOLON \<longleftrightarrow> c = SEMICOLON"
  "oscl_tolower c = SLASH \<longleftrightarrow> c = SLASH"
proof -
  have u: "unat (oscl_tolower c) = (if 65 \<le> unat c \<and> unat c \<le> 90 then unat c + 32 else unat c)"
    by (simp add: oscl_tolower_def word_le_nat_alt unat_word_ariths)
  show "oscl_tolower c = (0 :: u8) \<longleftrightarrow> c = 0" "oscl_tolower c = SEMICOLON \<longleftrightarrow> c = SEMICOLON"
    "oscl_tolower c = SLASH \<longleftrightarrow> c = SLASH"
    unfolding word_unat_eq_iff u by auto
qed

lemma in_type_lower: "oscl_tolower a = oscl_tolower b \<Longrightarrow> in_type a \<longleftrightarrow> in_type b"
  unfolding in_type_def by (metis tolower_marks(1,2))

lemma lower_type_nth: "i < length (type_part s) \<Longrightarrow> lower_type s ! i = oscl_tolower (s ! i)"
  by (simp add: lower_type_def type_part_def takeWhile_nth)

lemma type_end_type: "terminated s \<Longrightarrow> type_end s = Some (length (type_part s))"
  by (induction s) (auto simp: terminated_def type_part_def in_type_def)

lemma same_run_stop:
  assumes "terminated s1" "terminated s2" "i \<le> length (type_part s1)" "i \<le> length (type_part s2)"
    and "take i (lower_type s1) = take i (lower_type s2)"
  obtains k where "same_run s1 s2 i = Some k" "k \<le> length (type_part s1)" "k \<le> length (type_part s2)"
    "take k (lower_type s1) = take k (lower_type s2)"
    "k < length (type_part s1) \<Longrightarrow> k < length (type_part s2) \<Longrightarrow> lower_type s1 ! k \<noteq> lower_type s2 ! k"
proof -
  have "\<exists>k. same_run s1 s2 i = Some k \<and> k \<le> length (type_part s1) \<and> k \<le> length (type_part s2) \<and>
    take k (lower_type s1) = take k (lower_type s2) \<and>
    (k < length (type_part s1) \<longrightarrow> k < length (type_part s2) \<longrightarrow> lower_type s1 ! k \<noteq> lower_type s2 ! k)"
    using assms(3-5)
  proof (induction "length s1 - i" arbitrary: i)
    case 0
    then show ?case using type_room [OF assms(1)] by simp
  next
    case (Suc n)
    have rds: "rd s1 i = Some (s1 ! i)" "rd s2 i = Some (s2 ! i)"
      using Suc.prems type_room [OF assms(1)] type_room [OF assms(2)] by (simp_all add: rd_def)
    note it = in_type_iff [OF assms(1) Suc.prems(1)] in_type_iff [OF assms(2) Suc.prems(2)]
    show ?case
    proof (cases "i < length (type_part s1) \<and> i < length (type_part s2) \<and> oscl_tolower (s1 ! i) = oscl_tolower (s2 ! i)")
      case True
      then have "same_run s1 s2 i = same_run s1 s2 (i + 1)"
        using it by (subst same_run.simps) (simp add: rds in_type_def)
      moreover have "take (i + 1) (lower_type s1) = take (i + 1) (lower_type s2)"
        using True Suc.prems(3) by (simp add: take_Suc_conv_app_nth lower_type_nth)
      ultimately show ?thesis using Suc.hyps(1) [of "i + 1"] Suc.hyps(2) True by simp
    next
      case False
      have "oscl_tolower (s1 ! i) \<noteq> oscl_tolower (s2 ! i) \<or> \<not> in_type (s1 ! i)"
        using it False in_type_lower [of "s1 ! i" "s2 ! i"] by blast
      then have "same_run s1 s2 i = Some i"
        by (subst same_run.simps) (auto simp: rds in_type_def)
      then show ?thesis using False Suc.prems by (intro exI [of _ i]) (auto simp: lower_type_nth)
    qed
  qed
  then show thesis using that by blast
qed

text \<open>What the comparison promises: equal types, or one the other's parent.\<close>

definition compare_types :: "u8 list \<Rightarrow> u8 list \<Rightarrow> int" where
  "compare_types t1 t2 =
     (if t1 = t2 then RETVAL_MATCH
      else if prefix (t1 @ [SLASH]) t2 then RETVAL_FIRST_PREFIX
      else if prefix (t2 @ [SLASH]) t1 then RETVAL_SECOND_PREFIX else RETVAL_NO_MATCH)"

lemma prefix_snoc_iff: "prefix (xs @ [c]) ys \<longleftrightarrow> length xs < length ys \<and> take (length xs) ys = xs \<and> ys ! length xs = c"
proof
  assume "prefix (xs @ [c]) ys"
  then show "length xs < length ys \<and> take (length xs) ys = xs \<and> ys ! length xs = c" by (auto simp: prefix_def)
next
  assume r: "length xs < length ys \<and> take (length xs) ys = xs \<and> ys ! length xs = c"
  then have "ys = (xs @ [c]) @ drop (Suc (length xs)) ys" using id_take_nth_drop [of "length xs" ys] by simp
  then show "prefix (xs @ [c]) ys" by (rule prefixI)
qed

lemma strcmp_types:
  assumes "terminated s1" "terminated s2"
  shows "pv_mime_strcmp (Some s1) (Some s2) = Some (compare_types (lower_type s1) (lower_type s2))"
proof -
  let ?n1 = "length (type_part s1)" and ?n2 = "length (type_part s2)"
  obtain k where k: "same_run s1 s2 0 = Some k" "k \<le> ?n1" "k \<le> ?n2"
    "take k (lower_type s1) = take k (lower_type s2)"
    "k < ?n1 \<Longrightarrow> k < ?n2 \<Longrightarrow> lower_type s1 ! k \<noteq> lower_type s2 ! k"
    by (rule same_run_stop [OF assms, of 0]) simp_all
  have rds: "rd s1 k = Some (s1 ! k)" "rd s2 k = Some (s2 ! k)"
    using k(2,3) type_room [OF assms(1)] type_room [OF assms(2)] by (simp_all add: rd_def)
  have ends: "(s1 ! k = SEMICOLON \<or> s1 ! k = 0) = (k = ?n1)" "(s2 ! k = SEMICOLON \<or> s2 ! k = 0) = (k = ?n2)"
    using in_type_iff [OF assms(1) k(2)] in_type_iff [OF assms(2) k(3)] k(2,3) by (auto simp: in_type_def)
  have eval: "pv_mime_strcmp (Some s1) (Some s2) = Some
      (if k = ?n1 then if k = ?n2 then RETVAL_MATCH else if s2 ! k = SLASH then RETVAL_FIRST_PREFIX else RETVAL_NO_MATCH
       else if k = ?n2 then if s1 ! k = SLASH then RETVAL_SECOND_PREFIX else RETVAL_NO_MATCH else RETVAL_NO_MATCH)"
    by (simp add: pv_mime_strcmp_def k(1) rds ends)
  consider "k = ?n1" "k = ?n2" | "k = ?n1" "k < ?n2" | "k < ?n1" "k = ?n2" | "k < ?n1" "k < ?n2"
    using k(2,3) by linarith
  then show ?thesis
  proof cases
    case 1
    then have "lower_type s1 = lower_type s2" using k(4) by simp
    then show ?thesis using 1 by (simp add: eval compare_types_def)
  next
    case 2
    then have t: "lower_type s1 = take k (lower_type s2)" using k(4) by simp
    have "lower_type s1 \<noteq> lower_type s2" using 2 by (metis length_lower_type nat_less_le)
    then show ?thesis
      using 2 t by (simp add: eval compare_types_def prefix_snoc_iff lower_type_nth)
  next
    case 3
    then have t: "lower_type s2 = take k (lower_type s1)" using k(4) by simp
    have "lower_type s1 \<noteq> lower_type s2" using 3 by (metis length_lower_type nat_less_le)
    then show ?thesis
      using 3 t by (simp add: eval compare_types_def prefix_snoc_iff lower_type_nth)
  next
    case 4
    have d: "lower_type s1 ! k \<noteq> lower_type s2 ! k" by (rule k(5) [OF 4])
    have "take ?n1 (lower_type s2) \<noteq> lower_type s1" "take ?n2 (lower_type s1) \<noteq> lower_type s2"
      using d 4 by (metis nth_take)+
    then show ?thesis
      using 4 d by (auto simp: eval compare_types_def prefix_snoc_iff)
  qed
qed

section \<open>Building strings in a cleared buffer\<close>

definition zbuf :: "nat \<Rightarrow> u8 list \<Rightarrow> u8 list" where
  "zbuf n xs = xs @ replicate (n - length xs) 0"

lemma strlen_append [simp]: "0 \<notin> set xs \<Longrightarrow> oscl_strlen (xs @ 0 # r) = Some (length xs)"
  by (induction xs) auto

lemma strlen_zbuf: "0 \<notin> set xs \<Longrightarrow> length xs < n \<Longrightarrow> oscl_strlen (zbuf n xs) = Some (length xs)"
  by (cases "n - length xs") (simp_all add: zbuf_def)

lemma strncat_copy_all: "0 \<notin> set ys \<Longrightarrow> strncat_copy (ys @ r) (length ys) = Some (ys @ [0])"
  by (induction ys) auto

lemma strncpy_take: "0 \<notin> set xs \<Longrightarrow> k \<le> length xs \<Longrightarrow> oscl_strncpy (xs @ r) k = Some (take k xs)"
proof (induction xs arbitrary: k)
  case (Cons x xs)
  then show ?case by (cases k) auto
qed simp

lemma zbuf_strncat:
  assumes "0 \<notin> set xs" "0 \<notin> set ys" "length xs + length ys < n"
  shows "oscl_strncat (zbuf n xs) (ys @ r) (length ys) = Some (zbuf n (xs @ ys))"
proof -
  have "patch (zbuf n xs) (length xs) (ys @ [0]) = zbuf n (xs @ ys)"
  proof -
    obtain k where k: "n = length xs + length ys + 1 + k" using assms(3) by (metis add.assoc add.commute less_natE plus_1_eq_Suc)
    then show ?thesis by (simp add: zbuf_def patch_def replicate_add [symmetric])
  qed
  then show ?thesis
    using assms strncat_copy_all [OF assms(2)] by (simp add: oscl_strncat_def strlen_zbuf) (simp add: zbuf_def)
qed

lemma zbuf_start: "length xs \<le> n \<Longrightarrow> wr_all (replicate n 0) 0 xs = Some (zbuf n xs)"
  by (simp add: wr_all_def patch_def zbuf_def)

lemma strcpy_zbuf:
  assumes "0 \<notin> set xs" "length xs < n"
  shows "oscl_strcpy (replicate n 0) (xs @ [0]) = Some (zbuf n xs)"
proof -
  have "oscl_strncpy (xs @ [0]) (length xs + 1) = Some (xs @ [0])" using assms(1) by (induction xs) auto
  moreover have "zbuf n (xs @ [0]) = zbuf n xs"
    using assms(2) by (simp add: zbuf_def) (metis Suc_diff_Suc replicate_Suc)
  ultimately show ?thesis
    using assms zbuf_start [of "xs @ [0]" n] by (simp add: oscl_strcpy_def)
qed

lemma type_end_append: "0 \<notin> set t \<Longrightarrow> SEMICOLON \<notin> set t \<Longrightarrow> c = 0 \<or> c = SEMICOLON \<Longrightarrow> type_end (t @ c # r) = Some (length t)"
  by (induction t) auto

lemma append_type_plain:
  assumes "0 \<notin> set t" "SEMICOLON \<notin> set t" "0 \<notin> set u" "length t + length u + 1 < n"
  shows "pv_mime_string_append_type (Some (t @ [0])) (u @ [0]) (replicate n 0) = Some (Some (zbuf n (t @ SLASH # u)))"
proof -
  have "oscl_strncat (zbuf n t) [SLASH, 0] 1 = Some (zbuf n (t @ [SLASH]))"
    using zbuf_strncat [of t "[SLASH]" n "[0]"] assms by simp
  moreover have "oscl_strncat (zbuf n (t @ [SLASH])) (u @ [0]) (length u) = Some (zbuf n (t @ SLASH # u))"
    using zbuf_strncat [of "t @ [SLASH]" u n "[0]"] assms by simp
  ultimately show ?thesis
    using assms type_end_append [of t 0 "[]"]
    by (simp add: pv_mime_string_append_type_def rd_def strcpy_zbuf)
qed

lemma append_type_params:
  assumes "0 \<notin> set t" "SEMICOLON \<notin> set t" "0 \<notin> set u" "0 \<notin> set ps" "length t + length u + length ps + 2 < n"
  shows "pv_mime_string_append_type (Some (t @ SEMICOLON # ps @ [0])) (u @ [0]) (replicate n 0) =
    Some (Some (zbuf n (butlast t @ SLASH # u @ SEMICOLON # ps)))"
proof -
  let ?b = "butlast t"
  have b: "0 \<notin> set ?b" "length ?b \<le> length t" using assms(1) by (auto dest: in_set_butlastD)
  have first: "(if length t > 0 then do { cs \<leftarrow> oscl_strncpy (t @ SEMICOLON # ps @ [0]) (length t - 1); wr_all (replicate n 0) 0 cs }
      else Some (replicate n 0)) = Some (zbuf n ?b)"
    using strncpy_take [OF assms(1), of "length t - 1" "SEMICOLON # ps @ [0]"] zbuf_start [of ?b n] assms(5) b
    by (cases t) (simp_all add: butlast_conv_take zbuf_def)
  have a1: "oscl_strncat (zbuf n ?b) [SLASH, 0] 1 = Some (zbuf n (?b @ [SLASH]))"
    using zbuf_strncat [of ?b "[SLASH]" n "[0]"] assms b by simp
  have a2: "oscl_strncat (zbuf n (?b @ [SLASH])) (u @ [0]) (length u) = Some (zbuf n (?b @ SLASH # u))"
    using zbuf_strncat [of "?b @ [SLASH]" u n "[0]"] assms b by simp
  have a3: "oscl_strncat (zbuf n (?b @ SLASH # u)) (SEMICOLON # ps @ [0]) (Suc (length ps)) =
      Some (zbuf n (?b @ SLASH # u @ SEMICOLON # ps))"
    using zbuf_strncat [of "?b @ SLASH # u" "SEMICOLON # ps" n "[0]"] assms b by simp
  have "oscl_strlen (SEMICOLON # ps @ [0]) = Some (Suc (length ps))" using assms(4) by simp
  then show ?thesis
    using assms(1-3) type_end_append [of t SEMICOLON "ps @ [0]"] first a1 a2 a3
    by (simp add: pv_mime_string_append_type_def rd_def)
qed

section \<open>Searches that leave their arrays\<close>

lemma type_copy_all:
  assumes "0 \<notin> set t" "SLASH \<notin> set t" "i \<le> length t" "length t \<le> length temp"
  shows "\<exists>temp'. type_copy (t @ [0]) i i temp = Some (length t, length t, temp') \<and> length temp' = length temp"
  using assms(3,4)
proof (induction "length t - i" arbitrary: i temp)
  case 0
  then have "i = length t" by simp
  then show ?case by (subst type_copy.simps) (simp add: rd_def nth_append)
next
  case (Suc n)
  have i: "i < length t" using Suc.hyps(2) by simp
  have "rd (t @ [0]) i = Some (t ! i)" using i by (simp add: rd_def nth_append)
  moreover have "t ! i \<noteq> SLASH" "t ! i \<noteq> 0" using nth_mem [OF i] assms(1,2) by metis+
  ultimately have c: "rd (t @ [0]) i = Some (t ! i)" "t ! i \<noteq> SLASH" "t ! i \<noteq> 0" by simp_all
  have w: "wr temp i (t ! i) = Some (temp[i := t ! i])" using Suc.hyps(2) Suc.prems by (simp add: wr_def)
  show ?case
    using Suc.hyps(1) [of "i + 1" "temp[i := t ! i]"] Suc.hyps(2) Suc.prems
    by (subst type_copy.simps) (simp add: c w)
qed

lemma parse_type_overflow:
  assumes "0 \<notin> set t" "SEMICOLON \<notin> set t" "SLASH \<notin> set t" "t \<noteq> []"
  shows "pv_mime_string_parse_type (Some (t @ [0])) string = None"
proof -
  obtain temp' where t: "type_copy (t @ [0]) 0 0 (replicate (length t) 0) = Some (length t, length t, temp')" "length temp' = length t"
    using type_copy_all [OF assms(1,3), of 0 "replicate (length t) 0"] by auto
  have "rd (t @ [0]) 0 = Some (hd t)" "hd t \<noteq> 0" "hd t \<noteq> SEMICOLON"
    using assms by (cases t; auto)+
  then show ?thesis
    using assms t by (simp add: pv_mime_string_parse_type_def) (subst parse_type_loop.simps, simp add: wr_def)
qed

section \<open>Properties\<close>

text \<open>
  C21. \<open>pv_mime_strcmp\<close> against its reference: for two terminated strings it compares the types in front of
  the first semicolon, letters without case: 0 when they are equal, 1 or 2 when the first or the second
  followed by a slash begins the other, and -1 otherwise. It never reads past a terminator.
\<close>

theorem pv_mime_strcmp_types:
  assumes "terminated s1" "terminated s2"
  shows "pv_mime_strcmp (Some s1) (Some s2) = Some (compare_types (lower_type s1) (lower_type s2))"
  by (rule strcmp_types [OF assms])

theorem pv_mime_strcmp_types_witness:
  "pv_mime_strcmp (Some (lit ''Title;valtype=x'' @ [0])) (Some (lit ''tITLE/y'' @ [0])) = Some RETVAL_FIRST_PREFIX"
proof -
  have "lower_type (lit ''Title;valtype=x'' @ [0]) = lit ''title''" "lower_type (lit ''tITLE/y'' @ [0]) = lit ''title/y''"
    by (simp_all add: lower_type_def type_part_def in_type_def oscl_tolower_def word_le_nat_alt)
  moreover have "terminated (lit ''Title;valtype=x'' @ [0])" "terminated (lit ''tITLE/y'' @ [0])" by (simp_all add: terminated_def)
  ultimately show ?thesis using pv_mime_strcmp_types by (simp add: compare_types_def)
qed

text \<open>
  \<open>pv_mime_string_append_type\<close> into a cleared buffer with room: a type without parameters gets the
  component appended; a type with parameters loses its last letter (\<open>audio;p\<close> and \<open>x\<close> make \<open>audi/x;p\<close>).
\<close>

theorem append_type_result:
  assumes "0 \<notin> set t" "SEMICOLON \<notin> set t" "0 \<notin> set u" "0 \<notin> set ps" "length t + length u + length ps + 2 < n"
  shows "pv_mime_string_append_type (Some (t @ [0])) (u @ [0]) (replicate n 0) = Some (Some (zbuf n (t @ SLASH # u))) \<and>
    pv_mime_string_append_type (Some (t @ SEMICOLON # ps @ [0])) (u @ [0]) (replicate n 0) =
      Some (Some (zbuf n (butlast t @ SLASH # u @ SEMICOLON # ps)))"
  using append_type_plain [OF assms(1-3)] append_type_params [OF assms] assms(5) by simp

theorem append_type_result_witness:
  "pv_mime_string_append_type (Some (lit ''audio;p'' @ [0])) (lit ''x'' @ [0]) (replicate 16 0) =
    Some (Some (zbuf 16 (lit ''audi/x;p'')))"
  using append_type_result [of "lit ''audio''" "lit ''x''" "lit ''p''" 16] by simp

text \<open>
  On a type of one component, with neither a slash nor a parameter, two of the searches leave their
  arrays whatever they look for: \<open>pv_mime_string_parse_type\<close> stores its terminator behind the scratch
  array, which has no room for it, and \<open>pv_mime_string_extract_param\<close> reads behind the string's own
  terminator. A string that begins with a quote makes the counting functions read in front of it.
\<close>

theorem mime_array_faults:
  assumes "0 \<notin> set t" "SEMICOLON \<notin> set t" "SLASH \<notin> set t" "t \<noteq> []"
  shows "pv_mime_string_parse_type (Some (t @ [0])) string = None \<and>
    pv_mime_string_extract_param compnumber (Some (t @ [0])) = None \<and>
    pv_mime_string_compcnt (Some (QUOTE # s)) = None \<and> pv_mime_string_parcnt (Some (QUOTE # s)) = None"
proof -
  have "pv_mime_string_extract_param compnumber (Some (t @ [0])) = None"
    using type_end_append [OF assms(1,2), of 0 "[]"] by (simp add: pv_mime_string_extract_param_def rd_def)
  moreover have "count_loop delim (QUOTE # s) 0 False count = None" for delim count
    by (subst count_loop.simps) (simp add: toggle_at_def rd_at_def)
  ultimately show ?thesis
    using parse_type_overflow [OF assms] by (simp add: pv_mime_string_compcnt_def pv_mime_string_parcnt_def)
qed

theorem mime_array_faults_witness:
  "pv_mime_string_parse_type (Some (lit ''audio'' @ [0])) (lit ''mp3'' @ [0]) = None"
  using mime_array_faults [of "lit ''audio''"] by simp

end
