(* ===== verification/Id3Lookup.thy ===== *)
theory Id3Lookup
  imports Id3Parse Mime
begin

text \<open>
  Looking up, testing for and removing the metadata of a key: \<open>GetID3Frame\<close>, \<open>IsID3FrameAvailable\<close> and
  \<open>RemoveID3Frame\<close> of \<open>pvmi/pv_id3_parcom.cpp\<close>, which compare keys with \<open>pv_mime_strcmp\<close>. A key of the
  model is the string without its terminator.
\<close>

section \<open>The operations\<close>

text \<open>The index of the first frame of the type, and the frames behind \<open>i\<close> searched.\<close>

fun first_of_type :: "u8 list \<Rightarrow> nat \<Rightarrow> kvp list \<Rightarrow> nat option option" where
  "first_of_type aFrameType i [] = Some None"
| "first_of_type aFrameType i (k # ks) = do {
     d \<leftarrow> pv_mime_strcmp (Some (kvp_key k @ [0])) (Some aFrameType);
     if d = 0 then Some (Some i) else first_of_type aFrameType (i + 1) ks }"

definition GetID3Frame :: "u8 list \<Rightarrow> 'f id3 \<Rightarrow> kvp list \<Rightarrow> (pvmf_status \<times> kvp list) option" where
  "GetID3Frame aFrameType s aFrameVector = do {
     r \<leftarrow> first_of_type aFrameType 0 (iFrames s);
     Some (PVMFSuccess, case r of Some i \<Rightarrow> aFrameVector @ [iFrames s ! i] | None \<Rightarrow> aFrameVector) }"

definition IsID3FrameAvailable :: "u8 list \<Rightarrow> 'f id3 \<Rightarrow> bool option" where
  "IsID3FrameAvailable aFrameType s = do { r \<leftarrow> first_of_type aFrameType 0 (iFrames s); Some (r \<noteq> None) }"

definition RemoveID3Frame :: "u8 list \<Rightarrow> 'f id3 \<Rightarrow> (pvmf_status \<times> 'f id3) option" where
  "RemoveID3Frame aFrameType s = do {
     r \<leftarrow> first_of_type aFrameType 0 (iFrames s);
     Some (case r of
       Some i \<Rightarrow> (PVMFSuccess, s\<lparr>iFrames := take i (iFrames s) @ drop (i + 1) (iFrames s)\<rparr>)
     | None \<Rightarrow> (PVMFErrArgument, s)) }"

section \<open>What they find\<close>

definition of_type :: "u8 list \<Rightarrow> kvp \<Rightarrow> bool" where
  "of_type aFrameType k \<longleftrightarrow> lower_type (kvp_key k @ [0]) = lower_type aFrameType"

lemma strcmp_0:
  assumes "terminated t"
  shows "\<exists>d. pv_mime_strcmp (Some (kvp_key k @ [0])) (Some t) = Some d \<and> (d = 0 \<longleftrightarrow> of_type t k)"
proof -
  have "terminated (kvp_key k @ [0])" by (simp add: terminated_def)
  then show ?thesis
    using strcmp_types [OF _ assms]
    by (auto simp: compare_types_def of_type_def RETVAL_MATCH_def RETVAL_FIRST_PREFIX_def RETVAL_SECOND_PREFIX_def
        RETVAL_NO_MATCH_def)
qed

lemma first_of_type_split:
  assumes "terminated t"
  shows "first_of_type t i ks =
    Some (if \<exists>k \<in> set ks. of_type t k then Some (i + length (takeWhile (\<lambda>k. \<not> of_type t k) ks)) else None)"
proof (induction ks arbitrary: i)
  case (Cons k ks)
  obtain d where d: "pv_mime_strcmp (Some (kvp_key k @ [0])) (Some t) = Some d" "d = 0 \<longleftrightarrow> of_type t k"
    using strcmp_0 [OF assms] by blast
  show ?case using d Cons.IH [of "i + 1"] by (simp split: if_splits)
qed simp

lemma first_split:
  assumes "\<exists>x \<in> set xs. p x"
  shows "xs = takeWhile (\<lambda>x. \<not> p x) xs @ xs ! length (takeWhile (\<lambda>x. \<not> p x) xs) # drop (Suc (length (takeWhile (\<lambda>x. \<not> p x) xs))) xs"
    "p (xs ! length (takeWhile (\<lambda>x. \<not> p x) xs))"
proof -
  have l: "length (takeWhile (\<lambda>x. \<not> p x) xs) < length xs"
    using assms by (induction xs) auto
  show "xs = takeWhile (\<lambda>x. \<not> p x) xs @ xs ! length (takeWhile (\<lambda>x. \<not> p x) xs) # drop (Suc (length (takeWhile (\<lambda>x. \<not> p x) xs))) xs"
    using id_take_nth_drop [OF l] by (simp add: takeWhile_eq_take [symmetric])
  show "p (xs ! length (takeWhile (\<lambda>x. \<not> p x) xs))" using nth_length_takeWhile [OF l] by simp
qed

lemma filter_takeWhile [simp]: "List.filter p (takeWhile (\<lambda>x. \<not> p x) xs) = []"
  by (auto simp: filter_empty_conv dest: set_takeWhileD)

text \<open>
  C22. The metadata under a key: \<open>GetID3Frame\<close> gives the first frame whose key has the type asked for (upper and
  lower case alike, parameters ignored), or nothing; \<open>IsID3FrameAvailable\<close> says whether there is one; and
  \<open>RemoveID3Frame\<close> removes exactly that one and leaves the order of the others, or fails when there is none.
\<close>

theorem id3_lookup:
  assumes "terminated t"
  shows "GetID3Frame t s v = Some (PVMFSuccess, v @ take 1 (List.filter (of_type t) (iFrames s))) \<and>
    IsID3FrameAvailable t s = Some (\<exists>k \<in> set (iFrames s). of_type t k) \<and>
    (\<exists>s'. RemoveID3Frame t s = Some (if \<exists>k \<in> set (iFrames s). of_type t k then PVMFSuccess else PVMFErrArgument, s') \<and>
      List.filter (of_type t) (iFrames s') = tl (List.filter (of_type t) (iFrames s)) \<and>
      List.filter (\<lambda>k. \<not> of_type t k) (iFrames s') = List.filter (\<lambda>k. \<not> of_type t k) (iFrames s))"
proof (cases "\<exists>k \<in> set (iFrames s). of_type t k")
  case False
  then have "List.filter (of_type t) (iFrames s) = []" by (simp add: filter_empty_conv)
  then show ?thesis
    using False first_of_type_split [OF assms, of 0 "iFrames s"]
    by (auto simp: GetID3Frame_def IsID3FrameAvailable_def RemoveID3Frame_def)
next
  case True
  have fa: "List.filter (of_type t) (takeWhile (\<lambda>k. \<not> of_type t k) (iFrames s)) = []" by simp
  from first_split [OF True] first_of_type_split [OF assms, of 0 "iFrames s"] True fa
  obtain a x b where split: "iFrames s = a @ x # b" "of_type t x" "List.filter (of_type t) a = []"
    "first_of_type t 0 (iFrames s) = Some (Some (length a))"
    by simp
  then show ?thesis by (simp add: GetID3Frame_def IsID3FrameAvailable_def RemoveID3Frame_def)
qed

theorem id3_lookup_witness:
  "GetID3Frame (lit ''TITLE'' @ [0])
      ((PVID3ParCom (pv_open [] []) PV_ID3_CHARSET_ISO88591 [] [] 0)\<lparr>iFrames :=
         [text_kvp (lit ''TPE1'', lit ''Band''), text_kvp (lit ''TIT2'', lit ''Song'')]\<rparr>) [] =
    Some (PVMFSuccess, [text_kvp (lit ''TIT2'', lit ''Song'')])"
proof -
  have t: "terminated (lit ''TITLE'' @ [0])" by (simp add: terminated_def)
  have keys: "kvp_key (text_kvp (lit ''TPE1'', x)) = lit ''artist;valtype=char*''"
    "kvp_key (text_kvp (lit ''TIT2'', x)) = lit ''title;valtype=char*''" for x
    by (simp_all add: text_kvp_def id3_frame_ids_def KVP_KEY_def)
  have "lower_type (lit ''TITLE'' @ [0]) = lit ''title''" "lower_type (lit ''artist;valtype=char*'' @ [0]) = lit ''artist''"
    "lower_type (lit ''title;valtype=char*'' @ [0]) = lit ''title''"
    by (simp_all add: lower_type_def type_part_def in_type_def oscl_tolower_def word_le_nat_alt)
  then have "\<not> of_type (lit ''TITLE'' @ [0]) (text_kvp (lit ''TPE1'', x))" "of_type (lit ''TITLE'' @ [0]) (text_kvp (lit ''TIT2'', x))" for x
    unfolding of_type_def keys by simp_all
  then show ?thesis unfolding id3_lookup [OF t, THEN conjunct1] by simp
qed

end
