(* ===== verification/Mp3Parse.thy ===== *)
theory Mp3Parse
  imports Mp3Seek Id3Lookup
begin

text \<open>
  Opening an MP3 file: \<open>ParseMP3File\<close> and \<open>IsMp3File\<close> of \<open>pvmi/mp3parser.cpp\<close>, which put the ID3 parser, the
  search for the first frame and the VBR headers together. \<open>T\<close> is the ID3 parser inside the MP3 parser; it
  works on the same file, so its file is the one passed in and what it leaves is passed on. The two
  fields of the MP3 parser that answer for it are set when it has run. \<open>words\<close> is what the memory of the new table
  held; the code clears one pointer's worth of it.
\<close>

section \<open>The duration in the metadata\<close>

text \<open>\<open>None\<close> is the value of another kind than the key says.\<close>

definition metadata_duration :: "'f id3 \<Rightarrow> int option option" where
  "metadata_duration T = do {
     (_, frame) \<leftarrow> GetID3Frame (lit ''duration-from-metadata'' @ [0]) T [];
     case frame of
       [] \<Rightarrow> Some None
     | k # _ \<Rightarrow> (case kvp_value k of Uint32Value v \<Rightarrow> Some (Some (uint v)) | _ \<Rightarrow> None) }"

section \<open>ParseMP3File\<close>

definition MP3_FIRST_FRAME_SIZE :: nat where "MP3_FIRST_FRAME_SIZE = 128"
definition VBRI_HEADER_OFFSET :: nat where "VBRI_HEADER_OFFSET = 36"

text \<open>What the call resets.\<close>

definition reset_parser :: "bool \<Rightarrow> mp3_parser \<Rightarrow> mp3_parser" where
  "reset_parser aEnableCRC P =
     P\<lparr>iEnableCrcCalc := aEnableCRC, iLocalFileSize := 0, iLocalFileSizeSet := False, iCurrFrameNumber := 0,
       iNumberOfFrames := 0, ConfigSize := 0, StartOffset := 0, iMP3ConfigInfo := zero_config,
       iMP3HeaderInfo := zero_header, iXingHeader := zero_xing, ConfigData := [0, 0, 0, 0], iVbriHeader := zero_vbri\<rparr>"

text \<open>The file size: the error to return at once, if any.\<close>

definition take_file_size :: "'f file_ops \<Rightarrow> mp3_parser \<Rightarrow> 'f pvfile \<Rightarrow> mp3_error option \<times> mp3_parser \<times> 'f pvfile" where
  "take_file_size io P F =
     (let (empty, P, F) =
        (if GetFileBufferingCapacity F = 0 then
           case getCurrentFileSize io F of (ok, n, F) \<Rightarrow>
             if ok then (n = 0, P\<lparr>iLocalFileSize := n, iLocalFileSizeSet := True,
               iInitSearchFileSize := min (iInitSearchFileSize P) n\<rparr>, F)
             else (False, P\<lparr>iLocalFileSize := n\<rparr>, F)
         else (False, P, F))
      in if empty then (Some MP3_END_OF_FILE, P, F)
         else if iLocalFileSizeSet P then (None, P, F)
         else case GetRemainingBytes io F of
           (Some remBytes, F) \<Rightarrow> (None, P\<lparr>iInitSearchFileSize := min (iInitSearchFileSize P) remBytes\<rparr>, F)
         | (None, F) \<Rightarrow> (None, P, F))"

definition tell_tags :: "'f id3 \<Rightarrow> mp3_parser \<Rightarrow> mp3_parser" where
  "tell_tags T P = mp3_parser.iID3V1Present_update (\<lambda>_. id3.iID3V1Present T)
     (mp3_parser.iID3V2Present_update (\<lambda>_. id3.iID3V2Present T) P)"

text \<open>The tag: the parser with \<open>iTagSize\<close> and \<open>StartOffset\<close>; \<open>None\<close> inside when the passes were not enough.\<close>

definition parse_tag ::
  "nat \<Rightarrow> byte_order \<Rightarrow> 'f file_ops \<Rightarrow> (u32 \<Rightarrow> bool) \<Rightarrow> u32 \<Rightarrow> mp3_parser \<Rightarrow> 'f id3 \<Rightarrow> 'f pvfile \<Rightarrow>
     (mp3_parser \<times> 'f id3 \<times> 'f pvfile) option exit option" where
  "parse_tag passes bo io heap buffsize P T F = do {
     r \<leftarrow> (if GetFileBufferingCapacity F \<le> 0 then do {
         r \<leftarrow> ParseID3Tag passes bo io heap buffsize (T\<lparr>id3_file := F\<rparr>);
         on_return r (\<lambda>x. Some (Return (case x of
           None \<Rightarrow> None
         | Some (status, T) \<Rightarrow>
             Some (if status = PVMFSuccess \<and> IsID3V2Present T
               then P\<lparr>iTagSize := uint (iByteOffsetToStartOfAudioFrames T)\<rparr> else P, T))))
       } else do {
         r \<leftarrow> IsID3V2PresentIn bo io heap (T\<lparr>id3_file := F\<rparr>);
         on_return r (\<lambda>(tag, T). Some (Return (Some
           (case tag of Some n \<Rightarrow> P\<lparr>iTagSize := uint n\<rparr> | None \<Rightarrow> P, T))))
       });
     on_return r (\<lambda>x. Some (Return (case x of
       None \<Rightarrow> None
     | Some (P, T) \<Rightarrow>
         let P = tell_tags T P
         in Some (if iTagSize P > 0 then P\<lparr>StartOffset := iTagSize P\<rparr> else P, T, id3_file T)))) }"

text \<open>
  The first frame: the search, its header, and the 128 bytes at the place where the search began. An
  error, or the bytes and the offset that the search found.
\<close>

definition parse_first_frame ::
  "byte_order \<Rightarrow> 'f file_ops \<Rightarrow> mp3_parser \<Rightarrow> 'f pvfile \<Rightarrow> ((mp3_error + u8 list \<times> int) \<times> mp3_parser \<times> 'f pvfile) option" where
  "parse_first_frame bo io P F = do {
     let (err, F) = SeektoOffset io F (to_s32 (StartOffset P)) SEEKSET;
     if err \<noteq> MP3_SUCCESS then Some (Inl err, P, F)
     else do {
       (err, seekOffset, P, F) \<leftarrow> mp3FindSync bo io P (StartOffset P) F;
       if err \<noteq> MP3_SUCCESS then Some (Inl err, P, F)
       else do {
         let P = P\<lparr>StartOffset := to_u32 (StartOffset P + seekOffset)\<rparr>;
         let (err, F) = SeektoOffset io F (to_s32 (StartOffset P)) SEEKSET;
         if err \<noteq> MP3_SUCCESS then Some (Inl err, P, F)
         else do {
           let (ok, pFrameHeader, F) = readByteData io 4 F;
           if \<not> ok then Some (Inl MP3_INSUFFICIENT_DATA, P, F)
           else do {
             firstHeader \<leftarrow> swap32_at bo pFrameHeader 0;
             let (ok, info) = GetMP3Header firstHeader;
             let P = P\<lparr>iMP3HeaderInfo := info\<rparr>;
             if \<not> ok then Some (Inl MP3_FILE_HDR_READ_ERR, P, F)
             else do {
               (ok, c, P) \<leftarrow> DecodeMP3Header info False P;
               let P = P\<lparr>iMP3ConfigInfo := c\<rparr>;
               if \<not> ok then Some (Inl MP3_FILE_HDR_DECODE_ERR, P, F)
               else do {
                 let P = P\<lparr>ConfigData := pFrameHeader, ConfigSize := 4\<rparr>;
                 let (err, F) = SeektoOffset io F (to_s32 (0 - 4 - seekOffset)) SEEKCUR;
                 if err \<noteq> MP3_SUCCESS then Some (Inl err, P, F)
                 else do {
                   let (ok, pFirstFrame, F) = readByteData io MP3_FIRST_FRAME_SIZE F;
                   if \<not> ok then Some (Inl MP3_INSUFFICIENT_DATA, P, F)
                   else Some (Inr (pFirstFrame, seekOffset), P, F)
                 }
               }
             }
           }
         }
       }
     }
   }"

text \<open>The VBRI header behind the first frame header: an error, or how far back the first frame is.\<close>

definition parse_vbri ::
  "byte_order \<Rightarrow> 'f file_ops \<Rightarrow> u8 list \<Rightarrow> mp3_parser \<Rightarrow> 'f pvfile \<Rightarrow> ((mp3_error + int) \<times> mp3_parser \<times> 'f pvfile) option" where
  "parse_vbri bo io pFirstFrame P F = do {
     bufferSize \<leftarrow> CalculateBufferSizeForHeader bo (drop VBRI_HEADER_OFFSET pFirstFrame);
     let actualBufferSize = bufferSize + int VBRI_HEADER_OFFSET + 4;
     let (err, F) = SeektoOffset io F (0 - int MP3_FIRST_FRAME_SIZE) SEEKCUR;
     if err \<noteq> MP3_SUCCESS then Some (Inl err, P, F)
     else do {
       let (ok, tempBuf, F) = readByteData io (nat actualBufferSize) F;
       if \<not> ok then Some (Inl MP3_INSUFFICIENT_DATA, P, F)
       else do {
         (V, nframes) \<leftarrow> DecodeVBRIHeader bo (drop VBRI_HEADER_OFFSET tempBuf) (iVbriHeader P) (iMP3HeaderInfo P);
         Some (Inr (0 - actualBufferSize),
           P\<lparr>iVbriHeader := V, iNumberOfFrames := nframes, mp3Type := EVBRIType, iLocalFileSize := to_u32 (vbri_bytes V)\<rparr>, F)
       }
     }
   }"

text \<open>Where a XING header is, by version and channel mode.\<close>

definition xing_offset :: "mp3_header \<Rightarrow> nat" where
  "xing_offset h =
     (if layerID h = 1 then if frameVer h = 3 then if chMode h \<noteq> 3 then 36 else 21
                            else if chMode h \<noteq> 3 then 21 else 13
      else 0)"

definition parse_xing ::
  "byte_order \<Rightarrow> 'f file_ops \<Rightarrow> u8 list \<Rightarrow> mp3_parser \<Rightarrow> 'f pvfile \<Rightarrow> ((mp3_error + int) \<times> mp3_parser \<times> 'f pvfile) option" where
  "parse_xing bo io pFirstFrame P F =
     (let offset = xing_offset (iMP3HeaderInfo P); ident = take 4 (drop offset pFirstFrame)
      in if ident = lit ''Xing'' \<or> ident = lit ''Info'' then do {
           let (err, F) = SeektoOffset io F (int offset - int MP3_FIRST_FRAME_SIZE) SEEKCUR;
           if err \<noteq> MP3_SUCCESS then Some (Inl err, P, F)
           else do {
             let (ok, pFirstFrame, F) = readByteData io MP3_FIRST_FRAME_SIZE F;
             if \<not> ok then Some (Inl MP3_INSUFFICIENT_DATA, P, F)
             else do {
               (X, nframes) \<leftarrow> DecodeXINGHeader bo (iLocalFileSize P) (iNumberOfFrames P) pFirstFrame (iXingHeader P) (iMP3HeaderInfo P);
               Some (Inr (0 - int offset - int MP3_FIRST_FRAME_SIZE),
                 P\<lparr>iXingHeader := X, iNumberOfFrames := nframes, mp3Type := EXINGType\<rparr>, F)
             }
           }
         } else Some (Inr (0 - int MP3_FIRST_FRAME_SIZE), P, F))"

text \<open>The rest: the rates, the duration of a VBR header, the table and the way to the first frame.\<close>

definition finish_parse ::
  "'f file_ops \<Rightarrow> int list \<Rightarrow> int \<Rightarrow> int \<Rightarrow> mp3_parser \<Rightarrow> 'f pvfile \<Rightarrow> (mp3_error \<times> mp3_parser \<times> 'f pvfile) option" where
  "finish_parse io words revSeek seekOffset P F = do {
     spf \<leftarrow> rdi2 spfIndexTable (frameVer (iMP3HeaderInfo P)) (layerID (iMP3HeaderInfo P));
     rate \<leftarrow> rdi srIndexTable (frameVer (iMP3HeaderInfo P) * 4 + srIndex (iMP3HeaderInfo P));
     let P = P\<lparr>iSamplesPerFrame := spf, iSamplingRate := rate\<rparr>;
     P \<leftarrow> (if mp3Type P = EXINGType \<or> mp3Type P = EVBRIType then do {
         (_, d, P) \<leftarrow> GetDurationFromVBRIHeader P;
         Some (if (case d of Some d \<Rightarrow> d | None \<Rightarrow> 0) = 0 then P\<lparr>mp3Type := EVBRType\<rparr> else P)
       } else Some P);
     let P = (if (mp3Type P \<noteq> EXINGType \<or> \<not> has_flag (xing_flags (iXingHeader P)) TOC_FLAG) \<and> mp3Type P \<noteq> EVBRIType
              then P\<lparr>iTOC := Some (0 # tl words)\<rparr> else P);
     let P = P\<lparr>iAvgBitrateInbps := BitRate (iMP3ConfigInfo P)\<rparr>;
     let (err, F) = SeektoOffset io F (to_s32 (revSeek + seekOffset)) SEEKCUR;
     if err \<noteq> MP3_SUCCESS then Some (err, P, F)
     else Some (MP3_SUCCESS, P\<lparr>iCurrFrameNumber := 0\<rparr>, F)
   }"

definition parse_audio ::
  "byte_order \<Rightarrow> 'f file_ops \<Rightarrow> int list \<Rightarrow> mp3_parser \<Rightarrow> 'f pvfile \<Rightarrow> (mp3_error \<times> mp3_parser \<times> 'f pvfile) option" where
  "parse_audio bo io words P F = do {
     (r, P, F) \<leftarrow> parse_first_frame bo io P F;
     case r of
       Inl err \<Rightarrow> Some (err, P, F)
     | Inr (pFirstFrame, seekOffset) \<Rightarrow> do {
         (r, P, F) \<leftarrow> (if take 4 (drop VBRI_HEADER_OFFSET pFirstFrame) = lit ''VBRI''
           then parse_vbri bo io pFirstFrame P F else parse_xing bo io pFirstFrame P F);
         case r of
           Inl err \<Rightarrow> Some (err, P, F)
         | Inr revSeek \<Rightarrow> finish_parse io words revSeek seekOffset P F } }"

definition ParseMP3File ::
  "nat \<Rightarrow> byte_order \<Rightarrow> 'f file_ops \<Rightarrow> (u32 \<Rightarrow> bool) \<Rightarrow> u32 \<Rightarrow> int list \<Rightarrow> bool \<Rightarrow> mp3_parser \<Rightarrow> 'f id3 \<Rightarrow> 'f pvfile \<Rightarrow>
     (mp3_error \<times> mp3_parser \<times> 'f id3 \<times> 'f pvfile) option exit option" where
  "ParseMP3File passes bo io heap buffsize words aEnableCRC P T F =
     (let F = snd (SeektoOffset io F 0 SEEKSET);
          (err, P, F) = take_file_size io (reset_parser aEnableCRC P) F
      in case err of
        Some err \<Rightarrow> Some (Return (Some (err, P, T, F)))
      | None \<Rightarrow> do {
          r \<leftarrow> parse_tag passes bo io heap buffsize P T F;
          on_return r (\<lambda>x. case x of
            None \<Rightarrow> Some (Return None)
          | Some (P, T, F) \<Rightarrow> do {
              (err, P, F) \<leftarrow> parse_audio bo io words P F;
              Some (Return (Some (err, P, T, F))) }) })"

section \<open>IsMp3File\<close>

text \<open>
  The frame at the start offset, or the first one that the search finds. The two headers of the code's
  two branches are decoded in the same way.
\<close>

definition identify_frame ::
  "byte_order \<Rightarrow> 'f file_ops \<Rightarrow> mp3_parser \<Rightarrow> 'f pvfile \<Rightarrow> (mp3_error \<times> mp3_parser \<times> 'f pvfile) option" where
  "identify_frame bo io P F = do {
     let F = snd (SeektoOffset io F (to_s32 (StartOffset P)) SEEKSET);
     let (ok, pFrameHeader, F) = readByteData io 4 F;
     if \<not> ok then Some (MP3_INSUFFICIENT_DATA, P, F)
     else do {
       firstHeader \<leftarrow> swap32_at bo pFrameHeader 0;
       let (ok, info) = GetMP3Header firstHeader;
       let P = P\<lparr>iMP3HeaderInfo := info\<rparr>;
       if ok then do {
         (ok, c, P) \<leftarrow> DecodeMP3Header info False P;
         Some (if ok then MP3_SUCCESS else MP3_FILE_HDR_DECODE_ERR, P\<lparr>iMP3ConfigInfo := c\<rparr>, F)
       } else do {
         let F = snd (SeektoOffset io F (0 - 4) SEEKCUR);
         (err, seekOffset, P, F) \<leftarrow> mp3FindSync bo io P (StartOffset P) F;
         if err = MP3_SUCCESS then do {
           let (err, F) = SeektoOffset io F (to_s32 seekOffset) SEEKCUR;
           if err \<noteq> MP3_SUCCESS then Some (err, P, F)
           else do {
             let P = P\<lparr>StartOffset := to_u32 (StartOffset P + seekOffset)\<rparr>;
             let (ok, pFrameHeader, F) = readByteData io 4 F;
             if \<not> ok then Some (MP3_INSUFFICIENT_DATA, P, F)
             else do {
               firstHeader \<leftarrow> swap32_at bo pFrameHeader 0;
               let (ok, info) = GetMP3Header firstHeader;
               let P = P\<lparr>iMP3HeaderInfo := info\<rparr>;
               if \<not> ok then Some (MP3_FILE_HDR_READ_ERR, P, F)
               else do {
                 (ok, c, P) \<leftarrow> DecodeMP3Header info False P;
                 Some (if ok then MP3_SUCCESS else MP3_FILE_HDR_DECODE_ERR, P\<lparr>iMP3ConfigInfo := c\<rparr>, F)
               }
             }
           }
         }
         else if err = MP3_INSUFFICIENT_DATA
         then Some (err, P, snd (SeektoOffset io F (to_s32 (pv_tell io F - StartOffset P)) SEEKCUR))
         else Some (MP3_ERROR_UNKNOWN_OBJECT, P, F)
       }
     }
   }"

text \<open>The file size of \<open>IsMp3File\<close> is asked for whatever the buffering, and the limit is the argument's.\<close>

definition IsMp3File ::
  "byte_order \<Rightarrow> 'f file_ops \<Rightarrow> (u32 \<Rightarrow> bool) \<Rightarrow> int \<Rightarrow> mp3_parser \<Rightarrow> 'f id3 \<Rightarrow> 'f pvfile \<Rightarrow>
     (mp3_error \<times> mp3_parser \<times> 'f pvfile) exit option" where
  "IsMp3File bo io heap aInitSearchFileSize P tagParser F =
     (let P = P\<lparr>StartOffset := 0\<rparr>;
          F = snd (SeektoOffset io F 0 SEEKSET);
          (ok, n, F) = getCurrentFileSize io F;
          P = (if ok then P\<lparr>iLocalFileSize := n, iLocalFileSizeSet := True, iInitSearchFileSize := min aInitSearchFileSize n\<rparr>
               else P\<lparr>iLocalFileSize := n\<rparr>)
      in if ok \<and> n = 0 then Some (Return (MP3_END_OF_FILE, P, F))
         else let (P, F) =
             (if iLocalFileSizeSet P then (P, F)
              else case GetRemainingBytes io F of
                (Some remBytes, F) \<Rightarrow> (P\<lparr>iInitSearchFileSize := min (iInitSearchFileSize P) remBytes\<rparr>, F)
              | (None, F) \<Rightarrow> (P, F))
           in do {
             r \<leftarrow> IsID3V2PresentIn bo io heap (tagParser\<lparr>id3_file := F\<rparr>);
             on_return r (\<lambda>(tag, T). do {
               let P = (case tag of
                   Some n \<Rightarrow> P\<lparr>iTagSize := uint n, StartOffset := to_u32 (StartOffset P + uint n)\<rparr>
                 | None \<Rightarrow> P\<lparr>iTagSize := 0\<rparr>);
               (err, P, F) \<leftarrow> identify_frame bo io P (id3_file T);
               Some (Return (err, P, F)) }) })"

section \<open>A file with a tag and frames\<close>

lemma next_timestamp_start:
  assumes "header_valid h"
  obtains t where "next_timestamp 0 (config_of h) = Some t"
proof -
  let ?c = "config_of h" and ?n = "FrameLengthInBytes (config_of h)"
  obtain i where len: "24 \<le> ?n" "?n \<le> 1441" by (rule accepted_word [OF assms])
  have b: "0 < BitRate ?c" "BitRate ?c \<le> 448000"
    by (rule config_bitrate_pos [OF assms]) (rule config_bitrate_max [OF assms])
  obtain t where "frame_duration ?c = Some t" using frame_duration_defined [of ?c] len b by force
  then obtain x where x: "fdiv (fmul (fint ?n) 8000) (fint (BitRate ?c)) = Some x" "float_to_u32 x = Some t"
    by (auto simp: frame_duration_def bind_eq_Some_conv)
  have n: "fint ?n = of_int ?n" unfolding fint_def using len by (intro fl32_int) simp
  have m: "fmul (fint ?n) 8000 = of_int (?n * 8000)"
    unfolding fmul_def n using fl32_int [of "?n * 8000"] len by simp
  have r: "fint (BitRate ?c) = of_int (BitRate ?c)" unfolding fint_def using b by (intro fl32_int) simp
  have x1: "x = fl32 (of_int (?n * 8000) / of_int (BitRate ?c))"
    using x(1) b by (simp add: fdiv_def m r split: if_splits)
  have "0 \<le> (of_int (?n * 8000) / of_int (BitRate ?c) :: rat)" using len b by simp
  then have x0: "0 \<le> x" unfolding x1 by (rule fl32_nonneg)
  have "(1 :: rat) \<le> of_int (BitRate ?c)" using b by simp
  then have "(of_int (?n * 8000) / of_int (BitRate ?c) :: rat) \<le> of_int (?n * 8000) / 1"
    using len by (intro divide_left_mono) simp_all
  also have "\<dots> \<le> of_int 16000000" using len(2) by simp
  finally have "x \<le> fl32 (of_int 16000000)" unfolding x1 by (rule fl32_mono)
  moreover have top: "fl32 (of_int 16000000) = of_int 16000000" by (rule fl32_int) simp
  ultimately have "x \<le> of_int 16000000" by metis
  then have "fl32 x \<le> fl32 (of_int 16000000)" by (rule fl32_mono)
  then have "fl32 x \<le> of_int 16000000" unfolding top .
  then have "trunc (fl32 x) \<le> trunc (of_int 16000000)" by (rule trunc_mono)
  moreover have "0 \<le> trunc (fl32 x)" using fl32_nonneg [OF x0] by (simp add: trunc_def)
  ultimately have "float_to_u32 (fl32 x) = Some (trunc (fl32 x))" by (simp add: float_to_u32_def trunc_def)
  then show thesis
    using that [of "trunc (fl32 x)"] x(1) by (simp add: next_timestamp_def fadd_def fint_def)
qed

text \<open>No VBR header in the first frame.\<close>

definition plain_first_frame :: "u8 list \<Rightarrow> nat \<Rightarrow> mp3_header \<Rightarrow> bool" where
  "plain_first_frame d p h \<longleftrightarrow> take 4 (drop (p + VBRI_HEADER_OFFSET) d) \<noteq> lit ''VBRI'' \<and>
     take 4 (drop (p + xing_offset h) d) \<noteq> lit ''Xing'' \<and> take 4 (drop (p + xing_offset h) d) \<noteq> lit ''Info''"

context byte_file
begin

lemma take_size_at:
  assumes "pos_at F d p" "d \<noteq> []"
  obtains F' where "take_file_size io P F = (None, P\<lparr>iLocalFileSize := int (length d), iLocalFileSizeSet := True,
      iInitSearchFileSize := min (iInitSearchFileSize P) (int (length d))\<rparr>, F')" "pos_at F' d p"
proof -
  obtain F' where F': "getCurrentFileSize io F = (True, int (length d), F')" "pos_at F' d p"
    by (rule file_size_at [OF assms(1)])
  show thesis
    by (rule that [of F']) (use F' assms(2) in \<open>simp_all add: take_file_size_def GetFileBufferingCapacity_def\<close>)
qed

text \<open>The search succeeds at once.\<close>

lemma first_frame_at:
  assumes "pos_at F d p0" "sync_at bo d s" "s + 627 \<le> length d" "StartOffset P = int s"
    and "iLocalFileSizeSet P" "iLocalFileSize P = int (length d)" "1 < iInitSearchFileSize P"
  obtains F' where "parse_first_frame bo io P F = Some (Inr (take 128 (drop s d), 0),
      P\<lparr>iInitSearchFileSize := int (length d), iMP3HeaderInfo := snd (GetMP3Header (word_at bo d s)),
        iMP3ConfigInfo := config_of (word_at bo d s), ConfigData := take 4 (drop s d), ConfigSize := 4\<rparr>, F')"
    "pos_at F' d (s + 128)"
proof -
  note le = atD [OF assms(1)]
  let ?w = "word_at bo d s"
  have conv: "to_s32 (int s) = int s" "to_u32 (int s) = int s" using assms(3) le by (simp_all add: in_range)
  obtain F1 where F1: "SeektoOffset io F (int s) SEEKSET = (MP3_SUCCESS, F1)" "pos_at F1 d s"
    by (rule seek_set_at [OF assms(1), of s]) (use assms(3) in simp)
  have size: "iLocalFileSizeSet P \<longrightarrow> iLocalFileSize P = int (length d)" using assms(6) by simp
  obtain err off P1 F2 where r: "mp3FindSync bo io P (int s) F1 = Some (err, off, P1, F2)"
    and ok: "err = MP3_SUCCESS \<longrightarrow> pos_at F2 d s"
    and c: "\<forall>k. sync_at bo d (s + k) \<and> searched k \<and> (\<forall>k' < k. \<not> header_valid (word_at bo d (s + k'))) \<and>
       iLocalFileSizeSet P \<and> 0 \<le> int s \<and> int s + 627 \<le> int (length d) \<and> int k + 1 < iInitSearchFileSize P \<and>
       s + ((k + 1) div 627 + 1) * 627 \<le> length d \<longrightarrow> err = MP3_SUCCESS \<and> off = int k"
    using find_sync_at [OF F1(2) size, of bo "int s"] by blast
  have e: "err = MP3_SUCCESS" "off = 0"
    using c [rule_format, of 0] assms(2,3,5,7) by (auto simp: searched_def)
  have P1: "P1 = P\<lparr>iInitSearchFileSize := int (length d)\<rparr>"
    using find_sync_limit [OF r] e(1) assms(5,6) by metis
  have at2: "pos_at F2 d s" using ok e(1) by simp
  obtain F3 where F3: "SeektoOffset io F2 (int s) SEEKSET = (MP3_SUCCESS, F3)" "pos_at F3 d s"
    by (rule seek_set_at [OF at2, of s]) (use assms(3) in simp)
  obtain F4 where F4: "readByteData io 4 F3 = (s + 4 \<le> length d, take 4 (drop s d), F4)"
    "pos_at F4 d (if s + 4 \<le> length d then s + 4 else s)"
    by (rule read_data_at [OF F3(2), of 4]) simp
  have in4: "s + 4 \<le> length d" using assms(3) by simp
  have hv: "header_valid ?w" using assms(2) by (simp add: sync_at_def frame_chain_def)
  obtain i where i: "GetMP3Header ?w = (True, i)" "decode_header i = Some (True, config_of ?w)"
    by (rule accepted_word [OF hv])
  obtain F5 where F5: "SeektoOffset io F4 (- 4) SEEKCUR = (MP3_SUCCESS, F5)" "pos_at F5 d s"
    by (rule seek_cur_at [of F4 d "s + 4" "- 4" s]) (use F4(2) in4 in auto)
  obtain F6 where F6: "readByteData io 128 F5 = (s + 128 \<le> length d, take 128 (drop s d), F6)"
    "pos_at F6 d (if s + 128 \<le> length d then s + 128 else s)"
    by (rule read_data_at [OF F5(2), of 128]) simp
  have dec: "DecodeMP3Header i False Q = Some (True, config_of ?w, Q)" for Q using i(2) by (simp add: DecodeMP3Header_def)
  have neg: "to_s32 (0 - 4 - 0) = - 4" by (simp add: in_range)
  show thesis
  proof (rule that [of F6])
    show "pos_at F6 d (s + 128)" using F6(2) assms(3) by simp
    show "parse_first_frame bo io P F = Some (Inr (take 128 (drop s d), 0),
      P\<lparr>iInitSearchFileSize := int (length d), iMP3HeaderInfo := snd (GetMP3Header ?w),
        iMP3ConfigInfo := config_of ?w, ConfigData := take 4 (drop s d), ConfigSize := 4\<rparr>, F6)"
      unfolding parse_first_frame_def Let_def assms(4) conv F1(1) prod.case r e P1
      using F3(1) F4(1) F5(1) F6(1) in4 assms(3,4) i(1) conv neg swap32_word [OF in4, of bo]
      by (simp add: dec MP3_FIRST_FRAME_SIZE_def)
  qed
qed

lemma finish_at:
  assumes "pos_at F d (s + 128)" "s + 128 \<le> length d" "mp3Type P = EVBRType" "header_ok (iMP3HeaderInfo P)"
    and "frameVer (iMP3HeaderInfo P) \<noteq> 1"
  obtains spf rate F' where "finish_parse io words (- 128) 0 P F = Some (MP3_SUCCESS,
      P\<lparr>iSamplesPerFrame := spf, iSamplingRate := rate, iTOC := Some (0 # tl words),
        iAvgBitrateInbps := BitRate (iMP3ConfigInfo P), iCurrFrameNumber := 0\<rparr>, F')" "pos_at F' d s"
proof -
  obtain F1 where F1: "SeektoOffset io F (- 128) SEEKCUR = (MP3_SUCCESS, F1)" "pos_at F1 d s"
    by (rule seek_cur_at [OF assms(1), of "- 128" s]) (use assms(2) in auto)
  obtain rate where rate: "rdi srIndexTable (frameVer (iMP3HeaderInfo P) * 4 + srIndex (iMP3HeaderInfo P)) = Some rate"
    by (rule sampling_rate_ok [OF assms(4)])
  obtain spf where spf: "rdi2 spfIndexTable (frameVer (iMP3HeaderInfo P)) (layerID (iMP3HeaderInfo P)) = Some spf"
  proof -
    have "frameVer (iMP3HeaderInfo P) \<in> {0..3}" "layerID (iMP3HeaderInfo P) \<in> {0..3}"
      using assms(4) by (simp_all add: header_ok_def)
    then have "frameVer (iMP3HeaderInfo P) = 0 \<or> frameVer (iMP3HeaderInfo P) = 1 \<or> frameVer (iMP3HeaderInfo P) = 2 \<or> frameVer (iMP3HeaderInfo P) = 3"
      "layerID (iMP3HeaderInfo P) = 0 \<or> layerID (iMP3HeaderInfo P) = 1 \<or> layerID (iMP3HeaderInfo P) = 2 \<or> layerID (iMP3HeaderInfo P) = 3"
      by (simp_all only: int_cases4)
    then have "rdi2 spfIndexTable (frameVer (iMP3HeaderInfo P)) (layerID (iMP3HeaderInfo P)) \<noteq> None"
      by (elim disjE) (simp_all add: spfIndexTable_def rdi2_def rdi_def rd_def)
    then show thesis using that by blast
  qed
  show thesis
    by (rule that [of rate spf F1])
      (use F1 rate spf assms(3) in \<open>simp_all add: finish_parse_def in_range Let_def\<close>)
qed

lemma parse_tag_at:
  assumes "pos_at F d 0" "d = text_tag fs pad @ audio" "list_all text_ok fs" "10 \<le> pad" "length (text_frames fs) + pad < 268435456"
    and "take 3 (drop (length d - 128) d) \<noteq> lit ''TAG'' \<or> length d < 128" "length frame = 5"
    and "length (text_frames fs) \<le> tag_size_read bo (length (text_frames fs) + pad)"
    and "s = 10 + tag_size_read bo (length (text_frames fs) + pad)"
  obtains T' F' where "parse_tag (Suc n) bo io (\<lambda>_. True) buffsize P (PVID3ParCom F0 text_type frame lang seek) F =
      Some (Return (Some ((tell_tags T' (P\<lparr>iTagSize := int s\<rparr>))\<lparr>StartOffset := int s\<rparr>, T', F')))"
    "iFrames T' = List.map text_kvp fs" "pos_at F' d 0"
proof -
  obtain T' where T': "ParseID3Tag (Suc n) bo io (\<lambda>_. True) buffsize (PVID3ParCom F text_type frame lang seek) =
      Some (Return (Some (PVMFSuccess, T')))" "iFrames T' = List.map text_kvp fs"
      "unat (iByteOffsetToStartOfAudioFrames T') = s" "id3.iID3V2Present T'" "pos_at (id3_file T') d 0"
    using parse_text_tag_at [OF assms(1-8), of n buffsize text_type lang seek] unfolding assms(9) by blast
  have whole: "(PVID3ParCom F0 text_type frame lang seek)\<lparr>id3_file := F\<rparr> = PVID3ParCom F text_type frame lang seek"
    by (simp add: PVID3ParCom_def)
  have size: "uint (iByteOffsetToStartOfAudioFrames T') = int s" "0 < s"
    using T'(3) by (metis uint_nat) (simp add: assms(9))
  have keep: "iTagSize (tell_tags T' Q) = iTagSize Q" for Q by (simp add: tell_tags_def)
  show thesis
    by (rule that [of T' "id3_file T'"])
      (use T' whole size keep in \<open>simp_all add: parse_tag_def GetFileBufferingCapacity_def IsID3V2Present_def\<close>)
qed

lemma parse_tagged_at:
  assumes "pos_at F d p" "d = text_tag fs pad @ audio" "list_all text_ok fs" "10 \<le> pad" "length (text_frames fs) + pad < 268435456"
    and "take 3 (drop (length d - 128) d) \<noteq> lit ''TAG'' \<or> length d < 128" "length frame = 5"
    and "s = length (text_tag fs pad)" "sync_at LITTLE_ENDIAN d s" "s + 627 \<le> length d"
    and "plain_first_frame d s (snd (GetMP3Header (word_at LITTLE_ENDIAN d s)))" "mp3Type P = EVBRType" "1 < iInitSearchFileSize P"
  shows "\<exists>P' T' F'. ParseMP3File (Suc n) LITTLE_ENDIAN io (\<lambda>_. True) buffsize words crc P
        (PVID3ParCom F0 text_type frame lang seek) F = Some (Return (Some (MP3_SUCCESS, P', T', F'))) \<and>
      pos_at F' d s \<and> iFrames T' = List.map text_kvp fs \<and> StartOffset P' = int s \<and> iTagSize P' = int s \<and>
      iMP3ConfigInfo P' = config_of (word_at LITTLE_ENDIAN d s) \<and> ConfigData P' = take 4 (drop s d) \<and>
      iLocalFileSize P' = int (length d) \<and> iLocalFileSizeSet P' \<and> mp3Type P' = EVBRType \<and> iTOC P' = Some (0 # tl words) \<and>
      iEnableCrcCalc P' = crc \<and> iCurrFrameNumber P' = 0 \<and> iTimestamp P' = iTimestamp P \<and>
      iAvgBitrateInbps P' = BitRate (config_of (word_at LITTLE_ENDIAN d s))"
proof -
  let ?h = "snd (GetMP3Header (word_at LITTLE_ENDIAN d s))" and ?T = "PVID3ParCom F0 text_type frame lang seek"
  have len: "10 \<le> s" "d \<noteq> []" using assms(8,10) by auto
  have covers: "length (text_frames fs) \<le> tag_size_read LITTLE_ENDIAN (length (text_frames fs) + pad)"
    "s = 10 + tag_size_read LITTLE_ENDIAN (length (text_frames fs) + pad)"
    using tag_size_read(1) [OF assms(5)] assms(8) by simp_all
  obtain F1 where F1: "SeektoOffset io F (int 0) SEEKSET = (MP3_SUCCESS, F1)" "pos_at F1 d 0"
    by (rule seek_set_at [OF assms(1), of 0]) simp
  let ?P0 = "reset_parser crc P"
  obtain F2 where F2: "take_file_size io ?P0 F1 = (None, ?P0\<lparr>iLocalFileSize := int (length d), iLocalFileSizeSet := True,
      iInitSearchFileSize := min (iInitSearchFileSize ?P0) (int (length d))\<rparr>, F2)" "pos_at F2 d 0"
    by (rule take_size_at [OF F1(2) len(2)])
  let ?P1 = "?P0\<lparr>iLocalFileSize := int (length d), iLocalFileSizeSet := True,
      iInitSearchFileSize := min (iInitSearchFileSize ?P0) (int (length d))\<rparr>"
  obtain T' F3 where T': "parse_tag (Suc n) LITTLE_ENDIAN io (\<lambda>_. True) buffsize ?P1 ?T F2 =
      Some (Return (Some ((tell_tags T' (?P1\<lparr>iTagSize := int s\<rparr>))\<lparr>StartOffset := int s\<rparr>, T', F3)))"
    "iFrames T' = List.map text_kvp fs" "pos_at F3 d 0"
    by (rule parse_tag_at [OF F2(2) assms(2-7) covers, of n buffsize ?P1 F0 text_type lang seek])
  define P2 where "P2 = (tell_tags T' (?P1\<lparr>iTagSize := int s\<rparr>))\<lparr>StartOffset := int s\<rparr>"
  have P2: "StartOffset P2 = int s" "iTagSize P2 = int s" "iLocalFileSizeSet P2" "iLocalFileSize P2 = int (length d)"
    "iInitSearchFileSize P2 = min (iInitSearchFileSize P) (int (length d))" "mp3Type P2 = EVBRType" "iEnableCrcCalc P2 = crc"
    "iTimestamp P2 = iTimestamp P"
    using assms(12) by (simp_all add: P2_def tell_tags_def reset_parser_def)
  have lim: "1 < iInitSearchFileSize P2" using P2(5) assms(10,13) len by simp
  define P3 where "P3 = P2\<lparr>iInitSearchFileSize := int (length d), iMP3HeaderInfo := ?h,
        iMP3ConfigInfo := config_of (word_at LITTLE_ENDIAN d s), ConfigData := take 4 (drop s d), ConfigSize := 4\<rparr>"
  define bs where "bs = take 128 (drop s d)"
  obtain F4 where F4: "parse_first_frame LITTLE_ENDIAN io P2 F3 = Some (Inr (bs, 0), P3, F4)" "pos_at F4 d (s + 128)"
    unfolding P3_def bs_def by (rule first_frame_at [OF T'(3) assms(9,10) P2(1,3,4) lim])
  have hv: "header_valid (word_at LITTLE_ENDIAN d s)" using assms(9) by (simp add: sync_at_def frame_chain_def)
  obtain i where i: "GetMP3Header (word_at LITTLE_ENDIAN d s) = (True, i)" by (rule accepted_word [OF hv])
  have h: "header_ok ?h" "frameVer ?h \<noteq> 1" using GetMP3Header_accepts [OF i] i by simp_all
  have P3: "iMP3HeaderInfo P3 = ?h" "mp3Type P3 = EVBRType" "iMP3ConfigInfo P3 = config_of (word_at LITTLE_ENDIAN d s)"
    using P2(6) by (simp_all add: P3_def)
  have room: "s + 128 \<le> length d" using assms(10) by simp
  have h3: "header_ok (iMP3HeaderInfo P3)" "frameVer (iMP3HeaderInfo P3) \<noteq> 1" unfolding P3(1) using h .
  have small: "xing_offset ?h \<le> 36" by (simp add: xing_offset_def)
  have part: "take 4 (drop k bs) = take 4 (drop (s + k) d)" if "k \<le> 36" for k
  proof -
    have "min 4 (128 - k) = 4" using that by simp
    then show ?thesis by (simp add: bs_def drop_take add.commute [of k])
  qed
  have none: "take 4 (drop VBRI_HEADER_OFFSET bs) \<noteq> lit ''VBRI''" "take 4 (drop (xing_offset ?h) bs) \<noteq> lit ''Xing''"
    "take 4 (drop (xing_offset ?h) bs) \<noteq> lit ''Info''"
    using assms(11) part [OF small] part [of 36] unfolding plain_first_frame_def VBRI_HEADER_OFFSET_def by simp_all
  obtain spf rate F5 where F5: "finish_parse io words (- 128) 0 P3 F4 = Some (MP3_SUCCESS,
      P3\<lparr>iSamplesPerFrame := spf, iSamplingRate := rate, iTOC := Some (0 # tl words),
        iAvgBitrateInbps := BitRate (iMP3ConfigInfo P3), iCurrFrameNumber := 0\<rparr>, F5)" "pos_at F5 d s"
    by (rule finish_at [OF F4(2) room P3(2) h3, of words])
  define P4 where "P4 = P3\<lparr>iSamplesPerFrame := spf, iSamplingRate := rate, iTOC := Some (0 # tl words),
        iAvgBitrateInbps := BitRate (iMP3ConfigInfo P3), iCurrFrameNumber := 0\<rparr>"
  have xing: "parse_xing LITTLE_ENDIAN io bs P3 F4 = Some (Inr (- 128), P3, F4)"
    unfolding parse_xing_def P3(1) Let_def MP3_FIRST_FRAME_SIZE_def using none(2,3) by (simp only: if_False simp_thms) simp
  have audio: "parse_audio LITTLE_ENDIAN io words P2 F3 = Some (MP3_SUCCESS, P4, F5)"
    unfolding parse_audio_def F4(1) bind.bind_lunit prod.case sum.case if_not_P [OF none(1)] xing F5(1) P4_def by (rule refl)
  have "ParseMP3File (Suc n) LITTLE_ENDIAN io (\<lambda>_. True) buffsize words crc P ?T F = Some (Return (Some (MP3_SUCCESS, P4, T', F5)))"
    unfolding ParseMP3File_def using F1(1) F2(1) T'(1) audio by (simp add: P2_def [symmetric])
  moreover have "iMP3ConfigInfo P4 = config_of (word_at LITTLE_ENDIAN d s)" "iTOC P4 = Some (0 # tl words)" "iCurrFrameNumber P4 = 0"
    "iAvgBitrateInbps P4 = BitRate (config_of (word_at LITTLE_ENDIAN d s))" "ConfigData P4 = take 4 (drop s d)"
    "StartOffset P4 = int s" "iTagSize P4 = int s" "iLocalFileSizeSet P4" "iLocalFileSize P4 = int (length d)"
    "mp3Type P4 = EVBRType" "iEnableCrcCalc P4 = crc" "iTimestamp P4 = iTimestamp P"
    using P3 P2 by (simp_all add: P4_def P3_def)
  ultimately show ?thesis using T'(2) F5(2) by blast
qed

text \<open>With header words reversed there is no frame: the tags are found, and then an error is returned.\<close>

lemma parse_reversed_at:
  assumes "pos_at F d p" "d = text_tag fs pad @ audio" "list_all text_ok fs" "10 \<le> pad" "length (text_frames fs) + pad < 268435456"
    and "take 3 (drop (length d - 128) d) \<noteq> lit ''TAG'' \<or> length d < 128" "length frame = 5"
    and "length (text_frames fs) \<le> tag_size_read repository_byte_order (length (text_frames fs) + pad)"
    and "\<forall>q. q + 4 \<le> length d \<longrightarrow> \<not> (d ! q = 0xFF \<and> d ! (q + 3) = 0xFF)"
  shows "\<exists>err P' T' F'. ParseMP3File (Suc n) repository_byte_order io (\<lambda>_. True) buffsize words crc P
        (PVID3ParCom F0 text_type frame lang seek) F = Some (Return (Some (err, P', T', F'))) \<and>
      err \<noteq> MP3_SUCCESS \<and> iFrames T' = List.map text_kvp fs"
proof -
  let ?bo = repository_byte_order and ?T = "PVID3ParCom F0 text_type frame lang seek" and ?P0 = "reset_parser crc P"
  define s where "s = 10 + tag_size_read ?bo (length (text_frames fs) + pad)"
  have len: "s < 268435466" "d \<noteq> []"
    using tag_size_read(2) [OF assms(5), of ?bo] assms(2) by (simp_all add: s_def text_tag_def)
  obtain F1 where F1: "SeektoOffset io F (int 0) SEEKSET = (MP3_SUCCESS, F1)" "pos_at F1 d 0"
    by (rule seek_set_at [OF assms(1), of 0]) simp
  let ?P1 = "?P0\<lparr>iLocalFileSize := int (length d), iLocalFileSizeSet := True,
      iInitSearchFileSize := min (iInitSearchFileSize ?P0) (int (length d))\<rparr>"
  obtain F2 where F2: "take_file_size io ?P0 F1 = (None, ?P1, F2)" "pos_at F2 d 0"
    by (rule take_size_at [OF F1(2) len(2)])
  obtain T' F3 where T': "parse_tag (Suc n) ?bo io (\<lambda>_. True) buffsize ?P1 ?T F2 =
      Some (Return (Some ((tell_tags T' (?P1\<lparr>iTagSize := int s\<rparr>))\<lparr>StartOffset := int s\<rparr>, T', F3)))"
    "iFrames T' = List.map text_kvp fs" "pos_at F3 d 0"
    by (rule parse_tag_at [OF F2(2) assms(2-8) s_def, of n buffsize ?P1 F0 text_type lang seek])
  define P2 where "P2 = (tell_tags T' (?P1\<lparr>iTagSize := int s\<rparr>))\<lparr>StartOffset := int s\<rparr>"
  have P2: "StartOffset P2 = int s" "iLocalFileSizeSet P2 \<longrightarrow> iLocalFileSize P2 = int (length d)"
    by (simp_all add: P2_def tell_tags_def reset_parser_def)
  have conv: "to_s32 (int s) = int s" using len(1) by (simp add: in_range)
  obtain q where q: "pos_at (snd (SeektoOffset io F3 (int s) SEEKSET)) d q"
    by (rule seek_anywhere [OF T'(3), of "int s"]) (use len(1) in simp_all)
  obtain err F4 where F4: "SeektoOffset io F3 (int s) SEEKSET = (err, F4)" "pos_at F4 d q"
    using q by (cases "SeektoOffset io F3 (int s) SEEKSET") simp
  obtain err' off P3 F5 where find: "mp3FindSync ?bo io P2 (int s) F4 = Some (err', off, P3, F5)" "err' \<noteq> MP3_SUCCESS"
    using find_sync_at [OF F4(2) P2(2), of ?bo "int s"] no_reversed_sync [OF assms(9)] by blast
  have "\<exists>e P4 F6. parse_audio ?bo io words P2 F3 = Some (e, P4, F6) \<and> e \<noteq> MP3_SUCCESS"
    using F4(1) find by (cases "err = MP3_SUCCESS") (simp_all add: parse_audio_def parse_first_frame_def P2(1) conv Let_def)
  then obtain e P4 F6 where audio: "parse_audio ?bo io words P2 F3 = Some (e, P4, F6)" "e \<noteq> MP3_SUCCESS" by blast
  have "ParseMP3File (Suc n) ?bo io (\<lambda>_. True) buffsize words crc P ?T F = Some (Return (Some (e, P4, T', F6)))"
    unfolding ParseMP3File_def using F1(1) F2(1) T'(1) audio(1) by (simp add: P2_def [symmetric])
  then show ?thesis using audio(2) T'(2) by blast
qed

end

section \<open>Properties\<close>

lemma word_at_append: "word_at bo (xs @ ys) (length xs + k) = word_at bo ys k"
  unfolding word_at_def add.assoc nth_append_length_plus ..

lemma sync_at_append: "sync_at bo (xs @ ys) (length xs + k) = sync_at bo ys k"
proof -
  have "frame_chain bo (xs @ ys) (length xs + k) h = frame_chain bo ys k h" for h
    unfolding frame_chain_def Let_def by (simp only: add.assoc word_at_append length_append add_le_cancel_left)
  moreover have "sync_pattern (xs @ ys) (length xs + k) = sync_pattern ys k"
    unfolding sync_pattern_def add.assoc nth_append_length_plus ..
  ultimately show ?thesis by (simp only: sync_at_def word_at_append)
qed

text \<open>
  C2. From the bytes of a file to the first sample, through the ID3 parser, the search, the frame header
  and the delivery of frames, for a file with a tag of text frames of version 2.3 in front (ten bytes of padding at
  least, and no tag of version 1 at the end). Compiled for the little-endian byte order of the targets:
  when at least 627 bytes follow the tag and begin with four MPEG frames in a row, no VBR header in
  the first, \<open>ParseMP3File\<close> without the CRC check succeeds with exactly the texts of the tag as its metadata, the start offset behind
  the tag and the configuration of the first header, and the next call of \<open>GetNextMediaSample\<close>, with a
  buffer that is large enough, delivers the whole first frame at time 0 and moves to the second.
  Compiled as the repository configures it, for the other byte order, \<open>ParseMP3File\<close> finds the same texts
  (when the size it reads from the tag covers the frames), and then returns an error, unless the file has two
  bytes \<open>0xFF\<close> that are three apart.
\<close>

theorem ParseMP3File_then_frame:
  assumes "d = text_tag fs pad @ audio" "length d < 2147483648" "length mem = 4096" "list_all text_ok fs" "10 \<le> pad"
    and "length (text_frames fs) + pad < 268435456" "take 3 (drop (length d - 128) d) \<noteq> lit ''TAG'' \<or> length d < 128"
    and "length frame = 5" "s = length (text_tag fs pad)" "sync_at LITTLE_ENDIAN d s" "s + 627 \<le> length d"
    and "plain_first_frame d s (snd (GetMP3Header (word_at LITTLE_ENDIAN d s)))"
    and "n = frame_len (word_at LITTLE_ENDIAN d s)" "n \<le> length buf" "length buf < 2147483648"
  shows "(\<exists>P' T' F' P'' F''. ParseMP3File (Suc k) LITTLE_ENDIAN cached_file (\<lambda>_. True) buffsize words False (MP3Parser g)
        (PVID3ParCom F0 text_type frame lang seek) (pv_open mem d) = Some (Return (Some (MP3_SUCCESS, P', T', F'))) \<and>
      iFrames T' = List.map text_kvp fs \<and> StartOffset P' = int s \<and> iMP3ConfigInfo P' = config_of (word_at LITTLE_ENDIAN d s) \<and>
      iTOC P' = Some (0 # tl words) \<and> file_at F' d s \<and>
      GetNextMediaSample LITTLE_ENDIAN 1 cached_file buf P' F' =
        Some (Sample MP3_SUCCESS (int n) 0 (patch buf 0 (take n (drop s d))), P'', F'') \<and> file_at F'' d (s + n)) \<and>
    (length (text_frames fs) \<le> tag_size_read repository_byte_order (length (text_frames fs) + pad) \<and>
      (\<forall>q. q + 4 \<le> length d \<longrightarrow> \<not> (d ! q = 0xFF \<and> d ! (q + 3) = 0xFF)) \<longrightarrow>
      (\<exists>err P' T' F'. ParseMP3File (Suc k) repository_byte_order cached_file (\<lambda>_. True) buffsize words False (MP3Parser g)
          (PVID3ParCom F0 text_type frame lang seek) (pv_open mem d) = Some (Return (Some (err, P', T', F'))) \<and>
        err \<noteq> MP3_SUCCESS \<and> iFrames T' = List.map text_kvp fs))"
proof -
  have open0: "file_at (pv_open mem d) d 0" by (rule pv_open_at) (use assms(2,3) in simp_all)
  have P: "mp3Type (MP3Parser g) = EVBRType" "1 < iInitSearchFileSize (MP3Parser g)" "iTimestamp (MP3Parser g) = 0"
    by (simp_all add: MP3Parser_def KMAX_INITIAL_SEARCH_FILE_SIZE_IN_BYTES_def)
  obtain P' T' F' where p: "ParseMP3File (Suc k) LITTLE_ENDIAN cached_file (\<lambda>_. True) buffsize words False (MP3Parser g)
        (PVID3ParCom F0 text_type frame lang seek) (pv_open mem d) = Some (Return (Some (MP3_SUCCESS, P', T', F')))"
      "file_at F' d s" "iFrames T' = List.map text_kvp fs" "StartOffset P' = int s"
      "iMP3ConfigInfo P' = config_of (word_at LITTLE_ENDIAN d s)" "iLocalFileSize P' = int (length d)"
      "iTOC P' = Some (0 # tl words)" "\<not> iEnableCrcCalc P'" "iTimestamp P' = 0"
    using cached.parse_tagged_at [OF open0 assms(1,4-12) P(1,2), of k buffsize words False F0 text_type lang seek] P(3) by auto
  have hv: "header_valid (word_at LITTLE_ENDIAN d s)" and whole: "s + n \<le> length d"
    using assms(10,13) by (auto simp: sync_at_def frame_chain_def Let_def)
  obtain i where len: "24 \<le> FrameLengthInBytes (config_of (word_at LITTLE_ENDIAN d s))" by (rule accepted_word [OF hv])
  then have buf: "4 \<le> length buf" using assms(13,14) by (simp add: frame_len_def)
  obtain t where t: "next_timestamp (iTimestamp P') (config_of (word_at LITTLE_ENDIAN d s)) = Some t"
    unfolding p(9) by (rule next_timestamp_start [OF hv])
  have in4: "s + 4 \<le> length d" and crc: "iEnableCrcCalc P' \<longrightarrow> crcFollows (snd (GetMP3Header (word_at LITTLE_ENDIAN d s))) \<noteq> 0"
    and size: "iLocalFileSizeSet P' \<longrightarrow> iLocalFileSize P' = int (length d)" and small: "length buf < 2 ^ 31"
    using assms(11,15) p(6,8) by simp_all
  obtain P'' F'' where "sample_pass LITTLE_ENDIAN cached_file buf P' F' = Some
      (if length d < s + n then Sample MP3_INSUFFICIENT_DATA 0 (iTimestamp P') (patch buf 0 (take 4 (drop s d)))
       else if length buf < n then Sample MP3_FILE_READ_ERR (int n) 0 (patch buf 0 (take 4 (drop s d)))
       else Sample MP3_SUCCESS (int n) (iTimestamp P') (patch buf 0 (take n (drop s d))), P'', F'')"
    "file_at F'' d (if length d < s + n then s else if length buf < n then s + 4 else s + n)"
    by (rule cached.sample_pass_at [OF p(2) in4 hv assms(13) crc t buf small size])
  then have "GetNextMediaSample LITTLE_ENDIAN 1 cached_file buf P' F' =
      Some (Sample MP3_SUCCESS (int n) 0 (patch buf 0 (take n (drop s d))), P'', F'') \<and> file_at F'' d (s + n)"
    using whole assms(14) p(9) by simp
  moreover note cached.parse_reversed_at [OF open0 assms(1,4-8), of k buffsize words False "MP3Parser g" F0 text_type lang seek]
  ultimately show ?thesis using p by blast
qed

theorem ParseMP3File_then_frame_witness:
  "(\<exists>P' T' F' P'' F''. ParseMP3File 1 LITTLE_ENDIAN cached_file (\<lambda>_. True) 100 (replicate 201 7) False (MP3Parser 0)
        (PVID3ParCom (pv_open (replicate 4096 0) []) PV_ID3_CHARSET_ISO88591 [0, 0, 0, 0, 0] [] 0)
        (pv_open (replicate 4096 0) (text_tag [(lit ''TIT2'', lit ''Song'')] 10 @ crc_file)) =
      Some (Return (Some (MP3_SUCCESS, P', T', F'))) \<and>
    List.map kvp_value (iFrames T') = [CharValue (lit ''Song'' @ [0])] \<and> StartOffset P' = 35 \<and>
    GetNextMediaSample LITTLE_ENDIAN 1 cached_file (replicate 24 0) P' F' = Some (Sample MP3_SUCCESS 24 0 crc_frame, P'', F'')) \<and>
   (\<exists>err P' T' F'. ParseMP3File 1 repository_byte_order cached_file (\<lambda>_. True) 100 (replicate 201 7) False (MP3Parser 0)
        (PVID3ParCom (pv_open (replicate 4096 0) []) PV_ID3_CHARSET_ISO88591 [0, 0, 0, 0, 0] [] 0)
        (pv_open (replicate 4096 0) (text_tag [(lit ''TIT2'', lit ''Song'')] 10 @ crc_file)) =
      Some (Return (Some (err, P', T', F'))) \<and> err \<noteq> MP3_SUCCESS \<and>
    List.map kvp_value (iFrames T') = [CharValue (lit ''Song'' @ [0])])" (is "?A \<and> ?B")
proof -
  let ?fs = "[(lit ''TIT2'', lit ''Song'')]"
  let ?d = "text_tag ?fs 10 @ crc_file"
  have ok: "list_all text_ok ?fs" by (simp add: text_ok_def id3_frame_ids_def is_text_frame_def plain_string_def)
  have lf: "length (text_frames ?fs) = 15" by (simp add: text_frame_def)
  then have lt: "length (text_tag ?fs 10) = 35" by simp
  have ld: "length ?d = 666" using lt crc_words(5) by simp
  have word: "word_at LITTLE_ENDIAN ?d 35 = 0xFFF214C0"
    using word_at_append [of LITTLE_ENDIAN "text_tag ?fs 10" crc_file 0] unfolding lt add_0_right crc_words(1) .
  have sync: "sync_at LITTLE_ENDIAN ?d 35"
    using sync_at_append [of LITTLE_ENDIAN "text_tag ?fs 10" crc_file 0] crc_sync unfolding lt add_0_right by simp
  have skip: "drop (35 + k) ?d = drop k crc_file" for k using lt by simp
  have zeros: "replicate 3 0 = [0, 0, 0 :: u8]" "replicate 4 0 = [0, 0, 0, 0 :: u8]"
    by (simp_all only: numeral_3_eq_3 numeral_eq_Suc replicate.simps pred_numeral_simps BitM.simps)
  have "length ?d - 128 = 35 + 503" using ld by simp
  then have "take 3 (drop (length ?d - 128) ?d) = take 3 (drop 503 crc_file)" using skip [of 503] by metis
  then have notag: "take 3 (drop (length ?d - 128) ?d) \<noteq> lit ''TAG''" by (simp add: crc_file_def crc_frame_def zeros)
  have plain: "plain_first_frame ?d 35 (snd (GetMP3Header 0xFFF214C0))"
    unfolding plain_first_frame_def skip
    by (simp add: crc_header xing_offset_def VBRI_HEADER_OFFSET_def crc_file_def crc_frame_def zeros)
  have first: "take 24 (drop 35 ?d) = crc_frame" using skip [of 0] by (simp add: crc_file_def crc_frame_def)
  have lb: "length (replicate 24 (0::u8)) = 24" "length (replicate 4096 (0::u8)) = 4096" by simp_all
  have small: "length ?d < 2147483648" "length (text_frames ?fs) + 10 < 268435456" "(35 :: nat) + 627 \<le> length ?d"
    using ld lf by simp_all
  have n: "24 = frame_len (word_at LITTLE_ENDIAN ?d 35)" unfolding word by (simp add: crc_config)
  have size: "tag_size_read repository_byte_order 25 = 52428800"
    using sync_safe_parts [of 25] by (simp add: tag_size_read_def sync_val_def)
  define front where "front = text_tag ?fs 10 @ crc_frame @ crc_frame @ crc_frame @ crc_frame"
  have d: "?d = front @ replicate 535 0" "length front = 131" using lt by (simp_all add: front_def crc_file_def crc_frame_def)
  have ten: "replicate 10 (0 :: u8) = [0, 0, 0, 0, 0, 0, 0, 0, 0, 0]" by code_simp
  have all: "list_all (\<lambda>(a, b). \<not> (a = 0xFF \<and> b = 0xFF)) (zip front (drop 3 front))"
    by (simp add: front_def crc_frame_def text_tag_def text_frame_def be32_bytes_def ConvertToSyncSafeInt_def ten)
  have "\<not> (front ! q = 0xFF \<and> front ! (q + 3) = 0xFF)" if "q < 128" for q
    using all [unfolded list_all_length, rule_format, of q] that by (simp add: d(2) add.commute)
  then have no: "\<forall>q. q + 4 \<le> length ?d \<longrightarrow> \<not> (?d ! q = 0xFF \<and> ?d ! (q + 3) = 0xFF)"
    unfolding d(1) by (auto simp: d(2) nth_append)
  note run = ParseMP3File_then_frame [OF refl small(1) lb(2) ok order_refl small(2) disjI1 [OF notag] _ lt [symmetric] sync small(3)
      plain [folded word] n _ _, where frame = "[0, 0, 0, 0, 0]" and buf = "replicate 24 0" and k = 0 and buffsize = 100 and
      words = "replicate 201 7" and g = 0 and ?F0.0 = "pv_open (replicate 4096 0) []" and text_type = PV_ID3_CHARSET_ISO88591 and
      lang = "[]" and seek = 0, unfolded lb, simplified list.size]
  note runs = conjunct1 [OF run] mp [OF conjunct2 [OF run] conjI [OF _ no]]
  obtain P' T' F' P'' F'' where r: "ParseMP3File (Suc 0) LITTLE_ENDIAN cached_file (\<lambda>_. True) 100 (replicate 201 7) False (MP3Parser 0)
        (PVID3ParCom (pv_open (replicate 4096 0) []) PV_ID3_CHARSET_ISO88591 [0, 0, 0, 0, 0] [] 0) (pv_open (replicate 4096 0) ?d) =
      Some (Return (Some (MP3_SUCCESS, P', T', F')))" "iFrames T' = List.map text_kvp ?fs" "StartOffset P' = 35"
    "GetNextMediaSample LITTLE_ENDIAN 1 cached_file (replicate 24 0) P' F' =
      Some (Sample MP3_SUCCESS 24 0 (patch (replicate 24 0) 0 (take 24 (drop 35 ?d))), P'', F'')"
    using runs(1) by (auto simp del: List.list.map)
  have reversed: "\<exists>err P' T' F'. ParseMP3File (Suc 0) repository_byte_order cached_file (\<lambda>_. True) 100 (replicate 201 7) False (MP3Parser 0)
        (PVID3ParCom (pv_open (replicate 4096 0) []) PV_ID3_CHARSET_ISO88591 [0, 0, 0, 0, 0] [] 0) (pv_open (replicate 4096 0) ?d) =
      Some (Return (Some (err, P', T', F'))) \<and> err \<noteq> MP3_SUCCESS \<and> iFrames T' = List.map text_kvp ?fs"
    by (rule runs(2), unfold lf) (simp_all add: size)
  have "patch (replicate 24 0) 0 (take 24 (drop 35 ?d)) = crc_frame"
    unfolding first by (simp add: patch_def crc_frame_def)
  then have "?A" using r by (auto simp: text_kvp_def)
  moreover have "?B" using reversed by (auto simp: text_kvp_def)
  ultimately show ?thesis ..
qed

end
