(* ===== verification/IconvRefine.thy ===== *)
theory IconvRefine
  imports IconvSafe
begin

text \<open>
  The abstract conversion: decode the whole input to code points, encode each in UTF-8. The loop of
  \<open>iconv()\<close>, with its pointers and counts, implements it whenever the result fits.
\<close>

function decode_all :: "u32 \<Rightarrow> nat \<Rightarrow> u8 list \<Rightarrow> u32 list option" where
  "decode_all ty base s =
    (if s = [] then Some []
     else case iconv_decode ty base s (word_of_nat (length s)) of
       Some (Code c l) \<Rightarrow> if 0 < l \<and> l \<le> length s then map_option ((#) c) (decode_all ty base (drop l s)) else None
     | _ \<Rightarrow> None)"
  by pat_completeness auto
termination by (relation "measure (\<lambda>(ty, base, s). length s)") auto

declare decode_all.simps [simp del]

definition encode_all :: "u32 list \<Rightarrow> u8 list" where
  "encode_all cs = concat (List.map (\<lambda>c. case wcrtomb_s c of Some bs \<Rightarrow> bs | None \<Rightarrow> []) cs)"

lemma encode_all_simps [simp]:
  "encode_all [] = []" "wcrtomb_s c = Some bs \<Longrightarrow> encode_all (c # cs) = bs @ encode_all cs"
  by (simp_all add: encode_all_def)

lemma decode_all_Cons:
  assumes "s \<noteq> []" "decode_all ty base s = Some cs"
  obtains c l cs' where "iconv_decode ty base s (word_of_nat (length s)) = Some (Code c l)" "0 < l" "l \<le> length s"
    "decode_all ty base (drop l s) = Some cs'" "cs = c # cs'"
  using assms by (subst (asm) decode_all.simps) (auto split: option.splits decoded.splits if_splits)

lemma put_bytes_fits:
  assumes "dst_ok st" "length bs \<le> unat (cv_outb st)" "length bs < 100"
  shows "\<exists>st'. put_bytes bs st = Some (Emitted st') \<and> wrote bs st st' \<and> same_in st st' \<and> cv_x st' = cv_x st"
proof -
  have n: "unat (word_of_nat (length bs) :: u32) = length bs" using assms(3) by (intro unat_of_nat_small) simp
  have "\<not> cv_outb st < word_of_nat (length bs)" using assms(2) by (simp add: word_less_nat_alt n)
  moreover have "store (cv_dst st) (cv_out st) bs = Some (patch (cv_dst st) (nat (cv_out st)) bs)"
    using assms(1,2) by (auto simp: store_def dst_ok_def)
  moreover have "unat (cv_outb st - word_of_nat (length bs)) = unat (cv_outb st) - length bs"
    using assms(2) by (simp add: unat_sub word_le_nat_alt n)
  ultimately show ?thesis using assms(2) by (auto simp: put_bytes_def wrote_def same_in_def)
qed

text \<open>Decoding may not depend on the bytes \<open>r\<close> behind the input.\<close>

lemma loop_encodes:
  assumes from_type: "rd charmaps frm = Some ty"
    and stable: "\<And>s inb x. iconv_decode (ucast ty) (frm + 1) s inb = Some x \<Longrightarrow> iconv_decode (ucast ty) (frm + 1) (s @ r) inb = Some x"
  shows "drop (cv_in st) src = s @ r \<Longrightarrow> unat (cv_inb st) = length s \<Longrightarrow> dst_ok st \<Longrightarrow>
    decode_all (ucast ty) (frm + 1) s = Some cs \<Longrightarrow> \<forall>c \<in> set cs. scalar c \<Longrightarrow>
    length (encode_all cs) \<le> unat (cv_outb st) \<Longrightarrow>
    \<exists>st'. iconv_loop frm 6 src st = Some (Done, st') \<and> wrote (encode_all cs) st st' \<and> cv_inb st' = 0 \<and> cv_x st' = cv_x st"
proof (induction "length s" arbitrary: s st cs rule: less_induct)
  case less
  have to_type: "rd charmaps 6 = Some 200"
    using charmap_at_type [OF charmap_at_utf8] by (simp add: cm_utf8_def)
  have inb: "word_of_nat (length s) = cv_inb st" using less.prems(2) [symmetric] by simp
  show ?case
  proof (cases "s = []")
    case True
    then have "cs = []" using less.prems(4) by (subst (asm) decode_all.simps) simp
    moreover have "cv_inb st = 0" using True less.prems(2) by (simp add: unat_eq_0)
    ultimately show ?thesis by (subst iconv_loop.simps) simp
  next
    case False
    obtain c l cs' where d: "iconv_decode (ucast ty) (frm + 1) s (cv_inb st) = Some (Code c l)" "0 < l" "l \<le> length s"
      "decode_all (ucast ty) (frm + 1) (drop l s) = Some cs'" "cs = c # cs'"
      using decode_all_Cons [OF False less.prems(4)] unfolding inb by metis
    obtain bs where bs: "wcrtomb_s c = Some bs"
      using less.prems(5) d(5) wcrtomb_None [of c] by (cases "wcrtomb_s c") auto
    have len: "length bs < 100" using wcrtomb_length [OF bs] by simp
    have enc: "encode_all cs = bs @ encode_all cs'" using bs d(5) by simp
    obtain st1 where st1: "put_bytes bs st = Some (Emitted st1)" "wrote bs st st1" "same_in st st1" "cv_x st1 = cv_x st"
      using put_bytes_fits [OF less.prems(3) _ len] less.prems(6) enc by auto
    let ?st = "st1\<lparr>cv_in := cv_in st1 + l, cv_inb := cv_inb st1 - word_of_nat l\<rparr>"
    have wr: "wrote bs st ?st" using st1(2) by (simp add: wrote_def)
    have l: "unat (word_of_nat l :: u32) = l"
      using d(3) less.prems(2) unsigned_less [of "cv_inb st", where 'a = nat] by (intro unat_of_nat_small) simp
    have inb': "unat (cv_inb ?st) = length (drop l s)"
      using st1(3) d(3) less.prems(2) by (simp add: same_in_def unat_sub word_le_nat_alt l)
    have "cv_inb st \<noteq> 0" using False less.prems(2) by auto
    then have "iconv_loop frm 6 src st = iconv_loop frm 6 src ?st"
      using stable [OF d(1)] less.prems(1) bs st1(1)
      by (subst iconv_loop.simps) (simp add: from_type to_type iconv_emit_def emit_utf8_def)
    moreover obtain st' where st': "iconv_loop frm 6 src ?st = Some (Done, st')" "wrote (encode_all cs') ?st st'"
      "cv_inb st' = 0" "cv_x st' = cv_x ?st"
    proof -
      have "drop (cv_in ?st) src = drop l (drop (cv_in st) src)" using st1(3) by (simp add: same_in_def add.commute)
      then have "drop (cv_in ?st) src = drop l s @ r" using less.prems(1) d(3) by simp
      moreover have "length (encode_all cs') \<le> unat (cv_outb ?st)"
        using less.prems(6) enc wr by (simp add: wrote_def)
      ultimately show thesis
        using less.hyps [of "drop l s" ?st cs'] d inb' False dst_ok_wrote [OF wr less.prems(3)] less.prems(5) that by auto
    qed
    ultimately show ?thesis using wrote_trans [OF wr st'(2) less.prems(3)] st1(4) enc by auto
  qed
qed

text \<open>
  C6. \<open>iconv\<close> towards UTF-8 implements decode-then-encode: if the input of \<open>inb\<close> bytes decodes to the
  scalar values \<open>cs\<close> and their encodings fit into \<open>outb\<close> bytes, the call returns 0, consumes the whole
  input and stores exactly the encoding of \<open>cs\<close> at \<open>*out\<close>.
\<close>

theorem iconv_decodes_then_encodes:
  assumes "charmap_at q m" "decode_all (ucast (cm_type m)) (q + 1) (drop (cv_in st) src) = Some cs"
    and "\<forall>c \<in> set cs. scalar c" "length (encode_all cs) \<le> unat (cv_outb st)"
    and "unat (cv_inb st) + cv_in st = length src" "dst_ok st"
  shows "\<exists>st'. iconv (word_of_nat (q * 65536 + 6)) src st = Some (0, None, st') \<and>
    wrote (encode_all cs) st st' \<and> cv_inb st' = 0"
proof -
  have six: "(6 :: nat) < 65536" by simp
  note half = descriptor_halves [OF six charmap_at_position [OF assms(1)] refl]
  have "dst_ok (st\<lparr>cv_x := 0\<rparr>)" using assms(6) by simp
  moreover have "unat (cv_inb (st\<lparr>cv_x := 0\<rparr>)) = length (drop (cv_in st) src)"
    unfolding length_drop using assms(5) by simp
  ultimately obtain st' where "iconv_loop q 6 src (st\<lparr>cv_x := 0\<rparr>) = Some (Done, st')" "wrote (encode_all cs) (st\<lparr>cv_x := 0\<rparr>) st'"
    "cv_inb st' = 0" "cv_x st' = 0"
    using loop_encodes [OF charmap_at_type [OF assms(1)], of "[]" "st\<lparr>cv_x := 0\<rparr>" src "drop (cv_in st) src" cs] assms by auto
  then show ?thesis unfolding iconv_def half by simp
qed

theorem iconv_decodes_then_encodes_witness:
  "\<exists>st'. iconv (word_of_nat (6 * 65536 + 6)) [0xe4, 0xb8, 0xad, 0x41]
      \<lparr>cv_in = 0, cv_inb = 4, cv_dst = replicate 8 0, cv_out = 0, cv_outb = 8, cv_x = 0\<rparr> = Some (0, None, st') \<and>
    wrote (encode_all [0x4e2d, 0x41]) \<lparr>cv_in = 0, cv_inb = 4, cv_dst = replicate 8 0, cv_out = 0, cv_outb = 8, cv_x = 0\<rparr> st' \<and>
    cv_inb st' = 0"
proof (rule iconv_decodes_then_encodes [OF charmap_at_utf8])
  have 1: "iconv_decode 200 7 [0xe4, 0xb8, 0xad, 0x41] 4 = Some (Code 0x4e2d 3)"
    by (simp add: iconv_decode_def decode_utf8_def Let_def mb_second_def mb_cont_def mb6_def)
  have 2: "iconv_decode 200 7 [0x41] 1 = Some (Code 0x41 1)"
    by (simp add: iconv_decode_def Let_def)
  show "decode_all (ucast (cm_type cm_utf8)) (6 + 1)
      (drop (cv_in \<lparr>cv_in = 0, cv_inb = 4, cv_dst = replicate 8 0, cv_out = 0, cv_outb = 8, cv_x = 0\<rparr>) [0xe4, 0xb8, 0xad, 0x41]) =
    Some [0x4e2d, 0x41]"
    by (simp add: cm_utf8_def decode_all.simps [of _ _ "[0xe4, 0xb8, 0xad, 0x41]"]
        decode_all.simps [of _ _ "[0x41]"] decode_all.simps [of _ _ "[]"] 1 2)
qed (simp_all add: scalar_def encode_all_def wcrtomb_s_def dst_ok_def)

end
