(* ===== verification/Utf8Valid.thy ===== *)
theory Utf8Valid
  imports Utf8Conv OsclString
begin

text \<open>
  The check and the truncation of UTF-8 strings (\<open>oscl_config/oscl_string_utf8.cpp\<close>), which the media
  scanner uses to decide whether the text of a tag is passed on as it is.
\<close>

section \<open>oscl_str_is_valid_and_truncate_utf8\<close>

text \<open>
  What the loop sees at \<open>ptr\<close>: the terminator (only when there is no limit), a character of so many
  bytes, a character it refuses, or one that needs more bytes than the limit leaves.
\<close>

datatype utf8_seen = Terminator | Character nat | Invalid | Cut

definition utf8_seen_2 :: "u8 list \<Rightarrow> u8 \<Rightarrow> utf8_seen option" where
  "utf8_seen_2 ptr b0 = do {
     b1 \<leftarrow> rd ptr 1;
     Some (if b1 AND 0xC0 \<noteq> 0x80 \<or> b0 < 0xC2 then Invalid else Character 2)
   }"

definition utf8_seen_3 :: "u8 list \<Rightarrow> u8 \<Rightarrow> utf8_seen option" where
  "utf8_seen_3 ptr b0 = do {
     b1 \<leftarrow> rd ptr 1;
     if b1 AND 0xC0 \<noteq> 0x80 then Some Invalid
     else do {
       b2 \<leftarrow> rd ptr 2;
       Some (if b2 AND 0xC0 \<noteq> 0x80 \<or> b0 = 0xE0 \<and> b1 < 0xA0 then Invalid else Character 3)
     }
   }"

definition utf8_seen_4 :: "u8 list \<Rightarrow> u8 \<Rightarrow> utf8_seen option" where
  "utf8_seen_4 ptr b0 = do {
     b1 \<leftarrow> rd ptr 1;
     if b1 AND 0xC0 \<noteq> 0x80 then Some Invalid
     else do {
       b2 \<leftarrow> rd ptr 2;
       if b2 AND 0xC0 \<noteq> 0x80 then Some Invalid
       else do {
         b3 \<leftarrow> rd ptr 3;
         Some (if b3 AND 0xC0 \<noteq> 0x80 \<or> b0 > 0xF4 \<or> b0 = 0xF4 \<and> b1 > 0x8F then Invalid else Character 4)
       }
     }
   }"

definition utf8_look :: "nat \<Rightarrow> nat \<Rightarrow> u8 list \<Rightarrow> utf8_seen option" where
  "utf8_look max_bytes bytes_left ptr = do {
     b0 \<leftarrow> rd ptr 0;
     if b0 AND 0x80 = 0 then Some (if b0 = 0 \<and> max_bytes = 0 then Terminator else Character 1)
     else if b0 AND 0xE0 = 0xC0 then
       if max_bytes = 0 \<or> 2 \<le> bytes_left then utf8_seen_2 ptr b0 else Some Cut
     else if b0 AND 0xF0 = 0xE0 then
       if max_bytes = 0 \<or> 3 \<le> bytes_left then utf8_seen_3 ptr b0 else Some Cut
     else if b0 AND 0xF8 = 0xF0 then
       if max_bytes = 0 \<or> 4 \<le> bytes_left then utf8_seen_4 ptr b0 else Some Cut
     else Some Invalid
   }"

text \<open>The result, the number of characters and the index behind the last one.\<close>

function utf8_valid_loop ::
  "nat \<Rightarrow> nat \<Rightarrow> nat \<Rightarrow> u8 list \<Rightarrow> nat \<Rightarrow> nat \<Rightarrow> nat \<Rightarrow> (bool \<times> nat \<times> nat) option" where
  "utf8_valid_loop num_valid max_bytes max_char ptr bytes_left chars truncate_pos =
     (case utf8_look max_bytes bytes_left ptr of
        None \<Rightarrow> None
      | Some Terminator \<Rightarrow> Some (True, chars, truncate_pos)
      | Some (Character k) \<Rightarrow>
          if k = 0 then None
          else if max_bytes \<noteq> 0 \<and> bytes_left - k = 0 \<or> num_valid \<noteq> 0 \<and> chars + 1 = num_valid \<or>
            num_valid = 0 \<and> max_char \<noteq> 0 \<and> chars + 1 = max_char
          then Some (True, chars + 1, truncate_pos + k)
          else utf8_valid_loop num_valid max_bytes max_char (drop k ptr) (bytes_left - k) (chars + 1) (truncate_pos + k)
      | Some Invalid \<Rightarrow> Some (False, chars, truncate_pos)
      | Some Cut \<Rightarrow> Some (False, chars, truncate_pos))"
  by pat_completeness auto
termination
proof (relation "measure (\<lambda>(_, _, _, ptr, _). length ptr)", goal_cases)
  case (2 num_valid max_bytes max_char ptr bytes_left chars truncate_pos a k)
  then show ?case by (cases ptr) (auto simp: utf8_look_def rd_def)
qed simp

declare utf8_valid_loop.simps [simp del]

definition oscl_str_is_valid_and_truncate_utf8 :: "u8 list \<Rightarrow> nat \<Rightarrow> nat \<Rightarrow> nat \<Rightarrow> (bool \<times> nat \<times> nat) option" where
  "oscl_str_is_valid_and_truncate_utf8 str_buf num_valid max_bytes max_char =
     utf8_valid_loop num_valid max_bytes max_char str_buf max_bytes 0 0"

definition oscl_str_is_valid_utf8 :: "u8 list \<Rightarrow> nat \<Rightarrow> nat \<Rightarrow> (bool \<times> nat \<times> nat) option" where
  "oscl_str_is_valid_utf8 str_buf max_bytes max_char = oscl_str_is_valid_and_truncate_utf8 str_buf 0 max_bytes max_char"

definition oscl_str_truncate_utf8 :: "u8 list \<Rightarrow> nat \<Rightarrow> nat \<Rightarrow> (nat \<times> u8 list) option" where
  "oscl_str_truncate_utf8 str_buf max_chars max_bytes = do {
     (_, n, pos) \<leftarrow> oscl_str_is_valid_and_truncate_utf8 str_buf max_chars max_bytes 0;
     buf \<leftarrow> (if max_bytes = 0 \<or> pos \<le> max_bytes - 1 then wr str_buf pos 0 else Some str_buf);
     Some (n, buf)
   }"

section \<open>The characters it accepts\<close>

text \<open>The bytes of a code point in the form of \<open>k\<close> bytes, and the pairs that are accepted.\<close>

definition byte :: "nat \<Rightarrow> u8" where
  "byte n = word_of_nat n"

definition utf8_form :: "nat \<Rightarrow> nat \<Rightarrow> u8 list" where
  "utf8_form n k = List.map byte
     (if k = 1 then [n]
      else if k = 2 then [192 + n div 64, 128 + n mod 64]
      else if k = 3 then [224 + n div 4096, 128 + n div 64 mod 64, 128 + n mod 64]
      else [240 + n div 262144, 128 + n div 4096 mod 64, 128 + n div 64 mod 64, 128 + n mod 64])"

definition accepted_form :: "nat \<Rightarrow> nat \<Rightarrow> bool" where
  "accepted_form n k \<longleftrightarrow> k = 1 \<and> 0 < n \<and> n < 0x80 \<or> k = 2 \<and> 0x80 \<le> n \<and> n < 0x800 \<or>
     k = 3 \<and> 0x800 \<le> n \<and> n < 0x10000 \<or> k = 4 \<and> n < 0x110000"

text \<open>The same, byte by byte.\<close>

fun accepted_bytes :: "u8 list \<Rightarrow> bool" where
  "accepted_bytes [a] \<longleftrightarrow> a \<noteq> 0 \<and> a < 0x80"
| "accepted_bytes [a, b] \<longleftrightarrow> 0xC2 \<le> a \<and> a < 0xE0 \<and> cont_byte b"
| "accepted_bytes [a, b, c] \<longleftrightarrow> 0xE0 \<le> a \<and> a < 0xF0 \<and> (a = 0xE0 \<longrightarrow> 0xA0 \<le> b) \<and> cont_byte b \<and> cont_byte c"
| "accepted_bytes [a, b, c, d] \<longleftrightarrow> 0xF0 \<le> a \<and> a \<le> 0xF4 \<and> (a = 0xF4 \<longrightarrow> b \<le> 0x8F) \<and>
     cont_byte b \<and> cont_byte c \<and> cont_byte d"
| "accepted_bytes _ \<longleftrightarrow> False"

lemma unat_form_byte: "n < 256 \<Longrightarrow> unat (byte n) = n"
  by (simp add: byte_def unat_of_nat_small)

lemma byte_of: "unat a = n \<Longrightarrow> byte n = a"
  by (auto simp: byte_def)

lemma form_accepted:
  assumes "accepted_form n k"
  shows "accepted_bytes (utf8_form n k)" "length (utf8_form n k) = k"
proof -
  have lt: "a mod 64 < 64" for a :: nat by simp
  have dv: "n div 64 < 32" if "n < 0x800" using that by (simp add: div_less_iff_less_mult)
  consider "k = 1" "0 < n" "n < 0x80" | "k = 2" "0x80 \<le> n" "n < 0x800" | "k = 3" "0x800 \<le> n" "n < 0x10000" | "k = 4" "n < 0x110000"
    using assms by (auto simp: accepted_form_def)
  then have "accepted_bytes (utf8_form n k) \<and> length (utf8_form n k) = k"
  proof cases
    case 1
    then show ?thesis
      by (simp add: utf8_form_def word_less_nat_alt word_unat_eq_iff unat_form_byte)
  next
    case 2
    then have "2 \<le> n div 64" "n div 64 < 32" by (simp_all add: div_less_iff_less_mult less_eq_div_iff_mult_less_eq)
    then show ?thesis
      using 2 lt [of n] by (simp add: utf8_form_def word_less_nat_alt word_le_nat_alt cont_byte_unat unat_form_byte)
  next
    case 3
    then have d: "n div 4096 < 16" "n div 4096 = 0 \<longrightarrow> 32 \<le> n div 64 mod 64"
      by (simp_all add: div_less_iff_less_mult less_eq_div_iff_mult_less_eq)
    have "224 + n div 4096 = 224 \<longleftrightarrow> n div 4096 = 0" by simp
    then show ?thesis
      using 3 d lt [of n] lt [of "n div 64"]
      by (simp add: utf8_form_def word_less_nat_alt word_le_nat_alt cont_byte_unat unat_form_byte word_unat_eq_iff)
  next
    case 4
    then have d: "n div 262144 \<le> 4" "n div 262144 = 4 \<longrightarrow> n div 4096 mod 64 \<le> 15"
    proof -
      show "n div 262144 \<le> 4" using 4 by (simp add: div_le_mono less_eq_div_iff_mult_less_eq less_Suc_eq_le [symmetric] div_less_iff_less_mult)
      show "n div 262144 = 4 \<longrightarrow> n div 4096 mod 64 \<le> 15"
      proof
        assume "n div 262144 = 4"
        then have "n div 4096 div 64 = 4" by (simp add: div_mult2_eq [symmetric])
        moreover have "n div 4096 < 272" using 4 by (simp add: div_less_iff_less_mult)
        moreover have "n div 4096 = n div 4096 div 64 * 64 + n div 4096 mod 64" by simp
        ultimately show "n div 4096 mod 64 \<le> 15" by linarith
      qed
    qed
    show ?thesis
      using 4 d lt [of n] lt [of "n div 64"] lt [of "n div 4096"]
      by (simp add: utf8_form_def word_less_nat_alt word_le_nat_alt cont_byte_unat unat_form_byte word_unat_eq_iff)
  qed
  then show "accepted_bytes (utf8_form n k)" "length (utf8_form n k) = k" by simp_all
qed

lemma sextet_pair: "y < 64 \<Longrightarrow> (x * 64 + y) div 64 = x" "y < 64 \<Longrightarrow> (x * 64 + y) mod 64 = (y :: nat)"
  by simp_all

lemma sextet_form:
  fixes x y z w :: nat
  assumes "y < 64" "z < 64" "w < 64"
  shows "(x * 262144 + y * 4096 + z * 64 + w) div 262144 = x" "(x * 262144 + y * 4096 + z * 64 + w) div 4096 mod 64 = y"
    "(x * 262144 + y * 4096 + z * 64 + w) div 64 mod 64 = z" "(x * 262144 + y * 4096 + z * 64 + w) mod 64 = w"
proof -
  have e: "x * 262144 + y * 4096 + z * 64 + w = (x * 64 + y) * 4096 + z * 64 + w" by simp
  show "(x * 262144 + y * 4096 + z * 64 + w) div 4096 mod 64 = y"
    and "(x * 262144 + y * 4096 + z * 64 + w) div 64 mod 64 = z" and "(x * 262144 + y * 4096 + z * 64 + w) mod 64 = w"
    unfolding e using assms by (simp_all only: sextets sextet_pair)
  show "(x * 262144 + y * 4096 + z * 64 + w) div 262144 = x"
  proof -
    have "(x * 262144 + y * 4096 + z * 64 + w) div (4096 * 64) = x"
      unfolding e using assms by (simp only: div_mult2_eq sextets)
    then show ?thesis by simp
  qed
qed

lemma accepted_form_of:
  assumes "accepted_bytes u"
  shows "\<exists>n. u = utf8_form n (length u) \<and> accepted_form n (length u)"
  using assms
proof (cases u rule: accepted_bytes.cases)
  case (1 a)
  then show ?thesis
    using assms by (intro exI [of _ "unat a"]) (auto simp: utf8_form_def accepted_form_def word_less_nat_alt unat_gt_0 byte_def)
next
  case (2 a b)
  define x y where "x = unat a - 192" and "y = unat b - 128"
  have *: "2 \<le> x" "x < 32" "y < 64" "unat a = 192 + x" "unat b = 128 + y"
    using assms 2 by (auto simp: x_def y_def cont_byte_unat word_less_nat_alt word_le_nat_alt)
  then have "utf8_form (x * 64 + y) 2 = u"
    by (simp add: 2 utf8_form_def byte_of sextet_pair)
  moreover have "length u = 2" using 2 by simp
  ultimately show ?thesis
    using * by (intro exI [of _ "x * 64 + y"]) (simp add: accepted_form_def)
next
  case (3 a b c)
  define x y z where "x = unat a - 224" and "y = unat b - 128" and "z = unat c - 128"
  have *: "x < 16" "y < 64" "z < 64" "x = 0 \<longrightarrow> 32 \<le> y" "unat a = 224 + x" "unat b = 128 + y" "unat c = 128 + z"
    using assms 3 by (auto simp: x_def y_def z_def cont_byte_unat word_less_nat_alt word_le_nat_alt word_unat_eq_iff)
  then have "utf8_form (x * 4096 + y * 64 + z) 3 = u"
    by (simp add: 3 utf8_form_def byte_of sextets)
  moreover have "length u = 3" using 3 by simp
  ultimately show ?thesis
    using * by (intro exI [of _ "x * 4096 + y * 64 + z"]) (cases "x = 0"; simp add: accepted_form_def)
next
  case (4 a b c d)
  define x y z w where "x = unat a - 240" and "y = unat b - 128" and "z = unat c - 128" and "w = unat d - 128"
  have *: "x \<le> 4" "y < 64" "z < 64" "w < 64" "x = 4 \<longrightarrow> y < 16"
    "unat a = 240 + x" "unat b = 128 + y" "unat c = 128 + z" "unat d = 128 + w"
    using assms 4 by (auto simp: x_def y_def z_def w_def cont_byte_unat word_less_nat_alt word_le_nat_alt word_unat_eq_iff)
  then have "utf8_form (x * 262144 + y * 4096 + z * 64 + w) 4 = u"
    by (simp add: 4 utf8_form_def byte_of sextet_form)
  moreover have "length u = 4" using 4 by simp
  ultimately show ?thesis
    using * by (intro exI [of _ "x * 262144 + y * 4096 + z * 64 + w"]) (cases "x = 4"; simp add: accepted_form_def)
qed simp_all

text \<open>The tests of the leading byte, as ranges.\<close>

lemma lead_tests:
  fixes a :: u8
  shows "a AND 0x80 = 0 \<longleftrightarrow> a < 0x80"
    "a AND 0xE0 = 0xC0 \<longleftrightarrow> 0xC0 \<le> a \<and> a < 0xE0"
    "a AND 0xF0 = 0xE0 \<longleftrightarrow> 0xE0 \<le> a \<and> a < 0xF0"
    "a AND 0xF8 = 0xF0 \<longleftrightarrow> 0xF0 \<le> a \<and> a < 0xF8"
proof -
  show "a AND 0x80 = 0 \<longleftrightarrow> a < 0x80"
    by (rule byte_exhaust [of "\<lambda>a. a AND 0x80 = 0 \<longleftrightarrow> a < 0x80" a]) code_simp
  show "a AND 0xE0 = 0xC0 \<longleftrightarrow> 0xC0 \<le> a \<and> a < 0xE0"
    by (rule byte_exhaust [of "\<lambda>a. a AND 0xE0 = 0xC0 \<longleftrightarrow> 0xC0 \<le> a \<and> a < 0xE0" a]) code_simp
  show "a AND 0xF0 = 0xE0 \<longleftrightarrow> 0xE0 \<le> a \<and> a < 0xF0"
    by (rule byte_exhaust [of "\<lambda>a. a AND 0xF0 = 0xE0 \<longleftrightarrow> 0xE0 \<le> a \<and> a < 0xF0" a]) code_simp
  show "a AND 0xF8 = 0xF0 \<longleftrightarrow> 0xF0 \<le> a \<and> a < 0xF8"
    by (rule byte_exhaust [of "\<lambda>a. a AND 0xF8 = 0xF0 \<longleftrightarrow> 0xF0 \<le> a \<and> a < 0xF8" a]) code_simp
qed

text \<open>What the loop sees of a character that begins with each of them, when there is no limit.\<close>

lemma look_1: "a < 0x80 \<Longrightarrow> utf8_look 0 n (a # xs) = Some (if a = 0 then Terminator else Character 1)"
  by (simp add: utf8_look_def rd_def lead_tests)

lemma look_2: "0xC0 \<le> a \<Longrightarrow> a < 0xE0 \<Longrightarrow> utf8_look 0 n (a # b # xs) = Some (if \<not> cont_byte b \<or> a < 0xC2 then Invalid else Character 2)"
  by (simp add: utf8_look_def utf8_seen_2_def rd_def lead_tests cont_byte_def word_less_nat_alt word_le_nat_alt)

lemma look_3: "0xE0 \<le> a \<Longrightarrow> a < 0xF0 \<Longrightarrow> utf8_look 0 n (a # b # xs) =
    (if \<not> cont_byte b then Some Invalid
     else do { c \<leftarrow> rd xs 0; Some (if \<not> cont_byte c \<or> a = 0xE0 \<and> b < 0xA0 then Invalid else Character 3) })"
  by (simp add: utf8_look_def utf8_seen_3_def rd_def lead_tests cont_byte_def word_less_nat_alt word_le_nat_alt)

lemma look_4: "0xF0 \<le> a \<Longrightarrow> a < 0xF8 \<Longrightarrow> utf8_look 0 n (a # b # xs) =
    (if \<not> cont_byte b then Some Invalid
     else do { c \<leftarrow> rd xs 0;
       if \<not> cont_byte c then Some Invalid
       else do { d \<leftarrow> rd xs 1;
         Some (if \<not> cont_byte d \<or> a > 0xF4 \<or> a = 0xF4 \<and> b > 0x8F then Invalid else Character 4) } })"
  by (simp add: utf8_look_def utf8_seen_4_def rd_def lead_tests cont_byte_def word_less_nat_alt word_le_nat_alt)

lemma look_other: "0x80 \<le> a \<Longrightarrow> a < 0xC0 \<or> 0xF8 \<le> a \<Longrightarrow> utf8_look 0 n (a # xs) = Some Invalid"
  by (auto simp: utf8_look_def rd_def lead_tests word_less_nat_alt word_le_nat_alt)

lemmas look_simps = look_1 look_2 look_3 look_4 rd_def

lemma look_accepted: "accepted_bytes u \<Longrightarrow> utf8_look 0 n (u @ xs) = Some (Character (length u))"
  by (cases u rule: accepted_bytes.cases)
    (auto simp: look_simps word_less_nat_alt word_le_nat_alt)

lemma look_string:
  assumes "plain_string bs" "bs \<noteq> []"
  shows "(\<exists>k. 0 < k \<and> k \<le> length bs \<and> accepted_bytes (take k bs) \<and> utf8_look 0 n (bs @ 0 # r) = Some (Character k)) \<or>
    utf8_look 0 n (bs @ 0 # r) = Some Invalid"
proof -
  have z: "\<not> cont_byte 0" by (simp add: cont_byte_def)
  obtain a cs where bs: "bs = a # cs" using assms(2) by (cases bs) auto
  consider (1) "a < 0x80" | (2) "0xC0 \<le> a" "a < 0xE0" | (3) "0xE0 \<le> a" "a < 0xF0" | (4) "0xF0 \<le> a" "a < 0xF8"
    | (5) "0x80 \<le> a" "a < 0xC0 \<or> 0xF8 \<le> a"
    by (auto simp: word_less_nat_alt word_le_nat_alt) (linarith | metis not_le)+
  then show ?thesis
  proof cases
    case 1
    then show ?thesis using assms(1) by (auto simp: bs look_1 intro!: exI [of _ 1])
  next
    case 2
    then show ?thesis
      using z by (cases cs) (auto simp: bs look_2 intro!: exI [of _ 2])
  next
    case 3
    then show ?thesis
      using z by (cases cs; cases "tl cs") (auto simp: bs look_3 rd_def intro!: exI [of _ 3])
  next
    case 4
    then show ?thesis
      using z by (cases cs; cases "tl cs"; cases "tl (tl cs)") (auto simp: bs look_4 rd_def intro!: exI [of _ 4])
  qed (simp add: bs look_other)
qed

section \<open>What a terminated string gives\<close>

lemma valid_loop_string:
  assumes "plain_string bs"
  shows "\<exists>ok us. utf8_valid_loop 0 0 0 (bs @ 0 # r) n c p = Some (ok, c + length us, p + length (concat us)) \<and>
    list_all accepted_bytes us \<and> concat us = take (length (concat us)) bs \<and>
    (ok \<longrightarrow> concat us = bs) \<and> (\<not> ok \<longrightarrow> utf8_look 0 0 (drop (length (concat us)) bs @ 0 # r) = Some Invalid)"
  using assms
proof (induction bs arbitrary: n c p rule: length_induct)
  case (1 bs)
  have look0: "utf8_look 0 m = utf8_look 0 0" for m by (rule ext) (simp add: utf8_look_def cong: if_cong)
  show ?case
  proof (cases "bs = []")
    case True
    then show ?thesis by (intro exI [of _ True] exI [of _ "[]"]) (simp add: utf8_valid_loop.simps [of 0] look_1)
  next
    case False
    from look_string [OF 1(2) False, of n r] show ?thesis
    proof (elim disjE exE conjE)
      fix k :: nat
      assume k: "0 < k" "k \<le> length bs" "accepted_bytes (take k bs)" "utf8_look 0 n (bs @ 0 # r) = Some (Character k)"
      have "plain_string (drop k bs)" using 1(2) by (meson in_set_dropD plain_string_def)
      with k 1(1) [rule_format, of "drop k bs" "n - k" "c + 1" "p + k"]
      have "\<exists>ok us. utf8_valid_loop 0 0 0 (drop k bs @ 0 # r) (n - k) (c + 1) (p + k) =
          Some (ok, c + 1 + length us, p + k + length (concat us)) \<and>
        list_all accepted_bytes us \<and> concat us = take (length (concat us)) (drop k bs) \<and> (ok \<longrightarrow> concat us = drop k bs) \<and>
        (\<not> ok \<longrightarrow> utf8_look 0 0 (drop (length (concat us)) (drop k bs) @ 0 # r) = Some Invalid)"
        by simp
      then obtain ok us where *: "utf8_valid_loop 0 0 0 (drop k bs @ 0 # r) (n - k) (c + 1) (p + k) =
          Some (ok, c + 1 + length us, p + k + length (concat us))"
        "list_all accepted_bytes us" "concat us = take (length (concat us)) (drop k bs)" "ok \<longrightarrow> concat us = drop k bs"
        "\<not> ok \<longrightarrow> utf8_look 0 0 (drop (length (concat us)) (drop k bs) @ 0 # r) = Some Invalid"
        by blast
      have "take k bs @ concat us = take (k + length (concat us)) bs"
        unfolding take_add using *(3) by simp
      moreover have "min (length bs) (k + length (concat us)) = k + length (concat us)"
        using k(2) arg_cong [OF *(3), of length] by (simp add: min_def split: if_splits; linarith)
      ultimately show ?thesis
        using k * by (intro exI [of _ ok] exI [of _ "take k bs # us"]) (auto simp: utf8_valid_loop.simps [of 0 0 0 "bs @ 0 # r"] add.commute)
    next
      assume *: "utf8_look 0 n (bs @ 0 # r) = Some Invalid"
      then have "utf8_look 0 0 (bs @ 0 # r) = Some Invalid" by (simp only: look0 [of n])
      with * show ?thesis
        by (intro exI [of _ False] exI [of _ "[]"]) (simp add: utf8_valid_loop.simps [of 0])
    qed
  qed
qed

lemma accepted_prefix: "list_all accepted_bytes us \<Longrightarrow> list_all accepted_bytes vs \<Longrightarrow> concat vs = concat us @ w \<Longrightarrow> w \<noteq> [] \<Longrightarrow>
    \<exists>u v. accepted_bytes u \<and> w = u @ v"
proof (induction us arbitrary: vs)
  case Nil
  then show ?case by (cases vs) auto
next
  case (Cons u us)
  from Cons.prems obtain v vs' where vs: "vs = v # vs'" by (cases vs) (auto split: list.splits)
  have "utf8_look 0 0 (u @ concat us @ w) = utf8_look 0 0 (v @ concat vs')" using Cons.prems(3) vs by simp
  then have "length u = length v" using Cons.prems(1,2) vs by (simp add: look_accepted)
  then show ?case using Cons.prems vs Cons.IH [of vs'] by simp
qed

text \<open>Every concatenation of accepted characters is passed, and nothing else.\<close>

definition utf8_text :: "u8 list \<Rightarrow> bool" where
  "utf8_text bs \<longleftrightarrow> (\<exists>cs. list_all (\<lambda>(n, k). accepted_form n k) cs \<and> bs = concat (List.map (\<lambda>(n, k). utf8_form n k) cs))"

lemma utf8_text_iff: "utf8_text bs \<longleftrightarrow> (\<exists>us. list_all accepted_bytes us \<and> bs = concat us)"
proof
  assume "utf8_text bs"
  then obtain cs where "list_all (\<lambda>(n, k). accepted_form n k) cs" "bs = concat (List.map (\<lambda>(n, k). utf8_form n k) cs)"
    by (auto simp: utf8_text_def)
  then show "\<exists>us. list_all accepted_bytes us \<and> bs = concat us"
    by (intro exI [of _ "List.map (\<lambda>(n, k). utf8_form n k) cs"]) (auto simp: list_all_iff form_accepted)
next
  assume "\<exists>us. list_all accepted_bytes us \<and> bs = concat us"
  then obtain us where us: "list_all accepted_bytes us" "bs = concat us" by blast
  then have "\<forall>u\<in>set us. \<exists>n. u = utf8_form n (length u) \<and> accepted_form n (length u)"
    by (auto simp: list_all_iff intro: accepted_form_of)
  then obtain f where f: "\<forall>u\<in>set us. u = utf8_form (f u) (length u) \<and> accepted_form (f u) (length u)" by metis
  have "us = List.map (\<lambda>(n, k). utf8_form n k) (List.map (\<lambda>u. (f u, length u)) us)"
    using f by (simp add: list_eq_iff_nth_eq) 
  then show "utf8_text bs"
    unfolding utf8_text_def using us(2) f
    by (intro exI [of _ "List.map (\<lambda>u. (f u, length u)) us"]) (simp add: list_all_iff)
qed

section \<open>The property\<close>

text \<open>
  C36. \<open>oscl_str_is_valid_utf8\<close>, called on a terminated string without limits, always returns (no read beyond
  the terminator) and says yes exactly for concatenations of characters in an accepted form, then counting
  them all; otherwise it reports the position of the first character it refuses. The accepted forms are those
  of one to three bytes without overlong ones, and those of four bytes up to U+10FFFF. Not refused, although
  UTF-8 forbids them: the surrogates U+D800..U+DFFF, and any code point below U+10000 in four bytes.
\<close>

theorem oscl_str_is_valid_utf8_string:
  assumes "plain_string bs"
  shows "(\<exists>ok chars pos. oscl_str_is_valid_utf8 (bs @ 0 # r) 0 0 = Some (ok, chars, pos) \<and> (ok \<longleftrightarrow> utf8_text bs) \<and>
      utf8_text (take pos bs) \<and> (ok \<longrightarrow> pos = length bs)) \<and>
    utf8_text (utf8_form 0xD800 3) \<and> utf8_text (utf8_form 0x20 4)"
proof -
  obtain ok us where *: "utf8_valid_loop 0 0 0 (bs @ 0 # r) 0 0 0 = Some (ok, 0 + length us, 0 + length (concat us))"
    "list_all accepted_bytes us" "concat us = take (length (concat us)) bs" "ok \<longrightarrow> concat us = bs"
    "\<not> ok \<longrightarrow> utf8_look 0 0 (drop (length (concat us)) bs @ 0 # r) = Some Invalid"
    using valid_loop_string [OF assms] by blast
  have "\<not> utf8_text bs" if "\<not> ok"
  proof
    assume "utf8_text bs"
    then obtain vs where vs: "list_all accepted_bytes vs" "bs = concat vs" by (auto simp: utf8_text_iff)
    define w where "w = drop (length (concat us)) bs"
    have cw: "concat vs = concat us @ w" using vs(2) *(3) by (metis append_take_drop_id w_def)
    have "w \<noteq> []" using *(5) that by (auto simp: w_def [symmetric] look_1)
    then obtain u v where "accepted_bytes u" "w = u @ v" using accepted_prefix [OF *(2) vs(1) cw] by blast
    then show False using *(5) that by (simp add: w_def [symmetric] look_accepted)
  qed
  moreover have "utf8_text (utf8_form n k)" if "accepted_form n k" for n k
    unfolding utf8_text_def using that by (intro exI [of _ "[(n, k)]"]) simp
  moreover have "utf8_text (take (length (concat us)) bs)" using * by (auto simp: utf8_text_iff)
  ultimately show ?thesis
    using * by (auto simp: oscl_str_is_valid_utf8_def oscl_str_is_valid_and_truncate_utf8_def accepted_form_def utf8_text_iff)
qed

theorem oscl_str_is_valid_utf8_string_witness:
  "oscl_str_is_valid_utf8 [0xE4, 0xBD, 0xA0, 0x41, 0, 7] 0 0 = Some (True, 2, 4) \<and>
   (\<exists>chars pos. oscl_str_is_valid_utf8 ([0xE4, 0xBD, 0xA0, 0x41] @ 0 # [7]) 0 0 = Some (True, chars, pos))"
proof -
  have e: "oscl_str_is_valid_utf8 [0xE4, 0xBD, 0xA0, 0x41, 0, 7] 0 0 = Some (True, 2, 4)" by code_simp
  have "plain_string [0xE4, 0xBD, 0xA0, 0x41 :: u8]" by simp
  from oscl_str_is_valid_utf8_string [OF this, of "[7]"] e show ?thesis by auto
qed

end
