(* ===== verification/Scanner.thy ===== *)
theory Scanner
  imports IconvRefine Id3Parse Utf8Valid
begin

text \<open>
  The scanner (\<open>mediascanner.cpp\<close>): \<open>ChangeCode\<close> and the first half of \<open>parseMP3\<close>, which reads the tags of a
  file and hands them to the client one by one. The client's \<open>handleStringTag\<close> (\<open>jni_main.cpp\<close>) makes Java
  strings of the name and the value and calls the Java side; \<open>java s\<close> says whether \<open>NewStringUTF\<close> gives a
  string for the characters \<open>s\<close>. The duration that the second half computes is not given to the client.
\<close>

section \<open>The conversion\<close>

text \<open>\<open>ChangeCode\<close>: its result, the output buffer, and what is left of \<open>*iInLen\<close> and \<open>*iOutLen\<close>.\<close>

definition ChangeCode :: "u8 list \<Rightarrow> u8 list \<Rightarrow> u8 list \<Rightarrow> u32 \<Rightarrow> u8 list \<Rightarrow> u32 \<Rightarrow> (int \<times> u8 list \<times> u32 \<times> u32) option" where
  "ChangeCode pFromCode pToCode pInBuf iInLen pOutBuf iOutLen = do {
     hIconv \<leftarrow> iconv_open pToCode pFromCode;
     case hIconv of
       Inl _ \<Rightarrow> Some (- 1, pOutBuf, iInLen, iOutLen)
     | Inr cd \<Rightarrow> do {
         (iRet, _, st) \<leftarrow> iconv cd pInBuf
           \<lparr>cv_in = 0, cv_inb = iInLen, cv_dst = pOutBuf, cv_out = 0, cv_outb = iOutLen, cv_x = 0\<rparr>;
         Some (sint iRet, cv_dst st, cv_inb st, cv_outb st) } }"

section \<open>The tags of one frame\<close>

text \<open>The client, and the tags the Java side has received.\<close>

definition handleStringTag ::
  "(u8 list \<Rightarrow> bool) \<Rightarrow> u8 list \<Rightarrow> u8 list \<Rightarrow> (u8 list \<times> u8 list) list \<Rightarrow> (bool \<times> (u8 list \<times> u8 list) list) option" where
  "handleStringTag java name val tags = do {
     n \<leftarrow> oscl_strlen name;
     if \<not> java (take n name) then Some (False, tags)
     else do {
       v \<leftarrow> oscl_strlen val;
       Some (if \<not> java (take v val) then (False, tags) else (True, tags @ [(take n name, take v val)])) } }"

text \<open>The name for the client and the type of the value in a key: nothing when it has no semicolon.\<close>

definition tag_key :: "u8 list \<Rightarrow> (u8 list \<times> u8 list) option option" where
  "tag_key key = do {
     p \<leftarrow> oscl_strchr key 59;
     case p of
       None \<Rightarrow> Some None
     | Some i \<Rightarrow> do {
         let type = drop (i + 1) key;
         c \<leftarrow> oscl_strncmp key (lit ''track-info/track-number;'' @ [0]) 24;
         n \<leftarrow> oscl_strlen type;
         Some (Some (if c = 0 then take 99 (lit ''tracknumber;'' @ take n type) @ [0] else key, type)) } }"

definition report_gbk ::
  "(u8 list \<Rightarrow> bool) \<Rightarrow> u8 list \<Rightarrow> u8 list \<Rightarrow> (u8 list \<times> u8 list) list \<Rightarrow> (bool \<times> (u8 list \<times> u8 list) list) option" where
  "report_gbk java key val tags = do {
     iInLen \<leftarrow> oscl_strlen val;
     (_, sOutBuf, _, _) \<leftarrow> ChangeCode (lit ''GBK'' @ [0]) (lit ''UTF-8'' @ [0]) val (word_of_nat iInLen) (replicate 100 0) 100;
     handleStringTag java key sOutBuf tags }"

definition report_wide ::
  "(u8 list \<Rightarrow> bool) \<Rightarrow> u8 list \<Rightarrow> wchar list \<Rightarrow> (u8 list \<times> u8 list) list \<Rightarrow> (bool \<times> (u8 list \<times> u8 list) list) option" where
  "report_wide java key src tags = do {
     srcLen \<leftarrow> oscl_strlen src;
     (n, dest) \<leftarrow> oscl_UnicodeToUTF8 src (int srcLen) (replicate (srcLen * 3 + 1) 0) (int srcLen * 3 + 1);
     if n > 0 then handleStringTag java key dest tags else Some (True, tags) }"

text \<open>
  A value is read through the member of the union that the type in the key names; a null pointer is
  what a truncated pair has.
\<close>

definition report_frame ::
  "(u8 list \<Rightarrow> bool) \<Rightarrow> kvp \<Rightarrow> (u8 list \<times> u8 list) list \<Rightarrow> (bool \<times> (u8 list \<times> u8 list) list) option" where
  "report_frame java k tags = do {
     t \<leftarrow> tag_key (kvp_key k @ [0]);
     case t of
       None \<Rightarrow> Some (True, tags)
     | Some (key, type) \<Rightarrow> do {
         utf8 \<leftarrow> oscl_strncmp type (lit ''valtype=char*;char-encoding=UTF8'' @ [0]) 32;
         iso \<leftarrow> oscl_strncmp type (lit ''valtype=char*'' @ [0]) 13;
         utf16be \<leftarrow> oscl_strncmp type (lit ''valtype=wchar*;char-encoding=UTF16BE'' @ [0]) 36;
         utf16 \<leftarrow> oscl_strncmp type (lit ''valtype=wchar*'' @ [0]) 14;
         number \<leftarrow> oscl_strncmp type (lit ''valtype=uint32'' @ [0]) 14;
         if utf8 = 0 \<or> iso = 0
         then (case kvp_value k of
             CharValue val \<Rightarrow> do {
               valid \<leftarrow> (if utf8 = 0 then map_option fst (oscl_str_is_valid_utf8 val 0 0) else Some False);
               if valid then handleStringTag java key val tags else report_gbk java key val tags }
           | _ \<Rightarrow> None)
         else if utf16be = 0 \<or> utf16 = 0
         then (case kvp_value k of WCharValue src \<Rightarrow> report_wide java key src tags | _ \<Rightarrow> None)
         else if number = 0
         then (case kvp_value k of
             Uint32Value w \<Rightarrow> handleStringTag java key (printf_d (sint w) @ [0]) tags
           | NoValue \<Rightarrow> handleStringTag java key (printf_d 0 @ [0]) tags
           | _ \<Rightarrow> None)
         else Some (True, tags) } }"

fun report_frames ::
  "(u8 list \<Rightarrow> bool) \<Rightarrow> kvp list \<Rightarrow> (u8 list \<times> u8 list) list \<Rightarrow> (pvmf_status \<times> (u8 list \<times> u8 list) list) option" where
  "report_frames java [] tags = Some (PVMFSuccess, tags)"
| "report_frames java (k # ks) tags = do {
     (ok, tags) \<leftarrow> report_frame java k tags;
     if ok then report_frames java ks tags else Some (PVMFFailure, tags) }"

text \<open>
  \<open>parseMP3\<close> up to the loop over the frames, on an open file, with at most \<open>n\<close> passes of the parser. The status
  of \<open>ParseID3Tag\<close> is not looked at.
\<close>

definition parse_tags ::
  "nat \<Rightarrow> byte_order \<Rightarrow> 'f file_ops \<Rightarrow> (u32 \<Rightarrow> bool) \<Rightarrow> (u8 list \<Rightarrow> bool) \<Rightarrow> 'f id3 \<Rightarrow>
     (pvmf_status \<times> (u8 list \<times> u8 list) list) option exit option" where
  "parse_tags n bo io heap java s =
     (let (_, F) = pv_seek io 0 SEEKSET (id3_file s)
      in do {
        r \<leftarrow> ParseID3Tag n bo io heap 100 (s\<lparr>id3_file := F\<rparr>);
        on_return r (\<lambda>x. case x of
          None \<Rightarrow> Some (Return None)
        | Some (_, s) \<Rightarrow> do {
            let (_, framevector) = GetID3Frames s;
            q \<leftarrow> report_frames java framevector [];
            Some (Return (Some q)) }) })"

section \<open>Text in GBK\<close>

lemma rd_append: "rd s i = Some v \<Longrightarrow> rd (s @ r) i = Some v"
  by (auto simp: rd_eq_Some_iff nth_append)

lemma decode_gbk_stable:
  assumes "iconv_decode T_GBK base s inb = Some x"
  shows "iconv_decode T_GBK base (s @ r) inb = Some x"
proof -
  obtain a where a: "rd s 0 = Some a" using assms by (cases "rd s 0") (simp_all add: iconv_decode_def)
  show ?thesis
  proof (cases "rd s 1")
    case (Some b)
    then show ?thesis using assms rd_append [OF a, of r] rd_append [OF Some, of r] a
      by (auto simp: iconv_decode_def decode_gb_def Let_def split: if_splits)
  next
    case None
    then show ?thesis using assms rd_append [OF a, of r] a
      by (simp add: iconv_decode_def decode_gb_def Let_def split: if_splits)
  qed
qed

lemma open_gbk: "iconv_open (lit ''UTF-8'' @ [0]) (lit ''GBK'' @ [0]) = Some (Inr (word_of_nat (181 * 65536 + 6)))"
proof -
  have u: "0 \<notin> set (lit ''UTF-8'')" "0 \<notin> set (lit ''GBK'')" by simp_all
  have c: "charmaps = [] @ concat (List.map charmap_bytes charmap_list) @ [0]" by (simp add: charmaps_def)
  have p: "charmap_lookup (lit ''UTF-8'') 0 charmap_list = Some 6" "charmap_lookup (lit ''GBK'') 0 charmap_list = Some 181"
    by code_simp+
  have "find_charmap (lit ''UTF-8'' @ [0]) = Some 6"
    using find_charmap_entries [OF u(1) charmaps_wf c, of "[]"] p(1) by (simp only: find_charmap_def charmaps_def) simp
  moreover have "find_charmap (lit ''GBK'' @ [0]) = Some 181"
    using find_charmap_entries [OF u(2) charmaps_wf c, of "[]"] p(2) by (simp only: find_charmap_def charmaps_def) simp
  moreover have "rd charmaps 6 = Some 200" using charmap_at_type [OF charmap_at_utf8] by (simp add: cm_utf8_def)
  moreover have "(6 :: u32) \<noteq> - 1" "(181 :: u32) \<noteq> - 1" "push_bit 16 181 OR 6 = (word_of_nat (181 * 65536 + 6) :: u32)" by simp_all
  ultimately show ?thesis unfolding iconv_open_def by simp
qed

lemma high_byte: "bit m 7 \<Longrightarrow> (ucast ((m :: u32) OR x) :: u8) \<noteq> 0"
proof -
  assume "bit m 7"
  then have "bit (ucast (m OR x) :: u8) 7" by (simp add: bit_simps)
  then show ?thesis by auto
qed

lemma wcrtomb_nonzero: "wcrtomb_s c = Some bs \<Longrightarrow> c \<noteq> 0 \<Longrightarrow> plain_string bs"
proof -
  have low: "(ucast c :: u8) \<noteq> 0" if "unat c < 128" "c \<noteq> 0" for c :: u32
    using that by (simp add: word_unat_eq_iff unat_ucast_mod)
  have hi: "bit (0xc0 :: u32) 7" "bit (0x80 :: u32) 7" "bit (0xe0 :: u32) 7" "bit (0xf0 :: u32) 7" by code_simp+
  show "wcrtomb_s c = Some bs \<Longrightarrow> c \<noteq> 0 \<Longrightarrow> plain_string bs"
    using low [of c] high_byte [OF hi(1)] high_byte [OF hi(2)] high_byte [OF hi(3)] high_byte [OF hi(4)]
    by (auto simp: wcrtomb_s_unat split: if_splits)
qed

text \<open>A text in GBK and its characters, whose UTF-8 form leaves room for the terminator in \<open>sOutBuf\<close>.\<close>

definition gbk_text :: "u8 list \<Rightarrow> u32 list \<Rightarrow> bool" where
  "gbk_text s cs \<longleftrightarrow> decode_all T_GBK 182 s = Some cs \<and> list_all (\<lambda>c. scalar c \<and> c \<noteq> 0) cs \<and> length (encode_all cs) < 100"

lemma plain_encode: "list_all (\<lambda>c. scalar c \<and> c \<noteq> 0) cs \<Longrightarrow> plain_string (encode_all cs)"
proof (induction cs)
  case (Cons c cs)
  then obtain bs where "wcrtomb_s c = Some bs" using wcrtomb_None [of c] by (cases "wcrtomb_s c") auto
  then show ?case using Cons wcrtomb_nonzero by simp
qed (simp add: encode_all_def)

lemma gbk_source: "rd charmaps 181 = Some 217" "ucast (217 :: u8) = T_GBK"
  using charmap_at_type [OF charmap_at_gbk] by (simp_all add: cm_gbk_def)

lemma gbk_descriptor:
  "unat (drop_bit 16 (word_of_nat (181 * 65536 + 6) :: u32)) = 181" "unat ((word_of_nat (181 * 65536 + 6) :: u32) AND 0xffff) = 6"
  using descriptor_halves [of 6 181 "word_of_nat (181 * 65536 + 6)"] by simp_all

lemma patch_zeros: "length bs \<le> n \<Longrightarrow> patch (replicate n 0) 0 bs = bs @ replicate (n - length bs) 0"
  by (simp add: patch_def)

lemma ChangeCode_gbk:
  assumes "decode_all T_GBK 182 s = Some cs" "\<forall>c \<in> set cs. scalar c" "length (encode_all cs) \<le> 100" "length s < 4294967296"
  obtains outb where "ChangeCode (lit ''GBK'' @ [0]) (lit ''UTF-8'' @ [0]) (s @ [0]) (word_of_nat (length s)) (replicate 100 0) 100 =
    Some (0, encode_all cs @ replicate (100 - length (encode_all cs)) 0, 0, outb)"
proof -
  let ?st = "\<lparr>cv_in = 0, cv_inb = word_of_nat (length s), cv_dst = replicate 100 0, cv_out = 0, cv_outb = 100, cv_x = 0\<rparr>"
  have len: "unat (word_of_nat (length s) :: u32) = length s" by (rule unat_of_nat_small) (use assms(4) in simp)
  have dst: "dst_ok ?st" by (simp add: dst_ok_def)
  obtain st' where st': "iconv_loop 181 6 (s @ [0]) ?st = Some (conv_end.Done, st')" "wrote (encode_all cs) ?st st'" "cv_inb st' = 0" "cv_x st' = 0"
    using loop_encodes [of 181 217 "[0]" ?st "s @ [0]" s cs] gbk_source decode_gbk_stable [of 182 _ _ _ "[0]"] assms(1-3) len dst
    by auto
  have "cv_dst st' = encode_all cs @ replicate (100 - length (encode_all cs)) 0"
    using st'(2) assms(3) by (simp add: wrote_def patch_zeros)
  then have "iconv (word_of_nat (181 * 65536 + 6)) (s @ [0]) ?st = Some (0, None, st')"
    using st' by (simp only: iconv_def gbk_descriptor) simp
  then show thesis using st' \<open>cv_dst st' = _\<close>
    by (intro that [of "cv_outb st'"]) (simp only: ChangeCode_def open_gbk bind.bind_lunit sum.case prod.case, simp)
qed

lemma report_gbk_text:
  assumes "gbk_text s cs" "plain_string s" "length s < 4294967296" "plain_string key"
  shows "report_gbk (\<lambda>_. True) (key @ [0]) (s @ [0]) tags = Some (True, tags @ [(key, encode_all cs)])"
proof -
  obtain outb where "ChangeCode (lit ''GBK'' @ [0]) (lit ''UTF-8'' @ [0]) (s @ [0]) (word_of_nat (length s)) (replicate 100 0) 100 =
    Some (0, encode_all cs @ replicate (100 - length (encode_all cs)) 0, 0, outb)"
    using ChangeCode_gbk [of s cs] assms(1,3) by (auto simp: gbk_text_def list_all_iff)
  moreover have "replicate (100 - length (encode_all cs)) (0 :: u8) = 0 # replicate (99 - length (encode_all cs)) 0"
  proof -
    have "100 - length (encode_all cs) = Suc (99 - length (encode_all cs))" using assms(1) unfolding gbk_text_def by linarith
    then show ?thesis by simp
  qed
  moreover have "plain_string (encode_all cs)" using assms(1) plain_encode by (simp add: gbk_text_def)
  ultimately show ?thesis
    using assms(2,4) strlen_string [of s "[]"] strlen_string [of key "[]"] strlen_string [of "encode_all cs"]
    unfolding report_gbk_def by (simp add: handleStringTag_def del: replicate.simps)
qed

section \<open>The tags of text frames\<close>

text \<open>The name of a text frame for the client.\<close>

definition client_name :: "u8 list \<Rightarrow> u8 list" where
  "client_name fid =
     (let key = the (KVP_KEY (the (map_of id3_frame_ids fid)))
      in (if key = lit ''track-info/track-number'' then lit ''tracknumber'' else key) @ lit '';valtype=char*'')"

lemma strchr_at: "plain_string k \<Longrightarrow> c \<notin> set k \<Longrightarrow> c \<noteq> 0 \<Longrightarrow> oscl_strchr (k @ c # r) c = Some (Some (length k))"
  by (induction k) auto

lemma tag_key_narrow:
  assumes "plain_string k" "59 \<notin> set k"
  shows "tag_key (k @ lit '';valtype=char*'' @ [0]) = Some (Some
    (if take 24 (k @ lit '';valtype=char*'' @ [0]) = lit ''track-info/track-number;'' then lit ''tracknumber;valtype=char*'' @ [0]
     else k @ lit '';valtype=char*'' @ [0], lit ''valtype=char*'' @ [0]))"
proof -
  have e: "k @ lit '';valtype=char*'' @ [0] = k @ 59 # (lit ''valtype=char*'' @ [0])" by simp
  have 1: "oscl_strchr (k @ lit '';valtype=char*'' @ [0]) 59 = Some (Some (length k))"
    unfolding e by (rule strchr_at [OF assms]) simp
  have 2: "drop (length k + 1) (k @ lit '';valtype=char*'' @ [0]) = lit ''valtype=char*'' @ [0]" by simp
  have 3: "oscl_strlen (lit ''valtype=char*'' @ [0]) = Some 13" by code_simp
  have 4: "take 99 (lit ''tracknumber;'' @ take 13 (lit ''valtype=char*'' @ [0])) = lit ''tracknumber;valtype=char*''" by code_simp
  obtain d where d: "oscl_strncmp (k @ lit '';valtype=char*'' @ [0]) (lit ''track-info/track-number;'' @ [0]) 24 = Some d"
    "d = 0 \<longleftrightarrow> take 24 (k @ lit '';valtype=char*'' @ [0]) = lit ''track-info/track-number;''"
    using strncmp_eq [of "k @ lit '';valtype=char*''" "lit ''track-info/track-number;''" "[]" "[]" 24] assms(1) by auto
  show ?thesis unfolding tag_key_def 1 2 3 4 d(1) bind.bind_lunit option.case Let_def by (simp only: d(2))
qed

lemma text_keys:
  assumes "is_text_frame t"
  shows "plain_string (the (KVP_KEY t))" "59 \<notin> set (the (KVP_KEY t))"
    "take 24 (the (KVP_KEY t) @ lit '';valtype=char*'' @ [0]) = lit ''track-info/track-number;'' \<longleftrightarrow>
      the (KVP_KEY t) = lit ''track-info/track-number''"
  using assms by (cases t; simp add: is_text_frame_def KVP_KEY_def)+

lemma strncmp_numeral:
  "oscl_strncmp (a # x) (b # y) (numeral n) =
    (if a \<noteq> b \<or> a = 0 then Some (to_s32 (uint a - uint b)) else oscl_strncmp x y (pred_numeral n))"
  by (simp add: numeral_eq_Suc)

lemma type_tests:
  "oscl_strncmp (lit ''valtype=char*'' @ [0]) (lit ''valtype=char*;char-encoding=UTF8'' @ [0]) 32 = Some (- 59)"
  "oscl_strncmp (lit ''valtype=char*'' @ [0]) (lit ''valtype=char*'' @ [0]) 13 = Some 0"
  "oscl_strncmp (lit ''valtype=char*'' @ [0]) (lit ''valtype=wchar*;char-encoding=UTF16BE'' @ [0]) 36 = Some (- 20)"
  "oscl_strncmp (lit ''valtype=char*'' @ [0]) (lit ''valtype=wchar*'' @ [0]) 14 = Some (- 20)"
  "oscl_strncmp (lit ''valtype=char*'' @ [0]) (lit ''valtype=uint32'' @ [0]) 14 = Some (- 18)"
  by (simp_all add: strncmp_numeral to_s32_def to_u32_def)

lemma text_frame_name:
  assumes "text_ok (fid, s)"
  shows "tag_key (kvp_key (text_kvp (fid, s)) @ [0]) = Some (Some (client_name fid @ [0], lit ''valtype=char*'' @ [0]))"
    and "plain_string (client_name fid)"
proof -
  obtain t where t: "map_of id3_frame_ids fid = Some t" "is_text_frame t" using assms by (auto simp: text_ok_def)
  note k = text_keys [OF t(2)]
  have name: "client_name fid = (if the (KVP_KEY t) = lit ''track-info/track-number'' then lit ''tracknumber'' else the (KVP_KEY t)) @
      lit '';valtype=char*''"
    using t(1) by (simp only: client_name_def option.sel Let_def)
  have "tag_key (the (KVP_KEY t) @ lit '';valtype=char*'' @ [0]) = Some (Some (client_name fid @ [0], lit ''valtype=char*'' @ [0]))"
    unfolding tag_key_narrow [OF k(1,2)] k(3) name by simp
  moreover have "plain_string (client_name fid)" unfolding name using k(1) by simp
  ultimately show "tag_key (kvp_key (text_kvp (fid, s)) @ [0]) = Some (Some (client_name fid @ [0], lit ''valtype=char*'' @ [0]))"
    "plain_string (client_name fid)" using t(1) by (simp_all add: text_kvp_def)
qed

text \<open>A text frame goes through the conversion from GBK.\<close>

lemma report_text:
  assumes "text_ok (fid, s)"
  shows "report_frame java (text_kvp (fid, s)) tags = report_gbk java (client_name fid @ [0]) (s @ [0]) tags"
proof -
  have "kvp_value (text_kvp (fid, s)) = CharValue (s @ [0])" by (simp add: text_kvp_def)
  then show ?thesis
    by (simp only: report_frame_def text_frame_name(1) [OF assms] type_tests bind.bind_lunit option.case prod.case kvp_value.case) simp
qed

definition client_tag :: "u8 list \<times> u8 list \<Rightarrow> u32 list \<Rightarrow> u8 list \<times> u8 list" where
  "client_tag f cs = (client_name (fst f), encode_all cs)"

lemma report_texts:
  assumes "list_all2 (\<lambda>f cs. gbk_text (snd f) cs \<and> length (snd f) < 4294967296) fs css" "list_all text_ok fs" "list_all (\<lambda>f. plain_string (snd f)) fs"
  shows "report_frames (\<lambda>_. True) (List.map text_kvp fs) tags = Some (PVMFSuccess, tags @ map2 client_tag fs css)"
  using assms
proof (induction fs css arbitrary: tags rule: list_all2_induct)
  case (Cons f fs cs css)
  obtain fid s where f: "f = (fid, s)" by (cases f)
  have ok: "text_ok (fid, s)" "plain_string s" using Cons.prems f by (auto simp: text_ok_def)
  have "report_frame (\<lambda>_. True) (text_kvp (fid, s)) tags = Some (True, tags @ [client_tag f cs])"
    unfolding report_text [OF ok(1)] using report_gbk_text [of s cs "client_name fid" tags] text_frame_name(2) [OF ok(1)] ok(2) Cons.hyps f
    by (simp add: client_tag_def)
  then show ?case using Cons.IH Cons.prems f by simp
qed simp

section \<open>Texts that do not fit\<close>

definition ascii_text :: "u8 list \<Rightarrow> bool" where
  "ascii_text s \<longleftrightarrow> list_all (\<lambda>b. 0 < b \<and> b < 128) s"

lemma ascii_decode: "0 < b \<Longrightarrow> b < 128 \<Longrightarrow> iconv_decode T_GBK base (b # s) inb = Some (Code (ucast b) 1)"
  by (simp add: iconv_decode_def Let_def word_less_nat_alt word_le_nat_alt)

lemma ascii_encode: "b < 128 \<Longrightarrow> wcrtomb_s (ucast (b :: u8)) = Some [b]"
  by (simp add: wcrtomb_s_def word_less_nat_alt) (simp add: word_unat_eq_iff unat_ucast_mod)

lemma ascii_decode_all:
  "ascii_text s \<Longrightarrow> decode_all T_GBK base s = Some (List.map ucast s) \<and> encode_all (List.map ucast s) = s"
proof (induction s)
  case (Cons b s)
  then show ?case
    using ascii_decode [of b base s] ascii_encode [of b]
    by (simp add: ascii_text_def decode_all.simps [of _ _ "b # s"])
qed (simp add: decode_all.simps encode_all_def)

lemma loop_overflows:
  assumes "drop (cv_in st) src = s @ r" "unat (cv_inb st) = length s" "dst_ok st" "ascii_text s" "unat (cv_outb st) < length s"
  shows "\<exists>st'. iconv_loop 181 6 src st = Some (Failed E2BIG, st') \<and> wrote (take (unat (cv_outb st)) s) st st'"
  using assms
proof (induction "unat (cv_outb st)" arbitrary: s st)
  case (0 st s)
  have to_type: "rd charmaps 6 = Some 200" using charmap_at_type [OF charmap_at_utf8] by (simp add: cm_utf8_def)
  obtain b t where s: "s = b # t" using 0 by (cases s) auto
  have b: "0 < b" "b < 128" using 0 s by (simp_all add: ascii_text_def)
  have "cv_inb st \<noteq> 0" "cv_outb st = 0" using 0 s by (auto simp: unat_eq_0)
  then have "iconv_loop 181 6 src st = Some (Failed E2BIG, st)"
    using 0(2) ascii_decode [OF b, of 182 "t @ r"] ascii_encode [OF b(2)] s
    by (subst iconv_loop.simps) (simp add: gbk_source to_type iconv_emit_def emit_utf8_def put_bytes_def)
  then show ?case using 0(1) by simp
next
  case (Suc m st s)
  have to_type: "rd charmaps 6 = Some 200" using charmap_at_type [OF charmap_at_utf8] by (simp add: cm_utf8_def)
  obtain b t where s: "s = b # t" using Suc.prems(5) by (cases s) auto
  have b: "0 < b" "b < 128" "ascii_text t" using Suc.prems(4) s by (simp_all add: ascii_text_def)
  have inb: "cv_inb st \<noteq> 0" using Suc.prems(2) s by auto
  obtain st1 where st1: "put_bytes [b] st = Some (Emitted st1)" "wrote [b] st st1" "same_in st st1"
    using put_bytes_fits [OF Suc.prems(3), of "[b]"] Suc.hyps(2) by auto
  let ?st = "st1\<lparr>cv_in := cv_in st1 + 1, cv_inb := cv_inb st1 - 1\<rparr>"
  have wr: "wrote [b] st ?st" using st1(2) by (simp add: wrote_def)
  have step: "iconv_loop 181 6 src st = iconv_loop 181 6 src ?st"
    using inb Suc.prems(1) ascii_decode [OF b(1,2), of 182 "t @ r"] ascii_encode [OF b(2)] s st1(1)
    by (subst iconv_loop.simps) (simp add: gbk_source to_type iconv_emit_def emit_utf8_def)
  have m: "unat (cv_outb ?st) = m" using wr Suc.hyps(2) by (simp add: wrote_def)
  have "drop (cv_in ?st) src = drop 1 (drop (cv_in st) src)" using st1(3) by (simp add: same_in_def add.commute)
  then have d: "drop (cv_in ?st) src = t @ r" using Suc.prems(1) s by simp
  have inb': "unat (cv_inb ?st) = length t"
    using st1(3) Suc.prems(2) s inb by (simp add: same_in_def unat_minus_one)
  obtain st' where st': "iconv_loop 181 6 src ?st = Some (Failed E2BIG, st')" "wrote (take m t) ?st st'"
    using Suc.hyps(1) [OF m [symmetric] d inb' dst_ok_wrote [OF wr Suc.prems(3)] b(3)] Suc.prems(5) Suc.hyps(2) s m by auto
  have "wrote ([b] @ take m t) st st'" by (rule wrote_trans [OF wr st'(2) Suc.prems(3)])
  then show ?case using step st'(1) s Suc.hyps(2) [symmetric] by simp
qed

lemma ChangeCode_long:
  assumes "ascii_text s" "100 \<le> length s" "length s < 4294967296"
  shows "\<exists>a b c. ChangeCode (lit ''GBK'' @ [0]) (lit ''UTF-8'' @ [0]) (s @ [0]) (word_of_nat (length s)) (replicate 100 0) 100 =
    Some (a, take 100 s, b, c)"
proof (cases "length s = 100")
  case True
  have sc: "\<forall>c \<in> set (List.map ucast s). scalar (c :: u32)" by (auto intro!: scalar_small)
  obtain outb where "ChangeCode (lit ''GBK'' @ [0]) (lit ''UTF-8'' @ [0]) (s @ [0]) (word_of_nat (length s)) (replicate 100 0) 100 =
      Some (0, s @ replicate (100 - length s) 0, 0, outb)"
  proof (rule ChangeCode_gbk [of s "List.map ucast s"])
    fix outb
    assume "ChangeCode (lit ''GBK'' @ [0]) (lit ''UTF-8'' @ [0]) (s @ [0]) (word_of_nat (length s)) (replicate 100 0) 100 =
      Some (0, encode_all (List.map ucast s) @ replicate (100 - length (encode_all (List.map ucast s))) 0, 0, outb)"
    then show thesis using that ascii_decode_all [OF assms(1), of 182] by simp
  qed (use ascii_decode_all [OF assms(1), of 182] sc True in simp_all)
  then show ?thesis by (simp add: True del: replicate.simps)
next
  case False
  let ?st = "\<lparr>cv_in = 0, cv_inb = word_of_nat (length s), cv_dst = replicate 100 0, cv_out = 0, cv_outb = 100, cv_x = 0\<rparr>"
  have len: "unat (word_of_nat (length s) :: u32) = length s" by (rule unat_of_nat_small) (use assms(3) in simp)
  obtain st' where st': "iconv_loop 181 6 (s @ [0]) ?st = Some (Failed E2BIG, st')" "wrote (take 100 s) ?st st'"
    using loop_overflows [of ?st "s @ [0]" s "[0]"] assms(1,2) False len by (auto simp: dst_ok_def)
  have out: "cv_dst st' = take 100 s" using st'(2) assms(2) by (simp add: wrote_def patch_zeros)
  have "iconv (word_of_nat (181 * 65536 + 6)) (s @ [0]) ?st = Some (- 1, Some E2BIG, st')"
    using st' by (simp only: iconv_def gbk_descriptor) simp
  then show ?thesis unfolding ChangeCode_def open_gbk bind.bind_lunit sum.case prod.case using out by simp
qed

lemma report_gbk_long:
  assumes "ascii_text s" "100 \<le> length s" "length s < 4294967296" "plain_string key"
  shows "report_gbk java (key @ [0]) (s @ [0]) tags = (if java key then None else Some (False, tags))"
proof -
  have plain: "plain_string s" using assms(1) by (auto simp: ascii_text_def plain_string_def list_all_iff)
  have "oscl_strlen (take 100 s) = None" unfolding strlen_None using plain by (auto simp: plain_string_def dest: in_set_takeD)
  then show ?thesis
    unfolding report_gbk_def
    using ChangeCode_long [OF assms(1-3)] strlen_string [OF plain, of "[]"] strlen_string [OF assms(4), of "[]"]
    by (auto simp: handleStringTag_def simp del: replicate.simps)
qed

section \<open>Files\<close>

context byte_file
begin

lemma parse_tags_at:
  assumes "pos_at F d 0" "d = text_tag fs pad @ audio" "list_all text_ok fs" "10 \<le> pad" "length (text_frames fs) + pad < 268435456"
    and "take 3 (drop (length d - 128) d) \<noteq> lit ''TAG'' \<or> length d < 128" "length frame = 5"
    and "length (text_frames fs) \<le> tag_size_read bo (length (text_frames fs) + pad)"
  shows "parse_tags (Suc n) bo io (\<lambda>_. True) java (PVID3ParCom F text_type frame lang seek) =
    (case report_frames java (List.map text_kvp fs) [] of None \<Rightarrow> None | Some q \<Rightarrow> Some (Return (Some q)))"
proof -
  obtain F1 where F1: "pv_seek io 0 SEEKSET F = (0, F1)" "pos_at F1 d 0"
    using seek_at [OF assms(1), of 0 0 SEEKSET] by auto
  obtain s' where "ParseID3Tag (Suc n) bo io (\<lambda>_. True) 100 (PVID3ParCom F1 text_type frame lang seek) =
      Some (Return (Some (PVMFSuccess, s')))" "iFrames s' = List.map text_kvp fs"
    using parse_text_tag_at [OF F1(2) assms(2-8), of n 100 text_type lang seek]
    by (elim exE conjE) (rule that, assumption, assumption)
  moreover have "PVID3ParCom F text_type frame lang seek\<lparr>id3_file := F1\<rparr> = PVID3ParCom F1 text_type frame lang seek"
    "id3_file (PVID3ParCom F text_type frame lang seek) = F"
    by (simp_all add: PVID3ParCom_def)
  ultimately show ?thesis using F1(1)
    by (cases "report_frames java (List.map text_kvp fs) []") (simp_all add: parse_tags_def GetID3Frames_def)
qed

end

lemma text_in_frames: "f \<in> set fs \<Longrightarrow> length (snd f) \<le> length (text_frames fs)"
  by (induction fs) (auto simp: text_frame_def split: prod.splits)

lemma covers:
  assumes "bo = LITTLE_ENDIAN \<or> k \<le> tag_size_read bo (k + pad)" "k + pad < 2 ^ 28"
  shows "k \<le> tag_size_read bo (k + pad)"
  using assms tag_size_read(1) [of "k + pad"] by auto

text \<open>
  C1. The scanner end to end, for both byte orders the code can be compiled for: for a file that begins with
  a tag of version 2.3 whose text frames hold text in GBK (declared as ISO 8859-1, as Chinese taggers write
  it) in front of at least ten bytes of padding, and that has no tag of version 1 at its end, the
  client receives exactly one tag per frame, in order, with the name of the frame and the text in UTF-8,
  provided each text has at most 99 bytes in UTF-8, has no zero byte, and the client accepts the strings. The tag size
  that the code reads must cover the frames, as it does in the little-endian order; in the order the
  repository defines it is the size with its groups of seven bits reversed.
\<close>

theorem parse_tags_gbk:
  assumes "length mem = 4096" "length (text_tag fs pad @ audio) < 2 ^ 31" "list_all text_ok fs" "10 \<le> pad"
    and "length (text_frames fs) + pad < 2 ^ 28" "length frame = 5"
    and "take 3 (drop (length (text_tag fs pad @ audio) - 128) (text_tag fs pad @ audio)) \<noteq> lit ''TAG'' \<or>
      length (text_tag fs pad @ audio) < 128"
    and "list_all2 (\<lambda>f cs. gbk_text (snd f) cs) fs css" "list_all (\<lambda>f. plain_string (snd f)) fs"
    and "bo = LITTLE_ENDIAN \<or> length (text_frames fs) \<le> tag_size_read bo (length (text_frames fs) + pad)"
  shows "parse_tags (Suc n) bo cached_file (\<lambda>_. True) (\<lambda>_. True)
      (PVID3ParCom (pv_open mem (text_tag fs pad @ audio)) text_type frame lang seek) =
    Some (Return (Some (PVMFSuccess, map2 (\<lambda>f cs. (client_name (fst f), encode_all cs)) fs css)))"
proof -
  have "list_all2 (\<lambda>f cs. gbk_text (snd f) cs \<and> length (snd f) < 4294967296) fs css"
    by (rule list.rel_mono_strong [OF assms(8)]) (use text_in_frames [of _ fs] assms(5) in fastforce)
  then have "report_frames (\<lambda>_. True) (List.map text_kvp fs) [] = Some (PVMFSuccess, map2 client_tag fs css)"
    using report_texts assms(3,9) by simp
  moreover have "client_tag = (\<lambda>f cs. (client_name (fst f), encode_all cs))" by (intro ext) (simp add: client_tag_def)
  ultimately show ?thesis
    using cached.parse_tags_at [OF pv_open_at refl assms(3,4), of mem audio frame bo n "\<lambda>_. True" text_type lang seek]
      covers [OF assms(10,5)] assms(1,2,5-7) by simp
qed

theorem parse_tags_gbk_witness:
  "parse_tags 1 repository_byte_order cached_file (\<lambda>_. True) (\<lambda>_. True)
      (PVID3ParCom (pv_open (replicate 4096 0) (text_tag [(lit ''TIT2'', [0x81, 0x41, 0x31]), (lit ''TRCK'', lit ''7'')] 20 @ [255, 251]))
        PV_ID3_CHARSET_ISO88591 [0, 0, 0, 0, 0] [] 0) =
    Some (Return (Some (PVMFSuccess, [(lit ''title;valtype=char*'', [0xe4, 0xb8, 0x84, 0x31]), (lit ''tracknumber;valtype=char*'', lit ''7'')])))"
proof -
  let ?fs = "[(lit ''TIT2'', [0x81, 0x41, 0x31]), (lit ''TRCK'', lit ''7'')]" and ?css = "[[0x4e04, 0x31], [0x37]] :: u32 list list"
  have ok: "list_all text_ok ?fs"
    by (simp add: text_ok_def id3_frame_ids_def is_text_frame_def plain_string_def)
  have len: "length (text_tag ?fs 20 @ [255, 251]) = 58" "length (text_frames ?fs) = 26"
    by (simp_all add: text_frame_def)
  have size: "tag_size_read repository_byte_order 46 = 96468992"
    using sync_safe_parts [of 46] by (simp add: tag_size_read_def sync_val_def)
  have "tab2 gb18030 0 1 = Some 0x4e04" by (simp add: tab2_def gb18030_def gb18030_0_def rd_def nth_u16s)
  moreover have "\<not> (191 :: u32) \<le> 1" by (simp add: word_le_nat_alt)
  ultimately have 1: "iconv_decode T_GBK 182 [0x81, 0x41, 0x31] 3 = Some (Code 0x4e04 2)"
    by (simp add: iconv_decode_def decode_gb_def Let_def)
  have 2: "iconv_decode T_GBK 182 [0x31] 1 = Some (Code 0x31 1)" "iconv_decode T_GBK 182 [0x37] 1 = Some (Code 0x37 1)"
    by (simp_all add: iconv_decode_def Let_def)
  have dec: "decode_all T_GBK 182 [0x81, 0x41, 0x31] = Some [0x4e04, 0x31]" "decode_all T_GBK 182 [0x37] = Some [0x37]"
    by (simp_all add: decode_all.simps [of _ _ "[0x81, 0x41, 0x31]"] decode_all.simps [of _ _ "[0x31]"]
        decode_all.simps [of _ _ "[0x37]"] decode_all.simps [of _ _ "[]"] 1 2)
  have enc: "encode_all [0x4e04, 0x31] = [0xe4, 0xb8, 0x84, 0x31]" "encode_all [0x37] = [0x37]"
    by (simp_all add: encode_all_def wcrtomb_s_def)
  have texts: "list_all2 (\<lambda>f cs. gbk_text (snd f) cs) ?fs ?css"
    by (simp add: gbk_text_def dec enc scalar_def)
  have names: "client_name (lit ''TIT2'') = lit ''title;valtype=char*''" "client_name (lit ''TRCK'') = lit ''tracknumber;valtype=char*''"
    by (simp_all add: client_name_def id3_frame_ids_def KVP_KEY_def)
  have "parse_tags (Suc 0) repository_byte_order cached_file (\<lambda>_. True) (\<lambda>_. True)
      (PVID3ParCom (pv_open (replicate 4096 0) (text_tag ?fs 20 @ [255, 251])) PV_ID3_CHARSET_ISO88591 [0, 0, 0, 0, 0] [] 0) =
    Some (Return (Some (PVMFSuccess, map2 (\<lambda>f cs. (client_name (fst f), encode_all cs)) ?fs ?css)))"
    by (rule parse_tags_gbk) (use ok len texts size in simp_all)
  then show ?thesis using names enc by simp
qed

text \<open>
  C10. A text of 100 or more ASCII characters in a frame makes the scanner read past the buffer \<open>sOutBuf\<close>: \<open>iconv\<close>
  fills all of its 100 bytes, no terminator is left, and \<open>handleStringTag\<close> looks for one. This is so, in both byte
  orders the code can be compiled for, for every file that begins with a tag of version 2.3 whose first text
  frame is such a text, with ten bytes of padding at least, without a tag of version 1 at the end, and with a tag size
  that, as the code reads it, covers the frames (it does in the little-endian order).
\<close>

theorem parse_tags_long_text:
  assumes "length mem = 4096" "d = text_tag ((fid, s) # fs) pad @ audio" "length d < 2 ^ 31" "list_all text_ok ((fid, s) # fs)" "10 \<le> pad"
    and "length (text_frames ((fid, s) # fs)) + pad < 2 ^ 28" "length frame = 5"
    and "take 3 (drop (length d - 128) d) \<noteq> lit ''TAG'' \<or> length d < 128"
    and "ascii_text s" "100 \<le> length s"
    and "bo = LITTLE_ENDIAN \<or> length (text_frames ((fid, s) # fs)) \<le> tag_size_read bo (length (text_frames ((fid, s) # fs)) + pad)"
  shows "parse_tags (Suc n) bo cached_file (\<lambda>_. True) (\<lambda>_. True)
    (PVID3ParCom (pv_open mem d) text_type frame lang seek) = None"
proof -
  have ok: "text_ok (fid, s)" and len: "length s < 4294967296"
    using assms(4,6) text_in_frames [of "(fid, s)" "(fid, s) # fs"] by auto
  have "report_frames (\<lambda>_. True) (List.map text_kvp ((fid, s) # fs)) [] = None"
    using report_text [OF ok, of "\<lambda>_. True"] report_gbk_long [OF assms(9,10) len text_frame_name(2) [OF ok], of "\<lambda>_. True"] by simp
  then show ?thesis
    using cached.parse_tags_at [OF pv_open_at assms(2,4,5), of mem frame bo n "\<lambda>_. True" text_type lang seek]
      covers [OF assms(11,6)] assms(1,3,6,7,8) by simp
qed

theorem parse_tags_long_text_witness:
  "parse_tags 1 repository_byte_order cached_file (\<lambda>_. True) (\<lambda>_. True)
    (PVID3ParCom (pv_open (replicate 4096 0) (text_tag [(lit ''TIT2'', replicate 100 65)] 10))
      PV_ID3_CHARSET_ISO88591 [0, 0, 0, 0, 0] [] 0) = None"
proof -
  define s :: "u8 list" where "s = replicate 100 65"
  have s: "length s = 100" "ascii_text s" "plain_string s" by (simp_all add: s_def ascii_text_def plain_string_def list_all_iff del: replicate.simps)
  have ok: "list_all text_ok [(lit ''TIT2'', s)]"
    using s by (auto simp: text_ok_def id3_frame_ids_def is_text_frame_def)
  have len: "length (text_frames [(lit ''TIT2'', s)]) = 111" by (simp add: text_frame_def s(1))
  have t: "take 3 (drop 3 (text_tag [(lit ''TIT2'', s)] 10)) = [3, 0, 0]" by (simp add: text_tag_def)
  have size: "tag_size_read repository_byte_order 121 = 253755392"
    using sync_safe_parts [of 121] by (simp add: tag_size_read_def sync_val_def)
  have "parse_tags (Suc 0) repository_byte_order cached_file (\<lambda>_. True) (\<lambda>_. True)
      (PVID3ParCom (pv_open (replicate 4096 0) (text_tag [(lit ''TIT2'', s)] 10)) PV_ID3_CHARSET_ISO88591 [0, 0, 0, 0, 0] [] 0) = None"
    by (rule parse_tags_long_text [of _ _ "lit ''TIT2''" s "[]" 10 "[]"]) (use ok len s t size in simp_all)
  then show ?thesis by (simp only: s_def One_nat_def)
qed

end
