(* ===== verification/KvpUtil.thy ===== *)
theory KvpUtil
  imports Mime Id3Base CFloat
begin

text \<open>
  \<open>pvmi/pvmi_kvp_util.cpp\<close>: what a key says of its value (the parameters \<open>type\<close>, \<open>attr\<close> and \<open>valtype\<close>), and
  the construction of key-value pairs. A key is an array as in \<open>Mime\<close>, or null. The strings that the code
  builds on the stack fit their buffers.
\<close>

section \<open>Types\<close>

datatype kvp_type =
  PVMI_KVPTYPE_UNKNOWN | PVMI_KVPTYPE_VALUE | PVMI_KVPTYPE_POINTER | PVMI_KVPTYPE_AGGREGATE

datatype kvp_attr = PVMI_KVPATTR_UNKNOWN | PVMI_KVPATTR_CAP | PVMI_KVPATTR_DEF | PVMI_KVPATTR_CUR

datatype kvp_value_type =
  PVMI_KVPVALTYPE_UNKNOWN | PVMI_KVPVALTYPE_BOOL | PVMI_KVPVALTYPE_FLOAT | PVMI_KVPVALTYPE_DOUBLE
| PVMI_KVPVALTYPE_UINT8 | PVMI_KVPVALTYPE_INT32 | PVMI_KVPVALTYPE_UINT32 | PVMI_KVPVALTYPE_INT64
| PVMI_KVPVALTYPE_UINT64 | PVMI_KVPVALTYPE_WCHARPTR | PVMI_KVPVALTYPE_CHARPTR | PVMI_KVPVALTYPE_UINT8PTR
| PVMI_KVPVALTYPE_INT32PTR | PVMI_KVPVALTYPE_UINT32PTR | PVMI_KVPVALTYPE_INT64PTR | PVMI_KVPVALTYPE_UINT64PTR
| PVMI_KVPVALTYPE_FLOATPTR | PVMI_KVPVALTYPE_DOUBLEPTR | PVMI_KVPVALTYPE_KSV | PVMI_KVPVALTYPE_PKVP
| PVMI_KVPVALTYPE_PPKVP | PVMI_KVPVALTYPE_RANGE_FLOAT | PVMI_KVPVALTYPE_RANGE_DOUBLE
| PVMI_KVPVALTYPE_RANGE_UINT8 | PVMI_KVPVALTYPE_RANGE_INT32 | PVMI_KVPVALTYPE_RANGE_UINT32
| PVMI_KVPVALTYPE_RANGE_INT64 | PVMI_KVPVALTYPE_RANGE_UINT64 | PVMI_KVPVALTYPE_BITARRAY32
| PVMI_KVPVALTYPE_BITARRAY64

definition kvp_types :: "(u8 list \<times> kvp_type) list" where
  "kvp_types = List.map (\<lambda>(s, t). (lit s, t))
    [(''type=value'', PVMI_KVPTYPE_VALUE), (''type=pointer'', PVMI_KVPTYPE_POINTER),
     (''type=aggregate'', PVMI_KVPTYPE_AGGREGATE)]"

definition kvp_attrs :: "(u8 list \<times> kvp_attr) list" where
  "kvp_attrs = List.map (\<lambda>(s, t). (lit s, t))
    [(''attr=cap'', PVMI_KVPATTR_CAP), (''attr=def'', PVMI_KVPATTR_DEF), (''attr=cur'', PVMI_KVPATTR_CUR)]"

text \<open>The order of the tests; 64-bit integers are taken for 32-bit ones.\<close>

definition kvp_value_types :: "(u8 list \<times> kvp_value_type) list" where
  "kvp_value_types = List.map (\<lambda>(s, t). (lit (''valtype='' @ s), t))
    [(''bool'', PVMI_KVPVALTYPE_BOOL), (''float'', PVMI_KVPVALTYPE_FLOAT), (''double'', PVMI_KVPVALTYPE_DOUBLE),
     (''uint8'', PVMI_KVPVALTYPE_UINT8), (''int32'', PVMI_KVPVALTYPE_INT32), (''uint32'', PVMI_KVPVALTYPE_UINT32),
     (''int64'', PVMI_KVPVALTYPE_INT32), (''uint64'', PVMI_KVPVALTYPE_UINT32), (''wchar*'', PVMI_KVPVALTYPE_WCHARPTR),
     (''char*'', PVMI_KVPVALTYPE_CHARPTR), (''uint8*'', PVMI_KVPVALTYPE_UINT8PTR), (''int32*'', PVMI_KVPVALTYPE_INT32PTR),
     (''uint32*'', PVMI_KVPVALTYPE_UINT32PTR), (''int64*'', PVMI_KVPVALTYPE_INT64PTR),
     (''uint64*'', PVMI_KVPVALTYPE_UINT64PTR), (''float*'', PVMI_KVPVALTYPE_FLOATPTR),
     (''double*'', PVMI_KVPVALTYPE_DOUBLEPTR), (''ksv'', PVMI_KVPVALTYPE_KSV), (''pKvp'', PVMI_KVPVALTYPE_PKVP),
     (''ppKvp'', PVMI_KVPVALTYPE_PPKVP), (''range_float'', PVMI_KVPVALTYPE_RANGE_FLOAT),
     (''range_double'', PVMI_KVPVALTYPE_RANGE_DOUBLE), (''range_uint8'', PVMI_KVPVALTYPE_RANGE_UINT8),
     (''range_int32'', PVMI_KVPVALTYPE_RANGE_INT32), (''range_uint32'', PVMI_KVPVALTYPE_RANGE_UINT32),
     (''range_int64'', PVMI_KVPVALTYPE_RANGE_INT64), (''range_uint64'', PVMI_KVPVALTYPE_RANGE_UINT64),
     (''bitarray32'', PVMI_KVPVALTYPE_BITARRAY32), (''bitarray64'', PVMI_KVPVALTYPE_BITARRAY64)]"

text \<open>The tests one after the other.\<close>

fun first_param :: "u8 list \<Rightarrow> (u8 list \<times> 't) list \<Rightarrow> 't \<Rightarrow> 't option" where
  "first_param key [] unknown = Some unknown"
| "first_param key ((s, t) # ts) unknown = do {
     (_, n) \<leftarrow> pv_mime_string_parse_param (Some key) (s @ [0]);
     if n > 0 then Some t else first_param key ts unknown }"

definition GetTypeFromKeyString :: "u8 list option \<Rightarrow> kvp_type option" where
  "GetTypeFromKeyString aKeyString =
     (case aKeyString of None \<Rightarrow> Some PVMI_KVPTYPE_UNKNOWN | Some key \<Rightarrow> first_param key kvp_types PVMI_KVPTYPE_UNKNOWN)"

definition GetAttrTypeFromKeyString :: "u8 list option \<Rightarrow> kvp_attr option" where
  "GetAttrTypeFromKeyString aKeyString =
     (case aKeyString of None \<Rightarrow> Some PVMI_KVPATTR_UNKNOWN | Some key \<Rightarrow> first_param key kvp_attrs PVMI_KVPATTR_UNKNOWN)"

definition GetValTypeFromKeyString :: "u8 list option \<Rightarrow> kvp_value_type option" where
  "GetValTypeFromKeyString aKeyString =
     (case aKeyString of
        None \<Rightarrow> Some PVMI_KVPVALTYPE_UNKNOWN
      | Some key \<Rightarrow> first_param key kvp_value_types PVMI_KVPVALTYPE_UNKNOWN)"

section \<open>Creating pairs\<close>

text \<open>
  The pair that is created: its key, an array or null, its value, an array, null or a scalar, and its
  length and capacity.
\<close>

datatype created_value =
  CreatedNull | CreatedChars "u8 list" | CreatedWChars "u32 list" | CreatedBytes "u8 list" | CreatedUInt32 u32
| CreatedFloat rat | CreatedBool bool | CreatedKSV "nat option"

record created_kvp =
  created_key :: "u8 list option"
  created_value :: created_value
  created_length :: u32
  created_capacity :: u32

text \<open>
  The array of the key: \<open>room\<close> is the value type whose length sizes it. The elements of the new array are
  zeros here; only stored ones are read.
\<close>

definition make_key :: "u8 list \<Rightarrow> u8 list \<Rightarrow> u8 list \<Rightarrow> u8 list option \<Rightarrow> u8 list option" where
  "make_key aKeyTypeString room valtype aMiscKeyParam = do {
     n \<leftarrow> oscl_strlen aKeyTypeString;
     k \<leftarrow> (case aMiscKeyParam of Some misc \<Rightarrow> oscl_strlen misc | None \<Rightarrow> Some 0);
     let keylen = n + 1 + 8 + length room + 1 + k;
     cs \<leftarrow> oscl_strncpy aKeyTypeString (n + 1);
     key \<leftarrow> wr_all (replicate keylen 0) 0 cs;
     key \<leftarrow> oscl_strncat key [SEMICOLON, 0] 1;
     key \<leftarrow> oscl_strncat key (lit ''valtype='' @ [0]) 8;
     key \<leftarrow> oscl_strncat key (valtype @ [0]) (length valtype);
     key \<leftarrow> (case aMiscKeyParam of Some misc \<Rightarrow> oscl_strncat key misc k | None \<Rightarrow> Some key);
     wr key (keylen - 1) 0
   }"

text \<open>
  The value of a string: its array, if one is allocated, and \<open>valuelen\<close>. A string that is too long gets
  no array, also when it should be truncated: the length that is compared has already grown by one.
\<close>

definition string_value :: "'a::len word list \<Rightarrow> u32 \<Rightarrow> u32 \<Rightarrow> bool \<Rightarrow> ('a word list option \<times> u32) option" where
  "string_value aValString valuelen aMaxSize aTruncateFlag =
     (let valuelen = (if aTruncateFlag \<and> aMaxSize < valuelen then aMaxSize + 1 else valuelen)
      in if aMaxSize \<ge> valuelen then do {
           cs \<leftarrow> oscl_strncpy aValString (unat valuelen);
           v \<leftarrow> wr cs (unat valuelen - 1) 0;
           Some (Some v, valuelen)
         } else Some (None, valuelen))"

text \<open>The string object \<open>aValString\<close> is the list of its characters.\<close>

definition CreateKVPForWStringValue ::
  "created_kvp \<Rightarrow> u8 list option \<Rightarrow> u32 list \<Rightarrow> u8 list option \<Rightarrow> u32 \<Rightarrow> bool \<Rightarrow> (pvmf_status \<times> created_kvp) option" where
  "CreateKVPForWStringValue aKeyVal aKeyTypeString aValString aMiscKeyParam aMaxSize aTruncateFlag =
     (case aKeyTypeString of
        None \<Rightarrow> Some (PVMFErrArgument, aKeyVal)
      | Some type \<Rightarrow>
          if created_key aKeyVal \<noteq> None \<or> aValString = [] then Some (PVMFErrArgument, aKeyVal)
          else do {
            key \<leftarrow> make_key type (lit ''wchar*'') (lit ''wchar*'') aMiscKeyParam;
            (v, valuelen) \<leftarrow> string_value (aValString @ [0]) (word_of_nat (length aValString) + 1) aMaxSize aTruncateFlag;
            Some (PVMFSuccess, \<lparr>created_key = Some key, created_value = (case v of Some v \<Rightarrow> CreatedWChars v | None \<Rightarrow> CreatedNull),
              created_length = valuelen, created_capacity = valuelen\<rparr>) })"

definition CreateKVPForCharStringValue ::
  "created_kvp \<Rightarrow> u8 list option \<Rightarrow> u8 list \<Rightarrow> u8 list option \<Rightarrow> u32 \<Rightarrow> bool \<Rightarrow> (pvmf_status \<times> created_kvp) option" where
  "CreateKVPForCharStringValue aKeyVal aKeyTypeString aValString aMiscKeyParam aMaxSize aTruncateFlag =
     (case aKeyTypeString of
        None \<Rightarrow> Some (PVMFErrArgument, aKeyVal)
      | Some type \<Rightarrow>
          if created_key aKeyVal \<noteq> None then Some (PVMFErrArgument, aKeyVal)
          else do {
            key \<leftarrow> make_key type (lit ''char*'') (lit ''char*'') aMiscKeyParam;
            n \<leftarrow> oscl_strlen aValString;
            (v, valuelen) \<leftarrow> string_value aValString (word_of_nat n + 1) aMaxSize aTruncateFlag;
            Some (PVMFSuccess, \<lparr>created_key = Some key, created_value = (case v of Some v \<Rightarrow> CreatedChars v | None \<Rightarrow> CreatedNull),
              created_length = valuelen, created_capacity = valuelen\<rparr>) })"

definition CreateKVPForByteArrayValue ::
  "created_kvp \<Rightarrow> u8 list option \<Rightarrow> u8 list \<Rightarrow> u32 \<Rightarrow> u8 list option \<Rightarrow> (pvmf_status \<times> created_kvp) option" where
  "CreateKVPForByteArrayValue aKeyVal aKeyTypeString aValue aValueLen aMiscKeyParam =
     (case aKeyTypeString of
        None \<Rightarrow> Some (PVMFErrArgument, aKeyVal)
      | Some type \<Rightarrow>
          if created_key aKeyVal \<noteq> None \<or> aValueLen = 0 then Some (PVMFErrArgument, aKeyVal)
          else do {
            key \<leftarrow> make_key type (lit ''uint8*'') (lit ''uint8*'') aMiscKeyParam;
            if length aValue < unat aValueLen then None
            else Some (PVMFSuccess, \<lparr>created_key = Some key, created_value = CreatedBytes (take (unat aValueLen) aValue),
              created_length = aValueLen, created_capacity = aValueLen\<rparr>) })"

text \<open>A scalar of type \<open>valtype\<close>.\<close>

definition create_scalar ::
  "created_kvp \<Rightarrow> u8 list option \<Rightarrow> u8 list \<Rightarrow> created_value \<Rightarrow> u8 list option \<Rightarrow> (pvmf_status \<times> created_kvp) option" where
  "create_scalar aKeyVal aKeyTypeString valtype v aMiscKeyParam =
     (case aKeyTypeString of
        None \<Rightarrow> Some (PVMFErrArgument, aKeyVal)
      | Some type \<Rightarrow>
          if created_key aKeyVal \<noteq> None then Some (PVMFErrArgument, aKeyVal)
          else do {
            key \<leftarrow> make_key type valtype valtype aMiscKeyParam;
            Some (PVMFSuccess, \<lparr>created_key = Some key, created_value = v, created_length = 1, created_capacity = 1\<rparr>) })"

definition CreateKVPForUInt32Value ::
  "created_kvp \<Rightarrow> u8 list option \<Rightarrow> u32 \<Rightarrow> u8 list option \<Rightarrow> (pvmf_status \<times> created_kvp) option" where
  "CreateKVPForUInt32Value aKeyVal aKeyTypeString aValueUInt32 aMiscKeyParam =
     create_scalar aKeyVal aKeyTypeString (lit ''uint32'') (CreatedUInt32 aValueUInt32) aMiscKeyParam"

definition CreateKVPForFloatValue ::
  "created_kvp \<Rightarrow> u8 list option \<Rightarrow> rat \<Rightarrow> u8 list option \<Rightarrow> (pvmf_status \<times> created_kvp) option" where
  "CreateKVPForFloatValue aKeyVal aKeyTypeString aValueFloat aMiscKeyParam =
     create_scalar aKeyVal aKeyTypeString (lit ''float'') (CreatedFloat aValueFloat) aMiscKeyParam"

definition CreateKVPForBoolValue ::
  "created_kvp \<Rightarrow> u8 list option \<Rightarrow> bool \<Rightarrow> u8 list option \<Rightarrow> (pvmf_status \<times> created_kvp) option" where
  "CreateKVPForBoolValue aKeyVal aKeyTypeString aValueBool aMiscKeyParam =
     create_scalar aKeyVal aKeyTypeString (lit ''bool'') (CreatedBool aValueBool) aMiscKeyParam"

text \<open>A key-specific value, a pointer or null: the key has the room for \<open>uint8*\<close>, the length is not set.\<close>

definition CreateKVPForKSVValue ::
  "created_kvp \<Rightarrow> u8 list option \<Rightarrow> nat option \<Rightarrow> u8 list option \<Rightarrow> (pvmf_status \<times> created_kvp) option" where
  "CreateKVPForKSVValue aKeyVal aKeyTypeString aValue aMiscKeyParam =
     (case aKeyTypeString of
        None \<Rightarrow> Some (PVMFErrArgument, aKeyVal)
      | Some type \<Rightarrow>
          if created_key aKeyVal \<noteq> None then Some (PVMFErrArgument, aKeyVal)
          else do {
            key \<leftarrow> make_key type (lit ''uint8*'') (lit ''ksv'') aMiscKeyParam;
            Some (PVMFSuccess, aKeyVal\<lparr>created_key := Some key, created_value := CreatedKSV aValue\<rparr>) })"

section \<open>The parameters of a key\<close>

text \<open>The parameters behind the first semicolon.\<close>

fun params :: "u8 list \<Rightarrow> u8 list list" where
  "params [] = [[]]"
| "params (c # cs) = (if c = SEMICOLON then [] # params cs else (c # hd (params cs)) # tl (params cs))"

abbreviation lower :: "u8 list \<Rightarrow> u8 list" where
  "lower \<equiv> List.map oscl_tolower"

lemma params_nonempty [simp]: "params cs \<noteq> []"
  by (cases cs) auto

lemma params_segment: "SEMICOLON \<notin> set p \<Longrightarrow> params (p @ SEMICOLON # cs) = p # params cs"
  by (induction p) auto

lemma params_last: "SEMICOLON \<notin> set p \<Longrightarrow> params p = [p]"
  by (induction p) auto

lemma split_segment: obtains p r where "cs = p @ r" "SEMICOLON \<notin> set p" "r = [] \<or> (\<exists>r'. r = SEMICOLON # r')"
proof -
  have "cs = takeWhile (\<lambda>c. c \<noteq> SEMICOLON) cs @ dropWhile (\<lambda>c. c \<noteq> SEMICOLON) cs" by simp
  moreover have "SEMICOLON \<notin> set (takeWhile (\<lambda>c. c \<noteq> SEMICOLON) cs)" by (auto dest: set_takeWhileD)
  moreover have "dropWhile (\<lambda>c. c \<noteq> SEMICOLON) cs = [] \<or> (\<exists>r'. dropWhile (\<lambda>c. c \<noteq> SEMICOLON) cs = SEMICOLON # r')"
    by (cases "dropWhile (\<lambda>c. c \<noteq> SEMICOLON) cs") (auto simp: dropWhile_eq_Cons_conv)
  ultimately show thesis by (rule that)
qed

lemma tolower_0 [simp]: "oscl_tolower (0 :: u8) = 0"
  by (simp add: oscl_tolower_def word_le_nat_alt)

lemma CIstrcmp_strings:
  assumes "0 \<notin> set a" "0 \<notin> set b"
  shows "\<exists>d. oscl_CIstrcmp (a @ 0 # r) (b @ 0 # q) = Some d \<and> (d = 0 \<longleftrightarrow> lower a = lower b)"
  using assms
proof (induction a arbitrary: b)
  case Nil
  then show ?case by (cases b) auto
next
  case (Cons x a)
  show ?case
  proof (cases b)
    case Nil
    then show ?thesis using Cons.prems by auto
  next
    case (Cons y b')
    then show ?thesis using Cons.IH [of b'] Cons.prems by auto
  qed
qed

text \<open>One parameter is copied, with no quote in it.\<close>

lemma rd_prefix [simp]: "rd (xs @ c # ys) (length xs) = Some c"
  by (simp add: rd_def)

lemma param_copy_segment:
  assumes "{0, SEMICOLON, QUOTE} \<inter> set p = {}" "c = 0 \<or> c = SEMICOLON" "j + length p \<le> length temp"
  shows "param_copy (pre @ p @ c # r) (length pre) j False temp =
    Some (length pre + length p, j + length p, False, patch temp j p)"
  using assms(1,3)
proof (induction p arbitrary: pre j temp)
  case Nil
  then show ?case using assms(2) by (subst param_copy.simps) (auto simp: patch_def)
next
  case (Cons x p)
  obtain c' r' where nx: "p @ c # r = c' # r'" "c' \<noteq> QUOTE"
  proof (cases p)
    case Nil
    then show thesis using that [of c r] assms(2) by auto
  next
    case (Cons y p')
    then show thesis using that [of y "p' @ c # r"] Cons.prems by auto
  qed
  have rd': "rd (pre @ (x # p) @ c # r) (length pre + 1) = Some c'"
    using nx(1) by (simp add: rd_def nth_append)
  have IH: "param_copy ((pre @ [x]) @ p @ c # r) (length (pre @ [x])) (j + 1) False (temp[j := x]) =
      Some (length (pre @ [x]) + length p, j + 1 + length p, False, patch (temp[j := x]) (j + 1) p)"
    by (rule Cons.IH) (use Cons.prems in auto)
  have "patch (temp[j := x]) (j + 1) p = patch temp j (x # p)"
    using Cons.prems(2) by (simp add: patch_def take_Suc_conv_app_nth)
  then show ?case
    using IH Cons.prems rd' nx(2) by (subst param_copy.simps) (simp add: toggle_at_def wr_def)
qed

lemma parse_param_loop_finds:
  assumes "0 \<notin> set a" "a \<noteq> []" "{0, QUOTE} \<inter> set body = {}" "length body < length temp"
  shows "\<exists>p n. parse_param_loop (pre @ body @ 0 # r) (a @ [0]) (length pre) False temp = Some (p, n) \<and>
    (0 < n \<longleftrightarrow> lower a \<in> lower ` set (params body))"
  using assms(3,4)
proof (induction "length body" arbitrary: body pre temp rule: less_induct)
  case less
  obtain p rest where split: "body = p @ rest" "SEMICOLON \<notin> set p" "rest = [] \<or> (\<exists>b. rest = SEMICOLON # b)"
    by (rule split_segment)
  show ?case
  proof (cases "body = []")
    case True
    then show ?thesis using assms(2) by (subst parse_param_loop.simps) simp
  next
    case False
    obtain x xs where body: "body = x # xs" using False by (cases body) auto
    have x: "rd (pre @ body @ 0 # r) (length pre) = Some x" "x \<noteq> 0" "x \<noteq> QUOTE" using body less.prems by auto
    let ?m = "pre @ body @ 0 # r"
    obtain c b where c: "rest @ 0 # r = c # b" "c = 0 \<or> c = SEMICOLON" "c = 0 \<longleftrightarrow> rest = []"
      using split(3) by (cases rest) auto
    have m: "?m = pre @ p @ c # b" using split(1) c(1) by simp
    have room: "0 + length p \<le> length temp" "length p < length temp" using split(1) less.prems(2) by simp_all
    have clean: "{0, SEMICOLON, QUOTE} \<inter> set p = {}" using split(1,2) less.prems(1) by auto
    have copy: "param_copy ?m (length pre) 0 False temp = Some (length pre + length p, length p, False, patch temp 0 p)"
      using param_copy_segment [OF clean c(2) room(1), of pre b] unfolding m by simp
    define temp' where "temp' = (patch temp 0 p)[length p := 0]"
    have temp': "wr (patch temp 0 p) (length p) 0 = Some temp'" "length temp' = length temp"
      "\<exists>q. temp' = p @ 0 # q"
      using room by (auto simp: temp'_def wr_def patch_def list_update_append Cons_nth_drop_Suc [symmetric])
    then obtain q where q: "temp' = p @ 0 # q" by blast
    have "0 \<notin> set p" using clean by auto
    from CIstrcmp_strings [OF assms(1) this, of "[]" q] obtain d where d: "oscl_CIstrcmp (a @ [0]) temp' = Some d"
      "d = 0 \<longleftrightarrow> lower a = lower p" unfolding q by auto
    have strlen: "oscl_strlen (drop (length pre) ?m) = Some (length body)"
      using less.prems(1) by simp
    have rd': "rd ?m (length pre + length p) = Some c" unfolding m by (simp add: rd_def nth_append)
    have toggle: "toggle_at ?m (length pre) x False = Some False" using x(3) by (simp add: toggle_at_def)
    have step: "parse_param_loop ?m (a @ [0]) (length pre) False temp =
        (if lower a = lower p then Some (Some (length pre), length body)
         else if c = 0 then Some (None, 0)
         else parse_param_loop ?m (a @ [0]) (length pre + length p + 1) False temp')"
      using x copy temp'(1) d strlen rd' toggle by (subst parse_param_loop.simps) simp
    show ?thesis
    proof (cases "c = 0")
      case True
      then have "params body = [p]" using c(3) split(1,2) by (simp add: params_last)
      then show ?thesis using step True False by auto
    next
      case nz: False
      then obtain b' where b': "rest = SEMICOLON # b'" using c(3) split(3) by auto
      then have ps: "params body = p # params b'" using split(1,2) by (simp add: params_segment)
      have m': "?m = (pre @ p @ [SEMICOLON]) @ b' @ 0 # r" using split(1) b' by simp
      have "\<exists>k n. parse_param_loop ((pre @ p @ [SEMICOLON]) @ b' @ 0 # r) (a @ [0]) (length (pre @ p @ [SEMICOLON])) False temp' = Some (k, n) \<and>
          (0 < n \<longleftrightarrow> lower a \<in> lower ` set (params b'))"
        by (rule less.hyps) (use less.prems split(1) b' temp'(2) in auto)
      then have "\<exists>k n. parse_param_loop ?m (a @ [0]) (length pre + length p + 1) False temp' = Some (k, n) \<and>
          (0 < n \<longleftrightarrow> lower a \<in> lower ` set (params b'))" unfolding m' [symmetric] by simp
      then show ?thesis using step nz False ps by auto
    qed
  qed
qed

text \<open>A key with parameters; \<open>pv_mime_string_parse_param\<close> finds exactly those that are there, without case.\<close>

lemma parse_param_finds:
  assumes "0 \<notin> set t" "SEMICOLON \<notin> set t" "{0, QUOTE} \<inter> set body = {}" "0 \<notin> set a" "a \<noteq> []"
  shows "\<exists>p n. pv_mime_string_parse_param (Some (t @ SEMICOLON # body @ 0 # r)) (a @ [0]) = Some (p, n) \<and>
    (0 < n \<longleftrightarrow> lower a \<in> lower ` set (params body))"
proof -
  let ?m = "t @ SEMICOLON # body @ 0 # r"
  have len: "oscl_strlen ?m = Some (length t + 1 + length body)"
    using strlen_append [of "t @ SEMICOLON # body" r] assms(1,3) by simp
  have "type_end ?m = Some (length t)" by (rule type_end_append [OF assms(1,2)]) simp
  moreover have "\<exists>p n. parse_param_loop ((t @ [SEMICOLON]) @ body @ 0 # r) (a @ [0]) (length (t @ [SEMICOLON])) False
      (replicate (length t + 1 + length body) 0) = Some (p, n) \<and>
      (0 < n \<longleftrightarrow> lower a \<in> lower ` set (params body))"
    by (rule parse_param_loop_finds [OF assms(4,5,3)]) simp
  ultimately show ?thesis by (simp add: pv_mime_string_parse_param_def len)
qed

lemma first_param_find:
  assumes "0 \<notin> set t" "SEMICOLON \<notin> set t" "{0, QUOTE} \<inter> set body = {}" "list_all (\<lambda>(s, _). 0 \<notin> set s \<and> s \<noteq> []) ts"
  shows "first_param (t @ SEMICOLON # body @ 0 # r) ts unknown =
    Some (case find (\<lambda>(s, _). lower s \<in> lower ` set (params body)) ts of Some (_, v) \<Rightarrow> v | None \<Rightarrow> unknown)"
  using assms(4)
proof (induction ts)
  case (Cons x ts)
  obtain s v where x: "x = (s, v)" by (cases x)
  obtain p n where "pv_mime_string_parse_param (Some (t @ SEMICOLON # body @ 0 # r)) (s @ [0]) = Some (p, n)"
    "0 < n \<longleftrightarrow> lower s \<in> lower ` set (params body)"
    using parse_param_finds [OF assms(1-3), of s r] Cons.prems x by auto
  then show ?case using Cons x by auto
qed simp

section \<open>The keys that are created\<close>

lemma zbuf_terminator: "length xs < n \<Longrightarrow> zbuf n (xs @ [0]) = zbuf n xs"
  by (simp add: zbuf_def flip: replicate_Suc)

lemma zbuf_last: "length xs < n \<Longrightarrow> wr (zbuf n xs) (n - 1) 0 = Some (zbuf n xs)"
  by (auto simp: wr_def zbuf_def nth_append list_update_same_conv)

text \<open>The string that a key is.\<close>

definition key_string :: "u8 list \<Rightarrow> u8 list \<Rightarrow> u8 list option \<Rightarrow> u8 list" where
  "key_string k valtype misc = k @ SEMICOLON # lit ''valtype='' @ valtype @ (case misc of Some m \<Rightarrow> m | None \<Rightarrow> [])"

lemma make_key_string:
  assumes "0 \<notin> set k" "0 \<notin> set vt" "case misc of Some m \<Rightarrow> 0 \<notin> set m | None \<Rightarrow> True" "length vt \<le> length room"
  shows "make_key (k @ [0]) room vt (map_option (\<lambda>m. m @ [0]) misc) =
    Some (key_string k vt misc @ 0 # replicate (length room - length vt) 0)"
proof -
  define m where "m = (case misc of Some m \<Rightarrow> m | None \<Rightarrow> [])"
  define n where "n = length k + 1 + 8 + length room + 1 + length m"
  let ?v = "lit ''valtype=''"
  have m: "0 \<notin> set m" using assms(3) by (auto simp: m_def split: option.splits)
  have v: "0 \<notin> set ?v" "length ?v = 8" by simp_all
  have copy: "oscl_strncpy (k @ [0]) (length k + 1) = Some (k @ [0])"
    using strncpy_take [of k "length k" "[0]"] assms(1) by (induction k) auto
  have start: "wr_all (replicate n 0) 0 (k @ [0]) = Some (zbuf n k)"
    using zbuf_start [of "k @ [0]" n] zbuf_terminator [of k n] by (simp add: n_def)
  have cat1: "oscl_strncat (zbuf n k) [SEMICOLON, 0] 1 = Some (zbuf n (k @ [SEMICOLON]))"
    using zbuf_strncat [of k "[SEMICOLON]" n "[0]"] assms(1) by (simp add: n_def)
  have cat2: "oscl_strncat (zbuf n (k @ [SEMICOLON])) (?v @ [0]) 8 = Some (zbuf n ((k @ [SEMICOLON]) @ ?v))"
  proof -
    have "oscl_strncat (zbuf n (k @ [SEMICOLON])) (w @ [0]) 8 = Some (zbuf n ((k @ [SEMICOLON]) @ w))" if "0 \<notin> set w" "length w = 8" for w
      using zbuf_strncat [of "k @ [SEMICOLON]" w n "[0]"] assms(1) that by (simp add: n_def)
    from this [OF v] show ?thesis .
  qed
  have cat3: "oscl_strncat (zbuf n ((k @ [SEMICOLON]) @ ?v)) (vt @ [0]) (length vt) = Some (zbuf n (((k @ [SEMICOLON]) @ ?v) @ vt))"
    by (rule zbuf_strncat) (use assms v in \<open>simp_all add: n_def\<close>)
  let ?x = "((k @ [SEMICOLON]) @ ?v) @ vt"
  have cat4: "(case map_option (\<lambda>m. m @ [0]) misc of Some misc \<Rightarrow> oscl_strncat (zbuf n ?x) misc (length m) | None \<Rightarrow> Some (zbuf n ?x)) =
      Some (zbuf n (?x @ m))"
    using zbuf_strncat [of ?x m n "[0]"] assms v m by (auto simp: m_def n_def split: option.splits)
  have len: "length (?x @ m) < n" "length (?x @ m) = length k + 1 + 8 + length vt + length m" using assms(4) v by (simp_all add: n_def)
  have k: "(case map_option (\<lambda>m. m @ [0]) misc of Some misc \<Rightarrow> oscl_strlen misc | None \<Rightarrow> Some 0) = Some (length m)"
    using m by (auto simp: m_def split: option.splits)
  have "make_key (k @ [0]) room vt (map_option (\<lambda>m. m @ [0]) misc) = Some (zbuf n (?x @ m))"
    unfolding make_key_def
    by (simp only: strlen_append [OF assms(1)] k bind.bind_lunit Let_def n_def [symmetric] copy start cat1 cat2 cat3 cat4
        zbuf_last [OF len(1)])
  moreover have "n - length (?x @ m) = Suc (length room - length vt)" unfolding len(2) using assms(4) by (simp add: n_def)
  ultimately show ?thesis by (simp add: zbuf_def key_string_def m_def)
qed

text \<open>Further parameters say nothing of the value type.\<close>

definition misc_ok :: "u8 list option \<Rightarrow> bool" where
  "misc_ok misc \<longleftrightarrow> (case misc of
     None \<Rightarrow> True
   | Some m \<Rightarrow> (\<exists>ps. m = SEMICOLON # ps \<and> {0, QUOTE} \<inter> set ps = {} \<and>
       (\<forall>(s, _) \<in> set kvp_value_types. lower s \<notin> lower ` set (params ps))))"

definition created_types :: "u8 list list" where
  "created_types = List.map lit [''wchar*'', ''char*'', ''uint8*'', ''uint32'', ''float'', ''bool'', ''ksv'']"

lemma created_types_clean: "vt \<in> set created_types \<Longrightarrow> {0, SEMICOLON, QUOTE} \<inter> set (lit ''valtype='' @ vt) = {}"
  by (auto simp: created_types_def)

lemma value_types_clean: "list_all (\<lambda>(s, _). 0 \<notin> set s \<and> s \<noteq> []) kvp_value_types"
  by (simp add: kvp_value_types_def)

lemma value_type_of_key:
  assumes "0 \<notin> set k" "SEMICOLON \<notin> set k" "vt \<in> set created_types" "misc_ok misc"
  shows "GetValTypeFromKeyString (Some (key_string k vt misc @ 0 # r)) =
    Some (case find (\<lambda>(s, _). lower s = lower (lit ''valtype='' @ vt)) kvp_value_types of
      Some (_, t) \<Rightarrow> t | None \<Rightarrow> PVMI_KVPVALTYPE_UNKNOWN)"
proof -
  let ?p = "lit ''valtype='' @ vt"
  define body where "body = ?p @ (case misc of Some m \<Rightarrow> m | None \<Rightarrow> [])"
  note p = created_types_clean [OF assms(3)]
  have ps: "\<exists>ps. params body = ?p # ps \<and> (\<forall>(s, _) \<in> set kvp_value_types. lower s \<notin> lower ` set ps)"
  proof (cases misc)
    case None
    then show ?thesis using p params_last [of ?p] by (auto simp: body_def)
  next
    case (Some m)
    then obtain ps where "m = SEMICOLON # ps" "\<forall>(s, _) \<in> set kvp_value_types. lower s \<notin> lower ` set (params ps)"
      using assms(4) by (auto simp: misc_ok_def)
    then show ?thesis using Some p params_segment [of ?p ps] by (auto simp: body_def)
  qed
  then obtain ps where ps: "params body = ?p # ps" "\<forall>(s, _) \<in> set kvp_value_types. lower s \<notin> lower ` set ps" by blast
  have "{0, QUOTE} \<inter> set body = {}"
    using p assms(4) by (auto simp: body_def misc_ok_def split: option.splits)
  from first_param_find [OF assms(1,2) this value_types_clean, of r PVMI_KVPVALTYPE_UNKNOWN]
  have "GetValTypeFromKeyString (Some (key_string k vt misc @ 0 # r)) =
    Some (case find (\<lambda>(s, _). lower s \<in> lower ` set (?p # ps)) kvp_value_types of
      Some (_, t) \<Rightarrow> t | None \<Rightarrow> PVMI_KVPVALTYPE_UNKNOWN)"
    unfolding ps(1) by (simp add: GetValTypeFromKeyString_def key_string_def body_def)
  moreover have "find (\<lambda>(s, _). lower s \<in> lower ` set (?p # ps)) kvp_value_types = find (\<lambda>(s, _). lower s = lower ?p) kvp_value_types"
    by (rule find_cong [OF refl]) (use ps(2) in auto)
  ultimately show ?thesis by simp
qed

section \<open>What is created\<close>

text \<open>A call gives a pair with this value, whose key says this type.\<close>

definition creates :: "(pvmf_status \<times> created_kvp) option \<Rightarrow> kvp_value_type \<Rightarrow> created_value \<Rightarrow> bool" where
  "creates r t v \<longleftrightarrow> (\<exists>K. r = Some (PVMFSuccess, K) \<and> GetValTypeFromKeyString (created_key K) = Some t \<and> created_value K = v)"

lemma string_value_plain:
  assumes "plain_string s" "length s + 1 < 4294967296"
  obtains n where "string_value (s @ [0]) (word_of_nat (length s) + 1) aMaxSize f =
    Some (if length s + 1 \<le> unat aMaxSize then Some (s @ [0]) else None, n)"
proof -
  have n: "unat (word_of_nat (length s) + 1 :: u32) = length s + 1"
    using assms(2) by (simp add: unat_word_ariths unat_of_nat_small)
  have copy: "oscl_strncpy (s @ [0]) (length s + 1) = Some (s @ [0])" using assms(1) by (induction s) auto
  show thesis
  proof (cases "length s + 1 \<le> unat aMaxSize")
    case True
    then have "\<not> aMaxSize < word_of_nat (length s) + 1" using n by (simp add: word_less_nat_alt)
    then show ?thesis using that True n copy
      by (simp add: string_value_def Let_def word_le_nat_alt wr_def list_update_append)
  next
    case False
    then have "unat (aMaxSize + 1) = unat aMaxSize + 1" using assms(2) by (simp add: unat_word_ariths)
    then have "\<not> (if f \<and> aMaxSize < word_of_nat (length s) + 1 then aMaxSize + 1 else word_of_nat (length s) + 1) \<le> aMaxSize"
      using n False by (simp add: word_le_nat_alt)
    then have "string_value (s @ [0]) (word_of_nat (length s) + 1) aMaxSize f =
        Some (None, if f \<and> aMaxSize < word_of_nat (length s) + 1 then aMaxSize + 1 else word_of_nat (length s) + 1)"
      by (simp only: string_value_def Let_def if_False)
    then show ?thesis using that False by simp
  qed
qed

lemma created_value_type:
  assumes "0 \<notin> set k" "SEMICOLON \<notin> set k" "misc_ok misc" "vt \<in> set created_types" "length vt \<le> length room"
    and "find (\<lambda>(s, _). lower s = lower (lit ''valtype='' @ vt)) kvp_value_types = Some (s, t)"
  obtains key where "make_key (k @ [0]) room vt (map_option (\<lambda>m. m @ [0]) misc) = Some key"
    "GetValTypeFromKeyString (Some key) = Some t"
proof -
  have "0 \<notin> set vt" "case misc of Some m \<Rightarrow> 0 \<notin> set m | None \<Rightarrow> True"
    using created_types_clean [OF assms(4)] assms(3) by (auto simp: misc_ok_def split: option.splits)
  then show thesis
    using that make_key_string [OF assms(1) _ _ assms(5)] value_type_of_key [OF assms(1,2,4,3)] assms(6) by auto
qed

text \<open>
  C38. What the functions that create pairs write into a key, \<open>GetValTypeFromKeyString\<close> reads back: for a key
  without parameters of its own, and further parameters that say nothing of the type, each function
  gives its type and its value. A string that does not fit its maximum gets no value, also when it is
  to be truncated.
\<close>

theorem created_pairs_typed:
  assumes "0 \<notin> set k" "SEMICOLON \<notin> set k" "misc_ok misc" "created_key K = None" "misc' = map_option (\<lambda>m. m @ [0]) misc"
    and "plain_string s" "length s + 1 < 4294967296" "plain_string w" "w \<noteq> []" "length w + 1 < 4294967296" "bs \<noteq> []" "length bs < 4294967296"
  shows "creates (CreateKVPForCharStringValue K (Some (k @ [0])) (s @ [0]) misc' maxlen f) PVMI_KVPVALTYPE_CHARPTR
      (if length s + 1 \<le> unat maxlen then CreatedChars (s @ [0]) else CreatedNull) \<and>
    creates (CreateKVPForWStringValue K (Some (k @ [0])) w misc' maxlen f) PVMI_KVPVALTYPE_WCHARPTR
      (if length w + 1 \<le> unat maxlen then CreatedWChars (w @ [0]) else CreatedNull) \<and>
    creates (CreateKVPForByteArrayValue K (Some (k @ [0])) bs (word_of_nat (length bs)) misc') PVMI_KVPVALTYPE_UINT8PTR (CreatedBytes bs) \<and>
    creates (CreateKVPForUInt32Value K (Some (k @ [0])) n misc') PVMI_KVPVALTYPE_UINT32 (CreatedUInt32 n) \<and>
    creates (CreateKVPForFloatValue K (Some (k @ [0])) x misc') PVMI_KVPVALTYPE_FLOAT (CreatedFloat x) \<and>
    creates (CreateKVPForBoolValue K (Some (k @ [0])) b misc') PVMI_KVPVALTYPE_BOOL (CreatedBool b) \<and>
    creates (CreateKVPForKSVValue K (Some (k @ [0])) v misc') PVMI_KVPVALTYPE_KSV (CreatedKSV v)"
proof -
  note key = created_value_type [OF assms(1-3), folded assms(5)]
  note [simp] = created_types_def kvp_value_types_def assms(4) creates_def oscl_tolower_def word_le_nat_alt
  obtain c where c: "make_key (k @ [0]) (lit ''char*'') (lit ''char*'') misc' = Some c"
    "GetValTypeFromKeyString (Some c) = Some PVMI_KVPVALTYPE_CHARPTR" by (rule key [of "lit ''char*''" "lit ''char*''"]) simp_all
  obtain w' where w': "make_key (k @ [0]) (lit ''wchar*'') (lit ''wchar*'') misc' = Some w'"
    "GetValTypeFromKeyString (Some w') = Some PVMI_KVPVALTYPE_WCHARPTR" by (rule key [of "lit ''wchar*''" "lit ''wchar*''"]) simp_all
  obtain u where u: "make_key (k @ [0]) (lit ''uint8*'') (lit ''uint8*'') misc' = Some u"
    "GetValTypeFromKeyString (Some u) = Some PVMI_KVPVALTYPE_UINT8PTR" by (rule key [of "lit ''uint8*''" "lit ''uint8*''"]) simp_all
  obtain i where i: "make_key (k @ [0]) (lit ''uint32'') (lit ''uint32'') misc' = Some i"
    "GetValTypeFromKeyString (Some i) = Some PVMI_KVPVALTYPE_UINT32" by (rule key [of "lit ''uint32''" "lit ''uint32''"]) simp_all
  obtain f' where f': "make_key (k @ [0]) (lit ''float'') (lit ''float'') misc' = Some f'"
    "GetValTypeFromKeyString (Some f') = Some PVMI_KVPVALTYPE_FLOAT" by (rule key [of "lit ''float''" "lit ''float''"]) simp_all
  obtain b' where b': "make_key (k @ [0]) (lit ''bool'') (lit ''bool'') misc' = Some b'"
    "GetValTypeFromKeyString (Some b') = Some PVMI_KVPVALTYPE_BOOL" by (rule key [of "lit ''bool''" "lit ''bool''"]) simp_all
  obtain z where z: "make_key (k @ [0]) (lit ''uint8*'') (lit ''ksv'') misc' = Some z"
    "GetValTypeFromKeyString (Some z) = Some PVMI_KVPVALTYPE_KSV" by (rule key [of "lit ''ksv''" "lit ''uint8*''"]) simp_all
  obtain m1 where m1: "string_value (s @ [0]) (word_of_nat (length s) + 1) maxlen f =
      Some (if length s + 1 \<le> unat maxlen then Some (s @ [0]) else None, m1)" by (rule string_value_plain [OF assms(6,7)])
  obtain m2 where m2: "string_value (w @ [0]) (word_of_nat (length w) + 1) maxlen f =
      Some (if length w + 1 \<le> unat maxlen then Some (w @ [0]) else None, m2)" by (rule string_value_plain [OF assms(8,10)])
  have len: "oscl_strlen (s @ [0]) = Some (length s)" by (rule strlen_string [OF assms(6)])
  have "creates (CreateKVPForCharStringValue K (Some (k @ [0])) (s @ [0]) misc' maxlen f) PVMI_KVPVALTYPE_CHARPTR
      (if length s + 1 \<le> unat maxlen then CreatedChars (s @ [0]) else CreatedNull)"
    unfolding CreateKVPForCharStringValue_def option.case c(1) bind.bind_lunit len m1 using c(2) by simp
  moreover have "creates (CreateKVPForWStringValue K (Some (k @ [0])) w misc' maxlen f) PVMI_KVPVALTYPE_WCHARPTR
      (if length w + 1 \<le> unat maxlen then CreatedWChars (w @ [0]) else CreatedNull)"
    unfolding CreateKVPForWStringValue_def option.case w'(1) bind.bind_lunit m2 using w'(2) assms(9) by simp
  moreover have "creates (CreateKVPForByteArrayValue K (Some (k @ [0])) bs (word_of_nat (length bs)) misc') PVMI_KVPVALTYPE_UINT8PTR (CreatedBytes bs)"
  proof -
    have "unat (word_of_nat (length bs) :: u32) = length bs" using assms(12) by (simp add: unat_of_nat_small)
    then show ?thesis
      unfolding CreateKVPForByteArrayValue_def option.case u(1) bind.bind_lunit using u(2) assms(11)
      by (auto simp: word_unat_eq_iff)
  qed
  moreover have "creates (CreateKVPForUInt32Value K (Some (k @ [0])) n misc') PVMI_KVPVALTYPE_UINT32 (CreatedUInt32 n)"
    unfolding CreateKVPForUInt32Value_def create_scalar_def option.case i(1) using i(2) by simp
  moreover have "creates (CreateKVPForFloatValue K (Some (k @ [0])) x misc') PVMI_KVPVALTYPE_FLOAT (CreatedFloat x)"
    unfolding CreateKVPForFloatValue_def create_scalar_def option.case f'(1) using f'(2) by simp
  moreover have "creates (CreateKVPForBoolValue K (Some (k @ [0])) b misc') PVMI_KVPVALTYPE_BOOL (CreatedBool b)"
    unfolding CreateKVPForBoolValue_def create_scalar_def option.case b'(1) using b'(2) by simp
  moreover have "creates (CreateKVPForKSVValue K (Some (k @ [0])) v misc') PVMI_KVPVALTYPE_KSV (CreatedKSV v)"
    unfolding CreateKVPForKSVValue_def option.case z(1) using z(2) by simp
  ultimately show ?thesis by blast
qed

theorem created_pairs_typed_witness:
  "\<exists>K. CreateKVPForCharStringValue \<lparr>created_key = None, created_value = CreatedNull, created_length = 0, created_capacity = 0\<rparr>
      (Some (lit ''title'' @ [0])) (lit ''Song'' @ [0]) (Some (lit '';char-encoding=UTF8'' @ [0])) 10 True = Some (PVMFSuccess, K) \<and>
    GetValTypeFromKeyString (created_key K) = Some PVMI_KVPVALTYPE_CHARPTR \<and> created_value K = CreatedChars (lit ''Song'' @ [0])"
proof -
  have ps: "params (lit ''char-encoding=UTF8'') = [lit ''char-encoding=UTF8'']" by (rule params_last) simp
  have misc: "misc_ok (Some (lit '';char-encoding=UTF8''))"
    unfolding misc_ok_def option.case
  proof (intro exI conjI)
    show "lit '';char-encoding=UTF8'' = SEMICOLON # lit ''char-encoding=UTF8''" "{0, QUOTE} \<inter> set (lit ''char-encoding=UTF8'') = {}"
      by simp_all
    have "list_all (\<lambda>(s, _). lower s \<noteq> lower (lit ''char-encoding=UTF8'')) kvp_value_types" by code_simp
    then show "\<forall>(s, _) \<in> set kvp_value_types. lower s \<notin> lower ` set (params (lit ''char-encoding=UTF8''))"
      unfolding ps by (auto simp: list_all_iff)
  qed
  show ?thesis
    using created_pairs_typed [OF _ _ misc _ refl, of "lit ''title''" "\<lparr>created_key = None, created_value = CreatedNull, created_length = 0, created_capacity = 0\<rparr>"
        "lit ''Song''" "[1]" "[1]" 10 True]
    by (simp add: creates_def)
qed

end
