(* ===== verification/Id3Compose.thy ===== *)
theory Id3Compose
  imports Id3Lookup KvpUtil
begin

text \<open>
  Writing an ID3 tag of version 2 (\<open>pvmi/pv_id3_parcom.cpp\<close>): setting the version, setting a frame by its key, and
  composing the tag from the frames. A memory fragment is its buffer and the length in use. \<open>None\<close> is an access outside a
  buffer, or a read of a pointer that is null or was not stored.
\<close>

section \<open>The frame of a key\<close>

text \<open>The keys in the order of the tests; the flag says that a prefix counts as well.\<close>

definition compose_ids_2_2 :: "(u8 list \<times> bool \<times> u8 list \<times> id3_frame) list" where
  "compose_ids_2_2 = List.map (\<lambda>(k, p, i, t). (lit k, p, lit i, t))
    [(''title'', False, ''TT2'', PV_ID3_FRAME_TITLE), (''artist'', False, ''TP1'', PV_ID3_FRAME_ARTIST),
     (''set'', False, ''TPA'', PV_ID3_FRAME_PART_OF_SET), (''album'', False, ''TAL'', PV_ID3_FRAME_ALBUM),
     (''track-info/track-number'', False, ''TRK'', PV_ID3_FRAME_TRACK_NUMBER), (''genre'', False, ''TCO'', PV_ID3_FRAME_GENRE),
     (''year'', False, ''TYE'', PV_ID3_FRAME_YEAR), (''copyright'', False, ''TCR'', PV_ID3_FRAME_COPYRIGHT),
     (''comment'', False, ''COM'', PV_ID3_FRAME_COMMENT), (''duration-from-metadata'', False, ''TLE'', PV_ID3_FRAME_TRACK_LENGTH),
     (''date'', False, ''TDA'', PV_ID3_FRAME_DATE), (''graphic'', False, ''PIC'', PV_ID3_FRAME_PIC),
     (''lyrics'', False, ''ULT'', PV_ID3_FRAME_LYRICS), (''author'', False, ''TXT'', PV_ID3_FRAME_AUTHOR),
     (''composer'', False, ''TCM'', PV_ID3_FRAME_COMPOSER), (''description'', True, ''TT3'', PV_ID3_FRAME_DESCRIPTION),
     (''version'', False, ''TEN'', PV_ID3_FRAME_VERSION)]"

definition compose_ids :: "(u8 list \<times> bool \<times> u8 list \<times> id3_frame) list" where
  "compose_ids = List.map (\<lambda>(k, i, t). (lit k, False, lit i, t))
    [(''title'', ''TIT2'', PV_ID3_FRAME_TITLE), (''artist'', ''TPE1'', PV_ID3_FRAME_ARTIST),
     (''set'', ''TPOS'', PV_ID3_FRAME_PART_OF_SET), (''album'', ''TALB'', PV_ID3_FRAME_ALBUM),
     (''track-info/track-number'', ''TRCK'', PV_ID3_FRAME_TRACK_NUMBER), (''genre'', ''TCON'', PV_ID3_FRAME_GENRE),
     (''year'', ''TYER'', PV_ID3_FRAME_YEAR), (''copyright'', ''TCOP'', PV_ID3_FRAME_COPYRIGHT),
     (''comment'', ''COMM'', PV_ID3_FRAME_COMMENT), (''duration-from-metadata'', ''TLEN'', PV_ID3_FRAME_TRACK_LENGTH),
     (''year'', ''TDRC'', PV_ID3_FRAME_RECORDING_TIME), (''author'', ''TEXT'', PV_ID3_FRAME_AUTHOR),
     (''composer'', ''TCOM'', PV_ID3_FRAME_COMPOSER), (''description'', ''TIT3'', PV_ID3_FRAME_DESCRIPTION),
     (''version'', ''TENC'', PV_ID3_FRAME_VERSION), (''date'', ''TDAT'', PV_ID3_FRAME_DATE),
     (''lyrics'', ''USLT'', PV_ID3_FRAME_LYRICS), (''graphic'', ''APIC'', PV_ID3_FRAME_APIC)]"

fun first_key :: "u8 list \<Rightarrow> (u8 list \<times> bool \<times> 'b) list \<Rightarrow> 'b option option" where
  "first_key key [] = Some None"
| "first_key key ((k, p, x) # ks) = do {
     d \<leftarrow> pv_mime_strcmp (Some (key @ [0])) (Some (k @ [0]));
     if d = 0 \<or> p \<and> d > 0 then Some (Some x) else first_key key ks }"

text \<open>\<open>GetFrameTypeFromKvp\<close>: its status, and the identifier and the type when they are assigned.\<close>

definition GetFrameTypeFromKvp :: "id3_version \<Rightarrow> kvp \<Rightarrow> (pvmf_status \<times> (u8 list \<times> id3_frame) option) option" where
  "GetFrameTypeFromKvp v aKvp = do {
     r \<leftarrow> first_key (kvp_key aKvp) (if v = PV_ID3_V2_2 then compose_ids_2_2 else compose_ids);
     Some (if r = None then PVMFErrNotSupported else PVMFSuccess, r) }"

definition GetKvpValueType :: "kvp \<Rightarrow> (pvmf_status \<times> kvp_value_type \<times> id3_charset) option" where
  "GetKvpValueType aKvp = do {
     let key = kvp_key aKvp @ [0];
     t \<leftarrow> GetValTypeFromKeyString (Some key);
     case t of
       PVMI_KVPVALTYPE_CHARPTR \<Rightarrow> do {
         (_, n) \<leftarrow> pv_mime_string_parse_param (Some key) (lit ''char-encoding=UTF8'' @ [0]);
         Some (PVMFSuccess, t, if n > 0 then PV_ID3_CHARSET_UTF8 else PV_ID3_CHARSET_ISO88591) }
     | PVMI_KVPVALTYPE_WCHARPTR \<Rightarrow> do {
         (_, n) \<leftarrow> pv_mime_string_parse_param (Some key) (lit ''char-encoding=UTF16BE'' @ [0]);
         Some (PVMFSuccess, t, if n > 0 then PV_ID3_CHARSET_UTF16BE else PV_ID3_CHARSET_UTF16) }
     | PVMI_KVPVALTYPE_UNKNOWN \<Rightarrow> Some (PVMFFailure, t, PV_ID3_CHARSET_INVALID)
     | _ \<Rightarrow> Some (PVMFSuccess, t, PV_ID3_CHARSET_INVALID) }"

definition SetID3Version :: "id3_version \<Rightarrow> 'f id3 \<Rightarrow> pvmf_status \<times> 'f id3" where
  "SetID3Version aVersion s = (PVMFSuccess, s\<lparr>iVersion := aVersion\<rparr>)"

section \<open>Setting a frame\<close>

text \<open>The index of the first frame of the type, or the error of a frame whose key is not supported.\<close>

fun find_frame :: "id3_version \<Rightarrow> id3_frame \<Rightarrow> nat \<Rightarrow> kvp list \<Rightarrow> (pvmf_status + nat option) option" where
  "find_frame v newFrameType i [] = Some (Inr None)"
| "find_frame v newFrameType i (k # ks) = do {
     (status, r) \<leftarrow> GetFrameTypeFromKvp v k;
     case r of
       None \<Rightarrow> Some (Inl status)
     | Some (_, existingFrameType) \<Rightarrow>
         if existingFrameType = newFrameType then Some (Inr (Some i)) else find_frame v newFrameType (i + 1) ks }"

text \<open>The pair for a copy of the value: a status, or the pair.\<close>

definition copy_pair :: "(u32 \<Rightarrow> bool) \<Rightarrow> u8 list \<Rightarrow> kvp_value_type \<Rightarrow> kvp_value \<Rightarrow> (pvmf_status + kvp) option" where
  "copy_pair heap key t v = do {
     r \<leftarrow> (case t of
         PVMI_KVPVALTYPE_CHARPTR \<Rightarrow> (case v of
           CharValue cs \<Rightarrow> do { n \<leftarrow> oscl_strlen cs; Some (Some (CharKind, word_of_nat n + 1)) } | _ \<Rightarrow> None)
       | PVMI_KVPVALTYPE_WCHARPTR \<Rightarrow> (case v of
           WCharValue cs \<Rightarrow> do { n \<leftarrow> oscl_strlen cs; Some (Some (WCharKind, (word_of_nat n + 2) * 4)) } | _ \<Rightarrow> None)
       | PVMI_KVPVALTYPE_KSV \<Rightarrow> Some (Some (KsvKind, 0))
       | PVMI_KVPVALTYPE_UINT32 \<Rightarrow> Some (Some (Uint32Kind, 0))
       | _ \<Rightarrow> Some None);
     case r of
       None \<Rightarrow> Some (Inl PVMFErrNotSupported)
     | Some (kind, valueSize) \<Rightarrow>
         (case AllocateKvp heap key kind valueSize False of
            None \<Rightarrow> Some (Inl PVMFErrNoMemory)
          | Some (kvp, truncated) \<Rightarrow>
              if truncated then Some (Inl PVMFErrNoMemory)
              else (case (kind, v, kvp_value kvp) of
                  (CharKind, CharValue cs, CharValue d) \<Rightarrow> do {
                    n \<leftarrow> oscl_strlen cs;
                    d \<leftarrow> wr_all d 0 (take n cs @ [0]);
                    Some (Inr (kvp\<lparr>kvp_value := CharValue d\<rparr>)) }
                | (WCharKind, WCharValue cs, WCharValue d) \<Rightarrow> do {
                    n \<leftarrow> oscl_strlen cs;
                    if length d \<le> n then None else Some (Inr (kvp\<lparr>kvp_value := WCharValue (patch d 0 (take n cs @ [0]))\<rparr>)) }
                | (Uint32Kind, Uint32Value n, _) \<Rightarrow> Some (Inr (kvp\<lparr>kvp_value := Uint32Value n\<rparr>))
                | (Uint32Kind, NoValue, _) \<Rightarrow> Some (Inr (kvp\<lparr>kvp_value := Uint32Value 0\<rparr>))
                | (KsvKind, _, _) \<Rightarrow> Some (Inl PVMFErrNotSupported)
                | _ \<Rightarrow> None)) }"

text \<open>
  \<open>SetID3Frame\<close>: the frame of the same type is erased before the new one is made, and stays erased when
  that fails. The key is cut to the 128 characters of the stack string.
\<close>

definition SetID3Frame :: "(u32 \<Rightarrow> bool) \<Rightarrow> kvp \<Rightarrow> 'f id3 \<Rightarrow> (pvmf_status \<times> 'f id3) option" where
  "SetID3Frame heap aFrame s = do {
     (status, r) \<leftarrow> GetFrameTypeFromKvp (iVersion s) aFrame;
     case r of
       None \<Rightarrow> Some (status, s)
     | Some (_, newFrameType) \<Rightarrow> do {
         q \<leftarrow> find_frame (iVersion s) newFrameType 0 (iFrames s);
         case q of
           Inl status \<Rightarrow> Some (status, s)
         | Inr found \<Rightarrow> do {
             let s = (case found of Some i \<Rightarrow> s\<lparr>iFrames := take i (iFrames s) @ drop (i + 1) (iFrames s)\<rparr> | None \<Rightarrow> s);
             t \<leftarrow> GetValTypeFromKeyString (Some (kvp_key aFrame @ [0]));
             p \<leftarrow> copy_pair heap (take 128 (kvp_key aFrame)) t (kvp_value aFrame);
             Some (case p of Inl status \<Rightarrow> (status, s) | Inr kvp \<Rightarrow> (PVMFSuccess, push_frame kvp s)) } } }"

section \<open>Composing\<close>

text \<open>The decimal digits of a value, one at least but for 0.\<close>

fun digit_count :: "nat \<Rightarrow> nat" where
  "digit_count n = (if n = 0 then 0 else Suc (digit_count (n div 10)))"

declare digit_count.simps [simp del]

definition GetID3v2FrameDataSize :: "kvp_value \<Rightarrow> kvp_value_type \<Rightarrow> id3_charset \<Rightarrow> (pvmf_status \<times> u32) option" where
  "GetID3v2FrameDataSize v aValueType aCharSet =
     (let bom = (if aCharSet = PV_ID3_CHARSET_UTF16 then 1 else 0)
      in case aValueType of
        PVMI_KVPVALTYPE_CHARPTR \<Rightarrow> (case v of
          CharValue cs \<Rightarrow> do { n \<leftarrow> oscl_strlen cs; Some (PVMFSuccess, 1 + word_of_nat n + 1 + bom) } | _ \<Rightarrow> None)
      | PVMI_KVPVALTYPE_WCHARPTR \<Rightarrow> (case v of
          WCharValue cs \<Rightarrow> do { n \<leftarrow> oscl_strlen cs; Some (PVMFSuccess, 1 + (word_of_nat n + 1) * 4 + bom) } | _ \<Rightarrow> None)
      | PVMI_KVPVALTYPE_KSV \<Rightarrow> Some (PVMFSuccess, bom)
      | PVMI_KVPVALTYPE_UINT32 \<Rightarrow> (case v of
          Uint32Value n \<Rightarrow> Some (PVMFSuccess, if n = 0 then 0 else word_of_nat (digit_count (unat n)) + bom)
        | NoValue \<Rightarrow> Some (PVMFSuccess, 0)
        | _ \<Rightarrow> None)
      | _ \<Rightarrow> Some (PVMFErrNotSupported, 0))"

definition version_byte :: "id3_version \<Rightarrow> u8" where
  "version_byte v = (case v of PV_ID3_INVALID_VERSION \<Rightarrow> 255 | PV_ID3_V1 \<Rightarrow> 0 | PV_ID3_V1_1 \<Rightarrow> 1 | PV_ID3_V2_2 \<Rightarrow> 2
     | PV_ID3_V2_3 \<Rightarrow> 3 | PV_ID3_V2_4 \<Rightarrow> 4)"

definition charset_byte :: "id3_charset \<Rightarrow> u8" where
  "charset_byte c = (case c of PV_ID3_CHARSET_INVALID \<Rightarrow> 255 | PV_ID3_CHARSET_ISO88591 \<Rightarrow> 0 | PV_ID3_CHARSET_UTF16 \<Rightarrow> 1
     | PV_ID3_CHARSET_UTF16BE \<Rightarrow> 2 | PV_ID3_CHARSET_UTF8 \<Rightarrow> 3)"

text \<open>
  The bytes of an integer, most significant first, in the code for little-endian targets; the code for
  big-endian ones stores the integer as it is, on these targets least significant byte first.
\<close>

definition stored_u32 :: "byte_order \<Rightarrow> u32 \<Rightarrow> u8 list" where
  "stored_u32 bo n = (case bo of LITTLE_ENDIAN \<Rightarrow> [pBuf n 3, pBuf n 2, pBuf n 1, pBuf n 0]
     | BIG_ENDIAN \<Rightarrow> [pBuf n 0, pBuf n 1, pBuf n 2, pBuf n 3])"

definition wchar_bytes :: "u32 list \<Rightarrow> u8 list" where
  "wchar_bytes ws = concat (List.map (\<lambda>w. List.map (pBuf w) [0, 1, 2, 3]) ws)"

text \<open>\<open>oscl_snprintf\<close> with \<open>%d\<close> and room for \<open>count\<close> characters, the terminator included.\<close>

definition snprintf_d :: "u8 list \<Rightarrow> nat \<Rightarrow> nat \<Rightarrow> int \<Rightarrow> u8 list option" where
  "snprintf_d mem index count x = (if count = 0 then Some mem else wr_all mem index (take (count - 1) (printf_d x) @ [0]))"

text \<open>The value of a frame of \<open>frameDataSize\<close> bytes. A track length does not move the index.\<close>

definition compose_value ::
  "byte_order \<Rightarrow> kvp_value_type \<Rightarrow> id3_charset \<Rightarrow> u32 \<Rightarrow> kvp_value \<Rightarrow> u8 list \<Rightarrow> nat \<Rightarrow> (pvmf_status \<times> u8 list \<times> nat) option" where
  "compose_value bo t charSet frameDataSize v mem index =
     (case t of
        PVMI_KVPVALTYPE_CHARPTR \<Rightarrow> (case v of
          CharValue cs \<Rightarrow> do {
            mem \<leftarrow> wr_all mem index [charset_byte charSet];
            let n = unat (frameDataSize - 2);
            if length cs < n then None
            else do {
              mem \<leftarrow> wr_all mem (index + 1) (take n cs);
              mem \<leftarrow> wr_all mem (index + 1 + n) [0];
              Some (PVMFSuccess, mem, index + 1 + n + 1) } }
        | _ \<Rightarrow> None)
      | PVMI_KVPVALTYPE_WCHARPTR \<Rightarrow> (case v of
          WCharValue cs \<Rightarrow> do {
            mem \<leftarrow> wr_all mem index [charset_byte charSet];
            let bom = (if charSet = PV_ID3_CHARSET_UTF16
              then (case bo of LITTLE_ENDIAN \<Rightarrow> [255, 254] | BIG_ENDIAN \<Rightarrow> [254, 255]) else []);
            let n = unat (frameDataSize - 3 - word_of_nat (length bom));
            mem \<leftarrow> wr_all mem (index + 1) bom;
            if length (wchar_bytes cs) < n then None
            else do {
              mem \<leftarrow> wr_all mem (index + 1 + length bom) (take n (wchar_bytes cs));
              mem \<leftarrow> wr_all mem (index + 1 + length bom + n) [0, 0];
              Some (PVMFSuccess, mem, index + 1 + length bom + n + 2) } }
        | _ \<Rightarrow> None)
      | PVMI_KVPVALTYPE_UINT32 \<Rightarrow> do {
          n \<leftarrow> (case v of Uint32Value n \<Rightarrow> Some n | NoValue \<Rightarrow> Some 0 | _ \<Rightarrow> None);
          mem \<leftarrow> snprintf_d mem index (unat frameDataSize) (sint n);
          Some (PVMFSuccess, mem, index) }
      | PVMI_KVPVALTYPE_KSV \<Rightarrow> do {
          mem \<leftarrow> wr_all mem index [charset_byte charSet];
          Some (PVMFSuccess, mem, index + 1) }
      | _ \<Rightarrow> Some (PVMFErrNotSupported, mem, index))"

text \<open>The header of a frame behind its identifier: the size and the two flags.\<close>

definition frame_header_bytes :: "byte_order \<Rightarrow> id3_version \<Rightarrow> u32 \<Rightarrow> u8 list \<Rightarrow> nat \<Rightarrow> (u8 list \<times> nat) option" where
  "frame_header_bytes bo v n mem index =
     (if v = PV_ID3_V2_2 then do {
        mem \<leftarrow> wr_all mem index (case bo of LITTLE_ENDIAN \<Rightarrow> [pBuf n 2, pBuf n 1, pBuf n 0] | BIG_ENDIAN \<Rightarrow> stored_u32 bo n);
        Some (mem, index + 3)
      } else do {
        mem \<leftarrow> wr_all mem index (stored_u32 bo n @ [0, 0]);
        Some (mem, index + 6)
      })"

fun compose_frames ::
  "byte_order \<Rightarrow> id3_version \<Rightarrow> kvp list \<Rightarrow> u8 list \<Rightarrow> nat \<Rightarrow> (pvmf_status \<times> u8 list \<times> nat) option" where
  "compose_frames bo v [] mem index = Some (PVMFSuccess, mem, index)"
| "compose_frames bo v (k # ks) mem index = do {
     (_, r) \<leftarrow> GetFrameTypeFromKvp v k;
     case r of
       None \<Rightarrow> compose_frames bo v ks mem index
     | Some (frameID, frameType) \<Rightarrow>
         if frameType \<in> {PV_ID3_FRAME_LYRICS, PV_ID3_FRAME_APIC, PV_ID3_FRAME_PIC, PV_ID3_FRAME_COMMENT}
         then compose_frames bo v ks mem index
         else do {
           mem \<leftarrow> wr_all mem index frameID;
           let index = index + length frameID;
           (status, t, charSet) \<leftarrow> GetKvpValueType k;
           if status \<noteq> PVMFSuccess then Some (status, mem, index)
           else do {
             (status, frameDataSize) \<leftarrow> GetID3v2FrameDataSize (kvp_value k) t charSet;
             if status \<noteq> PVMFSuccess then Some (status, mem, index)
             else do {
               (mem, index) \<leftarrow> frame_header_bytes bo v frameDataSize mem index;
               (status, mem, index) \<leftarrow> compose_value bo t charSet frameDataSize (kvp_value k) mem index;
               if status \<noteq> PVMFSuccess then Some (status, mem, index) else compose_frames bo v ks mem index } } } }"

text \<open>
  The tag into the fragment \<open>aTag\<close>, a buffer and the length in use. The fragment is replaced by a new one when the
  length in use, not the capacity, is too small (the reference counter in front of a buffer takes 16 bytes).
\<close>

definition ComposeID3v2Tag ::
  "byte_order \<Rightarrow> (u32 \<Rightarrow> bool) \<Rightarrow> 'f id3 \<Rightarrow> u8 list \<times> u32 \<Rightarrow> (pvmf_status \<times> u8 list \<times> u32) exit option" where
  "ComposeID3v2Tag bo heap s aTag =
     (let n = GetID3TagSize s
      in if iFrames s = [] \<or> n = 0 \<or> iUseMaxTagSize s \<and> iMaxTagSize s < n then Some (Return (PVMFFailure, aTag))
         else let n = (if iUseMaxTagSize s \<and> iUsePadding s then iMaxTagSize s else n);
                  small = (snd aTag < n)
           in if small \<and> \<not> heap (16 + n) then Some Leave
              else do {
                let (mem, len) = (if small then (replicate (unat n) 0, 0) else aTag);
                mem \<leftarrow> wr_all mem 0 (replicate (unat n) 0);
                mem \<leftarrow> wr_all mem 0 (lit ''ID3'' @ [version_byte (iVersion s), 0, 0] @ stored_u32 bo (ConvertToSyncSafeInt (n - 10)));
                (status, mem, index) \<leftarrow> compose_frames bo (iVersion s) (iFrames s) mem 10;
                if status \<noteq> PVMFSuccess then Some (Return (status, mem, len))
                else if iUseMaxTagSize s \<and> iUsePadding s \<and> index < unat (iMaxTagSize s) then do {
                  mem \<leftarrow> wr_all mem index (replicate (unat (iMaxTagSize s) - index) 0);
                  Some (Return (PVMFSuccess, mem, iMaxTagSize s))
                } else Some (Return (PVMFSuccess, mem, word_of_nat index))
              })"

definition ComposeID3Tag ::
  "byte_order \<Rightarrow> (u32 \<Rightarrow> bool) \<Rightarrow> 'f id3 \<Rightarrow> u8 list \<times> u32 \<Rightarrow> (pvmf_status \<times> u8 list \<times> u32) exit option" where
  "ComposeID3Tag bo heap s aTag =
     (if iVersion s \<in> {PV_ID3_V2_2, PV_ID3_V2_3, PV_ID3_V2_4} then ComposeID3v2Tag bo heap s aTag
      else Some (Return (PVMFErrNotSupported, aTag)))"

section \<open>Composed text frames\<close>

lemma length_wr_all: "wr_all mem i a = Some mem' \<Longrightarrow> length mem' = length mem"
  by (auto simp: wr_all_def patch_def split: if_splits)

lemma wr_all_append: "wr_all mem i (a @ b) = do { mem \<leftarrow> wr_all mem i a; wr_all mem (i + length a) b }"
  by (auto simp: wr_all_def patch_def ac_simps)

lemma wr_all_Nil: "i \<le> length mem \<Longrightarrow> wr_all mem i [] = Some mem"
  by (simp add: wr_all_def patch_def)


text \<open>A frame as it is written: the recording time under the identifier of the year, and a terminator.\<close>

definition written :: "u8 list \<times> u8 list \<Rightarrow> u8 list \<times> u8 list" where
  "written = (\<lambda>(fid, text). (if fid = lit ''TDRC'' then lit ''TYER'' else fid, cstr text @ [0]))"

text \<open>The bytes of a composed frame: in the code for little-endian targets those of a text frame.\<close>

definition composed_frame :: "byte_order \<Rightarrow> u8 list \<times> u8 list \<Rightarrow> u8 list" where
  "composed_frame bo = (\<lambda>(fid, text). fid @ stored_u32 bo (word_of_nat (length text + 1)) @ [0, 0] @ [0] @ text)"

definition composed_frames :: "byte_order \<Rightarrow> (u8 list \<times> u8 list) list \<Rightarrow> u8 list" where
  "composed_frames bo fs = concat (List.map (composed_frame bo) fs)"

lemma composed_frames_simps [simp]:
  "composed_frames bo [] = []" "composed_frames bo (f # fs) = composed_frame bo f @ composed_frames bo fs"
  by (simp_all add: composed_frames_def)

lemma length_stored_u32 [simp]: "length (stored_u32 bo n) = 4"
  by (cases bo) (simp_all add: stored_u32_def)


lemma length_composed_frames [simp]: "length (composed_frames bo fs) = length (text_frames fs)"
  by (induction fs) (auto simp: composed_frame_def text_frame_def)

definition text_key :: "id3_frame \<Rightarrow> u8 list" where
  "text_key t = the (KVP_KEY t) @ lit '';valtype=char*''"

lemma text_frame_types: "list_all (\<lambda>(fid, t). is_text_frame t \<longrightarrow>
    first_key (text_key t) compose_ids =
      Some (Some (if fid = lit ''TDRC'' then lit ''TYER'' else fid, if t = PV_ID3_FRAME_RECORDING_TIME then PV_ID3_FRAME_YEAR else t)))
    id3_frame_ids"
  by code_simp

lemma text_frame_keys: "list_all (\<lambda>(fid, t). is_text_frame t \<longrightarrow>
    (\<exists>k. KVP_KEY t = Some k \<and> 0 \<notin> set k \<and> SEMICOLON \<notin> set k)) id3_frame_ids"
  by (simp add: id3_frame_ids_def KVP_KEY_def is_text_frame_def)

lemma cstr_append_0 [simp]: "cstr (cs @ 0 # r) = cstr cs"
  by (induction cs) (simp_all add: cstr_def)

lemma cstr_cstr [simp]: "cstr (cstr cs) = cstr cs"
  unfolding cstr_def takeWhile_eq_all_conv by (auto dest: set_takeWhileD)

text \<open>The type under which a text frame is written.\<close>

definition kind_of :: "u8 list \<times> u8 list \<Rightarrow> id3_frame" where
  "kind_of f = (let t = the (map_of id3_frame_ids (fst f)) in if t = PV_ID3_FRAME_RECORDING_TIME then PV_ID3_FRAME_YEAR else t)"

lemma text_kvp_kind:
  assumes "text_ok f"
  shows "GetFrameTypeFromKvp PV_ID3_V2_3 (text_kvp f) = Some (PVMFSuccess, Some (fst (written f), kind_of f))"
proof -
  obtain fid tx where f: "f = (fid, tx)" by (cases f)
  from assms obtain t where t: "map_of id3_frame_ids fid = Some t" "is_text_frame t" by (auto simp: f text_ok_def)
  then have "first_key (text_key t) compose_ids = Some (Some (fst (written f), kind_of f))"
    using text_frame_types map_of_SomeD [OF t(1)] by (auto simp: list_all_iff written_def f kind_of_def)
  then show ?thesis
    using t by (simp add: GetFrameTypeFromKvp_def text_kvp_def text_key_def f)
qed

lemma text_kvp_type:
  assumes "text_ok (fid, text)"
  shows "\<exists>t. GetFrameTypeFromKvp PV_ID3_V2_3 (text_kvp (fid, text)) = Some (PVMFSuccess, Some (fst (written (fid, text)), t)) \<and>
    t \<notin> {PV_ID3_FRAME_LYRICS, PV_ID3_FRAME_APIC, PV_ID3_FRAME_PIC, PV_ID3_FRAME_COMMENT}"
proof -
  from assms obtain t where t: "map_of id3_frame_ids fid = Some t" "is_text_frame t" by (auto simp: text_ok_def)
  then show ?thesis using text_kvp_kind [OF assms] by (auto simp: kind_of_def is_text_frame_def)
qed

lemma text_kvp_value_type:
  assumes "text_ok (fid, text)"
  shows "GetKvpValueType (text_kvp (fid, text)) = Some (PVMFSuccess, PVMI_KVPVALTYPE_CHARPTR, PV_ID3_CHARSET_ISO88591)"
proof -
  from assms obtain t where t: "map_of id3_frame_ids fid = Some t" "is_text_frame t" by (auto simp: text_ok_def)
  then obtain k where k: "KVP_KEY t = Some k" "0 \<notin> set k" "SEMICOLON \<notin> set k"
    using text_frame_keys map_of_SomeD [OF t(1)] by (auto simp: list_all_iff)
  let ?body = "lit ''valtype=char*''"
  have key: "kvp_key (text_kvp (fid, text)) = k @ SEMICOLON # ?body" "k @ SEMICOLON # ?body = key_string k (lit ''char*'') None"
    using t(1) k(1) by (simp_all add: text_kvp_def key_string_def)
  have ty: "GetValTypeFromKeyString (Some ((k @ SEMICOLON # ?body) @ [0])) = Some PVMI_KVPVALTYPE_CHARPTR"
    using value_type_of_key [OF k(2,3), of "lit ''char*''" None "[]"] unfolding key(2)
    by (simp add: created_types_def misc_ok_def kvp_value_types_def oscl_tolower_def word_le_nat_alt)
  have ps: "params ?body = [?body]" by (rule params_last) simp
  have clean: "{0, QUOTE} \<inter> set ?body = {}" "0 \<notin> set (lit ''char-encoding=UTF8'')" "lit ''char-encoding=UTF8'' \<noteq> []"
    by simp_all
  obtain p n where enc: "pv_mime_string_parse_param (Some (k @ SEMICOLON # ?body @ 0 # [])) (lit ''char-encoding=UTF8'' @ [0]) = Some (p, n)"
    "0 < n \<longleftrightarrow> lower (lit ''char-encoding=UTF8'') \<in> lower ` set (params ?body)"
    using parse_param_finds [OF k(2,3) clean, of "[]"] by (elim exE conjE)
  have "n = 0" using enc(2) unfolding ps by (simp add: oscl_tolower_def word_le_nat_alt)
  then show ?thesis
    unfolding GetKvpValueType_def Let_def key(1) using ty enc(1) by simp
qed

lemma text_kvp_key:
  assumes "text_ok f"
  shows "GetValTypeFromKeyString (Some (kvp_key (text_kvp f) @ [0])) = Some PVMI_KVPVALTYPE_CHARPTR" "length (kvp_key (text_kvp f)) < 128"
proof -
  obtain fid tx where f: "f = (fid, tx)" by (cases f)
  show "GetValTypeFromKeyString (Some (kvp_key (text_kvp f) @ [0])) = Some PVMI_KVPVALTYPE_CHARPTR"
    using text_kvp_value_type [of fid tx] assms
    by (auto simp: f GetKvpValueType_def Let_def split: bind_splits kvp_value_type.splits)
  from assms obtain t where t: "map_of id3_frame_ids fid = Some t" "is_text_frame t" by (auto simp: f text_ok_def)
  then show "length (kvp_key (text_kvp f)) < 128"
    using frame_ids_facts map_of_SomeD [OF t(1)] by (auto simp: list_all_iff text_kvp_def f)
qed

text \<open>The frames without the first one of a type.\<close>

fun remove_kind :: "id3_frame \<Rightarrow> (u8 list \<times> u8 list) list \<Rightarrow> (u8 list \<times> u8 list) list" where
  "remove_kind t [] = []"
| "remove_kind t (f # fs) = (if kind_of f = t then fs else f # remove_kind t fs)"

lemma find_text_frame:
  assumes "list_all text_ok fs"
  shows "\<exists>r. find_frame PV_ID3_V2_3 t i (List.map text_kvp fs) = Some (Inr r) \<and>
    (case r of None \<Rightarrow> remove_kind t fs = fs | Some j \<Rightarrow> i \<le> j \<and> remove_kind t fs = take (j - i) fs @ drop (j - i + 1) fs)"
  using assms
proof (induction fs arbitrary: i)
  case (Cons f fs)
  show ?case
  proof (cases "kind_of f = t")
    case True
    then show ?thesis using Cons.prems by (intro exI [of _ "Some i"]) (simp add: text_kvp_kind)
  next
    case False
    obtain r where r: "find_frame PV_ID3_V2_3 t (i + 1) (List.map text_kvp fs) = Some (Inr r)"
      "case r of None \<Rightarrow> remove_kind t fs = fs | Some j \<Rightarrow> i + 1 \<le> j \<and> remove_kind t fs = take (j - (i + 1)) fs @ drop (j - (i + 1) + 1) fs"
      using Cons.IH [of "i + 1"] Cons.prems by auto
    have "j - i = Suc (j - Suc i)" if "Suc i \<le> j" for j using that by simp
    then show ?thesis using False r Cons.prems by (intro exI [of _ r]) (auto simp: text_kvp_kind split: option.splits)
  qed
qed simp

lemma copy_text_pair:
  assumes "text_ok f" "length (snd f) < 268435456"
  shows "copy_pair (\<lambda>_. True) (take 128 (kvp_key (text_kvp f))) PVMI_KVPVALTYPE_CHARPTR (kvp_value (text_kvp f)) =
      Some (Inr (text_kvp (fst f, cstr (snd f))))"
    and "copy_pair (\<lambda>_. False) key PVMI_KVPVALTYPE_CHARPTR (kvp_value (text_kvp f)) = Some (Inl PVMFErrNoMemory)"
proof -
  obtain fid tx where f: "f = (fid, tx)" by (cases f)
  define n where "n = length (cstr tx)"
  have le: "n \<le> length tx" unfolding n_def cstr_def by (rule length_takeWhile_le)
  have v: "kvp_value (text_kvp f) = CharValue (tx @ [0])" by (simp add: f text_kvp_def)
  have len: "oscl_strlen (tx @ [0]) = Some n" by (simp add: cstr_end(1) n_def)
  have tk: "take n tx = cstr tx" "n - length tx = 0" using le by (simp_all add: n_def cstr_def takeWhile_eq_take [symmetric])
  show "copy_pair (\<lambda>_. False) key PVMI_KVPVALTYPE_CHARPTR (kvp_value (text_kvp f)) = Some (Inl PVMFErrNoMemory)"
    unfolding copy_pair_def v by (simp add: len AllocateKvp_def)
  have w: "unat (word_of_nat n + 1 :: u32) = n + 1" using assms(2) le f by (simp add: unat_word_ariths unat_of_nat_small)
  show "copy_pair (\<lambda>_. True) (take 128 (kvp_key (text_kvp f))) PVMI_KVPVALTYPE_CHARPTR (kvp_value (text_kvp f)) =
      Some (Inr (text_kvp (fst f, cstr (snd f))))"
  proof -
    let ?key = "kvp_key (text_kvp f)"
    have alloc: "AllocateKvp (\<lambda>_. True) ?key CharKind (word_of_nat n + 1) False =
        Some (\<lparr>kvp_key = ?key, kvp_value = CharValue (replicate (n + 1) 0), kvp_length = int (n + 1), kvp_capacity = word_of_nat n + 1\<rparr>, False)"
      using AllocateKvp_ok [of "\<lambda>_. True" ?key "word_of_nat n + 1" CharKind] text_kvp_key(2) [OF assms(1)] assms(2) le f by (simp add: w)
    have "wr_all (replicate (n + 1) 0) 0 (cstr tx @ [0]) = Some (cstr tx @ [0])" by (simp add: wr_all_def patch_def n_def)
    moreover have "take 128 ?key = ?key" using text_kvp_key(2) [OF assms(1)] by simp
    ultimately show ?thesis
      unfolding copy_pair_def v kvp_value_type.case kvp_value.case len bind.bind_lunit option.case prod.case
      by (simp add: alloc len tk) (simp add: f text_kvp_def n_def ac_simps)
  qed
qed

lemma compose_value_text:
  assumes "length text < 268435456"
  shows "compose_value bo PVMI_KVPVALTYPE_CHARPTR PV_ID3_CHARSET_ISO88591 (1 + word_of_nat (length (cstr text)) + 1 + 0)
      (CharValue (text @ [0])) mem index =
    do { mem \<leftarrow> wr_all mem index ([0] @ cstr text @ [0]); Some (PVMFSuccess, mem, index + length (cstr text) + 2) }"
proof -
  have le: "length (cstr text) \<le> length text" unfolding cstr_def by (rule length_takeWhile_le)
  have n: "unat (1 + word_of_nat (length (cstr text)) + 1 + 0 - 2 :: u32) = length (cstr text)"
    using assms le by (simp add: unat_of_nat_small)
  have tk: "take (length (cstr text)) (text @ [0]) = cstr text"
    using le by (simp add: cstr_def takeWhile_eq_take [symmetric])
  show ?thesis
    unfolding compose_value_def kvp_value_type.case kvp_value.case n tk Let_def wr_all_append charset_byte_def
    using le by (auto simp: ac_simps split: bind_splits)
qed

lemma compose_text_frame:
  assumes "text_ok (fid, text)" "length text < 268435456"
  shows "compose_frames bo PV_ID3_V2_3 (text_kvp (fid, text) # ks) mem index = do {
      mem \<leftarrow> wr_all mem index (composed_frame bo (written (fid, text)));
      compose_frames bo PV_ID3_V2_3 ks mem (index + length (composed_frame bo (written (fid, text)))) }"
proof -
  obtain t where t: "GetFrameTypeFromKvp PV_ID3_V2_3 (text_kvp (fid, text)) = Some (PVMFSuccess, Some (fst (written (fid, text)), t))"
    "t \<notin> {PV_ID3_FRAME_LYRICS, PV_ID3_FRAME_APIC, PV_ID3_FRAME_PIC, PV_ID3_FRAME_COMMENT}"
    using text_kvp_type [OF assms(1)] by blast
  define n where "n = length (cstr text)"
  define w :: u32 where "w = 1 + word_of_nat n + 1 + 0"
  define f where "f = fst (written (fid, text))"
  define h where "h = stored_u32 bo w @ [0, 0]"
  have v: "kvp_value (text_kvp (fid, text)) = CharValue (text @ [0])" by (simp add: text_kvp_def)
  have data: "GetID3v2FrameDataSize (CharValue (text @ [0])) PVMI_KVPVALTYPE_CHARPTR PV_ID3_CHARSET_ISO88591 = Some (PVMFSuccess, w)"
    by (simp add: GetID3v2FrameDataSize_def cstr_end(1) w_def n_def)
  have w: "word_of_nat (length (cstr text @ [0]) + 1) = w" by (simp add: w_def n_def)
  have frame: "composed_frame bo (written (fid, text)) = f @ h @ ([0] @ cstr text @ [0])"
    using w by (simp add: composed_frame_def written_def f_def h_def del: of_nat_add)
  have head: "frame_header_bytes bo PV_ID3_V2_3 w mem index = do { mem \<leftarrow> wr_all mem index h; Some (mem, index + 6) }" for mem index
    by (simp add: frame_header_bytes_def h_def)
  have len: "length (composed_frame bo (written (fid, text))) = length f + 6 + n + 2" "length h = 6" by (simp_all add: frame n_def h_def)
  note value_step = compose_value_text [OF assms(2), of bo, folded n_def, folded w_def]
  show ?thesis
    unfolding compose_frames.simps t(1) bind.bind_lunit prod.case option.case if_not_P [OF t(2)] f_def [symmetric] Let_def
      text_kvp_value_type [OF assms(1)] v data head len(1)
    unfolding frame wr_all_append [of _ _ f] wr_all_append [of _ _ h] value_step
    by (auto simp: ac_simps len(2) split: bind_splits)
qed

lemma compose_text_frames:
  assumes "list_all text_ok fs" "list_all (\<lambda>f. length (snd f) < 268435456) fs" "index \<le> length mem"
  shows "compose_frames bo PV_ID3_V2_3 (List.map text_kvp fs) mem index = do {
      mem \<leftarrow> wr_all mem index (composed_frames bo (List.map written fs));
      Some (PVMFSuccess, mem, index + length (text_frames (List.map written fs))) }"
  using assms
proof (induction fs arbitrary: mem index)
  case Nil
  then show ?case by (simp add: wr_all_Nil)
next
  case (Cons f fs)
  obtain fid tx where f: "f = (fid, tx)" by (cases f)
  let ?w = "composed_frame bo (written (fid, tx))"
  have len: "length ?w = length (text_frame (written (fid, tx)))" using length_composed_frames [of bo "[written (fid, tx)]"] by simp
  have step: "compose_frames bo PV_ID3_V2_3 (List.map text_kvp fs) mem' (index + length ?w) = do {
      mem \<leftarrow> wr_all mem' (index + length ?w) (composed_frames bo (List.map written fs));
      Some (PVMFSuccess, mem, index + length ?w + length (text_frames (List.map written fs))) }"
    if "wr_all mem index ?w = Some mem'" for mem'
    by (rule Cons.IH) (use Cons.prems that in \<open>auto simp: wr_all_def patch_def split: if_splits\<close>)
  have "compose_frames bo PV_ID3_V2_3 (List.map text_kvp (f # fs)) mem index = do {
      mem' \<leftarrow> wr_all mem index ?w; compose_frames bo PV_ID3_V2_3 (List.map text_kvp fs) mem' (index + length ?w) }"
    using compose_text_frame [of fid tx bo "List.map text_kvp fs" mem index] Cons.prems f by simp
  then show ?case
    by (cases "wr_all mem index ?w") (simp_all add: f step [unfolded len] wr_all_append len add.assoc del: compose_frames.simps)
qed

text \<open>The composed bytes: header and frames into a fragment, filled up with zeros.\<close>

lemma compose_text_tag:
  assumes "iVersion s = PV_ID3_V2_3" "iFrames s = List.map text_kvp fs" "fs \<noteq> []" "list_all text_ok fs"
    and "list_all (\<lambda>f. length (snd f) < 268435456) fs" "GetID3TagSize s \<noteq> 0" "iUseMaxTagSize s \<longrightarrow> GetID3TagSize s \<le> iMaxTagSize s"
    and "n = (if iUseMaxTagSize s \<and> iUsePadding s then iMaxTagSize s else GetID3TagSize s)" "heap (16 + n)"
    and "ws = composed_frames bo (List.map written fs)"
    and "h = lit ''ID3'' @ [3, 0, 0] @ stored_u32 bo (ConvertToSyncSafeInt (n - 10))"
  shows "ComposeID3Tag bo heap s aTag =
    (let (mem, len) = (if snd aTag < n then (replicate (unat n) 0, 0) else aTag)
     in do {
       mem \<leftarrow> wr_all mem 0 (replicate (unat n) 0);
       mem \<leftarrow> wr_all mem 0 (h @ ws);
       if iUseMaxTagSize s \<and> iUsePadding s \<and> 10 + length ws < unat n then do {
         mem \<leftarrow> wr_all mem (10 + length ws) (replicate (unat n - (10 + length ws)) 0);
         Some (Return (PVMFSuccess, mem, n))
       } else Some (Return (PVMFSuccess, mem, word_of_nat (10 + length ws))) })"
proof -
  have h: "length h = 10" by (simp add: assms(11))
  have start: "\<not> (iFrames s = [] \<or> GetID3TagSize s = 0 \<or> iUseMaxTagSize s \<and> iMaxTagSize s < GetID3TagSize s)"
    using assms(2,3,6,7) by auto
  have go: "do { mem \<leftarrow> wr_all mem 0 h;
        (status, mem, index) \<leftarrow> compose_frames bo PV_ID3_V2_3 (List.map text_kvp fs) mem 10; f status mem index } =
      do { mem \<leftarrow> wr_all mem 0 (h @ ws); f PVMFSuccess mem (10 + length ws) }" for mem and f :: "pvmf_status \<Rightarrow> u8 list \<Rightarrow> nat \<Rightarrow> 'z option"
  proof (cases "wr_all mem 0 h")
    case (Some mem')
    then have "10 \<le> length mem'" using h by (auto simp: wr_all_def patch_def split: if_splits)
    then show ?thesis using Some compose_text_frames [OF assms(4,5), of 10 mem' bo] h
      by (simp add: assms(10) wr_all_append)
  qed (simp add: wr_all_append)
  have head: "lit ''ID3'' @ [version_byte (iVersion s), 0, 0] @ stored_u32 bo (ConvertToSyncSafeInt (n - 10)) = h"
    by (simp add: assms(1,11) version_byte_def)
  have v: "iVersion s \<in> {PV_ID3_V2_2, PV_ID3_V2_3, PV_ID3_V2_4}" by (simp add: assms(1))
  have room: "\<not> (c \<and> \<not> heap (16 + n))" for c using assms(9) by simp
  show ?thesis
    unfolding ComposeID3Tag_def if_P [OF v] ComposeID3v2Tag_def Let_def if_not_P [OF start] assms(8) [symmetric] if_not_P [OF room] head
    unfolding assms(1,2) go using assms(8)
    by (cases "snd aTag < n"; cases aTag; cases "iUseMaxTagSize s"; cases "iUsePadding s") (simp_all cong: if_cong)
qed






text \<open>
  Setting a text frame: it replaces the first one of its type and comes last, its string cut at the first zero.
  Without memory for it the old one is gone all the same.
\<close>

lemma set_text_frame:
  assumes "iVersion s = PV_ID3_V2_3" "iFrames s = List.map text_kvp fs" "list_all text_ok (f # fs)" "length (snd f) < 268435456"
  shows "SetID3Frame (\<lambda>_. True) (text_kvp f) s =
      Some (PVMFSuccess, s\<lparr>iFrames := List.map text_kvp (remove_kind (kind_of f) fs @ [(fst f, cstr (snd f))])\<rparr>)"
    and "SetID3Frame (\<lambda>_. False) (text_kvp f) s = Some (PVMFErrNoMemory, s\<lparr>iFrames := List.map text_kvp (remove_kind (kind_of f) fs)\<rparr>)"
proof -
  have f: "text_ok f" and fs: "list_all text_ok fs" using assms(3) by simp_all
  obtain r where r: "find_frame PV_ID3_V2_3 (kind_of f) 0 (List.map text_kvp fs) = Some (Inr r)"
    "case r of None \<Rightarrow> remove_kind (kind_of f) fs = fs | Some j \<Rightarrow> remove_kind (kind_of f) fs = take j fs @ drop (j + 1) fs"
    using find_text_frame [OF fs, of "kind_of f" 0] by (auto split: option.splits)
  have erased: "(case r of Some i \<Rightarrow> s\<lparr>iFrames := take i (iFrames s) @ drop (i + 1) (iFrames s)\<rparr> | None \<Rightarrow> s) =
      s\<lparr>iFrames := List.map text_kvp (remove_kind (kind_of f) fs)\<rparr>"
    using r(2) assms(2) by (auto simp: take_map drop_map split: option.splits)
  note step = SetID3Frame_def assms(1) text_kvp_kind [OF f] assms(2) r(1) text_kvp_key(1) [OF f]
  show "SetID3Frame (\<lambda>_. True) (text_kvp f) s =
      Some (PVMFSuccess, s\<lparr>iFrames := List.map text_kvp (remove_kind (kind_of f) fs @ [(fst f, cstr (snd f))])\<rparr>)"
    using erased unfolding step by (simp add: r(1) Let_def copy_text_pair(1) [OF f assms(4)] push_frame_def assms(2))
  show "SetID3Frame (\<lambda>_. False) (text_kvp f) s = Some (PVMFErrNoMemory, s\<lparr>iFrames := List.map text_kvp (remove_kind (kind_of f) fs)\<rparr>)"
    using erased unfolding step by (simp add: r(1) Let_def copy_text_pair(2) [OF f assms(4)] assms(2))
qed

section \<open>Properties\<close>


text \<open>
  C40. Without a maximum size the buffer is made for the tag that was parsed last, not for the frames that there are
  now: with text frames of version 2.3 that do not fit into that, \<open>ComposeID3Tag\<close> writes behind the
  buffer of a fragment that it made new, or that has no more room than that, in both byte orders. So it is for every tag composed from scratch, where the size is that of the header.
\<close>

theorem compose_overflows:
  assumes "iVersion s = PV_ID3_V2_3" "iFrames s = List.map text_kvp fs" "fs \<noteq> []" "list_all text_ok fs"
    and "list_all (\<lambda>f. length (snd f) < 2 ^ 28) fs" "GetID3TagSize s \<noteq> 0" "\<not> iUseMaxTagSize s"
    and "length (fst aTag) \<le> unat (GetID3TagSize s) \<or> snd aTag < GetID3TagSize s"
    and "unat (GetID3TagSize s) < 10 + length (text_frames (List.map written fs))"
  shows "ComposeID3Tag bo (\<lambda>_. True) s aTag = None"
proof -
  let ?n = "unat (GetID3TagSize s)" and ?ws = "composed_frames bo (List.map written fs)"
  let ?h = "lit ''ID3'' @ [3, 0, 0] @ stored_u32 bo (ConvertToSyncSafeInt (GetID3TagSize s - 10))"
  have fs5: "list_all (\<lambda>f. length (snd f) < 268435456) fs" using assms(5) by simp
  have over: "wr_all mem 0 (?h @ ?ws) = None" if "length mem = ?n" for mem
    using assms(9) that by (simp add: wr_all_def)
  have keep: "length mem' = ?n" if "wr_all mem 0 (replicate ?n 0) = Some mem'" "length mem \<le> ?n" for mem mem'
    using that length_wr_all [OF that(1)] by (simp add: wr_all_def split: if_splits)
  have none: "do { mem \<leftarrow> wr_all mem 0 (replicate ?n 0); mem \<leftarrow> wr_all mem 0 (?h @ ?ws); k mem } = None" if "length mem \<le> ?n"
    for mem and k :: "u8 list \<Rightarrow> (pvmf_status \<times> u8 list \<times> u32) exit option"
    using keep [OF _ that] over by (cases "wr_all mem 0 (replicate ?n 0)") (simp_all del: append_assoc append_Cons append.simps)
  have "ComposeID3Tag bo (\<lambda>_. True) s aTag =
    (let (mem, len) = (if snd aTag < GetID3TagSize s then (replicate ?n 0, 0) else aTag)
     in do { mem \<leftarrow> wr_all mem 0 (replicate ?n 0); mem \<leftarrow> wr_all mem 0 (?h @ ?ws);
       Some (Return (PVMFSuccess, mem, word_of_nat (10 + length ?ws))) })"
    using compose_text_tag [OF assms(1-4) fs5 assms(6) _ _ _ refl refl, of "GetID3TagSize s" "\<lambda>_. True" bo aTag] assms(7) by simp
  then show ?thesis
    using none [of "fst aTag"] none [of "replicate ?n 0"] assms(8)
    by (cases "snd aTag < GetID3TagSize s"; cases aTag) (simp_all split: prod.splits del: append_assoc append_Cons append.simps)
qed

text \<open>A parser that was given two frames.\<close>

definition demo_frames :: "(u8 list \<times> u8 list) list" where
  "demo_frames = [(lit ''TIT2'', lit ''Song''), (lit ''TDRC'', lit ''2010'')]"

definition demo_parser :: "file_cache id3" where
  "demo_parser = (PVID3ParCom (pv_open [] []) PV_ID3_CHARSET_ISO88591 [] [] 0)\<lparr>iVersion := PV_ID3_V2_3, iFrames := List.map text_kvp demo_frames\<rparr>"

lemma demo_frames_ok:
  "list_all text_ok demo_frames" "list_all (\<lambda>f. length (snd f) < 2 ^ 28) demo_frames" "demo_frames \<noteq> []"
  by (simp_all add: demo_frames_def text_ok_def id3_frame_ids_def is_text_frame_def)

lemma demo_written: "List.map written demo_frames = [(lit ''TIT2'', lit ''Song'' @ [0]), (lit ''TYER'', lit ''2010'' @ [0])]"
  by (simp add: demo_frames_def written_def cstr_def)

lemma demo_parser_fields:
  "iVersion demo_parser = PV_ID3_V2_3" "iFrames demo_parser = List.map text_kvp demo_frames" "GetID3TagSize demo_parser = 10"
  "\<not> iUseMaxTagSize demo_parser"
  by (simp_all add: demo_parser_def PVID3ParCom_def GetID3TagSize_def)


theorem compose_overflows_witness:
  "ComposeID3Tag repository_byte_order (\<lambda>_. True) demo_parser ([], 0) = None \<and>
   ComposeID3Tag LITTLE_ENDIAN (\<lambda>_. True) demo_parser ([], 0) = None"
proof -
  have "length (text_frames (List.map written demo_frames)) = 32" by (simp add: demo_written text_frame_def)
  then show ?thesis
    using demo_parser_fields demo_frames_ok by (intro conjI compose_overflows [OF demo_parser_fields(1,2) demo_frames_ok(3,1,2)]) simp_all
qed

end
