(* ===== verification/Spec2Isabelle.thy ===== *)
theory Spec2Isabelle
  imports Utf8Conv IconvFaults Mp3Crc Mp3Vbr Mp3Parse Scanner Id3Compose
begin

text \<open>
  FoodieNote is an Android application; its core in C and C++ is the native media scanner under
  \<open>src/listener/src/main/jni\<close>. The scanner walks over the files of a directory, opens each through a
  cached file layer, finds the audio frames and tags of MP3 files, and converts the text it reads
  from legacy character sets. This library models that code and proves it correct, or shows where
  it is not.

  \<^bold>\<open>Conventions.\<close> Bytes and characters are words of their width; the integers of the parsers, which mix
  \<open>int32\<close> and \<open>uint32\<close>, are \<open>int\<close>s with every conversion written out (\<open>CInt\<close>); a \<open>float\<close> is the rational
  number it stands for, rounded after every operation (\<open>CFloat\<close>). A memory object is a list; a read or
  store outside it, a division by zero, an undefined shift or conversion is the value \<open>None\<close>, so
  that \<open>f x \<noteq> None\<close> says that the code has no undefined behaviour on \<open>x\<close>. Error codes are the
  constructors of the code's enums. \<open>FN_Prelude\<close> holds the types, the reads and writes inside a list
  and the lemmas on words that all parts share.

  \<^bold>\<open>Text.\<close> \<open>Utf8Conv\<close>: \<open>oscl_UnicodeToUTF8\<close> and \<open>oscl_UTF8ToUnicode\<close> (\<open>oscl_config/oscl_utf8conv.cpp\<close>),
  safety, room needed and round trip. \<open>Charmaps\<close>, \<open>Gb18030\<close>, \<open>Big5\<close>, \<open>Ksc\<close>, \<open>Jis0208\<close>, \<open>Hkscs\<close>: the
  tables of \<open>iconv/*.h\<close>. \<open>IconvOpen\<close>: name lookup and \<open>iconv_open\<close> of \<open>iconv/iconv.c\<close>. \<open>IconvCodec\<close>,
  \<open>RankLoop\<close>, \<open>Utf8Codec\<close>, \<open>TableScan\<close>, \<open>CodePage\<close>: the decoders and encoders of single characters and
  what they are inverse to. \<open>IconvDecode\<close> and \<open>Iconv\<close>: the conversion loop. \<open>IconvSafe\<close>: it stays in its
  buffers for all safe pairs of character sets; \<open>IconvRefine\<close>: it implements decoding the input and
  encoding each code point; \<open>IconvFaults\<close>: the inputs for which it does not.

  \<^bold>\<open>Files.\<close> \<open>FileCache\<close>: \<open>OsclFileCache\<close> (\<open>oscl_config/oscl_file_cache.cpp\<close>) over a native file;
  \<open>FileCacheOk\<close>: its invariant and what each operation does to the bytes the file shows;
  \<open>FileCacheRefine\<close>: any run of operations acts as on a plain byte array. \<open>PvFile\<close>: \<open>PVFile\<close>,
  \<open>MP3Utils\<close> and \<open>MP3FileIO\<close> (\<open>pvmi/pvfile.cpp\<close>, \<open>mp3utils.cpp\<close>, \<open>mp3fileio.cpp\<close>) over any file that
  satisfies the locale \<open>byte_file\<close>, which is interpreted on the cache (\<open>cached\<close>); the lemmas of the
  parsers are proved in that locale and the properties are its instances.

  \<^bold>\<open>Strings.\<close> \<open>OsclString\<close>: the string functions of \<open>oscl_config/oscl_stdstring.cpp\<close> and
  \<open>oscl_string_utils.cpp\<close>; \<open>Utf8Valid\<close>: the UTF-8 check of \<open>oscl_string_utf8.cpp\<close> and the strings it accepts.

  \<^bold>\<open>MP3.\<close> \<open>pvmi/mp3parser.cpp\<close>: \<open>Mp3Header\<close>, the frame header and its tables; \<open>Mp3Crc\<close>, the CRC;
  \<open>Mp3Sync\<close>, \<open>IsValidFrameHeader\<close> and the search \<open>mp3FindSync\<close>; \<open>Mp3Vbr\<close>, the XING and VBRI headers and
  the sizes announced to the decoder; \<open>Mp3State\<close>, the parser's state, its averages, durations and
  timestamps; \<open>Mp3Sample\<close>, the delivery of frames; \<open>Mp3Toc\<close>, \<open>ScanMP3File\<close> with its table of contents, which
  \<open>FillTOCTable\<close> compacts; \<open>Mp3Seek\<close>, \<open>GetDuration\<close> with the random scan and \<open>SeekToTimestamp\<close> with its four
  ways to a seek point; \<open>Mp3Parse\<close>, \<open>ParseMP3File\<close> and \<open>IsMp3File\<close>. The last one joins the parts: opening a tagged
  file gives the texts of the tag, and the first sample is the first frame. The code reads 32-bit words in the byte
  order it is compiled for (\<open>byte_order\<close>); the repository sets it to big endian (\<open>repository_byte_order\<close>) although every
  target is little endian, so definitions that depend on it take it as an argument, and the properties say
  for which order they hold: most for both, and those on whole files say what becomes of them in the repository's order.

  \<^bold>\<open>ID3.\<close> \<open>pvmi/pv_id3_parcom.cpp\<close>: \<open>Id3Base\<close>, the state of \<open>PVID3ParCom\<close>, its integers, characters, frame
  identifiers and key-value pairs; \<open>Id3Frames\<close>, the readers of each kind of frame; \<open>Id3Tag\<close>, finding the tags,
  headers, the loop over the frames, version 1 and the entry points; \<open>Id3Parse\<close>, what \<open>ParseID3Tag\<close> does on
  files: it finds the texts of a tag of version 2.3, for both byte orders as long as the size it reads
  covers the frames, and it does not return on a file whose tags refer to each other. \<open>Mime\<close>: the MIME strings that the keys are (\<open>pvmi/pv_mime_string_utils.cpp\<close>), how two of them compare
  and where the functions leave their arrays; \<open>KvpUtil\<close>: making pairs and reading the types that their keys name
  (\<open>pvmi/pvmi_kvp_util.cpp\<close>); \<open>Id3Lookup\<close>: \<open>GetID3Frame\<close>, \<open>IsID3FrameAvailable\<close> and \<open>RemoveID3Frame\<close>;
  \<open>Id3Compose\<close>: \<open>SetID3Frame\<close> and \<open>ComposeID3Tag\<close>, the exact bytes they write for text frames, the way back through
  \<open>ParseID3Tag\<close>, and the frames that do not fit the buffer.

  \<^bold>\<open>Scanner.\<close> \<open>Scanner\<close>: \<open>ChangeCode\<close> and the tags in \<open>parseMP3\<close> (\<open>mediascanner.cpp\<close>), with the callback of
  \<open>jni_main.cpp\<close>. Its properties join the parts: cached file, ID3 parser, lookup of character sets, conversion
  from GBK and callback, from the bytes of a file to the tags that the Java side receives.

  \<^bold>\<open>Bounds and fuel.\<close> Loops of the code are functions with a termination proof, or \<open>partial_function\<close>. Two
  jumps backwards have fuel, a number of passes, because they need not end: \<open>goto BEGIN\<close> of
  \<open>GetNextMediaSample\<close> and \<open>goto BEGIN_V2\<close> of \<open>ReadHeaderID3V2\<close>. One pass is enough for the files of the
  properties that say what is found; for the others no number of passes is enough, which is a property too.

  \<^bold>\<open>Not modelled.\<close> Of the files: a flush of the native file that fails, and the leave of \<open>Oscl_File::Read\<close> when it is
  asked for no bytes (the model reads nothing). The file factory \<open>imp3ff.cpp\<close>, which
  forwards to the parser, and of the scanner the opening by file name and the duration, which is not
  reported. Failed allocations, except where the code tests for them in the middle of its work. Left out
  for good: threads, semaphores and thread-local storage, the scheduler and active objects, logging, the
  memory audit and allocators, the Java virtual machine, printf-style formatting, and the Java code.
\<close>

end
